(* ===== verification/PerPay_Prelude.thy ===== *)
theory PerPay_Prelude
  imports Main "HOL-Library.List_Lexorder" "HOL-Library.Char_ord" "HOL-Library.Product_Lexorder"
begin

text \<open>
  Shared vocabulary of the development.  The stores of PerPay run every operation as one
  SQLite transaction: the callback reads and writes rows and either returns or throws, and a
  throw rolls the rows back.  An operation is therefore a function from the rows to
  \<open>store_error + result \<times> rows\<close>, \<open>Inl\<close> for a throw, and \<^theory_text>\<open>dbWrite\<close> (of
  \<^verbatim>\<open>AppDatabase.write\<close>) turns it into a total step on the rows.

  Also here: JavaScript's safe integers, the two SQL primitives the stores use on their row
  lists (\<open>UPDATE ... WHERE\<close> with a changed-rows count), the locale of a step function with an
  invariant, and the locale of a persisted logical clock.
\<close>

named_theorems result_simps \<open>how a bound result can succeed or fail\<close>

subsection \<open>Errors as values\<close>

datatype store_error =
    Failure string
  | RangeFailure string
  | OrderClockFailure
  | SiteFailure string "int option"
  | CallbackFailure string
  | SqlAbort string
  | ReconciliationFailure string
  | AdminOperationFailure nat string

fun bindR :: "'e + 'a \<Rightarrow> ('a \<Rightarrow> 'e + 'b) \<Rightarrow> 'e + 'b" where
  "bindR (Inl e) f = Inl e"
| "bindR (Inr x) f = f x"

definition assertR :: "bool \<Rightarrow> 'e \<Rightarrow> 'e + unit" where
  "assertR b e = (if b then Inr () else Inl e)"

lemma bindR_Inr_iff [result_simps]:
  "bindR m f = Inr y \<longleftrightarrow> (\<exists>x. m = Inr x \<and> f x = Inr y)"
  by (cases m) auto

lemma bindR_Inl_iff:
  "bindR m f = Inl e \<longleftrightarrow> m = Inl e \<or> (\<exists>x. m = Inr x \<and> f x = Inl e)"
  by (cases m) auto

lemma assertR_Inr_iff [result_simps]: "assertR b e = Inr u \<longleftrightarrow> b"
  by (simp add: assertR_def)

lemma assertR_Inl_iff: "assertR b e = Inl e' \<longleftrightarrow> \<not> b \<and> e' = e"
  by (auto simp: assertR_def)

lemma assertR_simps [simp]: "assertR True e = Inr ()" "assertR False e = Inl e"
  by (simp_all add: assertR_def)

lemma bindR_assoc: "bindR (bindR m f) g = bindR m (\<lambda>x. bindR (f x) g)"
  by (cases m) auto

lemma bindR_cong [fundef_cong]:
  "m = m' \<Longrightarrow> (\<And>x. m' = Inr x \<Longrightarrow> f x = f' x) \<Longrightarrow> bindR m f = bindR m' f'"
  by (cases m') auto

text \<open>A transaction: the callback's throw leaves the rows as they were.\<close>

definition dbWrite :: "('s \<Rightarrow> 'e + 'a \<times> 's) \<Rightarrow> 's \<Rightarrow> ('e + 'a) \<times> 's" where
  "dbWrite operation s =
     (case operation s of Inl e \<Rightarrow> (Inl e, s) | Inr (x, s') \<Rightarrow> (Inr x, s'))"

lemma dbWrite_rollback: "operation s = Inl e \<Longrightarrow> dbWrite operation s = (Inl e, s)"
  by (simp add: dbWrite_def)

lemma dbWrite_commit: "operation s = Inr (x, s') \<Longrightarrow> dbWrite operation s = (Inr x, s')"
  by (simp add: dbWrite_def)

lemma dbWrite_keeps:
  assumes "P s" and "\<And>x s'. operation s = Inr (x, s') \<Longrightarrow> P s'"
  shows "P (snd (dbWrite operation s))"
  using assms by (auto simp: dbWrite_def split: sum.splits prod.splits)

subsection \<open>Safe integers\<close>

definition maxSafeInteger :: int where
  "maxSafeInteger = 9007199254740991"

definition isSafeInteger :: "int \<Rightarrow> bool" where
  "isSafeInteger n \<longleftrightarrow> - maxSafeInteger \<le> n \<and> n \<le> maxSafeInteger"

definition toSafeInteger :: "int \<Rightarrow> string \<Rightarrow> store_error + int" where
  "toSafeInteger value label =
     (if isSafeInteger value then Inr value
      else Inl (Failure (label @ '' is outside the safe integer range'')))"

lemma toSafeInteger_Inr_iff [result_simps]:
  "toSafeInteger value label = Inr n \<longleftrightarrow> isSafeInteger value \<and> n = value"
  by (auto simp: toSafeInteger_def)

lemma toSafeInteger_safe [simp]: "isSafeInteger value \<Longrightarrow> toSafeInteger value label = Inr value"
  by (simp add: toSafeInteger_def)

definition assertPositiveSafeInteger :: "int \<Rightarrow> string \<Rightarrow> store_error + unit" where
  "assertPositiveSafeInteger value label =
     assertR (isSafeInteger value \<and> \<not> value \<le> 0)
       (RangeFailure (label @ '' must be a positive safe integer''))"

lemma assertPositiveSafeInteger_Inr_iff [result_simps]:
  "assertPositiveSafeInteger value label = Inr u \<longleftrightarrow> isSafeInteger value \<and> 0 < value"
  by (auto simp: assertPositiveSafeInteger_def assertR_def)

text \<open>\<open>Math.ceil(a / b)\<close> for a positive divisor, on the integers.\<close>

definition ceilDiv :: "int \<Rightarrow> int \<Rightarrow> int" where
  "ceilDiv a b = - ((- a) div b)"

lemma ceilDiv_upper: "0 < b \<Longrightarrow> a \<le> ceilDiv a b * b"
proof -
  assume "0 < b"
  then have "(- a) div b * b \<le> - a"
    by (metis add.commute div_mult_mod_eq le_add_same_cancel1 pos_mod_sign)
  then show ?thesis by (simp add: ceilDiv_def)
qed

lemma ceilDiv_lower: "0 < b \<Longrightarrow> (ceilDiv a b - 1) * b < a"
proof -
  assume b: "0 < b"
  have "- a = (- a) div b * b + (- a) mod b" by simp
  moreover have "(- a) mod b < b" using b by simp
  ultimately have "- a < (- a) div b * b + b" by linarith
  then show ?thesis by (simp add: ceilDiv_def algebra_simps)
qed

subsection \<open>Row lists\<close>

text \<open>
  \<open>UPDATE t SET f WHERE p\<close>: every matching row is replaced in place; the number of matching
  rows is what \<^verbatim>\<open>assertChangedOnce\<close> tests.
\<close>

definition updateRows :: "('r \<Rightarrow> bool) \<Rightarrow> ('r \<Rightarrow> 'r) \<Rightarrow> 'r list \<Rightarrow> 'r list" where
  "updateRows p f rows = map (\<lambda>r. if p r then f r else r) rows"

definition changes :: "('r \<Rightarrow> bool) \<Rightarrow> 'r list \<Rightarrow> nat" where
  "changes p rows = length (filter p rows)"

definition assertChangedOnce :: "nat \<Rightarrow> string \<Rightarrow> store_error + unit" where
  "assertChangedOnce n action = assertR (n = 1) (Failure (action @ '' changed rows''))"

lemma assertChangedOnce_Inr_iff [result_simps]: "assertChangedOnce n action = Inr u \<longleftrightarrow> n = 1"
  by (simp add: assertChangedOnce_def assertR_Inr_iff)

lemma set_updateRows:
  "set (updateRows p f rows) = {r \<in> set rows. \<not> p r} \<union> f ` {r \<in> set rows. p r}"
  by (auto simp: updateRows_def)

lemma map_updateRows:
  "(\<And>r. r \<in> set rows \<Longrightarrow> p r \<Longrightarrow> g (f r) = g r) \<Longrightarrow> map g (updateRows p f rows) = map g rows"
  by (simp add: updateRows_def)

lemma length_updateRows [simp]: "length (updateRows p f rows) = length rows"
  by (simp add: updateRows_def)

lemma mem_updateRowsE:
  assumes "r' \<in> set (updateRows p f rows)"
  obtains r where "r \<in> set rows" "p r" "r' = f r" | "r' \<in> set rows" "\<not> p r'"
  using assms by (auto simp: set_updateRows)

lemma mem_updateRows_image: "r \<in> set rows \<Longrightarrow> (if p r then f r else r) \<in> set (updateRows p f rows)"
  by (auto simp: updateRows_def)

lemma changes_le_length: "changes p rows \<le> length rows"
  by (simp add: changes_def)

lemma changes_Suc_0_iff_distinct:
  assumes "distinct (map key rows)" and "r \<in> set rows" and "p r"
    and "\<And>x. x \<in> set rows \<Longrightarrow> p x \<Longrightarrow> key x = key r"
  shows "changes p rows = 1"
proof -
  have d: "distinct rows" using assms(1) by (simp add: distinct_map)
  have "set (filter p rows) = {r}"
    using assms by (auto dest: inj_onD[OF conjunct2[OF distinct_map[THEN iffD1, OF assms(1)]]])
  then have "card (set (filter p rows)) = 1" by simp
  moreover have "card (set (filter p rows)) = length (filter p rows)"
    using d by (intro distinct_card) simp
  ultimately show ?thesis by (simp add: changes_def)
qed

lemma changes_1_ex: "changes p rows = 1 \<Longrightarrow> \<exists>r \<in> set rows. p r"
  by (cases "filter p rows") (auto simp: changes_def filter_eq_Cons_iff)

lemma find_SomeD: "List.find p rows = Some r \<Longrightarrow> r \<in> set rows \<and> p r"
  by (induction rows) (auto split: if_splits)

lemma find_None_iff_all: "List.find p rows = None \<longleftrightarrow> (\<forall>r \<in> set rows. \<not> p r)"
  by (induction rows) auto

lemma find_Some_unique:
  assumes "r \<in> set rows" and "p r" and "\<And>x. x \<in> set rows \<Longrightarrow> p x \<Longrightarrow> x = r"
  shows "List.find p rows = Some r"
proof (cases "List.find p rows")
  case None
  then show ?thesis using assms(1,2) by (auto simp: find_None_iff_all)
next
  case (Some x)
  then show ?thesis using find_SomeD[OF Some] assms(3) by simp
qed

lemma list_all2_right: "list_all2 P xs ys \<Longrightarrow> x \<in> set xs \<Longrightarrow> \<exists>y \<in> set ys. P x y"
  by (induction rule: list_all2_induct) auto

lemma list_all2_left: "list_all2 P xs ys \<Longrightarrow> y \<in> set ys \<Longrightarrow> \<exists>x \<in> set xs. P x y"
  by (induction rule: list_all2_induct) auto

lemma list_all2_updateRows:
  assumes "list_all2 P xs ys"
    and "\<And>x y. x \<in> set xs \<Longrightarrow> y \<in> set ys \<Longrightarrow> P x y \<Longrightarrow> p x = q y \<and> (p x \<longrightarrow> P (f x) (g y))"
  shows "list_all2 P (updateRows p f xs) (updateRows q g ys)"
  using assms by (induction rule: list_all2_induct) (auto simp: updateRows_def)

subsection \<open>Step functions with an invariant\<close>

text \<open>
  What every store promises its callers: each operation keeps the store's row invariant.  The
  client runs any sequence of operations.
\<close>

locale invariant_store =
  fixes step :: "'op \<Rightarrow> 's \<Rightarrow> 's"
    and inv :: "'s \<Rightarrow> bool"
  assumes step_inv: "inv s \<Longrightarrow> inv (step op s)"
begin

lemma run_inv: "inv s \<Longrightarrow> inv (fold step ops s)"
  by (induction ops arbitrary: s) (auto simp: step_inv)

end

text \<open>
  A store whose rows carry a measure that no operation decreases (a clock, a version, a history
  length): the client's view of it only grows.
\<close>

locale monotone_store = invariant_store step inv
  for step :: "'op \<Rightarrow> 's \<Rightarrow> 's" and inv :: "'s \<Rightarrow> bool" +
  fixes level :: "'s \<Rightarrow> int"
  assumes step_level: "inv s \<Longrightarrow> level s \<le> level (step op s)"
begin

lemma run_level: "inv s \<Longrightarrow> level s \<le> level (fold step ops s)"
proof (induction ops arbitrary: s)
  case Nil
  then show ?case by simp
next
  case (Cons op ops)
  have "level s \<le> level (step op s)" using Cons.prems by (rule step_level)
  also have "\<dots> \<le> level (fold step ops (step op s))"
    using Cons.prems by (intro Cons.IH step_inv)
  finally show ?case by simp
qed

end

end
