(* ===== verification/JsText.thy ===== *)
theory JsText
  imports PerPay_Prelude "HOL-Library.Word"
begin

text \<open>
  JavaScript strings and the text tests the request schemas run on them.  A string is a list of
  16-bit code units; iterating one (\<^verbatim>\<open>for ... of\<close>, \<^verbatim>\<open>Array.from\<close>) pairs surrogates into
  code points and yields a lone surrogate as itself.  \<^verbatim>\<open>Buffer.byteLength(value, "utf8")\<close> is the
  length of the UTF-8 encoding, in which a lone surrogate becomes U+FFFD.

  The lemmas: iterating loses nothing, the UTF-8 encoding of a string of scalar values can be
  decoded, so it is injective on them, and the byte counts the schemas bound.
\<close>

type_synonym jstr = "16 word list"

text \<open>The code unit with a given number.\<close>

definition unitOf :: "nat \<Rightarrow> 16 word" where
  "unitOf n = word_of_nat n"

lemma unat_unitOf [simp]: "n < 0x10000 \<Longrightarrow> unat (unitOf n) = n"
  by (simp add: unitOf_def unsigned_of_nat take_bit_eq_mod)

lemma unitOf_unat [simp]: "unitOf (unat u) = u"
  by (simp add: unitOf_def)

lemma unitOf_eqD: "unitOf n = u \<Longrightarrow> n < 0x10000 \<Longrightarrow> n = unat u"
  by auto

definition js :: "string \<Rightarrow> jstr" where
  "js s = map (\<lambda>c. unitOf (of_char c)) s"

subsection \<open>Code points\<close>

definition isHighSurrogate :: "16 word \<Rightarrow> bool" where
  "isHighSurrogate u \<longleftrightarrow> 0xD800 \<le> unat u \<and> unat u \<le> 0xDBFF"

definition isLowSurrogate :: "16 word \<Rightarrow> bool" where
  "isLowSurrogate u \<longleftrightarrow> 0xDC00 \<le> unat u \<and> unat u \<le> 0xDFFF"

fun codePoints :: "jstr \<Rightarrow> nat list" where
  "codePoints [] = []"
| "codePoints [u] = [unat u]"
| "codePoints (u # v # rest) =
     (if isHighSurrogate u \<and> isLowSurrogate v
      then (0x10000 + (unat u - 0xD800) * 0x400 + (unat v - 0xDC00)) # codePoints rest
      else unat u # codePoints (v # rest))"

definition unicodeCharacterCount :: "jstr \<Rightarrow> nat" where
  "unicodeCharacterCount value = length (codePoints value)"

definition isSurrogatePoint :: "nat \<Rightarrow> bool" where
  "isSurrogatePoint cp \<longleftrightarrow> 0xD800 \<le> cp \<and> cp \<le> 0xDFFF"

definition hasOnlyUnicodeScalarValues :: "jstr \<Rightarrow> bool" where
  "hasOnlyUnicodeScalarValues value \<longleftrightarrow> list_all (\<lambda>cp. \<not> isSurrogatePoint cp) (codePoints value)"

definition unitsOfPoint :: "nat \<Rightarrow> jstr" where
  "unitsOfPoint cp =
     (if cp < 0x10000 then [unitOf cp]
      else [unitOf (0xD800 + (cp - 0x10000) div 0x400),
            unitOf (0xDC00 + (cp - 0x10000) mod 0x400)])"

lemma unat_16_bound: "unat (u :: 16 word) < 0x10000"
  using unsigned_less [of u] by simp

lemma unitsOfPoint_unat: "unitsOfPoint (unat u) = [u]"
  using unat_16_bound [of u] by (simp add: unitsOfPoint_def)

lemma unitsOfPoint_pair:
  assumes "isHighSurrogate u" "isLowSurrogate v"
  shows "unitsOfPoint (0x10000 + (unat u - 0xD800) * 0x400 + (unat v - 0xDC00)) = [u, v]"
proof -
  obtain a where a: "unat u = 0xD800 + a"
    using assms(1) by (auto simp: isHighSurrogate_def le_iff_add)
  obtain b where b: "unat v = 0xDC00 + b" and b': "b < 0x400"
    using assms(2) by (auto simp: isLowSurrogate_def le_iff_add)
  have "unitOf (0xD800 + a) = u" "unitOf (0xDC00 + b) = v"
    unfolding a [symmetric] b [symmetric] by simp_all
  then show ?thesis using a b b' by (simp add: unitsOfPoint_def)
qed

lemma units_codePoints: "concat (map unitsOfPoint (codePoints s)) = s"
  by (induction s rule: codePoints.induct) (auto simp: unitsOfPoint_unat unitsOfPoint_pair)

lemma codePoints_inject: "codePoints s = codePoints t \<longleftrightarrow> s = t"
  by (metis units_codePoints)

lemma codePoints_bound: "cp \<in> set (codePoints s) \<Longrightarrow> cp < 0x110000"
proof (induction s rule: codePoints.induct)
  case (2 u)
  then show ?case using unat_16_bound [of u] by simp
next
  case (3 u v rest)
  then show ?case using unat_16_bound [of u]
    by (auto simp: isHighSurrogate_def isLowSurrogate_def split: if_splits)
qed simp

lemma length_codePoints_le: "length (codePoints s) \<le> length s"
  by (induction s rule: codePoints.induct) auto

subsection \<open>UTF-8\<close>

definition utf8Point :: "nat \<Rightarrow> nat list" where
  "utf8Point cp =
     (if cp < 0x80 then [cp]
      else if cp < 0x800 then [0xC0 + cp div 64, 0x80 + cp mod 64]
      else if cp < 0x10000 then
        (if isSurrogatePoint cp then [0xEF, 0xBF, 0xBD]
         else [0xE0 + cp div 4096, 0x80 + cp div 64 mod 64, 0x80 + cp mod 64])
      else [0xF0 + cp div 262144, 0x80 + cp div 4096 mod 64, 0x80 + cp div 64 mod 64, 0x80 + cp mod 64])"

definition utf8 :: "jstr \<Rightarrow> nat list" where
  "utf8 s = concat (map utf8Point (codePoints s))"

definition byteLength :: "jstr \<Rightarrow> nat" where
  "byteLength s = length (utf8 s)"

lemma length_utf8Point: "length (utf8Point cp) \<le> 4" "1 \<le> length (utf8Point cp)"
  by (auto simp: utf8Point_def)

lemma byteLength_le: "byteLength s \<le> 4 * unicodeCharacterCount s"
proof -
  have "length (concat (map utf8Point cps)) \<le> 4 * length cps" for cps
  proof (induction cps)
    case (Cons cp cps)
    then show ?case using length_utf8Point(1) [of cp] by simp
  qed simp
  then show ?thesis by (simp add: byteLength_def utf8_def unicodeCharacterCount_def)
qed

lemma byteLength_ge: "unicodeCharacterCount s \<le> byteLength s"
proof -
  have "length cps \<le> length (concat (map utf8Point cps))" for cps
  proof (induction cps)
    case (Cons cp cps)
    then show ?case using length_utf8Point(2) [of cp] by simp
  qed simp
  then show ?thesis by (simp add: byteLength_def utf8_def unicodeCharacterCount_def)
qed

text \<open>Reading one code point back from the front of an encoding.\<close>

fun utf8Head :: "nat list \<Rightarrow> nat \<times> nat list" where
  "utf8Head [] = (0, [])"
| "utf8Head (a # bs) =
     (if a < 0x80 then (a, bs)
      else if a < 0xE0 then ((a - 0xC0) * 64 + (bs ! 0 - 0x80), drop 1 bs)
      else if a < 0xF0 then
        ((a - 0xE0) * 4096 + (bs ! 0 - 0x80) * 64 + (bs ! 1 - 0x80), drop 2 bs)
      else ((a - 0xF0) * 262144 + (bs ! 0 - 0x80) * 4096 + (bs ! 1 - 0x80) * 64 + (bs ! 2 - 0x80),
            drop 3 bs))"

lemma split_64: "(cp :: nat) div 64 * 64 + cp mod 64 = cp"
  by simp

lemma split_4096: "(cp :: nat) div 4096 * 4096 + cp div 64 mod 64 * 64 + cp mod 64 = cp"
proof -
  have "cp div 4096 = cp div 64 div 64" by (simp add: div_mult2_eq [symmetric])
  then have "cp div 4096 * 64 + cp div 64 mod 64 = cp div 64" by simp
  then show ?thesis using split_64 [of cp] by linarith
qed

lemma split_262144:
  "(cp :: nat) div 262144 * 262144 + cp div 4096 mod 64 * 4096 + cp div 64 mod 64 * 64 + cp mod 64 = cp"
proof -
  have "cp div 262144 = cp div 4096 div 64" by (simp add: div_mult2_eq [symmetric])
  then have "cp div 262144 * 64 + cp div 4096 mod 64 = cp div 4096" by simp
  then show ?thesis using split_4096 [of cp] by linarith
qed

lemma utf8Head_utf8Point:
  assumes "cp < 0x110000" "\<not> isSurrogatePoint cp"
  shows "utf8Head (utf8Point cp @ rest) = (cp, rest)"
proof -
  consider "cp < 0x80" | "\<not> cp < 0x80" "cp < 0x800" | "\<not> cp < 0x800" "cp < 0x10000"
    | "\<not> cp < 0x10000"
    by linarith
  then show ?thesis
  proof cases
    case 2
    then have "cp div 64 < 32" by simp
    with 2 split_64 [of cp] show ?thesis by (simp add: utf8Point_def)
  next
    case 3
    then have "cp div 4096 < 16" by simp
    with 3 assms split_4096 [of cp] show ?thesis by (simp add: utf8Point_def)
  next
    case 4
    with split_262144 [of cp] show ?thesis by (simp add: utf8Point_def numeral_2_eq_2)
  qed (simp add: utf8Point_def)
qed

lemma utf8Points_inject:
  assumes "concat (map utf8Point xs) = concat (map utf8Point ys)"
    and "\<And>cp. cp \<in> set xs \<union> set ys \<Longrightarrow> cp < 0x110000 \<and> \<not> isSurrogatePoint cp"
  shows "xs = ys"
  using assms
proof (induction xs arbitrary: ys)
  case Nil
  have "utf8Point cp \<noteq> []" for cp using length_utf8Point(2) [of cp] by auto
  with Nil show ?case by (cases ys) auto
next
  case (Cons x xs)
  have ne: "utf8Point cp \<noteq> []" for cp using length_utf8Point(2) [of cp] by auto
  obtain y ys' where ys: "ys = y # ys'" using Cons.prems(1) ne by (cases ys) auto
  have "utf8Head (utf8Point x @ concat (map utf8Point xs)) =
        utf8Head (utf8Point y @ concat (map utf8Point ys'))"
    using Cons.prems(1) ys by simp
  then have "x = y" and "concat (map utf8Point xs) = concat (map utf8Point ys')"
    using Cons.prems(2) ys by (simp_all add: utf8Head_utf8Point)
  with Cons.IH [of ys'] Cons.prems(2) ys show ?case by simp
qed

lemma utf8_inject:
  assumes "hasOnlyUnicodeScalarValues s" "hasOnlyUnicodeScalarValues t"
  shows "utf8 s = utf8 t \<longleftrightarrow> s = t"
proof
  assume "utf8 s = utf8 t"
  then have "codePoints s = codePoints t"
    unfolding utf8_def
    by (rule utf8Points_inject)
      (use assms codePoints_bound in \<open>auto simp: hasOnlyUnicodeScalarValues_def list_all_iff\<close>)
  then show "s = t" by (simp add: codePoints_inject)
qed simp

lemma zero_in_utf8: "0 \<in> set (utf8 s) \<longleftrightarrow> 0 \<in> set (codePoints s)"
proof -
  have "0 \<in> set (utf8Point cp) \<longleftrightarrow> cp = 0" for cp
    by (auto simp: utf8Point_def)
  then show ?thesis by (auto simp: utf8_def)
qed

subsection \<open>Control characters and trimming\<close>

text \<open>\<open>\p{Cc}\<close> and the characters \<^verbatim>\<open>String.prototype.trim\<close> strips.\<close>

definition isControlPoint :: "nat \<Rightarrow> bool" where
  "isControlPoint cp \<longleftrightarrow> cp \<le> 0x1F \<or> 0x7F \<le> cp \<and> cp \<le> 0x9F"

definition hasControlCharacter :: "jstr \<Rightarrow> bool" where
  "hasControlCharacter value \<longleftrightarrow> list_ex isControlPoint (codePoints value)"

definition isTrimmed :: "16 word \<Rightarrow> bool" where
  "isTrimmed u \<longleftrightarrow> (let n = unat u in
     9 \<le> n \<and> n \<le> 13 \<or> n = 0x20 \<or> n = 0xA0 \<or> n = 0x1680 \<or> 0x2000 \<le> n \<and> n \<le> 0x200A \<or>
     n = 0x2028 \<or> n = 0x2029 \<or> n = 0x202F \<or> n = 0x205F \<or> n = 0x3000 \<or> n = 0xFEFF)"

definition trim :: "jstr \<Rightarrow> jstr" where
  "trim value = rev (dropWhile isTrimmed (rev (dropWhile isTrimmed value)))"

lemma rev_dropWhile_rev_suffix: "\<exists>zs. xs = rev (dropWhile P (rev xs)) @ zs \<and> (\<forall>z \<in> set zs. P z)"
proof -
  have "xs = rev (dropWhile P (rev xs)) @ rev (takeWhile P (rev xs))"
    by (metis rev_append rev_rev_ident takeWhile_dropWhile_id)
  then show ?thesis by (metis set_rev set_takeWhileD)
qed

lemma trim_idem: "trim (trim value) = trim value"
proof -
  let ?m = "dropWhile isTrimmed value"
  obtain zs where m: "?m = trim value @ zs"
    using rev_dropWhile_rev_suffix [of ?m isTrimmed] by (auto simp: trim_def)
  have "dropWhile isTrimmed (trim value) = trim value"
  proof (cases "trim value")
    case (Cons u us)
    then have "hd ?m = u" "?m \<noteq> []" using m by auto
    then have "\<not> isTrimmed u" using hd_dropWhile by blast
    then show ?thesis using Cons by simp
  qed simp
  moreover have "dropWhile isTrimmed (rev (trim value)) = rev (trim value)"
  proof -
    have "rev (trim value) = dropWhile isTrimmed (rev ?m)" by (simp add: trim_def)
    then show ?thesis by simp
  qed
  ultimately show ?thesis by (simp add: trim_def)
qed

lemma set_trim_subset: "set (trim value) \<subseteq> set value"
proof
  fix u
  assume "u \<in> set (trim value)"
  then have "u \<in> set (dropWhile isTrimmed (rev (dropWhile isTrimmed value)))"
    by (simp add: trim_def)
  then have "u \<in> set (dropWhile isTrimmed value)" by (auto dest: set_dropWhileD)
  then show "u \<in> set value" by (rule set_dropWhileD)
qed

subsection \<open>Texts of the source\<close>

lemma codePoints_low: "list_all (\<lambda>u. unat u < 0xD800) s \<Longrightarrow> codePoints s = map unat s"
  by (induction s rule: codePoints.induct) (auto simp: isHighSurrogate_def)

lemma utf8_js: "list_all (\<lambda>c. of_char c < (128 :: nat)) s \<Longrightarrow> utf8 (js s) = map of_char s"
proof -
  assume a: "list_all (\<lambda>c. of_char c < (128 :: nat)) s"
  have u: "unat (unitOf (of_char c)) = of_char c" if "c \<in> set s" for c
    using a that by (intro unat_unitOf) (auto simp: list_all_iff)
  have "codePoints (js s) = map of_char s"
    using a u by (subst codePoints_low) (auto simp: js_def list_all_iff)
  then show ?thesis using a by (simp add: utf8_def utf8Point_def o_def concat_map_singleton list_all_iff cong: map_cong)
qed

end
