(* ===== verification/JsonText.thy ===== *)
theory JsonText
  imports JsText
begin

text \<open>
  \<^verbatim>\<open>JSON.stringify\<close> on the values the program fingerprints and stores: strings, integers, booleans,
  null, arrays and objects (whose members keep the order in which the program lists them).  The lemma
  the fingerprints need is that a rendered value can be told from the text that follows it, so that
  the rendering is injective.
\<close>

datatype json =
    JNull
  | JBool bool
  | JInt int
  | JStr jstr
  | JArr "json list"
  | JObj "(jstr \<times> json) list"

definition hexDigit :: "nat \<Rightarrow> 16 word" where
  "hexDigit n = (if n < 10 then unitOf (48 + n) else unitOf (87 + n))"

definition hex4 :: "nat \<Rightarrow> jstr" where
  "hex4 n = [hexDigit (n div 4096 mod 16), hexDigit (n div 256 mod 16),
             hexDigit (n div 16 mod 16), hexDigit (n mod 16)]"

text \<open>One code point of a quoted string: the two mandatory escapes, the five short ones,
  \<open>\u00xx\<close> for the other control characters, and \<open>\udxxx\<close> for a lone surrogate.\<close>

definition escapePoint :: "nat \<Rightarrow> jstr" where
  "escapePoint cp =
     (if cp = 0x22 then [0x5C, 0x22]
      else if cp = 0x5C then [0x5C, 0x5C]
      else if cp = 8 then [0x5C, 0x62]
      else if cp = 9 then [0x5C, 0x74]
      else if cp = 10 then [0x5C, 0x6E]
      else if cp = 12 then [0x5C, 0x66]
      else if cp = 13 then [0x5C, 0x72]
      else if cp < 0x20 then [0x5C, 0x75] @ hex4 cp
      else if isSurrogatePoint cp then [0x5C, 0x75] @ hex4 cp
      else unitsOfPoint cp)"

definition quoteString :: "jstr \<Rightarrow> jstr" where
  "quoteString s = [0x22] @ concat (map escapePoint (codePoints s)) @ [0x22]"

fun decimalNat :: "nat \<Rightarrow> jstr" where
  "decimalNat n =
     (if n < 10 then [unitOf (48 + n)] else decimalNat (n div 10) @ [unitOf (48 + n mod 10)])"

declare decimalNat.simps [simp del]

definition decimal :: "int \<Rightarrow> jstr" where
  "decimal n = (if n < 0 then [0x2D] @ decimalNat (nat (- n)) else decimalNat (nat n))"

definition commaJoin :: "jstr list \<Rightarrow> jstr" where
  "commaJoin parts = (case parts of [] \<Rightarrow> [] | p # ps \<Rightarrow> p @ concat (map (\<lambda>q. [0x2C] @ q) ps))"

fun stringify :: "json \<Rightarrow> jstr" where
  "stringify JNull = js ''null''"
| "stringify (JBool b) = (if b then js ''true'' else js ''false'')"
| "stringify (JInt n) = decimal n"
| "stringify (JStr s) = quoteString s"
| "stringify (JArr vs) = [0x5B] @ commaJoin (map stringify vs) @ [0x5D]"
| "stringify (JObj ms) = [0x7B] @ commaJoin (map (\<lambda>(k, v). quoteString k @ [0x3A] @ stringify v) ms) @ [0x7D]"

subsection \<open>Quoted strings end where they should\<close>

text \<open>Reading one escape back.\<close>

definition hexValue :: "16 word \<Rightarrow> nat" where
  "hexValue u = (if unat u < 58 then unat u - 48 else unat u - 87)"

fun readPoint :: "jstr \<Rightarrow> nat \<times> jstr" where
  "readPoint (u # v # rest) =
     (if u = 0x5C then
        (if v = 0x22 then (0x22, rest) else if v = 0x5C then (0x5C, rest)
         else if v = 0x62 then (8, rest) else if v = 0x74 then (9, rest)
         else if v = 0x6E then (10, rest) else if v = 0x66 then (12, rest)
         else if v = 0x72 then (13, rest)
         else (hexValue (rest ! 0) * 4096 + hexValue (rest ! 1) * 256 + hexValue (rest ! 2) * 16
               + hexValue (rest ! 3), drop 4 rest))
      else if isHighSurrogate u \<and> isLowSurrogate v
      then (0x10000 + (unat u - 0xD800) * 0x400 + (unat v - 0xDC00), rest)
      else (unat u, v # rest))"
| "readPoint rest = (0, rest)"

lemma hexValue_hexDigit: "n < 16 \<Longrightarrow> hexValue (hexDigit n) = n"
  by (simp add: hexValue_def hexDigit_def)

lemma split_hex4: "(n :: nat) < 0x10000 \<Longrightarrow>
  n div 4096 mod 16 * 4096 + n div 256 mod 16 * 256 + n div 16 mod 16 * 16 + n mod 16 = n"
proof -
  assume "n < 0x10000"
  then have "n div 4096 mod 16 = n div 4096" by simp
  moreover have "n div 256 = n div 4096 * 16 + n div 256 mod 16"
    using div_mult_mod_eq [of "n div 256" 16] by (simp add: div_mult2_eq [symmetric])
  moreover have "n div 16 = n div 256 * 16 + n div 16 mod 16"
    using div_mult_mod_eq [of "n div 16" 16] by (simp add: div_mult2_eq [symmetric])
  moreover have "n = n div 16 * 16 + n mod 16" by simp
  ultimately show ?thesis by linarith
qed

lemma readPoint_hex4:
  assumes "n < 0x10000"
  shows "readPoint ([0x5C, 0x75] @ hex4 n @ rest) = (n, rest)"
  using split_hex4 [OF assms] assms
  by (simp add: hex4_def hexValue_hexDigit)

lemma readPoint_plain:
  assumes "cp < 0x110000" "\<not> isSurrogatePoint cp" "cp \<noteq> 0x5C"
  shows "readPoint (unitsOfPoint cp @ v # rest) = (cp, v # rest)"
proof (cases "cp < 0x10000")
  case True
  have "unitOf cp \<noteq> (0x5C :: 16 word)"
    using True assms(3) by (auto dest: unitOf_eqD)
  then show ?thesis using True assms(2)
    by (auto simp add: unitsOfPoint_def isHighSurrogate_def isSurrogatePoint_def)
next
  case False
  let ?h = "0xD800 + (cp - 0x10000) div 0x400" and ?l = "0xDC00 + (cp - 0x10000) mod 0x400"
  have hl: "?h \<le> 0xDBFF" "?l \<le> 0xDFFF" using assms(1) False by auto
  then have u: "unat (unitOf ?h :: 16 word) = ?h" "unat (unitOf ?l :: 16 word) = ?l"
    by (simp_all only: unat_unitOf)
  have ne: "unitOf ?h \<noteq> (0x5C :: 16 word)"
  proof
    assume "unitOf ?h = (0x5C :: 16 word)"
    then have "unat (unitOf ?h :: 16 word) = 0x5C" by simp
    then show False using u(1) by linarith
  qed
  have hi: "isHighSurrogate (unitOf ?h)" and lo: "isLowSurrogate (unitOf ?l)"
    using hl u by (simp_all only: isHighSurrogate_def isLowSurrogate_def, auto)
  obtain k where k: "cp = 0x10000 + k" using False by (auto simp: not_less le_iff_add)
  have "0x10000 + (?h - 0xD800) * 0x400 + (?l - 0xDC00) = cp"
    using div_mult_mod_eq [of k 1024] unfolding k by simp
  then have "readPoint (unitOf ?h # unitOf ?l # v # rest) = (cp, v # rest)"
    using ne hi lo u by (simp only: readPoint.simps if_True if_False HOL.simp_thms)
  then show ?thesis using False by (simp add: unitsOfPoint_def)
qed

lemma readPoint_escapePoint:
  assumes "cp < 0x110000"
  shows "readPoint (escapePoint cp @ v # rest) = (cp, v # rest)"
proof (cases "cp < 0x20 \<or> cp = 0x22 \<or> cp = 0x5C \<or> isSurrogatePoint cp")
  case True
  have lt: "cp < 0x10000" using True by (auto simp: isSurrogatePoint_def)
  show ?thesis
    using True readPoint_hex4 [OF lt, of "v # rest"] by (auto simp: escapePoint_def)
next
  case False
  then have "escapePoint cp = unitsOfPoint cp" by (simp add: escapePoint_def)
  then show ?thesis using readPoint_plain [OF assms, of v rest] False by simp
qed

lemma escapePoint_head: "\<exists>u us. escapePoint cp = u # us \<and> u \<noteq> 0x22" if "cp < 0x110000"
proof (cases "cp < 0x20 \<or> cp = 0x22 \<or> cp = 0x5C \<or> isSurrogatePoint cp")
  case True
  then show ?thesis by (auto simp: escapePoint_def)
next
  case False
  then have e: "escapePoint cp = unitsOfPoint cp" by (simp add: escapePoint_def)
  show ?thesis
  proof (cases "cp < 0x10000")
    case True
    then show ?thesis using False e
      by (auto simp: unitsOfPoint_def dest: unitOf_eqD)
  next
    case big: False
    let ?h = "0xD800 + (cp - 0x10000) div 0x400"
    have "?h < 0x10000" using that big by auto
    then have "unitOf ?h \<noteq> (0x22 :: 16 word)" by (auto dest: unitOf_eqD)
    then show ?thesis using big e by (simp add: unitsOfPoint_def)
  qed
qed

lemma quoteString_prefix_free:
  assumes "quoteString s @ rest = quoteString t @ rest'"
  shows "s = t \<and> rest = rest'"
proof -
  have "xs = ys \<and> rest = rest'"
    if "concat (map escapePoint xs) @ 0x22 # rest = concat (map escapePoint ys) @ 0x22 # rest'"
      and "\<And>cp. cp \<in> set xs \<union> set ys \<Longrightarrow> cp < 0x110000" for xs ys
    using that
  proof (induction xs arbitrary: ys)
    case Nil
    then show ?case
    proof (cases ys)
      case (Cons y ys')
      then show ?thesis using Nil escapePoint_head [of y] by auto
    qed simp
  next
    case (Cons x xs)
    have x: "x < 0x110000" using Cons.prems(2) by simp
    show ?case
    proof (cases ys)
      case Nil
      then show ?thesis using Cons.prems(1) escapePoint_head [OF x] by auto
    next
      case ys: (Cons y ys')
      have y: "y < 0x110000" using Cons.prems(2) ys by simp
      obtain v r where v: "concat (map escapePoint xs) @ 0x22 # rest = v # r"
        by (metis append_is_Nil_conv list.distinct(1) list.exhaust)
      obtain v' r' where v': "concat (map escapePoint ys') @ 0x22 # rest' = v' # r'"
        by (metis append_is_Nil_conv list.distinct(1) list.exhaust)
      have eq: "escapePoint x @ v # r = escapePoint y @ v' # r'"
        using Cons.prems(1) ys v v' by simp
      have "(x, v # r) = readPoint (escapePoint x @ v # r)"
        by (rule readPoint_escapePoint [OF x, symmetric])
      also have "\<dots> = readPoint (escapePoint y @ v' # r')" by (rule arg_cong [OF eq])
      also have "\<dots> = (y, v' # r')" by (rule readPoint_escapePoint [OF y])
      finally have "x = y" "v # r = v' # r'" by (simp_all only: prod.inject)
      moreover have "xs = ys' \<and> rest = rest'"
      proof (rule Cons.IH)
        show "concat (map escapePoint xs) @ 0x22 # rest = concat (map escapePoint ys') @ 0x22 # rest'"
          using v v' \<open>v # r = v' # r'\<close> by metis
      qed (use Cons.prems(2) ys in auto)
      ultimately show ?thesis using ys by blast
    qed
  qed
  then have "codePoints s = codePoints t \<and> rest = rest'"
    using assms codePoints_bound by (auto simp: quoteString_def)
  then show ?thesis by (simp add: codePoints_inject)
qed

subsection \<open>Numbers\<close>

definition isDigitUnit :: "16 word \<Rightarrow> bool" where
  "isDigitUnit u \<longleftrightarrow> 48 \<le> unat u \<and> unat u \<le> 57"

definition digitsValue :: "jstr \<Rightarrow> nat" where
  "digitsValue ds = foldl (\<lambda>acc u. acc * 10 + (unat u - 48)) 0 ds"

lemma decimalNat_digits: "\<forall>u \<in> set (decimalNat n). isDigitUnit u"
proof (induction n rule: decimalNat.induct)
  case (1 n)
  show ?case
  proof (cases "n < 10")
    case True
    then show ?thesis by (simp add: decimalNat.simps [of n] isDigitUnit_def)
  next
    case False
    then show ?thesis using 1
      by (auto simp: decimalNat.simps [of n] isDigitUnit_def)
  qed
qed

lemma digitsValue_decimalNat: "digitsValue (decimalNat n) = n"
proof (induction n rule: decimalNat.induct)
  case (1 n)
  show ?case
  proof (cases "n < 10")
    case True
    then show ?thesis by (simp add: decimalNat.simps [of n] digitsValue_def)
  next
    case False
    have "unat (unitOf (48 + n mod 10) :: 16 word) = 48 + n mod 10"
      by (rule unat_unitOf) (simp add: less_trans [OF mod_less_divisor])
    then show ?thesis using False 1
      by (simp add: decimalNat.simps [of n] digitsValue_def)
  qed
qed

lemma decimalNat_prefix_free:
  assumes "decimalNat m @ u # rest = decimalNat n @ u' # rest'"
    and "\<not> isDigitUnit u" "\<not> isDigitUnit u'"
  shows "m = n \<and> u # rest = u' # rest'"
proof -
  have tw: "takeWhile isDigitUnit (decimalNat k @ v # r) = decimalNat k"
    if "\<not> isDigitUnit v" for k v r
    using that decimalNat_digits [of k] by (simp add: takeWhile_append)
  have "decimalNat m = decimalNat n"
    using arg_cong [OF assms(1), of "takeWhile isDigitUnit"] tw assms(2,3) by simp
  moreover from this have "m = n" by (metis digitsValue_decimalNat)
  ultimately show ?thesis using assms(1) by simp
qed

lemma comma_bracket_not_digit [simp]: "\<not> isDigitUnit 0x2C" "\<not> isDigitUnit 0x5D"
  by (simp_all add: isDigitUnit_def)

subsection \<open>Rendered values end where they should\<close>

lemma quoteString_head: "\<exists>t. quoteString s = 0x22 # t"
  by (simp add: quoteString_def)

lemma decimalNat_head: "\<exists>h t. decimalNat n = h # t \<and> isDigitUnit h"
proof -
  have "decimalNat n \<noteq> []" by (simp add: decimalNat.simps [of n])
  then obtain h t where "decimalNat n = h # t" by (cases "decimalNat n") auto
  then show ?thesis using decimalNat_digits [of n] by simp
qed

text \<open>The first code unit tells the kind of the value.\<close>

fun isHeadOf :: "json \<Rightarrow> 16 word \<Rightarrow> bool" where
  "isHeadOf JNull u \<longleftrightarrow> u = 0x6E"
| "isHeadOf (JBool b) u \<longleftrightarrow> u = (if b then 0x74 else 0x66)"
| "isHeadOf (JInt n) u \<longleftrightarrow> (if n < 0 then u = 0x2D else isDigitUnit u)"
| "isHeadOf (JStr s) u \<longleftrightarrow> u = 0x22"
| "isHeadOf (JArr vs) u \<longleftrightarrow> u = 0x5B"
| "isHeadOf (JObj ms) u \<longleftrightarrow> u = 0x7B"

lemma stringify_head: "\<exists>h t. stringify v = h # t \<and> isHeadOf v h"
proof (cases v)
  case (JInt n)
  then show ?thesis using decimalNat_head [of "nat n"] by (auto simp: decimal_def)
qed (auto simp: js_def unitOf_def quoteString_def)

lemma isHeadOf_not_closing: "isHeadOf v u \<Longrightarrow> u \<noteq> 0x5D \<and> u \<noteq> 0x7D"
  by (cases v) (auto simp: isDigitUnit_def split: if_splits)

lemma isHeadOf_kind:
  assumes "isHeadOf v u" "isHeadOf w u"
  shows "(v = JNull \<longleftrightarrow> w = JNull) \<and> ((\<exists>b. v = JBool b) \<longleftrightarrow> (\<exists>b. w = JBool b)) \<and>
    ((\<exists>n. v = JInt n) \<longleftrightarrow> (\<exists>n. w = JInt n)) \<and> ((\<exists>s. v = JStr s) \<longleftrightarrow> (\<exists>s. w = JStr s)) \<and>
    ((\<exists>vs. v = JArr vs) \<longleftrightarrow> (\<exists>vs. w = JArr vs)) \<and> ((\<exists>ms. v = JObj ms) \<longleftrightarrow> (\<exists>ms. w = JObj ms))"
  using assms by (cases v; cases w) (auto simp: isDigitUnit_def split: if_splits)

text \<open>An encoder whose output can be told from a following code unit that is no digit.\<close>

definition endsClearly :: "('a \<Rightarrow> jstr) \<Rightarrow> 'a \<Rightarrow> bool" where
  "endsClearly f x \<longleftrightarrow>
     (\<forall>y u r u' r'. \<not> isDigitUnit u \<longrightarrow> \<not> isDigitUnit u' \<longrightarrow> f x @ u # r = f y @ u' # r' \<longrightarrow>
        x = y \<and> u = u' \<and> r = r')"

lemma endsClearlyD:
  "endsClearly f x \<Longrightarrow> \<not> isDigitUnit u \<Longrightarrow> \<not> isDigitUnit u' \<Longrightarrow> f x @ u # r = f y @ u' # r' \<Longrightarrow>
   x = y \<and> u = u' \<and> r = r'"
  unfolding endsClearly_def by blast

lemma commaTail_inject:
  assumes "\<And>x. x \<in> set xs \<Longrightarrow> endsClearly f x" and c: "\<not> isDigitUnit c" "c \<noteq> 0x2C"
  shows "concat (map (\<lambda>q. [0x2C] @ f q) xs) @ c # r = concat (map (\<lambda>q. [0x2C] @ f q) ys) @ c # r' \<Longrightarrow>
    xs = ys \<and> r = r'"
  using assms(1)
proof (induction xs arbitrary: ys)
  case Nil
  then show ?case using c by (cases ys) auto
next
  case (Cons x xs)
  then obtain y ys' where ys: "ys = y # ys'" using c by (cases ys) auto
  let ?rest = "\<lambda>zs r. concat (map (\<lambda>q. [0x2C] @ f q) zs) @ c # r"
  have nxt: "\<exists>u t. ?rest zs r = u # t \<and> \<not> isDigitUnit u" for zs r
    using c by (cases zs) auto
  obtain u t where ut: "?rest xs r = u # t" "\<not> isDigitUnit u" using nxt by blast
  obtain u' t' where ut': "?rest ys' r' = u' # t'" "\<not> isDigitUnit u'" using nxt by blast
  have "f x @ u # t = f y @ u' # t'" using Cons.prems(1) ut(1) ut'(1) by (simp add: ys)
  from endsClearlyD [where f = f and x = x and y = y, OF _ ut(2) ut'(2) this] Cons.prems(2) have xy: "x = y \<and> u = u' \<and> t = t'"
    by (meson list.set_intros(1))
  then have "?rest xs r = ?rest ys' r'" using ut(1) ut'(1) by argo
  from Cons.IH [OF this] Cons.prems(2) have "xs = ys' \<and> r = r'"
    by (meson list.set_intros(2))
  then show ?case using xy ys by blast
qed

lemma commaJoin_inject:
  assumes ends: "\<And>x. x \<in> set xs \<Longrightarrow> endsClearly f x" and c: "\<not> isDigitUnit c" "c \<noteq> 0x2C"
    and head: "\<And>x t. f x \<noteq> c # t" "\<And>x. f x \<noteq> []"
    and eq: "commaJoin (map f xs) @ c # r = commaJoin (map f ys) @ c # r'"
  shows "xs = ys \<and> r = r'"
proof (cases xs)
  case Nil
  show ?thesis
  proof (cases ys)
    case (Cons y ys')
    then have "f y @ concat (map (\<lambda>q. [0x2C] @ f q) ys') @ c # r' = c # r"
      using eq Nil by (simp add: commaJoin_def comp_def)
    then show ?thesis using head [of y] by (cases "f y") auto
  qed (use eq Nil in \<open>simp add: commaJoin_def\<close>)
next
  case (Cons x xs')
  have "ys \<noteq> []"
  proof
    assume "ys = []"
    then have "f x @ concat (map (\<lambda>q. [0x2C] @ f q) xs') @ c # r = c # r'"
      using eq Cons by (simp add: commaJoin_def comp_def)
    then show False using head [of x] by (cases "f x") auto
  qed
  then obtain y ys' where ys: "ys = y # ys'" by (cases ys) auto
  have "concat (map (\<lambda>q. [0x2C] @ f q) (x # xs')) @ c # r =
      concat (map (\<lambda>q. [0x2C] @ f q) (y # ys')) @ c # r'"
    using eq by (simp add: commaJoin_def Cons ys comp_def)
  then show ?thesis using commaTail_inject [OF ends c] Cons ys by metis
qed

lemma endsClearly_quoteString: "endsClearly quoteString s"
  unfolding endsClearly_def using quoteString_prefix_free by blast

lemma endsClearly_decimal: "endsClearly decimal n"
  unfolding endsClearly_def
proof (intro allI impI)
  fix m u r u' r'
  assume u: "\<not> isDigitUnit u" "\<not> isDigitUnit u'" and eq: "decimal n @ u # r = decimal m @ u' # r'"
  have no: "decimalNat k @ v # q \<noteq> 0x2D # t" for k v q t
    using decimalNat_head [of k] by (auto simp: isDigitUnit_def)
  show "n = m \<and> u = u' \<and> r = r'"
  proof (cases "n < 0")
    case True
    then have "decimal m @ u' # r' = 0x2D # decimalNat (nat (- n)) @ u # r"
      using eq by (simp add: decimal_def)
    then have "m < 0" using no [of "nat m" u' r'] by (auto simp: decimal_def split: if_splits)
    then show ?thesis using True eq u decimalNat_prefix_free [of "nat (- n)" u r "nat (- m)" u' r']
      by (auto simp: decimal_def)
  next
    case False
    have "\<not> m < 0"
    proof
      assume "m < 0"
      then have "decimalNat (nat n) @ u # r = 0x2D # decimalNat (nat (- m)) @ u' # r'"
        using eq False by (simp add: decimal_def)
      then show False using no by blast
    qed
    with False show ?thesis using eq u decimalNat_prefix_free [of "nat n" u r "nat m" u' r']
      by (auto simp: decimal_def)
  qed
qed

lemma endsClearly_member:
  assumes "endsClearly stringify (snd m)"
  shows "endsClearly (\<lambda>(k, v). quoteString k @ [0x3A] @ stringify v) m"
  unfolding endsClearly_def
proof (intro allI impI)
  fix m' u r u' r'
  assume u: "\<not> isDigitUnit u" "\<not> isDigitUnit u'"
    and eq: "(\<lambda>(k, v). quoteString k @ [0x3A] @ stringify v) m @ u # r =
      (\<lambda>(k, v). quoteString k @ [0x3A] @ stringify v) m' @ u' # r'"
  obtain k v k' v' where m: "m = (k, v)" "m' = (k', v')" by (cases m, cases m')
  have "quoteString k @ (0x3A # stringify v @ u # r) = quoteString k' @ (0x3A # stringify v' @ u' # r')"
    using eq by (simp add: m)
  from quoteString_prefix_free [OF this]
  have "k = k'" "stringify v @ u # r = stringify v' @ u' # r'" by simp_all
  moreover have "endsClearly stringify v" using assms m by simp
  from endsClearlyD [where f = stringify and x = v and y = v', OF this u calculation(2)]
  have "v = v' \<and> u = u' \<and> r = r'" .
  ultimately show "m = m' \<and> u = u' \<and> r = r'" using m by simp
qed

lemma closing_not_digit [simp]: "\<not> isDigitUnit 0x7D"
  by (simp add: isDigitUnit_def)

lemma stringify_not_closing: "stringify v \<noteq> 0x5D # t" "stringify v \<noteq> []"
  using stringify_head [of v] isHeadOf_not_closing [of v] by auto

lemma sameHead:
  assumes "stringify v @ r = stringify w @ r'"
  shows "\<exists>u. isHeadOf v u \<and> isHeadOf w u"
  using assms stringify_head [of v] stringify_head [of w] by force

lemma sameKind:
  assumes "stringify v @ r = stringify w @ r'"
  shows "(v = JNull \<longleftrightarrow> w = JNull) \<and> ((\<exists>b. v = JBool b) \<longleftrightarrow> (\<exists>b. w = JBool b)) \<and>
    ((\<exists>n. v = JInt n) \<longleftrightarrow> (\<exists>n. w = JInt n)) \<and> ((\<exists>s. v = JStr s) \<longleftrightarrow> (\<exists>s. w = JStr s)) \<and>
    ((\<exists>vs. v = JArr vs) \<longleftrightarrow> (\<exists>vs. w = JArr vs)) \<and> ((\<exists>ms. v = JObj ms) \<longleftrightarrow> (\<exists>ms. w = JObj ms))"
proof -
  obtain u where "isHeadOf v u" "isHeadOf w u" using sameHead [OF assms] by blast
  then show ?thesis by (rule isHeadOf_kind)
qed

theorem stringify_endsClearly: "endsClearly stringify v"
proof (induction v)
  case (JArr vs)
  show ?case unfolding endsClearly_def
  proof (intro allI impI)
    fix w u r u' r'
    assume u: "\<not> isDigitUnit u" "\<not> isDigitUnit u'" and eq: "stringify (JArr vs) @ u # r = stringify w @ u' # r'"
    obtain ws where w: "w = JArr ws" using sameKind [OF eq] by auto
    have "commaJoin (map stringify vs) @ 0x5D # u # r = commaJoin (map stringify ws) @ 0x5D # u' # r'"
      using eq w by simp
    from commaJoin_inject [OF JArr.IH _ _ _ _ this] have "vs = ws \<and> u # r = u' # r'"
      by (simp add: stringify_not_closing)
    then show "JArr vs = w \<and> u = u' \<and> r = r'" using w by simp
  qed
next
  case (JObj ms)
  let ?f = "\<lambda>(k, v). quoteString k @ [0x3A] @ stringify v"
  have ends: "endsClearly ?f m" if "m \<in> set ms" for m
    using that by (intro endsClearly_member JObj.IH [of m]) (auto simp: snds.simps)
  have head: "?f m \<noteq> 0x7D # t" "?f m \<noteq> []" for m t
    using quoteString_head [of "fst m"] by (auto split: prod.splits)
  show ?case unfolding endsClearly_def
  proof (intro allI impI)
    fix w u r u' r'
    assume u: "\<not> isDigitUnit u" "\<not> isDigitUnit u'" and eq: "stringify (JObj ms) @ u # r = stringify w @ u' # r'"
    obtain ws where w: "w = JObj ws" using sameKind [OF eq] by auto
    have "commaJoin (map ?f ms) @ 0x7D # u # r = commaJoin (map ?f ws) @ 0x7D # u' # r'"
      using eq w by simp
    from commaJoin_inject [OF ends _ _ head this] have "ms = ws \<and> u # r = u' # r'" by simp
    then show "JObj ms = w \<and> u = u' \<and> r = r'" using w by simp
  qed
next
  case (JStr s)
  show ?case unfolding endsClearly_def
  proof (intro allI impI)
    fix w u r u' r'
    assume eq: "stringify (JStr s) @ u # r = stringify w @ u' # r'"
    obtain t where "w = JStr t" using sameKind [OF eq] by auto
    then show "JStr s = w \<and> u = u' \<and> r = r'" using eq quoteString_prefix_free [of s "u # r" t "u' # r'"] by simp
  qed
next
  case (JInt n)
  show ?case unfolding endsClearly_def
  proof (intro allI impI)
    fix w u r u' r'
    assume u: "\<not> isDigitUnit u" "\<not> isDigitUnit u'" and eq: "stringify (JInt n) @ u # r = stringify w @ u' # r'"
    obtain m where "w = JInt m" using sameKind [OF eq] by auto
    then have "decimal n @ u # r = decimal m @ u' # r'" using eq by simp
    from endsClearlyD [where f = decimal and x = n and y = m, OF endsClearly_decimal u this]
    show "JInt n = w \<and> u = u' \<and> r = r'" using \<open>w = JInt m\<close> by blast
  qed
next
  case (JBool b)
  show ?case unfolding endsClearly_def
  proof (intro allI impI)
    fix w u r u' r'
    assume eq: "stringify (JBool b) @ u # r = stringify w @ u' # r'"
    obtain c where w: "w = JBool c" using sameKind [OF eq] by auto
    have "b = c" using sameHead [OF eq] unfolding w by (cases b; cases c) auto
    then show "JBool b = w \<and> u = u' \<and> r = r'" using eq w by simp
  qed
next
  case JNull
  show ?case unfolding endsClearly_def
  proof (intro allI impI)
    fix w u r u' r'
    assume eq: "stringify JNull @ u # r = stringify w @ u' # r'"
    have "w = JNull" using sameKind [OF eq] by auto
    then show "JNull = w \<and> u = u' \<and> r = r'" using eq by simp
  qed
qed

theorem stringify_inject: "stringify v = stringify w \<longleftrightarrow> v = w"
proof
  assume "stringify v = stringify w"
  then have eq: "stringify v @ 0x2C # [] = stringify w @ 0x2C # []" by simp
  from endsClearlyD [where f = stringify and x = v and y = w, OF stringify_endsClearly _ _ eq]
  show "v = w" by simp
qed simp

subsection \<open>The rendering is well-formed text\<close>

text \<open>No lone surrogate is left in it, so its UTF-8 bytes determine it.\<close>

definition wellFormed :: "jstr \<Rightarrow> bool" where
  "wellFormed s \<longleftrightarrow> (\<exists>pts. s = concat (map unitsOfPoint pts) \<and>
     (\<forall>cp \<in> set pts. cp < 0x110000 \<and> \<not> isSurrogatePoint cp))"

lemma codePoints_single: "\<not> isHighSurrogate u \<Longrightarrow> codePoints (u # rest) = unat u # codePoints rest"
  by (cases rest) auto

lemma unitsOfPoint_big:
  assumes "cp < 0x110000" "\<not> cp < 0x10000"
  obtains u v where "unitsOfPoint cp = [u, v]" "isHighSurrogate u" "isLowSurrogate v"
    "0x10000 + (unat u - 0xD800) * 0x400 + (unat v - 0xDC00) = cp"
proof
  let ?h = "0xD800 + (cp - 0x10000) div 0x400" and ?l = "0xDC00 + (cp - 0x10000) mod 0x400"
  have hl: "?h \<le> 0xDBFF" "?l \<le> 0xDFFF" using assms by auto
  then have u: "unat (unitOf ?h :: 16 word) = ?h" "unat (unitOf ?l :: 16 word) = ?l"
    by (simp_all only: unat_unitOf)
  show "unitsOfPoint cp = [unitOf ?h, unitOf ?l]" using assms by (simp add: unitsOfPoint_def)
  show "isHighSurrogate (unitOf ?h)" "isLowSurrogate (unitOf ?l)"
    using hl u by (simp_all only: isHighSurrogate_def isLowSurrogate_def, auto)
  obtain k where k: "cp = 0x10000 + k" using assms(2) by (auto simp: not_less le_iff_add)
  show "0x10000 + (unat (unitOf ?h :: 16 word) - 0xD800) * 0x400 + (unat (unitOf ?l :: 16 word) - 0xDC00) = cp"
    unfolding u using div_mult_mod_eq [of k 1024] unfolding k by simp
qed

lemma codePoints_units:
  "(\<And>cp. cp \<in> set pts \<Longrightarrow> cp < 0x110000 \<and> \<not> isSurrogatePoint cp) \<Longrightarrow>
   codePoints (concat (map unitsOfPoint pts)) = pts"
proof (induction pts)
  case (Cons cp pts)
  then have cp: "cp < 0x110000" "\<not> isSurrogatePoint cp"
    and IH: "codePoints (concat (map unitsOfPoint pts)) = pts" by auto
  show ?case
  proof (cases "cp < 0x10000")
    case True
    then have "\<not> isHighSurrogate (unitOf cp)"
      using cp(2) by (auto simp: isHighSurrogate_def isSurrogatePoint_def)
    moreover have "unitsOfPoint cp = [unitOf cp]" using True by (simp add: unitsOfPoint_def)
    ultimately show ?thesis using True IH by (simp add: codePoints_single)
  next
    case False
    obtain u v where "unitsOfPoint cp = [u, v]" "isHighSurrogate u" "isLowSurrogate v"
      "0x10000 + (unat u - 0xD800) * 0x400 + (unat v - 0xDC00) = cp"
      by (rule unitsOfPoint_big [OF cp(1) False])
    then show ?thesis using IH by simp
  qed
qed simp

lemma wellFormed_scalar: "wellFormed s \<Longrightarrow> hasOnlyUnicodeScalarValues s"
  unfolding wellFormed_def hasOnlyUnicodeScalarValues_def
  by (metis codePoints_units list_all_iff)

lemma wellFormed_Nil [simp]: "wellFormed []"
  unfolding wellFormed_def by (intro exI [of _ "[]"]) simp

lemma wellFormed_append [simp]: "wellFormed s \<Longrightarrow> wellFormed t \<Longrightarrow> wellFormed (s @ t)"
  unfolding wellFormed_def
proof (elim exE conjE)
  fix ps qs
  assume "s = concat (map unitsOfPoint ps)" "\<forall>cp \<in> set ps. cp < 0x110000 \<and> \<not> isSurrogatePoint cp"
    "t = concat (map unitsOfPoint qs)" "\<forall>cp \<in> set qs. cp < 0x110000 \<and> \<not> isSurrogatePoint cp"
  then show "\<exists>pts. s @ t = concat (map unitsOfPoint pts) \<and>
      (\<forall>cp \<in> set pts. cp < 0x110000 \<and> \<not> isSurrogatePoint cp)"
    by (intro exI [of _ "ps @ qs"]) auto
qed

lemma wellFormed_point: "cp < 0x110000 \<Longrightarrow> \<not> isSurrogatePoint cp \<Longrightarrow> wellFormed (unitsOfPoint cp)"
  unfolding wellFormed_def by (intro exI [of _ "[cp]"]) simp

lemma wellFormed_unit: "unat u < 0xD800 \<Longrightarrow> wellFormed [u]"
  using wellFormed_point [of "unat u"] by (simp add: unitsOfPoint_unat isSurrogatePoint_def)

lemma wellFormed_Cons: "unat u < 0xD800 \<Longrightarrow> wellFormed s \<Longrightarrow> wellFormed (u # s)"
  using wellFormed_append [OF wellFormed_unit, of u s] by simp

lemma wellFormed_concat: "(\<And>s. s \<in> set ss \<Longrightarrow> wellFormed s) \<Longrightarrow> wellFormed (concat ss)"
  by (induction ss) auto

lemma wellFormed_units: "(\<And>u. u \<in> set s \<Longrightarrow> unat u < 0xD800) \<Longrightarrow> wellFormed s"
  by (induction s) (auto intro: wellFormed_Cons)

lemma wellFormed_js: "wellFormed (js s)"
proof (rule wellFormed_units)
  fix u
  assume "u \<in> set (js s)"
  then obtain c where u: "u = unitOf (of_char c)" by (auto simp: js_def)
  have "(of_char c :: nat) < 256" by simp
  moreover from this have "unat u = of_char c" unfolding u by (intro unat_unitOf) linarith
  ultimately show "unat u < 0xD800" by linarith
qed

lemma hexDigit_small: "n < 16 \<Longrightarrow> unat (hexDigit n) < 0xD800"
  by (simp add: hexDigit_def)

lemma wellFormed_escapePoint: "cp < 0x110000 \<Longrightarrow> wellFormed (escapePoint cp)"
  unfolding escapePoint_def hex4_def
  by (auto intro!: wellFormed_Cons wellFormed_point simp: hexDigit_small split: if_splits)

lemma wellFormed_quoteString: "wellFormed (quoteString s)"
  unfolding quoteString_def
  by (intro wellFormed_append wellFormed_concat)
    (auto intro!: wellFormed_Cons wellFormed_escapePoint dest: codePoints_bound)

lemma wellFormed_decimal: "wellFormed (decimal n)"
proof -
  have "wellFormed (decimalNat k)" for k
    by (rule wellFormed_units) (use decimalNat_digits in \<open>fastforce simp: isDigitUnit_def\<close>)
  then show ?thesis by (simp add: decimal_def wellFormed_Cons)
qed

lemma wellFormed_commaJoin: "(\<And>s. s \<in> set ss \<Longrightarrow> wellFormed s) \<Longrightarrow> wellFormed (commaJoin ss)"
  unfolding commaJoin_def
  by (cases ss) (auto intro!: wellFormed_append wellFormed_concat wellFormed_Cons)

lemma wellFormed_stringify: "wellFormed (stringify v)"
proof (induction v)
  case (JObj ms)
  then have "wellFormed (commaJoin (map (\<lambda>(k, v). quoteString k @ [0x3A] @ stringify v) ms))"
    by (intro wellFormed_commaJoin)
      (auto intro!: wellFormed_append wellFormed_Cons wellFormed_quoteString simp: snds.simps)
  then show ?case by (simp add: wellFormed_Cons)
next
  case (JArr vs)
  then have "wellFormed (commaJoin (map stringify vs))" by (intro wellFormed_commaJoin) auto
  then show ?case by (simp add: wellFormed_Cons)
qed (simp_all add: wellFormed_js wellFormed_decimal wellFormed_quoteString)

text \<open>The bytes of a rendered value determine it.\<close>

theorem stringify_utf8_inject: "utf8 (stringify v) = utf8 (stringify w) \<longleftrightarrow> v = w"
  using utf8_inject [OF wellFormed_scalar wellFormed_scalar, OF wellFormed_stringify wellFormed_stringify]
    stringify_inject by blast

end
