(* ===== verification/OrderModel.thy ===== *)
theory OrderModel
  imports JsonText
begin

text \<open>
  \<^verbatim>\<open>src/src/orders/model.ts\<close>: the limits, the request schema and the fingerprints of an order.
  A schema is a function from the raw text to the accepted (and possibly trimmed) value, \<open>None\<close>
  for a rejected one.  \<^verbatim>\<open>createHash("sha256")\<close> is the argument \<open>sha256\<close>, from the hashed bytes to
  the hex digest; what the program itself decides is the bytes it hashes, and the lemmas are about
  those.
\<close>

subsection \<open>Limits\<close>

definition MAX_REQUESTED_AMOUNT_CENTS :: int where
  "MAX_REQUESTED_AMOUNT_CENTS = 9999999998"

definition MAX_PAYABLE_AMOUNT_CENTS :: int where
  "MAX_PAYABLE_AMOUNT_CENTS = MAX_REQUESTED_AMOUNT_CENTS + 1"

definition MAX_IDEMPOTENCY_KEY_BYTES :: nat where
  "MAX_IDEMPOTENCY_KEY_BYTES = 256"

definition MAX_ORDER_PRODUCT_NAME_CHARACTERS :: nat where
  "MAX_ORDER_PRODUCT_NAME_CHARACTERS = 200"

definition MAX_ORDER_PRODUCT_NAME_BYTES :: nat where
  "MAX_ORDER_PRODUCT_NAME_BYTES = MAX_ORDER_PRODUCT_NAME_CHARACTERS * 4"

definition MAX_ORDER_NOTE_CHARACTERS :: nat where
  "MAX_ORDER_NOTE_CHARACTERS = 500"

definition MAX_ORDER_NOTE_BYTES :: nat where
  "MAX_ORDER_NOTE_BYTES = MAX_ORDER_NOTE_CHARACTERS * 4"

definition MAX_NOTIFY_URL_BYTES :: nat where
  "MAX_NOTIFY_URL_BYTES = 4096"

definition MAX_RETURN_URL_BYTES :: nat where
  "MAX_RETURN_URL_BYTES = 4096"

definition MAX_ORDER_CLOCK_AHEAD_MILLISECONDS :: int where
  "MAX_ORDER_CLOCK_AHEAD_MILLISECONDS = 5 * 60 * 1000"

definition DEFAULT_AMOUNT_REUSE_COOLDOWN_SECONDS :: int where
  "DEFAULT_AMOUNT_REUSE_COOLDOWN_SECONDS = 600"

definition MIN_AMOUNT_REUSE_COOLDOWN_SECONDS :: int where
  "MIN_AMOUNT_REUSE_COOLDOWN_SECONDS = 60"

definition MAX_AMOUNT_REUSE_COOLDOWN_SECONDS :: int where
  "MAX_AMOUNT_REUSE_COOLDOWN_SECONDS = 3600"

subsection \<open>The request schema\<close>

definition idempotencyKeySchema :: "jstr \<Rightarrow> jstr option" where
  "idempotencyKeySchema value =
     (if 1 \<le> length value \<and> value = trim value \<and> \<not> hasControlCharacter value \<and>
         hasOnlyUnicodeScalarValues value \<and> byteLength value \<le> MAX_IDEMPOTENCY_KEY_BYTES
      then Some value else None)"

definition orderProductNameSchema :: "jstr \<Rightarrow> jstr option" where
  "orderProductNameSchema value =
     (if hasOnlyUnicodeScalarValues value \<and> \<not> hasControlCharacter value then
        (let trimmed = trim value in
         if 1 \<le> unicodeCharacterCount trimmed \<and>
            unicodeCharacterCount trimmed \<le> MAX_ORDER_PRODUCT_NAME_CHARACTERS \<and>
            byteLength trimmed \<le> MAX_ORDER_PRODUCT_NAME_BYTES
         then Some trimmed else None)
      else None)"

text \<open>The inner \<open>None\<close> is the \<^verbatim>\<open>null\<close> an all-blank note becomes.\<close>

definition orderNoteSchema :: "jstr \<Rightarrow> jstr option option" where
  "orderNoteSchema value =
     (if hasOnlyUnicodeScalarValues value \<and> \<not> hasControlCharacter value then
        (let trimmed = trim value in
         if trimmed = [] then Some None
         else if unicodeCharacterCount trimmed \<le> MAX_ORDER_NOTE_CHARACTERS \<and>
                 byteLength trimmed \<le> MAX_ORDER_NOTE_BYTES
         then Some (Some trimmed) else None)
      else None)"

definition notifyUrlSchema :: "jstr \<Rightarrow> jstr option" where
  "notifyUrlSchema value =
     (if 1 \<le> length value \<and> value = trim value \<and> hasOnlyUnicodeScalarValues value \<and>
         \<not> hasControlCharacter value \<and> byteLength value \<le> MAX_NOTIFY_URL_BYTES
      then Some value else None)"

definition returnUrlSchema :: "jstr \<Rightarrow> jstr option" where
  "returnUrlSchema value =
     (if 1 \<le> length value \<and> value = trim value \<and> hasOnlyUnicodeScalarValues value \<and>
         \<not> hasControlCharacter value \<and> byteLength value \<le> MAX_RETURN_URL_BYTES
      then Some value else None)"

definition isAsciiAlphanumeric :: "16 word \<Rightarrow> bool" where
  "isAsciiAlphanumeric u \<longleftrightarrow> (let n = unat u in
     65 \<le> n \<and> n \<le> 90 \<or> 97 \<le> n \<and> n \<le> 122 \<or> 48 \<le> n \<and> n \<le> 57)"

definition isMerchantOrderUnit :: "16 word \<Rightarrow> bool" where
  "isMerchantOrderUnit u \<longleftrightarrow> isAsciiAlphanumeric u \<or> unat u = 46 \<or> unat u = 95 \<or> unat u = 45"

definition merchantOrderNumberSchema :: "jstr \<Rightarrow> jstr option" where
  "merchantOrderNumberSchema value =
     (if 1 \<le> length value \<and> length value \<le> 64 \<and>
         (case value of [] \<Rightarrow> False | u # _ \<Rightarrow> isAsciiAlphanumeric u) \<and>
         \<not> list_ex (\<lambda>u. \<not> isMerchantOrderUnit u) value
      then Some value else None)"

record createOrderRequest =
  idempotency_key :: jstr
  merchant_order_no :: jstr
  amount_cents :: int
  product_name :: jstr
  req_note :: "jstr option"
  notify_url :: "jstr option"
  return_url :: "jstr option"

text \<open>An optional field runs its schema only when it is present.\<close>

definition optionalField :: "('a \<Rightarrow> 'b option) \<Rightarrow> 'a option \<Rightarrow> 'b option option" where
  "optionalField schema field =
     (case field of None \<Rightarrow> Some None | Some value \<Rightarrow> map_option Some (schema value))"

definition createOrderRequestSchema :: "createOrderRequest \<Rightarrow> createOrderRequest option" where
  "createOrderRequestSchema r =
     Option.bind (idempotencyKeySchema (idempotency_key r)) (\<lambda>key.
     Option.bind (merchantOrderNumberSchema (merchant_order_no r)) (\<lambda>no.
     Option.bind (if 1 \<le> amount_cents r \<and> amount_cents r \<le> MAX_REQUESTED_AMOUNT_CENTS
                  then Some (amount_cents r) else None) (\<lambda>amount.
     Option.bind (orderProductNameSchema (product_name r)) (\<lambda>name.
     Option.bind (optionalField orderNoteSchema (req_note r)) (\<lambda>n.
     Option.bind (optionalField notifyUrlSchema (notify_url r)) (\<lambda>nurl.
     Option.bind (optionalField returnUrlSchema (return_url r)) (\<lambda>rurl.
       Some \<lparr>idempotency_key = key, merchant_order_no = no, amount_cents = amount,
             product_name = name, req_note = Option.bind n id, notify_url = nurl, return_url = rurl\<rparr>)))))))"

subsection \<open>Fingerprints\<close>

definition idempotencyPreimage :: "jstr \<Rightarrow> jstr \<Rightarrow> nat list" where
  "idempotencyPreimage apiClientId idempotencyKey =
     utf8 (js ''perpay:idempotency-key:v1'') @ [0] @ utf8 apiClientId @ [0] @ utf8 idempotencyKey"

definition digestIdempotencyKey :: "(nat list \<Rightarrow> string) \<Rightarrow> jstr \<Rightarrow> jstr \<Rightarrow> string" where
  "digestIdempotencyKey sha256 apiClientId idempotencyKey =
     sha256 (idempotencyPreimage apiClientId idempotencyKey)"

definition canonicalRequest :: "createOrderRequest \<Rightarrow> json" where
  "canonicalRequest request = JArr
     [JStr (js ''perpay:create-order-request''),
      JInt 1,
      JArr [JStr (js ''idempotency_key''), JStr (idempotency_key request)],
      JArr [JStr (js ''merchant_order_no''), JStr (merchant_order_no request)],
      JArr [JStr (js ''amount_cents''), JInt (amount_cents request)],
      JArr [JStr (js ''description''), JArr [JStr (js ''present''), JStr (product_name request)]]]"

definition fingerprintCreateOrderRequest :: "(nat list \<Rightarrow> string) \<Rightarrow> createOrderRequest \<Rightarrow> string" where
  "fingerprintCreateOrderRequest sha256 request = sha256 (utf8 (stringify (canonicalRequest request)))"

definition fingerprintOrderReturnUrl :: "(nat list \<Rightarrow> string) \<Rightarrow> jstr option \<Rightarrow> string" where
  "fingerprintOrderReturnUrl sha256 returnUrl =
     sha256 (utf8 (js ''perpay:order-return-url:v1'') @ [0] @
       utf8 (stringify (JArr [JInt 1, (case returnUrl of None \<Rightarrow> JNull | Some url \<Rightarrow> JStr url)])))"

definition fingerprintOrderNote :: "(nat list \<Rightarrow> string) \<Rightarrow> jstr option \<Rightarrow> string" where
  "fingerprintOrderNote sha256 noteText =
     sha256 (utf8 (js ''perpay:order-note:v1'') @ [0] @
       utf8 (case noteText of None \<Rightarrow> [] | Some n \<Rightarrow> n))"

definition orderEventDetailsFingerprint :: "(nat list \<Rightarrow> string) \<Rightarrow> jstr \<Rightarrow> string" where
  "orderEventDetailsFingerprint sha256 detailsJson =
     sha256 (utf8 (js ''perpay:order-event-details:v1'') @ [0] @ utf8 detailsJson)"

subsection \<open>What an accepted field satisfies\<close>

lemma codePoints_set_units:
  "u \<in> set s \<Longrightarrow> \<not> isHighSurrogate u \<Longrightarrow> \<not> isLowSurrogate u \<Longrightarrow> unat u \<in> set (codePoints s)"
  by (induction s rule: codePoints.induct) auto

lemma codePoints_without_surrogates:
  "(\<And>u. u \<in> set s \<Longrightarrow> \<not> isHighSurrogate u) \<Longrightarrow> codePoints s = map unat s"
  by (induction s rule: codePoints.induct) auto

lemma codePoints_Nil_iff [simp]: "codePoints s = [] \<longleftrightarrow> s = []"
  by (induction s rule: codePoints.induct) auto

lemma codePoints_append_subset_left:
  "cp \<in> set (codePoints s) \<Longrightarrow> \<not> isSurrogatePoint cp \<Longrightarrow> cp < 0x10000 \<Longrightarrow> unitOf cp \<in> set s"
  by (induction s rule: codePoints.induct) (auto split: if_splits)

lemma isControlPoint_bound: "isControlPoint cp \<Longrightarrow> cp < 0x10000 \<and> \<not> isSurrogatePoint cp"
  by (auto simp: isControlPoint_def isSurrogatePoint_def)

lemma isControlPoint_not_surrogate:
  assumes "isControlPoint (unat u)"
  shows "\<not> isHighSurrogate u" "\<not> isLowSurrogate u"
  using assms by (auto simp: isControlPoint_def isHighSurrogate_def isLowSurrogate_def)

lemma hasControlCharacter_units:
  "hasControlCharacter s \<longleftrightarrow> (\<exists>u \<in> set s. isControlPoint (unat u))"
proof
  assume "hasControlCharacter s"
  then obtain cp where "cp \<in> set (codePoints s)" "isControlPoint cp"
    by (auto simp: hasControlCharacter_def list_ex_iff)
  then show "\<exists>u \<in> set s. isControlPoint (unat u)"
    using codePoints_append_subset_left isControlPoint_bound
    by (metis unat_unitOf)
next
  assume "\<exists>u \<in> set s. isControlPoint (unat u)"
  then show "hasControlCharacter s"
    using codePoints_set_units isControlPoint_not_surrogate
    by (fastforce simp: hasControlCharacter_def list_ex_iff)
qed

lemma hasControlCharacter_trim: "\<not> hasControlCharacter s \<Longrightarrow> \<not> hasControlCharacter (trim s)"
  using set_trim_subset [of s] by (auto simp: hasControlCharacter_units)

lemma productName_accepted:
  assumes "orderProductNameSchema value = Some name"
  shows "name = trim value" "trim name = name" "name \<noteq> []"
    "unicodeCharacterCount name \<le> 200" "byteLength name \<le> 800" "\<not> hasControlCharacter name"
  using assms hasControlCharacter_trim [of "value"]
  by (auto simp: orderProductNameSchema_def Let_def trim_idem unicodeCharacterCount_def
      MAX_ORDER_PRODUCT_NAME_CHARACTERS_def MAX_ORDER_PRODUCT_NAME_BYTES_def split: if_splits)

lemma note_accepted:
  assumes "orderNoteSchema value = Some (Some n)"
  shows "n = trim value" "trim n = n" "n \<noteq> []"
    "unicodeCharacterCount n \<le> 500" "byteLength n \<le> 2000" "\<not> hasControlCharacter n"
  using assms hasControlCharacter_trim [of "value"]
  by (auto simp: orderNoteSchema_def Let_def trim_idem MAX_ORDER_NOTE_CHARACTERS_def
      MAX_ORDER_NOTE_BYTES_def split: if_splits)

text \<open>The byte limits of the name and the note follow from their character limits.\<close>

lemma productName_byte_limit_implied:
  "unicodeCharacterCount s \<le> MAX_ORDER_PRODUCT_NAME_CHARACTERS \<Longrightarrow>
   byteLength s \<le> MAX_ORDER_PRODUCT_NAME_BYTES"
  using byteLength_le [of s] by (simp add: MAX_ORDER_PRODUCT_NAME_BYTES_def)

lemma note_byte_limit_implied:
  "unicodeCharacterCount s \<le> MAX_ORDER_NOTE_CHARACTERS \<Longrightarrow> byteLength s \<le> MAX_ORDER_NOTE_BYTES"
  using byteLength_le [of s] by (simp add: MAX_ORDER_NOTE_BYTES_def)

end
