(* ===== verification/UrlTargets.thy ===== *)
theory UrlTargets
  imports OrderModel
begin

text \<open>
  The two URLs a merchant may attach to an order: the browser return target
  (\<^verbatim>\<open>src/src/orders/return-url.ts\<close>) and the notification target (\<^verbatim>\<open>prepareWebhookTarget\<close> of
  \<^verbatim>\<open>src/src/notifications/model.ts\<close>).  \<^verbatim>\<open>new URL(value)\<close> and \<^verbatim>\<open>isIP\<close> are the arguments \<open>parseUrl\<close>
  and \<open>isIP\<close>; \<open>urlStandard\<close> collects what the code relies on of the URL standard.
\<close>

record url =
  href :: jstr
  protocol :: jstr
  username :: jstr
  password :: jstr
  hostname :: jstr
  origin :: jstr
  pathname :: jstr
  search :: jstr
  hash :: jstr

record url_env =
  parseUrl :: "jstr \<Rightarrow> url option"
  isIP :: "jstr \<Rightarrow> nat"

definition urlStandard :: "url_env \<Rightarrow> bool" where
  "urlStandard env \<longleftrightarrow>
     (\<forall>v u. parseUrl env v = Some u \<longrightarrow>
        parseUrl env (href u) = Some u \<and> href u \<noteq> [] \<and> trim (href u) = href u \<and>
        \<not> hasControlCharacter (href u) \<and>
        (0x23 \<notin> set v \<longrightarrow> 0x23 \<notin> set (href u)) \<and>
        (v \<noteq> [] \<and> last v \<noteq> 0x3F \<and> 0x23 \<notin> set v \<longrightarrow> last (href u) \<noteq> 0x3F))"

subsection \<open>Host names\<close>

text \<open>\<open>dnsLabelPattern\<close>: letters, digits and inner hyphens, at most 63 of them.\<close>

definition isDnsLabel :: "jstr \<Rightarrow> bool" where
  "isDnsLabel label \<longleftrightarrow>
     label \<noteq> [] \<and> length label \<le> 63 \<and> isAsciiAlphanumeric (hd label) \<and> isAsciiAlphanumeric (last label) \<and>
     list_all (\<lambda>u. isAsciiAlphanumeric u \<or> unat u = 45) label"

fun splitOn :: "16 word \<Rightarrow> jstr \<Rightarrow> jstr list" where
  "splitOn sep [] = [[]]"
| "splitOn sep (u # us) =
     (if u = sep then [] # splitOn sep us
      else case splitOn sep us of [] \<Rightarrow> [[u]] | p # ps \<Rightarrow> (u # p) # ps)"

definition isValidWebhookDnsHostname :: "url_env \<Rightarrow> jstr \<Rightarrow> bool" where
  "isValidWebhookDnsHostname env host \<longleftrightarrow>
     \<not> (length host = 0 \<or> (host \<noteq> [] \<and> last host = 0x2E) \<or> byteLength host > 253 \<or> isIP env host \<noteq> 0) \<and>
     list_all (\<lambda>label. byteLength label \<le> 63 \<and> isDnsLabel label) (splitOn 0x2E host)"

subsection \<open>Escaped control characters\<close>

definition isHexUnit :: "16 word \<Rightarrow> bool" where
  "isHexUnit u \<longleftrightarrow> (let n = unat u in 48 \<le> n \<and> n \<le> 57 \<or> 97 \<le> n \<and> n \<le> 102 \<or> 65 \<le> n \<and> n \<le> 70)"

text \<open>The pattern \<open>/%(?:0[0-9a-f]|1[0-9a-f]|7f)/i\<close>.\<close>

fun hasEscapedControl :: "jstr \<Rightarrow> bool" where
  "hasEscapedControl (a # b # c # rest) \<longleftrightarrow>
     (a = 0x25 \<and> ((b = 0x30 \<or> b = 0x31) \<and> isHexUnit c \<or> b = 0x37 \<and> (c = 0x66 \<or> c = 0x46))) \<or>
     hasEscapedControl (b # c # rest)"
| "hasEscapedControl short \<longleftrightarrow> False"

subsection \<open>Return URLs\<close>

datatype return_url_error = ReturnUrlInvalid | ReturnUrlNotAllowed

text \<open>The checks both kinds of target make on the parsed URL, before the allowed origin.\<close>

definition isPlainHttpsTarget :: "url_env \<Rightarrow> jstr \<Rightarrow> url \<Rightarrow> bool" where
  "isPlainHttpsTarget env text u \<longleftrightarrow>
     \<not> (protocol u \<noteq> js ''https:'' \<or> username u \<noteq> [] \<or> password u \<noteq> [] \<or> 0x23 \<in> set text \<or>
        (text \<noteq> [] \<and> last text = 0x3F) \<or> hash u \<noteq> [] \<or> \<not> isValidWebhookDnsHostname env (hostname u))"

definition prepareReturnUrl :: "url_env \<Rightarrow> jstr \<Rightarrow> jstr option \<Rightarrow> return_url_error + jstr" where
  "prepareReturnUrl env text allowedOrigin =
     (if text \<noteq> trim text \<or> length text = 0 \<or> byteLength text > MAX_RETURN_URL_BYTES \<or>
         hasControlCharacter text
      then Inl ReturnUrlInvalid
      else case parseUrl env text of
        None \<Rightarrow> Inl ReturnUrlInvalid
      | Some u \<Rightarrow>
          if \<not> isPlainHttpsTarget env text u \<or> allowedOrigin = None \<or> Some (origin u) \<noteq> allowedOrigin \<or>
             hasEscapedControl (pathname u @ search u)
          then Inl ReturnUrlNotAllowed
          else if byteLength (href u) > MAX_RETURN_URL_BYTES then Inl ReturnUrlInvalid
          else Inr (href u))"

subsection \<open>Notification targets\<close>

datatype webhook_target_format = NATIVE_JSON_V1 | EPAY_V1 | EPAY_V2

datatype webhook_target_error = WebhookDisabled | WebhookTargetInvalid | WebhookTargetNotAllowed

record prepared_webhook_target =
  preparedFormat :: webhook_target_format
  preparedUrl :: jstr
  preparedAllowedOrigin :: jstr
  preparedUrlFingerprint :: string
  preparedRequestFingerprint :: string
  preparedRequestFingerprintVersion :: int

definition WEBHOOK_TARGET_FINGERPRINT_VERSION :: int where
  "WEBHOOK_TARGET_FINGERPRINT_VERSION = 1"

fun formatText :: "webhook_target_format \<Rightarrow> jstr" where
  "formatText NATIVE_JSON_V1 = js ''NATIVE_JSON_V1''"
| "formatText EPAY_V1 = js ''EPAY_V1''"
| "formatText EPAY_V2 = js ''EPAY_V2''"

definition fingerprintTuple :: "(nat list \<Rightarrow> string) \<Rightarrow> json list \<Rightarrow> string" where
  "fingerprintTuple sha items = sha (utf8 (stringify (JArr items)))"

definition prepareWebhookTarget ::
  "(nat list \<Rightarrow> string) \<Rightarrow> url_env \<Rightarrow> jstr \<Rightarrow> jstr \<Rightarrow> webhook_target_format
     \<Rightarrow> webhook_target_error + prepared_webhook_target"
where
  "prepareWebhookTarget sha env text allowed fmt =
     (if text \<noteq> trim text \<or> byteLength text > MAX_NOTIFY_URL_BYTES \<or> hasControlCharacter text
      then Inl WebhookTargetInvalid
      else case parseUrl env text of
        None \<Rightarrow> Inl WebhookTargetInvalid
      | Some u \<Rightarrow>
          if \<not> isPlainHttpsTarget env text u \<or> origin u \<noteq> allowed \<or>
             hasEscapedControl (pathname u @ search u)
          then Inl WebhookTargetNotAllowed
          else if byteLength (href u) > MAX_NOTIFY_URL_BYTES then Inl WebhookTargetInvalid
          else Inr \<lparr>preparedFormat = fmt,
                    preparedUrl = href u,
                    preparedAllowedOrigin = allowed,
                    preparedUrlFingerprint = fingerprintTuple sha
                      [JStr (js ''perpay:webhook-target-url''), JInt WEBHOOK_TARGET_FINGERPRINT_VERSION,
                       JStr (href u)],
                    preparedRequestFingerprint = fingerprintTuple sha
                      [JStr (js ''perpay:webhook-target-request''), JInt WEBHOOK_TARGET_FINGERPRINT_VERSION,
                       JStr (formatText fmt), JStr allowed, JStr (href u)],
                    preparedRequestFingerprintVersion = WEBHOOK_TARGET_FINGERPRINT_VERSION\<rparr>)"

subsection \<open>A prepared target prepares to itself\<close>

lemma isPlainHttpsTarget_href:
  assumes "urlStandard env" "parseUrl env text = Some u" "isPlainHttpsTarget env text u" "text \<noteq> []"
  shows "isPlainHttpsTarget env (href u) u"
  using assms by (auto simp: isPlainHttpsTarget_def urlStandard_def)

lemma prepareReturnUrl_normalized:
  assumes "urlStandard env" "prepareReturnUrl env text allowed = Inr url"
  shows "prepareReturnUrl env url allowed = Inr url"
proof -
  obtain u where u: "parseUrl env text = Some u" "isPlainHttpsTarget env text u" "url = href u"
      "allowed = Some (origin u)" "\<not> hasEscapedControl (pathname u @ search u)"
      "byteLength url \<le> MAX_RETURN_URL_BYTES" "text \<noteq> []"
    using assms(2) by (auto simp: prepareReturnUrl_def split: if_splits option.splits)
  have "parseUrl env url = Some u" "url \<noteq> []" "trim url = url" "\<not> hasControlCharacter url"
    using assms(1) u(1,3) by (auto simp: urlStandard_def)
  then show ?thesis
    using u isPlainHttpsTarget_href [OF assms(1) u(1,2,7)] by (simp add: prepareReturnUrl_def)
qed

lemma prepareWebhookTarget_normalized:
  assumes "urlStandard env" "text \<noteq> []" "prepareWebhookTarget sha env text allowed fmt = Inr p"
  shows "prepareWebhookTarget sha env (preparedUrl p) allowed fmt = Inr p"
proof -
  obtain u where u: "parseUrl env text = Some u" "isPlainHttpsTarget env text u" "preparedUrl p = href u"
      "allowed = origin u" "\<not> hasEscapedControl (pathname u @ search u)"
      "byteLength (href u) \<le> MAX_NOTIFY_URL_BYTES"
    using assms(3) by (auto simp: prepareWebhookTarget_def split: if_splits option.splits)
  have "parseUrl env (href u) = Some u" "trim (href u) = href u" "\<not> hasControlCharacter (href u)"
    using assms(1) u(1) by (auto simp: urlStandard_def)
  then show ?thesis
    using u isPlainHttpsTarget_href [OF assms(1) u(1,2) assms(2)] assms(3)
    by (auto simp: prepareWebhookTarget_def split: if_splits)
qed

end
