(* ===== verification/CheckoutToken.thy ===== *)
theory CheckoutToken
  imports OrderModel
begin

text \<open>
  \<^verbatim>\<open>src/src/orders/checkout-token.ts\<close>: the public capability of a checkout.  A token is the prefix
  \<open>pct1_\<close> and the base64url text of an HMAC-SHA-256 over the checkout identifier; a presented token
  is looked up only if it is canonical, that is the one base64url text of 32 bytes.  The HMAC is an
  argument, from the key and the message to the authentication bytes; base64url is modelled.
\<close>

subsection \<open>base64url\<close>

definition b64Char :: "nat \<Rightarrow> char" where
  "b64Char n = (if n < 26 then char_of (65 + n) else if n < 52 then char_of (71 + n)
     else if n < 62 then char_of (n - 4) else if n = 62 then CHR ''-'' else CHR ''_'')"

definition b64Value :: "char \<Rightarrow> nat" where
  "b64Value c = (let n = of_char c in
     if 65 \<le> n \<and> n \<le> 90 then n - 65 else if 97 \<le> n \<and> n \<le> 122 then n - 71
     else if 48 \<le> n \<and> n \<le> 57 then n + 4 else if n = 45 then 62 else 63)"

fun b64Encode :: "nat list \<Rightarrow> nat list" where
  "b64Encode (x # y # z # rest) =
     [x div 4, x mod 4 * 16 + y div 16, y mod 16 * 4 + z div 64, z mod 64] @ b64Encode rest"
| "b64Encode [x, y] = [x div 4, x mod 4 * 16 + y div 16, y mod 16 * 4]"
| "b64Encode [x] = [x div 4, x mod 4 * 16]"
| "b64Encode [] = []"

fun b64Decode :: "nat list \<Rightarrow> nat list" where
  "b64Decode (a # b # c # d # rest) =
     [a * 4 + b div 16, b mod 16 * 16 + c div 4, c mod 4 * 64 + d] @ b64Decode rest"
| "b64Decode [a, b, c] = [a * 4 + b div 16, b mod 16 * 16 + c div 4]"
| "b64Decode [a, b] = [a * 4 + b div 16]"
| "b64Decode [a] = []"
| "b64Decode [] = []"

definition base64urlEncode :: "nat list \<Rightarrow> string" where
  "base64urlEncode bytes = map b64Char (b64Encode bytes)"

definition base64urlDecode :: "string \<Rightarrow> nat list" where
  "base64urlDecode text = b64Decode (map b64Value text)"

lemma b64Decode_Encode: "list_all (\<lambda>x. x < 256) bytes \<Longrightarrow> b64Decode (b64Encode bytes) = bytes"
  by (induction bytes rule: b64Encode.induct) auto

lemma b64Encode_bound: "list_all (\<lambda>x. x < 256) bytes \<Longrightarrow> list_all (\<lambda>v. v < 64) (b64Encode bytes)"
  by (induction bytes rule: b64Encode.induct) auto

lemma length_b64Encode: "length (b64Encode bytes) = (4 * length bytes + 2) div 3"
  by (induction bytes rule: b64Encode.induct) auto

lemma b64Value_b64Char: "n < 64 \<Longrightarrow> b64Value (b64Char n) = n"
  by (auto simp: b64Value_def b64Char_def Let_def)

lemma base64url_roundtrip:
  assumes "list_all (\<lambda>x. x < 256) bytes"
  shows "base64urlDecode (base64urlEncode bytes) = bytes"
proof -
  have "map b64Value (map b64Char vs) = vs" if "list_all (\<lambda>v. v < 64) vs" for vs
    using that by (induction vs) (auto simp: b64Value_b64Char)
  then show ?thesis
    using b64Encode_bound [OF assms] b64Decode_Encode [OF assms]
    by (simp add: base64urlDecode_def base64urlEncode_def del: map_map)
qed

subsection \<open>Identifiers and tokens\<close>

definition isLowerHex :: "char \<Rightarrow> bool" where
  "isLowerHex c \<longleftrightarrow> (let n = of_char c :: nat in 48 \<le> n \<and> n \<le> 57 \<or> 97 \<le> n \<and> n \<le> 102)"

text \<open>\<open>[0-9a-f]{8}-[0-9a-f]{4}-[0-9a-f]{4}-[0-9a-f]{4}-[0-9a-f]{12}\<close>.\<close>

definition isCanonicalUuid :: "string \<Rightarrow> bool" where
  "isCanonicalUuid text \<longleftrightarrow>
     length text = 36 \<and>
     list_all (\<lambda>(i, c). if i \<in> {8, 13, 18, 23} then c = CHR ''-'' else isLowerHex c)
       (zip [0..<36] text)"

definition isB64Unit :: "char \<Rightarrow> bool" where
  "isB64Unit c \<longleftrightarrow> (let n = of_char c :: nat in
     65 \<le> n \<and> n \<le> 90 \<or> 97 \<le> n \<and> n \<le> 122 \<or> 48 \<le> n \<and> n \<le> 57 \<or> n = 45 \<or> n = 95)"

definition CHECKOUT_TOKEN_PREFIX :: string where
  "CHECKOUT_TOKEN_PREFIX = ''pct1_''"

definition CHECKOUT_TOKEN_DERIVATION_CONTEXT :: "nat list" where
  "CHECKOUT_TOKEN_DERIVATION_CONTEXT = map of_char ''perpay:checkout-token:v1'' @ [0]"

definition deriveCheckoutToken ::
  "(nat list \<Rightarrow> nat list \<Rightarrow> nat list) \<Rightarrow> nat list \<Rightarrow> string \<Rightarrow> store_error + string"
where
  "deriveCheckoutToken hmac key checkoutId =
     bindR (assertR (length key = 32)
              (RangeFailure ''Checkout token key must contain exactly 32 bytes.'')) (\<lambda>_.
     bindR (assertR (isCanonicalUuid checkoutId)
              (Failure ''Checkout ID must be a canonical lowercase UUID.'')) (\<lambda>_.
     Inr (CHECKOUT_TOKEN_PREFIX @
          base64urlEncode (hmac key (CHECKOUT_TOKEN_DERIVATION_CONTEXT @ map of_char checkoutId)))))"

definition isCanonicalCheckoutToken :: "string \<Rightarrow> bool" where
  "isCanonicalCheckoutToken token \<longleftrightarrow>
     take 5 token = CHECKOUT_TOKEN_PREFIX \<and> length (drop 5 token) = 43 \<and>
     list_all isB64Unit (drop 5 token) \<and>
     (let payload = drop 5 token; decoded = base64urlDecode payload
      in length decoded = 32 \<and> base64urlEncode decoded = payload)"

definition digestCheckoutToken :: "(nat list \<Rightarrow> string) \<Rightarrow> string \<Rightarrow> store_error + string" where
  "digestCheckoutToken sha token =
     bindR (assertR (isCanonicalCheckoutToken token) (Failure ''Checkout token is not canonical.''))
       (\<lambda>_. Inr (sha (map of_char token)))"

text \<open>What the code relies on of HMAC-SHA-256: 32 bytes come out.\<close>

definition hmacBytes :: "(nat list \<Rightarrow> nat list \<Rightarrow> nat list) \<Rightarrow> bool" where
  "hmacBytes hmac \<longleftrightarrow> (\<forall>key message. length (hmac key message) = 32 \<and>
     list_all (\<lambda>x. x < 256) (hmac key message))"

lemma isB64Unit_b64Char: "n < 64 \<Longrightarrow> isB64Unit (b64Char n)"
  by (auto simp: isB64Unit_def b64Char_def Let_def)

lemma base64urlEncode_units:
  "list_all (\<lambda>x. x < 256) bytes \<Longrightarrow> list_all isB64Unit (base64urlEncode bytes)"
  using b64Encode_bound [of bytes] isB64Unit_b64Char
  by (auto simp: base64urlEncode_def list_all_iff)

lemma derived_token_canonical:
  assumes "hmacBytes hmac" "deriveCheckoutToken hmac key cid = Inr token"
  shows "isCanonicalCheckoutToken token"
proof -
  let ?bytes = "hmac key (CHECKOUT_TOKEN_DERIVATION_CONTEXT @ map of_char cid)"
  have b: "length ?bytes = 32" "list_all (\<lambda>x. x < 256) ?bytes"
    using assms(1) by (simp_all add: hmacBytes_def)
  have token: "token = ''pct1_'' @ base64urlEncode ?bytes"
    using assms(2) by (auto simp: deriveCheckoutToken_def result_simps CHECKOUT_TOKEN_PREFIX_def)
  have "length (base64urlEncode ?bytes) = 43"
    using b(1) by (simp add: base64urlEncode_def length_b64Encode)
  then show ?thesis
    using b base64url_roundtrip [OF b(2)] base64urlEncode_units [OF b(2)]
    by (simp add: isCanonicalCheckoutToken_def token CHECKOUT_TOKEN_PREFIX_def Let_def)
qed

text \<open>A canonical token is determined by the bytes it carries.\<close>

lemma canonical_token_inject:
  assumes "isCanonicalCheckoutToken s" "isCanonicalCheckoutToken t"
    "base64urlDecode (drop 5 s) = base64urlDecode (drop 5 t)"
  shows "s = t"
proof -
  have "drop 5 s = drop 5 t" using assms by (auto simp: isCanonicalCheckoutToken_def Let_def)
  moreover have "take 5 s = take 5 t" using assms by (simp add: isCanonicalCheckoutToken_def)
  ultimately show ?thesis by (metis append_take_drop_id)
qed

end
