(* ===== verification/OrderRows.thy ===== *)
theory OrderRows
  imports UrlTargets CheckoutToken
begin

text \<open>
  The rows the order store works on (\<^verbatim>\<open>src/src/orders/model.ts\<close>, \<^verbatim>\<open>src/src/database/order-store.ts\<close>)
  and the SQL constraints and triggers that act on them (\<^verbatim>\<open>src/src/database/migrations.ts\<close>, and the
  per-account slot table of \<^verbatim>\<open>src/src/alipay-accounts/schema.ts\<close>).  A table is the list of its rows in
  insertion order; a row-level \<open>RAISE(ABORT)\<close> or \<open>CHECK\<close> is a \<open>SqlAbort\<close>.  The schema modelled
  is the current one, in which every profile, order and slot has its Alipay account column.
\<close>

datatype checkout_status = OPEN | EXPIRED | CLOSED

datatype payment_status = UNPAID | CONFIRMED | DISPUTED

datatype refund_status = RefundNone | RefundPartial | RefundFull

datatype payment_basis = BasisNone | BasisInferred | BasisManual

record payment_order =
  orderId :: string
  apiClientId :: jstr
  alipayAccountId :: string
  merchantOrderNo :: jstr
  idempotencyKeyDigest :: string
  idempotencyKeyDigestVersion :: int
  requestFingerprint :: string
  requestFingerprintVersion :: int
  webhookTargetRequestFingerprint :: "string option"
  requestedAmountCents :: int
  payableAmountCents :: int
  allocationOffsetMaximumCents :: int
  amountReuseCooldownSeconds :: int
  receivedAmountCents :: "int option"
  productName :: jstr
  orderNote :: "jstr option"
  noteFingerprint :: string
  noteFingerprintVersion :: int
  returnUrl :: "jstr option"
  returnUrlFingerprint :: string
  returnUrlFingerprintVersion :: int
  collectionProfileId :: string
  checkoutStatus :: checkout_status
  paymentStatus :: payment_status
  refundStatus :: refund_status
  paymentBasis :: payment_basis
  eligibleFrom :: int
  createdAt :: int
  expiresAt :: int
  closedAt :: "int option"
  updatedAt :: int
  version :: int

record amount_slot =
  slotId :: string
  slotOrderId :: string
  slotAccountId :: string
  slotProfileId :: string
  slotAmountCents :: int
  generation :: int
  occupiedFrom :: int
  releasedAt :: "int option"
  releaseReason :: "checkout_status option"

datatype order_event_type =
    CREATED
  | CHECKOUT_CLOSED
  | CHECKOUT_EXPIRED
  | PAYMENT_CONFIRMED
  | PAYMENT_DISPUTED
  | REFUND_UPDATED

text \<open>
  The details objects of order events, before \<^verbatim>\<open>JSON.stringify\<close>: those of the order store, and those
  the reconciliation writes for a payment decision (operation, match, candidate, kind of evidence).
\<close>

datatype order_event_details =
    CreatedDetails (amountOffsetCents: int) (slotGeneration: int)
  | ReasonDetails (detailsReason: string)
  | DecisionDetails string string "string option" "string option"

record order_event =
  eventId :: string
  eventOrderId :: string
  eventSequence :: int
  eventType :: order_event_type
  occurredAt :: int
  eventDetails :: order_event_details

record checkout_session =
  checkoutId :: string
  checkoutOrderId :: string
  tokenDigest :: string
  tokenKeyVersion :: int
  terminalObservationMilliseconds :: int

record collection_profile =
  profileId :: string
  profileAccountId :: string
  profileVersion :: int
  providerAccountKey :: string
  codePayload :: jstr
  payloadFingerprint :: string
  profileFingerprint :: string
  profileCreatedAt :: int

record profile_activation =
  activationId :: string
  activationSequence :: int
  activatedProfileId :: string
  previousProfileId :: "string option"
  activationTime :: int

record checkout_token_key =
  keyVersion :: int
  keyMaterial :: "nat list"
  activatedAt :: int
  retiredAt :: "int option"

record stored_webhook_target =
  targetId :: string
  targetOrderId :: string
  targetClientId :: jstr
  targetFormat :: webhook_target_format
  targetUrl :: jstr
  targetAllowedOrigin :: jstr
  targetUrlFingerprint :: string
  targetRequestFingerprint :: string
  targetRequestFingerprintVersion :: int
  targetCreatedAt :: int

datatype epay_protocol = EpayProtocolV1 | EpayProtocolV2

record epay_order =
  epayOrderId :: string
  epaySiteId :: jstr
  epayPid :: int
  epayTradeNo :: int
  epayProtocol :: epay_protocol
  epayRequestFingerprint :: string
  epayParam :: "jstr option"
  epayReturnUrl :: "jstr option"
  epayCreatedAt :: int

record epay_site =
  epaySite :: jstr
  epaySitePid :: int
  epayRevision :: int
  epayV1Enabled :: bool
  epayV2Enabled :: bool

record site_row =
  siteClientId :: jstr
  siteRevision :: int
  acceptingOrders :: bool
  pendingOrderLimit :: "int option"
  notificationsEnabled :: bool
  notificationOrigin :: "jstr option"

datatype audit_actor = ActorSystem | ActorAdmin | ActorApiClient

record order_audit =
  auditOccurredAt :: int
  auditActorType :: audit_actor
  auditAction :: string
  auditOrderId :: string
  auditOrderVersion :: int
  auditRequestedCents :: int
  auditPayableCents :: int
  auditCheckoutStatus :: checkout_status

record order_db =
  orderClock :: int
  paymentOrders :: "payment_order list"
  amountSlots :: "amount_slot list"
  orderEvents :: "order_event list"
  checkoutSessions :: "checkout_session list"
  collectionProfiles :: "collection_profile list"
  profileProviderLinks :: "(string \<times> string) list"
  providerBindings :: "string list"
  activeProfile :: "(string \<times> int) option"
  profileActivations :: "profile_activation list"
  tokenKeys :: "checkout_token_key list"
  webhookTargets :: "stored_webhook_target list"
  epayOrders :: "epay_order list"
  epaySites :: "epay_site list"
  siteRows :: "site_row list"
  apiClients :: "jstr list"
  idempotencyNamespaces :: "(jstr \<times> jstr) list"
  orderAudits :: "order_audit list"

subsection \<open>The constraints of an ended order\<close>

text \<open>
  The guards an \<open>UPDATE\<close> that ends a checkout runs into: \<open>updated_at\<close> does not move back, and the
  \<open>CHECK\<close> ties the end time to the expiry.
\<close>

definition endTimeAllowed :: "checkout_status \<Rightarrow> int \<Rightarrow> payment_order \<Rightarrow> bool" where
  "endTimeAllowed status now ord \<longleftrightarrow>
     updatedAt ord \<le> now \<and>
     (case status of
        OPEN \<Rightarrow> False
      | CLOSED \<Rightarrow> createdAt ord \<le> now \<and> now < expiresAt ord
      | EXPIRED \<Rightarrow> expiresAt ord \<le> now)"

definition endOrder :: "checkout_status \<Rightarrow> int \<Rightarrow> payment_order \<Rightarrow> payment_order" where
  "endOrder status now ord =
     ord\<lparr>checkoutStatus := status, closedAt := Some now, updatedAt := now, version := version ord + 1\<rparr>"

definition releaseSlot :: "checkout_status \<Rightarrow> int \<Rightarrow> amount_slot \<Rightarrow> amount_slot" where
  "releaseSlot status now slot = slot\<lparr>releasedAt := Some now, releaseReason := Some status\<rparr>"

definition slotIsActiveOf :: "string \<Rightarrow> amount_slot \<Rightarrow> bool" where
  "slotIsActiveOf oid slot \<longleftrightarrow> slotOrderId slot = oid \<and> releasedAt slot = None"

text \<open>
  \<open>UPDATE payment_orders SET checkout_status, closed_at, updated_at, version + 1 WHERE order_id = ?
  AND checkout_status = 'OPEN' AND ...\<close> together with the trigger
  \<^verbatim>\<open>payment_orders_release_amount_slot\<close>, which must release exactly one slot.  The result carries the
  number of changed orders.
\<close>

definition endCheckout ::
  "checkout_status \<Rightarrow> string \<Rightarrow> (payment_order \<Rightarrow> bool) \<Rightarrow> int \<Rightarrow> order_db \<Rightarrow> store_error + nat \<times> order_db"
where
  "endCheckout status oid guard now db =
     (let p = (\<lambda>ord. orderId ord = oid \<and> checkoutStatus ord = OPEN \<and> guard ord);
          n = changes p (paymentOrders db)
      in if n = 0 then Inr (0, db)
         else bindR (assertR (list_all (\<lambda>ord. p ord \<longrightarrow> endTimeAllowed status now ord) (paymentOrders db))
                (SqlAbort ''payment order update''))
              (\<lambda>_. bindR (assertR (changes (slotIsActiveOf oid) (amountSlots db) = 1)
                (SqlAbort ''terminal order must release exactly one amount slot''))
              (\<lambda>_. bindR (assertR (list_all (\<lambda>s. slotIsActiveOf oid s \<longrightarrow> occupiedFrom s \<le> now) (amountSlots db))
                (SqlAbort ''amount slot release time''))
              (\<lambda>_. Inr (n, db\<lparr>paymentOrders := updateRows p (endOrder status now) (paymentOrders db),
                              amountSlots := updateRows (slotIsActiveOf oid) (releaseSlot status now)
                                               (amountSlots db)\<rparr>)))))"

subsection \<open>Inserting an order event\<close>

fun eventMatchesOrder :: "order_event_type \<Rightarrow> payment_order \<Rightarrow> bool" where
  "eventMatchesOrder CREATED ord \<longleftrightarrow>
     version ord = 1 \<and> checkoutStatus ord = OPEN \<and> paymentStatus ord = UNPAID"
| "eventMatchesOrder CHECKOUT_CLOSED ord \<longleftrightarrow> checkoutStatus ord = CLOSED"
| "eventMatchesOrder CHECKOUT_EXPIRED ord \<longleftrightarrow> checkoutStatus ord = EXPIRED"
| "eventMatchesOrder PAYMENT_CONFIRMED ord \<longleftrightarrow> paymentStatus ord = CONFIRMED"
| "eventMatchesOrder PAYMENT_DISPUTED ord \<longleftrightarrow> paymentStatus ord = DISPUTED"
| "eventMatchesOrder REFUND_UPDATED ord \<longleftrightarrow> refundStatus ord \<noteq> RefundNone"

text \<open>The trigger \<^verbatim>\<open>order_events_valid_insert\<close> and the \<open>UNIQUE (order_id, sequence)\<close> key.\<close>

definition orderEventAllowed :: "order_event \<Rightarrow> order_db \<Rightarrow> bool" where
  "orderEventAllowed e db \<longleftrightarrow>
     list_ex (\<lambda>ord. orderId ord = eventOrderId e \<and> version ord = eventSequence e \<and>
                  updatedAt ord = occurredAt e \<and> eventMatchesOrder (eventType e) ord) (paymentOrders db) \<and>
     \<not> list_ex (\<lambda>x. eventOrderId x = eventOrderId e \<and> eventSequence x = eventSequence e) (orderEvents db)"

text \<open>
  What one transaction takes from outside: the physical clock, the wall clock the monotonic timer
  predicts (in microseconds; \<open>None\<close> when the store was given its own clock), the URL
  parser, SHA-256 and HMAC-SHA-256, \<^verbatim>\<open>randomBytes(32)\<close>, the random identifiers of the rows
  it may insert (\<open>newEventId n\<close> for the \<open>n\<close>-th event), and the audit actor of the request, if any.
\<close>

record order_env =
  physicalClock :: int
  urlEnv :: url_env
  expectedPhysicalMicros :: "int option"
  sha256 :: "nat list \<Rightarrow> string"
  hmacSha256 :: "nat list \<Rightarrow> nat list \<Rightarrow> nat list"
  randomKey :: "nat list"
  newOrderId :: string
  newCheckoutId :: string
  newSlotId :: string
  newTargetId :: string
  newProfileId :: string
  newActivationId :: string
  newEventId :: "nat \<Rightarrow> string"
  auditActor :: "audit_actor option"

definition orderEventAudit :: "order_env \<Rightarrow> order_event \<Rightarrow> payment_order \<Rightarrow> order_audit" where
  "orderEventAudit env e ord =
     \<lparr>auditOccurredAt = occurredAt e,
      auditActorType =
        (if eventType e = CHECKOUT_EXPIRED then ActorSystem
         else case auditActor env of None \<Rightarrow> ActorSystem | Some a \<Rightarrow> a),
      auditAction =
        (if eventType e = CREATED then ''orders.created''
         else if eventType e = CHECKOUT_CLOSED then ''orders.checkout_closed''
         else ''orders.checkout_expired''),
      auditOrderId = eventOrderId e,
      auditOrderVersion = eventSequence e,
      auditRequestedCents = requestedAmountCents ord,
      auditPayableCents = payableAmountCents ord,
      auditCheckoutStatus = checkoutStatus ord\<rparr>"

definition insertOrderEvent ::
  "order_env \<Rightarrow> string \<Rightarrow> int \<Rightarrow> order_event_type \<Rightarrow> int \<Rightarrow> order_event_details \<Rightarrow> order_db
     \<Rightarrow> store_error + order_db"
where
  "insertOrderEvent env oid seqn ty at details db =
     (let e = \<lparr>eventId = newEventId env (length (orderEvents db)), eventOrderId = oid, eventSequence = seqn,
               eventType = ty, occurredAt = at, eventDetails = details\<rparr>
      in bindR (assertR (orderEventAllowed e db)
                 (SqlAbort ''order event must match the current order version''))
           (\<lambda>_. case List.find (\<lambda>ord. orderId ord = oid) (paymentOrders db) of
                  None \<Rightarrow> Inl (Failure ''order row is missing'')
                | Some ord \<Rightarrow>
                    Inr (db\<lparr>orderEvents := orderEvents db @ [e],
                            orderAudits := orderAudits db @ [orderEventAudit env e ord]\<rparr>)))"

subsection \<open>Inserting an amount slot\<close>

definition slotsAt :: "string \<Rightarrow> int \<Rightarrow> order_db \<Rightarrow> amount_slot list" where
  "slotsAt account amount db =
     filter (\<lambda>s. slotAccountId s = account \<and> slotAmountCents s = amount) (amountSlots db)"

text \<open>\<open>ORDER BY generation DESC LIMIT 1\<close>.\<close>

definition newestSlot :: "amount_slot list \<Rightarrow> amount_slot option" where
  "newestSlot slots =
     fold (\<lambda>s best. case best of None \<Rightarrow> Some s
                     | Some b \<Rightarrow> if generation b < generation s then Some s else Some b) slots None"

definition orderOfSlot :: "order_db \<Rightarrow> amount_slot \<Rightarrow> payment_order option" where
  "orderOfSlot db slot = List.find (\<lambda>ord. orderId ord = slotOrderId slot) (paymentOrders db)"

text \<open>
  When the checkout of an order ended for the purpose of reusing its amount: an order that expired
  counts from its deadline, whenever the expiry was noticed.
\<close>

definition endedAt :: "payment_order \<Rightarrow> int option" where
  "endedAt ord = (if checkoutStatus ord = EXPIRED then Some (expiresAt ord) else closedAt ord)"

text \<open>
  The \<open>BEFORE INSERT\<close> triggers \<^verbatim>\<open>amount_slots_valid_insert\<close>, \<^verbatim>\<open>amount_slots_generation_step\<close>,
  \<^verbatim>\<open>amount_slots_no_overlap\<close> and \<^verbatim>\<open>amount_slots_cooldown_guard\<close>.
\<close>

definition slotInsertAllowed :: "amount_slot \<Rightarrow> order_db \<Rightarrow> bool" where
  "slotInsertAllowed slot db \<longleftrightarrow>
     releasedAt slot = None \<and> releaseReason slot = None \<and>
     list_ex (\<lambda>ord. orderId ord = slotOrderId slot \<and> collectionProfileId ord = slotProfileId slot \<and>
                  payableAmountCents ord = slotAmountCents slot \<and> alipayAccountId ord = slotAccountId slot \<and>
                  eligibleFrom ord = occupiedFrom slot \<and> checkoutStatus ord = OPEN) (paymentOrders db) \<and>
     (case newestSlot (slotsAt (slotAccountId slot) (slotAmountCents slot) db) of
        None \<Rightarrow> generation slot = 1
      | Some previous \<Rightarrow>
          generation slot = generation previous + 1 \<and>
          (case releasedAt previous of None \<Rightarrow> False | Some t \<Rightarrow> t \<le> occupiedFrom slot) \<and>
          (case orderOfSlot db previous of None \<Rightarrow> True
           | Some ord \<Rightarrow>
               (case endedAt ord of None \<Rightarrow> True
                | Some t \<Rightarrow> t + amountReuseCooldownSeconds ord * 1000 \<le> occupiedFrom slot)))"

definition insertAmountSlot :: "amount_slot \<Rightarrow> order_db \<Rightarrow> store_error + order_db" where
  "insertAmountSlot slot db =
     bindR (assertR (slotInsertAllowed slot db) (SqlAbort ''amount slot insert''))
       (\<lambda>_. Inr (db\<lparr>amountSlots := amountSlots db @ [slot]\<rparr>))"

lemma newestSlot_fold:
  "fold (\<lambda>s best. case best of None \<Rightarrow> Some s
           | Some b \<Rightarrow> if generation b < generation s then Some s else Some b) slots (Some b0) = Some b \<Longrightarrow>
   b \<in> insert b0 (set slots) \<and> (\<forall>s \<in> insert b0 (set slots). generation s \<le> generation b)"
proof (induction slots arbitrary: b0)
  case Nil
  then show ?case by simp
next
  case (Cons s slots)
  show ?case
  proof (cases "generation b0 < generation s")
    case True
    then show ?thesis using Cons.IH [of s] Cons.prems by force
  next
    case False
    then show ?thesis using Cons.IH [of b0] Cons.prems by force
  qed
qed

lemma newestSlot_fold_Some:
  "\<exists>b. fold (\<lambda>s best. case best of None \<Rightarrow> Some s
           | Some b \<Rightarrow> if generation b < generation s then Some s else Some b) slots (Some b0) = Some b"
  by (induction slots arbitrary: b0) auto

lemma newestSlot_Some:
  assumes "newestSlot slots = Some s"
  shows "s \<in> set slots" "\<And>t. t \<in> set slots \<Longrightarrow> generation t \<le> generation s"
proof -
  obtain x xs where xs: "slots = x # xs"
    using assms by (cases slots) (auto simp: newestSlot_def)
  show "s \<in> set slots" "\<And>t. t \<in> set slots \<Longrightarrow> generation t \<le> generation s"
    using newestSlot_fold [of xs x s] assms xs by (auto simp: newestSlot_def)
qed

lemma newestSlot_None_iff: "newestSlot slots = None \<longleftrightarrow> slots = []"
proof (cases slots)
  case (Cons x xs)
  then show ?thesis using newestSlot_fold_Some [of xs x] by (auto simp: newestSlot_def)
qed (simp add: newestSlot_def)

end
