(* ===== verification/OrderSlots.thy ===== *)
theory OrderSlots
  imports OrderRows
begin

text \<open>
  The clock, the expiry of checkouts and the allocation of payable amounts of
  \<^verbatim>\<open>src/src/database/order-store.ts\<close>.  A customer pays a static collection code, so the amount is all
  that identifies the order: an open order holds its payable amount on its Alipay account alone, and
  an ended one holds it until its cooldown is over.
\<close>

subsection \<open>The logical clock\<close>

definition assertOrderClockIsUsable :: "int \<Rightarrow> int \<Rightarrow> store_error + unit" where
  "assertOrderClockIsUsable logicalNow physicalNow =
     assertR (\<not> logicalNow - physicalNow > MAX_ORDER_CLOCK_AHEAD_MILLISECONDS) OrderClockFailure"

definition readPhysicalTime :: "order_env \<Rightarrow> store_error + int" where
  "readPhysicalTime env =
     bindR (assertR (isSafeInteger (physicalClock env) \<and> \<not> physicalClock env < 0)
              (RangeFailure ''order clock must return a non-negative safe integer'')) (\<lambda>_.
     bindR (case expectedPhysicalMicros env of
              None \<Rightarrow> Inr ()
            | Some expected \<Rightarrow>
                assertR (\<not> \<bar>physicalClock env * 1000 - expected\<bar> > MAX_ORDER_CLOCK_AHEAD_MILLISECONDS * 1000)
                  OrderClockFailure) (\<lambda>_.
     Inr (physicalClock env)))"

definition readOrderClock :: "order_db \<Rightarrow> store_error + int" where
  "readOrderClock db = toSafeInteger (orderClock db) ''logical order time''"

definition logicalNow :: "order_env \<Rightarrow> order_db \<Rightarrow> store_error + int \<times> order_db" where
  "logicalNow env db =
     bindR (readPhysicalTime env) (\<lambda>physicalNow.
     bindR (readOrderClock db) (\<lambda>logical.
     bindR (assertOrderClockIsUsable logical physicalNow) (\<lambda>_.
     (let now = max (orderClock db) physicalNow
      in bindR (toSafeInteger now ''logical order time'') (\<lambda>t.
         Inr (t, db\<lparr>orderClock := now\<rparr>))))))"

subsection \<open>Expiry\<close>

definition expireOrder :: "order_env \<Rightarrow> string \<Rightarrow> int \<Rightarrow> order_db \<Rightarrow> store_error + order_db" where
  "expireOrder env oid now db =
     (case List.find (\<lambda>r. orderId r = oid \<and> checkoutStatus r = OPEN) (paymentOrders db) of
        None \<Rightarrow> Inr db
      | Some row \<Rightarrow>
          bindR (toSafeInteger (expiresAt row) ''order expiry'') (\<lambda>expiry.
          if expiry > now then Inr db
          else
            bindR (toSafeInteger (version row) ''order version'') (\<lambda>v.
            bindR (endCheckout EXPIRED oid (\<lambda>r. expiresAt r \<le> now) now db) (\<lambda>(n, db').
            bindR (assertChangedOnce n ''checkout expiry'') (\<lambda>_.
            insertOrderEvent env oid (v + 1) CHECKOUT_EXPIRED now (ReasonDetails ''ttl_elapsed'') db')))))"

fun expireOrders :: "order_env \<Rightarrow> string list \<Rightarrow> int \<Rightarrow> order_db \<Rightarrow> store_error + order_db" where
  "expireOrders env [] now db = Inr db"
| "expireOrders env (oid # oids) now db = bindR (expireOrder env oid now db) (expireOrders env oids now)"

definition EXPIRY_SWEEP_LIMIT :: nat where
  "EXPIRY_SWEEP_LIMIT = 256"

definition dueOrders :: "int \<Rightarrow> order_db \<Rightarrow> payment_order list" where
  "dueOrders now db =
     sort_key (\<lambda>r. (expiresAt r, orderId r))
       (filter (\<lambda>r. checkoutStatus r = OPEN \<and> expiresAt r \<le> now) (paymentOrders db))"

definition expireDueOrders :: "order_env \<Rightarrow> int \<Rightarrow> nat \<Rightarrow> order_db \<Rightarrow> store_error + order_db" where
  "expireDueOrders env now limit db =
     expireOrders env (map orderId (take limit (dueOrders now db))) now db"

definition expireOrderByIdIfDue ::
  "order_env \<Rightarrow> jstr \<Rightarrow> string \<Rightarrow> int \<Rightarrow> order_db \<Rightarrow> store_error + order_db"
where
  "expireOrderByIdIfDue env client oid now db =
     (case List.find (\<lambda>r. orderId r = oid \<and> apiClientId r = client \<and> checkoutStatus r = OPEN)
             (paymentOrders db) of
        None \<Rightarrow> Inr db
      | Some row \<Rightarrow>
          bindR (toSafeInteger (expiresAt row) ''order expiry'') (\<lambda>expiry.
          if expiry \<le> now then expireOrder env oid now db else Inr db))"

subsection \<open>Allocating an amount\<close>

datatype amount_allocation = Allocated int int | Exhausted int

definition amountReuseAvailableAt :: "int \<Rightarrow> int \<Rightarrow> store_error + int" where
  "amountReuseAvailableAt ended cooldownSeconds =
     (let availableAt = ended + cooldownSeconds * 1000
      in bindR (assertR (isSafeInteger availableAt)
                 (Failure ''amount reuse time is outside the safe integer range''))
           (\<lambda>_. Inr availableAt))"

definition minimumDefined :: "int option \<Rightarrow> int \<Rightarrow> int" where
  "minimumDefined current candidate =
     (case current of None \<Rightarrow> candidate | Some c \<Rightarrow> min c candidate)"

text \<open>The slot rows of an amount joined with their orders, newest generation first.\<close>

definition latestSlot :: "string \<Rightarrow> int \<Rightarrow> order_db \<Rightarrow> (amount_slot \<times> payment_order) option" where
  "latestSlot account amount db =
     (case newestSlot (filter (\<lambda>s. orderOfSlot db s \<noteq> None) (slotsAt account amount db)) of
        None \<Rightarrow> None
      | Some slot \<Rightarrow> map_option (Pair slot) (orderOfSlot db slot))"

datatype slot_verdict = SlotFree int | SlotBusy int

text \<open>
  What the loop body decides for one offset once no open order is in the way: a fresh or a reusable
  amount with its generation, or the time at which the amount becomes reusable.
\<close>

definition assessLatestSlot :: "string \<Rightarrow> int \<Rightarrow> int \<Rightarrow> order_db \<Rightarrow> store_error + slot_verdict" where
  "assessLatestSlot account amount now db =
     (case latestSlot account amount db of
        None \<Rightarrow> Inr (SlotFree 1)
      | Some (slot, ord) \<Rightarrow>
          (case releasedAt slot of
             None \<Rightarrow> Inl (Failure ''active amount slot is detached from its open order'')
           | Some released \<Rightarrow>
               if checkoutStatus ord = OPEN \<or> closedAt ord = None
               then Inl (Failure ''released amount slot has no terminal order'')
               else
                 bindR (if checkoutStatus ord = EXPIRED then toSafeInteger (expiresAt ord) ''order expiry''
                        else toSafeInteger (the (closedAt ord)) ''order close time'') (\<lambda>ended.
                 bindR (toSafeInteger released ''amount slot release time'') (\<lambda>releaseTime.
                 bindR (toSafeInteger (amountReuseCooldownSeconds ord) ''amount reuse cooldown'') (\<lambda>cooldown.
                 bindR (amountReuseAvailableAt ended cooldown) (\<lambda>reuse.
                 (let availableAt = max releaseTime reuse
                  in if availableAt > now then Inr (SlotBusy availableAt)
                     else bindR (toSafeInteger (generation slot) ''amount slot generation'') (\<lambda>g.
                          bindR (assertR (isSafeInteger (g + 1))
                                  (Failure ''amount slot generation is outside the safe integer range''))
                            (\<lambda>_. Inr (SlotFree (g + 1)))))))))))"

definition assessOffset ::
  "order_env \<Rightarrow> string \<Rightarrow> int \<Rightarrow> int \<Rightarrow> order_db \<Rightarrow> store_error + slot_verdict \<times> order_db"
where
  "assessOffset env account amount now db =
     (case List.find (\<lambda>r. alipayAccountId r = account \<and> payableAmountCents r = amount \<and>
                          checkoutStatus r = OPEN) (paymentOrders db) of
        None \<Rightarrow> bindR (assessLatestSlot account amount now db) (\<lambda>v. Inr (v, db))
      | Some row \<Rightarrow>
          bindR (toSafeInteger (expiresAt row) ''order expiry'') (\<lambda>expiry.
          if expiry \<le> now then
            bindR (expireOrder env (orderId row) now db) (\<lambda>db'.
            bindR (assessLatestSlot account amount now db') (\<lambda>v. Inr (v, db')))
          else
            bindR (toSafeInteger (amountReuseCooldownSeconds row) ''amount reuse cooldown'') (\<lambda>cooldown.
            bindR (amountReuseAvailableAt expiry cooldown) (\<lambda>reuse. Inr (SlotBusy reuse, db)))))"

text \<open>
  The loop \<open>for (offset = 1; offset <= maximum; offset += 1)\<close>: \<open>remaining\<close> is the number of offsets
  left to try, so it starts at the maximum.
\<close>

definition exhaustedResult :: "int option \<Rightarrow> int \<Rightarrow> store_error + amount_allocation" where
  "exhaustedResult earliest now =
     (case earliest of
        None \<Rightarrow> Inl (Failure ''exhausted amount slots have no future release time'')
      | Some t \<Rightarrow>
          if t \<le> now then Inl (Failure ''exhausted amount slots have no future release time'')
          else Inr (Exhausted (max 1 (ceilDiv (t - now) 1000))))"

fun allocateFrom ::
  "order_env \<Rightarrow> string \<Rightarrow> int \<Rightarrow> int \<Rightarrow> nat \<Rightarrow> int \<Rightarrow> int option \<Rightarrow> order_db
     \<Rightarrow> store_error + amount_allocation \<times> order_db"
where
  "allocateFrom env account requested offset 0 now earliest db =
     bindR (exhaustedResult earliest now) (\<lambda>r. Inr (r, db))"
| "allocateFrom env account requested offset (Suc remaining) now earliest db =
     (if requested + offset > MAX_PAYABLE_AMOUNT_CENTS
      then bindR (exhaustedResult earliest now) (\<lambda>r. Inr (r, db))
      else bindR (assessOffset env account (requested + offset) now db) (\<lambda>(verdict, db').
           case verdict of
             SlotFree g \<Rightarrow> Inr (Allocated (requested + offset) g, db')
           | SlotBusy t \<Rightarrow>
               allocateFrom env account requested (offset + 1) remaining now
                 (Some (minimumDefined earliest t)) db'))"

definition allocateAmountSlot ::
  "order_env \<Rightarrow> string \<Rightarrow> int \<Rightarrow> int \<Rightarrow> int \<Rightarrow> order_db
     \<Rightarrow> store_error + amount_allocation \<times> order_db"
where
  "allocateAmountSlot env account requested maximumOffset now db =
     allocateFrom env account requested 1 (nat maximumOffset) now None db"

end
