(* ===== verification/OrderInvariant.thy ===== *)
theory OrderInvariant
  imports OrderSlots
begin

text \<open>
  The row invariant of the order tables, and that expiring and closing a checkout keep it and are
  never stopped by a constraint of the schema.  The heart of it is \<open>windowsOk\<close>: of two slots of one
  amount on one account, the order of the earlier generation has ended, and its cooldown is over,
  when the later one is occupied.
\<close>

named_theorems order_inv_simps \<open>the parts of the order invariant\<close>

definition slotMatches :: "payment_order \<Rightarrow> amount_slot \<Rightarrow> bool" where
  "slotMatches ord slot \<longleftrightarrow>
     slotOrderId slot = orderId ord \<and> slotAccountId slot = alipayAccountId ord \<and>
     slotAmountCents slot = payableAmountCents ord \<and> slotProfileId slot = collectionProfileId ord \<and>
     occupiedFrom slot = createdAt ord \<and> releasedAt slot = closedAt ord \<and>
     releaseReason slot = (if checkoutStatus ord = OPEN then None else Some (checkoutStatus ord))"

fun endConsistent :: "checkout_status \<Rightarrow> int option \<Rightarrow> int \<Rightarrow> int \<Rightarrow> bool" where
  "endConsistent OPEN closed created expires \<longleftrightarrow> closed = None"
| "endConsistent CLOSED closed created expires \<longleftrightarrow> (\<exists>t. closed = Some t \<and> created \<le> t \<and> t < expires)"
| "endConsistent EXPIRED closed created expires \<longleftrightarrow> (\<exists>t. closed = Some t \<and> expires \<le> t)"

definition orderRowOk :: "payment_order \<Rightarrow> bool" where
  "orderRowOk ord \<longleftrightarrow>
     0 \<le> createdAt ord \<and> createdAt ord < expiresAt ord \<and> createdAt ord \<le> updatedAt ord \<and>
     eligibleFrom ord = createdAt ord \<and> 1 \<le> version ord \<and>
     endConsistent (checkoutStatus ord) (closedAt ord) (createdAt ord) (expiresAt ord) \<and>
     requestedAmountCents ord < payableAmountCents ord \<and>
     payableAmountCents ord \<le> requestedAmountCents ord + allocationOffsetMaximumCents ord \<and>
     payableAmountCents ord \<le> MAX_PAYABLE_AMOUNT_CENTS \<and>
     MIN_AMOUNT_REUSE_COOLDOWN_SECONDS \<le> amountReuseCooldownSeconds ord \<and>
     amountReuseCooldownSeconds ord \<le> MAX_AMOUNT_REUSE_COOLDOWN_SECONDS \<and>
     isSafeInteger (expiresAt ord + amountReuseCooldownSeconds ord * 1000)"

definition timesWithin :: "int \<Rightarrow> payment_order \<Rightarrow> bool" where
  "timesWithin now ord \<longleftrightarrow>
     updatedAt ord \<le> now \<and> (\<forall>t. closedAt ord = Some t \<longrightarrow> t \<le> now)"

definition endedBefore :: "payment_order \<Rightarrow> int \<Rightarrow> bool" where
  "endedBefore ord t \<longleftrightarrow>
     checkoutStatus ord \<noteq> OPEN \<and> (\<forall>c. closedAt ord = Some c \<longrightarrow> c \<le> t) \<and>
     (\<forall>e. endedAt ord = Some e \<longrightarrow> e + amountReuseCooldownSeconds ord * 1000 \<le> t)"

definition sameAmount :: "amount_slot \<Rightarrow> amount_slot \<Rightarrow> bool" where
  "sameAmount s s' \<longleftrightarrow> slotAccountId s = slotAccountId s' \<and> slotAmountCents s = slotAmountCents s'"

definition windowsOk :: "payment_order list \<Rightarrow> amount_slot list \<Rightarrow> bool" where
  "windowsOk ords slots \<longleftrightarrow>
     (\<forall>s \<in> set slots. \<forall>s' \<in> set slots. sameAmount s s' \<longrightarrow>
        (generation s = generation s' \<longrightarrow> slotOrderId s = slotOrderId s') \<and>
        (generation s < generation s' \<longrightarrow>
           (\<forall>ord \<in> set ords. orderId ord = slotOrderId s \<longrightarrow> endedBefore ord (occupiedFrom s'))))"

definition eventsOk :: "payment_order list \<Rightarrow> order_event list \<Rightarrow> bool" where
  "eventsOk ords events \<longleftrightarrow>
     (\<forall>e \<in> set events. \<exists>ord \<in> set ords. orderId ord = eventOrderId e \<and>
        1 \<le> eventSequence e \<and> eventSequence e \<le> version ord) \<and>
     (\<forall>ord \<in> set ords. \<forall>k. 1 \<le> k \<and> k \<le> version ord \<longrightarrow>
        (\<exists>e \<in> set events. eventOrderId e = orderId ord \<and> eventSequence e = k)) \<and>
     distinct (map (\<lambda>e. (eventOrderId e, eventSequence e)) events)"

definition rowsInv :: "order_db \<Rightarrow> bool" where
  "rowsInv db \<longleftrightarrow>
     distinct (map orderId (paymentOrders db)) \<and>
     list_all2 slotMatches (paymentOrders db) (amountSlots db) \<and>
     (\<forall>ord \<in> set (paymentOrders db). orderRowOk ord \<and> timesWithin (orderClock db) ord) \<and>
     windowsOk (paymentOrders db) (amountSlots db)"

text \<open>A client never has two orders of one idempotency key, nor two of one merchant number.\<close>

definition keysOk :: "payment_order list \<Rightarrow> bool" where
  "keysOk ords \<longleftrightarrow>
     distinct (map (\<lambda>r. (apiClientId r, idempotencyKeyDigest r)) ords) \<and>
     distinct (map (\<lambda>r. (apiClientId r, merchantOrderNo r)) ords)"

definition orderInv :: "order_db \<Rightarrow> bool" where
  "orderInv db \<longleftrightarrow> rowsInv db \<and> eventsOk (paymentOrders db) (orderEvents db) \<and> keysOk (paymentOrders db)"

lemma rowsInvD [order_inv_simps]:
  assumes "rowsInv db"
  shows "distinct (map orderId (paymentOrders db))"
    "list_all2 slotMatches (paymentOrders db) (amountSlots db)"
    "windowsOk (paymentOrders db) (amountSlots db)"
    "ord \<in> set (paymentOrders db) \<Longrightarrow> orderRowOk ord"
    "ord \<in> set (paymentOrders db) \<Longrightarrow> timesWithin (orderClock db) ord"
  using assms by (simp_all add: rowsInv_def)

lemma orderInv_rows: "orderInv db \<Longrightarrow> rowsInv db"
  by (simp add: orderInv_def)

lemma orderInv_events: "orderInv db \<Longrightarrow> eventsOk (paymentOrders db) (orderEvents db)"
  by (simp add: orderInv_def)

lemma orderInv_keys: "orderInv db \<Longrightarrow> keysOk (paymentOrders db)"
  by (simp add: orderInv_def)

lemma windowsOkD:
  "windowsOk ords slots \<Longrightarrow> s \<in> set slots \<Longrightarrow> s' \<in> set slots \<Longrightarrow> sameAmount s s' \<Longrightarrow> generation s < generation s' \<Longrightarrow>
   ord \<in> set ords \<Longrightarrow> orderId ord = slotOrderId s \<Longrightarrow> endedBefore ord (occupiedFrom s')"
  unfolding windowsOk_def by blast

subsection \<open>Orders and slots correspond\<close>

lemma order_unique:
  assumes "rowsInv db" "ord \<in> set (paymentOrders db)" "ord' \<in> set (paymentOrders db)"
    "orderId ord = orderId ord'"
  shows "ord = ord'"
  using assms rowsInvD(1) [OF assms(1)] by (auto simp: distinct_map dest: inj_onD)

lemma slot_of_order:
  assumes "rowsInv db" "ord \<in> set (paymentOrders db)"
  obtains slot where "slot \<in> set (amountSlots db)" "slotMatches ord slot"
  using list_all2_right [OF rowsInvD(2) [OF assms(1)] assms(2)] by blast

lemma order_of_slot:
  assumes "rowsInv db" "slot \<in> set (amountSlots db)"
  obtains ord where "ord \<in> set (paymentOrders db)" "slotMatches ord slot"
  using list_all2_left [OF rowsInvD(2) [OF assms(1)] assms(2)] by blast

lemma slotMatches_ids: "slotMatches ord slot \<Longrightarrow> slotOrderId slot = orderId ord"
  by (simp add: slotMatches_def)

lemma slot_matches_by_id:
  assumes "rowsInv db" "ord \<in> set (paymentOrders db)" "slot \<in> set (amountSlots db)"
    "slotOrderId slot = orderId ord"
  shows "slotMatches ord slot"
proof -
  obtain ord' where "ord' \<in> set (paymentOrders db)" "slotMatches ord' slot"
    using order_of_slot [OF assms(1,3)] .
  moreover from this have "ord' = ord"
    using order_unique [OF assms(1)] assms(2,4) slotMatches_ids by metis
  ultimately show ?thesis by simp
qed

lemma slot_ids_distinct:
  assumes "rowsInv db"
  shows "distinct (map slotOrderId (amountSlots db))"
proof -
  have "map slotOrderId (amountSlots db) = map orderId (paymentOrders db)"
    using rowsInvD(2) [OF assms] by (induction rule: list_all2_induct) (auto simp: slotMatches_def)
  then show ?thesis using rowsInvD(1) [OF assms] by simp
qed

lemma find_order:
  assumes "rowsInv db" "ord \<in> set (paymentOrders db)" "p ord"
  shows "List.find (\<lambda>r. orderId r = orderId ord \<and> p r) (paymentOrders db) = Some ord"
  by (rule find_Some_unique) (use assms order_unique [OF assms(1)] in auto)

lemma orderOfSlot_eq:
  assumes "rowsInv db" "ord \<in> set (paymentOrders db)" "slotOrderId slot = orderId ord"
  shows "orderOfSlot db slot = Some ord"
  unfolding orderOfSlot_def
  by (rule find_Some_unique) (use assms order_unique [OF assms(1)] in auto)

lemma orderOfSlot_Some:
  assumes "rowsInv db" "slot \<in> set (amountSlots db)"
  obtains ord where "orderOfSlot db slot = Some ord" "ord \<in> set (paymentOrders db)" "slotMatches ord slot"
proof -
  obtain ord where "ord \<in> set (paymentOrders db)" "slotMatches ord slot"
    using order_of_slot [OF assms] .
  then show thesis using orderOfSlot_eq [OF assms(1)] slotMatches_ids that by metis
qed

text \<open>An open order's slot is the newest generation of its amount.\<close>

lemma open_slot_newest:
  assumes "rowsInv db" "ord \<in> set (paymentOrders db)" "checkoutStatus ord = OPEN"
    "slot \<in> set (amountSlots db)" "slotMatches ord slot"
    "s \<in> set (amountSlots db)" "sameAmount slot s"
  shows "generation s \<le> generation slot"
proof (rule ccontr)
  assume "\<not> generation s \<le> generation slot"
  then have "endedBefore ord (occupiedFrom s)"
    using rowsInvD(3) [OF assms(1)] assms by (auto simp: windowsOk_def slotMatches_def)
  then show False using assms(3) by (simp add: endedBefore_def)
qed

lemma one_open_order_per_amount:
  assumes "rowsInv db" "ord \<in> set (paymentOrders db)" "ord' \<in> set (paymentOrders db)"
    "checkoutStatus ord = OPEN" "checkoutStatus ord' = OPEN"
    "alipayAccountId ord = alipayAccountId ord'" "payableAmountCents ord = payableAmountCents ord'"
  shows "ord = ord'"
proof -
  obtain s where s: "s \<in> set (amountSlots db)" "slotMatches ord s"
    using slot_of_order [OF assms(1,2)] .
  obtain s' where s': "s' \<in> set (amountSlots db)" "slotMatches ord' s'"
    using slot_of_order [OF assms(1,3)] .
  have same: "sameAmount s s'" "sameAmount s' s"
    using s s' assms(6,7) by (auto simp: sameAmount_def slotMatches_def)
  have "generation s = generation s'"
    using open_slot_newest [OF assms(1,2,4) s s'(1) same(1)]
      open_slot_newest [OF assms(1,3,5) s' s(1) same(2)] by simp
  then have "slotOrderId s = slotOrderId s'"
    using rowsInvD(3) [OF assms(1)] s(1) s'(1) same(1) by (auto simp: windowsOk_def)
  then show ?thesis
    using order_unique [OF assms(1-3)] s(2) s'(2) by (simp add: slotMatches_def)
qed

subsection \<open>Ending a checkout\<close>

definition endedRows :: "checkout_status \<Rightarrow> string \<Rightarrow> int \<Rightarrow> order_db \<Rightarrow> order_db" where
  "endedRows status oid now db =
     db\<lparr>paymentOrders := updateRows (\<lambda>r. orderId r = oid) (endOrder status now) (paymentOrders db),
        amountSlots := updateRows (\<lambda>s. slotOrderId s = oid) (releaseSlot status now) (amountSlots db)\<rparr>"

lemma updateRows_cong:
  "(\<And>r. r \<in> set rows \<Longrightarrow> p r = q r) \<Longrightarrow> updateRows p f rows = updateRows q f rows"
  by (simp add: updateRows_def)

lemma open_slot_active:
  assumes "rowsInv db" "ord \<in> set (paymentOrders db)" "checkoutStatus ord = OPEN"
    "s \<in> set (amountSlots db)"
  shows "slotIsActiveOf (orderId ord) s \<longleftrightarrow> slotOrderId s = orderId ord"
proof -
  have "closedAt ord = None" using rowsInvD(4) [OF assms(1,2)] assms(3) by (simp add: orderRowOk_def)
  then show ?thesis
    using slot_matches_by_id [OF assms(1,2,4)] by (auto simp: slotIsActiveOf_def slotMatches_def)
qed

text \<open>
  On rows that satisfy the invariant, ending an open order whose end time is allowed never aborts:
  exactly one order changes, and exactly one slot is released.
\<close>

lemma endCheckout_open:
  assumes inv: "rowsInv db" and ord: "ord \<in> set (paymentOrders db)" "checkoutStatus ord = OPEN"
    and g: "guard ord" and allowed: "endTimeAllowed status now ord"
  shows "endCheckout status (orderId ord) guard now db = Inr (1, endedRows status (orderId ord) now db)"
proof -
  let ?p = "\<lambda>r. orderId r = orderId ord \<and> checkoutStatus r = OPEN \<and> guard r"
  have p: "?p r \<longleftrightarrow> orderId r = orderId ord" if "r \<in> set (paymentOrders db)" for r
    using order_unique [OF inv that ord(1)] ord(2) g by auto
  have n: "changes ?p (paymentOrders db) = 1"
    using rowsInvD(1) [OF inv] ord g by (intro changes_Suc_0_iff_distinct [where key = orderId and r = ord]) auto
  obtain slot where slot: "slot \<in> set (amountSlots db)" "slotMatches ord slot"
    using slot_of_order [OF inv ord(1)] .
  have m: "changes (slotIsActiveOf (orderId ord)) (amountSlots db) = 1"
    using slot_ids_distinct [OF inv] slot open_slot_active [OF inv ord slot(1)]
    by (intro changes_Suc_0_iff_distinct [where key = slotOrderId and r = slot]) (auto simp: slotIsActiveOf_def slotMatches_def)
  have "list_all (\<lambda>r. ?p r \<longrightarrow> endTimeAllowed status now r) (paymentOrders db)"
    using allowed order_unique [OF inv _ ord(1)] by (auto simp: list_all_iff)
  moreover have "occupiedFrom s \<le> now" if "s \<in> set (amountSlots db)" "slotIsActiveOf (orderId ord) s" for s
  proof -
    have "slotMatches ord s" using slot_matches_by_id [OF inv ord(1) that(1)] that(2)
      by (simp add: slotIsActiveOf_def)
    then show ?thesis using allowed rowsInvD(4) [OF inv ord(1)]
      by (auto simp: slotMatches_def endTimeAllowed_def orderRowOk_def split: checkout_status.splits)
  qed
  moreover have "updateRows ?p (endOrder status now) (paymentOrders db) =
      updateRows (\<lambda>r. orderId r = orderId ord) (endOrder status now) (paymentOrders db)"
    using p by (rule updateRows_cong)
  moreover have "updateRows (slotIsActiveOf (orderId ord)) (releaseSlot status now) (amountSlots db) =
      updateRows (\<lambda>s. slotOrderId s = orderId ord) (releaseSlot status now) (amountSlots db)"
    using open_slot_active [OF inv ord] by (rule updateRows_cong)
  ultimately show ?thesis using n m
    by (simp add: endCheckout_def endedRows_def list_all_iff)
qed


lemma endOrder_simps [simp]:
  "orderId (endOrder status now ord) = orderId ord"
  "alipayAccountId (endOrder status now ord) = alipayAccountId ord"
  "payableAmountCents (endOrder status now ord) = payableAmountCents ord"
  "collectionProfileId (endOrder status now ord) = collectionProfileId ord"
  "createdAt (endOrder status now ord) = createdAt ord"
  "expiresAt (endOrder status now ord) = expiresAt ord"
  "checkoutStatus (endOrder status now ord) = status"
  "closedAt (endOrder status now ord) = Some now"
  "updatedAt (endOrder status now ord) = now"
  "version (endOrder status now ord) = version ord + 1"
  "apiClientId (endOrder status now ord) = apiClientId ord"
  "idempotencyKeyDigest (endOrder status now ord) = idempotencyKeyDigest ord"
  "merchantOrderNo (endOrder status now ord) = merchantOrderNo ord"
  by (simp_all add: endOrder_def)

lemma releaseSlot_simps [simp]:
  "slotOrderId (releaseSlot status now slot) = slotOrderId slot"
  "slotAccountId (releaseSlot status now slot) = slotAccountId slot"
  "slotAmountCents (releaseSlot status now slot) = slotAmountCents slot"
  "generation (releaseSlot status now slot) = generation slot"
  "occupiedFrom (releaseSlot status now slot) = occupiedFrom slot"
  "releasedAt (releaseSlot status now slot) = Some now"
  by (simp_all add: releaseSlot_def)

lemma keysOk_end: "keysOk ords \<Longrightarrow> keysOk (updateRows p (endOrder status now) ords)"
  by (simp add: keysOk_def map_updateRows)

lemma slotMatches_end:
  "slotMatches ord slot \<Longrightarrow> status \<noteq> OPEN \<Longrightarrow>
   slotMatches (endOrder status now ord) (releaseSlot status now slot)"
  by (simp add: slotMatches_def endOrder_def releaseSlot_def)

lemma orderRowOk_end:
  assumes "orderRowOk ord" "endTimeAllowed status now ord"
  shows "orderRowOk (endOrder status now ord)"
  using assms
  by (cases status) (auto simp: orderRowOk_def endTimeAllowed_def endOrder_def)

lemma endTimeAllowed_not_open: "endTimeAllowed status now ord \<Longrightarrow> status \<noteq> OPEN"
  by (auto simp: endTimeAllowed_def)

lemma windowsOk_end:
  assumes inv: "rowsInv db" and ord: "ord \<in> set (paymentOrders db)" "checkoutStatus ord = OPEN"
  shows "windowsOk (paymentOrders (endedRows status (orderId ord) now db))
                   (amountSlots (endedRows status (orderId ord) now db))"
  unfolding windowsOk_def
proof (intro ballI impI)
  fix s s'
  assume s: "s \<in> set (amountSlots (endedRows status (orderId ord) now db))"
    and s': "s' \<in> set (amountSlots (endedRows status (orderId ord) now db))"
    and same: "sameAmount s s'"
  obtain t where t: "t \<in> set (amountSlots db)" "slotOrderId t = slotOrderId s"
      "generation t = generation s" "slotAccountId t = slotAccountId s" "slotAmountCents t = slotAmountCents s"
    using s by (auto simp: endedRows_def elim!: mem_updateRowsE)
  obtain t' where t': "t' \<in> set (amountSlots db)" "slotOrderId t' = slotOrderId s'"
      "generation t' = generation s'" "slotAccountId t' = slotAccountId s'"
      "slotAmountCents t' = slotAmountCents s'" "occupiedFrom t' = occupiedFrom s'"
    using s' by (auto simp: endedRows_def elim!: mem_updateRowsE)
  have same': "sameAmount t t'" using same t t' by (simp add: sameAmount_def)
  have w: "generation t = generation t' \<longrightarrow> slotOrderId t = slotOrderId t'"
    "generation t < generation t' \<longrightarrow>
       (\<forall>r \<in> set (paymentOrders db). orderId r = slotOrderId t \<longrightarrow> endedBefore r (occupiedFrom t'))"
    using rowsInvD(3) [OF inv] t(1) t'(1) same' by (auto simp: windowsOk_def)
  have "endedBefore r (occupiedFrom s')"
    if lt: "generation s < generation s'"
      and r: "r \<in> set (paymentOrders (endedRows status (orderId ord) now db))" "orderId r = slotOrderId s" for r
  proof (cases "slotOrderId s = orderId ord")
    case True
    then have "endedBefore ord (occupiedFrom t')" using w(2) lt t t' ord(1) by auto
    then show ?thesis using ord(2) by (simp add: endedBefore_def)
  next
    case False
    then have "r \<in> set (paymentOrders db)"
      using r by (auto simp: endedRows_def elim!: mem_updateRowsE)
    then show ?thesis using w(2) lt r(2) t t' by auto
  qed
  then show "(generation s = generation s' \<longrightarrow> slotOrderId s = slotOrderId s') \<and>
      (generation s < generation s' \<longrightarrow>
        (\<forall>r \<in> set (paymentOrders (endedRows status (orderId ord) now db)).
           orderId r = slotOrderId s \<longrightarrow> endedBefore r (occupiedFrom s')))"
    using w(1) t t' by auto
qed

lemma endedRows_rowsInv:
  assumes inv: "rowsInv db" and ord: "ord \<in> set (paymentOrders db)" "checkoutStatus ord = OPEN"
    and allowed: "endTimeAllowed status now ord" and now: "now \<le> orderClock db"
  shows "rowsInv (endedRows status (orderId ord) now db)"
proof -
  let ?db = "endedRows status (orderId ord) now db"
  have "map orderId (paymentOrders ?db) = map orderId (paymentOrders db)"
    by (simp add: endedRows_def map_updateRows)
  moreover have "list_all2 slotMatches (paymentOrders ?db) (amountSlots ?db)"
    using rowsInvD(2) [OF inv] endTimeAllowed_not_open [OF allowed]
    by (auto simp: endedRows_def intro!: list_all2_updateRows slotMatches_end dest: slotMatches_ids)
  moreover have "orderRowOk r \<and> timesWithin (orderClock ?db) r" if "r \<in> set (paymentOrders ?db)" for r
  proof -
    have *: "orderClock ?db = orderClock db" by (simp add: endedRows_def)
    from that have "r = endOrder status now ord \<or> r \<in> set (paymentOrders db)"
      using order_unique [OF inv _ ord(1)] by (auto simp: endedRows_def elim!: mem_updateRowsE)
    then show ?thesis
      using orderRowOk_end [OF rowsInvD(4) [OF inv ord(1)] allowed] rowsInvD(4,5) [OF inv] now
      by (auto simp: * timesWithin_def)
  qed
  ultimately show ?thesis
    using rowsInvD(1) [OF inv] windowsOk_end [OF inv ord] unfolding rowsInv_def by simp
qed

end
