(* ===== verification/OrderLifecycle.thy ===== *)
theory OrderLifecycle
  imports OrderInvariant
begin

text \<open>
  The clock step, the expiry of a checkout and the event it appends: each keeps the order
  invariant, and on rows that satisfy it an expiry that is due always succeeds.
\<close>

subsection \<open>The clock\<close>

lemma orderInv_clock:
  assumes "orderInv db" "orderClock db \<le> t"
  shows "orderInv (db\<lparr>orderClock := t\<rparr>)"
  using assms by (force simp: orderInv_def rowsInv_def timesWithin_def)

lemma logicalNow_Inr:
  assumes "logicalNow env db = Inr (now, db')"
  shows "db' = db\<lparr>orderClock := now\<rparr>" "orderClock db \<le> now" "physicalClock env \<le> now"
    "orderClock db' = now" "now \<le> physicalClock env + MAX_ORDER_CLOCK_AHEAD_MILLISECONDS" "0 \<le> now"
    "now = max (orderClock db) (physicalClock env)"
  using assms
  by (auto simp: logicalNow_def readPhysicalTime_def readOrderClock_def assertOrderClockIsUsable_def
      Let_def result_simps MAX_ORDER_CLOCK_AHEAD_MILLISECONDS_def)

lemma logicalNow_inv: "orderInv db \<Longrightarrow> logicalNow env db = Inr (now, db') \<Longrightarrow> orderInv db'"
  using logicalNow_Inr [of env db now db'] orderInv_clock by metis

subsection \<open>Appending the event of an ended order\<close>

definition endEventOf :: "checkout_status \<Rightarrow> order_event_type \<Rightarrow> bool" where
  "endEventOf status ty \<longleftrightarrow>
     status = EXPIRED \<and> ty = CHECKOUT_EXPIRED \<or> status = CLOSED \<and> ty = CHECKOUT_CLOSED"

lemma eventsOkD:
  assumes "eventsOk ords events"
  shows "e \<in> set events \<Longrightarrow> \<exists>r \<in> set ords. orderId r = eventOrderId e \<and>
      1 \<le> eventSequence e \<and> eventSequence e \<le> version r"
    "r \<in> set ords \<Longrightarrow> 1 \<le> k \<Longrightarrow> k \<le> version r \<Longrightarrow>
      \<exists>e \<in> set events. eventOrderId e = orderId r \<and> eventSequence e = k"
    "distinct (map (\<lambda>e. (eventOrderId e, eventSequence e)) events)"
  using assms unfolding eventsOk_def by blast+

text \<open>A write that steps one order's version and appends the event of that version.\<close>

lemma eventsOk_step:
  assumes ok: "eventsOk ords events" and d: "distinct (map orderId ords)"
    and ord: "ord \<in> set ords"
    and v: "1 \<le> version ord"
    and f: "\<And>r. orderId (f r) = orderId r" "\<And>r. version (f r) = version r + 1"
    and e: "eventOrderId e = orderId ord" "eventSequence e = version ord + 1"
  shows "eventsOk (updateRows (\<lambda>r. orderId r = orderId ord) f ords) (events @ [e])"
proof -
  let ?ords = "updateRows (\<lambda>r. orderId r = orderId ord) f ords"
  have uniq: "r = ord" if "r \<in> set ords" "orderId r = orderId ord" for r
    using d ord that by (auto simp: distinct_map dest: inj_onD)
  have old: "\<exists>r \<in> set ?ords. orderId r = eventOrderId x \<and> 1 \<le> eventSequence x \<and> eventSequence x \<le> version r"
    if x: "x \<in> set events" for x
  proof -
    obtain r where r: "r \<in> set ords" "orderId r = eventOrderId x" "1 \<le> eventSequence x"
        "eventSequence x \<le> version r"
      using eventsOkD(1) [OF ok x] by blast
    have "(if orderId r = orderId ord then f r else r) \<in> set ?ords"
      using r(1) by (rule mem_updateRows_image)
    then show ?thesis by (rule bexI [rotated]) (use r f in auto)
  qed
  have new: "f ord \<in> set ?ords"
    using mem_updateRows_image [OF ord, of "\<lambda>r. orderId r = orderId ord" f] by simp
  have "\<exists>x \<in> set (events @ [e]). eventOrderId x = orderId r \<and> eventSequence x = k"
    if r: "r \<in> set ?ords" and k: "1 \<le> k" "k \<le> version r" for r k
    using r
  proof (rule mem_updateRowsE)
    fix q
    assume q: "q \<in> set ords" "orderId q = orderId ord" "r = f q"
    then have "q = ord" using uniq by simp
    show ?thesis
    proof (cases "k = version ord + 1")
      case False
      then have "k \<le> version ord" using k q f \<open>q = ord\<close> by simp
      then show ?thesis using eventsOkD(2) [OF ok ord k(1)] q f \<open>q = ord\<close> by auto
    qed (use e q f \<open>q = ord\<close> in auto)
  next
    assume "r \<in> set ords"
    then show ?thesis using eventsOkD(2) [OF ok _ k] by auto
  qed
  moreover have "(eventOrderId e, eventSequence e) \<notin> (\<lambda>x. (eventOrderId x, eventSequence x)) ` set events"
  proof
    assume "(eventOrderId e, eventSequence e) \<in> (\<lambda>x. (eventOrderId x, eventSequence x)) ` set events"
    then obtain x where x: "x \<in> set events" "eventOrderId x = orderId ord" "eventSequence x = version ord + 1"
      using e by auto
    then obtain r where "r \<in> set ords" "orderId r = orderId ord" "version ord + 1 \<le> version r"
      using eventsOkD(1) [OF ok x(1)] by auto
    with uniq [of r] show False by simp
  qed
  moreover have "\<exists>r \<in> set ?ords. orderId r = eventOrderId e \<and> 1 \<le> eventSequence e \<and> eventSequence e \<le> version r"
    by (rule bexI [OF _ new]) (use e v f in simp)
  ultimately show ?thesis
    using eventsOkD(3) [OF ok] old unfolding eventsOk_def by auto
qed

lemma eventsOk_end:
  assumes "eventsOk ords events" "distinct (map orderId ords)" "ord \<in> set ords" "1 \<le> version ord"
    "eventOrderId e = orderId ord" "eventSequence e = version ord + 1"
  shows "eventsOk (updateRows (\<lambda>r. orderId r = orderId ord) (endOrder status now) ords) (events @ [e])"
  by (rule eventsOk_step) (use assms in auto)

definition endEvent ::
  "order_env \<Rightarrow> order_event_type \<Rightarrow> order_event_details \<Rightarrow> payment_order \<Rightarrow> int \<Rightarrow> order_db \<Rightarrow> order_event"
where
  "endEvent env ty d ord now db =
     \<lparr>eventId = newEventId env (length (orderEvents db)), eventOrderId = orderId ord,
      eventSequence = version ord + 1, eventType = ty, occurredAt = now, eventDetails = d\<rparr>"

text \<open>The rows after an order has ended and its event has been appended.\<close>

definition endedDb ::
  "order_env \<Rightarrow> checkout_status \<Rightarrow> order_event_type \<Rightarrow> order_event_details \<Rightarrow> payment_order \<Rightarrow> int
     \<Rightarrow> order_db \<Rightarrow> order_db"
where
  "endedDb env status ty d ord now db =
     (endedRows status (orderId ord) now db)
       \<lparr>orderEvents := orderEvents db @ [endEvent env ty d ord now db],
        orderAudits := orderAudits db @
          [orderEventAudit env (endEvent env ty d ord now db) (endOrder status now ord)]\<rparr>"

lemma endedRows_frame [simp]:
  "orderEvents (endedRows status oid now db) = orderEvents db"
  "orderAudits (endedRows status oid now db) = orderAudits db"
  "orderClock (endedRows status oid now db) = orderClock db"
  by (simp_all add: endedRows_def)

lemma insertOrderEvent_ended:
  assumes inv: "orderInv db" and ord: "ord \<in> set (paymentOrders db)" and ty: "endEventOf status ty"
  shows "insertOrderEvent env (orderId ord) (version ord + 1) ty now d (endedRows status (orderId ord) now db) =
         Inr (endedDb env status ty d ord now db)"
proof -
  let ?db = "endedRows status (orderId ord) now db"
  let ?e = "endEvent env ty d ord now db"
  have rows: "rowsInv db" using inv by (rule orderInv_rows)
  have new: "endOrder status now ord \<in> set (paymentOrders ?db)"
    using mem_updateRows_image [OF ord, of "\<lambda>r. orderId r = orderId ord" "endOrder status now"]
    by (simp add: endedRows_def)
  have only: "r = endOrder status now ord"
    if "r \<in> set (paymentOrders ?db)" "orderId r = orderId ord" for r
    using that order_unique [OF rows _ ord] by (auto simp: endedRows_def elim!: mem_updateRowsE)
  have match: "eventMatchesOrder ty (endOrder status now ord)"
    using ty by (auto simp: endEventOf_def)
  have fresh: "\<not> list_ex (\<lambda>x. eventOrderId x = orderId ord \<and> eventSequence x = version ord + 1) (orderEvents db)"
    using eventsOkD(1) [OF orderInv_events [OF inv]] order_unique [OF rows _ ord]
    by (fastforce simp: list_ex_iff)
  have "orderEventAllowed ?e ?db"
    unfolding orderEventAllowed_def
  proof (rule conjI)
    show "list_ex (\<lambda>r. orderId r = eventOrderId ?e \<and> version r = eventSequence ?e \<and>
        updatedAt r = occurredAt ?e \<and> eventMatchesOrder (eventType ?e) r) (paymentOrders ?db)"
      unfolding list_ex_iff by (rule bexI [OF _ new]) (simp add: endEvent_def match)
  qed (use fresh in \<open>simp add: endEvent_def\<close>)
  moreover have "List.find (\<lambda>r. orderId r = orderId ord) (paymentOrders ?db) = Some (endOrder status now ord)"
    by (rule find_Some_unique [OF new]) (simp, erule (1) only)
  ultimately show ?thesis
    by (simp add: insertOrderEvent_def endedDb_def endEvent_def Let_def)
qed

lemma endedDb_inv:
  assumes inv: "orderInv db" and ord: "ord \<in> set (paymentOrders db)" "checkoutStatus ord = OPEN"
    and allowed: "endTimeAllowed status now ord" and now: "now \<le> orderClock db"
  shows "orderInv (endedDb env status ty d ord now db)"
proof -
  have rows: "rowsInv db" using inv by (rule orderInv_rows)
  have "rowsInv (endedRows status (orderId ord) now db)"
    using endedRows_rowsInv [OF rows ord allowed now] .
  then have "rowsInv (endedDb env status ty d ord now db)"
    by (simp add: rowsInv_def endedDb_def)
  moreover have "1 \<le> version ord" using rowsInvD(4) [OF rows ord(1)] by (simp add: orderRowOk_def)
  then have "eventsOk (paymentOrders (endedDb env status ty d ord now db))
                      (orderEvents (endedDb env status ty d ord now db))"
    using eventsOk_end [OF orderInv_events [OF inv] rowsInvD(1) [OF rows] ord(1), of
        "endEvent env ty d ord now db" status now]
    by (simp add: endedDb_def endedRows_def endEvent_def)
  moreover have "keysOk (paymentOrders (endedDb env status ty d ord now db))"
    using keysOk_end [OF orderInv_keys [OF inv]] by (simp add: endedDb_def endedRows_def)
  ultimately show ?thesis by (simp add: orderInv_def)
qed

subsection \<open>Expiry\<close>

definition dueForExpiry :: "int \<Rightarrow> payment_order \<Rightarrow> bool" where
  "dueForExpiry now ord \<longleftrightarrow> checkoutStatus ord = OPEN \<and> expiresAt ord \<le> now"

definition expiredDb :: "order_env \<Rightarrow> payment_order \<Rightarrow> int \<Rightarrow> order_db \<Rightarrow> order_db" where
  "expiredDb env ord now db =
     endedDb env EXPIRED CHECKOUT_EXPIRED (ReasonDetails ''ttl_elapsed'') ord now db"

lemma safe_of_row:
  assumes "orderRowOk ord"
  shows "isSafeInteger (expiresAt ord)" "isSafeInteger (createdAt ord)"
    "isSafeInteger (amountReuseCooldownSeconds ord)"
    "isSafeInteger (expiresAt ord + amountReuseCooldownSeconds ord * 1000)"
  using assms
  by (auto simp: orderRowOk_def isSafeInteger_def maxSafeInteger_def
      MIN_AMOUNT_REUSE_COOLDOWN_SECONDS_def MAX_AMOUNT_REUSE_COOLDOWN_SECONDS_def)

lemma expireOrder_due:
  assumes inv: "orderInv db" and ord: "ord \<in> set (paymentOrders db)" "dueForExpiry now ord"
    and v: "isSafeInteger (version ord)" and now: "now = orderClock db"
  shows "expireOrder env (orderId ord) now db = Inr (expiredDb env ord now db)"
proof -
  have rows: "rowsInv db" using inv by (rule orderInv_rows)
  have op: "checkoutStatus ord = OPEN" "expiresAt ord \<le> now" using ord(2) by (simp_all add: dueForExpiry_def)
  have f: "List.find (\<lambda>r. orderId r = orderId ord \<and> checkoutStatus r = OPEN) (paymentOrders db) = Some ord"
    using find_order [OF rows ord(1), of "\<lambda>r. checkoutStatus r = OPEN"] op(1) by simp
  have allowed: "endTimeAllowed EXPIRED now ord"
    using rowsInvD(5) [OF rows ord(1)] op(2) now by (simp add: endTimeAllowed_def timesWithin_def)
  show ?thesis
    using f v op(2) safe_of_row(1) [OF rowsInvD(4) [OF rows ord(1)]]
      endCheckout_open [OF rows ord(1) op(1), of "\<lambda>r. expiresAt r \<le> now" EXPIRED now, OF op(2) allowed]
      insertOrderEvent_ended [OF inv ord(1), of EXPIRED CHECKOUT_EXPIRED env now]
    by (simp add: expireOrder_def expiredDb_def assertChangedOnce_def endEventOf_def)
qed

lemma expireOrder_not_due:
  assumes inv: "orderInv db"
    and "\<And>ord. ord \<in> set (paymentOrders db) \<Longrightarrow> orderId ord = oid \<Longrightarrow> \<not> dueForExpiry now ord"
  shows "expireOrder env oid now db = Inr db"
proof (cases "List.find (\<lambda>r. orderId r = oid \<and> checkoutStatus r = OPEN) (paymentOrders db)")
  case (Some row)
  then have "row \<in> set (paymentOrders db)" "orderId row = oid" "checkoutStatus row = OPEN"
    using find_SomeD by fastforce+
  moreover from this have "now < expiresAt row" using assms(2) by (force simp: dueForExpiry_def)
  ultimately show ?thesis
    using Some safe_of_row(1) [OF rowsInvD(4) [OF orderInv_rows [OF inv]]] by (simp add: expireOrder_def)
qed (simp add: expireOrder_def)

text \<open>Whatever the rows, an expiry either does nothing or ends the one due order.\<close>

lemma expireOrder_cases:
  assumes inv: "orderInv db" and now: "now = orderClock db" and res: "expireOrder env oid now db = Inr db'"
  obtains "db' = db" "\<And>ord. ord \<in> set (paymentOrders db) \<Longrightarrow> orderId ord = oid \<Longrightarrow> \<not> dueForExpiry now ord"
  | ord where "ord \<in> set (paymentOrders db)" "orderId ord = oid" "dueForExpiry now ord"
      "isSafeInteger (version ord)" "db' = expiredDb env ord now db"
proof (cases "\<exists>ord \<in> set (paymentOrders db). orderId ord = oid \<and> dueForExpiry now ord")
  case False
  then show ?thesis using expireOrder_not_due [OF inv, of oid now env] res that(1) by fastforce
next
  case True
  then obtain ord where ord: "ord \<in> set (paymentOrders db)" "orderId ord = oid" "dueForExpiry now ord"
    by blast
  have rows: "rowsInv db" using inv by (rule orderInv_rows)
  have "List.find (\<lambda>r. orderId r = oid \<and> checkoutStatus r = OPEN) (paymentOrders db) = Some ord"
    using find_order [OF rows ord(1), of "\<lambda>r. checkoutStatus r = OPEN"] ord(2,3)
    by (simp add: dueForExpiry_def)
  then have v: "isSafeInteger (version ord)"
    using res ord(3) by (auto simp: expireOrder_def result_simps dueForExpiry_def split: if_splits)
  then show ?thesis
    using expireOrder_due [OF inv ord(1,3) v now, of env] ord res that(2) by simp
qed

lemma dueForExpiry_allowed:
  assumes "orderInv db" "ord \<in> set (paymentOrders db)" "dueForExpiry now ord" "now = orderClock db"
  shows "checkoutStatus ord = OPEN" "endTimeAllowed EXPIRED now ord"
  using assms rowsInvD(5) [OF orderInv_rows [OF assms(1)] assms(2)]
  by (auto simp: dueForExpiry_def endTimeAllowed_def timesWithin_def)

lemma expiredDb_inv:
  assumes "orderInv db" "ord \<in> set (paymentOrders db)" "dueForExpiry now ord" "now = orderClock db"
  shows "orderInv (expiredDb env ord now db)" "orderClock (expiredDb env ord now db) = now"
  using endedDb_inv [OF assms(1,2) dueForExpiry_allowed(1,2) [OF assms]] assms(4)
  by (simp_all add: expiredDb_def endedDb_def)

lemma expireOrder_inv:
  assumes "orderInv db" "now = orderClock db" "expireOrder env oid now db = Inr db'"
  shows "orderInv db'" "orderClock db' = now"
  using expireOrder_cases [OF assms] expiredDb_inv assms(1,2) by metis+

lemma expireOrders_inv:
  assumes "orderInv db" "now = orderClock db" "expireOrders env oids now db = Inr db'"
  shows "orderInv db' \<and> orderClock db' = now"
  using assms
proof (induction oids arbitrary: db)
  case (Cons oid oids)
  then obtain db1 where "expireOrder env oid now db = Inr db1" "expireOrders env oids now db1 = Inr db'"
    by (auto simp: result_simps)
  then show ?case using Cons.IH expireOrder_inv [OF Cons.prems(1,2)] by metis
qed simp

lemma expireOrderByIdIfDue_eq:
  assumes "orderInv db" "expireOrderByIdIfDue env client oid now db = Inr db'"
  shows "db' = db \<or> expireOrder env oid now db = Inr db'"
  using assms by (auto simp: expireOrderByIdIfDue_def result_simps split: option.splits if_splits)

lemma expireOrderByIdIfDue_inv:
  assumes "orderInv db" "now = orderClock db" "expireOrderByIdIfDue env client oid now db = Inr db'"
  shows "orderInv db' \<and> orderClock db' = now"
  using expireOrderByIdIfDue_eq [OF assms(1,3)] expireOrder_inv [OF assms(1,2)] assms(1,2) by metis

end
