(* ===== verification/OrderAllocation.thy ===== *)
theory OrderAllocation
  imports OrderLifecycle
begin

text \<open>
  What the allocation of \<^verbatim>\<open>src/src/database/order-store.ts\<close> promises, stated on the orders alone: an
  amount of an account is free when every order that ever held it has ended and cooled down.  The
  loop picks the smallest free amount above the requested one, and when there is none reports the
  time at which the first becomes free.
\<close>

subsection \<open>The contract\<close>

definition amountOrders :: "string \<Rightarrow> int \<Rightarrow> order_db \<Rightarrow> payment_order list" where
  "amountOrders account amount db =
     filter (\<lambda>r. alipayAccountId r = account \<and> payableAmountCents r = amount) (paymentOrders db)"

text \<open>When an order gives its amount back: at its end, or at its deadline, plus the cooldown.\<close>

definition reuseTime :: "payment_order \<Rightarrow> int" where
  "reuseTime ord =
     (case (checkoutStatus ord, closedAt ord) of (CLOSED, Some t) \<Rightarrow> t | _ \<Rightarrow> expiresAt ord)
     + amountReuseCooldownSeconds ord * 1000"

definition amountFree :: "string \<Rightarrow> int \<Rightarrow> int \<Rightarrow> order_db \<Rightarrow> bool" where
  "amountFree account amount now db \<longleftrightarrow> list_all (\<lambda>r. reuseTime r \<le> now) (amountOrders account amount db)"

definition amountFreeAt :: "string \<Rightarrow> int \<Rightarrow> order_db \<Rightarrow> int" where
  "amountFreeAt account amount db = foldr max (map reuseTime (amountOrders account amount db)) 0"

text \<open>
  The clock and the two counters of the rows, the version of an open order and the generations of
  the slots, have not run past the safe integers.
\<close>

definition countersSafe :: "order_db \<Rightarrow> bool" where
  "countersSafe db \<longleftrightarrow>
     isSafeInteger (orderClock db) \<and>
     list_all (\<lambda>r. checkoutStatus r = OPEN \<longrightarrow> isSafeInteger (version r)) (paymentOrders db) \<and>
     list_all (\<lambda>s. isSafeInteger (generation s) \<and> isSafeInteger (generation s + 1)) (amountSlots db)"

lemma foldr_max_ge: "x \<in> set xs \<Longrightarrow> x \<le> foldr max xs (z :: int)" "z \<le> foldr max xs z"
  by (induction xs) auto

lemma foldr_max_eq: "m \<in> set xs \<Longrightarrow> (\<And>x. x \<in> set xs \<Longrightarrow> x \<le> m) \<Longrightarrow> z \<le> m \<Longrightarrow> foldr max xs (z :: int) = m"
proof -
  assume m: "m \<in> set xs" "\<And>x. x \<in> set xs \<Longrightarrow> x \<le> m" "z \<le> m"
  have "foldr max ys z \<le> m" if "set ys \<subseteq> set xs" for ys
    using that m by (induction ys) auto
  then show ?thesis using foldr_max_ge(1) [OF m(1), of z] by (simp add: antisym)
qed

lemma amountOrders_mem:
  "r \<in> set (amountOrders account amount db) \<longleftrightarrow>
   r \<in> set (paymentOrders db) \<and> alipayAccountId r = account \<and> payableAmountCents r = amount"
  by (auto simp: amountOrders_def)

lemma createdAt_le_reuseTime: "orderRowOk ord \<Longrightarrow> createdAt ord \<le> reuseTime ord"
  by (cases "checkoutStatus ord")
    (auto simp: orderRowOk_def reuseTime_def MIN_AMOUNT_REUSE_COOLDOWN_SECONDS_def split: option.splits)

lemma reuseTime_safe: "orderRowOk ord \<Longrightarrow> checkoutStatus ord \<noteq> OPEN \<Longrightarrow> isSafeInteger (reuseTime ord)"
  by (cases "checkoutStatus ord")
    (auto simp: orderRowOk_def reuseTime_def isSafeInteger_def MIN_AMOUNT_REUSE_COOLDOWN_SECONDS_def)

lemma ended_safe: "orderRowOk ord \<Longrightarrow> closedAt ord = Some c \<Longrightarrow> 0 \<le> c"
  by (cases "checkoutStatus ord") (auto simp: orderRowOk_def)

lemma endedBefore_reuseTime: "orderRowOk ord \<Longrightarrow> endedBefore ord t \<Longrightarrow> reuseTime ord \<le> t"
  by (cases "checkoutStatus ord") (auto simp: orderRowOk_def endedBefore_def endedAt_def reuseTime_def)

lemma reuseTime_endedBefore:
  "orderRowOk ord \<Longrightarrow> timesWithin t ord \<Longrightarrow> checkoutStatus ord \<noteq> OPEN \<Longrightarrow> reuseTime ord \<le> t \<Longrightarrow>
   endedBefore ord t"
  by (cases "checkoutStatus ord")
    (auto simp: orderRowOk_def endedBefore_def endedAt_def reuseTime_def timesWithin_def)

subsection \<open>The newest slot of an amount\<close>

lemma latestSlot_cases:
  assumes inv: "rowsInv db"
  obtains "latestSlot account amount db = None" "amountOrders account amount db = []"
  | slot ord where "latestSlot account amount db = Some (slot, ord)"
      "slot \<in> set (amountSlots db)" "ord \<in> set (amountOrders account amount db)" "slotMatches ord slot"
      "\<And>s. s \<in> set (slotsAt account amount db) \<Longrightarrow> generation s \<le> generation slot"
      "newestSlot (slotsAt account amount db) = Some slot"
proof -
  have all: "filter (\<lambda>s. orderOfSlot db s \<noteq> None) (slotsAt account amount db) = slotsAt account amount db"
    by (rule filter_True) (auto simp: slotsAt_def elim: orderOfSlot_Some [OF inv])
  show thesis
  proof (cases "newestSlot (slotsAt account amount db)")
    case None
    then have "slotsAt account amount db = []" by (simp add: newestSlot_None_iff)
    then have "amountOrders account amount db = []"
      by (auto simp: amountOrders_def slotsAt_def filter_empty_conv slotMatches_def elim!: slot_of_order [OF inv])
    then show ?thesis using None all that(1) by (simp add: latestSlot_def)
  next
    case (Some slot)
    note n = newestSlot_Some [OF Some]
    have slot: "slot \<in> set (amountSlots db)" using n(1) by (simp add: slotsAt_def)
    obtain ord where ord: "orderOfSlot db slot = Some ord" "ord \<in> set (paymentOrders db)" "slotMatches ord slot"
      using orderOfSlot_Some [OF inv slot] .
    have "ord \<in> set (amountOrders account amount db)"
      using n(1) ord by (simp add: slotsAt_def amountOrders_mem slotMatches_def)
    then show ?thesis using that(2) slot ord n(2) Some all by (simp add: latestSlot_def)
  qed
qed

text \<open>The order of the newest slot is the last to give the amount back.\<close>

lemma latest_reuseTime:
  assumes inv: "rowsInv db" and slot: "slot \<in> set (amountSlots db)" "slotMatches ord slot"
    and ord: "ord \<in> set (amountOrders account amount db)"
    and newest: "\<And>s. s \<in> set (slotsAt account amount db) \<Longrightarrow> generation s \<le> generation slot"
    and r: "r \<in> set (amountOrders account amount db)"
  shows "reuseTime r \<le> reuseTime ord"
proof (cases "r = ord")
  case False
  have r': "r \<in> set (paymentOrders db)" and o': "ord \<in> set (paymentOrders db)"
    using r ord by (simp_all add: amountOrders_mem)
  obtain s where s: "s \<in> set (amountSlots db)" "slotMatches r s" using slot_of_order [OF inv r'] .
  have same: "sameAmount s slot" "s \<in> set (slotsAt account amount db)"
    using s slot r ord by (auto simp: sameAmount_def slotMatches_def amountOrders_mem slotsAt_def)
  have "generation s \<noteq> generation slot"
    using rowsInvD(3) [OF inv] s slot same(1) False order_unique [OF inv r' o']
    by (auto simp: windowsOk_def slotMatches_def)
  then have "generation s < generation slot" using newest [OF same(2)] by simp
  then have "endedBefore r (occupiedFrom slot)"
    using rowsInvD(3) [OF inv] s slot(1) same(1) r' by (auto simp: windowsOk_def slotMatches_def)
  then have "reuseTime r \<le> createdAt ord"
    using endedBefore_reuseTime rowsInvD(4) [OF inv r'] slot(2) by (simp add: slotMatches_def)
  also have "\<dots> \<le> reuseTime ord" using rowsInvD(4) [OF inv o'] by (rule createdAt_le_reuseTime)
  finally show ?thesis .
qed simp

subsection \<open>One offset\<close>

text \<open>What the body of the loop promises for one amount.\<close>

definition verdictOk :: "string \<Rightarrow> int \<Rightarrow> int \<Rightarrow> order_db \<Rightarrow> slot_verdict \<Rightarrow> bool" where
  "verdictOk account amount now db verdict \<longleftrightarrow>
     (case verdict of
        SlotFree g \<Rightarrow>
          amountFree account amount now db \<and>
          g = (case newestSlot (slotsAt account amount db) of None \<Rightarrow> 1 | Some s \<Rightarrow> generation s + 1) \<and>
          list_all (\<lambda>r. checkoutStatus r \<noteq> OPEN) (amountOrders account amount db)
      | SlotBusy t \<Rightarrow>
          now < t \<and> t = amountFreeAt account amount db \<and> \<not> amountFree account amount now db)"

text \<open>The verdict on an amount that an ended order held last.\<close>

definition endedVerdict :: "int \<Rightarrow> amount_slot \<Rightarrow> payment_order \<Rightarrow> slot_verdict" where
  "endedVerdict now slot ord =
     (if reuseTime ord > now then SlotBusy (reuseTime ord) else SlotFree (generation slot + 1))"

lemma assessLatestSlot_ended:
  assumes l: "latestSlot account amount db = Some (slot, ord)"
    and ok: "orderRowOk ord" and m: "slotMatches ord slot"
    and ended: "checkoutStatus ord \<noteq> OPEN" and c: "closedAt ord = Some c" "c \<le> now"
  shows "assessLatestSlot account amount now db = Inr v \<Longrightarrow> v = endedVerdict now slot ord"
    "isSafeInteger c \<Longrightarrow> isSafeInteger (generation slot) \<Longrightarrow> isSafeInteger (generation slot + 1) \<Longrightarrow>
     assessLatestSlot account amount now db = Inr (endedVerdict now slot ord)"
proof -
  have r: "releasedAt slot = Some c" using m c by (simp add: slotMatches_def)
  have max: "max c (reuseTime ord) > now \<longleftrightarrow> reuseTime ord > now"
    "reuseTime ord > now \<Longrightarrow> max c (reuseTime ord) = reuseTime ord" using c(2) by auto
  have e: "(if checkoutStatus ord = EXPIRED then expiresAt ord else c) + amountReuseCooldownSeconds ord * 1000
      = reuseTime ord"
    using ended c(1) by (cases "checkoutStatus ord") (auto simp: reuseTime_def)
  note safe = reuseTime_safe [OF ok ended] safe_of_row(1,3) [OF ok]
  show "v = endedVerdict now slot ord" if "assessLatestSlot account amount now db = Inr v"
    using that l r ended c(1) e safe max
    by (cases "checkoutStatus ord"; cases "reuseTime ord > now")
      (auto simp: assessLatestSlot_def amountReuseAvailableAt_def endedVerdict_def Let_def result_simps)
  show "assessLatestSlot account amount now db = Inr (endedVerdict now slot ord)"
    if "isSafeInteger c" "isSafeInteger (generation slot)" "isSafeInteger (generation slot + 1)"
    using that l r ended c(1) e safe max
    by (cases "checkoutStatus ord"; cases "reuseTime ord > now")
      (auto simp: assessLatestSlot_def amountReuseAvailableAt_def endedVerdict_def Let_def)
qed

lemma amountFreeAt_last:
  assumes "rowsInv db" "slot \<in> set (amountSlots db)" "slotMatches ord slot"
    and ord: "ord \<in> set (amountOrders account amount db)"
    and "\<And>s. s \<in> set (slotsAt account amount db) \<Longrightarrow> generation s \<le> generation slot"
  shows "amountFreeAt account amount db = reuseTime ord"
    "amountFree account amount now db \<longleftrightarrow> reuseTime ord \<le> now"
proof -
  note last = latest_reuseTime [OF assms(1-3) ord assms(5)]
  have ok: "orderRowOk ord" using rowsInvD(4) [OF assms(1)] ord by (simp add: amountOrders_mem)
  show "amountFreeAt account amount db = reuseTime ord"
    unfolding amountFreeAt_def
    using ord last createdAt_le_reuseTime [OF ok] ok
    by (intro foldr_max_eq) (auto simp: orderRowOk_def)
  show "amountFree account amount now db \<longleftrightarrow> reuseTime ord \<le> now"
    using ord last by (force simp: amountFree_def list_all_iff)
qed

lemma no_orders_no_slots:
  assumes "rowsInv db" "amountOrders account amount db = []"
  shows "slotsAt account amount db = []"
proof (rule ccontr)
  assume "slotsAt account amount db \<noteq> []"
  then obtain s where s: "s \<in> set (slotsAt account amount db)" by (cases "slotsAt account amount db") auto
  then have "s \<in> set (amountSlots db)" by (simp add: slotsAt_def)
  then obtain ord where "ord \<in> set (paymentOrders db)" "slotMatches ord s" by (rule order_of_slot [OF assms(1)])
  then have "ord \<in> set (amountOrders account amount db)"
    using s by (simp add: slotsAt_def amountOrders_mem slotMatches_def)
  then show False using assms(2) by simp
qed

lemma ended_closed:
  assumes "rowsInv db" "ord \<in> set (paymentOrders db)" "checkoutStatus ord \<noteq> OPEN"
  obtains c where "closedAt ord = Some c" "c \<le> orderClock db" "0 \<le> c"
proof -
  note ok = rowsInvD(4) [OF assms(1,2)]
  obtain c where c: "closedAt ord = Some c"
    using ok assms(3) by (cases "checkoutStatus ord") (auto simp: orderRowOk_def)
  then show thesis using that rowsInvD(5) [OF assms(1,2)] ended_safe [OF ok c] by (simp add: timesWithin_def)
qed

lemma assessLatestSlot_verdict:
  assumes inv: "orderInv db" and now: "now = orderClock db"
    and noOpen: "list_all (\<lambda>r. checkoutStatus r \<noteq> OPEN) (amountOrders account amount db)"
  shows "assessLatestSlot account amount now db = Inr v \<Longrightarrow> verdictOk account amount now db v"
    "countersSafe db \<Longrightarrow> \<exists>v. assessLatestSlot account amount now db = Inr v"
proof -
  have rows: "rowsInv db" using inv by (rule orderInv_rows)
  have "(assessLatestSlot account amount now db = Inr v \<longrightarrow> verdictOk account amount now db v) \<and>
        (countersSafe db \<longrightarrow> (\<exists>v. assessLatestSlot account amount now db = Inr v))"
  proof (rule latestSlot_cases [OF rows, of account amount])
    assume "latestSlot account amount db = None" "amountOrders account amount db = []"
    then show ?thesis using no_orders_no_slots [OF rows]
      by (auto simp: assessLatestSlot_def verdictOk_def amountFree_def newestSlot_def)
  next
    fix slot ord
    assume l: "latestSlot account amount db = Some (slot, ord)"
      and slot: "slot \<in> set (amountSlots db)" and ord: "ord \<in> set (amountOrders account amount db)"
      and m: "slotMatches ord slot"
      and newest: "\<And>s. s \<in> set (slotsAt account amount db) \<Longrightarrow> generation s \<le> generation slot"
      and n: "newestSlot (slotsAt account amount db) = Some slot"
    have o': "ord \<in> set (paymentOrders db)" using ord by (simp add: amountOrders_mem)
    have ended: "checkoutStatus ord \<noteq> OPEN" using noOpen ord by (auto simp: list_all_iff)
    obtain c where c: "closedAt ord = Some c" "c \<le> now" "0 \<le> c" using ended_closed [OF rows o' ended] now by auto
    note eq = assessLatestSlot_ended [OF l rowsInvD(4) [OF rows o'] m ended c(1,2)]
    note last = amountFreeAt_last [OF rows slot m ord newest]
    have "verdictOk account amount now db (endedVerdict now slot ord)"
      using last noOpen n by (simp add: verdictOk_def endedVerdict_def)
    moreover have "isSafeInteger c" "isSafeInteger (generation slot)" "isSafeInteger (generation slot + 1)"
      if "countersSafe db"
      using that c slot now
      by (auto simp: countersSafe_def list_all_iff isSafeInteger_def maxSafeInteger_def)
    ultimately show ?thesis using eq by blast
  qed
  then show "assessLatestSlot account amount now db = Inr v \<Longrightarrow> verdictOk account amount now db v"
    "countersSafe db \<Longrightarrow> \<exists>v. assessLatestSlot account amount now db = Inr v" by blast+
qed

subsection \<open>An expiry moves no reuse time\<close>

definition sameReuse :: "order_db \<Rightarrow> order_db \<Rightarrow> bool" where
  "sameReuse db db' \<longleftrightarrow>
     (\<forall>account amount. map reuseTime (amountOrders account amount db') =
                       map reuseTime (amountOrders account amount db))"

lemma sameReuse_refl [simp]: "sameReuse db db"
  by (simp add: sameReuse_def)

lemma sameReuse_trans: "sameReuse db db' \<Longrightarrow> sameReuse db' db'' \<Longrightarrow> sameReuse db db''"
  by (simp add: sameReuse_def)

lemma amountFree_reuse:
  "amountFree account amount now db \<longleftrightarrow>
   list_all (\<lambda>t. t \<le> now) (map reuseTime (amountOrders account amount db))"
  by (simp add: amountFree_def list.pred_map comp_def)

lemma sameReuseD:
  assumes "sameReuse db db'"
  shows "amountFree account amount now db' = amountFree account amount now db"
    "amountFreeAt account amount db' = amountFreeAt account amount db"
  using assms by (simp_all add: sameReuse_def amountFree_reuse amountFreeAt_def)

lemma expiredDb_orders:
  "paymentOrders (expiredDb env ord now db) =
     updateRows (\<lambda>r. orderId r = orderId ord) (endOrder EXPIRED now) (paymentOrders db)"
  "amountSlots (expiredDb env ord now db) =
     updateRows (\<lambda>s. slotOrderId s = orderId ord) (releaseSlot EXPIRED now) (amountSlots db)"
  by (simp_all add: expiredDb_def endedDb_def endedRows_def)

lemma amountOrders_expired:
  "amountOrders account amount (expiredDb env ord now db) =
     updateRows (\<lambda>r. orderId r = orderId ord) (endOrder EXPIRED now) (amountOrders account amount db)"
  unfolding amountOrders_def expiredDb_orders updateRows_def filter_map
  by (intro arg_cong [where f = "map _"] filter_cong) simp_all

lemma reuseTime_expired: "checkoutStatus ord = OPEN \<Longrightarrow> reuseTime (endOrder EXPIRED now ord) = reuseTime ord"
  by (simp add: reuseTime_def endOrder_def)

lemma sameReuse_expired:
  assumes "rowsInv db" "ord \<in> set (paymentOrders db)" "checkoutStatus ord = OPEN"
  shows "sameReuse db (expiredDb env ord now db)"
proof -
  have "reuseTime (endOrder EXPIRED now r) = reuseTime r"
    if "r \<in> set (amountOrders account amount db)" "orderId r = orderId ord" for r account amount
    using that order_unique [OF assms(1) _ assms(2)] reuseTime_expired [OF assms(3)]
    by (auto simp: amountOrders_mem)
  then show ?thesis
    unfolding sameReuse_def amountOrders_expired by (intro allI map_updateRows)
qed

lemma countersSafe_expired: "countersSafe db \<Longrightarrow> countersSafe (expiredDb env ord now db)"
proof -
  assume safe: "countersSafe db"
  have "orderClock (expiredDb env ord now db) = orderClock db"
    by (simp add: expiredDb_def endedDb_def)
  then show ?thesis using safe
    unfolding countersSafe_def expiredDb_orders list_all_iff
    by (auto elim!: mem_updateRowsE)
qed

lemma no_open_expired:
  assumes "rowsInv db" "ord \<in> set (paymentOrders db)" "checkoutStatus ord = OPEN"
    "alipayAccountId ord = account" "payableAmountCents ord = amount"
  shows "list_all (\<lambda>r. checkoutStatus r \<noteq> OPEN) (amountOrders account amount (expiredDb env ord now db))"
  unfolding amountOrders_expired list_all_iff
proof
  fix r
  assume "r \<in> set (updateRows (\<lambda>r. orderId r = orderId ord) (endOrder EXPIRED now) (amountOrders account amount db))"
  then show "checkoutStatus r \<noteq> OPEN"
    by (rule mem_updateRowsE)
      (use assms one_open_order_per_amount [OF assms(1,2), of r] in \<open>auto simp: amountOrders_mem\<close>)
qed

subsection \<open>The body of the loop\<close>

definition sameUse :: "int \<Rightarrow> order_db \<Rightarrow> order_db \<Rightarrow> bool" where
  "sameUse now db db' \<longleftrightarrow>
     orderInv db' \<and> orderClock db' = now \<and> sameReuse db db' \<and> (countersSafe db \<longrightarrow> countersSafe db')"

lemma sameUse_refl: "orderInv db \<Longrightarrow> now = orderClock db \<Longrightarrow> sameUse now db db"
  by (simp add: sameUse_def)

lemma sameUse_trans: "sameUse now db db' \<Longrightarrow> sameUse now db' db'' \<Longrightarrow> sameUse now db db''"
  by (auto simp: sameUse_def elim: sameReuse_trans)

lemma sameUse_expired:
  assumes "orderInv db" "ord \<in> set (paymentOrders db)" "dueForExpiry now ord" "now = orderClock db"
  shows "sameUse now db (expiredDb env ord now db)"
  using expiredDb_inv [OF assms] sameReuse_expired [OF orderInv_rows [OF assms(1)] assms(2)] assms(3)
    countersSafe_expired
  by (simp add: sameUse_def dueForExpiry_def)

lemma open_order_busy:
  assumes inv: "rowsInv db" and ord: "ord \<in> set (paymentOrders db)" "checkoutStatus ord = OPEN"
    and at: "alipayAccountId ord = account" "payableAmountCents ord = amount" and due: "now < expiresAt ord"
  shows "verdictOk account amount now db
           (SlotBusy (expiresAt ord + amountReuseCooldownSeconds ord * 1000))"
proof -
  obtain slot where slot: "slot \<in> set (amountSlots db)" "slotMatches ord slot"
    using slot_of_order [OF inv ord(1)] .
  have mem: "ord \<in> set (amountOrders account amount db)" using ord at by (simp add: amountOrders_mem)
  have newest: "generation s \<le> generation slot" if "s \<in> set (slotsAt account amount db)" for s
    using open_slot_newest [OF inv ord slot, of s] that slot(2) at
    by (auto simp: slotsAt_def sameAmount_def slotMatches_def)
  have "reuseTime ord = expiresAt ord + amountReuseCooldownSeconds ord * 1000"
    using ord(2) by (simp add: reuseTime_def)
  moreover have "0 \<le> amountReuseCooldownSeconds ord"
    using rowsInvD(4) [OF inv ord(1)] by (simp add: orderRowOk_def MIN_AMOUNT_REUSE_COOLDOWN_SECONDS_def)
  ultimately show ?thesis
    using amountFreeAt_last [OF inv slot mem newest] due by (simp add: verdictOk_def)
qed

lemma assessOffset_partial:
  assumes inv: "orderInv db" and now: "now = orderClock db"
    and res: "assessOffset env account amount now db = Inr (v, db')"
  shows "sameUse now db db'" "verdictOk account amount now db' v"
proof -
  have rows: "rowsInv db" using inv by (rule orderInv_rows)
  let ?p = "\<lambda>r. alipayAccountId r = account \<and> payableAmountCents r = amount \<and> checkoutStatus r = OPEN"
  have "sameUse now db db' \<and> verdictOk account amount now db' v"
  proof (cases "List.find ?p (paymentOrders db)")
    case None
    then have "list_all (\<lambda>r. checkoutStatus r \<noteq> OPEN) (amountOrders account amount db)"
      by (auto simp: find_None_iff_all list_all_iff amountOrders_mem)
    then show ?thesis
      using None res assessLatestSlot_verdict(1) [OF inv now] sameUse_refl [OF inv now]
      by (auto simp: assessOffset_def result_simps)
  next
    case (Some row)
    then have row: "row \<in> set (paymentOrders db)" "alipayAccountId row = account"
        "payableAmountCents row = amount" "checkoutStatus row = OPEN"
      using find_SomeD [OF Some] by simp_all
    show ?thesis
    proof (cases "expiresAt row \<le> now")
      case False
      then show ?thesis
        using Some res row open_order_busy [OF rows row(1,4,2,3)] sameUse_refl [OF inv now]
        by (auto simp: assessOffset_def result_simps amountReuseAvailableAt_def Let_def)
    next
      case True
      then have due: "dueForExpiry now row" using row by (simp add: dueForExpiry_def)
      obtain db1 where db1: "expireOrder env (orderId row) now db = Inr db1"
          "assessLatestSlot account amount now db1 = Inr v" "db' = db1"
        using Some res True by (auto simp: assessOffset_def result_simps)
      have eq: "db1 = expiredDb env row now db"
        by (rule expireOrder_cases [OF inv now db1(1)])
          (use due row order_unique [OF rows _ row(1)] in auto)
      have use': "sameUse now db db1" unfolding eq by (rule sameUse_expired [OF inv row(1) due now])
      moreover have "verdictOk account amount now db1 v"
        using use' no_open_expired [OF rows row(1,4,2,3)]
        by (intro assessLatestSlot_verdict(1) [OF _ _ _ db1(2)]) (auto simp: sameUse_def eq)
      ultimately show ?thesis using db1(3) by simp
    qed
  qed
  then show "sameUse now db db'" "verdictOk account amount now db' v" by blast+
qed

lemma assessOffset_total:
  assumes inv: "orderInv db" and now: "now = orderClock db" and safe: "countersSafe db"
  shows "\<exists>v db'. assessOffset env account amount now db = Inr (v, db')"
proof -
  have rows: "rowsInv db" using inv by (rule orderInv_rows)
  let ?p = "\<lambda>r. alipayAccountId r = account \<and> payableAmountCents r = amount \<and> checkoutStatus r = OPEN"
  show ?thesis
  proof (cases "List.find ?p (paymentOrders db)")
    case None
    then have "list_all (\<lambda>r. checkoutStatus r \<noteq> OPEN) (amountOrders account amount db)"
      by (auto simp: find_None_iff_all list_all_iff amountOrders_mem)
    then obtain v where "assessLatestSlot account amount now db = Inr v"
      using assessLatestSlot_verdict(2) [OF inv now _ safe] by blast
    then show ?thesis using None by (simp add: assessOffset_def)
  next
    case (Some row)
    then have row: "row \<in> set (paymentOrders db)" "alipayAccountId row = account"
        "payableAmountCents row = amount" "checkoutStatus row = OPEN"
      using find_SomeD [OF Some] by simp_all
    note ok = safe_of_row [OF rowsInvD(4) [OF rows row(1)]]
    show ?thesis
    proof (cases "expiresAt row \<le> now")
      case False
      then show ?thesis using Some ok
        by (simp add: assessOffset_def amountReuseAvailableAt_def Let_def)
    next
      case True
      then have due: "dueForExpiry now row" using row by (simp add: dueForExpiry_def)
      have v: "isSafeInteger (version row)" using safe row by (auto simp: countersSafe_def list_all_iff)
      have use': "sameUse now db (expiredDb env row now db)" by (rule sameUse_expired [OF inv row(1) due now])
      obtain v where "assessLatestSlot account amount now (expiredDb env row now db) = Inr v"
        using assessLatestSlot_verdict(2) [of "expiredDb env row now db" now account amount]
          no_open_expired [OF rows row(1,4,2,3)] use' safe
        by (auto simp: sameUse_def)
      then show ?thesis using Some ok True expireOrder_due [OF inv row(1) due v now]
        by (simp add: assessOffset_def)
    qed
  qed
qed

subsection \<open>The loop\<close>

text \<open>
  The specification: the payable amounts on offer, the first of them that is free, and when none is,
  the whole seconds until the first one becomes free.
\<close>

definition offeredAmounts :: "int \<Rightarrow> int \<Rightarrow> int list" where
  "offeredAmounts requested maximum =
     filter (\<lambda>a. a \<le> MAX_PAYABLE_AMOUNT_CENTS) [requested + 1 .. requested + maximum]"

definition firstFree :: "string \<Rightarrow> int \<Rightarrow> order_db \<Rightarrow> int list \<Rightarrow> int option" where
  "firstFree account now db = List.find (\<lambda>a. amountFree account a now db)"

definition earliestOf :: "int option \<Rightarrow> int list \<Rightarrow> int option" where
  "earliestOf earliest ts = fold (\<lambda>t e. Some (minimumDefined e t)) ts earliest"

definition nextGeneration :: "string \<Rightarrow> int \<Rightarrow> order_db \<Rightarrow> int" where
  "nextGeneration account amount db =
     (case newestSlot (slotsAt account amount db) of None \<Rightarrow> 1 | Some s \<Rightarrow> generation s + 1)"

definition allocationOk ::
  "string \<Rightarrow> int \<Rightarrow> int option \<Rightarrow> int list \<Rightarrow> amount_allocation \<Rightarrow> order_db \<Rightarrow> bool"
where
  "allocationOk account now earliest amounts allocation db \<longleftrightarrow>
     (case firstFree account now db amounts of
        Some a \<Rightarrow>
          allocation = Allocated a (nextGeneration account a db) \<and>
          list_all (\<lambda>r. checkoutStatus r \<noteq> OPEN) (amountOrders account a db)
      | None \<Rightarrow>
          exhaustedResult (earliestOf earliest (map (\<lambda>a. amountFreeAt account a db) amounts)) now =
          Inr allocation)"

lemma filter_upto_above: "m < a \<Longrightarrow> filter (\<lambda>x. x \<le> m) [a..(b :: int)] = []"
  by (auto simp: filter_empty_conv)

lemma verdictOkD:
  "verdictOk account amount now db (SlotFree g) \<Longrightarrow>
   amountFree account amount now db \<and> g = nextGeneration account amount db \<and>
   list_all (\<lambda>r. checkoutStatus r \<noteq> OPEN) (amountOrders account amount db)"
  "verdictOk account amount now db (SlotBusy t) \<Longrightarrow>
   now < t \<and> t = amountFreeAt account amount db \<and> \<not> amountFree account amount now db"
  by (simp_all add: verdictOk_def nextGeneration_def)

lemma firstFree_Cons:
  "firstFree account now db (a # as) =
     (if amountFree account a now db then Some a else firstFree account now db as)"
  by (simp add: firstFree_def)

lemma earliestOf_Cons: "earliestOf e (t # ts) = earliestOf (Some (minimumDefined e t)) ts"
  by (simp add: earliestOf_def)

lemma allocationOk_free:
  "amountFree account a now db \<Longrightarrow> list_all (\<lambda>r. checkoutStatus r \<noteq> OPEN) (amountOrders account a db) \<Longrightarrow>
   allocationOk account now earliest (a # as) (Allocated a (nextGeneration account a db)) db"
  by (simp add: allocationOk_def firstFree_Cons)

lemma allocationOk_busy:
  "\<not> amountFree account a now db \<Longrightarrow>
   allocationOk account now (Some (minimumDefined earliest (amountFreeAt account a db))) as allocation db \<Longrightarrow>
   allocationOk account now earliest (a # as) allocation db"
  by (cases "firstFree account now db as") (simp_all add: allocationOk_def firstFree_Cons earliestOf_Cons)

lemma allocateFrom_partial:
  assumes "orderInv db" "now = orderClock db"
    and "allocateFrom env account requested offset remaining now earliest db = Inr (allocation, db')"
  shows "sameUse now db db' \<and>
    allocationOk account now earliest
      (filter (\<lambda>a. a \<le> MAX_PAYABLE_AMOUNT_CENTS) [requested + offset..requested + offset + int remaining - 1])
      allocation db'"
  using assms
proof (induction remaining arbitrary: offset earliest db)
  case 0
  then show ?case
    by (auto simp: result_simps allocationOk_def firstFree_def earliestOf_def intro: sameUse_refl)
next
  case (Suc remaining)
  let ?a = "requested + offset"
  show ?case
  proof (cases "MAX_PAYABLE_AMOUNT_CENTS < ?a")
    case True
    then show ?thesis
      using Suc.prems filter_upto_above [OF True, of "?a + int (Suc remaining) - 1"]
      by (auto simp: result_simps allocationOk_def firstFree_def earliestOf_def intro: sameUse_refl)
  next
    case False
    then obtain v db1 where v: "assessOffset env account ?a now db = Inr (v, db1)"
        "(case v of SlotFree g \<Rightarrow> Inr (Allocated ?a g, db1)
          | SlotBusy t \<Rightarrow> allocateFrom env account requested (offset + 1) remaining now
                            (Some (minimumDefined earliest t)) db1) = Inr (allocation, db')"
      using Suc.prems(3) by (auto simp: result_simps)
    note one = assessOffset_partial [OF Suc.prems(1,2) v(1)]
    have amounts: "filter (\<lambda>a. a \<le> MAX_PAYABLE_AMOUNT_CENTS) [?a..?a + int (Suc remaining) - 1] =
        ?a # filter (\<lambda>a. a \<le> MAX_PAYABLE_AMOUNT_CENTS)
               [requested + (offset + 1)..requested + (offset + 1) + int remaining - 1]"
      using False by (simp add: upto_rec1 add.assoc)
    show ?thesis
    proof (cases v)
      case (SlotFree g)
      then show ?thesis
        unfolding amounts using v(2) one verdictOkD(1) [of account ?a now db1 g] allocationOk_free by auto
    next
      case (SlotBusy t)
      have inv1: "orderInv db1" "now = orderClock db1" using one(1) by (simp_all add: sameUse_def)
      have ih: "sameUse now db1 db' \<and>
          allocationOk account now (Some (minimumDefined earliest t))
            (filter (\<lambda>a. a \<le> MAX_PAYABLE_AMOUNT_CENTS)
              [requested + (offset + 1)..requested + (offset + 1) + int remaining - 1]) allocation db'"
        by (rule Suc.IH [OF inv1]) (use v(2) SlotBusy in simp)
      have "\<not> amountFree account ?a now db'" "t = amountFreeAt account ?a db'"
        using verdictOkD(2) one(2) SlotBusy sameReuseD [of db1 db'] ih by (auto simp: sameUse_def)
      then have "allocationOk account now earliest
          (filter (\<lambda>a. a \<le> MAX_PAYABLE_AMOUNT_CENTS) [?a..?a + int (Suc remaining) - 1]) allocation db'"
        unfolding amounts by (intro allocationOk_busy) (use ih in auto)
      then show ?thesis using ih sameUse_trans [OF one(1)] by blast
    qed
  qed
qed

text \<open>Nothing in the loop fails while some amount has been tried.\<close>

lemma allocateFrom_total:
  assumes "orderInv db" "now = orderClock db" "countersSafe db"
    and "\<And>t. earliest = Some t \<Longrightarrow> now < t"
    and "earliest \<noteq> None \<or> remaining \<noteq> 0 \<and> requested + offset \<le> MAX_PAYABLE_AMOUNT_CENTS"
  shows "\<exists>allocation db'.
    allocateFrom env account requested offset remaining now earliest db = Inr (allocation, db')"
  using assms
proof (induction remaining arbitrary: offset earliest db)
  case 0
  then show ?case by (cases earliest) (auto simp: exhaustedResult_def)
next
  case (Suc remaining)
  let ?a = "requested + offset"
  show ?case
  proof (cases "MAX_PAYABLE_AMOUNT_CENTS < ?a")
    case True
    then show ?thesis using Suc.prems(4,5) by (cases earliest) (auto simp: exhaustedResult_def)
  next
    case False
    obtain v db1 where v: "assessOffset env account ?a now db = Inr (v, db1)"
      using assessOffset_total [OF Suc.prems(1-3)] by blast
    note one = assessOffset_partial [OF Suc.prems(1,2) v]
    show ?thesis
    proof (cases v)
      case (SlotBusy t)
      have t: "now < t" using one(2) SlotBusy verdictOkD(2) by blast
      have ok: "orderInv db1" "now = orderClock db1" "countersSafe db1"
        using one(1) Suc.prems(3) by (simp_all add: sameUse_def)
      have "now < minimumDefined earliest t"
        using t Suc.prems(4) by (simp add: minimumDefined_def split: option.split)
      then show ?thesis
        using v SlotBusy False Suc.IH [OF ok, of "Some (minimumDefined earliest t)" "offset + 1"] by auto
    qed (use v False in simp)
  qed
qed

lemma allocateAmountSlot_partial:
  assumes "orderInv db" "now = orderClock db" "0 \<le> maximum"
    "allocateAmountSlot env account requested maximum now db = Inr (allocation, db')"
  shows "sameUse now db db' \<and>
    allocationOk account now None (offeredAmounts requested maximum) allocation db'"
  using allocateFrom_partial [OF assms(1,2), of env account requested 1 "nat maximum" None allocation db'] assms(3,4)
  by (simp add: allocateAmountSlot_def offeredAmounts_def add.commute)

end
