(* ===== verification/OrderAggregates.thy ===== *)
theory OrderAggregates
  imports OrderSlots
begin

text \<open>
  The reads of \<^verbatim>\<open>src/src/database/order-store.ts\<close>: an order joined with its checkout session, its
  collection profile and its notification target, checked on the way out (\<^verbatim>\<open>mapAggregate\<close>,
  \<^verbatim>\<open>mapWebhookTarget\<close>, \<^verbatim>\<open>mapCollectionProfile\<close>), and the checkout token derived again from the
  key it was created under.
\<close>

subsection \<open>Collection profiles\<close>

definition isProviderAccountKey :: "string \<Rightarrow> bool" where
  "isProviderAccountKey key \<longleftrightarrow>
     (case key of [] \<Rightarrow> False
      | c # cs \<Rightarrow> isAsciiAlphanumeric (unitOf (of_char c)) \<and> length cs \<le> 127 \<and>
          list_all (\<lambda>x. isMerchantOrderUnit (unitOf (of_char x)) \<or> x = CHR '':'') cs)"

definition payloadDigest :: "(nat list \<Rightarrow> string) \<Rightarrow> jstr \<Rightarrow> string" where
  "payloadDigest sha code = sha (utf8 code)"

definition fingerprintCollectionCodeProfile ::
  "(nat list \<Rightarrow> string) \<Rightarrow> jstr \<Rightarrow> string \<Rightarrow> store_error + string \<times> string"
where
  "fingerprintCollectionCodeProfile sha code providerKey =
     bindR (assertR (isProviderAccountKey providerKey)
              (RangeFailure ''collection profile provider account key is invalid''))
       (\<lambda>_. Inr (payloadDigest sha code,
          sha (utf8 (stringify (JArr
            [JStr (js ''perpay:collection-profile:v2''),
             JArr [JStr (js ''provider_account_key''), JStr (js providerKey)],
             JArr [JStr (js ''payload_sha256''), JStr (js (payloadDigest sha code))],
             JArr [JStr (js ''evidence_policy''), JStr (js ''UNIQUE_AMOUNT_AUTO'')]])))))"

text \<open>\<open>COALESCE(link.provider_account_key, profile.provider_account_key)\<close>.\<close>

definition profileProviderKey :: "order_db \<Rightarrow> collection_profile \<Rightarrow> string" where
  "profileProviderKey db profile =
     (case map_of (profileProviderLinks db) (profileId profile) of
        None \<Rightarrow> providerAccountKey profile | Some key \<Rightarrow> key)"

definition mapCollectionProfile ::
  "order_env \<Rightarrow> order_db \<Rightarrow> collection_profile \<Rightarrow> store_error + collection_profile"
where
  "mapCollectionProfile env db row =
     bindR (fingerprintCollectionCodeProfile (sha256 env) (codePayload row) (profileProviderKey db row))
       (\<lambda>(payloadFp, profileFp).
     bindR (assertR (payloadFingerprint row = payloadFp \<and> profileFingerprint row = profileFp)
              (Failure ''collection profile fingerprints do not match its code payload'')) (\<lambda>_.
     bindR (toSafeInteger (profileVersion row) ''collection profile version'') (\<lambda>_.
     bindR (toSafeInteger (profileCreatedAt row) ''collection profile creation time'') (\<lambda>_.
     Inr (row\<lparr>providerAccountKey := profileProviderKey db row\<rparr>)))))"

definition readCollectionProfileById ::
  "order_env \<Rightarrow> order_db \<Rightarrow> string \<Rightarrow> store_error + collection_profile option"
where
  "readCollectionProfileById env db pid =
     (case List.find (\<lambda>r. profileId r = pid) (collectionProfiles db) of
        None \<Rightarrow> Inr None
      | Some row \<Rightarrow> bindR (mapCollectionProfile env db row) (\<lambda>p. Inr (Some p)))"

definition readCollectionProfileByFingerprint ::
  "order_env \<Rightarrow> order_db \<Rightarrow> string \<Rightarrow> store_error + collection_profile option"
where
  "readCollectionProfileByFingerprint env db fp =
     (case List.find (\<lambda>r. profileFingerprint r = fp) (collectionProfiles db) of
        None \<Rightarrow> Inr None
      | Some row \<Rightarrow> bindR (mapCollectionProfile env db row) (\<lambda>p. Inr (Some p)))"

definition readActiveCollectionProfile ::
  "order_env \<Rightarrow> order_db \<Rightarrow> store_error + collection_profile option"
where
  "readActiveCollectionProfile env db =
     (case activeProfile db of
        None \<Rightarrow> Inr None
      | Some (pid, _) \<Rightarrow> readCollectionProfileById env db pid)"

subsection \<open>Notification targets\<close>

definition mapWebhookTarget ::
  "order_env \<Rightarrow> payment_order \<Rightarrow> stored_webhook_target option
     \<Rightarrow> store_error + stored_webhook_target option"
where
  "mapWebhookTarget env ord target =
     (case target of
        None \<Rightarrow>
          bindR (assertR (webhookTargetRequestFingerprint ord = None)
                   (Failure ''webhook target commitment has no target'')) (\<lambda>_. Inr None)
      | Some t \<Rightarrow>
          (case webhookTargetRequestFingerprint ord of
             None \<Rightarrow> Inl (Failure ''webhook target has no order commitment'')
           | Some commitment \<Rightarrow>
               (case prepareWebhookTarget (sha256 env) (urlEnv env) (targetUrl t)
                       (targetAllowedOrigin t) (targetFormat t) of
                  Inl _ \<Rightarrow> Inl (Failure ''WebhookTargetError'')
                | Inr prepared \<Rightarrow>
                    bindR (assertR (targetFormat t = preparedFormat prepared \<and>
                             targetUrlFingerprint t = preparedUrlFingerprint prepared \<and>
                             targetRequestFingerprint t = preparedRequestFingerprint prepared \<and>
                             commitment = preparedRequestFingerprint prepared \<and>
                             targetRequestFingerprintVersion t = preparedRequestFingerprintVersion prepared)
                           (Failure ''webhook target fingerprints do not match its URL'')) (\<lambda>_.
                    bindR (toSafeInteger (targetCreatedAt t) ''webhook target time'') (\<lambda>_.
                    Inr (Some (t\<lparr>targetOrderId := orderId ord, targetClientId := apiClientId ord,
                                  targetUrl := preparedUrl prepared\<rparr>)))))))"

subsection \<open>Aggregates\<close>

record order_aggregate =
  aggOrder :: payment_order
  aggCheckout :: checkout_session
  aggProfile :: collection_profile
  aggTarget :: "stored_webhook_target option"

record stored_order_aggregate = order_aggregate +
  aggCheckoutToken :: string

definition sessionOf :: "order_db \<Rightarrow> payment_order \<Rightarrow> checkout_session option" where
  "sessionOf db ord = List.find (\<lambda>c. checkoutOrderId c = orderId ord) (checkoutSessions db)"

definition profileOf :: "order_db \<Rightarrow> payment_order \<Rightarrow> collection_profile option" where
  "profileOf db ord = List.find (\<lambda>p. profileId p = collectionProfileId ord) (collectionProfiles db)"

definition targetOf :: "order_db \<Rightarrow> payment_order \<Rightarrow> stored_webhook_target option" where
  "targetOf db ord = List.find (\<lambda>t. targetOrderId t = orderId ord) (webhookTargets db)"

text \<open>The inner joins: an order row without a session or a profile is not in the result.\<close>

definition joined :: "order_db \<Rightarrow> payment_order \<Rightarrow> bool" where
  "joined db ord \<longleftrightarrow> sessionOf db ord \<noteq> None \<and> profileOf db ord \<noteq> None"

fun toSafeIntegers :: "(int \<times> string) list \<Rightarrow> store_error + unit" where
  "toSafeIntegers [] = Inr ()"
| "toSafeIntegers ((n, label) # rest) = bindR (toSafeInteger n label) (\<lambda>_. toSafeIntegers rest)"

lemma toSafeIntegers_Inr_iff [result_simps]:
  "toSafeIntegers items = Inr u \<longleftrightarrow> list_all (\<lambda>(n, _). isSafeInteger n) items"
  by (induction items) (auto simp: result_simps)

definition nullable :: "int option \<Rightarrow> string \<Rightarrow> (int \<times> string) list" where
  "nullable x label = (case x of None \<Rightarrow> [] | Some n \<Rightarrow> [(n, label)])"

definition mapAggregate ::
  "order_env \<Rightarrow> order_db \<Rightarrow> payment_order \<Rightarrow> checkout_session \<Rightarrow> collection_profile
     \<Rightarrow> store_error + order_aggregate"
where
  "mapAggregate env db row session profile =
     bindR (toSafeInteger (idempotencyKeyDigestVersion row) ''idempotency key digest version'') (\<lambda>v.
     bindR (assertR (v = 1) (Failure ''unsupported idempotency key digest version'')) (\<lambda>_.
     bindR (toSafeInteger (requestFingerprintVersion row) ''request fingerprint version'') (\<lambda>v.
     bindR (assertR (v = 1) (Failure ''unsupported request fingerprint version'')) (\<lambda>_.
     bindR (toSafeInteger (noteFingerprintVersion row) ''order note fingerprint version'') (\<lambda>v.
     bindR (assertR (v = 1) (Failure ''unsupported order note fingerprint version'')) (\<lambda>_.
     bindR (assertR (noteFingerprint row = fingerprintOrderNote (sha256 env) (orderNote row))
              (Failure ''order note fingerprint does not match its note'')) (\<lambda>_.
     bindR (toSafeInteger (returnUrlFingerprintVersion row) ''order return URL fingerprint version'') (\<lambda>v.
     bindR (assertR (v = 1) (Failure ''unsupported order return URL fingerprint version'')) (\<lambda>_.
     bindR (assertR (returnUrlFingerprint row = fingerprintOrderReturnUrl (sha256 env) (returnUrl row))
              (Failure ''order return URL fingerprint does not match its return URL'')) (\<lambda>_.
     bindR (toSafeIntegers
              ([(requestedAmountCents row, ''requested amount''), (payableAmountCents row, ''payable amount''),
                (allocationOffsetMaximumCents row, ''allocation offset maximum''),
                (amountReuseCooldownSeconds row, ''amount reuse cooldown'')] @
               nullable (receivedAmountCents row) ''received amount'' @
               [(eligibleFrom row, ''eligible time''), (createdAt row, ''created time''),
                (expiresAt row, ''expiry time'')] @
               nullable (closedAt row) ''checkout end time'' @
               [(updatedAt row, ''updated time''), (version row, ''order version''),
                (tokenKeyVersion session, ''checkout token key version''),
                (terminalObservationMilliseconds session, ''checkout terminal observation interval''),
                (profileVersion profile, ''collection profile version''),
                (profileCreatedAt profile, ''collection profile creation time'')])) (\<lambda>_.
     bindR (mapWebhookTarget env row (targetOf db row)) (\<lambda>target.
     Inr \<lparr>aggOrder = row, aggCheckout = session\<lparr>checkoutOrderId := orderId row\<rparr>,
          aggProfile = profile\<lparr>profileId := collectionProfileId row, profileAccountId := alipayAccountId row,
                                providerAccountKey := profileProviderKey db profile\<rparr>,
          aggTarget = target\<rparr>))))))))))))"

definition readAggregateWhere ::
  "order_env \<Rightarrow> order_db \<Rightarrow> (payment_order \<Rightarrow> bool) \<Rightarrow> store_error + order_aggregate option"
where
  "readAggregateWhere env db p =
     (case List.find (\<lambda>r. p r \<and> joined db r) (paymentOrders db) of
        None \<Rightarrow> Inr None
      | Some row \<Rightarrow>
          bindR (mapAggregate env db row (the (sessionOf db row)) (the (profileOf db row)))
            (\<lambda>a. Inr (Some a)))"

definition readAggregateById ::
  "order_env \<Rightarrow> order_db \<Rightarrow> jstr \<Rightarrow> string \<Rightarrow> store_error + order_aggregate option"
where
  "readAggregateById env db client oid =
     readAggregateWhere env db (\<lambda>r. apiClientId r = client \<and> orderId r = oid)"

definition readAggregateByAdminId ::
  "order_env \<Rightarrow> order_db \<Rightarrow> string \<Rightarrow> store_error + order_aggregate option"
where
  "readAggregateByAdminId env db oid = readAggregateWhere env db (\<lambda>r. orderId r = oid)"

definition readAggregateByMerchantOrderNumber ::
  "order_env \<Rightarrow> order_db \<Rightarrow> jstr \<Rightarrow> jstr \<Rightarrow> store_error + order_aggregate option"
where
  "readAggregateByMerchantOrderNumber env db client no =
     readAggregateWhere env db (\<lambda>r. apiClientId r = client \<and> merchantOrderNo r = no)"

definition readAggregateByIdempotencyDigest ::
  "order_env \<Rightarrow> order_db \<Rightarrow> jstr \<Rightarrow> string \<Rightarrow> store_error + order_aggregate option"
where
  "readAggregateByIdempotencyDigest env db client digest =
     readAggregateWhere env db (\<lambda>r. apiClientId r = client \<and> idempotencyKeyDigest r = digest)"

text \<open>The former client namespaces of a client, tried in order.\<close>

fun readInNamespaces ::
  "order_env \<Rightarrow> order_db \<Rightarrow> jstr \<Rightarrow> jstr \<Rightarrow> jstr list \<Rightarrow> store_error + order_aggregate option"
where
  "readInNamespaces env db client key [] = Inr None"
| "readInNamespaces env db client key (ns # rest) =
     bindR (readAggregateByIdempotencyDigest env db client (digestIdempotencyKey (sha256 env) ns key))
       (\<lambda>found. case found of Some a \<Rightarrow> Inr (Some a) | None \<Rightarrow> readInNamespaces env db client key rest)"

definition readAggregateByLegacyIdempotencyKey ::
  "order_env \<Rightarrow> order_db \<Rightarrow> jstr \<Rightarrow> jstr \<Rightarrow> store_error + order_aggregate option"
where
  "readAggregateByLegacyIdempotencyKey env db client key =
     readInNamespaces env db client key
       (sort_key (map unat) (map snd (filter (\<lambda>(c, _). c = client) (idempotencyNamespaces db))))"

definition readAggregateByTokenDigest ::
  "order_env \<Rightarrow> order_db \<Rightarrow> string \<Rightarrow> store_error + order_aggregate option"
where
  "readAggregateByTokenDigest env db digest =
     readAggregateWhere env db
       (\<lambda>r. case sessionOf db r of None \<Rightarrow> False | Some c \<Rightarrow> tokenDigest c = digest)"

subsection \<open>Checkout tokens of stored orders\<close>

definition readCheckoutTokenKey :: "order_db \<Rightarrow> int \<Rightarrow> store_error + nat list" where
  "readCheckoutTokenKey db v =
     (case List.find (\<lambda>k. keyVersion k = v) (tokenKeys db) of
        None \<Rightarrow> Inl (Failure ''checkout token key version is missing or invalid'')
      | Some k \<Rightarrow>
          if length (keyMaterial k) \<noteq> 32
          then Inl (Failure ''checkout token key version is missing or invalid'')
          else Inr (keyMaterial k))"

definition withCheckoutToken ::
  "order_env \<Rightarrow> order_db \<Rightarrow> order_aggregate \<Rightarrow> store_error + stored_order_aggregate"
where
  "withCheckoutToken env db a =
     bindR (readCheckoutTokenKey db (tokenKeyVersion (aggCheckout a))) (\<lambda>key.
     bindR (deriveCheckoutToken (hmacSha256 env) key (checkoutId (aggCheckout a))) (\<lambda>token.
     bindR (digestCheckoutToken (sha256 env) token) (\<lambda>digest.
     bindR (assertR (digest = tokenDigest (aggCheckout a))
              (Failure ''checkout token key does not match the persisted token digest'')) (\<lambda>_.
     Inr (order_aggregate.extend a (stored_order_aggregate.fields token))))))"

text \<open>
  The key new checkouts use: the active one, or after the rotation interval a fresh one that retires
  it.  The second component is the key row.
\<close>

definition readOrRotateActiveCheckoutTokenKey ::
  "order_env \<Rightarrow> int \<Rightarrow> int \<Rightarrow> order_db \<Rightarrow> store_error + checkout_token_key \<times> order_db"
where
  "readOrRotateActiveCheckoutTokenKey env now rotationMilliseconds db =
     (case List.find (\<lambda>k. retiredAt k = None) (tokenKeys db) of
        None \<Rightarrow> Inl (Failure ''active checkout token key is missing or invalid'')
      | Some current \<Rightarrow>
          if length (keyMaterial current) \<noteq> 32
          then Inl (Failure ''active checkout token key is missing or invalid'')
          else
            bindR (toSafeInteger (keyVersion current) ''checkout token key version'') (\<lambda>v.
            bindR (toSafeInteger (activatedAt current) ''checkout token key activation time'') (\<lambda>activated.
            if now - activated < rotationMilliseconds then Inr (current, db)
            else
              bindR (assertR (isSafeInteger (v + 1))
                      (Failure ''checkout token key version is outside the safe integer range'')) (\<lambda>_.
              bindR (assertChangedOnce (changes (\<lambda>k. keyVersion k = v \<and> retiredAt k = None) (tokenKeys db))
                      ''checkout token key retirement'') (\<lambda>_.
              (let fresh = \<lparr>keyVersion = v + 1, keyMaterial = randomKey env, activatedAt = now,
                            retiredAt = None\<rparr>
               in Inr (fresh, db\<lparr>tokenKeys :=
                    updateRows (\<lambda>k. keyVersion k = v \<and> retiredAt k = None) (\<lambda>k. k\<lparr>retiredAt := Some now\<rparr>)
                      (tokenKeys db) @ [fresh]\<rparr>)))))))"

definition isTerminalCheckoutObservable :: "order_aggregate \<Rightarrow> int \<Rightarrow> store_error + bool" where
  "isTerminalCheckoutObservable a now =
     (case closedAt (aggOrder a) of
        None \<Rightarrow> Inl (Failure ''terminal checkout is missing its close time'')
      | Some closed \<Rightarrow>
          (let terminalAt = (if checkoutStatus (aggOrder a) = EXPIRED then expiresAt (aggOrder a) else closed)
           in Inr (now - terminalAt < terminalObservationMilliseconds (aggCheckout a))))"

end
