(* ===== verification/OrderStore.thy ===== *)
theory OrderStore
  imports OrderAggregates
begin

text \<open>
  The write operations of \<^verbatim>\<open>src/src/database/order-store.ts\<close>: \<^verbatim>\<open>syncCollectionProfile\<close>,
  \<^verbatim>\<open>createOrder\<close>, \<^verbatim>\<open>closeOrder\<close>, the reads that expire the order they return, and the public
  checkout read.  Each is the callback of one transaction.
\<close>

subsection \<open>Inputs and results\<close>

record epay_order_creation =
  creationSiteId :: jstr
  creationProtocol :: epay_protocol
  configurationRevision :: int
  creationRequestFingerprint :: string
  creationParam :: "jstr option"
  creationReturnUrl :: "jstr option"

record create_stored_order_input =
  inEpay :: "epay_order_creation option"
  inApiClientId :: jstr
  inProfileIds :: "string list option"
  inSiteRevision :: "int option"
  inRequest :: createOrderRequest
  inDigest :: string
  inRequestFingerprint :: string
  inTtlMilliseconds :: int
  inOffsetMaximumCents :: int
  inCooldownSeconds :: "int option"
  inKeyRotationMilliseconds :: int
  inTerminalObservationMilliseconds :: int
  inWebhookTarget :: "prepared_webhook_target option"
  inWebhookRejection :: "(jstr \<times> webhook_target_error) option"
  inReturnUrl :: "jstr option"
  inReturnUrlRejection :: "(jstr \<times> return_url_error) option"

datatype create_stored_order_result =
    Created stored_order_aggregate
  | Existing stored_order_aggregate
  | IdempotencyConflict string
  | MerchantOrderConflict string
  | WebhookTargetRejected webhook_target_error
  | ReturnUrlRejected return_url_error
  | AmountSlotsExhausted int

subsection \<open>Checks of the input\<close>

definition validateWebhookTargetInput ::
  "order_env \<Rightarrow> create_stored_order_input \<Rightarrow> store_error + unit"
where
  "validateWebhookTargetInput env input =
     (if inWebhookTarget input \<noteq> None \<and> inWebhookRejection input \<noteq> None
      then Inl (RangeFailure ''order webhook target input is ambiguous'')
      else case notify_url (inRequest input) of
        None \<Rightarrow>
          assertR (inWebhookTarget input = None \<and> inWebhookRejection input = None)
            (RangeFailure ''order webhook target has no request URL'')
      | Some requestedUrl \<Rightarrow>
          (case inWebhookRejection input of
             Some (rejectedUrl, _) \<Rightarrow>
               assertR (rejectedUrl = requestedUrl)
                 (RangeFailure ''rejected order webhook target does not match the request'')
           | None \<Rightarrow>
               (case inWebhookTarget input of
                  None \<Rightarrow> Inl (RangeFailure ''order webhook target is missing'')
                | Some target \<Rightarrow>
                    (case prepareWebhookTarget (sha256 env) (urlEnv env) requestedUrl
                            (preparedAllowedOrigin target) (preparedFormat target) of
                       Inl _ \<Rightarrow> Inl (Failure ''WebhookTargetError'')
                     | Inr prepared \<Rightarrow>
                         assertR (target = prepared)
                           (RangeFailure ''order webhook target does not match the request'')))))"

definition validateReturnUrlInput ::
  "order_env \<Rightarrow> create_stored_order_input \<Rightarrow> store_error + unit"
where
  "validateReturnUrlInput env input =
     (if inReturnUrl input \<noteq> None \<and> inReturnUrlRejection input \<noteq> None
      then Inl (RangeFailure ''order return URL input is ambiguous'')
      else case return_url (inRequest input) of
        None \<Rightarrow>
          assertR (inReturnUrl input = None \<and> inReturnUrlRejection input = None)
            (RangeFailure ''order return URL has no request URL'')
      | Some requestedUrl \<Rightarrow>
          (case inReturnUrlRejection input of
             Some (rejectedUrl, _) \<Rightarrow>
               assertR (rejectedUrl = requestedUrl)
                 (RangeFailure ''rejected order return URL does not match the request'')
           | None \<Rightarrow>
               (case inReturnUrl input of
                  None \<Rightarrow> Inl (RangeFailure ''order return URL is missing'')
                | Some url \<Rightarrow>
                    (case parseUrl (urlEnv env) requestedUrl of
                       None \<Rightarrow> Inl (RangeFailure ''order return URL is invalid'')
                     | Some u \<Rightarrow>
                         assertR (href u = url)
                           (RangeFailure ''order return URL does not match the request'')))))"

subsection \<open>Is a repeated request the same request\<close>

definition sameWebhookTarget ::
  "stored_webhook_target option \<Rightarrow> prepared_webhook_target option \<Rightarrow> bool"
where
  "sameWebhookTarget stored requested =
     (case (stored, requested) of
        (Some t, Some r) \<Rightarrow>
          targetFormat t = preparedFormat r \<and> targetUrl t = preparedUrl r \<and>
          targetAllowedOrigin t = preparedAllowedOrigin r \<and>
          targetUrlFingerprint t = preparedUrlFingerprint r \<and>
          targetRequestFingerprint t = preparedRequestFingerprint r \<and>
          targetRequestFingerprintVersion t = preparedRequestFingerprintVersion r
      | (None, None) \<Rightarrow> True
      | _ \<Rightarrow> False)"

definition sameWebhookTargetRequest ::
  "order_env \<Rightarrow> stored_webhook_target option \<Rightarrow> prepared_webhook_target option
     \<Rightarrow> (jstr \<times> webhook_target_error) option \<Rightarrow> bool"
where
  "sameWebhookTargetRequest env stored requested rejected =
     (case rejected of
        None \<Rightarrow> sameWebhookTarget stored requested
      | Some (url, _) \<Rightarrow>
          (case stored of
             None \<Rightarrow> False
           | Some t \<Rightarrow>
               if requested \<noteq> None then False
               else case prepareWebhookTarget (sha256 env) (urlEnv env) url (targetAllowedOrigin t)
                           NATIVE_JSON_V1 of
                      Inl _ \<Rightarrow> False
                    | Inr prepared \<Rightarrow> sameWebhookTarget stored (Some prepared)))"

definition sameReturnUrlRequest ::
  "order_env \<Rightarrow> jstr option \<Rightarrow> jstr option \<Rightarrow> (jstr \<times> return_url_error) option \<Rightarrow> bool"
where
  "sameReturnUrlRequest env stored requested rejected =
     (case rejected of
        None \<Rightarrow> stored = requested
      | Some (url, _) \<Rightarrow>
          (case stored of
             None \<Rightarrow> False
           | Some s \<Rightarrow> (case parseUrl (urlEnv env) url of None \<Rightarrow> False | Some u \<Rightarrow> href u = s)))"

definition readEpayOrder :: "order_db \<Rightarrow> string \<Rightarrow> epay_order option" where
  "readEpayOrder db oid = List.find (\<lambda>e. epayOrderId e = oid) (epayOrders db)"

definition sameEpayRequest :: "order_db \<Rightarrow> string \<Rightarrow> epay_order_creation option \<Rightarrow> bool" where
  "sameEpayRequest db oid input =
     (case (readEpayOrder db oid, input) of
        (Some e, Some i) \<Rightarrow>
          epaySiteId e = creationSiteId i \<and> epayProtocol e = creationProtocol i \<and>
          epayRequestFingerprint e = creationRequestFingerprint i \<and>
          epayParam e = creationParam i \<and> epayReturnUrl e = creationReturnUrl i
      | (None, None) \<Rightarrow> True
      | _ \<Rightarrow> False)"

definition sameRequest :: "order_env \<Rightarrow> order_db \<Rightarrow> create_stored_order_input \<Rightarrow> order_aggregate \<Rightarrow> bool" where
  "sameRequest env db input a \<longleftrightarrow>
     \<not> (\<not> sameEpayRequest db (orderId (aggOrder a)) (inEpay input) \<or>
        requestFingerprint (aggOrder a) \<noteq> inRequestFingerprint input \<or>
        requestFingerprintVersion (aggOrder a) \<noteq> 1 \<or>
        noteFingerprint (aggOrder a) \<noteq> fingerprintOrderNote (sha256 env) (req_note (inRequest input)) \<or>
        \<not> sameReturnUrlRequest env (returnUrl (aggOrder a)) (inReturnUrl input) (inReturnUrlRejection input) \<or>
        \<not> sameWebhookTargetRequest env (aggTarget a) (inWebhookTarget input) (inWebhookRejection input))"

text \<open>
  A request whose key is already stored: the stored order is expired first if it is due and read
  again, then it is either returned or in conflict.  \<open>read\<close> finds it, by the digest of the key or,
  for a migrated client, by a digest under a former namespace.
\<close>

definition replayExisting ::
  "order_env \<Rightarrow> create_stored_order_input \<Rightarrow> (order_db \<Rightarrow> store_error + order_aggregate option)
     \<Rightarrow> string \<Rightarrow> int \<Rightarrow> order_db \<Rightarrow> store_error + create_stored_order_result option \<times> order_db"
where
  "replayExisting env input read missing now db =
     bindR (read db) (\<lambda>found.
     case found of
       None \<Rightarrow> Inr (None, db)
     | Some a0 \<Rightarrow>
         bindR (if checkoutStatus (aggOrder a0) = OPEN \<and> expiresAt (aggOrder a0) \<le> now then
                  bindR (expireOrder env (orderId (aggOrder a0)) now db) (\<lambda>db'.
                  bindR (read db') (\<lambda>again.
                  case again of
                    None \<Rightarrow> Inl (Failure missing)
                  | Some a \<Rightarrow> Inr (a, db')))
                else Inr (a0, db)) (\<lambda>(a, db').
         if sameRequest env db' input a then
           bindR (withCheckoutToken env db' a) (\<lambda>full. Inr (Some (Existing full), db'))
         else Inr (Some (IdempotencyConflict (orderId (aggOrder a))), db')))"

subsection \<open>May the website create an order\<close>

definition readSite :: "order_db \<Rightarrow> jstr \<Rightarrow> site_row option" where
  "readSite db client = List.find (\<lambda>s. siteClientId s = client) (siteRows db)"

definition pendingOrders :: "order_db \<Rightarrow> jstr \<Rightarrow> int \<Rightarrow> payment_order list" where
  "pendingOrders db client now =
     filter (\<lambda>r. apiClientId r = client \<and> checkoutStatus r = OPEN \<and> paymentStatus r = UNPAID \<and>
                 expiresAt r > now) (paymentOrders db)"

definition assertSiteCanCreate :: "order_db \<Rightarrow> jstr \<Rightarrow> int \<Rightarrow> store_error + unit" where
  "assertSiteCanCreate db client now =
     (case readSite db client of
        None \<Rightarrow> Inl (SiteFailure ''site_not_found'' None)
      | Some site \<Rightarrow>
          if \<not> acceptingOrders site then Inl (SiteFailure ''site_paused'' None)
          else case pendingOrderLimit site of
                 None \<Rightarrow> Inr ()
               | Some limit \<Rightarrow>
                   (let pending = pendingOrders db client now
                    in if int (length pending) \<ge> limit then
                         Inl (SiteFailure ''site_order_limit_exceeded''
                           (if pending = [] then None
                            else Some (max 1 (ceilDiv (Min (expiresAt ` set pending) - now) 1000))))
                       else Inr ()))"

definition assertSiteRevision :: "create_stored_order_input \<Rightarrow> int \<Rightarrow> order_db \<Rightarrow> store_error + unit" where
  "assertSiteRevision input now db =
     (case inSiteRevision input of
        None \<Rightarrow> Inr ()
      | Some expected \<Rightarrow>
          (case readSite db (inApiClientId input) of
             None \<Rightarrow> Inl (SiteFailure ''site_revision_conflict'' None)
           | Some site \<Rightarrow>
               if siteRevision site \<noteq> expected then Inl (SiteFailure ''site_revision_conflict'' None)
               else assertSiteCanCreate db (inApiClientId input) now))"

definition assertEpayConfiguration :: "create_stored_order_input \<Rightarrow> order_db \<Rightarrow> store_error + unit" where
  "assertEpayConfiguration input db =
     (case inEpay input of
        None \<Rightarrow> Inr ()
      | Some e \<Rightarrow>
          (case List.find (\<lambda>s. epaySite s = inApiClientId input) (epaySites db) of
             None \<Rightarrow> Inl (SiteFailure ''site_revision_conflict'' None)
           | Some cfg \<Rightarrow>
               assertR (creationSiteId e = inApiClientId input \<and>
                        epayRevision cfg = configurationRevision e \<and>
                        (if creationProtocol e = EpayProtocolV1 then epayV1Enabled cfg else epayV2Enabled cfg))
                 (SiteFailure ''site_revision_conflict'' None)))"

subsection \<open>Choosing a profile and an amount\<close>

definition candidateProfiles ::
  "order_env \<Rightarrow> create_stored_order_input \<Rightarrow> order_db \<Rightarrow> store_error + collection_profile option list"
where
  "candidateProfiles env input db =
     (case inProfileIds input of
        None \<Rightarrow> bindR (readActiveCollectionProfile env db) (\<lambda>p. Inr [p])
      | Some ids \<Rightarrow>
          foldr (\<lambda>pid rest. bindR (readCollectionProfileById env db pid) (\<lambda>p.
                             bindR rest (\<lambda>ps. Inr (p # ps)))) ids (Inr []))"

text \<open>
  The first profile whose account has a free amount; \<open>retry\<close> is the smallest retry time of the
  exhausted ones so far, \<open>None\<close> for infinity.
\<close>

fun allocateAmong ::
  "order_env \<Rightarrow> create_stored_order_input \<Rightarrow> collection_profile list \<Rightarrow> int \<Rightarrow> int option \<Rightarrow> order_db
     \<Rightarrow> store_error + (int + collection_profile \<times> int \<times> int) \<times> order_db"
where
  "allocateAmong env input [] now retry db =
     Inr (Inl (case retry of None \<Rightarrow> 0 | Some t \<Rightarrow> t), db)"
| "allocateAmong env input (profile # rest) now retry db =
     bindR (allocateAmountSlot env (profileAccountId profile) (amount_cents (inRequest input))
              (inOffsetMaximumCents input) now db) (\<lambda>(allocation, db').
     case allocation of
       Allocated amount gen \<Rightarrow> Inr (Inr (profile, amount, gen), db')
     | Exhausted t \<Rightarrow> allocateAmong env input rest now (Some (minimumDefined retry t)) db')"

subsection \<open>Inserting the rows of an order\<close>

definition sqlTrimmed :: "jstr \<Rightarrow> bool" where
  "sqlTrimmed s \<longleftrightarrow> s = [] \<or> hd s \<noteq> 0x20 \<and> last s \<noteq> 0x20"

text \<open>\<open>length(x) = 64 AND x = lower(x) AND x NOT GLOB '*[^0-9a-f]*'\<close>.\<close>

definition isHexDigest :: "string \<Rightarrow> bool" where
  "isHexDigest x \<longleftrightarrow> length x = 64 \<and> list_all isLowerHex x"

text \<open>The triggers \<^verbatim>\<open>payment_orders_product_metadata_insert_guard\<close> and
  \<^verbatim>\<open>payment_orders_return_url_insert_guard\<close>.\<close>

definition productMetadataAllowed :: "payment_order \<Rightarrow> bool" where
  "productMetadataAllowed ord \<longleftrightarrow>
     productName ord \<noteq> [] \<and> sqlTrimmed (productName ord) \<and>
     unicodeCharacterCount (productName ord) \<le> 200 \<and> byteLength (productName ord) \<le> 800 \<and>
     isHexDigest (noteFingerprint ord) \<and> noteFingerprintVersion ord = 1 \<and>
     (case orderNote ord of None \<Rightarrow> True
      | Some n \<Rightarrow> n \<noteq> [] \<and> sqlTrimmed n \<and> unicodeCharacterCount n \<le> 500 \<and> byteLength n \<le> 2000)"

definition returnUrlAllowed :: "payment_order \<Rightarrow> bool" where
  "returnUrlAllowed ord \<longleftrightarrow>
     returnUrlFingerprintVersion ord = 1 \<and>
     (case returnUrl ord of None \<Rightarrow> True
      | Some u \<Rightarrow> isHexDigest (returnUrlFingerprint ord) \<and> u \<noteq> [] \<and> sqlTrimmed u \<and> byteLength u \<le> 4096)"

text \<open>
  The keys, \<open>CHECK\<close>s and insert triggers of \<^verbatim>\<open>payment_orders\<close>.  The foreign keys are those of rows
  that the same transaction has just read or inserted.
\<close>

definition orderInsertAllowed :: "payment_order \<Rightarrow> order_db \<Rightarrow> bool" where
  "orderInsertAllowed ord db \<longleftrightarrow>
     \<not> list_ex (\<lambda>r. orderId r = orderId ord) (paymentOrders db) \<and>
     \<not> list_ex (\<lambda>r. apiClientId r = apiClientId ord \<and> merchantOrderNo r = merchantOrderNo ord)
         (paymentOrders db) \<and>
     \<not> list_ex (\<lambda>r. apiClientId r = apiClientId ord \<and> idempotencyKeyDigest r = idempotencyKeyDigest ord)
         (paymentOrders db) \<and>
     \<not> list_ex (\<lambda>r. alipayAccountId r = alipayAccountId ord \<and>
           payableAmountCents r = payableAmountCents ord \<and> checkoutStatus r = OPEN) (paymentOrders db) \<and>
     length (orderId ord) = 36 \<and>
     isHexDigest (idempotencyKeyDigest ord) \<and> idempotencyKeyDigestVersion ord = 1 \<and>
     isHexDigest (requestFingerprint ord) \<and> requestFingerprintVersion ord = 1 \<and>
     checkoutStatus ord = OPEN \<and> paymentStatus ord = UNPAID \<and> refundStatus ord = RefundNone \<and>
     paymentBasis ord = BasisNone \<and> receivedAmountCents ord = None \<and> closedAt ord = None \<and>
     updatedAt ord = createdAt ord \<and> eligibleFrom ord = createdAt ord \<and> version ord = 1 \<and>
     1 \<le> requestedAmountCents ord \<and> requestedAmountCents ord \<le> MAX_REQUESTED_AMOUNT_CENTS \<and>
     2 \<le> payableAmountCents ord \<and> payableAmountCents ord \<le> MAX_PAYABLE_AMOUNT_CENTS \<and>
     1 \<le> allocationOffsetMaximumCents ord \<and> allocationOffsetMaximumCents ord \<le> 99 \<and>
     1 \<le> payableAmountCents ord - requestedAmountCents ord \<and>
     payableAmountCents ord - requestedAmountCents ord \<le> allocationOffsetMaximumCents ord \<and>
     MIN_AMOUNT_REUSE_COOLDOWN_SECONDS \<le> amountReuseCooldownSeconds ord \<and>
     amountReuseCooldownSeconds ord \<le> MAX_AMOUNT_REUSE_COOLDOWN_SECONDS \<and>
     0 \<le> createdAt ord \<and> createdAt ord < expiresAt ord \<and>
     merchantOrderNumberSchema (merchantOrderNo ord) \<noteq> None \<and>
     productMetadataAllowed ord \<and> returnUrlAllowed ord"

definition insertPaymentOrder :: "payment_order \<Rightarrow> order_db \<Rightarrow> store_error + order_db" where
  "insertPaymentOrder ord db =
     bindR (assertR (orderInsertAllowed ord db) (SqlAbort ''payment order insert''))
       (\<lambda>_. Inr (db\<lparr>paymentOrders := paymentOrders db @ [ord]\<rparr>))"

definition newPaymentOrder ::
  "order_env \<Rightarrow> create_stored_order_input \<Rightarrow> collection_profile \<Rightarrow> int \<Rightarrow> int \<Rightarrow> int \<Rightarrow> int \<Rightarrow> payment_order"
where
  "newPaymentOrder env input profile amount cooldown now expires =
     \<lparr>orderId = newOrderId env,
      apiClientId = inApiClientId input,
      alipayAccountId = profileAccountId profile,
      merchantOrderNo = merchant_order_no (inRequest input),
      idempotencyKeyDigest = inDigest input,
      idempotencyKeyDigestVersion = 1,
      requestFingerprint = inRequestFingerprint input,
      requestFingerprintVersion = 1,
      webhookTargetRequestFingerprint = map_option preparedRequestFingerprint (inWebhookTarget input),
      requestedAmountCents = amount_cents (inRequest input),
      payableAmountCents = amount,
      allocationOffsetMaximumCents = inOffsetMaximumCents input,
      amountReuseCooldownSeconds = cooldown,
      receivedAmountCents = None,
      productName = product_name (inRequest input),
      orderNote = req_note (inRequest input),
      noteFingerprint = fingerprintOrderNote (sha256 env) (req_note (inRequest input)),
      noteFingerprintVersion = 1,
      returnUrl = inReturnUrl input,
      returnUrlFingerprint = fingerprintOrderReturnUrl (sha256 env) (inReturnUrl input),
      returnUrlFingerprintVersion = 1,
      collectionProfileId = profileId profile,
      checkoutStatus = OPEN,
      paymentStatus = UNPAID,
      refundStatus = RefundNone,
      paymentBasis = BasisNone,
      eligibleFrom = now,
      createdAt = now,
      expiresAt = expires,
      closedAt = None,
      updatedAt = now,
      version = 1\<rparr>"

text \<open>
  \<^verbatim>\<open>insertEpayOrder\<close> of \<^verbatim>\<open>src/src/epay/store.ts\<close> with the trigger \<^verbatim>\<open>epay_orders_insert_guard\<close>;
  the trade number is the \<open>AUTOINCREMENT\<close> key.
\<close>

definition nextTradeNo :: "order_db \<Rightarrow> int" where
  "nextTradeNo db = fold max (map epayTradeNo (epayOrders db)) 0 + 1"

definition epayOrderAllowed :: "epay_order \<Rightarrow> order_db \<Rightarrow> bool" where
  "epayOrderAllowed e db \<longleftrightarrow>
     list_ex (\<lambda>ord. orderId ord = epayOrderId e \<and> apiClientId ord = epaySiteId e \<and>
                  createdAt ord = epayCreatedAt e) (paymentOrders db) \<and>
     list_ex (\<lambda>s. epaySite s = epaySiteId e \<and> epaySitePid s = epayPid e) (epaySites db) \<and>
     \<not> list_ex (\<lambda>v. eventOrderId v = epayOrderId e) (orderEvents db) \<and>
     \<not> list_ex (\<lambda>x. epayOrderId x = epayOrderId e) (epayOrders db) \<and>
     (case epayParam e of None \<Rightarrow> True | Some p \<Rightarrow> byteLength p \<le> 4096) \<and>
     (case epayReturnUrl e of None \<Rightarrow> True | Some u \<Rightarrow> byteLength u \<le> 4096)"

definition insertEpayOrder ::
  "create_stored_order_input \<Rightarrow> string \<Rightarrow> int \<Rightarrow> order_db \<Rightarrow> store_error + order_db"
where
  "insertEpayOrder input oid now db =
     (case inEpay input of
        None \<Rightarrow> Inr db
      | Some e \<Rightarrow>
          bindR (assertR (isHexDigest (creationRequestFingerprint e))
                  (RangeFailure ''invalid epay request fingerprint'')) (\<lambda>_.
          (case List.find (\<lambda>s. epaySite s = creationSiteId e) (epaySites db) of
             None \<Rightarrow> Inl (Failure ''epay_not_configured'')
           | Some config \<Rightarrow>
               let row = \<lparr>epayOrderId = oid, epaySiteId = creationSiteId e, epayPid = epaySitePid config,
                          epayTradeNo = nextTradeNo db, epayProtocol = creationProtocol e,
                          epayRequestFingerprint = creationRequestFingerprint e,
                          epayParam = creationParam e, epayReturnUrl = creationReturnUrl e,
                          epayCreatedAt = now\<rparr>
               in bindR (assertR (epayOrderAllowed row db)
                           (SqlAbort ''epay metadata must belong to an uncommitted order''))
                    (\<lambda>_. Inr (db\<lparr>epayOrders := epayOrders db @ [row]\<rparr>)))))"

definition insertWebhookTarget ::
  "order_env \<Rightarrow> create_stored_order_input \<Rightarrow> string \<Rightarrow> int \<Rightarrow> order_db \<Rightarrow> order_db"
where
  "insertWebhookTarget env input oid now db =
     (case inWebhookTarget input of
        None \<Rightarrow> db
      | Some p \<Rightarrow>
          db\<lparr>webhookTargets := webhookTargets db @
            [\<lparr>targetId = newTargetId env, targetOrderId = oid, targetClientId = inApiClientId input,
              targetFormat = preparedFormat p, targetUrl = preparedUrl p,
              targetAllowedOrigin = preparedAllowedOrigin p,
              targetUrlFingerprint = preparedUrlFingerprint p,
              targetRequestFingerprint = preparedRequestFingerprint p,
              targetRequestFingerprintVersion = preparedRequestFingerprintVersion p,
              targetCreatedAt = now\<rparr>]\<rparr>)"

definition ensureApiClientIdentity :: "jstr \<Rightarrow> order_db \<Rightarrow> order_db" where
  "ensureApiClientIdentity client db =
     (if client \<in> set (apiClients db) then db else db\<lparr>apiClients := apiClients db @ [client]\<rparr>)"

definition newSlot :: "order_env \<Rightarrow> collection_profile \<Rightarrow> int \<Rightarrow> int \<Rightarrow> int \<Rightarrow> amount_slot" where
  "newSlot env profile amount gen now =
     \<lparr>slotId = newSlotId env, slotOrderId = newOrderId env, slotAccountId = profileAccountId profile,
      slotProfileId = profileId profile, slotAmountCents = amount, generation = gen,
      occupiedFrom = now, releasedAt = None, releaseReason = None\<rparr>"

text \<open>From the allocated amount to the \<open>CREATED\<close> event.\<close>

definition insertOrderRows ::
  "order_env \<Rightarrow> create_stored_order_input \<Rightarrow> collection_profile \<Rightarrow> int \<Rightarrow> int \<Rightarrow> int \<Rightarrow> int \<Rightarrow> order_db
     \<Rightarrow> store_error + string \<times> order_db"
where
  "insertOrderRows env input profile amount gen cooldown now db0 =
     (let expires = now + inTtlMilliseconds input; oid = newOrderId env in
      bindR (assertR (isSafeInteger expires \<and> \<not> expires \<le> now \<and> isSafeInteger (expires + cooldown * 1000))
               (RangeFailure ''order expiry is outside the safe integer range'')) (\<lambda>_.
      bindR (readOrRotateActiveCheckoutTokenKey env now (inKeyRotationMilliseconds input) db0) (\<lambda>(key, db1).
      bindR (deriveCheckoutToken (hmacSha256 env) (keyMaterial key) (newCheckoutId env)) (\<lambda>token.
      bindR (digestCheckoutToken (sha256 env) token) (\<lambda>digest.
      bindR (insertPaymentOrder (newPaymentOrder env input profile amount cooldown now expires)
               (ensureApiClientIdentity (inApiClientId input) db1)) (\<lambda>db2.
      bindR (insertEpayOrder input oid now db2) (\<lambda>db3.
      bindR (insertAmountSlot (newSlot env profile amount gen now)
               ((insertWebhookTarget env input oid now db3)\<lparr>checkoutSessions :=
                  checkoutSessions (insertWebhookTarget env input oid now db3) @
                  [\<lparr>checkoutId = newCheckoutId env, checkoutOrderId = oid, tokenDigest = digest,
                    tokenKeyVersion = keyVersion key,
                    terminalObservationMilliseconds = inTerminalObservationMilliseconds input\<rparr>]\<rparr>)) (\<lambda>db4.
      bindR (insertOrderEvent env oid 1 CREATED now
               (CreatedDetails (amount - amount_cents (inRequest input)) gen) db4) (\<lambda>db5.
      Inr (token, db5))))))))))"

subsection \<open>Creating an order\<close>

definition cooldownOf :: "create_stored_order_input \<Rightarrow> int" where
  "cooldownOf input =
     (case inCooldownSeconds input of None \<Rightarrow> DEFAULT_AMOUNT_REUSE_COOLDOWN_SECONDS | Some c \<Rightarrow> c)"

definition validateCreateInput ::
  "order_env \<Rightarrow> create_stored_order_input \<Rightarrow> store_error + unit"
where
  "validateCreateInput env input =
     bindR (validateWebhookTargetInput env input) (\<lambda>_.
     bindR (validateReturnUrlInput env input) (\<lambda>_.
     bindR (assertR (isSafeInteger (cooldownOf input) \<and>
              \<not> cooldownOf input < MIN_AMOUNT_REUSE_COOLDOWN_SECONDS \<and>
              \<not> cooldownOf input > MAX_AMOUNT_REUSE_COOLDOWN_SECONDS)
              (RangeFailure ''amount reuse cooldown is invalid'')) (\<lambda>_.
     bindR (assertPositiveSafeInteger (inKeyRotationMilliseconds input)
              ''checkout token key rotation interval'') (\<lambda>_.
     assertPositiveSafeInteger (inTerminalObservationMilliseconds input)
       ''checkout terminal observation interval''))))"

text \<open>
  The part of the transaction for a key that is not stored yet.  \<open>beforeCreate\<close> is the caller's
  callback: the error it throws, or \<open>None\<close>.
\<close>

definition createNew ::
  "order_env \<Rightarrow> create_stored_order_input \<Rightarrow> store_error option \<Rightarrow> int \<Rightarrow> order_db
     \<Rightarrow> store_error + create_stored_order_result \<times> order_db"
where
  "createNew env input beforeCreate now db =
     bindR (assertSiteRevision input now db) (\<lambda>_.
     bindR (case beforeCreate of None \<Rightarrow> Inr () | Some e \<Rightarrow> Inl e) (\<lambda>_.
     bindR (assertEpayConfiguration input db) (\<lambda>_.
     case inWebhookRejection input of
       Some (_, code) \<Rightarrow> Inr (WebhookTargetRejected code, db)
     | None \<Rightarrow>
     case inReturnUrlRejection input of
       Some (_, code) \<Rightarrow> Inr (ReturnUrlRejected code, db)
     | None \<Rightarrow>
     bindR (readAggregateByMerchantOrderNumber env db (inApiClientId input)
              (merchant_order_no (inRequest input))) (\<lambda>merchantOrder.
     case merchantOrder of
       Some a \<Rightarrow> Inr (MerchantOrderConflict (orderId (aggOrder a)), db)
     | None \<Rightarrow>
     bindR (candidateProfiles env input db) (\<lambda>profiles.
     bindR (assertR (profiles \<noteq> [] \<and> \<not> list_ex (\<lambda>p. p = None) profiles)
              (Failure ''collection profile is not initialized'')) (\<lambda>_.
     bindR (allocateAmong env input (map the profiles) now None db) (\<lambda>(selected, db').
     case selected of
       Inl retryAfterSeconds \<Rightarrow> Inr (AmountSlotsExhausted retryAfterSeconds, db')
     | Inr (profile, amount, gen) \<Rightarrow>
     bindR (insertOrderRows env input profile amount gen (cooldownOf input) now db') (\<lambda>(token, db'').
     bindR (readAggregateById env db'' (inApiClientId input) (newOrderId env)) (\<lambda>found.
     case found of
       None \<Rightarrow> Inl (Failure ''inserted order aggregate cannot be read'')
     | Some a \<Rightarrow>
         Inr (Created (order_aggregate.extend a (stored_order_aggregate.fields token)), db''))))))))))"

definition createOrder ::
  "order_env \<Rightarrow> create_stored_order_input \<Rightarrow> store_error option \<Rightarrow> order_db
     \<Rightarrow> store_error + create_stored_order_result \<times> order_db"
where
  "createOrder env input beforeCreate db =
     bindR (validateCreateInput env input) (\<lambda>_.
     bindR (logicalNow env db) (\<lambda>(now, db1).
     bindR (expireDueOrders env now EXPIRY_SWEEP_LIMIT db1) (\<lambda>db2.
     bindR (replayExisting env input
              (\<lambda>d. readAggregateByIdempotencyDigest env d (inApiClientId input) (inDigest input))
              ''expired idempotent order cannot be read'' now db2) (\<lambda>(replay, db3).
     case replay of Some r \<Rightarrow> Inr (r, db3)
     | None \<Rightarrow>
     bindR (replayExisting env input
              (\<lambda>d. readAggregateByLegacyIdempotencyKey env d (inApiClientId input)
                     (idempotency_key (inRequest input)))
              ''expired migrated order replay cannot be read'' now db3) (\<lambda>(migrated, db4).
     case migrated of Some r \<Rightarrow> Inr (r, db4)
     | None \<Rightarrow> createNew env input beforeCreate now db4)))))"

end
