(* ===== verification/OrderOperations.thy ===== *)
theory OrderOperations
  imports OrderStore
begin

text \<open>
  The other operations of \<^verbatim>\<open>src/src/database/order-store.ts\<close>: synchronising the collection profile,
  reading an order (which expires it first when it is due), closing a checkout, and the public
  checkout read, which looks in a read transaction and moves the clock only when it must.
\<close>

subsection \<open>Collection profile synchronisation\<close>

record sync_profile_input =
  syncProviderAccountKey :: string
  syncAlipayAccountId :: "string option"
  syncActivate :: bool
  syncCodePayload :: jstr
  syncPayloadFingerprint :: string
  syncProfileFingerprint :: string

record sync_profile_result =
  syncedProfile :: collection_profile
  syncChanged :: bool
  syncCreated :: bool
  syncPreviousProfileId :: "string option"
  syncActivatedAt :: int

definition linkCollectionProfileProvider ::
  "string \<Rightarrow> string \<Rightarrow> order_db \<Rightarrow> store_error + order_db"
where
  "linkCollectionProfileProvider pid providerKey db =
     (if providerKey \<notin> set (providerBindings db) then
        (if providerKey = ''primary'' then Inr db
         else Inl (Failure ''collection profile provider account must be bound first''))
      else Inr (db\<lparr>profileProviderLinks := profileProviderLinks db @ [(pid, providerKey)]\<rparr>))"

text \<open>The profile with the requested fingerprint, inserted when there is none.\<close>

definition ensureProfile ::
  "order_env \<Rightarrow> sync_profile_input \<Rightarrow> int \<Rightarrow> order_db
     \<Rightarrow> store_error + (collection_profile \<times> bool) \<times> order_db"
where
  "ensureProfile env input now db =
     bindR (readCollectionProfileByFingerprint env db (syncProfileFingerprint input)) (\<lambda>found.
     case found of
       Some profile \<Rightarrow> Inr ((profile, False), db)
     | None \<Rightarrow>
         bindR (toSafeInteger (foldr max (map profileVersion (collectionProfiles db)) 0 + 1)
                  ''collection profile version'') (\<lambda>v.
         bindR (linkCollectionProfileProvider (newProfileId env) (syncProviderAccountKey input)
                  (db\<lparr>collectionProfiles := collectionProfiles db @
                    [\<lparr>profileId = newProfileId env,
                      profileAccountId =
                        (case syncAlipayAccountId input of None \<Rightarrow> ''default'' | Some a \<Rightarrow> a),
                      profileVersion = v,
                      providerAccountKey = ''primary'',
                      codePayload = syncCodePayload input,
                      payloadFingerprint = syncPayloadFingerprint input,
                      profileFingerprint = syncProfileFingerprint input,
                      profileCreatedAt = now\<rparr>]\<rparr>)) (\<lambda>db'.
         bindR (readCollectionProfileById env db' (newProfileId env)) (\<lambda>inserted.
         case inserted of
           None \<Rightarrow> Inl (Failure ''inserted collection profile cannot be read'')
         | Some profile \<Rightarrow> Inr ((profile, True), db')))))"

definition activateProfile ::
  "order_env \<Rightarrow> collection_profile \<Rightarrow> collection_profile option \<Rightarrow> int \<Rightarrow> order_db
     \<Rightarrow> store_error + order_db"
where
  "activateProfile env profile active at db =
     bindR (toSafeInteger (foldr max (map activationSequence (profileActivations db)) 0 + 1)
              ''profile activation sequence'') (\<lambda>seqn.
     Inr (db\<lparr>activeProfile := Some (profileId profile, at),
             profileActivations := profileActivations db @
               [\<lparr>activationId = newActivationId env, activationSequence = seqn,
                 activatedProfileId = profileId profile,
                 previousProfileId = map_option profileId active, activationTime = at\<rparr>]\<rparr>))"

definition syncCollectionProfile ::
  "order_env \<Rightarrow> sync_profile_input \<Rightarrow> order_db \<Rightarrow> store_error + sync_profile_result \<times> order_db"
where
  "syncCollectionProfile env input db0 =
     bindR (logicalNow env db0) (\<lambda>(now, db).
     bindR (fingerprintCollectionCodeProfile (sha256 env) (syncCodePayload input)
              (syncProviderAccountKey input)) (\<lambda>(payloadFp, profileFp).
     bindR (assertR (syncPayloadFingerprint input = payloadFp \<and> syncProfileFingerprint input = profileFp)
              (Failure ''collection profile input fingerprints are invalid'')) (\<lambda>_.
     bindR (readActiveCollectionProfile env db) (\<lambda>active.
     if map_option profileFingerprint active = Some (syncProfileFingerprint input) then
       Inr (\<lparr>syncedProfile = the active, syncChanged = False, syncCreated = False,
             syncPreviousProfileId = map_option profileId active, syncActivatedAt = now\<rparr>, db)
     else
       bindR (ensureProfile env input now db) (\<lambda>((profile, created), db').
       bindR (assertR (providerAccountKey profile = syncProviderAccountKey input)
                (Failure ''collection profile belongs to another provider account generation'')) (\<lambda>_.
       bindR (assertR (syncAlipayAccountId input = None \<or>
                       syncAlipayAccountId input = Some (profileAccountId profile))
                (Failure ''collection profile belongs to another Alipay account'')) (\<lambda>_.
       if \<not> syncActivate input then
         Inr (\<lparr>syncedProfile = profile, syncChanged = created, syncCreated = created,
               syncPreviousProfileId = None, syncActivatedAt = now\<rparr>, db')
       else
         (let at = max now (case active of None \<Rightarrow> 0 | Some a \<Rightarrow> profileCreatedAt a)
          in bindR (activateProfile env profile active at db') (\<lambda>db''.
             Inr (\<lparr>syncedProfile = profile, syncChanged = True, syncCreated = created,
                   syncPreviousProfileId = map_option profileId active, syncActivatedAt = at\<rparr>,
                  db''))))))))))"

subsection \<open>Reading an order\<close>

definition orderById ::
  "order_env \<Rightarrow> jstr \<Rightarrow> string \<Rightarrow> order_db \<Rightarrow> store_error + stored_order_aggregate option \<times> order_db"
where
  "orderById env client oid db0 =
     bindR (logicalNow env db0) (\<lambda>(now, db1).
     bindR (expireOrderByIdIfDue env client oid now db1) (\<lambda>db.
     bindR (readAggregateById env db client oid) (\<lambda>found.
     case found of
       None \<Rightarrow> Inr (None, db)
     | Some a \<Rightarrow> bindR (withCheckoutToken env db a) (\<lambda>full. Inr (Some full, db)))))"

definition orderByMerchantOrderNumber ::
  "order_env \<Rightarrow> jstr \<Rightarrow> jstr \<Rightarrow> order_db \<Rightarrow> store_error + stored_order_aggregate option \<times> order_db"
where
  "orderByMerchantOrderNumber env client no db0 =
     bindR (logicalNow env db0) (\<lambda>(now, db1).
     bindR (readAggregateByMerchantOrderNumber env db1 client no) (\<lambda>current.
     case current of
       None \<Rightarrow> Inr (None, db1)
     | Some c \<Rightarrow>
         bindR (expireOrderByIdIfDue env client (orderId (aggOrder c)) now db1) (\<lambda>db.
         bindR (readAggregateById env db client (orderId (aggOrder c))) (\<lambda>found.
         case found of
           None \<Rightarrow> Inr (None, db)
         | Some a \<Rightarrow> bindR (withCheckoutToken env db a) (\<lambda>full. Inr (Some full, db))))))"

text \<open>The administrator's detail: the order, its target and its history by sequence.\<close>

definition readAdminOrderEvents :: "order_db \<Rightarrow> string \<Rightarrow> store_error + order_event list" where
  "readAdminOrderEvents db oid =
     (let rows = sort_key eventSequence (filter (\<lambda>e. eventOrderId e = oid) (orderEvents db))
      in bindR (toSafeIntegers (concat (map (\<lambda>e.
             [(eventSequence e, ''administrator order event sequence''),
              (occurredAt e, ''administrator order event time'')]) rows))) (\<lambda>_. Inr rows))"

definition adminOrderById ::
  "order_env \<Rightarrow> string \<Rightarrow> order_db
     \<Rightarrow> store_error + (payment_order \<times> stored_webhook_target option \<times> order_event list) option \<times> order_db"
where
  "adminOrderById env oid db0 =
     bindR (logicalNow env db0) (\<lambda>(now, db1).
     bindR (readAggregateByAdminId env db1 oid) (\<lambda>first.
     case first of
       None \<Rightarrow> Inr (None, db1)
     | Some a0 \<Rightarrow>
         bindR (expireOrderByIdIfDue env (apiClientId (aggOrder a0)) oid now db1) (\<lambda>db.
         bindR (readAggregateByAdminId env db oid) (\<lambda>second.
         case second of
           None \<Rightarrow> Inl (Failure ''administrator order aggregate cannot be read'')
         | Some a \<Rightarrow>
             bindR (readAdminOrderEvents db oid) (\<lambda>events.
             Inr (Some (aggOrder a, aggTarget a, events), db))))))"

definition adminOrderByMerchantOrderNumber ::
  "order_env \<Rightarrow> jstr \<Rightarrow> jstr \<Rightarrow> order_db
     \<Rightarrow> store_error + (payment_order \<times> stored_webhook_target option \<times> order_event list) option \<times> order_db"
where
  "adminOrderByMerchantOrderNumber env client no db0 =
     bindR (logicalNow env db0) (\<lambda>(now, db1).
     bindR (readAggregateByMerchantOrderNumber env db1 client no) (\<lambda>first.
     case first of
       None \<Rightarrow> Inr (None, db1)
     | Some a0 \<Rightarrow>
         bindR (expireOrderByIdIfDue env client (orderId (aggOrder a0)) now db1) (\<lambda>db.
         bindR (readAggregateByMerchantOrderNumber env db client no) (\<lambda>second.
         case second of
           None \<Rightarrow> Inl (Failure ''administrator merchant order aggregate cannot be read'')
         | Some a \<Rightarrow>
             bindR (readAdminOrderEvents db (orderId (aggOrder a))) (\<lambda>events.
             Inr (Some (aggOrder a, aggTarget a, events), db))))))"

definition adminCheckoutToken :: "order_env \<Rightarrow> string \<Rightarrow> order_db \<Rightarrow> store_error + string option" where
  "adminCheckoutToken env oid db =
     bindR (readAggregateByAdminId env db oid) (\<lambda>found.
     case found of
       None \<Rightarrow> Inr None
     | Some a \<Rightarrow> bindR (withCheckoutToken env db a) (\<lambda>full. Inr (Some (aggCheckoutToken full))))"

subsection \<open>Closing a checkout\<close>

definition closeOrder ::
  "order_env \<Rightarrow> jstr \<Rightarrow> string \<Rightarrow> order_db \<Rightarrow> store_error + stored_order_aggregate option \<times> order_db"
where
  "closeOrder env client oid db0 =
     bindR (logicalNow env db0) (\<lambda>(now, db1).
     bindR (readAggregateById env db1 client oid) (\<lambda>found.
     case found of
       None \<Rightarrow> Inr (None, db1)
     | Some a0 \<Rightarrow>
         bindR (if checkoutStatus (aggOrder a0) = OPEN then
                  bindR (if expiresAt (aggOrder a0) \<le> now then expireOrder env oid now db1
                         else
                           bindR (endCheckout CLOSED oid (\<lambda>r. apiClientId r = client \<and> expiresAt r > now)
                                    now db1) (\<lambda>(n, db2).
                           bindR (assertChangedOnce n ''checkout close'') (\<lambda>_.
                           insertOrderEvent env oid (version (aggOrder a0) + 1) CHECKOUT_CLOSED now
                             (ReasonDetails ''api_request'') db2))) (\<lambda>db.
                  bindR (readAggregateById env db client oid) (\<lambda>again.
                  case again of
                    None \<Rightarrow> Inl (Failure ''closed order aggregate cannot be read'')
                  | Some a \<Rightarrow> Inr (a, db)))
                else Inr (a0, db1)) (\<lambda>(a, db).
         bindR (withCheckoutToken env db a) (\<lambda>full. Inr (Some full, db)))))"

subsection \<open>The public checkout\<close>

datatype checkout_read =
    CheckoutMissing
  | CheckoutCurrent stored_order_aggregate
  | CheckoutTerminal
  | CheckoutExpired

text \<open>The read transaction.\<close>

definition readPublicCheckout :: "order_env \<Rightarrow> string \<Rightarrow> order_db \<Rightarrow> store_error + checkout_read" where
  "readPublicCheckout env digest db =
     bindR (readAggregateByTokenDigest env db digest) (\<lambda>found.
     case found of
       None \<Rightarrow> Inr CheckoutMissing
     | Some a \<Rightarrow>
         bindR (readOrderClock db) (\<lambda>logical.
         bindR (if checkoutStatus (aggOrder a) \<noteq> OPEN then isTerminalCheckoutObservable a logical
                else Inr True) (\<lambda>observable.
         if \<not> observable then Inr CheckoutMissing
         else
           bindR (readPhysicalTime env) (\<lambda>physicalNow.
           bindR (assertOrderClockIsUsable logical physicalNow) (\<lambda>_.
           (let now = max logical physicalNow in
            if checkoutStatus (aggOrder a) \<noteq> OPEN then
              bindR (isTerminalCheckoutObservable a now) (\<lambda>still.
              if still then bindR (withCheckoutToken env db a) (\<lambda>full. Inr (CheckoutCurrent full))
              else Inr CheckoutTerminal)
            else if expiresAt (aggOrder a) > now then
              bindR (withCheckoutToken env db a) (\<lambda>full. Inr (CheckoutCurrent full))
            else Inr CheckoutExpired))))))"

text \<open>The write transaction that follows an expired or a no longer observable read.\<close>

definition settlePublicCheckout ::
  "order_env \<Rightarrow> string \<Rightarrow> order_db \<Rightarrow> store_error + stored_order_aggregate option \<times> order_db"
where
  "settlePublicCheckout env digest db0 =
     bindR (logicalNow env db0) (\<lambda>(now, db1).
     bindR (readAggregateByTokenDigest env db1 digest) (\<lambda>found.
     case found of
       None \<Rightarrow> Inr (None, db1)
     | Some a0 \<Rightarrow>
         bindR (if checkoutStatus (aggOrder a0) = OPEN \<and> expiresAt (aggOrder a0) \<le> now then
                  bindR (expireOrder env (orderId (aggOrder a0)) now db1) (\<lambda>db.
                  bindR (readAggregateByTokenDigest env db digest) (\<lambda>again.
                  case again of
                    None \<Rightarrow> Inl (Failure ''expired checkout aggregate cannot be read'')
                  | Some a \<Rightarrow> Inr (a, db)))
                else Inr (a0, db1)) (\<lambda>(a, db).
         bindR (if checkoutStatus (aggOrder a) \<noteq> OPEN then isTerminalCheckoutObservable a now
                else Inr True) (\<lambda>observable.
         if \<not> observable then Inr (None, db)
         else bindR (withCheckoutToken env db a) (\<lambda>full. Inr (Some full, db))))))"

text \<open>
  The whole call: two transactions, so the state after a read that answers by itself is unchanged.
  The write transaction runs in the environment \<open>env'\<close> of its own, later moment.
\<close>

definition publicCheckoutByTokenDigest ::
  "order_env \<Rightarrow> order_env \<Rightarrow> string \<Rightarrow> order_db
     \<Rightarrow> store_error + stored_order_aggregate option \<times> order_db"
where
  "publicCheckoutByTokenDigest env env' digest db =
     bindR (readPublicCheckout env digest db) (\<lambda>current.
     case current of
       CheckoutMissing \<Rightarrow> Inr (None, db)
     | CheckoutCurrent full \<Rightarrow> Inr (Some full, db)
     | _ \<Rightarrow> settlePublicCheckout env' digest db)"

end
