(* ===== verification/OrderCreation.thy ===== *)
theory OrderCreation
  imports OrderAllocation OrderOperations
begin

text \<open>
  The insertion of an order keeps the order invariant, and so does every operation of the store.
  With the allocation's contract the insertion of the slot is never stopped by a trigger.
\<close>

subsection \<open>The tables the invariant speaks of\<close>

definition sameCore :: "order_db \<Rightarrow> order_db \<Rightarrow> bool" where
  "sameCore db db' \<longleftrightarrow>
     orderClock db' = orderClock db \<and> paymentOrders db' = paymentOrders db \<and>
     amountSlots db' = amountSlots db \<and> orderEvents db' = orderEvents db"

lemma sameCore_inv: "sameCore db db' \<Longrightarrow> orderInv db' \<longleftrightarrow> orderInv db"
  by (simp add: sameCore_def orderInv_def rowsInv_def)

lemma sameCore_trans: "sameCore db db' \<Longrightarrow> sameCore db' db'' \<Longrightarrow> sameCore db db''"
  by (simp add: sameCore_def)

lemma slotInsertAllowed_cong:
  assumes "paymentOrders a = paymentOrders b" "amountSlots a = amountSlots b"
  shows "slotInsertAllowed slot a \<longleftrightarrow> slotInsertAllowed slot b"
proof -
  have "slotsAt x y a = slotsAt x y b" for x y using assms by (simp add: slotsAt_def)
  moreover have "orderOfSlot a = orderOfSlot b" using assms by (simp add: orderOfSlot_def fun_eq_iff)
  ultimately show ?thesis using assms by (simp add: slotInsertAllowed_def cong: option.case_cong)
qed

lemma sameCore_slotInsert:
  "sameCore db db' \<Longrightarrow> slotInsertAllowed slot db' \<longleftrightarrow> slotInsertAllowed slot db"
  by (rule slotInsertAllowed_cong) (simp_all add: sameCore_def)

lemma readOrRotate_core:
  "readOrRotateActiveCheckoutTokenKey env now rotation db = Inr (key, db') \<Longrightarrow> sameCore db db'"
  by (auto simp: readOrRotateActiveCheckoutTokenKey_def result_simps sameCore_def Let_def
      split: option.splits if_splits)

lemma ensureApiClientIdentity_core: "sameCore db (ensureApiClientIdentity client db)"
  by (simp add: ensureApiClientIdentity_def sameCore_def)

lemma insertEpayOrder_core: "insertEpayOrder input oid now db = Inr db' \<Longrightarrow> sameCore db db'"
  by (auto simp: insertEpayOrder_def Let_def result_simps sameCore_def split: option.splits)

lemma insertWebhookTarget_core: "sameCore db (insertWebhookTarget env input oid now db)"
  by (simp add: insertWebhookTarget_def sameCore_def split: option.split)

subsection \<open>A new order and its slot\<close>

lemma endedBefore_mono: "endedBefore ord t \<Longrightarrow> t \<le> u \<Longrightarrow> endedBefore ord u"
  by (force simp: endedBefore_def)

text \<open>What the insert triggers say of the slots that are already there.\<close>

lemma slotInsertAllowed_ended:
  assumes inv: "rowsInv db" and fresh: "\<And>r. r \<in> set (paymentOrders db) \<Longrightarrow> orderId r \<noteq> orderId ord"
    and allowed: "slotInsertAllowed slot (db\<lparr>paymentOrders := paymentOrders db @ [ord]\<rparr>)"
    and s: "s \<in> set (amountSlots db)" "sameAmount s slot"
    and r: "r \<in> set (paymentOrders db)" "orderId r = slotOrderId s"
  shows "generation s < generation slot" "endedBefore r (occupiedFrom slot)"
proof -
  let ?slots = "slotsAt (slotAccountId slot) (slotAmountCents slot) db"
  have slots: "slotsAt (slotAccountId slot) (slotAmountCents slot) (db\<lparr>paymentOrders := x\<rparr>) = ?slots" for x
    by (simp add: slotsAt_def)
  have mem: "s \<in> set ?slots" using s by (simp add: slotsAt_def sameAmount_def)
  then obtain p where p: "newestSlot ?slots = Some p" using newestSlot_None_iff [of ?slots] by fastforce
  note newest = newestSlot_Some [OF p]
  have p': "p \<in> set (amountSlots db)" "sameAmount s p"
    using newest(1) s by (simp_all add: slotsAt_def sameAmount_def)
  obtain q where q: "q \<in> set (paymentOrders db)" "slotMatches q p" "orderOfSlot db p = Some q"
    using orderOfSlot_Some [OF inv p'(1)] by metis
  have "orderOfSlot (db\<lparr>paymentOrders := paymentOrders db @ [ord]\<rparr>) p = Some q"
    unfolding orderOfSlot_def
    by (rule find_Some_unique)
      (use q(1,2) fresh [OF q(1)] order_unique [OF inv _ q(1)] in \<open>auto simp: slotMatches_def\<close>)
  then obtain t where t: "generation slot = generation p + 1" "releasedAt p = Some t" "t \<le> occupiedFrom slot"
      "\<And>e. endedAt q = Some e \<Longrightarrow> e + amountReuseCooldownSeconds q * 1000 \<le> occupiedFrom slot"
    using allowed p unfolding slotInsertAllowed_def slots by (auto split: option.splits)
  have "checkoutStatus q \<noteq> OPEN"
    using t(2) q(2) rowsInvD(4) [OF inv q(1)] by (auto simp: slotMatches_def orderRowOk_def)
  then have ended: "endedBefore q (occupiedFrom slot)"
    using t q(2) by (auto simp: endedBefore_def slotMatches_def)
  show "generation s < generation slot" using newest(2) [OF mem] t(1) by simp
  show "endedBefore r (occupiedFrom slot)"
  proof (cases "generation s = generation p")
    case True
    then have "slotOrderId s = slotOrderId p"
      using rowsInvD(3) [OF inv] s(1) p' by (auto simp: windowsOk_def)
    then have "r = q" using order_unique [OF inv r(1) q(1)] r(2) q(2) by (simp add: slotMatches_def)
    then show ?thesis using ended by simp
  next
    case False
    then have "endedBefore r (occupiedFrom p)"
      using newest(2) [OF mem] rowsInvD(3) [OF inv] s(1) p' r by (auto simp: windowsOk_def)
    moreover have "occupiedFrom p \<le> occupiedFrom slot"
      using createdAt_le_reuseTime [OF rowsInvD(4) [OF inv q(1)]]
        endedBefore_reuseTime [OF rowsInvD(4) [OF inv q(1)] ended] q(2) by (simp add: slotMatches_def)
    ultimately show ?thesis by (rule endedBefore_mono)
  qed
qed

lemma windowsOk_insert:
  assumes inv: "rowsInv db" and fresh: "\<And>r. r \<in> set (paymentOrders db) \<Longrightarrow> orderId r \<noteq> orderId ord"
    and m: "slotMatches ord slot"
    and allowed: "slotInsertAllowed slot (db\<lparr>paymentOrders := paymentOrders db @ [ord]\<rparr>)"
  shows "windowsOk (paymentOrders db @ [ord]) (amountSlots db @ [slot])"
  unfolding windowsOk_def
proof (intro ballI impI)
  fix s s'
  assume s: "s \<in> set (amountSlots db @ [slot])" and s': "s' \<in> set (amountSlots db @ [slot])"
    and same: "sameAmount s s'"
  have not_new: "slotOrderId x \<noteq> orderId ord" if "x \<in> set (amountSlots db)" for x
    using order_of_slot [OF inv that] fresh slotMatches_ids by metis
  show "(generation s = generation s' \<longrightarrow> slotOrderId s = slotOrderId s') \<and>
      (generation s < generation s' \<longrightarrow>
        (\<forall>r \<in> set (paymentOrders db @ [ord]). orderId r = slotOrderId s \<longrightarrow> endedBefore r (occupiedFrom s')))"
  proof (cases "s \<in> set (amountSlots db)")
    case old: True
    obtain r where r: "r \<in> set (paymentOrders db)" "slotMatches r s" using order_of_slot [OF inv old] .
    have only: "x = r" if "x \<in> set (paymentOrders db @ [ord])" "orderId x = slotOrderId s" for x
      using that r not_new [OF old] order_unique [OF inv _ r(1)] slotMatches_ids by auto
    show ?thesis
    proof (cases "s' \<in> set (amountSlots db)")
      case True
      have "orderId r = slotOrderId s" using r(2) by (simp add: slotMatches_def)
      then show ?thesis using rowsInvD(3) [OF inv] old True same r(1) only by (auto simp: windowsOk_def)
    next
      case False
      then have "s' = slot" using s' by simp
      then show ?thesis
        using slotInsertAllowed_ended [OF inv fresh allowed old _ r(1)] same r(2) only
        by (auto simp: slotMatches_def)
    qed
  next
    case False
    then have eq: "s = slot" using s by simp
    show ?thesis
    proof (cases "s' \<in> set (amountSlots db)")
      case True
      obtain r where r: "r \<in> set (paymentOrders db)" "slotMatches r s'" using order_of_slot [OF inv True] .
      have "sameAmount s' slot" using same eq by (simp add: sameAmount_def)
      then have "generation s' < generation slot"
        using slotInsertAllowed_ended(1) [OF inv fresh allowed True _ r(1)] r(2) by (simp add: slotMatches_def)
      then show ?thesis using eq by simp
    qed (use s' eq in simp)
  qed
qed

lemma eventsOk_insert:
  assumes ok: "eventsOk ords events" and fresh: "\<And>r. r \<in> set ords \<Longrightarrow> orderId r \<noteq> orderId ord"
    and v: "version ord = 1" and e: "eventOrderId e = orderId ord" "eventSequence e = 1"
  shows "eventsOk (ords @ [ord]) (events @ [e])"
proof -
  have "eventOrderId x \<noteq> orderId ord" if "x \<in> set events" for x
    using eventsOkD(1) [OF ok that] fresh by metis
  then have "(eventOrderId e, eventSequence e) \<notin> (\<lambda>x. (eventOrderId x, eventSequence x)) ` set events"
    by (metis (no_types, lifting) e(1) imageE prod.inject)
  then show ?thesis
    unfolding eventsOk_def using eventsOkD [OF ok] v e by auto
qed

lemma orderInv_insert:
  assumes inv: "orderInv db" and fresh: "\<And>r. r \<in> set (paymentOrders db) \<Longrightarrow> orderId r \<noteq> orderId ord"
    and ord: "orderRowOk ord" "timesWithin (orderClock db) ord" "version ord = 1"
    and m: "slotMatches ord slot"
    and allowed: "slotInsertAllowed slot (db\<lparr>paymentOrders := paymentOrders db @ [ord]\<rparr>)"
    and e: "eventOrderId e = orderId ord" "eventSequence e = 1"
    and keys: "keysOk (paymentOrders db @ [ord])"
    and db': "orderClock db' = orderClock db" "paymentOrders db' = paymentOrders db @ [ord]"
      "amountSlots db' = amountSlots db @ [slot]" "orderEvents db' = orderEvents db @ [e]"
  shows "orderInv db'"
proof -
  have rows: "rowsInv db" using inv by (rule orderInv_rows)
  have "distinct (map orderId (paymentOrders db'))"
    using rowsInvD(1) [OF rows] fresh by (force simp: db')
  moreover have "list_all2 slotMatches (paymentOrders db') (amountSlots db')"
    using rowsInvD(2) [OF rows] m by (simp add: db' list_all2_appendI)
  moreover have "\<forall>r \<in> set (paymentOrders db'). orderRowOk r \<and> timesWithin (orderClock db') r"
    using rowsInvD(4,5) [OF rows] ord by (auto simp: db')
  moreover have "windowsOk (paymentOrders db') (amountSlots db')"
    using windowsOk_insert [OF rows fresh m allowed] by (simp add: db')
  moreover have "eventsOk (paymentOrders db') (orderEvents db')"
    using eventsOk_insert [OF orderInv_events [OF inv] fresh ord(3) e] by (simp add: db')
  moreover have "keysOk (paymentOrders db')" using keys by (simp add: db')
  ultimately show ?thesis unfolding orderInv_def rowsInv_def by blast
qed

subsection \<open>From an allocated amount to the stored order\<close>

lemma orderInsertAllowed_cong:
  "paymentOrders a = paymentOrders b \<Longrightarrow> orderInsertAllowed ord a \<longleftrightarrow> orderInsertAllowed ord b"
  by (simp add: orderInsertAllowed_def)

lemma newPaymentOrder_simps [simp]:
  "orderId (newPaymentOrder env input profile amount cooldown now expires) = newOrderId env"
  "alipayAccountId (newPaymentOrder env input profile amount cooldown now expires) = profileAccountId profile"
  "payableAmountCents (newPaymentOrder env input profile amount cooldown now expires) = amount"
  "checkoutStatus (newPaymentOrder env input profile amount cooldown now expires) = OPEN"
  "version (newPaymentOrder env input profile amount cooldown now expires) = 1"
  "createdAt (newPaymentOrder env input profile amount cooldown now expires) = now"
  "updatedAt (newPaymentOrder env input profile amount cooldown now expires) = now"
  "expiresAt (newPaymentOrder env input profile amount cooldown now expires) = expires"
  "amountReuseCooldownSeconds (newPaymentOrder env input profile amount cooldown now expires) = cooldown"
  by (simp_all add: newPaymentOrder_def)

lemma new_slotMatches:
  "slotMatches (newPaymentOrder env input profile amount cooldown now expires) (newSlot env profile amount gen now)"
  by (simp add: slotMatches_def newPaymentOrder_def newSlot_def)

lemma new_orderRowOk:
  assumes "orderInsertAllowed (newPaymentOrder env input profile amount cooldown now expires) db"
    and "now < expires" "isSafeInteger (expires + cooldown * 1000)"
  shows "orderRowOk (newPaymentOrder env input profile amount cooldown now expires)"
  using assms by (auto simp: orderInsertAllowed_def orderRowOk_def newPaymentOrder_def)

text \<open>The rows an insertion appends.\<close>

definition insertedAfter ::
  "order_env \<Rightarrow> create_stored_order_input \<Rightarrow> collection_profile \<Rightarrow> int \<Rightarrow> int \<Rightarrow> int \<Rightarrow> int \<Rightarrow> order_db
     \<Rightarrow> order_db \<Rightarrow> bool"
where
  "insertedAfter env input profile amount gen cooldown now db db' \<longleftrightarrow>
     orderClock db' = orderClock db \<and>
     paymentOrders db' = paymentOrders db @
       [newPaymentOrder env input profile amount cooldown now (now + inTtlMilliseconds input)] \<and>
     amountSlots db' = amountSlots db @ [newSlot env profile amount gen now] \<and>
     orderEvents db' = orderEvents db @
       [\<lparr>eventId = newEventId env (length (orderEvents db)), eventOrderId = newOrderId env, eventSequence = 1,
         eventType = CREATED, occurredAt = now,
         eventDetails = CreatedDetails (amount - amount_cents (inRequest input)) gen\<rparr>]"

lemma insertOrderEvent_Inr:
  "insertOrderEvent env oid seqn ty at details db = Inr db' \<Longrightarrow>
   orderClock db' = orderClock db \<and> paymentOrders db' = paymentOrders db \<and> amountSlots db' = amountSlots db \<and>
   orderEvents db' = orderEvents db @
     [\<lparr>eventId = newEventId env (length (orderEvents db)), eventOrderId = oid, eventSequence = seqn,
       eventType = ty, occurredAt = at, eventDetails = details\<rparr>]"
  by (auto simp: insertOrderEvent_def Let_def result_simps split: option.splits)

lemma insertOrderRows_Inr:
  assumes "insertOrderRows env input profile amount gen cooldown now db = Inr (token, db')"
  defines "ord \<equiv> newPaymentOrder env input profile amount cooldown now (now + inTtlMilliseconds input)"
  shows "insertedAfter env input profile amount gen cooldown now db db'" "orderInsertAllowed ord db"
    "slotInsertAllowed (newSlot env profile amount gen now) (db\<lparr>paymentOrders := paymentOrders db @ [ord]\<rparr>)"
    "0 < inTtlMilliseconds input" "isSafeInteger (now + inTtlMilliseconds input + cooldown * 1000)"
proof -
  obtain key db1 digest db2 db3 db4 where steps:
      "isSafeInteger (now + inTtlMilliseconds input + cooldown * 1000)" "0 < inTtlMilliseconds input"
      "readOrRotateActiveCheckoutTokenKey env now (inKeyRotationMilliseconds input) db = Inr (key, db1)"
      "insertPaymentOrder ord (ensureApiClientIdentity (inApiClientId input) db1) = Inr db2"
      "insertEpayOrder input (newOrderId env) now db2 = Inr db3"
      "insertAmountSlot (newSlot env profile amount gen now)
         ((insertWebhookTarget env input (newOrderId env) now db3)\<lparr>checkoutSessions :=
            checkoutSessions (insertWebhookTarget env input (newOrderId env) now db3) @
            [\<lparr>checkoutId = newCheckoutId env, checkoutOrderId = newOrderId env, tokenDigest = digest,
              tokenKeyVersion = keyVersion key,
              terminalObservationMilliseconds = inTerminalObservationMilliseconds input\<rparr>]\<rparr>) = Inr db4"
      "insertOrderEvent env (newOrderId env) 1 CREATED now
         (CreatedDetails (amount - amount_cents (inRequest input)) gen) db4 = Inr db'"
    using assms(1) unfolding insertOrderRows_def ord_def Let_def
    by (auto simp: result_simps)
  have c1: "sameCore db (ensureApiClientIdentity (inApiClientId input) db1)"
    using readOrRotate_core [OF steps(3)] ensureApiClientIdentity_core by (rule sameCore_trans)
  have p: "orderInsertAllowed ord (ensureApiClientIdentity (inApiClientId input) db1)"
    "db2 = (ensureApiClientIdentity (inApiClientId input) db1)\<lparr>paymentOrders := paymentOrders db @ [ord]\<rparr>"
    using steps(4) c1 by (auto simp: insertPaymentOrder_def result_simps sameCore_def)
  have c2: "sameCore (db\<lparr>paymentOrders := paymentOrders db @ [ord]\<rparr>) db2"
    using c1 by (simp add: p(2) sameCore_def)
  have c3: "sameCore db2 (insertWebhookTarget env input (newOrderId env) now db3)"
    using insertEpayOrder_core [OF steps(5)] insertWebhookTarget_core by (rule sameCore_trans)
  have s: "slotInsertAllowed (newSlot env profile amount gen now)
             (insertWebhookTarget env input (newOrderId env) now db3)"
    "orderClock db4 = orderClock db \<and> paymentOrders db4 = paymentOrders db @ [ord] \<and>
     amountSlots db4 = amountSlots db @ [newSlot env profile amount gen now] \<and> orderEvents db4 = orderEvents db"
    using steps(6) c2 c3
    by (auto simp: insertAmountSlot_def result_simps sameCore_def
        cong: slotInsertAllowed_cong)
  show "insertedAfter env input profile amount gen cooldown now db db'"
    using insertOrderEvent_Inr [OF steps(7)] s(2) by (simp add: insertedAfter_def ord_def)
  show "orderInsertAllowed ord db"
    using p(1) c1 orderInsertAllowed_cong by (metis sameCore_def)
  show "slotInsertAllowed (newSlot env profile amount gen now) (db\<lparr>paymentOrders := paymentOrders db @ [ord]\<rparr>)"
    using s(1) sameCore_slotInsert [OF sameCore_trans [OF c2 c3]] by blast
qed (use assms(1) in \<open>auto simp: insertOrderRows_def Let_def result_simps\<close>)

lemma insertOrderRows_inv:
  assumes inv: "orderInv db" and now: "now = orderClock db"
    and res: "insertOrderRows env input profile amount gen cooldown now db = Inr (token, db')"
  shows "orderInv db' \<and> orderClock db' = now"
proof -
  note i = insertOrderRows_Inr [OF res]
  let ?ord = "newPaymentOrder env input profile amount cooldown now (now + inTtlMilliseconds input)"
  have fresh: "orderId r \<noteq> orderId ?ord" if "r \<in> set (paymentOrders db)" for r
    using i(2) that by (auto simp: orderInsertAllowed_def list_ex_iff)
  have "keysOk (paymentOrders db @ [?ord])"
    using orderInv_keys [OF inv] i(2)
    by (auto simp: keysOk_def orderInsertAllowed_def list_ex_iff)
  then have "orderInv db'"
    by (intro orderInv_insert [OF inv fresh])
      (use i new_slotMatches new_orderRowOk now in \<open>auto simp: insertedAfter_def timesWithin_def newPaymentOrder_def\<close>)
  then show ?thesis using i(1) now by (simp add: insertedAfter_def)
qed

end
