(* ===== verification/OrderSafety.thy ===== *)
theory OrderSafety
  imports OrderCreation
begin

text \<open>
  Every operation of the order store keeps the order invariant and only moves forward: the clock
  does not go back, an order is never removed, an ended order never changes, and the event history
  only grows.  Over every sequence of operations this gives what the store promises: no two orders
  of one account and amount can be confused.
\<close>

named_theorems good_steps \<open>operations of the order store are good steps\<close>

subsection \<open>How the rows may move\<close>

definition evolves :: "payment_order \<Rightarrow> payment_order \<Rightarrow> bool" where
  "evolves r r' \<longleftrightarrow>
     r' = r \<or> checkoutStatus r = OPEN \<and> (\<exists>status t. endTimeAllowed status t r \<and> r' = endOrder status t r)"

definition unpaidOrder :: "payment_order \<Rightarrow> bool" where
  "unpaidOrder r \<longleftrightarrow>
     paymentStatus r = UNPAID \<and> paymentBasis r = BasisNone \<and> receivedAmountCents r = None \<and>
     refundStatus r = RefundNone"

definition advances :: "order_db \<Rightarrow> order_db \<Rightarrow> bool" where
  "advances db db' \<longleftrightarrow>
     orderClock db \<le> orderClock db' \<and>
     (\<exists>ended new. paymentOrders db' = ended @ new \<and> list_all2 evolves (paymentOrders db) ended \<and>
        list_all unpaidOrder new) \<and>
     (\<exists>new. orderEvents db' = orderEvents db @ new)"

lemma evolves_refl [simp]: "evolves r r"
  by (simp add: evolves_def)

lemma evolves_trans: "evolves r r' \<Longrightarrow> evolves r' r'' \<Longrightarrow> evolves r r''"
  by (auto simp: evolves_def dest: endTimeAllowed_not_open)

lemma evolves_fixed: "evolves r r' \<Longrightarrow> checkoutStatus r \<noteq> OPEN \<Longrightarrow> r' = r"
  by (auto simp: evolves_def)

lemma evolves_identity:
  "evolves r r' \<Longrightarrow>
   orderId r' = orderId r \<and> alipayAccountId r' = alipayAccountId r \<and>
   payableAmountCents r' = payableAmountCents r \<and> createdAt r' = createdAt r \<and> expiresAt r' = expiresAt r"
  by (auto simp: evolves_def)

lemma evolves_payment:
  "evolves r r' \<Longrightarrow>
   paymentStatus r' = paymentStatus r \<and> paymentBasis r' = paymentBasis r \<and>
   receivedAmountCents r' = receivedAmountCents r \<and> refundStatus r' = refundStatus r"
  by (auto simp: evolves_def endOrder_def)

lemma evolves_unpaid: "list_all2 evolves rs rs' \<Longrightarrow> list_all unpaidOrder rs \<Longrightarrow> list_all unpaidOrder rs'"
  by (induction rule: list_all2_induct) (auto simp: unpaidOrder_def dest: evolves_payment)

lemma advances_refl: "advances db db"
  by (auto simp: advances_def list_all2_same intro: exI [of _ "paymentOrders db"])

lemma advances_trans:
  assumes "advances db db'" "advances db' db''"
  shows "advances db db''"
proof -
  obtain ended new where e: "paymentOrders db' = ended @ new" "list_all2 evolves (paymentOrders db) ended"
      "list_all unpaidOrder new"
    using assms(1) by (auto simp: advances_def)
  obtain ended' new' where e': "paymentOrders db'' = ended' @ new'" "list_all2 evolves (ended @ new) ended'"
      "list_all unpaidOrder new'"
    using assms(2) e(1) by (auto simp: advances_def)
  obtain us vs where uv: "ended' = us @ vs" "list_all2 evolves ended us" "list_all2 evolves new vs"
    using e'(2) by (auto simp: list_all2_append1)
  have "list_all2 evolves (paymentOrders db) us"
    using list_all2_trans [OF evolves_trans e(2) uv(2)] .
  moreover have "paymentOrders db'' = us @ (vs @ new')" using e'(1) uv(1) by simp
  moreover have "list_all unpaidOrder (vs @ new')" using evolves_unpaid [OF uv(3) e(3)] e'(3) by simp
  ultimately have "\<exists>ended new. paymentOrders db'' = ended @ new \<and> list_all2 evolves (paymentOrders db) ended \<and>
      list_all unpaidOrder new"
    by blast
  then show ?thesis using assms unfolding advances_def by fastforce
qed

text \<open>A good step keeps the invariant and moves forward.\<close>

definition goodStep :: "order_db \<Rightarrow> order_db \<Rightarrow> bool" where
  "goodStep db db' \<longleftrightarrow> orderInv db' \<and> advances db db'"

lemma goodStep_refl: "orderInv db \<Longrightarrow> goodStep db db"
  by (simp add: goodStep_def advances_refl)

lemma goodStep_trans: "goodStep db db' \<Longrightarrow> goodStep db' db'' \<Longrightarrow> goodStep db db''"
  by (auto simp: goodStep_def elim: advances_trans)

lemma goodStep_inv: "goodStep db db' \<Longrightarrow> orderInv db'"
  by (simp add: goodStep_def)

lemma goodStep_core:
  assumes "orderInv db" "sameCore db db'"
  shows "goodStep db db'"
proof -
  have "advances db db'" using assms(2) advances_refl [of db] by (simp add: advances_def sameCore_def)
  then show ?thesis using assms sameCore_inv by (simp add: goodStep_def)
qed

lemma goodStep_clock: "orderInv db \<Longrightarrow> logicalNow env db = Inr (now, db') \<Longrightarrow> goodStep db db'"
  using logicalNow_inv logicalNow_Inr(1,2) [of env db now db'] advances_refl [of db]
  by (auto simp: goodStep_def advances_def)

lemma advances_ended:
  assumes inv: "rowsInv db" and ord: "ord \<in> set (paymentOrders db)" "checkoutStatus ord = OPEN"
    and allowed: "endTimeAllowed status now ord"
  shows "advances db (endedDb env status ty d ord now db)"
proof -
  have "list_all2 evolves (paymentOrders db) (paymentOrders (endedDb env status ty d ord now db))"
    using order_unique [OF inv _ ord(1)] ord(2) allowed
    by (auto simp: endedDb_def endedRows_def updateRows_def list_all2_map2 list_all2_same evolves_def)
  then have "\<exists>ended new. paymentOrders (endedDb env status ty d ord now db) = ended @ new \<and>
      list_all2 evolves (paymentOrders db) ended \<and> list_all unpaidOrder new"
    by (intro exI conjI) (assumption | rule append_Nil2 [symmetric] | simp)+
  then show ?thesis by (simp add: advances_def endedDb_def)
qed

lemma goodStep_ended:
  assumes "orderInv db" "ord \<in> set (paymentOrders db)" "checkoutStatus ord = OPEN"
    "endTimeAllowed status now ord" "now \<le> orderClock db"
  shows "goodStep db (endedDb env status ty d ord now db)"
  using endedDb_inv [OF assms] advances_ended [OF orderInv_rows [OF assms(1)] assms(2-4)]
  by (simp add: goodStep_def)

lemma goodStep_expired:
  assumes "orderInv db" "ord \<in> set (paymentOrders db)" "dueForExpiry now ord" "now = orderClock db"
  shows "goodStep db (expiredDb env ord now db)"
  unfolding expiredDb_def
  using goodStep_ended [OF assms(1,2) dueForExpiry_allowed [OF assms]] assms(4) by simp

lemma goodStep_expireOrder:
  assumes "orderInv db" "now = orderClock db" "expireOrder env oid now db = Inr db'"
  shows "goodStep db db' \<and> orderClock db' = now"
  using expireOrder_cases [OF assms] goodStep_expired [OF assms(1) _ _ assms(2)] expireOrder_inv(2) [OF assms]
    goodStep_refl [OF assms(1)] by metis

lemma goodStep_expireOrders:
  assumes "orderInv db" "now = orderClock db" "expireOrders env oids now db = Inr db'"
  shows "goodStep db db' \<and> orderClock db' = now"
  using assms
proof (induction oids arbitrary: db)
  case Nil
  then show ?case by (simp add: goodStep_refl)
next
  case (Cons oid oids)
  obtain db1 where db1: "expireOrder env oid now db = Inr db1" "expireOrders env oids now db1 = Inr db'"
    using Cons.prems(3) by (auto simp: result_simps)
  note one = goodStep_expireOrder [OF Cons.prems(1,2) db1(1)]
  have "goodStep db1 db' \<and> orderClock db' = now"
    by (rule Cons.IH) (use one db1(2) goodStep_inv in auto)
  then show ?case using one goodStep_trans by blast
qed

lemma goodStep_expireDue:
  "orderInv db \<Longrightarrow> now = orderClock db \<Longrightarrow> expireDueOrders env now limit db = Inr db' \<Longrightarrow>
   goodStep db db' \<and> orderClock db' = now"
  unfolding expireDueOrders_def by (rule goodStep_expireOrders)

lemma goodStep_expireById:
  assumes "orderInv db" "now = orderClock db" "expireOrderByIdIfDue env client oid now db = Inr db'"
  shows "goodStep db db' \<and> orderClock db' = now"
  using expireOrderByIdIfDue_eq [OF assms(1,3)] goodStep_expireOrder [OF assms(1,2)] goodStep_refl [OF assms(1)]
    assms(2) by metis

subsection \<open>Creating an order\<close>

lemma goodStep_assessOffset:
  assumes inv: "orderInv db" and now: "now = orderClock db"
    and res: "assessOffset env account amount now db = Inr (v, db')"
  shows "goodStep db db' \<and> orderClock db' = now"
proof -
  have "db' = db \<or> (\<exists>oid. expireOrder env oid now db = Inr db')"
    using res by (auto simp: assessOffset_def result_simps split: option.splits if_splits)
  then show ?thesis using goodStep_refl [OF inv] goodStep_expireOrder [OF inv now] now by metis
qed

lemma goodStep_allocateFrom:
  assumes "orderInv db" "now = orderClock db"
    "allocateFrom env account requested offset remaining now earliest db = Inr (r, db')"
  shows "goodStep db db' \<and> orderClock db' = now"
  using assms
proof (induction remaining arbitrary: offset earliest db)
  case 0
  then show ?case by (auto simp: result_simps goodStep_refl)
next
  case (Suc remaining)
  show ?case
  proof (cases "requested + offset > MAX_PAYABLE_AMOUNT_CENTS")
    case True
    then show ?thesis using Suc.prems by (auto simp: result_simps goodStep_refl)
  next
    case False
    then obtain v db1 where v: "assessOffset env account (requested + offset) now db = Inr (v, db1)"
        "(case v of SlotFree g \<Rightarrow> Inr (Allocated (requested + offset) g, db1)
          | SlotBusy t \<Rightarrow> allocateFrom env account requested (offset + 1) remaining now
                            (Some (minimumDefined earliest t)) db1) = Inr (r, db')"
      using Suc.prems(3) by (auto simp: result_simps)
    note one = goodStep_assessOffset [OF Suc.prems(1,2) v(1)]
    show ?thesis
    proof (cases v)
      case (SlotBusy t)
      have "goodStep db1 db' \<and> orderClock db' = now"
        by (rule Suc.IH) (use one v(2) SlotBusy goodStep_inv in auto)
      then show ?thesis using one goodStep_trans by blast
    qed (use one v(2) in auto)
  qed
qed

lemma goodStep_allocateAmong:
  assumes "orderInv db" "now = orderClock db" "allocateAmong env input profiles now retry db = Inr (r, db')"
  shows "goodStep db db' \<and> orderClock db' = now"
  using assms
proof (induction profiles arbitrary: retry db)
  case Nil
  then show ?case by (auto simp: goodStep_refl)
next
  case (Cons profile rest)
  obtain a db1 where a: "allocateAmountSlot env (profileAccountId profile) (amount_cents (inRequest input))
        (inOffsetMaximumCents input) now db = Inr (a, db1)"
      "(case a of Allocated amount gen \<Rightarrow> Inr (Inr (profile, amount, gen), db1)
        | Exhausted t \<Rightarrow> allocateAmong env input rest now (Some (minimumDefined retry t)) db1) = Inr (r, db')"
    using Cons.prems(3) by (auto simp: result_simps)
  note one = goodStep_allocateFrom [OF Cons.prems(1,2) a(1) [unfolded allocateAmountSlot_def]]
  show ?case
  proof (cases a)
    case (Exhausted t)
    have "goodStep db1 db' \<and> orderClock db' = now"
      by (rule Cons.IH) (use one a(2) Exhausted goodStep_inv in auto)
    then show ?thesis using one goodStep_trans by blast
  qed (use one a(2) in auto)
qed

lemma goodStep_insertOrderRows:
  assumes "orderInv db" "now = orderClock db"
    "insertOrderRows env input profile amount gen cooldown now db = Inr (token, db')"
  shows "goodStep db db' \<and> orderClock db' = now"
proof -
  note i = insertOrderRows_inv [OF assms] insertOrderRows_Inr(1) [OF assms(3)]
  moreover have "list_all unpaidOrder [newPaymentOrder env input profile amount cooldown now (now + inTtlMilliseconds input)]"
    by (simp add: unpaidOrder_def newPaymentOrder_def)
  ultimately have "advances db db'"
    unfolding advances_def insertedAfter_def by (metis evolves_refl list_all2_refl order_refl)
  then show ?thesis using i by (simp add: goodStep_def)
qed

lemma goodStep_replay:
  assumes inv: "orderInv db" and now: "now = orderClock db"
    and res: "replayExisting env input read missing now db = Inr (r, db')"
  shows "goodStep db db' \<and> orderClock db' = now"
proof -
  have "db' = db \<or> (\<exists>oid. expireOrder env oid now db = Inr db')"
    using res unfolding replayExisting_def
    by (auto simp: result_simps split: option.splits if_splits)
  then show ?thesis using goodStep_refl [OF inv] goodStep_expireOrder [OF inv now] now by metis
qed

lemma createNew_cases:
  assumes "createNew env input beforeCreate now db = Inr (r, db')"
  obtains "db' = db" "\<And>a. r \<noteq> Created a"
  | profiles t where "r = AmountSlotsExhausted t" "allocateAmong env input profiles now None db = Inr (Inl t, db')"
  | profiles profile amount gen db1 token a where
      "allocateAmong env input profiles now None db = Inr (Inr (profile, amount, gen), db1)"
      "insertOrderRows env input profile amount gen (cooldownOf input) now db1 = Inr (token, db')"
      "readAggregateById env db' (inApiClientId input) (newOrderId env) = Inr (Some a)"
      "r = Created (order_aggregate.extend a (stored_order_aggregate.fields token))"
proof (cases "inWebhookRejection input = None \<and> inReturnUrlRejection input = None")
  case False
  then show thesis using assms that(1)
    by (auto simp: createNew_def result_simps split: option.splits)
next
  case True
  then obtain m where m: "readAggregateByMerchantOrderNumber env db (inApiClientId input)
      (merchant_order_no (inRequest input)) = Inr m"
    using assms by (auto simp: createNew_def result_simps)
  show thesis
  proof (cases m)
    case (Some a)
    then show ?thesis using assms True m that(1) by (auto simp: createNew_def result_simps)
  next
    case None
    then obtain profiles selected db1 where p: "candidateProfiles env input db = Inr profiles"
        "allocateAmong env input (map the profiles) now None db = Inr (selected, db1)"
      using assms True m by (auto simp: createNew_def result_simps)
    show ?thesis
    proof (cases selected)
      case (Inl t)
      then show ?thesis using assms True m None p that(2) by (auto simp: createNew_def result_simps)
    next
      case (Inr x)
      obtain profile amount gen where x: "x = (profile, amount, gen)" by (cases x)
      obtain token db2 found where q:
          "insertOrderRows env input profile amount gen (cooldownOf input) now db1 = Inr (token, db2)"
          "readAggregateById env db2 (inApiClientId input) (newOrderId env) = Inr found"
          "(case found of None \<Rightarrow> Inl (Failure ''inserted order aggregate cannot be read'')
            | Some a \<Rightarrow> Inr (Created (order_aggregate.extend a (stored_order_aggregate.fields token)), db2)) =
           Inr (r, db')"
        using assms True m None p Inr x by (auto simp: createNew_def result_simps)
      show ?thesis using that(3) p(2) q Inr x by (auto split: option.splits)
    qed
  qed
qed

lemma goodStep_createNew:
  assumes inv: "orderInv db" and now: "now = orderClock db"
    and res: "createNew env input beforeCreate now db = Inr (r, db')"
  shows "goodStep db db'"
  using res
proof (rule createNew_cases)
  fix profiles profile amount gen db1 token a
  assume "allocateAmong env input profiles now None db = Inr (Inr (profile, amount, gen), db1)"
    and i: "insertOrderRows env input profile amount gen (cooldownOf input) now db1 = Inr (token, db')"
  then have one: "goodStep db db1 \<and> orderClock db1 = now" using goodStep_allocateAmong [OF inv now] by blast
  then have "goodStep db1 db'" using goodStep_insertOrderRows [OF goodStep_inv _ i] by blast
  then show ?thesis using one goodStep_trans by blast
qed (use goodStep_refl [OF inv] goodStep_allocateAmong [OF inv now] in auto)

lemma goodStep_createOrder [good_steps]:
  assumes inv: "orderInv db" and res: "createOrder env input beforeCreate db = Inr (r, db')"
  shows "goodStep db db'"
proof -
  obtain now db1 db2 replay db3 where s: "logicalNow env db = Inr (now, db1)"
      "expireDueOrders env now EXPIRY_SWEEP_LIMIT db1 = Inr db2"
      "replayExisting env input (\<lambda>d. readAggregateByIdempotencyDigest env d (inApiClientId input) (inDigest input))
         ''expired idempotent order cannot be read'' now db2 = Inr (replay, db3)"
      "db' = db3 \<or> (\<exists>migrated db4.
         replayExisting env input (\<lambda>d. readAggregateByLegacyIdempotencyKey env d (inApiClientId input)
              (idempotency_key (inRequest input))) ''expired migrated order replay cannot be read'' now db3
           = Inr (migrated, db4) \<and>
         (db' = db4 \<or> createNew env input beforeCreate now db4 = Inr (r, db')))"
    using res unfolding createOrder_def by (auto simp: result_simps split: option.splits)
  have g1: "goodStep db db1" "now = orderClock db1"
    using goodStep_clock [OF inv s(1)] logicalNow_Inr(4) [OF s(1)] by simp_all
  have g2: "goodStep db1 db2" "orderClock db2 = now" using goodStep_expireDue [OF goodStep_inv [OF g1(1)] g1(2) s(2)] by simp_all
  have g3: "goodStep db2 db3" "orderClock db3 = now"
    using goodStep_replay [OF goodStep_inv [OF g2(1)] g2(2) [symmetric] s(3)] by simp_all
  note done3 = goodStep_trans [OF goodStep_trans [OF g1(1) g2(1)] g3(1)]
  from s(4) show ?thesis
  proof (elim disjE exE conjE)
    fix migrated db4
    assume m: "replayExisting env input (\<lambda>d. readAggregateByLegacyIdempotencyKey env d (inApiClientId input)
              (idempotency_key (inRequest input))) ''expired migrated order replay cannot be read'' now db3
           = Inr (migrated, db4)"
    note g4 = goodStep_replay [OF goodStep_inv [OF g3(1)] g3(2) [symmetric] m]
    then show ?thesis if "db' = db4" using that done3 goodStep_trans by blast
    show ?thesis if "createNew env input beforeCreate now db4 = Inr (r, db')"
      using goodStep_createNew [OF goodStep_inv _ that] g4 done3 goodStep_trans by metis
  qed (use done3 in simp)
qed

subsection \<open>The other operations\<close>

lemma goodStep_clocked:
  assumes "orderInv db" "logicalNow env db = Inr (now, db1)" "db' = db1 \<or> goodStep db1 db'"
  shows "goodStep db db'"
  using goodStep_clock [OF assms(1,2)] assms(3) goodStep_trans by blast

lemma ensureProfile_core:
  "ensureProfile env input now db = Inr (r, db') \<Longrightarrow> sameCore db db'"
  by (auto simp: ensureProfile_def linkCollectionProfileProvider_def result_simps sameCore_def
      split: option.splits if_splits)

lemma activateProfile_core: "activateProfile env profile active at db = Inr db' \<Longrightarrow> sameCore db db'"
  by (auto simp: activateProfile_def result_simps sameCore_def)

lemma goodStep_sync [good_steps]:
  assumes inv: "orderInv db" and res: "syncCollectionProfile env input db = Inr (r, db')"
  shows "goodStep db db'"
proof -
  obtain now db1 where c: "logicalNow env db = Inr (now, db1)"
    using res by (auto simp: syncCollectionProfile_def result_simps)
  have "sameCore db1 db'"
    using res c
    by (auto simp: syncCollectionProfile_def result_simps Let_def sameCore_def
        dest!: ensureProfile_core activateProfile_core split: if_splits)
  then show ?thesis
    using goodStep_clocked [OF inv c] goodStep_core [OF goodStep_inv [OF goodStep_clock [OF inv c]]] by blast
qed

lemma goodStep_readThen:
  assumes inv: "orderInv db" and c: "logicalNow env db = Inr (now, db1)"
    and r: "db' = db1 \<or> (\<exists>client oid. expireOrderByIdIfDue env client oid now db1 = Inr db') \<or>
            (\<exists>oid. expireOrder env oid now db1 = Inr db')"
  shows "goodStep db db'"
proof -
  note i = goodStep_inv [OF goodStep_clock [OF inv c]] logicalNow_Inr(4) [OF c, symmetric]
  show ?thesis
    by (rule goodStep_clocked [OF inv c])
      (use r goodStep_expireById [OF i] goodStep_expireOrder [OF i] in blast)
qed

lemma goodStep_orderById [good_steps]:
  assumes "orderInv db" "orderById env client oid db = Inr (r, db')"
  shows "goodStep db db'"
proof -
  obtain now db1 where c: "logicalNow env db = Inr (now, db1)"
      "expireOrderByIdIfDue env client oid now db1 = Inr db'"
    using assms(2) by (auto simp: orderById_def result_simps split: option.splits)
  then show ?thesis by (intro goodStep_readThen [OF assms(1) c(1)]) blast
qed

lemma goodStep_orderByNumber [good_steps]:
  assumes "orderInv db" "orderByMerchantOrderNumber env client no db = Inr (r, db')"
  shows "goodStep db db'"
proof -
  obtain now db1 where c: "logicalNow env db = Inr (now, db1)"
      "db' = db1 \<or> (\<exists>oid. expireOrderByIdIfDue env client oid now db1 = Inr db')"
    using assms(2) by (auto simp: orderByMerchantOrderNumber_def result_simps split: option.splits)
  then show ?thesis by (intro goodStep_readThen [OF assms(1) c(1)]) blast
qed

lemma goodStep_adminById [good_steps]:
  assumes "orderInv db" "adminOrderById env oid db = Inr (r, db')"
  shows "goodStep db db'"
proof -
  obtain now db1 where c: "logicalNow env db = Inr (now, db1)"
      "db' = db1 \<or> (\<exists>client. expireOrderByIdIfDue env client oid now db1 = Inr db')"
    using assms(2) by (auto simp: adminOrderById_def result_simps split: option.splits)
  then show ?thesis by (intro goodStep_readThen [OF assms(1) c(1)]) blast
qed

lemma goodStep_adminByNumber [good_steps]:
  assumes "orderInv db" "adminOrderByMerchantOrderNumber env client no db = Inr (r, db')"
  shows "goodStep db db'"
proof -
  obtain now db1 where c: "logicalNow env db = Inr (now, db1)"
      "db' = db1 \<or> (\<exists>oid. expireOrderByIdIfDue env client oid now db1 = Inr db')"
    using assms(2) by (auto simp: adminOrderByMerchantOrderNumber_def result_simps split: option.splits)
  then show ?thesis by (intro goodStep_readThen [OF assms(1) c(1)]) blast
qed

lemma goodStep_settle:
  assumes "orderInv db" "settlePublicCheckout env digest db = Inr (r, db')"
  shows "goodStep db db'"
proof -
  obtain now db1 where c: "logicalNow env db = Inr (now, db1)"
      "db' = db1 \<or> (\<exists>oid. expireOrder env oid now db1 = Inr db')"
    using assms(2) unfolding settlePublicCheckout_def
    by (auto simp: result_simps split: option.splits if_splits)
  then show ?thesis by (intro goodStep_readThen [OF assms(1) c(1)]) blast
qed

lemma goodStep_publicCheckout [good_steps]:
  assumes "orderInv db" "publicCheckoutByTokenDigest env env' digest db = Inr (r, db')"
  shows "goodStep db db'"
proof -
  have "db' = db \<or> settlePublicCheckout env' digest db = Inr (r, db')"
    using assms(2) unfolding publicCheckoutByTokenDigest_def bindR_Inr_iff
    by (elim exE conjE, rename_tac current, case_tac current) auto
  then show ?thesis using goodStep_refl [OF assms(1)] goodStep_settle [OF assms(1)] by blast
qed

text \<open>What a read of an order returns is the order's row.\<close>

lemma mapAggregate_order:
  "mapAggregate env db row session profile = Inr a \<Longrightarrow> aggOrder a = row"
  by (auto simp: mapAggregate_def result_simps)

lemma readAggregateWhere_row:
  assumes "readAggregateWhere env db p = Inr (Some a)"
  shows "aggOrder a \<in> set (paymentOrders db)" "p (aggOrder a)"
proof -
  obtain row where row: "List.find (\<lambda>r. p r \<and> joined db r) (paymentOrders db) = Some row" "aggOrder a = row"
    using assms by (auto simp: readAggregateWhere_def result_simps dest: mapAggregate_order split: option.splits)
  then show "aggOrder a \<in> set (paymentOrders db)" "p (aggOrder a)" using find_SomeD by fastforce+
qed

lemma readAggregateById_row:
  assumes "readAggregateById env db client oid = Inr (Some a)"
  shows "aggOrder a \<in> set (paymentOrders db)" "apiClientId (aggOrder a) = client" "orderId (aggOrder a) = oid"
  using readAggregateWhere_row [OF assms [unfolded readAggregateById_def]] by simp_all

text \<open>Closing an order that is open and not yet due ends it now, and appends its event.\<close>

lemma close_open:
  assumes inv: "orderInv db" and now: "now = orderClock db"
    and ord: "ord \<in> set (paymentOrders db)" "checkoutStatus ord = OPEN" "apiClientId ord = client" "now < expiresAt ord"
  shows "endCheckout CLOSED (orderId ord) (\<lambda>r. apiClientId r = client \<and> expiresAt r > now) now db =
           Inr (1, endedRows CLOSED (orderId ord) now db)"
    "insertOrderEvent env (orderId ord) (version ord + 1) CHECKOUT_CLOSED now d
       (endedRows CLOSED (orderId ord) now db) = Inr (endedDb env CLOSED CHECKOUT_CLOSED d ord now db)"
    "goodStep db (endedDb env CLOSED CHECKOUT_CLOSED d ord now db)"
proof -
  have rows: "rowsInv db" using inv by (rule orderInv_rows)
  have "createdAt ord \<le> now"
    using rowsInvD(4,5) [OF rows ord(1)] now by (simp add: orderRowOk_def timesWithin_def)
  then have allowed: "endTimeAllowed CLOSED now ord"
    using rowsInvD(5) [OF rows ord(1)] now ord(4) by (simp add: endTimeAllowed_def timesWithin_def)
  show "endCheckout CLOSED (orderId ord) (\<lambda>r. apiClientId r = client \<and> expiresAt r > now) now db =
           Inr (1, endedRows CLOSED (orderId ord) now db)"
    by (rule endCheckout_open [OF rows ord(1,2) _ allowed]) (use ord in simp)
  show "insertOrderEvent env (orderId ord) (version ord + 1) CHECKOUT_CLOSED now d
       (endedRows CLOSED (orderId ord) now db) = Inr (endedDb env CLOSED CHECKOUT_CLOSED d ord now db)"
    by (rule insertOrderEvent_ended [OF inv ord(1)]) (simp add: endEventOf_def)
  show "goodStep db (endedDb env CLOSED CHECKOUT_CLOSED d ord now db)"
    using goodStep_ended [OF inv ord(1,2) allowed] now by simp
qed

lemma goodStep_close [good_steps]:
  assumes inv: "orderInv db" and res: "closeOrder env client oid db = Inr (r, db')"
  shows "goodStep db db'"
proof -
  obtain now db1 found where c: "logicalNow env db = Inr (now, db1)"
      "readAggregateById env db1 client oid = Inr found"
    using res by (auto simp: closeOrder_def result_simps)
  note i = goodStep_inv [OF goodStep_clock [OF inv c(1)]] logicalNow_Inr(4) [OF c(1), symmetric]
  show ?thesis
  proof (cases found)
    case None
    then show ?thesis using res c goodStep_clock [OF inv c(1)] by (auto simp: closeOrder_def result_simps)
  next
    case (Some a)
    note row = readAggregateById_row [OF c(2) [unfolded Some]]
    have "db' = db1 \<or> expireOrder env oid now db1 = Inr db' \<or>
        checkoutStatus (aggOrder a) = OPEN \<and> now < expiresAt (aggOrder a) \<and>
        (\<exists>n db2. endCheckout CLOSED oid (\<lambda>r. apiClientId r = client \<and> expiresAt r > now) now db1 = Inr (n, db2) \<and>
          insertOrderEvent env oid (version (aggOrder a) + 1) CHECKOUT_CLOSED now (ReasonDetails ''api_request'') db2
            = Inr db')"
      using res c Some by (auto simp: closeOrder_def result_simps split: option.splits if_splits)
    then have "db' = db1 \<or> expireOrder env oid now db1 = Inr db' \<or> goodStep db1 db'"
      using close_open [OF i row(1) _ row(2)] row(3) by auto
    then show ?thesis
      using goodStep_clocked [OF inv c(1)] goodStep_expireOrder [OF i] by blast
  qed
qed

subsection \<open>The store as a step function\<close>

datatype order_operation =
    SyncProfile order_env sync_profile_input
  | CreateOrder order_env create_stored_order_input "store_error option"
  | OrderById order_env jstr string
  | OrderByNumber order_env jstr jstr
  | AdminOrderById order_env string
  | AdminOrderByNumber order_env jstr jstr
  | CloseOrder order_env jstr string
  | PublicCheckout order_env order_env string

text \<open>One call of the store: the rows after its transaction, whether it returned or threw.\<close>

fun orderStep :: "order_operation \<Rightarrow> order_db \<Rightarrow> order_db" where
  "orderStep (SyncProfile env input) db = snd (dbWrite (syncCollectionProfile env input) db)"
| "orderStep (CreateOrder env input callback) db = snd (dbWrite (createOrder env input callback) db)"
| "orderStep (OrderById env client oid) db = snd (dbWrite (orderById env client oid) db)"
| "orderStep (OrderByNumber env client no) db = snd (dbWrite (orderByMerchantOrderNumber env client no) db)"
| "orderStep (AdminOrderById env oid) db = snd (dbWrite (adminOrderById env oid) db)"
| "orderStep (AdminOrderByNumber env client no) db =
     snd (dbWrite (adminOrderByMerchantOrderNumber env client no) db)"
| "orderStep (CloseOrder env client oid) db = snd (dbWrite (closeOrder env client oid) db)"
| "orderStep (PublicCheckout env env' digest) db = snd (dbWrite (publicCheckoutByTokenDigest env env' digest) db)"

lemma goodStep_write:
  assumes "orderInv db" "\<And>r db'. f db = Inr (r, db') \<Longrightarrow> goodStep db db'"
  shows "goodStep db (snd (dbWrite f db))"
  by (rule dbWrite_keeps) (use assms goodStep_refl in auto)

lemma orderStep_good: "orderInv db \<Longrightarrow> goodStep db (orderStep op db)"
  by (cases op) (auto intro: goodStep_write good_steps)

interpretation orders: monotone_store orderStep orderInv orderClock
proof
  show "orderInv db \<Longrightarrow> orderInv (orderStep op db)" for op db
    using orderStep_good goodStep_inv by blast
  show "orderInv db \<Longrightarrow> orderClock db \<le> orderClock (orderStep op db)" for op db
    using orderStep_good [of db op] by (simp add: goodStep_def advances_def)
qed

lemma run_good: "orderInv db \<Longrightarrow> goodStep db (fold orderStep ops db)"
proof (induction ops arbitrary: db)
  case (Cons op ops)
  then show ?case using orderStep_good goodStep_inv goodStep_trans by (metis fold_simps(2))
qed (simp add: goodStep_refl)

text \<open>A database whose order tables are empty, whatever its other tables hold.\<close>

definition noOrders :: "order_db \<Rightarrow> order_db" where
  "noOrders db = db\<lparr>paymentOrders := [], amountSlots := [], orderEvents := []\<rparr>"

lemma orderInv_noOrders: "orderInv (noOrders db)"
  by (simp add: noOrders_def orderInv_def rowsInv_def windowsOk_def eventsOk_def keysOk_def)

end
