(* ===== verification/OrderSamples.thy ===== *)
theory OrderSamples
  imports OrderSafety
begin

text \<open>
  Concrete environments, inputs and rows at which the properties of the order store are instantiated.
\<close>

definition sampleUrlEnv :: url_env where
  "sampleUrlEnv = \<lparr>parseUrl = (\<lambda>_. None), isIP = (\<lambda>_. 0)\<rparr>"

text \<open>An environment at a given time, whose fresh identifiers carry the given name.\<close>

definition sampleUuid :: "string \<Rightarrow> string" where
  "sampleUuid name = ''00000000-0000-4000-8000-00000000000'' @ name"

definition sampleEnv :: "int \<Rightarrow> string \<Rightarrow> order_env" where
  "sampleEnv now name =
     \<lparr>physicalClock = now, urlEnv = sampleUrlEnv, expectedPhysicalMicros = None,
      sha256 = (\<lambda>_. replicate 64 CHR ''0''), hmacSha256 = (\<lambda>_ _. replicate 32 0),
      randomKey = replicate 32 7, newOrderId = sampleUuid name, newCheckoutId = sampleUuid name,
      newSlotId = sampleUuid name, newTargetId = sampleUuid name, newProfileId = sampleUuid name,
      newActivationId = sampleUuid name, newEventId = (\<lambda>_. sampleUuid name),
      auditActor = None\<rparr>"

definition sampleDigest :: "string \<Rightarrow> string" where
  "sampleDigest name = replicate 63 CHR ''0'' @ name"

definition sampleRequest :: "string \<Rightarrow> createOrderRequest" where
  "sampleRequest name =
     \<lparr>idempotency_key = js name, merchant_order_no = js name, amount_cents = 1000, product_name = js ''tea'',
      req_note = None, notify_url = None, return_url = None\<rparr>"

definition sampleInput :: "string \<Rightarrow> create_stored_order_input" where
  "sampleInput name =
     \<lparr>inEpay = None, inApiClientId = js ''shop'', inProfileIds = None, inSiteRevision = None,
      inRequest = sampleRequest name, inDigest = sampleDigest name, inRequestFingerprint = sampleDigest name,
      inTtlMilliseconds = 300000, inOffsetMaximumCents = 3, inCooldownSeconds = Some 120,
      inKeyRotationMilliseconds = 1000000000, inTerminalObservationMilliseconds = 60000,
      inWebhookTarget = None, inWebhookRejection = None, inReturnUrl = None, inReturnUrlRejection = None\<rparr>"

definition sampleProfile :: collection_profile where
  "sampleProfile =
     \<lparr>profileId = ''p'', profileAccountId = ''default'', profileVersion = 1, providerAccountKey = ''primary'',
      codePayload = js ''https://qr'',
      payloadFingerprint = replicate 64 CHR ''0'', profileFingerprint = replicate 64 CHR ''0'',
      profileCreatedAt = 0\<rparr>"

definition sampleDb :: order_db where
  "sampleDb =
     \<lparr>orderClock = 0, paymentOrders = [], amountSlots = [], orderEvents = [], checkoutSessions = [],
      collectionProfiles = [sampleProfile], profileProviderLinks = [], providerBindings = [],
      activeProfile = Some (''p'', 0), profileActivations = [],
      tokenKeys = [\<lparr>keyVersion = 1, keyMaterial = replicate 32 1, activatedAt = 0, retiredAt = None\<rparr>],
      webhookTargets = [], epayOrders = [], epaySites = [], siteRows = [], apiClients = [],
      idempotencyNamespaces = [], orderAudits = []\<rparr>"

text \<open>
  Two orders of one amount: the first was closed at 5000, so its amount is free again at 125000; the
  second has held it since 200000.
\<close>

definition sampleOrder :: "string \<Rightarrow> int \<Rightarrow> payment_order" where
  "sampleOrder name now =
     newPaymentOrder (sampleEnv now name) (sampleInput name) sampleProfile 1001 120 now (now + 300000)"

definition closedOrder :: payment_order where
  "closedOrder = endOrder CLOSED 5000 (sampleOrder ''1'' 1000)"

definition openOrder :: payment_order where
  "openOrder = sampleOrder ''2'' 200000"

definition sampleSlot :: "string \<Rightarrow> int \<Rightarrow> int \<Rightarrow> amount_slot" where
  "sampleSlot name gen now = newSlot (sampleEnv now name) sampleProfile 1001 gen now"

definition sampleEvent :: "string \<Rightarrow> int \<Rightarrow> order_event_type \<Rightarrow> int \<Rightarrow> order_event" where
  "sampleEvent name seqn ty at =
     \<lparr>eventId = name, eventOrderId = sampleUuid name, eventSequence = seqn, eventType = ty, occurredAt = at,
      eventDetails = ReasonDetails name\<rparr>"

definition twoOrders :: order_db where
  "twoOrders = sampleDb\<lparr>orderClock := 200000, paymentOrders := [closedOrder, openOrder],
     amountSlots := [releaseSlot CLOSED 5000 (sampleSlot ''1'' 1 1000), sampleSlot ''2'' 2 200000],
     orderEvents := [sampleEvent ''1'' 1 CREATED 1000, sampleEvent ''1'' 2 CHECKOUT_CLOSED 5000,
                     sampleEvent ''2'' 1 CREATED 200000]\<rparr>"

lemmas sample_defs =
  twoOrders_def sampleDb_def closedOrder_def openOrder_def sampleOrder_def sampleSlot_def sampleEvent_def
  sampleEnv_def sampleInput_def sampleRequest_def sampleProfile_def sampleUuid_def
  newPaymentOrder_def newSlot_def endOrder_def releaseSlot_def

lemma sampleOrder_fields [simp]:
  "orderId (sampleOrder name now) = sampleUuid name"
  "apiClientId (sampleOrder name now) = js ''shop''"
  "idempotencyKeyDigest (sampleOrder name now) = sampleDigest name"
  "paymentStatus (sampleOrder name now) = UNPAID"
  "merchantOrderNo (sampleOrder name now) = js name"
  "alipayAccountId (sampleOrder name now) = ''default''"
  "collectionProfileId (sampleOrder name now) = ''p''"
  "payableAmountCents (sampleOrder name now) = 1001"
  "requestedAmountCents (sampleOrder name now) = 1000"
  "allocationOffsetMaximumCents (sampleOrder name now) = 3"
  "amountReuseCooldownSeconds (sampleOrder name now) = 120"
  "checkoutStatus (sampleOrder name now) = OPEN"
  "closedAt (sampleOrder name now) = None"
  "eligibleFrom (sampleOrder name now) = now"
  "createdAt (sampleOrder name now) = now"
  "updatedAt (sampleOrder name now) = now"
  "expiresAt (sampleOrder name now) = now + 300000"
  "version (sampleOrder name now) = 1"
  by (simp_all add: sample_defs)

lemma sampleSlot_fields [simp]:
  "slotOrderId (sampleSlot name gen now) = sampleUuid name"
  "slotAccountId (sampleSlot name gen now) = ''default''"
  "slotProfileId (sampleSlot name gen now) = ''p''"
  "slotAmountCents (sampleSlot name gen now) = 1001"
  "generation (sampleSlot name gen now) = gen"
  "occupiedFrom (sampleSlot name gen now) = now"
  "releasedAt (sampleSlot name gen now) = None"
  "releaseReason (sampleSlot name gen now) = None"
  by (simp_all add: sample_defs)

lemma orderRowOk_samples: "orderRowOk closedOrder" "orderRowOk openOrder"
  by (simp_all add: orderRowOk_def closedOrder_def openOrder_def endOrder_def isSafeInteger_def
      maxSafeInteger_def MIN_AMOUNT_REUSE_COOLDOWN_SECONDS_def MAX_AMOUNT_REUSE_COOLDOWN_SECONDS_def
      MAX_PAYABLE_AMOUNT_CENTS_def MAX_REQUESTED_AMOUNT_CENTS_def)

lemma sampleUuid_eq [simp]: "sampleUuid a = sampleUuid b \<longleftrightarrow> a = b"
  by (simp add: sampleUuid_def)

lemma sampleDigest_eq [simp]: "sampleDigest a = sampleDigest b \<longleftrightarrow> a = b"
  by (simp add: sampleDigest_def)

lemma js_12: "js ''1'' \<noteq> js ''2''"
  by code_simp

lemma eventsOk_twoOrders: "eventsOk (paymentOrders twoOrders) (orderEvents twoOrders)"
proof -
  have k: "1 \<le> k \<Longrightarrow> k \<le> 2 \<Longrightarrow> k = 1 \<or> k = 2" for k :: int by linarith
  show ?thesis
    unfolding eventsOk_def
    by (auto simp: twoOrders_def closedOrder_def openOrder_def sampleEvent_def dest!: k)
qed

lemma orderInv_twoOrders: "orderInv twoOrders"
proof -
  have "list_all2 slotMatches (paymentOrders twoOrders) (amountSlots twoOrders)"
    by (simp add: twoOrders_def slotMatches_def closedOrder_def openOrder_def endOrder_def releaseSlot_def)
  moreover have "windowsOk (paymentOrders twoOrders) (amountSlots twoOrders)"
    by (auto simp: windowsOk_def twoOrders_def endedBefore_def endedAt_def closedOrder_def openOrder_def endOrder_def)
  moreover have "timesWithin 200000 closedOrder" "timesWithin 200000 openOrder"
    by (simp_all add: timesWithin_def closedOrder_def openOrder_def)
  moreover have "keysOk (paymentOrders twoOrders)"
    using js_12 by (simp add: keysOk_def twoOrders_def closedOrder_def openOrder_def)
  ultimately show ?thesis
    using orderRowOk_samples eventsOk_twoOrders
    by (simp add: orderInv_def rowsInv_def)
      (simp add: twoOrders_def closedOrder_def openOrder_def)
qed

text \<open>One creation, step by step: the first order of a shop, at time 1000.\<close>

abbreviation env1 :: order_env where
  "env1 \<equiv> sampleEnv 1000 ''1''"

abbreviation input1 :: create_stored_order_input where
  "input1 \<equiv> sampleInput ''1''"

abbreviation order1 :: payment_order where
  "order1 \<equiv> sampleOrder ''1'' 1000"

abbreviation startDb :: order_db where
  "startDb \<equiv> sampleDb\<lparr>orderClock := 1000\<rparr>"

lemma sample_validate: "validateCreateInput env1 input1 = Inr ()"
  by (simp add: validateCreateInput_def validateWebhookTargetInput_def validateReturnUrlInput_def
      sample_defs cooldownOf_def
   MIN_AMOUNT_REUSE_COOLDOWN_SECONDS_def MAX_AMOUNT_REUSE_COOLDOWN_SECONDS_def isSafeInteger_def
       maxSafeInteger_def assertPositiveSafeInteger_def)

lemma sample_now: "logicalNow env1 (noOrders sampleDb) = Inr (1000, startDb)"
  by (simp add: logicalNow_def readPhysicalTime_def readOrderClock_def assertOrderClockIsUsable_def
      noOrders_def sample_defs isSafeInteger_def maxSafeInteger_def
   MAX_ORDER_CLOCK_AHEAD_MILLISECONDS_def)

lemma sample_expireDue: "expireDueOrders env1 1000 l startDb = Inr startDb"
  by (simp add: expireDueOrders_def dueOrders_def sampleDb_def)

lemma sample_no_replay: "replayExisting env1 input1 (\<lambda>d. readAggregateByIdempotencyDigest env1 d c
    x) m 1000 startDb = Inr (None, startDb)"
  by (simp add: replayExisting_def readAggregateByIdempotencyDigest_def readAggregateWhere_def sampleDb_def)

lemma sample_no_migrated: "replayExisting env1 input1 (\<lambda>d. readAggregateByLegacyIdempotencyKey
    env1 d c x) m 1000 startDb = Inr (None, startDb)"
  by (simp add: replayExisting_def readAggregateByLegacyIdempotencyKey_def sampleDb_def)

lemma providerKey_primary: "isProviderAccountKey ''primary''"
  by code_simp

lemma sample_profiles: "candidateProfiles env1 input1 startDb = Inr [Some sampleProfile]"
  by (simp add: candidateProfiles_def readActiveCollectionProfile_def readCollectionProfileById_def
      mapCollectionProfile_def
   fingerprintCollectionCodeProfile_def providerKey_primary profileProviderKey_def payloadDigest_def
       sample_defs isSafeInteger_def maxSafeInteger_def)

lemma sample_allocation: "allocateAmong env1 input1 [sampleProfile] 1000 None startDb = Inr (Inr
    (sampleProfile, 1001, 1), startDb)"
  by (simp add: allocateAmountSlot_def sampleInput_def sampleRequest_def eval_nat_numeral
      MAX_PAYABLE_AMOUNT_CENTS_def MAX_REQUESTED_AMOUNT_CENTS_def
   assessOffset_def sampleDb_def assessLatestSlot_def latestSlot_def slotsAt_def newestSlot_def)

lemma zero_token: "base64urlEncode (replicate 32 0) = replicate 43 CHR ''A''"
  by code_simp

lemma sample_uuid_canonical: "isCanonicalUuid (sampleUuid ''1'')"
  by code_simp

lemma zero_token_canonical: "isCanonicalCheckoutToken (CHECKOUT_TOKEN_PREFIX @ replicate 43 CHR ''A'')"
  by code_simp

lemma js_tea: "js ''tea'' = [116,101,97]"
  by (simp add: js_def unitOf_def)

lemma js_1: "js ''1'' = [49]"
  by (simp add: js_def unitOf_def)

lemma tea_count: "unicodeCharacterCount (js ''tea'') = 3"
  by (simp add: js_tea unicodeCharacterCount_def isHighSurrogate_def isLowSurrogate_def)

lemma tea_bytes: "byteLength (js ''tea'') = 3"
  by (simp add: js_tea byteLength_def utf8_def utf8Point_def isHighSurrogate_def isLowSurrogate_def)

lemma tea_trimmed: "sqlTrimmed (js ''tea'')" "js ''tea'' \<noteq> []"
  by (simp_all add: js_tea sqlTrimmed_def)

lemma merchant_1: "merchantOrderNumberSchema (js ''1'') \<noteq> None"
  by (simp add: js_1 merchantOrderNumberSchema_def isMerchantOrderUnit_def isAsciiAlphanumeric_def)

lemma sample_key: "readOrRotateActiveCheckoutTokenKey env1 1000 1000000000 startDb = Inr (hd (tokenKeys
    sampleDb), startDb)"
  by (simp add: readOrRotateActiveCheckoutTokenKey_def sampleDb_def isSafeInteger_def maxSafeInteger_def)

lemma sample_hex: "isHexDigest (sampleDigest ''1'')" "isHexDigest (replicate 64 CHR ''0'')"
  "length (sampleUuid ''1'') = 36"
  by (simp_all add: isHexDigest_def sampleDigest_def sampleUuid_def isLowerHex_def list_all_iff)

lemma sample_order_allowed: "orderInsertAllowed order1 startDb"
  using tea_count tea_bytes tea_trimmed merchant_1 sample_hex
  by (simp add: orderInsertAllowed_def productMetadataAllowed_def returnUrlAllowed_def) (simp add: sample_defs cooldownOf_def fingerprintOrderNote_def
      MAX_REQUESTED_AMOUNT_CENTS_def MAX_PAYABLE_AMOUNT_CENTS_def
     MIN_AMOUNT_REUSE_COOLDOWN_SECONDS_def MAX_AMOUNT_REUSE_COOLDOWN_SECONDS_def)

definition sampleToken :: string where "sampleToken = CHECKOUT_TOKEN_PREFIX @ replicate 43 CHR ''A''"

lemma sample_token: "deriveCheckoutToken (hmacSha256 env1) (keyMaterial (hd (tokenKeys sampleDb)))
    (newCheckoutId env1) = Inr sampleToken"
  using zero_token sample_uuid_canonical by (simp add: deriveCheckoutToken_def sampleDb_def sampleEnv_def
      sampleToken_def)

lemma sample_digest: "digestCheckoutToken (sha256 env1) sampleToken = Inr (replicate 64 CHR ''0'')"
  using zero_token_canonical by (simp add: digestCheckoutToken_def sampleToken_def sampleEnv_def)

definition createdDb :: order_db where
  "createdDb = startDb\<lparr>apiClients := [js ''shop''], paymentOrders := [order1], amountSlots :=
      [sampleSlot ''1'' 1 1000],
     orderEvents := [\<lparr>eventId = sampleUuid ''1'', eventOrderId = sampleUuid ''1'', eventSequence =
         1, eventType = CREATED,
        occurredAt = 1000, eventDetails = CreatedDetails 1 1\<rparr>],
     checkoutSessions := [\<lparr>checkoutId = sampleUuid ''1'', checkoutOrderId = sampleUuid ''1'',
         tokenDigest = replicate 64 CHR ''0'',
        tokenKeyVersion = 1, terminalObservationMilliseconds = 60000\<rparr>],
     orderAudits := [orderEventAudit env1 \<lparr>eventId = sampleUuid ''1'', eventOrderId = sampleUuid
         ''1'', eventSequence = 1, eventType = CREATED,
        occurredAt = 1000, eventDetails = CreatedDetails 1 1\<rparr> order1]\<rparr>"

lemma sample_order_allowed_db: "orderInsertAllowed (newPaymentOrder env1 input1 sampleProfile 1001 120
    1000 301000) (ensureApiClientIdentity x startDb)"
  using sample_order_allowed by (subst orderInsertAllowed_cong [of _ startDb]) (simp_all add:
      sampleOrder_def ensureApiClientIdentity_def)

lemma sample_insert: "insertOrderRows env1 input1 sampleProfile 1001 1 120 1000 startDb = Inr
    (sampleToken, createdDb)"
proof -
  have f: "inTtlMilliseconds input1 = 300000" "inKeyRotationMilliseconds input1 = 1000000000"
      "inApiClientId input1 = js ''shop''" "inEpay input1 = None"
    "inWebhookTarget input1 = None" "inTerminalObservationMilliseconds input1 = 60000" "amount_cents
        (inRequest input1) = 1000"
    "newOrderId env1 = sampleUuid ''1''" "newEventId env1 n = sampleUuid ''1''" "newCheckoutId env1 =
        sampleUuid ''1''" for n
    by (simp_all add: sampleInput_def sampleRequest_def sampleEnv_def)
  have g: "newPaymentOrder env1 input1 sampleProfile 1001 120 1000 301000 = order1" "newSlot env1
      sampleProfile 1001 1 1000 = sampleSlot ''1'' 1 1000"
    by (simp_all add: sampleOrder_def sampleSlot_def)
  show ?thesis
   using sample_key sample_token sample_digest sample_order_allowed_db[unfolded g]
   by (simp add: insertOrderRows_def f g Let_def insertPaymentOrder_def insertEpayOrder_def
       insertWebhookTarget_def
     insertAmountSlot_def slotInsertAllowed_def slotsAt_def newestSlot_def insertOrderEvent_def
         orderEventAllowed_def
      isSafeInteger_def maxSafeInteger_def createdDb_def ensureApiClientIdentity_def)
     (simp add: sampleDb_def )
qed

definition createdAggregate :: order_aggregate where
  "createdAggregate = \<lparr>aggOrder = order1, aggCheckout = hd (checkoutSessions createdDb), aggProfile
      = sampleProfile, aggTarget = None\<rparr>"

lemma sample_read_created: "readAggregateById env1 createdDb (js ''shop'') (sampleUuid ''1'') = Inr (Some
    createdAggregate)"
proof -
  have m: "mapAggregate env1 createdDb order1 (hd (checkoutSessions createdDb)) sampleProfile = Inr
      createdAggregate"
    by (simp add: mapAggregate_def createdDb_def createdAggregate_def mapWebhookTarget_def targetOf_def
        profileProviderKey_def
      isSafeInteger_def maxSafeInteger_def fingerprintOrderNote_def fingerprintOrderReturnUrl_def
          sample_defs nullable_def)
  show ?thesis
    using m by (simp add: readAggregateById_def readAggregateWhere_def createdDb_def joined_def
        sessionOf_def profileOf_def)
      (simp add: sampleDb_def sampleProfile_def)
qed

lemma sample_createOrder: "createOrder env1 input1 None (noOrders sampleDb) =
   Inr (Created (order_aggregate.extend createdAggregate (stored_order_aggregate.fields sampleToken)),
       createdDb)"
proof -
  have f: "inSiteRevision input1 = None" "inEpay input1 = None" "inWebhookRejection input1 = None"
      "inReturnUrlRejection input1 = None"
    "inApiClientId input1 = js ''shop''" "newOrderId env1 = sampleUuid ''1''" "cooldownOf input1 = 120"
    by (simp_all add: sampleInput_def sampleEnv_def cooldownOf_def)
  have n: "readAggregateByMerchantOrderNumber env1 startDb c x = Inr None" for c x
    by (simp add: readAggregateByMerchantOrderNumber_def readAggregateWhere_def sampleDb_def)
  have "createNew env1 input1 None 1000 startDb =
     Inr (Created (order_aggregate.extend createdAggregate (stored_order_aggregate.fields sampleToken)),
         createdDb)"
    using sample_profiles sample_allocation sample_insert sample_read_created by (simp add: createNew_def
        f assertSiteRevision_def assertEpayConfiguration_def n)
  then show ?thesis using sample_validate sample_now sample_expireDue sample_no_replay sample_no_migrated
      by (simp add: createOrder_def)
qed


text \<open>The same order closed a second later.\<close>

abbreviation env2 :: order_env where
  "env2 \<equiv> sampleEnv 2000 ''2''"

definition session1 :: checkout_session where
  "session1 = \<lparr>checkoutId = sampleUuid ''1'', checkoutOrderId = sampleUuid ''1'', tokenDigest = replicate 64 CHR ''0'',
     tokenKeyVersion = 1, terminalObservationMilliseconds = 60000\<rparr>"

definition aggregateOf :: "payment_order \<Rightarrow> order_aggregate" where
  "aggregateOf ord = \<lparr>aggOrder = ord, aggCheckout = session1, aggProfile = sampleProfile, aggTarget = None\<rparr>"

lemma sample_map:
  assumes "webhookTargets db = []" "profileProviderLinks db = []" "ord = order1 \<or> ord = endOrder status t order1"
    "isSafeInteger t"
  shows "mapAggregate (sampleEnv now name) db ord session1 sampleProfile = Inr (aggregateOf ord)"
  using assms
  by (auto simp: mapAggregate_def aggregateOf_def mapWebhookTarget_def targetOf_def profileProviderKey_def session1_def
    isSafeInteger_def maxSafeInteger_def fingerprintOrderNote_def fingerprintOrderReturnUrl_def sample_defs nullable_def)

lemma sample_read:
  assumes "paymentOrders db = [ord]" "checkoutSessions db = [session1]" "collectionProfiles db = [sampleProfile]"
    "webhookTargets db = []" "profileProviderLinks db = []" "ord = order1 \<or> ord = endOrder status t order1"
    "isSafeInteger t"
  shows "readAggregateById (sampleEnv now name) db (js ''shop'') (sampleUuid ''1'') = Inr (Some (aggregateOf ord))"
    "readAggregateByTokenDigest (sampleEnv now name) db (replicate 64 CHR ''0'') = Inr (Some (aggregateOf ord))"
proof -
  have o: "apiClientId ord = js ''shop''" "orderId ord = sampleUuid ''1''" "collectionProfileId ord = ''p''"
    using assms(6) by (auto simp: endOrder_def)
  show "readAggregateById (sampleEnv now name) db (js ''shop'') (sampleUuid ''1'') = Inr (Some (aggregateOf ord))"
    "readAggregateByTokenDigest (sampleEnv now name) db (replicate 64 CHR ''0'') = Inr (Some (aggregateOf ord))"
    using sample_map [OF assms(4-7)] assms(1-3) o
    by (simp_all add: readAggregateById_def readAggregateByTokenDigest_def readAggregateWhere_def joined_def
        sessionOf_def profileOf_def session1_def sampleProfile_def)
qed

lemma sample_token_of:
  assumes "tokenKeys db = tokenKeys sampleDb"
  shows "withCheckoutToken (sampleEnv now name) db (aggregateOf ord) =
     Inr (order_aggregate.extend (aggregateOf ord) (stored_order_aggregate.fields sampleToken))"
proof -
  have d: "digestCheckoutToken (sha256 (sampleEnv now name)) sampleToken = Inr (replicate 64 CHR ''0'')"
    using zero_token_canonical by (simp add: digestCheckoutToken_def sampleToken_def sampleEnv_def)
  have t: "deriveCheckoutToken (hmacSha256 (sampleEnv now name)) (replicate 32 1) (sampleUuid ''1'') = Inr sampleToken"
    using zero_token sample_uuid_canonical by (simp add: deriveCheckoutToken_def sampleEnv_def sampleToken_def)
  show ?thesis using assms t d
    by (simp add: withCheckoutToken_def readCheckoutTokenKey_def sampleDb_def aggregateOf_def session1_def)
qed

lemma sample_close:
  obtains db' where
    "closeOrder env2 (js ''shop'') (sampleUuid ''1'') createdDb =
       Inr (Some (order_aggregate.extend (aggregateOf (endOrder CLOSED 2000 order1))
                   (stored_order_aggregate.fields sampleToken)), db')"
    "orderClock db' = 2000"
proof -
  let ?db = "createdDb\<lparr>orderClock := 2000\<rparr>"
  let ?db' = "endedDb env2 CLOSED CHECKOUT_CLOSED (ReasonDetails ''api_request'') order1 2000 ?db"
  have n: "logicalNow env2 createdDb = Inr (2000, ?db)"
    by (simp add: logicalNow_def readPhysicalTime_def readOrderClock_def assertOrderClockIsUsable_def createdDb_def
        sample_defs isSafeInteger_def maxSafeInteger_def MAX_ORDER_CLOCK_AHEAD_MILLISECONDS_def)
  have inv: "orderInv ?db"
    using goodStep_inv [OF goodStep_createOrder [OF orderInv_noOrders sample_createOrder]]
    by (rule orderInv_clock) (simp add: createdDb_def)
  have m: "order1 \<in> set (paymentOrders ?db)" by (simp add: createdDb_def)
  have close: "endCheckout CLOSED (sampleUuid ''1'') (\<lambda>r. apiClientId r = js ''shop'' \<and> expiresAt r > 2000) 2000 ?db =
           Inr (1, endedRows CLOSED (sampleUuid ''1'') 2000 ?db)"
    "insertOrderEvent env2 (sampleUuid ''1'') 2 CHECKOUT_CLOSED 2000 d (endedRows CLOSED (sampleUuid ''1'') 2000 ?db) =
       Inr (endedDb env2 CLOSED CHECKOUT_CLOSED d order1 2000 ?db)" for d
    using close_open(1,2) [OF inv _ m, of 2000 "js ''shop''"] by (simp_all add: createdDb_def)
  have r1: "readAggregateById env2 ?db (js ''shop'') (sampleUuid ''1'') = Inr (Some (aggregateOf order1))"
    by (rule sample_read(1) [where t = 0 and status = CLOSED])
      (simp_all add: createdDb_def sampleDb_def session1_def isSafeInteger_def maxSafeInteger_def)
  have r2: "readAggregateById env2 ?db' (js ''shop'') (sampleUuid ''1'') =
     Inr (Some (aggregateOf (endOrder CLOSED 2000 order1)))"
    by (rule sample_read(1) [where t = 2000 and status = CLOSED])
      (simp_all add: endedDb_def endedRows_def updateRows_def createdDb_def sampleDb_def session1_def isSafeInteger_def maxSafeInteger_def)
  have k: "tokenKeys ?db' = tokenKeys sampleDb" by (simp add: endedDb_def endedRows_def createdDb_def)
  have "closeOrder env2 (js ''shop'') (sampleUuid ''1'') createdDb = Inr (Some
   (order_aggregate.extend (aggregateOf (endOrder CLOSED 2000 order1)) (stored_order_aggregate.fields sampleToken)), ?db')"
    using n r1 close r2 sample_token_of [OF k, of 2000 "''2''" "endOrder CLOSED 2000 order1"]
    by (simp add: closeOrder_def aggregateOf_def assertChangedOnce_def)
  moreover have "orderClock ?db' = 2000" by (simp add: endedDb_def endedRows_def)
  ultimately show ?thesis using that by blast
qed

lemma orderInv_createdDb: "orderInv createdDb"
  by (rule goodStep_inv [OF goodStep_createOrder [OF orderInv_noOrders sample_createOrder]])

end
