(* ===== verification/OrderTheorems.thy ===== *)
theory OrderTheorems
  imports OrderSamples
begin

text \<open>
  What the order store promises: the amount identifies the order, the amounts are given out in
  order, the history is complete and final, and a repeated request creates nothing.
\<close>

lemma evolves_cases:
  assumes "evolves r r'"
  shows "r' = r \<or>
    checkoutStatus r = OPEN \<and> (\<exists>t. r' = endOrder EXPIRED t r \<and> expiresAt r \<le> t) \<or>
    checkoutStatus r = OPEN \<and> (\<exists>t. r' = endOrder CLOSED t r \<and> createdAt r \<le> t \<and> t < expiresAt r)"
proof (cases "r' = r")
  case False
  then obtain status t where e: "checkoutStatus r = OPEN" "endTimeAllowed status t r" "r' = endOrder status t r"
    using assms by (auto simp: evolves_def)
  then show ?thesis by (cases status) (auto simp: endTimeAllowed_def)
qed simp

subsection \<open>Every reachable state\<close>

text \<open>C1: Whatever sequence of calls the store receives, starting without orders, its order, slot and event
  rows satisfy the invariant, and the persisted logical clock never moves back.\<close>

theorem order_store_invariant:
  "orderInv (fold orderStep ops (noOrders db)) \<and> orderClock db \<le> orderClock (fold orderStep ops (noOrders db))"
  using orders.run_inv [OF orderInv_noOrders, of ops db] orders.run_level [OF orderInv_noOrders, of db ops]
  by (simp add: noOrders_def)

text \<open>Two orders of one account and amount exclude each other from their creation to the end of their cooldown.\<close>

definition collide :: "payment_order \<Rightarrow> payment_order \<Rightarrow> bool" where
  "collide r r' \<longleftrightarrow>
     alipayAccountId r = alipayAccountId r' \<and> payableAmountCents r = payableAmountCents r' \<and>
     createdAt r' < reuseTime r \<and> createdAt r < reuseTime r'"

lemma windows_apart:
  assumes rows: "rowsInv db" and r: "r \<in> set (paymentOrders db)" "r' \<in> set (paymentOrders db)" "r \<noteq> r'"
    and same: "alipayAccountId r = alipayAccountId r'" "payableAmountCents r = payableAmountCents r'"
  shows "reuseTime r \<le> createdAt r' \<or> reuseTime r' \<le> createdAt r"
proof -
  obtain s where s: "s \<in> set (amountSlots db)" "slotMatches r s" using slot_of_order [OF rows r(1)] .
  obtain s' where s': "s' \<in> set (amountSlots db)" "slotMatches r' s'" using slot_of_order [OF rows r(2)] .
  have amounts: "sameAmount s s'" "sameAmount s' s" using s s' same by (auto simp: sameAmount_def slotMatches_def)
  have "generation s \<noteq> generation s'"
    using rowsInvD(3) [OF rows] s s' amounts order_unique [OF rows r(1,2)] r(3)
    by (auto simp: windowsOk_def slotMatches_def)
  then have "generation s < generation s' \<or> generation s' < generation s" by linarith
  then have "endedBefore r (occupiedFrom s') \<or> endedBefore r' (occupiedFrom s)"
    using windowsOkD [OF rowsInvD(3) [OF rows] s(1) s'(1) amounts(1) _ r(1)]
      windowsOkD [OF rowsInvD(3) [OF rows] s'(1) s(1) amounts(2) _ r(2)] slotMatches_ids [OF s(2)]
      slotMatches_ids [OF s'(2)] by auto
  then show ?thesis
    using endedBefore_reuseTime rowsInvD(4) [OF rows] r(1,2) s(2) s'(2) by (auto simp: slotMatches_def)
qed

text \<open>C2: Whatever sequence of calls the store receives, starting without orders, two different orders of one Alipay
  account and one payable amount never overlap: one of them has ended, and its cooldown is over, before the other is
  created.\<close>

theorem same_amount_never_overlaps:
  "pairwise (\<lambda>r r'. \<not> collide r r') (set (paymentOrders (fold orderStep ops (noOrders db))))"
proof (rule pairwiseI)
  fix r r'
  let ?db = "fold orderStep ops (noOrders db)"
  assume "r \<in> set (paymentOrders ?db)" "r' \<in> set (paymentOrders ?db)" "r \<noteq> r'"
  moreover have "rowsInv ?db" using orders.run_inv [OF orderInv_noOrders] by (rule orderInv_rows)
  ultimately show "\<not> collide r r'" using windows_apart [of ?db r r'] by (auto simp: collide_def)
qed

subsection \<open>The history of an order\<close>

lemma order_event_sequences:
  assumes inv: "orderInv db" and r: "r \<in> set (paymentOrders db)"
  shows "set (map eventSequence (filter (\<lambda>e. eventOrderId e = orderId r) (orderEvents db))) = {1..version r}"
    "distinct (map eventSequence (filter (\<lambda>e. eventOrderId e = orderId r) (orderEvents db)))"
proof -
  have ok: "eventsOk (paymentOrders db) (orderEvents db)" using inv by (rule orderInv_events)
  have "1 \<le> eventSequence e \<and> eventSequence e \<le> version r"
    if "e \<in> set (orderEvents db)" "eventOrderId e = orderId r" for e
    using eventsOkD(1) [OF ok that(1)] that(2) order_unique [OF orderInv_rows [OF inv] _ r] by auto
  moreover have "k \<in> eventSequence ` {e \<in> set (orderEvents db). eventOrderId e = orderId r}"
    if "1 \<le> k" "k \<le> version r" for k
    using eventsOkD(2) [OF ok r that] by auto
  ultimately show "set (map eventSequence (filter (\<lambda>e. eventOrderId e = orderId r) (orderEvents db))) = {1..version r}"
    by auto
  have "distinct (map (\<lambda>e. (eventOrderId e, eventSequence e)) (filter (\<lambda>e. eventOrderId e = orderId r) (orderEvents db)))"
    using eventsOkD(3) [OF ok] by (rule distinct_map_filter)
  then show "distinct (map eventSequence (filter (\<lambda>e. eventOrderId e = orderId r) (orderEvents db)))"
    by (auto simp: distinct_map inj_on_def)
qed

text \<open>C12: The history an administrator reads for an order holds exactly one event for every version of the order,
  in order from 1 to its current version.\<close>

theorem admin_history_is_complete:
  assumes inv: "orderInv db" and r: "r \<in> set (paymentOrders db)"
    and es: "readAdminOrderEvents db (orderId r) = Inr es"
  shows "map eventSequence es = [1..version r]"
proof -
  let ?es = "filter (\<lambda>e. eventOrderId e = orderId r) (orderEvents db)"
  have "es = sort_key eventSequence ?es"
    using es by (simp add: readAdminOrderEvents_def Let_def result_simps)
  then have "sorted (map eventSequence es)" "distinct (map eventSequence es)"
    "set (map eventSequence es) = {1..version r}"
    using order_event_sequences [OF inv r] by (auto simp: distinct_map)
  then show ?thesis by (intro sorted_distinct_set_unique) auto
qed

theorem admin_history_is_complete_witness:
  "map eventSequence [sampleEvent ''1'' 1 CREATED 1000, sampleEvent ''1'' 2 CHECKOUT_CLOSED 5000] =
     [1..version closedOrder]"
proof (rule admin_history_is_complete [OF orderInv_twoOrders])
  show "closedOrder \<in> set (paymentOrders twoOrders)" by (simp add: twoOrders_def)
  show "readAdminOrderEvents twoOrders (orderId closedOrder) =
      Inr [sampleEvent ''1'' 1 CREATED 1000, sampleEvent ''1'' 2 CHECKOUT_CLOSED 5000]"
    by (simp add: readAdminOrderEvents_def twoOrders_def closedOrder_def sampleEvent_def isSafeInteger_def
        maxSafeInteger_def)
qed

end
