(* ===== verification/OrderOutcomes.thy ===== *)
theory OrderOutcomes
  imports OrderTheorems
begin

text \<open>
  What the calls of the order store return: which amount an order gets and how long an exhausted
  customer must wait, what each result of a creation stored, and what closing and the public page show.
\<close>

subsection \<open>Allocation\<close>

lemma earliestOf_Min: "earliestOf (Some m) ts = Some (Min (set (m # ts)))"
proof (induction ts arbitrary: m)
  case (Cons t ts)
  have "earliestOf (Some m) (t # ts) = Some (Min (set (min m t # ts)))"
    using Cons.IH by (simp add: earliestOf_Cons minimumDefined_def)
  also have "Min (set (min m t # ts)) = Min (set (m # t # ts))"
    by (cases "ts = []") (simp_all add: min.assoc)
  finally show ?case .
qed (simp add: earliestOf_def)

lemma earliestOf_None: "earliestOf None ts = (if ts = [] then None else Some (Min (set ts)))"
  by (cases ts) (simp_all add: earliestOf_Cons earliestOf_Min minimumDefined_def, simp add: earliestOf_def)

lemma amountFree_at: "0 \<le> t \<Longrightarrow> amountFree account a t db \<longleftrightarrow> amountFreeAt account a db \<le> t"
proof -
  assume "0 \<le> t"
  then have "list_all (\<lambda>x. x \<le> t) ts \<longleftrightarrow> foldr max ts 0 \<le> t" for ts :: "int list"
    by (induction ts) auto
  then show ?thesis by (simp add: amountFree_reuse amountFreeAt_def)
qed

lemma allocation_result:
  assumes "orderInv db" "now = orderClock db" "0 \<le> maximum"
    and res: "allocateAmountSlot env account requested maximum now db = Inr (allocation, db')"
  shows "sameUse now db db'"
    "firstFree account now db (offeredAmounts requested maximum) = Some a \<Longrightarrow>
     allocation = Allocated a (nextGeneration account a db') \<and>
     list_all (\<lambda>r. checkoutStatus r \<noteq> OPEN) (amountOrders account a db')"
    "firstFree account now db (offeredAmounts requested maximum) = None \<Longrightarrow>
     exhaustedResult (earliestOf None (map (\<lambda>a. amountFreeAt account a db) (offeredAmounts requested maximum))) now
       = Inr allocation"
proof -
  note p = allocateAmountSlot_partial [OF assms]
  then have same: "sameReuse db db'" by (simp add: sameUse_def)
  show "sameUse now db db'" using p by blast
  show "allocation = Allocated a (nextGeneration account a db') \<and>
      list_all (\<lambda>r. checkoutStatus r \<noteq> OPEN) (amountOrders account a db')"
    if "firstFree account now db (offeredAmounts requested maximum) = Some a"
    using p that by (simp add: allocationOk_def firstFree_def sameReuseD [OF same])
  show "exhaustedResult (earliestOf None (map (\<lambda>a. amountFreeAt account a db) (offeredAmounts requested maximum))) now
       = Inr allocation"
    if "firstFree account now db (offeredAmounts requested maximum) = None"
    using p that by (simp add: allocationOk_def firstFree_def sameReuseD [OF same])
qed

lemma allocated_firstFree:
  assumes "orderInv db" "now = orderClock db" "0 \<le> maximum"
    and res: "allocateAmountSlot env account requested maximum now db = Inr (Allocated amount g, db')"
  shows "firstFree account now db (offeredAmounts requested maximum) = Some amount"
    "g = nextGeneration account amount db'"
    "list_all (\<lambda>r. checkoutStatus r \<noteq> OPEN) (amountOrders account amount db')"
proof -
  have "firstFree account now db (offeredAmounts requested maximum) \<noteq> None"
  proof
    assume none: "firstFree account now db (offeredAmounts requested maximum) = None"
    show False
      using allocation_result(3) [OF assms none] by (simp add: exhaustedResult_def split: option.splits if_splits)
  qed
  then obtain a where "firstFree account now db (offeredAmounts requested maximum) = Some a" by auto
  then show "firstFree account now db (offeredAmounts requested maximum) = Some amount"
    "g = nextGeneration account amount db'"
    "list_all (\<lambda>r. checkoutStatus r \<noteq> OPEN) (amountOrders account amount db')"
    using allocation_result(2) [OF assms] by auto
qed

lemma twoOrders_clock: "orderClock twoOrders = 200000"
  by (simp add: twoOrders_def)

lemma twoOrders_offsets:
  "assessOffset (sampleEnv 200000 ''3'') ''default'' 1001 200000 twoOrders = Inr (SlotBusy 620000, twoOrders)"
  "assessOffset (sampleEnv 200000 ''3'') ''default'' 1002 200000 twoOrders = Inr (SlotFree 1, twoOrders)"
  by (simp_all add: assessOffset_def twoOrders_def closedOrder_def openOrder_def amountReuseAvailableAt_def
      isSafeInteger_def maxSafeInteger_def assessLatestSlot_def latestSlot_def slotsAt_def newestSlot_def)

text \<open>C3: The amount an order is given is the smallest amount above the requested one, within the offset limit and the
  largest payable amount, that is free on its account: every order that ever held it has ended and cooled down.  Its
  slot gets the next generation of that amount.\<close>

theorem allocates_smallest_free_amount:
  assumes "orderInv db" "0 \<le> maximum"
    "allocateAmountSlot env account requested maximum (orderClock db) db = Inr (Allocated amount g, db')"
  shows "requested < amount \<and> amount \<le> requested + maximum \<and> amount \<le> MAX_PAYABLE_AMOUNT_CENTS \<and>
    amountFree account amount (orderClock db) db \<and> g = nextGeneration account amount db' \<and>
    (\<forall>a. requested < a \<and> a < amount \<longrightarrow> \<not> amountFree account a (orderClock db) db)"
proof -
  note f = allocated_firstFree [OF assms(1) refl assms(2,3)]
  have mem: "a \<in> set (offeredAmounts requested maximum) \<longleftrightarrow>
      requested < a \<and> a \<le> requested + maximum \<and> a \<le> MAX_PAYABLE_AMOUNT_CENTS" for a
    by (auto simp: offeredAmounts_def)
  have sorted: "sorted (offeredAmounts requested maximum)" by (simp add: offeredAmounts_def sorted_filter [where f = id, simplified])
  obtain i where i: "i < length (offeredAmounts requested maximum)" "amount = offeredAmounts requested maximum ! i"
      "amountFree account amount (orderClock db) db"
      "\<forall>j<i. \<not> amountFree account (offeredAmounts requested maximum ! j) (orderClock db) db"
    using f(1) by (auto simp: firstFree_def find_Some_iff)
  have "amount \<in> set (offeredAmounts requested maximum)" using i(1,2) by simp
  moreover have "\<not> amountFree account a (orderClock db) db" if a: "requested < a" "a < amount" for a
  proof -
    have "a \<in> set (offeredAmounts requested maximum)" using a \<open>amount \<in> _\<close> by (simp add: mem)
    then obtain j where j: "j < length (offeredAmounts requested maximum)" "a = offeredAmounts requested maximum ! j"
      by (auto simp: in_set_conv_nth)
    have "j < i"
    proof (rule ccontr)
      assume "\<not> j < i"
      then have "amount \<le> a" using sorted_nth_mono [OF sorted, of i j] i j by simp
      then show False using a by simp
    qed
    then show ?thesis using i(4) j by blast
  qed
  ultimately show ?thesis using f(2) i(3) mem by blast
qed

theorem allocates_smallest_free_amount_witness:
  "amountFree ''default'' 1002 200000 twoOrders \<and> \<not> amountFree ''default'' 1001 200000 twoOrders"
proof -
  have "allocateAmountSlot (sampleEnv 200000 ''3'') ''default'' 1000 3 (orderClock twoOrders) twoOrders =
      Inr (Allocated 1002 1, twoOrders)"
    using twoOrders_offsets
    by (simp add: allocateAmountSlot_def twoOrders_clock eval_nat_numeral MAX_PAYABLE_AMOUNT_CENTS_def
        MAX_REQUESTED_AMOUNT_CENTS_def)
  from allocates_smallest_free_amount [OF orderInv_twoOrders _ this] show ?thesis
    by (simp add: twoOrders_clock)
qed

text \<open>C4: When no offered amount is free, the whole seconds the customer is told to wait are exactly enough: after them
  some offered amount is free, and a second earlier none is.\<close>

theorem exhausted_retry_is_exact:
  assumes inv: "orderInv db" and maximum: "0 \<le> maximum"
    and res: "allocateAmountSlot env account requested maximum (orderClock db) db = Inr (Exhausted seconds, db')"
  shows "1 \<le> seconds \<and>
    (\<exists>a \<in> set (offeredAmounts requested maximum). amountFree account a (orderClock db + seconds * 1000) db) \<and>
    \<not> (\<exists>a \<in> set (offeredAmounts requested maximum). amountFree account a (orderClock db + (seconds - 1) * 1000) db)"
proof -
  let ?now = "orderClock db" and ?as = "offeredAmounts requested maximum"
  let ?T = "Min (set (map (\<lambda>a. amountFreeAt account a db) ?as))"
  note r = allocation_result [OF inv refl maximum res]
  have none: "firstFree account ?now db ?as = None"
    using r(2) by (cases "firstFree account ?now db ?as") auto
  then have t: "?as \<noteq> []" "?now < ?T" "seconds = max 1 (ceilDiv (?T - ?now) 1000)"
    using r(3) [OF none] by (simp_all add: earliestOf_None exhaustedResult_def not_le split: if_splits)
  obtain a where a: "a \<in> set ?as" "amountFreeAt account a db = ?T"
  proof -
    have "?T \<in> set (map (\<lambda>a. amountFreeAt account a db) ?as)" using t(1) by (intro Min_in) auto
    then obtain a where "a \<in> set ?as" "?T = amountFreeAt account a db" unfolding set_map by blast
    then show thesis using that by simp
  qed
  have "\<not> amountFree account a ?now db"
    using none a(1) by (simp add: firstFree_def find_None_iff_all)
  then obtain x where "x \<in> set (amountOrders account a db)" by (auto simp: amountFree_def list_all_iff)
  then have x: "x \<in> set (paymentOrders db)" by (simp add: amountOrders_mem)
  have "0 \<le> ?now"
    using rowsInvD(4,5) [OF orderInv_rows [OF inv] x] by (simp add: orderRowOk_def timesWithin_def)
  have upper: "?T - ?now \<le> seconds * 1000" and lower: "(seconds - 1) * 1000 < ?T - ?now" and one: "1 \<le> seconds"
    using ceilDiv_upper [of 1000 "?T - ?now"] ceilDiv_lower [of 1000 "?T - ?now"] t(2,3) by (auto simp: max_def)
  have "amountFree account a (?now + seconds * 1000) db"
    using amountFree_at [of "?now + seconds * 1000"] a(2) upper one \<open>0 \<le> ?now\<close> by simp
  moreover have "\<not> amountFree account b (?now + (seconds - 1) * 1000) db" if "b \<in> set ?as" for b
  proof -
    have "?T \<le> amountFreeAt account b db" using that by (intro Min_le) auto
    then show ?thesis
      using amountFree_at [of "?now + (seconds - 1) * 1000"] lower one \<open>0 \<le> ?now\<close> by simp
  qed
  ultimately show ?thesis using a(1) one by blast
qed

theorem exhausted_retry_is_exact_witness:
  "amountFree ''default'' 1001 (200000 + 420 * 1000) twoOrders"
proof -
  have "allocateAmountSlot (sampleEnv 200000 ''3'') ''default'' 1000 1 (orderClock twoOrders) twoOrders =
      Inr (Exhausted 420, twoOrders)"
    using twoOrders_offsets(1)
    by (simp add: allocateAmountSlot_def twoOrders_clock eval_nat_numeral MAX_PAYABLE_AMOUNT_CENTS_def
        MAX_REQUESTED_AMOUNT_CENTS_def minimumDefined_def exhaustedResult_def ceilDiv_def)
  from exhausted_retry_is_exact [OF orderInv_twoOrders _ this] show ?thesis
    by (simp add: twoOrders_clock offeredAmounts_def MAX_PAYABLE_AMOUNT_CENTS_def MAX_REQUESTED_AMOUNT_CENTS_def)
qed

text \<open>C13: On rows that satisfy the invariant and whose counters are safe integers, the allocation never fails: it
  returns an amount, or the time to wait.\<close>

theorem allocation_returns:
  assumes "orderInv db" "countersSafe db" "1 \<le> maximum" "requested < MAX_PAYABLE_AMOUNT_CENTS"
  shows "\<exists>allocation db'. allocateAmountSlot env account requested maximum (orderClock db) db = Inr (allocation, db')"
  unfolding allocateAmountSlot_def
  by (rule allocateFrom_total) (use assms in auto)

lemma countersSafe_twoOrders: "countersSafe twoOrders"
  by (simp add: countersSafe_def twoOrders_def closedOrder_def openOrder_def isSafeInteger_def maxSafeInteger_def)

theorem allocation_returns_witness:
  "\<exists>allocation db'. allocateAmountSlot (sampleEnv 200000 ''3'') ''default'' 1000 3 (orderClock twoOrders) twoOrders =
     Inr (allocation, db')"
  by (rule allocation_returns [OF orderInv_twoOrders countersSafe_twoOrders])
    (simp_all add: MAX_PAYABLE_AMOUNT_CENTS_def MAX_REQUESTED_AMOUNT_CENTS_def)

text \<open>C10: A slot that the allocation chose is accepted by the insert triggers of the slot table, whatever the new order's
  other data: its generation follows, the earlier order of the amount has ended and its cooldown is over.\<close>

theorem allocated_slot_passes_triggers:
  assumes inv: "orderInv db" and maximum: "0 \<le> maximum"
    and res: "allocateAmountSlot env (profileAccountId profile) requested maximum (orderClock db) db =
                Inr (Allocated amount g, db')"
    and fresh: "newOrderId env \<notin> orderId ` set (paymentOrders db')"
  shows "slotInsertAllowed (newSlot env profile amount g (orderClock db))
           (db'\<lparr>paymentOrders := paymentOrders db' @
              [newPaymentOrder env input profile amount cooldown (orderClock db) expires]\<rparr>)"
proof -
  let ?account = "profileAccountId profile" and ?now = "orderClock db"
  let ?new = "newPaymentOrder env input profile amount cooldown ?now expires"
  let ?slot = "newSlot env profile amount g ?now"
  let ?db = "db'\<lparr>paymentOrders := paymentOrders db' @ [?new]\<rparr>"
  note f = allocated_firstFree [OF inv refl maximum res]
  have use: "sameUse ?now db db'" using allocation_result(1) [OF inv refl maximum res] .
  then have inv': "rowsInv db'" by (simp add: sameUse_def orderInv_rows)
  have free: "amountFree ?account amount ?now db'"
    using f(1) sameReuseD(1) [of db db'] use find_SomeD by (fastforce simp: firstFree_def sameUse_def)
  have slots: "slotsAt (slotAccountId ?slot) (slotAmountCents ?slot) ?db = slotsAt ?account amount db'"
    by (simp add: slotsAt_def newSlot_def)
  have self: "list_ex (\<lambda>ord. orderId ord = slotOrderId ?slot \<and> collectionProfileId ord = slotProfileId ?slot \<and>
      payableAmountCents ord = slotAmountCents ?slot \<and> alipayAccountId ord = slotAccountId ?slot \<and>
      eligibleFrom ord = occupiedFrom ?slot \<and> checkoutStatus ord = OPEN) (paymentOrders ?db)"
    by (simp add: newSlot_def newPaymentOrder_def)
  show ?thesis
  proof (cases "newestSlot (slotsAt ?account amount db')")
    case None
    then show ?thesis
      using self f(2) unfolding slotInsertAllowed_def slots by (simp add: newSlot_def nextGeneration_def)
  next
    case (Some p)
    have p: "p \<in> set (amountSlots db')" "slotAccountId p = ?account" "slotAmountCents p = amount"
      using newestSlot_Some(1) [OF Some] by (simp_all add: slotsAt_def)
    obtain q where q: "q \<in> set (paymentOrders db')" "slotMatches q p" using order_of_slot [OF inv' p(1)] .
    have mem: "q \<in> set (amountOrders ?account amount db')" using p q by (simp add: amountOrders_mem slotMatches_def)
    have ended: "checkoutStatus q \<noteq> OPEN" "reuseTime q \<le> ?now"
      using mem f(3) free by (auto simp: list_all_iff amountFree_def)
    have within: "timesWithin ?now q" using rowsInvD(5) [OF inv' q(1)] use by (simp add: sameUse_def)
    have before: "endedBefore q ?now"
      using reuseTime_endedBefore [OF rowsInvD(4) [OF inv' q(1)] within ended] .
    obtain c where c: "closedAt q = Some c" using ended_closed [OF inv' q(1) ended(1)] .
    have "orderOfSlot ?db p = Some q"
      unfolding orderOfSlot_def
      by (rule find_Some_unique)
        (use q fresh order_unique [OF inv' _ q(1)] slotMatches_ids [OF q(2)] in auto)
    then show ?thesis
      using self f(2) Some before c q(2) unfolding slotInsertAllowed_def slots
      by (auto simp: newSlot_def nextGeneration_def endedBefore_def slotMatches_def split: option.splits)
  qed
qed

theorem allocated_slot_passes_triggers_witness:
  "slotInsertAllowed (newSlot (sampleEnv 200000 ''3'') sampleProfile 1002 1 200000)
     (twoOrders\<lparr>paymentOrders := paymentOrders twoOrders @
        [newPaymentOrder (sampleEnv 200000 ''3'') (sampleInput ''3'') sampleProfile 1002 120 200000 500000]\<rparr>)"
proof -
  have "allocateAmountSlot (sampleEnv 200000 ''3'') (profileAccountId sampleProfile) 1000 3 (orderClock twoOrders)
      twoOrders = Inr (Allocated 1002 1, twoOrders)"
    using twoOrders_offsets
    by (simp add: allocateAmountSlot_def twoOrders_clock eval_nat_numeral MAX_PAYABLE_AMOUNT_CENTS_def
        MAX_REQUESTED_AMOUNT_CENTS_def sampleProfile_def)
  from allocated_slot_passes_triggers [OF orderInv_twoOrders _ this, of "sampleInput ''3''" 120 500000]
  show ?thesis
    by (simp add: twoOrders_clock) (simp add: twoOrders_def closedOrder_def openOrder_def sampleEnv_def)
qed

end
