(* ===== verification/OrderResults.thy ===== *)
theory OrderResults
  imports OrderOutcomes
begin

text \<open>
  What each result of a call says of the rows: a creation adds one order and one slot exactly when it
  answers \<open>Created\<close>; closing ends the order; the public page never shows an open checkout whose
  deadline has passed.
\<close>

named_theorems quiet_steps \<open>operations that insert no order and no slot and close no order\<close>

text \<open>Which orders are closed, and how many slots there are.\<close>

definition sizes :: "order_db \<Rightarrow> bool list \<times> nat" where
  "sizes db = (map (\<lambda>r. checkoutStatus r = CLOSED) (paymentOrders db), length (amountSlots db))"

lemma sizes_lengths:
  "sizes db' = sizes db \<Longrightarrow>
   length (paymentOrders db') = length (paymentOrders db) \<and> length (amountSlots db') = length (amountSlots db)"
  by (auto simp: sizes_def dest: map_eq_imp_length_eq)

lemma sizes_added:
  assumes "sizes db' = (fst (sizes db) @ [False], snd (sizes db) + 1)"
  shows "length (paymentOrders db') = length (paymentOrders db) + 1" "length (amountSlots db') = length (amountSlots db) + 1"
proof -
  have "length (fst (sizes db')) = length (fst (sizes db)) + 1" by (simp add: assms)
  then show "length (paymentOrders db') = length (paymentOrders db) + 1" by (simp add: sizes_def)
  show "length (amountSlots db') = length (amountSlots db) + 1" using assms by (simp add: sizes_def)
qed

lemma sizes_logicalNow [quiet_steps]: "logicalNow env db = Inr (now, db') \<Longrightarrow> sizes db' = sizes db"
  using logicalNow_Inr(1) [of env db now db'] by (simp add: sizes_def)

lemma sizes_endCheckout: "endCheckout EXPIRED oid guard now db = Inr (n, db') \<Longrightarrow> sizes db' = sizes db"
  by (auto simp: endCheckout_def Let_def result_simps sizes_def updateRows_def endOrder_def split: if_splits)

lemma sizes_insertOrderEvent: "insertOrderEvent env oid seqn ty at d db = Inr db' \<Longrightarrow> sizes db' = sizes db"
  using insertOrderEvent_Inr [of env oid seqn ty at d db db'] by (simp add: sizes_def)

lemma sizes_expireOrder [quiet_steps]: "expireOrder env oid now db = Inr db' \<Longrightarrow> sizes db' = sizes db"
  by (auto simp: expireOrder_def result_simps dest!: sizes_endCheckout sizes_insertOrderEvent
      split: option.splits if_splits)

lemma sizes_expireOrders: "expireOrders env oids now db = Inr db' \<Longrightarrow> sizes db' = sizes db"
  by (induction oids arbitrary: db) (auto simp: result_simps dest!: sizes_expireOrder)

lemma sizes_expireDue [quiet_steps]: "expireDueOrders env now limit db = Inr db' \<Longrightarrow> sizes db' = sizes db"
  unfolding expireDueOrders_def by (rule sizes_expireOrders)

lemma sizes_replay [quiet_steps]: "replayExisting env input read missing now db = Inr (r, db') \<Longrightarrow> sizes db' = sizes db"
  unfolding replayExisting_def
  by (auto simp: result_simps dest!: sizes_expireOrder split: option.splits if_splits)

lemma sizes_assessOffset: "assessOffset env account amount now db = Inr (v, db') \<Longrightarrow> sizes db' = sizes db"
  by (auto simp: assessOffset_def result_simps dest!: sizes_expireOrder split: option.splits if_splits)

lemma sizes_allocateFrom:
  "allocateFrom env account requested offset remaining now earliest db = Inr (r, db') \<Longrightarrow> sizes db' = sizes db"
proof (induction remaining arbitrary: offset earliest db)
  case (Suc remaining)
  show ?case
  proof (cases "requested + offset > MAX_PAYABLE_AMOUNT_CENTS")
    case False
    then obtain v db1 where v: "assessOffset env account (requested + offset) now db = Inr (v, db1)"
        "(case v of SlotFree g \<Rightarrow> Inr (Allocated (requested + offset) g, db1)
          | SlotBusy t \<Rightarrow> allocateFrom env account requested (offset + 1) remaining now
                            (Some (minimumDefined earliest t)) db1) = Inr (r, db')"
      using Suc.prems by (auto simp: result_simps)
    then show ?thesis using sizes_assessOffset [OF v(1)] Suc.IH by (cases v) auto
  qed (use Suc.prems in \<open>auto simp: result_simps\<close>)
qed (auto simp: result_simps)

lemma sizes_allocateAmong [quiet_steps]:
  "allocateAmong env input profiles now retry db = Inr (r, db') \<Longrightarrow> sizes db' = sizes db"
proof (induction profiles arbitrary: retry db)
  case (Cons profile rest)
  obtain a db1 where a: "allocateAmountSlot env (profileAccountId profile) (amount_cents (inRequest input))
        (inOffsetMaximumCents input) now db = Inr (a, db1)"
      "(case a of Allocated amount gen \<Rightarrow> Inr (Inr (profile, amount, gen), db1)
        | Exhausted t \<Rightarrow> allocateAmong env input rest now (Some (minimumDefined retry t)) db1) = Inr (r, db')"
    using Cons.prems by (auto simp: result_simps)
  then show ?case
    using sizes_allocateFrom [OF a(1) [unfolded allocateAmountSlot_def]] Cons.IH by (cases a) auto
qed auto

lemma sizes_insertOrderRows:
  "insertOrderRows env input profile amount gen cooldown now db = Inr (token, db') \<Longrightarrow>
   sizes db' = (fst (sizes db) @ [False], snd (sizes db) + 1)"
  using insertOrderRows_Inr(1) by (fastforce simp: insertedAfter_def sizes_def)

text \<open>The results a creation gives before it inserts anything.\<close>

fun isCreated :: "create_stored_order_result \<Rightarrow> bool" where
  "isCreated (Created a) \<longleftrightarrow> True"
| "isCreated _ \<longleftrightarrow> False"

lemma replay_not_created:
  "replayExisting env input read missing now db = Inr (Some r, db') \<Longrightarrow> \<not> isCreated r"
  unfolding replayExisting_def
  by (auto simp: result_simps split: option.splits if_splits)

lemma createOrder_cases:
  assumes inv: "orderInv db" and res: "createOrder env input callback db = Inr (r, db')"
  obtains "\<not> isCreated r" "sizes db' = sizes db"
  | now db1 where "goodStep db db1" "sizes db1 = sizes db" "now = orderClock db1" "physicalClock env \<le> now"
      "createNew env input callback now db1 = Inr (r, db')"
proof -
  obtain now db1 db2 replay db3 where s: "logicalNow env db = Inr (now, db1)"
      "expireDueOrders env now EXPIRY_SWEEP_LIMIT db1 = Inr db2"
      "replayExisting env input (\<lambda>d. readAggregateByIdempotencyDigest env d (inApiClientId input) (inDigest input))
         ''expired idempotent order cannot be read'' now db2 = Inr (replay, db3)"
      "(case replay of Some r \<Rightarrow> Inr (r, db3)
        | None \<Rightarrow> bindR (replayExisting env input
             (\<lambda>d. readAggregateByLegacyIdempotencyKey env d (inApiClientId input) (idempotency_key (inRequest input)))
             ''expired migrated order replay cannot be read'' now db3) (\<lambda>(migrated, db4).
             case migrated of Some r \<Rightarrow> Inr (r, db4) | None \<Rightarrow> createNew env input callback now db4)) = Inr (r, db')"
    using res unfolding createOrder_def by (auto simp: result_simps)
  have g1: "goodStep db db1" "now = orderClock db1" "physicalClock env \<le> now"
    using goodStep_clock [OF inv s(1)] logicalNow_Inr(3,4) [OF s(1)] by simp_all
  have g2: "goodStep db1 db2" "now = orderClock db2"
    using goodStep_expireDue [OF goodStep_inv [OF g1(1)] g1(2) s(2)] by simp_all
  have g3: "goodStep db2 db3" "now = orderClock db3"
    using goodStep_replay [OF goodStep_inv [OF g2(1)] g2(2) s(3)] by simp_all
  have n3: "sizes db3 = sizes db"
    using sizes_logicalNow [OF s(1)] sizes_expireDue [OF s(2)] sizes_replay [OF s(3)] by simp
  show thesis
  proof (cases replay)
    case (Some x)
    then show ?thesis using that(1) s(3,4) n3 replay_not_created by fastforce
  next
    case None
    then obtain migrated db4 where m: "replayExisting env input
        (\<lambda>d. readAggregateByLegacyIdempotencyKey env d (inApiClientId input) (idempotency_key (inRequest input)))
        ''expired migrated order replay cannot be read'' now db3 = Inr (migrated, db4)"
        "(case migrated of Some r \<Rightarrow> Inr (r, db4) | None \<Rightarrow> createNew env input callback now db4) = Inr (r, db')"
      using s(4) by (auto simp: result_simps)
    have n4: "sizes db4 = sizes db" using sizes_replay [OF m(1)] n3 by simp
    have g4: "goodStep db3 db4" "now = orderClock db4"
      using goodStep_replay [OF goodStep_inv [OF g3(1)] g3(2) m(1)] by simp_all
    have g: "goodStep db db4"
      using g1(1) g2(1) g3(1) g4(1) goodStep_trans by metis
    show ?thesis
    proof (cases migrated)
      case (Some x)
      then show ?thesis using that(1) m n4 replay_not_created by fastforce
    next
      case None
      then show ?thesis using that(2) [OF g n4 g4(2) g1(3)] m(2) by simp
    qed
  qed
qed

text \<open>C5: A creation inserts exactly one order and one amount slot when it answers Created, and none when it answers
  anything else: an existing order, a conflict, a rejected URL or exhausted amounts.\<close>

theorem only_created_inserts:
  assumes inv: "orderInv db" and res: "createOrder env input callback db = Inr (r, db')"
  shows "length (paymentOrders db') = length (paymentOrders db) + (if isCreated r then 1 else 0) \<and>
         length (amountSlots db') = length (amountSlots db) + (if isCreated r then 1 else 0)"
proof (rule createOrder_cases [OF inv res])
  fix now db1
  assume n: "sizes db1 = sizes db" and new: "createNew env input callback now db1 = Inr (r, db')"
  from new show ?thesis
  proof (rule createNew_cases)
    assume "db' = db1" "\<And>a. r \<noteq> Created a"
    then show ?thesis using sizes_lengths [OF n] by (cases r) auto
  next
    fix profiles profile amount gen db2 token a
    assume a: "allocateAmong env input profiles now None db1 = Inr (Inr (profile, amount, gen), db2)"
      and i: "insertOrderRows env input profile amount gen (cooldownOf input) now db2 = Inr (token, db')"
      and r: "r = Created (order_aggregate.extend a (stored_order_aggregate.fields token))"
    show ?thesis
      using sizes_lengths [OF sizes_allocateAmong [OF a]] sizes_lengths [OF n] sizes_added [OF sizes_insertOrderRows [OF i]] r
      by simp
  next
    fix profiles t
    assume "r = AmountSlotsExhausted t" "allocateAmong env input profiles now None db1 = Inr (Inl t, db')"
    then show ?thesis using sizes_lengths [OF sizes_allocateAmong, where db = db1 and db' = db'] sizes_lengths [OF n] by simp
  qed
next
  assume r: "\<not> isCreated r" and n: "sizes db' = sizes db"
  show ?thesis using sizes_lengths [OF n] r by simp
qed

theorem only_created_inserts_witness:
  "length (paymentOrders createdDb) = 1"
  using only_created_inserts [OF orderInv_noOrders sample_createOrder] by (simp add: noOrders_def)

text \<open>What a created order is, in terms of its request and of the clock.\<close>

definition createdFor :: "order_env \<Rightarrow> create_stored_order_input \<Rightarrow> int \<Rightarrow> payment_order \<Rightarrow> bool" where
  "createdFor env input now ord \<longleftrightarrow>
     orderId ord = newOrderId env \<and> apiClientId ord = inApiClientId input \<and>
     merchantOrderNo ord = merchant_order_no (inRequest input) \<and> idempotencyKeyDigest ord = inDigest input \<and>
     requestedAmountCents ord = amount_cents (inRequest input) \<and> productName ord = product_name (inRequest input) \<and>
     orderNote ord = req_note (inRequest input) \<and> returnUrl ord = inReturnUrl input \<and>
     checkoutStatus ord = OPEN \<and> paymentStatus ord = UNPAID \<and> refundStatus ord = RefundNone \<and>
     createdAt ord = now \<and> expiresAt ord = now + inTtlMilliseconds input \<and> version ord = 1 \<and>
     amountReuseCooldownSeconds ord = cooldownOf input"

lemma new_createdFor:
  "createdFor env input now
     (newPaymentOrder env input profile amount (cooldownOf input) now (now + inTtlMilliseconds input))"
  by (simp add: createdFor_def newPaymentOrder_def)

text \<open>An order a creation finds stays as it is or, when it is open and its deadline has come, expires.\<close>

definition expiresOnly :: "payment_order \<Rightarrow> payment_order \<Rightarrow> bool" where
  "expiresOnly r r' \<longleftrightarrow>
     r' = r \<or> checkoutStatus r = OPEN \<and> (\<exists>t. r' = endOrder EXPIRED t r \<and> expiresAt r \<le> t)"

lemma evolves_expiresOnly:
  "evolves r r' \<Longrightarrow> (checkoutStatus r' = CLOSED) = (checkoutStatus r = CLOSED) \<Longrightarrow> expiresOnly r r'"
  unfolding expiresOnly_def by (drule evolves_cases) (elim disjE conjE exE; force)

lemma goodStep_expiresOnly:
  assumes g: "goodStep db db'" and n: "sizes db' = sizes db"
  shows "list_all2 expiresOnly (paymentOrders db) (paymentOrders db')"
proof -
  obtain ended extra where e: "paymentOrders db' = ended @ extra" "list_all2 evolves (paymentOrders db) ended"
    using g by (auto simp: goodStep_def advances_def)
  have "extra = []" using sizes_lengths [OF n] e list_all2_lengthD [OF e(2)] by simp
  then have all: "list_all2 evolves (paymentOrders db) (paymentOrders db')" using e by simp
  have "(checkoutStatus (paymentOrders db' ! i) = CLOSED) = (checkoutStatus (paymentOrders db ! i) = CLOSED)"
    if "i < length (paymentOrders db)" for i
  proof -
    have "map (\<lambda>r. checkoutStatus r = CLOSED) (paymentOrders db') ! i = map (\<lambda>r. checkoutStatus r = CLOSED) (paymentOrders db) ! i"
      using n by (simp add: sizes_def)
    then show ?thesis using that sizes_lengths [OF n] by simp
  qed
  then show ?thesis using all by (simp add: list_all2_conv_all_nth evolves_expiresOnly)
qed

text \<open>C6: A Created answer carries the last order of the table: an open, unpaid order of the requesting client with the
  data of the request, created now with the requested lifetime, whose payable amount is one to the maximal offset cents
  above the requested one; every order that was there before is still there, unchanged or, when its deadline has
  passed, expired.\<close>

theorem created_order_is_stored:
  assumes inv: "orderInv db" and res: "createOrder env input callback db = Inr (Created full, db')"
  shows "\<exists>earlier. paymentOrders db' = earlier @ [aggOrder full] \<and> list_all2 expiresOnly (paymentOrders db) earlier \<and>
    createdFor env input (orderClock db') (aggOrder full) \<and>
    requestedAmountCents (aggOrder full) < payableAmountCents (aggOrder full) \<and>
    payableAmountCents (aggOrder full) \<le> requestedAmountCents (aggOrder full) + inOffsetMaximumCents input"
proof (rule createOrder_cases [OF inv res])
  fix now db1
  assume g: "goodStep db db1" "sizes db1 = sizes db" "now = orderClock db1"
    and new: "createNew env input callback now db1 = Inr (Created full, db')"
  from new show ?thesis
  proof (rule createNew_cases)
    fix profiles profile amount gen db2 token a
    assume a: "allocateAmong env input profiles now None db1 = Inr (Inr (profile, amount, gen), db2)"
      and i: "insertOrderRows env input profile amount gen (cooldownOf input) now db2 = Inr (token, db')"
      and read: "readAggregateById env db' (inApiClientId input) (newOrderId env) = Inr (Some a)"
      and r: "Created full = Created (order_aggregate.extend a (stored_order_aggregate.fields token))"
    let ?ord = "newPaymentOrder env input profile amount (cooldownOf input) now (now + inTtlMilliseconds input)"
    have g2: "goodStep db db2" "orderClock db2 = now"
      using goodStep_allocateAmong [OF goodStep_inv [OF g(1)] g(3) a] goodStep_trans [OF g(1)] by simp_all
    note rows = insertOrderRows_Inr [OF i]
    have db': "paymentOrders db' = paymentOrders db2 @ [?ord]" "orderClock db' = now"
      using rows(1) g2(2) by (simp_all add: insertedAfter_def)
    have "orderInv db'" using insertOrderRows_inv [OF goodStep_inv [OF g2(1)] g2(2) [symmetric] i] by simp
    then have "aggOrder a = ?ord"
      using order_unique [OF orderInv_rows] readAggregateById_row [OF read] db'(1) by simp
    then have full: "aggOrder full = ?ord"
      using r by (simp add: order_aggregate.defs stored_order_aggregate.defs)
    have "sizes db2 = sizes db" using sizes_allocateAmong [OF a] g(2) by simp
    then have "list_all2 expiresOnly (paymentOrders db) (paymentOrders db2)" using goodStep_expiresOnly [OF g2(1)] by blast
    moreover have "requestedAmountCents ?ord < payableAmountCents ?ord \<and>
        payableAmountCents ?ord \<le> requestedAmountCents ?ord + inOffsetMaximumCents input"
      using rows(2) by (auto simp: orderInsertAllowed_def newPaymentOrder_def)
    ultimately show ?thesis using full db' new_createdFor by auto
  qed auto
qed simp

theorem created_order_is_stored_witness:
  "createdFor env1 input1 1000 order1 \<and> payableAmountCents order1 \<le> 1003"
proof -
  have "aggOrder (order_aggregate.extend createdAggregate (stored_order_aggregate.fields sampleToken)) = order1"
    by (simp add: order_aggregate.defs stored_order_aggregate.defs createdAggregate_def)
  moreover have "orderClock createdDb = 1000" "inOffsetMaximumCents input1 = 3"
    by (simp_all add: createdDb_def sampleInput_def)
  ultimately show ?thesis
    using created_order_is_stored [OF orderInv_noOrders sample_createOrder] by auto
qed

subsection \<open>Closing\<close>

lemma withCheckoutToken_order:
  "withCheckoutToken env db a = Inr full \<Longrightarrow>
   aggOrder full = aggOrder a \<and> aggCheckout full = aggCheckout a"
  by (auto simp: withCheckoutToken_def result_simps order_aggregate.defs stored_order_aggregate.defs)

lemma ended_row:
  assumes inv: "orderInv db'" and r: "r' \<in> set (paymentOrders db')" and id: "orderId r' = oid"
    and a: "readAggregateById env db' client oid = Inr (Some a)"
  shows "aggOrder a = r'"
  using order_unique [OF orderInv_rows [OF inv] _ r] readAggregateById_row [OF a] id by simp

lemma endedDb_row:
  assumes "r \<in> set (paymentOrders db)"
  shows "endOrder status now r \<in> set (paymentOrders (endedDb env status ty d r now db))"
  using mem_updateRows_image [OF assms, of "\<lambda>x. orderId x = orderId r" "endOrder status now"]
  by (simp add: endedDb_def endedRows_def)

text \<open>C8: Closing an order answers with its row after the call: an order that has ended is returned as it is, an open one
  whose deadline has come is expired, and any other open one is closed now; the clock of the call decides.\<close>

theorem closing_ends_the_order:
  assumes inv: "orderInv db" and r: "r \<in> set (paymentOrders db)" "orderId r = oid" "apiClientId r = client"
    and res: "closeOrder env client oid db = Inr (Some full, db')"
  shows "aggOrder full =
    (if checkoutStatus r \<noteq> OPEN then r
     else if expiresAt r \<le> orderClock db' then endOrder EXPIRED (orderClock db') r
     else endOrder CLOSED (orderClock db') r)"
proof -
  obtain now db1 a0 where c: "logicalNow env db = Inr (now, db1)"
      "readAggregateById env db1 client oid = Inr (Some a0)"
    using res by (auto simp: closeOrder_def result_simps split: option.splits)
  note i = goodStep_inv [OF goodStep_clock [OF inv c(1)]] logicalNow_Inr(4) [OF c(1), symmetric]
  have r1: "r \<in> set (paymentOrders db1)" using r(1) logicalNow_Inr(1) [OF c(1)] by simp
  have a0: "aggOrder a0 = r" using ended_row [OF i(1) r1 r(2) c(2)] .
  show ?thesis
  proof (cases "checkoutStatus r = OPEN")
    case False
    then have "withCheckoutToken env db1 a0 = Inr full"
      using res c a0 by (auto simp: closeOrder_def result_simps)
    then show ?thesis using withCheckoutToken_order a0 False by simp
  next
    case True
    obtain db2 a where d: "(if expiresAt r \<le> now then expireOrder env oid now db1
         else bindR (endCheckout CLOSED oid (\<lambda>r. apiClientId r = client \<and> expiresAt r > now) now db1) (\<lambda>(n, db2).
              bindR (assertChangedOnce n ''checkout close'') (\<lambda>_.
              insertOrderEvent env oid (version r + 1) CHECKOUT_CLOSED now (ReasonDetails ''api_request'') db2)))
          = Inr db2" "readAggregateById env db2 client oid = Inr (Some a)"
        "withCheckoutToken env db2 a = Inr full" "db' = db2"
      using res c a0 True by (auto simp: closeOrder_def result_simps split: option.splits)
    show ?thesis
    proof (cases "expiresAt r \<le> now")
      case due: True
      then have "dueForExpiry now r" using True by (simp add: dueForExpiry_def)
      have ex: "expireOrder env oid now db1 = Inr db2" using d(1) due by simp
      have eq: "db2 = expiredDb env r now db1"
      proof (rule expireOrder_cases [OF i ex])
        assume "\<And>ord. ord \<in> set (paymentOrders db1) \<Longrightarrow> orderId ord = oid \<Longrightarrow> \<not> dueForExpiry now ord"
        then show ?thesis using r1 r(2) \<open>dueForExpiry now r\<close> by blast
      next
        fix ord
        assume "ord \<in> set (paymentOrders db1)" "orderId ord = oid" "db2 = expiredDb env ord now db1"
        then show ?thesis using order_unique [OF orderInv_rows [OF i(1)] _ r1] r(2) by metis
      qed
      have inv2: "orderInv db2" "orderClock db2 = now"
        using expireOrder_inv [OF i ex] by auto
      have "endOrder EXPIRED now r \<in> set (paymentOrders db2)"
        using endedDb_row [OF r1] by (simp add: eq expiredDb_def)
      then have "aggOrder a = endOrder EXPIRED now r" by (rule ended_row [OF inv2(1) _ _ d(2)]) (use r(2) in simp)
      then show ?thesis using withCheckoutToken_order [OF d(3)] True due d(4) inv2(2) by simp
    next
      case False
      then have lt: "now < expiresAt r" by simp
      note close = close_open [OF i r1 True r(3) lt]
      have eq: "db2 = endedDb env CLOSED CHECKOUT_CLOSED (ReasonDetails ''api_request'') r now db1"
        using d(1) False close(1,2) r(2) by (simp add: assertChangedOnce_def)
      have inv2: "orderInv db2" "orderClock db2 = now"
        using goodStep_inv [OF close(3)] i(2) by (simp_all add: eq endedDb_def)
      have "endOrder CLOSED now r \<in> set (paymentOrders db2)"
        using endedDb_row [OF r1] by (simp add: eq)
      then have "aggOrder a = endOrder CLOSED now r" by (rule ended_row [OF inv2(1) _ _ d(2)]) (use r(2) in simp)
      then show ?thesis using withCheckoutToken_order [OF d(3)] True False d(4) inv2(2) by simp
    qed
  qed
qed

theorem closing_ends_the_order_witness:
  "\<exists>full db'. closeOrder env2 (js ''shop'') (sampleUuid ''1'') createdDb = Inr (Some full, db') \<and>
     aggOrder full = endOrder CLOSED 2000 order1"
proof -
  have row: "order1 \<in> set (paymentOrders createdDb)" "orderId order1 = sampleUuid ''1''"
    "apiClientId order1 = js ''shop''"
    by (simp_all add: createdDb_def)
  obtain full db' where c: "closeOrder env2 (js ''shop'') (sampleUuid ''1'') createdDb = Inr (Some full, db')"
      "orderClock db' = 2000"
    using sample_close by blast
  then show ?thesis
    using closing_ends_the_order [OF orderInv_createdDb row c(1)] by simp
qed

subsection \<open>The public page\<close>

lemma readAggregateByTokenDigest_row:
  assumes "readAggregateByTokenDigest env db digest = Inr (Some a)"
  shows "aggOrder a \<in> set (paymentOrders db)"
  using readAggregateWhere_row [OF assms [unfolded readAggregateByTokenDigest_def]] by simp

definition observable :: "int \<Rightarrow> 'a order_aggregate_scheme \<Rightarrow> bool" where
  "observable now a \<longleftrightarrow>
     (case endedAt (aggOrder a) of None \<Rightarrow> False
      | Some t \<Rightarrow> now - t < terminalObservationMilliseconds (aggCheckout a))"

lemma isTerminalCheckoutObservable_True:
  "isTerminalCheckoutObservable a now = Inr True \<Longrightarrow> observable now a"
  by (auto simp: isTerminalCheckoutObservable_def observable_def endedAt_def Let_def split: option.splits if_splits)

lemma observable_token: "withCheckoutToken env db a = Inr full \<Longrightarrow> observable now full \<longleftrightarrow> observable now a"
  using withCheckoutToken_order [of env db a full] by (auto simp: observable_def split: option.split)

lemma find_updateRows:
  assumes "\<And>r. p (f r) = p r"
  shows "List.find p (updateRows q f rows) = map_option (\<lambda>r. if q r then f r else r) (List.find p rows)"
  using assms by (induction rows) (auto simp: updateRows_def)

lemma endedDb_tables:
  "sessionOf db (endOrder status' t r) = sessionOf db r"
  "profileOf db (endOrder status' t r) = profileOf db r"
  "sessionOf (endedDb env status ty d ord now db) r = sessionOf db r"
  "profileOf (endedDb env status ty d ord now db) r = profileOf db r"
  by (simp_all add: sessionOf_def profileOf_def endedDb_def endedRows_def)

lemma readByDigest_expired:
  assumes "readAggregateByTokenDigest env db digest = Inr (Some a0)"
    and "readAggregateByTokenDigest env (expiredDb env ord now db) digest = Inr (Some a)"
  shows "orderId (aggOrder a) = orderId (aggOrder a0)"
proof -
  let ?p = "\<lambda>db r. (case sessionOf db r of None \<Rightarrow> False | Some c \<Rightarrow> tokenDigest c = digest) \<and> joined db r"
  let ?db = "expiredDb env ord now db"
  have p: "?p ?db r = ?p db r" "?p ?db (endOrder EXPIRED now r) = ?p db r" for r
    by (simp_all add: expiredDb_def endedDb_tables joined_def)
  obtain row where row: "List.find (?p db) (paymentOrders db) = Some row" "aggOrder a0 = row"
    using assms(1)
    by (auto simp: readAggregateByTokenDigest_def readAggregateWhere_def result_simps dest: mapAggregate_order
        split: option.splits)
  obtain row' where row': "List.find (?p ?db) (paymentOrders ?db) = Some row'" "aggOrder a = row'"
    using assms(2)
    by (auto simp: readAggregateByTokenDigest_def readAggregateWhere_def result_simps dest: mapAggregate_order
        split: option.splits)
  have "?p ?db = ?p db" using p(1) by (simp add: fun_eq_iff)
  then have "List.find (?p ?db) (paymentOrders ?db) =
      map_option (\<lambda>r. if orderId r = orderId ord then endOrder EXPIRED now r else r) (List.find (?p db) (paymentOrders db))"
    using find_updateRows [of "?p db" "endOrder EXPIRED now" "\<lambda>r. orderId r = orderId ord" "paymentOrders db"] p
    by (simp add: expiredDb_orders)
  then show ?thesis using row row' by auto
qed

lemma readPublicCheckout_current:
  assumes "readPublicCheckout env digest db = Inr (CheckoutCurrent full)"
  obtains a where "readAggregateByTokenDigest env db digest = Inr (Some a)"
    "withCheckoutToken env db a = Inr full"
    "checkoutStatus (aggOrder a) = OPEN \<longrightarrow> orderClock db < expiresAt (aggOrder a)"
    "checkoutStatus (aggOrder a) \<noteq> OPEN \<longrightarrow> isTerminalCheckoutObservable a (orderClock db) = Inr True"
proof -
  obtain found where f: "readAggregateByTokenDigest env db digest = Inr found"
    using assms by (auto simp: readPublicCheckout_def result_simps)
  then obtain a where a: "found = Some a"
    using assms by (cases found) (auto simp: readPublicCheckout_def)
  show thesis
  proof (cases "checkoutStatus (aggOrder a) = OPEN")
    case True
    then show ?thesis
      using assms f a that [of a]
      by (auto simp: readPublicCheckout_def readOrderClock_def result_simps Let_def split: if_splits)
  next
    case False
    then show ?thesis
      using assms f a that [of a]
      by (auto simp: readPublicCheckout_def readOrderClock_def result_simps Let_def split: if_splits)
  qed
qed

lemma settlePublicCheckout_shown:
  assumes "settlePublicCheckout env digest db = Inr (Some full, db')"
  obtains now db1 a0 a where "logicalNow env db = Inr (now, db1)"
    "readAggregateByTokenDigest env db1 digest = Inr (Some a0)"
    "if checkoutStatus (aggOrder a0) = OPEN \<and> expiresAt (aggOrder a0) \<le> now
     then expireOrder env (orderId (aggOrder a0)) now db1 = Inr db' \<and>
          readAggregateByTokenDigest env db' digest = Inr (Some a)
     else a = a0 \<and> db' = db1"
    "checkoutStatus (aggOrder a) \<noteq> OPEN \<longrightarrow> isTerminalCheckoutObservable a now = Inr True"
    "withCheckoutToken env db' a = Inr full"
proof -
  obtain now db1 found where c: "logicalNow env db = Inr (now, db1)"
      "readAggregateByTokenDigest env db1 digest = Inr found"
    using assms by (auto simp: settlePublicCheckout_def result_simps)
  obtain a0 where a0: "found = Some a0"
    using assms c by (cases found) (auto simp: settlePublicCheckout_def)
  obtain a db2 where d: "(if checkoutStatus (aggOrder a0) = OPEN \<and> expiresAt (aggOrder a0) \<le> now then
         bindR (expireOrder env (orderId (aggOrder a0)) now db1) (\<lambda>db.
         bindR (readAggregateByTokenDigest env db digest) (\<lambda>again.
         case again of None \<Rightarrow> Inl (Failure ''expired checkout aggregate cannot be read'')
         | Some a \<Rightarrow> Inr (a, db))) else Inr (a0, db1)) = Inr (a, db2)"
      "bindR (if checkoutStatus (aggOrder a) \<noteq> OPEN then isTerminalCheckoutObservable a now else Inr True)
         (\<lambda>observable. if \<not> observable then Inr (None, db2)
           else bindR (withCheckoutToken env db2 a) (\<lambda>full. Inr (Some full, db2))) = Inr (Some full, db')"
    using assms c a0 by (auto simp: settlePublicCheckout_def result_simps)
  have e: "db' = db2" "withCheckoutToken env db2 a = Inr full"
      "checkoutStatus (aggOrder a) \<noteq> OPEN \<longrightarrow> isTerminalCheckoutObservable a now = Inr True"
    using d(2) by (auto simp: result_simps split: if_splits)
  have f: "if checkoutStatus (aggOrder a0) = OPEN \<and> expiresAt (aggOrder a0) \<le> now
     then expireOrder env (orderId (aggOrder a0)) now db1 = Inr db2 \<and>
          readAggregateByTokenDigest env db2 digest = Inr (Some a)
     else a = a0 \<and> db2 = db1"
  proof (cases "checkoutStatus (aggOrder a0) = OPEN \<and> expiresAt (aggOrder a0) \<le> now")
    case True
    then obtain db3 again where g: "expireOrder env (orderId (aggOrder a0)) now db1 = Inr db3"
        "readAggregateByTokenDigest env db3 digest = Inr again"
        "(case again of None \<Rightarrow> Inl (Failure ''expired checkout aggregate cannot be read'')
         | Some a \<Rightarrow> Inr (a, db3)) = Inr (a, db2)"
      using d(1) by (auto simp: result_simps)
    then show ?thesis using True by (cases again) auto
  qed (use d(1) in auto)
  show thesis using that [OF c(1) c(2) [unfolded a0] f [folded e(1)] e(3) e(2) [folded e(1)]] .
qed

text \<open>C9: What the public checkout page shows is current: an order it shows as open still has time left on the persisted
  clock after the call, and one that has ended is shown only within its terminal observation interval.\<close>

theorem public_page_is_current:
  assumes inv: "orderInv db" and res: "publicCheckoutByTokenDigest env env' digest db = Inr (Some full, db')"
  shows "aggOrder full \<in> set (paymentOrders db') \<and>
    (if checkoutStatus (aggOrder full) = OPEN then orderClock db' < expiresAt (aggOrder full)
     else observable (orderClock db') full)"
proof (cases "\<exists>x. readPublicCheckout env digest db = Inr (CheckoutCurrent x)")
  case True
  then have read: "readPublicCheckout env digest db = Inr (CheckoutCurrent full)" and db': "db' = db"
    using res by (auto simp: publicCheckoutByTokenDigest_def)
  obtain a where a: "readAggregateByTokenDigest env db digest = Inr (Some a)"
      "withCheckoutToken env db a = Inr full"
      "checkoutStatus (aggOrder a) = OPEN \<longrightarrow> orderClock db < expiresAt (aggOrder a)"
      "checkoutStatus (aggOrder a) \<noteq> OPEN \<longrightarrow> isTerminalCheckoutObservable a (orderClock db) = Inr True"
    using read by (rule readPublicCheckout_current)
  then show ?thesis unfolding db'
    using withCheckoutToken_order [OF a(2)] readAggregateByTokenDigest_row [OF a(1)]
      isTerminalCheckoutObservable_True [of a "orderClock db"] observable_token [OF a(2)] by auto
next
  case False
  then have "settlePublicCheckout env' digest db = Inr (Some full, db')"
    using res unfolding publicCheckoutByTokenDigest_def bindR_Inr_iff
    by (elim exE conjE, rename_tac current, case_tac current) auto
  then obtain now db1 a0 a where c: "logicalNow env' db = Inr (now, db1)"
      "readAggregateByTokenDigest env' db1 digest = Inr (Some a0)"
      "if checkoutStatus (aggOrder a0) = OPEN \<and> expiresAt (aggOrder a0) \<le> now
       then expireOrder env' (orderId (aggOrder a0)) now db1 = Inr db' \<and>
            readAggregateByTokenDigest env' db' digest = Inr (Some a)
       else a = a0 \<and> db' = db1"
      "checkoutStatus (aggOrder a) \<noteq> OPEN \<longrightarrow> isTerminalCheckoutObservable a now = Inr True"
      "withCheckoutToken env' db' a = Inr full"
    by (rule settlePublicCheckout_shown)
  note i = goodStep_inv [OF goodStep_clock [OF inv c(1)]] logicalNow_Inr(4) [OF c(1), symmetric]
  have "aggOrder a \<in> set (paymentOrders db') \<and> orderClock db' = now \<and>
      (checkoutStatus (aggOrder a) = OPEN \<longrightarrow> now < expiresAt (aggOrder a))"
  proof (cases "checkoutStatus (aggOrder a0) = OPEN \<and> expiresAt (aggOrder a0) \<le> now")
    case True
    then have ex: "expireOrder env' (orderId (aggOrder a0)) now db1 = Inr db'"
      and again: "readAggregateByTokenDigest env' db' digest = Inr (Some a)"
      using c(3) by simp_all
    have due: "aggOrder a0 \<in> set (paymentOrders db1)" "dueForExpiry now (aggOrder a0)"
      using readAggregateByTokenDigest_row [OF c(2)] True by (simp_all add: dueForExpiry_def)
    have eq: "db' = expiredDb env' (aggOrder a0) now db1"
    proof (rule expireOrder_cases [OF i ex])
      assume "\<And>ord. ord \<in> set (paymentOrders db1) \<Longrightarrow> orderId ord = orderId (aggOrder a0) \<Longrightarrow> \<not> dueForExpiry now ord"
      then show ?thesis using due by blast
    next
      fix ord
      assume "ord \<in> set (paymentOrders db1)" "orderId ord = orderId (aggOrder a0)" "db' = expiredDb env' ord now db1"
      then show ?thesis using order_unique [OF orderInv_rows [OF i(1)] _ due(1)] by metis
    qed
    note inv' = expireOrder_inv [OF i ex]
    have m: "aggOrder a \<in> set (paymentOrders db')" using readAggregateByTokenDigest_row [OF again] .
    have "orderId (aggOrder a) = orderId (aggOrder a0)"
      using readByDigest_expired [OF c(2)] again eq by simp
    moreover have "endOrder EXPIRED now (aggOrder a0) \<in> set (paymentOrders db')"
      using endedDb_row [OF due(1)] by (simp add: eq expiredDb_def)
    ultimately have "aggOrder a = endOrder EXPIRED now (aggOrder a0)"
      using order_unique [OF orderInv_rows [OF inv'(1)] m] by simp
    then show ?thesis using m inv'(2) by simp
  next
    case False
    then show ?thesis using c(3) readAggregateByTokenDigest_row [OF c(2)] i(2) by auto
  qed
  then show ?thesis
    using withCheckoutToken_order [OF c(5)] c(4) isTerminalCheckoutObservable_True [of a now]
      observable_token [OF c(5)] by auto
qed

theorem public_page_is_current_witness:
  "\<exists>full. publicCheckoutByTokenDigest env2 env2 (replicate 64 CHR ''0'') createdDb = Inr (Some full, createdDb) \<and>
     aggOrder full = order1 \<and> orderClock createdDb < expiresAt order1"
proof -
  let ?full = "order_aggregate.extend (aggregateOf order1) (stored_order_aggregate.fields sampleToken)"
  have r: "readAggregateByTokenDigest env2 createdDb (replicate 64 CHR ''0'') = Inr (Some (aggregateOf order1))"
    by (rule sample_read(2) [where t = 0 and status = CLOSED])
      (simp_all add: createdDb_def sampleDb_def session1_def isSafeInteger_def maxSafeInteger_def)
  have t: "withCheckoutToken env2 createdDb (aggregateOf order1) = Inr ?full"
    by (rule sample_token_of) (simp add: createdDb_def)
  have c: "readPhysicalTime env2 = Inr 2000" "readOrderClock createdDb = Inr 1000" "assertOrderClockIsUsable 1000 2000 = Inr ()"
    by (simp_all add: readPhysicalTime_def readOrderClock_def assertOrderClockIsUsable_def createdDb_def sampleEnv_def
        isSafeInteger_def maxSafeInteger_def MAX_ORDER_CLOCK_AHEAD_MILLISECONDS_def)
  have full: "aggOrder ?full = order1"
    by (simp add: aggregateOf_def order_aggregate.defs stored_order_aggregate.defs)
  have "publicCheckoutByTokenDigest env2 env2 (replicate 64 CHR ''0'') createdDb = Inr (Some ?full, createdDb)"
    using r t c by (simp add: publicCheckoutByTokenDigest_def readPublicCheckout_def aggregateOf_def)
  then show ?thesis using public_page_is_current [OF orderInv_createdDb] full by fastforce
qed

end
