(* ===== verification/OrderReplay.thy ===== *)
theory OrderReplay
  imports OrderResults
begin

text \<open>
  Repeated creations.  A merchant names a request by its idempotency key; the store keeps a digest of
  the key, which a client migrated from an older version computed under a former namespace.  Here is
  that a key that has an order, under whichever digest, never gets another one.
\<close>

subsection \<open>What the lookups of a key read\<close>

text \<open>The columns a lookup reads, and the tables it joins.\<close>

definition keyRows ::
  "order_db \<Rightarrow> (string \<times> jstr \<times> string \<times> string) list \<times> (jstr \<times> jstr) list \<times> checkout_session list \<times> collection_profile list"
where
  "keyRows db =
     (map (\<lambda>r. (orderId r, apiClientId r, idempotencyKeyDigest r, collectionProfileId r)) (paymentOrders db),
      idempotencyNamespaces db, checkoutSessions db, collectionProfiles db)"

definition keyHeld :: "jstr \<Rightarrow> string \<Rightarrow> order_db \<Rightarrow> bool" where
  "keyHeld client digest db \<longleftrightarrow>
     (\<exists>r \<in> set (paymentOrders db). apiClientId r = client \<and> idempotencyKeyDigest r = digest \<and> joined db r)"

lemma keyRows_clock: "logicalNow env db = Inr (now, db') \<Longrightarrow> keyRows db' = keyRows db"
  using logicalNow_Inr(1) [of env db now db'] by (simp add: keyRows_def)

lemma keyRows_endCheckout: "endCheckout status oid guard now db = Inr (n, db') \<Longrightarrow> keyRows db' = keyRows db"
  by (auto simp: endCheckout_def Let_def result_simps keyRows_def updateRows_def endOrder_def split: if_splits)

lemma keyRows_event: "insertOrderEvent env oid seqn ty at d db = Inr db' \<Longrightarrow> keyRows db' = keyRows db"
  by (auto simp: insertOrderEvent_def Let_def result_simps keyRows_def split: option.splits)

lemma keyRows_expireOrder: "expireOrder env oid now db = Inr db' \<Longrightarrow> keyRows db' = keyRows db"
  by (auto simp: expireOrder_def result_simps dest!: keyRows_endCheckout keyRows_event split: option.splits if_splits)

lemma keyRows_expireOrders: "expireOrders env oids now db = Inr db' \<Longrightarrow> keyRows db' = keyRows db"
  by (induction oids arbitrary: db) (auto simp: result_simps dest!: keyRows_expireOrder)

lemma keyHeld_rows:
  assumes "keyRows db' = keyRows db"
  shows "keyHeld client digest db' = keyHeld client digest db"
proof -
  have "keyHeld client digest d \<longleftrightarrow>
      (\<exists>(oid, c, dg, pid) \<in> set (fst (keyRows d)). c = client \<and> dg = digest \<and>
         List.find (\<lambda>s. checkoutOrderId s = oid) (fst (snd (snd (keyRows d)))) \<noteq> None \<and>
         List.find (\<lambda>p. profileId p = pid) (snd (snd (snd (keyRows d)))) \<noteq> None)" for d
    by (auto simp: keyHeld_def keyRows_def joined_def sessionOf_def profileOf_def)
  then show ?thesis using assms by simp
qed

lemma read_key:
  "readAggregateByIdempotencyDigest env db client digest = Inr None \<Longrightarrow> \<not> keyHeld client digest db"
  by (auto simp: readAggregateByIdempotencyDigest_def readAggregateWhere_def keyHeld_def result_simps find_None_iff
      split: option.splits)

lemma read_namespaces:
  "readInNamespaces env db client key spaces = Inr None \<Longrightarrow> ns \<in> set spaces \<Longrightarrow>
   \<not> keyHeld client (digestIdempotencyKey (sha256 env) ns key) db"
  by (induction spaces) (auto simp: result_simps dest: read_key split: option.splits)

lemma read_legacy:
  assumes "readAggregateByLegacyIdempotencyKey env db client key = Inr None" "(client, ns) \<in> set (idempotencyNamespaces db)"
  shows "\<not> keyHeld client (digestIdempotencyKey (sha256 env) ns key) db"
  using assms by (intro read_namespaces) (auto simp: readAggregateByLegacyIdempotencyKey_def image_iff)

text \<open>The digests a key may be stored under.\<close>

definition keyDigests :: "(nat list \<Rightarrow> string) \<Rightarrow> jstr \<Rightarrow> jstr \<Rightarrow> order_db \<Rightarrow> string list" where
  "keyDigests sha client key db =
     map (\<lambda>ns. digestIdempotencyKey sha ns key)
       (client # map snd (filter (\<lambda>(c, _). c = client) (idempotencyNamespaces db)))"

lemma read_digest_row:
  assumes "readAggregateByIdempotencyDigest env db client digest = Inr (Some a)"
  shows "aggOrder a \<in> set (paymentOrders db)" "apiClientId (aggOrder a) = client" "idempotencyKeyDigest (aggOrder a) = digest"
  using readAggregateWhere_row [OF assms [unfolded readAggregateByIdempotencyDigest_def]] by simp_all

lemma read_namespaces_row:
  "readInNamespaces env db client key spaces = Inr (Some a) \<Longrightarrow>
   aggOrder a \<in> set (paymentOrders db) \<and> apiClientId (aggOrder a) = client \<and>
   (\<exists>ns \<in> set spaces. idempotencyKeyDigest (aggOrder a) = digestIdempotencyKey (sha256 env) ns key)"
  by (induction spaces) (auto simp: result_simps dest: read_digest_row split: option.splits)

lemma read_legacy_row:
  assumes "readAggregateByLegacyIdempotencyKey env db client key = Inr (Some a)"
  shows "aggOrder a \<in> set (paymentOrders db)" "apiClientId (aggOrder a) = client"
    "idempotencyKeyDigest (aggOrder a) \<in> set (keyDigests (sha256 env) client key db)"
  using read_namespaces_row [OF assms [unfolded readAggregateByLegacyIdempotencyKey_def]]
  by (auto simp: keyDigests_def image_iff)

subsection \<open>What a replay answers\<close>

fun answersWith :: "create_stored_order_result \<Rightarrow> payment_order \<Rightarrow> bool" where
  "answersWith (Existing a) r \<longleftrightarrow> aggOrder a = r"
| "answersWith (IdempotencyConflict oid) r \<longleftrightarrow> oid = orderId r"
| "answersWith _ r \<longleftrightarrow> False"

lemma replay_none:
  assumes "replayExisting env input read missing now db = Inr (None, db')"
  shows "read db = Inr None \<and> db' = db"
proof -
  obtain found where found: "read db = Inr found"
    using assms unfolding replayExisting_def by (auto simp: result_simps)
  show ?thesis
  proof (cases found)
    case None
    then show ?thesis using assms found by (simp add: replayExisting_def)
  next
    case (Some a0)
    then show ?thesis
      using assms found unfolding replayExisting_def by (auto simp: result_simps split: option.splits if_splits)
  qed
qed

lemma replay_some:
  assumes "replayExisting env input read missing now db = Inr (Some answer, db')"
  obtains a where "read db' = Inr (Some a)" "answersWith answer (aggOrder a)" "keyRows db' = keyRows db"
proof -
  obtain a0 where a0: "read db = Inr (Some a0)"
    using assms unfolding replayExisting_def by (auto simp: result_simps split: option.splits)
  obtain a where a: "read db' = Inr (Some a)" "keyRows db' = keyRows db"
      "(if sameRequest env db' input a then bindR (withCheckoutToken env db' a) (\<lambda>full. Inr (Some (Existing full), db'))
        else Inr (Some (IdempotencyConflict (orderId (aggOrder a))), db')) = Inr (Some answer, db')"
    using assms a0 unfolding replayExisting_def
    by (auto simp: result_simps dest: keyRows_expireOrder split: option.splits if_splits)
  then have "answersWith answer (aggOrder a)"
    by (auto simp: result_simps dest: withCheckoutToken_order split: if_splits)
  then show thesis using that a by blast
qed

subsection \<open>A used key\<close>

lemma keyRows_orders:
  "keyRows db' = keyRows db \<Longrightarrow> length (paymentOrders db') = length (paymentOrders db)"
  by (auto simp: keyRows_def dest: map_eq_imp_length_eq)

lemma keyDigests_rows: "keyRows db' = keyRows db \<Longrightarrow> keyDigests sha client key db' = keyDigests sha client key db"
  by (simp add: keyDigests_def keyRows_def)

lemma used_key_answer:
  assumes held: "keyHeld (inApiClientId input) digest db"
      "digest \<in> set (keyDigests (sha256 env) (inApiClientId input) (idempotency_key (inRequest input)) db)"
    and current: "inDigest input = digestIdempotencyKey (sha256 env) (inApiClientId input) (idempotency_key (inRequest input))"
    and res: "createOrder env input callback db = Inr (answer, db')"
  shows "length (paymentOrders db') = length (paymentOrders db) \<and>
    (\<exists>r \<in> set (paymentOrders db'). apiClientId r = inApiClientId input \<and> answersWith answer r \<and>
       idempotencyKeyDigest r \<in> set (keyDigests (sha256 env) (inApiClientId input) (idempotency_key (inRequest input)) db))"
proof -
  let ?client = "inApiClientId input" and ?key = "idempotency_key (inRequest input)"
  let ?current = "\<lambda>d. readAggregateByIdempotencyDigest env d ?client (inDigest input)"
  let ?legacy = "\<lambda>d. readAggregateByLegacyIdempotencyKey env d ?client ?key"
  obtain now db1 db2 replay db3 where s: "logicalNow env db = Inr (now, db1)"
      "expireDueOrders env now EXPIRY_SWEEP_LIMIT db1 = Inr db2"
      "replayExisting env input ?current ''expired idempotent order cannot be read'' now db2 = Inr (replay, db3)"
      "(case replay of Some r \<Rightarrow> Inr (r, db3)
        | None \<Rightarrow> bindR (replayExisting env input ?legacy ''expired migrated order replay cannot be read'' now db3)
            (\<lambda>(migrated, db4).
             case migrated of Some r \<Rightarrow> Inr (r, db4) | None \<Rightarrow> createNew env input callback now db4)) = Inr (answer, db')"
    using res unfolding createOrder_def by (auto simp: result_simps)
  have k2: "keyRows db2 = keyRows db"
    using keyRows_clock [OF s(1)] keyRows_expireOrders [OF s(2) [unfolded expireDueOrders_def]] by simp
  show ?thesis
  proof (cases replay)
    case (Some r)
    then obtain a where a: "?current db3 = Inr (Some a)" "answersWith r (aggOrder a)" "keyRows db3 = keyRows db2"
      using replay_some s(3) by metis
    then show ?thesis
      using Some s(4) k2 read_digest_row [OF a(1)] keyRows_orders [of db3 db] current by (auto simp: keyDigests_def)
  next
    case None
    then have n: "?current db2 = Inr None" "db3 = db2" using replay_none s(3) by blast+
    obtain migrated db4 where m: "replayExisting env input ?legacy ''expired migrated order replay cannot be read'' now db2 =
          Inr (migrated, db4)"
        "(case migrated of Some r \<Rightarrow> Inr (r, db4) | None \<Rightarrow> createNew env input callback now db4) = Inr (answer, db')"
      using s(4) None n(2) by (auto simp: result_simps)
    show ?thesis
    proof (cases migrated)
      case (Some r)
      then obtain a where a: "?legacy db4 = Inr (Some a)" "answersWith r (aggOrder a)" "keyRows db4 = keyRows db2"
        using replay_some m(1) by metis
      then show ?thesis
        using Some m(2) k2 read_legacy_row [OF a(1)] keyRows_orders [of db4 db] keyDigests_rows [of db4 db] by auto
    next
      case None
      then have l: "?legacy db2 = Inr None" using replay_none m(1) by blast
      have "\<not> keyHeld ?client (digestIdempotencyKey (sha256 env) ns ?key) db2"
        if "ns = ?client \<or> (?client, ns) \<in> set (idempotencyNamespaces db2)" for ns
        using that read_key [OF n(1)] read_legacy [OF l] current by auto
      moreover have "idempotencyNamespaces db2 = idempotencyNamespaces db" using k2 by (simp add: keyRows_def)
      ultimately show ?thesis using held keyHeld_rows [OF k2] by (auto simp: keyDigests_def)
    qed
  qed
qed

text \<open>C11: An idempotency key that has an order never gets another one.  When an order of the client is stored under a
  digest of the key, computed for the client or for one of its former namespaces, a creation with that key either fails
  or answers with an order of the client stored under a digest of that key, as the existing one or as a conflict,
  and the store holds no more orders than before.\<close>

theorem used_key_is_never_ordered_again:
  assumes "r \<in> set (paymentOrders db)" "joined db r" "apiClientId r = inApiClientId input"
    "idempotencyKeyDigest r \<in> set (keyDigests (sha256 env) (inApiClientId input) (idempotency_key (inRequest input)) db)"
    "inDigest input = digestIdempotencyKey (sha256 env) (inApiClientId input) (idempotency_key (inRequest input))"
  shows "case createOrder env input callback db of
      Inl failure \<Rightarrow> True
    | Inr (answer, db') \<Rightarrow> length (paymentOrders db') = length (paymentOrders db) \<and>
        (\<exists>r' \<in> set (paymentOrders db'). apiClientId r' = inApiClientId input \<and> answersWith answer r' \<and>
           idempotencyKeyDigest r' \<in>
             set (keyDigests (sha256 env) (inApiClientId input) (idempotency_key (inRequest input)) db))"
proof -
  have "keyHeld (inApiClientId input) (idempotencyKeyDigest r) db" using assms(1-3) by (auto simp: keyHeld_def)
  then show ?thesis using used_key_answer [OF _ assms(4,5)] by (auto split: sum.split)
qed

text \<open>A migrated shop: its order is stored under the digest of the namespace \<open>''old''\<close>, and the same key comes again.\<close>

definition migratedEnv :: order_env where
  "migratedEnv = env1\<lparr>sha256 := (\<lambda>bytes. if bytes = idempotencyPreimage (js ''old'') (js ''1'') then sampleDigest ''1''
     else replicate 64 CHR ''0'')\<rparr>"

definition migratedDb :: order_db where
  "migratedDb = createdDb\<lparr>idempotencyNamespaces := [(js ''shop'', js ''old'')]\<rparr>"

definition repeatedInput :: create_stored_order_input where
  "repeatedInput = input1\<lparr>inDigest := replicate 64 CHR ''0'', inRequestFingerprint := sampleDigest ''2''\<rparr>"

lemma repeated_digests:
  "digestIdempotencyKey (sha256 migratedEnv) (js ''shop'') (js ''1'') = replicate 64 CHR ''0''"
  "digestIdempotencyKey (sha256 migratedEnv) (js ''old'') (js ''1'') = sampleDigest ''1''"
proof -
  have "idempotencyPreimage (js ''shop'') (js ''1'') \<noteq> idempotencyPreimage (js ''old'') (js ''1'')"
    by (simp add: idempotencyPreimage_def utf8_js)
  then show "digestIdempotencyKey (sha256 migratedEnv) (js ''shop'') (js ''1'') = replicate 64 CHR ''0''"
    "digestIdempotencyKey (sha256 migratedEnv) (js ''old'') (js ''1'') = sampleDigest ''1''"
    by (simp_all add: digestIdempotencyKey_def migratedEnv_def)
qed

lemma repeated_fields:
  "inApiClientId repeatedInput = js ''shop''" "idempotency_key (inRequest repeatedInput) = js ''1''"
  "inDigest repeatedInput = replicate 64 CHR ''0''" "inRequestFingerprint repeatedInput = sampleDigest ''2''"
  by (simp_all add: repeatedInput_def sampleInput_def sampleRequest_def)

lemma migrated_row:
  "paymentOrders migratedDb = [order1]" "joined migratedDb order1" "idempotencyNamespaces migratedDb = [(js ''shop'', js ''old'')]"
  "orderClock migratedDb = 1000" "checkoutSessions migratedDb = [session1]" "collectionProfiles migratedDb = [sampleProfile]"
  by (simp_all add: migratedDb_def createdDb_def joined_def sessionOf_def profileOf_def session1_def)
     (simp_all add: sampleDb_def sampleProfile_def)

lemma migrated_map: "mapAggregate migratedEnv migratedDb order1 session1 sampleProfile = Inr (aggregateOf order1)"
proof -
  have n: "fingerprintOrderNote (sha256 migratedEnv) None = replicate 64 CHR ''0''"
      "fingerprintOrderReturnUrl (sha256 migratedEnv) None = replicate 64 CHR ''0''"
    by (simp_all add: fingerprintOrderNote_def fingerprintOrderReturnUrl_def migratedEnv_def idempotencyPreimage_def utf8_js)
  have m: "webhookTargets migratedDb = []" "profileProviderLinks migratedDb = []"
    by (simp_all add: migratedDb_def createdDb_def sampleDb_def)
  show ?thesis
    using n m
    by (auto simp: mapAggregate_def aggregateOf_def mapWebhookTarget_def targetOf_def profileProviderKey_def session1_def
        isSafeInteger_def maxSafeInteger_def fingerprintOrderNote_def fingerprintOrderReturnUrl_def sample_defs nullable_def)
qed

lemma repeated_reads:
  "readAggregateByIdempotencyDigest migratedEnv migratedDb (js ''shop'') (replicate 64 CHR ''0'') = Inr None"
  "readAggregateByLegacyIdempotencyKey migratedEnv migratedDb (js ''shop'') (js ''1'') = Inr (Some (aggregateOf order1))"
proof -
  have o: "apiClientId order1 = js ''shop''" "idempotencyKeyDigest order1 = sampleDigest ''1''" by simp_all
  have d: "sampleDigest ''1'' \<noteq> replicate 64 CHR ''0''"
    by (simp add: sampleDigest_def numeral_eq_Suc)
  have s: "sessionOf migratedDb order1 = Some session1" "profileOf migratedDb order1 = Some sampleProfile"
    using migrated_row(5,6) by (simp_all add: sessionOf_def profileOf_def session1_def sampleProfile_def)
  show "readAggregateByIdempotencyDigest migratedEnv migratedDb (js ''shop'') (replicate 64 CHR ''0'') = Inr None"
    using o d by (simp add: readAggregateByIdempotencyDigest_def readAggregateWhere_def migrated_row(1))
  have "readAggregateByIdempotencyDigest migratedEnv migratedDb (js ''shop'') (sampleDigest ''1'') = Inr (Some (aggregateOf order1))"
    using o s migrated_map by (simp add: readAggregateByIdempotencyDigest_def readAggregateWhere_def migrated_row(1,2))
  then show "readAggregateByLegacyIdempotencyKey migratedEnv migratedDb (js ''shop'') (js ''1'') = Inr (Some (aggregateOf order1))"
    by (simp add: readAggregateByLegacyIdempotencyKey_def migrated_row(3) repeated_digests(2))
qed

lemma repeated_create:
  "createOrder migratedEnv repeatedInput None migratedDb = Inr (IdempotencyConflict (orderId order1), migratedDb)"
proof -
  have v: "validateCreateInput migratedEnv repeatedInput = Inr ()"
    by (simp add: validateCreateInput_def validateWebhookTargetInput_def validateReturnUrlInput_def repeatedInput_def
        migratedEnv_def sample_defs cooldownOf_def MIN_AMOUNT_REUSE_COOLDOWN_SECONDS_def
        MAX_AMOUNT_REUSE_COOLDOWN_SECONDS_def isSafeInteger_def maxSafeInteger_def assertPositiveSafeInteger_def)
  have "physicalClock migratedEnv = 1000" "expectedPhysicalMicros migratedEnv = expectedPhysicalMicros env1"
    "migratedDb\<lparr>orderClock := 1000\<rparr> = migratedDb"
    using migrated_row(4) by (simp_all add: migratedEnv_def sampleEnv_def)
  then have n: "logicalNow migratedEnv migratedDb = Inr (1000, migratedDb)"
    using migrated_row(4)
    by (simp add: logicalNow_def readPhysicalTime_def readOrderClock_def assertOrderClockIsUsable_def isSafeInteger_def
        maxSafeInteger_def MAX_ORDER_CLOCK_AHEAD_MILLISECONDS_def sampleEnv_def)
  have e: "expireDueOrders migratedEnv 1000 EXPIRY_SWEEP_LIMIT migratedDb = Inr migratedDb"
    by (simp add: expireDueOrders_def dueOrders_def migrated_row(1))
  have "requestFingerprint order1 \<noteq> inRequestFingerprint repeatedInput"
    by (simp add: repeated_fields sampleOrder_def newPaymentOrder_def sampleInput_def)
  then have "\<not> sameRequest migratedEnv migratedDb repeatedInput (aggregateOf order1)"
    by (simp add: sameRequest_def aggregateOf_def)
  then show ?thesis
    using v n e repeated_reads
    by (simp add: createOrder_def replayExisting_def repeated_fields aggregateOf_def)
qed

theorem used_key_is_never_ordered_again_witness:
  "createOrder migratedEnv repeatedInput None migratedDb = Inr (IdempotencyConflict (orderId order1), migratedDb) \<and>
   (\<exists>r' \<in> set (paymentOrders migratedDb). apiClientId r' = js ''shop'' \<and> orderId order1 = orderId r' \<and>
      idempotencyKeyDigest r' \<in> set (keyDigests (sha256 migratedEnv) (js ''shop'') (js ''1'') migratedDb))"
proof -
  have d: "idempotencyKeyDigest order1 \<in> set (keyDigests (sha256 migratedEnv) (js ''shop'') (js ''1'') migratedDb)"
    by (simp add: keyDigests_def migrated_row(3) repeated_digests)
  show ?thesis
    using used_key_is_never_ordered_again [where r = order1 and db = migratedDb and env = migratedEnv and
        input = repeatedInput and callback = None] d
    by (simp add: repeated_create repeated_fields repeated_digests migrated_row(1,2))
qed

end
