(* ===== verification/JsNumber.thy ===== *)
theory JsNumber
  imports Complex_Main "HOL-Library.Log_Nat"
begin

text \<open>
  The arithmetic of JavaScript's numbers on the few fractional values the program computes: a
  binary64 operation returns the exact result rounded to 53 significant bits, ties to even
  (overflow and subnormal numbers do not occur in the ranges used).  The lemma is the relative
  error of one rounding.
\<close>

definition roundEven :: "rat \<Rightarrow> int" where
  "roundEven y =
     (let f = \<lfloor>y\<rfloor>; d = y - of_int f
      in if d < 1 / 2 then f else if 1 / 2 < d then f + 1 else if even f then f else f + 1)"

text \<open>The exponent \<open>e\<close> with \<open>2 ^ 52 \<le> x / 2 ^ e < 2 ^ 53\<close> for a positive \<open>x\<close>.\<close>

definition ulpExponent :: "rat \<Rightarrow> int" where
  "ulpExponent x =
     (case quotient_of x of (p, q) \<Rightarrow>
        let k = bitlen p - bitlen q in (if x < 2 powi k then k - 1 else k) - 52)"

definition double :: "rat \<Rightarrow> rat" where
  "double x =
     (if x \<le> 0 then 0 else of_int (roundEven (x / 2 powi ulpExponent x)) * 2 powi ulpExponent x)"

lemma roundEven_error: "\<bar>of_int (roundEven y) - y\<bar> \<le> 1 / 2"
proof -
  have "of_int \<lfloor>y\<rfloor> \<le> y" "y < of_int \<lfloor>y\<rfloor> + 1" by linarith+
  then show ?thesis by (auto simp: roundEven_def Let_def abs_le_iff)
qed

lemma powi_bitlen_bounds:
  assumes "0 < (n :: int)"
  shows "2 powi (bitlen n - 1) \<le> (of_int n :: rat)" "(of_int n :: rat) < 2 powi bitlen n"
proof -
  have b: "2 ^ nat (bitlen n - 1) \<le> n" "n < 2 ^ nat (bitlen n)"
    using bitlen_bounds [OF assms] by auto
  have pos: "1 \<le> bitlen n" using bitlen_ge_iff_power [of 1 n] assms by simp
  have e: "2 powi k = (of_int (2 ^ nat k) :: rat)" if "0 \<le> k" for k :: int
    using that by (simp add: power_int_def)
  show "2 powi (bitlen n - 1) \<le> (of_int n :: rat)"
    using b(1) pos by (simp add: e del: of_int_power)
  show "(of_int n :: rat) < 2 powi bitlen n"
    using b(2) pos by (simp add: e del: of_int_power)
qed

lemma ulpExponent_le:
  assumes "0 < x"
  shows "2 powi (ulpExponent x + 52) \<le> x"
proof -
  obtain p q where pq: "quotient_of x = (p, q)" by (cases "quotient_of x")
  have q: "0 < q" and x: "x = of_int p / of_int q"
    using quotient_of_denom_pos [OF pq] quotient_of_div [OF pq] by auto
  have p: "0 < p" using assms x q by (simp add: zero_less_divide_iff)
  let ?k = "bitlen p - bitlen q"
  have "2 powi (?k - 1) \<le> x"
  proof -
    have "(2 :: rat) powi (?k - 1) * 2 powi bitlen q = 2 powi (bitlen p - 1)"
      by (simp add: power_int_add [symmetric])
    moreover have "(2 :: rat) powi (?k - 1) * of_int q \<le> 2 powi (?k - 1) * 2 powi bitlen q"
      using powi_bitlen_bounds(2) [OF q] by simp
    ultimately have "2 powi (?k - 1) * of_int q \<le> (of_int p :: rat)"
      using powi_bitlen_bounds(1) [OF p] by simp
    then show ?thesis using q x by (simp add: pos_le_divide_eq)
  qed
  then show ?thesis using pq by (simp add: ulpExponent_def Let_def)
qed

text \<open>One rounding moves a value by at most one part in \<open>2 ^ 53\<close>.\<close>

lemma double_error: "0 \<le> x \<Longrightarrow> \<bar>double x - x\<bar> \<le> x / 2 ^ 53"
proof (cases "x = 0")
  case True
  then show ?thesis by (simp add: double_def)
next
  case False
  assume "0 \<le> x"
  then have x: "0 < x" using False by simp
  let ?u = "2 powi ulpExponent x :: rat"
  have u: "0 < ?u" by simp
  have big: "?u * 2 ^ 52 \<le> x"
    using ulpExponent_le [OF x] by (simp add: power_int_add)
  have "double x - x = (of_int (roundEven (x / ?u)) - x / ?u) * ?u"
    using x u by (simp add: double_def algebra_simps)
  then have "\<bar>double x - x\<bar> = \<bar>of_int (roundEven (x / ?u)) - x / ?u\<bar> * ?u"
    using u by (simp add: abs_mult)
  also have "\<dots> \<le> 1 / 2 * ?u"
    using roundEven_error u by (intro mult_right_mono) auto
  also have "\<dots> \<le> x / 2 ^ 53" using big by simp
  finally show ?thesis .
qed

lemma double_bounds:
  assumes "0 \<le> x"
  shows "x - x / 2 ^ 53 \<le> double x" "double x \<le> x + x / 2 ^ 53"
  using double_error [OF assms] unfolding abs_le_iff by linarith+

lemma double_nonneg: "0 \<le> x \<Longrightarrow> 0 \<le> double x"
proof -
  assume x: "0 \<le> x"
  then have "x / 2 ^ 53 \<le> x" by (simp add: field_simps)
  then show ?thesis using double_bounds(1) [OF x] by linarith
qed

end
