(* ===== verification/JsDecode.thy ===== *)
theory JsDecode
  imports UrlTargets
begin

text \<open>
  Decoding text: UTF-8 as \<^verbatim>\<open>isUtf8\<close>, \<^verbatim>\<open>Buffer.toString("utf8")\<close> and a fatal \<^verbatim>\<open>TextDecoder\<close> accept
  it (no overlong form, no surrogate, nothing above U+10FFFF), and \<^verbatim>\<open>decodeURIComponent\<close>.  The
  lemma: decoding the encoding of a string of scalar values gives the string back.
\<close>

subsection \<open>UTF-8\<close>

definition isTail :: "nat \<Rightarrow> bool" where
  "isTail b \<longleftrightarrow> 0x80 \<le> b \<and> b < 0xC0"

text \<open>The number of bytes a leading byte announces, 0 for a byte that cannot lead.\<close>

definition utf8Length :: "nat \<Rightarrow> nat" where
  "utf8Length a =
     (if a < 0x80 then 1 else if 0xC2 \<le> a \<and> a < 0xE0 then 2
      else if 0xE0 \<le> a \<and> a < 0xF0 then 3 else if 0xF0 \<le> a \<and> a < 0xF5 then 4 else 0)"

definition utf8Value :: "nat list \<Rightarrow> nat option" where
  "utf8Value bytes =
     (case bytes of
        [a] \<Rightarrow> if a < 0x80 then Some a else None
      | [a, b] \<Rightarrow> if utf8Length a = 2 \<and> isTail b then Some ((a - 0xC0) * 64 + (b - 0x80)) else None
      | [a, b, c] \<Rightarrow>
          (let cp = (a - 0xE0) * 4096 + (b - 0x80) * 64 + (c - 0x80)
           in if utf8Length a = 3 \<and> isTail b \<and> isTail c \<and> 0x800 \<le> cp \<and> \<not> isSurrogatePoint cp
              then Some cp else None)
      | [a, b, c, d] \<Rightarrow>
          (let cp = (a - 0xF0) * 262144 + (b - 0x80) * 4096 + (c - 0x80) * 64 + (d - 0x80)
           in if utf8Length a = 4 \<and> isTail b \<and> isTail c \<and> isTail d \<and> 0x10000 \<le> cp \<and> cp < 0x110000
              then Some cp else None)
      | _ \<Rightarrow> None)"

function utf8Decode :: "nat list \<Rightarrow> jstr option" where
  "utf8Decode [] = Some []"
| "utf8Decode (a # bs) =
     (if utf8Length a = 0 then None
      else case utf8Value (take (utf8Length a) (a # bs)) of
             None \<Rightarrow> None
           | Some cp \<Rightarrow> map_option ((@) (unitsOfPoint cp)) (utf8Decode (drop (utf8Length a - 1) bs)))"
  by pat_completeness auto
termination by (relation "measure length") (auto simp: less_Suc_eq_le)

definition isUtf8 :: "nat list \<Rightarrow> bool" where
  "isUtf8 bytes \<longleftrightarrow> utf8Decode bytes \<noteq> None"

lemma utf8Point_value:
  assumes "cp < 0x110000" "\<not> isSurrogatePoint cp"
  shows "\<exists>a bs. utf8Point cp = a # bs \<and> utf8Length a = Suc (length bs) \<and> utf8Value (a # bs) = Some cp"
proof -
  consider "cp < 0x80" | "\<not> cp < 0x80" "cp < 0x800" | "\<not> cp < 0x800" "cp < 0x10000"
    | "\<not> cp < 0x10000"
    by linarith
  then show ?thesis
  proof cases
    case 2
    then have "2 \<le> cp div 64" "cp div 64 < 32" by auto
    with 2 split_64 [of cp] show ?thesis
      by (simp add: utf8Point_def utf8Length_def utf8Value_def isTail_def)
  next
    case 3
    then have "cp div 4096 < 16" by simp
    with 3 assms split_4096 [of cp] show ?thesis
      by (simp add: utf8Point_def utf8Length_def utf8Value_def isTail_def Let_def)
  next
    case 4
    then have "cp div 262144 < 5" using assms(1) by auto
    with 4 assms split_262144 [of cp] show ?thesis
      by (simp add: utf8Point_def utf8Length_def utf8Value_def isTail_def Let_def)
  qed (simp add: utf8Point_def utf8Length_def utf8Value_def)
qed

lemma utf8Decode_points:
  assumes "\<And>cp. cp \<in> set cps \<Longrightarrow> cp < 0x110000 \<and> \<not> isSurrogatePoint cp"
  shows "utf8Decode (concat (map utf8Point cps)) = Some (concat (map unitsOfPoint cps))"
  using assms
proof (induction cps)
  case (Cons cp cps)
  obtain a bs where ab: "utf8Point cp = a # bs" "utf8Length a = Suc (length bs)"
      "utf8Value (a # bs) = Some cp"
    using utf8Point_value [of cp] Cons.prems by auto
  then show ?case using Cons by simp
qed simp

lemma utf8Decode_utf8: "hasOnlyUnicodeScalarValues s \<Longrightarrow> utf8Decode (utf8 s) = Some s"
proof -
  assume s: "hasOnlyUnicodeScalarValues s"
  have "utf8Decode (utf8 s) = Some (concat (map unitsOfPoint (codePoints s)))"
    unfolding utf8_def
  proof (rule utf8Decode_points)
    fix cp
    assume "cp \<in> set (codePoints s)"
    then show "cp < 0x110000 \<and> \<not> isSurrogatePoint cp"
      using s codePoints_bound by (auto simp: hasOnlyUnicodeScalarValues_def list_all_iff)
  qed
  then show ?thesis by (simp add: units_codePoints)
qed

subsection \<open>Percent decoding\<close>

definition hexUnitValue :: "16 word \<Rightarrow> nat" where
  "hexUnitValue u = (let n = unat u in if n < 58 then n - 48 else if n < 71 then n - 55 else n - 87)"

fun percentByte :: "jstr \<Rightarrow> (nat \<times> jstr) option" where
  "percentByte (p # a # b # rest) =
     (if p = 0x25 \<and> isHexUnit a \<and> isHexUnit b
      then Some (hexUnitValue a * 16 + hexUnitValue b, rest) else None)"
| "percentByte short = None"

fun percentBytes :: "nat \<Rightarrow> jstr \<Rightarrow> (nat list \<times> jstr) option" where
  "percentBytes 0 s = Some ([], s)"
| "percentBytes (Suc k) s =
     (case percentByte s of None \<Rightarrow> None
      | Some (b, r) \<Rightarrow> (case percentBytes k r of None \<Rightarrow> None | Some (bs, r') \<Rightarrow> Some (b # bs, r')))"

lemma percentByte_shorter: "percentByte s = Some (b, r) \<Longrightarrow> length r < length s"
  by (induction s rule: percentByte.induct) (auto split: if_splits)

lemma percentBytes_shorter: "percentBytes k s = Some (bs, r) \<Longrightarrow> length r \<le> length s"
proof (induction k arbitrary: s bs)
  case (Suc k)
  then obtain b r1 bs1 where p: "percentByte s = Some (b, r1)" "percentBytes k r1 = Some (bs1, r)"
    by (auto split: option.splits)
  have "length r \<le> length r1" using p(2) by (rule Suc.IH)
  moreover have "length r1 < length s" using p(1) by (rule percentByte_shorter)
  ultimately show ?case by simp
qed simp

function decodeURIComponent :: "jstr \<Rightarrow> jstr option" where
  "decodeURIComponent [] = Some []"
| "decodeURIComponent (u # us) =
     (if u \<noteq> 0x25 then map_option ((#) u) (decodeURIComponent us)
      else case percentByte (u # us) of
             None \<Rightarrow> None
           | Some (b, r) \<Rightarrow>
               if utf8Length b = 0 then None
               else case percentBytes (utf8Length b - 1) r of
                      None \<Rightarrow> None
                    | Some (bs, r') \<Rightarrow>
                        (case utf8Value (b # bs) of
                           None \<Rightarrow> None
                         | Some cp \<Rightarrow> map_option ((@) (unitsOfPoint cp)) (decodeURIComponent r')))"
  by pat_completeness auto
termination
proof (relation "measure length", goal_cases)
  case (3 u us p b r q bs r' cp)
  then show ?case using percentByte_shorter [of "u # us" b r] percentBytes_shorter [of "utf8Length b - 1" r bs r'] by auto
qed auto

text \<open>Text without an escape decodes to itself.\<close>

lemma decodeURIComponent_plain: "0x25 \<notin> set s \<Longrightarrow> decodeURIComponent s = Some s"
  by (induction s) auto

end
