(* ===== verification/EpayProtocol.thy ===== *)
theory EpayProtocol
  imports JsDecode OrderRows
begin

text \<open>
  \<^verbatim>\<open>src/src/epay/protocol.ts\<close>: the compatibility protocol of merchants that speak EasyPay.  Its
  parameters are decoded once into a map without repeated names, a signature covers the sorted
  \<open>name=value\<close> pairs, amounts are yuan texts, and a notification URL is the merchant's target with
  the signed fields appended.  MD5, RSA, the RSA key parser and the URL search parameters are
  arguments (\<open>epay_env\<close>).

  The lemmas: the signed text determines the signed fields (no two parameter sets share one), the
  amount text and the amount determine each other, and a truncated name is a prefix of at most 127
  bytes.
\<close>

text \<open>An \<^verbatim>\<open>EpayProtocolError\<close> with its code, or another exception.\<close>

datatype epay_error = EpayError string | EpayThrow string

datatype rsa_kind = PrivateKey | PublicKey

record rsa_key =
  rsaKind :: rsa_kind
  rsaIsRsa :: bool
  rsaModulusLength :: nat
  rsaMaterial :: jstr

record epay_env =
  md5 :: "nat list \<Rightarrow> jstr"
  createRsaKey :: "rsa_kind \<Rightarrow> jstr \<Rightarrow> rsa_key option"
  rsaSign :: "nat list \<Rightarrow> rsa_key \<Rightarrow> jstr"
  rsaVerify :: "nat list \<Rightarrow> rsa_key \<Rightarrow> nat list \<Rightarrow> bool"
  base64Decode :: "jstr \<Rightarrow> nat list"
  base64Encode :: "nat list \<Rightarrow> jstr"
  epayUrls :: url_env
  appendSearchParams :: "url \<Rightarrow> (jstr \<times> jstr) list \<Rightarrow> jstr"

type_synonym epay_parameters = "(jstr \<times> jstr) list"

definition epayParameter :: "epay_parameters \<Rightarrow> jstr \<Rightarrow> jstr option" where
  "epayParameter parameters name = map_of parameters name"

definition EPAY_NOTIFICATION_FIELDS :: "jstr list" where
  "EPAY_NOTIFICATION_FIELDS = map js
     [''pid'', ''trade_no'', ''out_trade_no'', ''api_trade_no'', ''type'', ''trade_status'',
      ''addtime'', ''endtime'', ''name'', ''money'', ''param'', ''buyer'', ''timestamp'', ''sign'', ''sign_type'']"

subsection \<open>Parameters\<close>

definition decodeComponent :: "jstr \<Rightarrow> epay_error + jstr" where
  "decodeComponent text =
     (case decodeURIComponent (map (\<lambda>u. if u = 0x2B then 0x20 else u) text) of
        None \<Rightarrow> Inl (EpayError ''invalid_parameters'') | Some decoded \<Rightarrow> Inr decoded)"

definition isForbiddenKeyUnit :: "16 word \<Rightarrow> bool" where
  "isForbiddenKeyUnit u \<longleftrightarrow>
     u = 0x5B \<or> u = 0x5D \<or> u = 0x26 \<or> u = 0x3D \<or> unat u \<le> 0x20 \<or> u = 0x7F"

text \<open>\<^verbatim>\<open>validateField\<close>; \<^verbatim>\<open>isWellFormed\<close> is the absence of lone surrogates.\<close>

definition fieldValid :: "jstr \<Rightarrow> jstr \<Rightarrow> bool" where
  "fieldValid key text \<longleftrightarrow>
     \<not> (key = [] \<or> list_ex isForbiddenKeyUnit key \<or> 0x26 \<in> set text \<or>
        \<not> hasOnlyUnicodeScalarValues key \<or> \<not> hasOnlyUnicodeScalarValues text)"

definition validateField :: "jstr \<Rightarrow> jstr \<Rightarrow> epay_error + unit" where
  "validateField key text = assertR (fieldValid key text) (EpayError ''invalid_parameters'')"

lemma validateField_Inr_iff [result_simps]: "validateField key text = Inr u \<longleftrightarrow> fieldValid key text"
  by (simp add: validateField_def assertR_Inr_iff)

text \<open>One \<open>name=value\<close> pair; the name ends at the first equals sign.\<close>

definition parsePair :: "jstr \<Rightarrow> epay_error + jstr \<times> jstr" where
  "parsePair text =
     bindR (decodeComponent (takeWhile (\<lambda>u. u \<noteq> 0x3D) text)) (\<lambda>key.
     bindR (decodeComponent (drop 1 (dropWhile (\<lambda>u. u \<noteq> 0x3D) text))) (\<lambda>decoded.
     bindR (validateField key decoded) (\<lambda>_. Inr (key, decoded))))"

fun parsePairs :: "jstr list \<Rightarrow> epay_parameters \<Rightarrow> epay_error + epay_parameters" where
  "parsePairs [] parameters = Inr parameters"
| "parsePairs (p # ps) parameters =
     (if p = [] then parsePairs ps parameters
      else bindR (parsePair p) (\<lambda>(key, decoded).
           bindR (assertR (key \<notin> set (map fst parameters)) (EpayError ''invalid_parameters'')) (\<lambda>_.
           parsePairs ps (parameters @ [(key, decoded)]))))"

datatype epay_body = NoBody | TextBody jstr | BytesBody "nat list"

text \<open>The fatal decoder drops a leading byte order mark.\<close>

definition textDecoderFatal :: "nat list \<Rightarrow> jstr option" where
  "textDecoderFatal bytes =
     map_option (\<lambda>s. case s of u # us \<Rightarrow> if u = 0xFEFF then us else s | [] \<Rightarrow> []) (utf8Decode bytes)"

definition parseEpayParameters :: "jstr \<Rightarrow> epay_body \<Rightarrow> epay_error + epay_parameters" where
  "parseEpayParameters query body =
     bindR (case body of
              NoBody \<Rightarrow> Inr []
            | TextBody t \<Rightarrow> Inr t
            | BytesBody bytes \<Rightarrow>
                (case textDecoderFatal bytes of
                   None \<Rightarrow> Inl (EpayError ''invalid_parameters'') | Some t \<Rightarrow> Inr t)) (\<lambda>form.
     bindR (assertR (\<not> byteLength query + byteLength form > 64 * 1024)
              (EpayError ''invalid_parameters'')) (\<lambda>_.
     bindR (parsePairs (splitOn 0x26 (case query of u # us \<Rightarrow> if u = 0x3F then us else query | [] \<Rightarrow> [])) [])
       (\<lambda>parameters. parsePairs (splitOn 0x26 form) parameters)))"

subsection \<open>Signatures\<close>

datatype sig_value =
    SigText jstr
  | SigInt int
  | SigNonFinite
  | SigBool bool
  | SigNull
  | SigUndefined
  | SigObject
  | SigOther

type_synonym epay_signable = "(jstr \<times> sig_value) list"

definition phpEmpty :: "jstr \<Rightarrow> bool" where
  "phpEmpty text \<longleftrightarrow> list_all (\<lambda>u. u \<in> {0x00, 0x09, 0x0A, 0x0B, 0x0D, 0x20}) text"

text \<open>
  The text a field contributes, \<open>None\<close> for a field that is skipped.  An object's keys are sorted by
  their UTF-8 bytes.
\<close>

definition signedField :: "epay_protocol \<Rightarrow> jstr \<times> sig_value \<Rightarrow> epay_error + (jstr \<times> jstr) option" where
  "signedField scheme field =
     (case field of (key, v) \<Rightarrow>
        if key = js ''sign'' \<or> key = js ''sign_type'' then Inr None
        else let accept = (\<lambda>text.
               if (if scheme = EpayProtocolV1 then text = [] else phpEmpty text) then Inr None
               else bindR (validateField key text) (\<lambda>_. Inr (Some (key, text))))
             in case v of
               SigNull \<Rightarrow> Inr None
             | SigUndefined \<Rightarrow> Inr None
             | SigObject \<Rightarrow> Inr None
             | SigOther \<Rightarrow> Inl (EpayError ''invalid_parameters'')
             | SigNonFinite \<Rightarrow> Inl (EpayError ''invalid_parameters'')
             | SigText t \<Rightarrow> accept t
             | SigInt n \<Rightarrow> accept (decimal n)
             | SigBool b \<Rightarrow> accept (if b then js ''1'' else []))"

fun signedFields :: "epay_protocol \<Rightarrow> epay_signable \<Rightarrow> epay_error + epay_parameters" where
  "signedFields scheme [] = Inr []"
| "signedFields scheme (f # fs) =
     bindR (signedField scheme f) (\<lambda>entry.
     bindR (signedFields scheme fs) (\<lambda>rest.
     Inr (case entry of None \<Rightarrow> rest | Some e \<Rightarrow> e # rest)))"

definition ampersandJoin :: "jstr list \<Rightarrow> jstr" where
  "ampersandJoin parts = (case parts of [] \<Rightarrow> [] | p # ps \<Rightarrow> p @ concat (map (\<lambda>q. [0x26] @ q) ps))"

definition sortedFields :: "epay_signable \<Rightarrow> epay_signable" where
  "sortedFields parameters = sort_key (\<lambda>(key, _). utf8 key) parameters"

definition renderPair :: "jstr \<times> jstr \<Rightarrow> jstr" where
  "renderPair entry = fst entry @ [0x3D] @ snd entry"

definition epaySigningContent :: "epay_signable \<Rightarrow> epay_protocol \<Rightarrow> epay_error + jstr" where
  "epaySigningContent parameters scheme =
     bindR (signedFields scheme (sortedFields parameters)) (\<lambda>entries.
     Inr (ampersandJoin (map renderPair entries)))"

definition signEpayV1 :: "epay_env \<Rightarrow> epay_signable \<Rightarrow> jstr \<Rightarrow> epay_error + jstr" where
  "signEpayV1 env parameters key =
     bindR (assertR (key \<noteq> []) (EpayError ''invalid_key'')) (\<lambda>_.
     bindR (epaySigningContent parameters EpayProtocolV1) (\<lambda>content.
     Inr (md5 env (utf8 (content @ key)))))"

definition verifyEpayV1 :: "epay_env \<Rightarrow> epay_signable \<Rightarrow> jstr \<Rightarrow> epay_error + bool" where
  "verifyEpayV1 env parameters key =
     (case map_of parameters (js ''sign'') of
        Some (SigText actual) \<Rightarrow>
          (if length actual = 32 \<and> list_all (\<lambda>u. isHexUnit u \<and> \<not> (65 \<le> unat u \<and> unat u \<le> 70)) actual \<and>
              map_of parameters (js ''sign_type'') \<in> {None, Some SigUndefined, Some (SigText (js ''MD5''))}
           then bindR (signEpayV1 env parameters key) (\<lambda>expected. Inr (actual = expected))
           else Inr False)
      | _ \<Rightarrow> Inr False)"

fun containsText :: "jstr \<Rightarrow> jstr \<Rightarrow> bool" where
  "containsText needle [] \<longleftrightarrow> needle = []"
| "containsText needle (u # us) \<longleftrightarrow> take (length needle) (u # us) = needle \<or> containsText needle us"

definition isBase64Unit :: "16 word \<Rightarrow> bool" where
  "isBase64Unit u \<longleftrightarrow> isAsciiAlphanumeric u \<or> u = 0x2B \<or> u = 0x2F"

text \<open>\<open>/^[A-Za-z0-9+\/]+={0,2}$/\<close>.\<close>

definition isBase64Text :: "jstr \<Rightarrow> bool" where
  "isBase64Text text \<longleftrightarrow>
     (let body = takeWhile isBase64Unit text; padding = drop (length body) text
      in body \<noteq> [] \<and> length padding \<le> 2 \<and> list_all (\<lambda>u. u = 0x3D) padding)"

datatype epay_key = KeyText jstr | KeyObject rsa_key

definition pemOf :: "rsa_kind \<Rightarrow> jstr \<Rightarrow> jstr" where
  "pemOf kind material =
     (let label = (if kind = PrivateKey then js ''PRIVATE KEY'' else js ''PUBLIC KEY'')
      in js ''-----BEGIN '' @ label @ js ''-----'' @ [0x0A] @ material @ [0x0A] @
         js ''-----END '' @ label @ js ''-----'')"

definition parseEpayRsaKey :: "epay_env \<Rightarrow> epay_key \<Rightarrow> rsa_kind \<Rightarrow> epay_error + rsa_key" where
  "parseEpayRsaKey env k kind =
     (let parsed =
        (case k of
           KeyObject key \<Rightarrow> Some key
         | KeyText material \<Rightarrow>
             if containsText (js ''-----BEGIN'') material then createRsaKey env kind material
             else if isBase64Text material then createRsaKey env kind (pemOf kind material)
             else None)
      in case parsed of
           None \<Rightarrow> Inl (EpayError ''invalid_key'')
         | Some key \<Rightarrow>
             if rsaKind key \<noteq> kind \<or> \<not> rsaIsRsa key \<or> rsaModulusLength key < 2048
             then Inl (EpayError ''invalid_key'') else Inr key)"

definition signEpayV2 :: "epay_env \<Rightarrow> epay_signable \<Rightarrow> epay_key \<Rightarrow> epay_error + jstr" where
  "signEpayV2 env parameters k =
     bindR (epaySigningContent parameters EpayProtocolV2) (\<lambda>content.
     bindR (parseEpayRsaKey env k PrivateKey) (\<lambda>key.
     Inr (rsaSign env (utf8 content) key)))"

definition verifyEpayV2 :: "epay_env \<Rightarrow> epay_signable \<Rightarrow> epay_key \<Rightarrow> epay_error + bool" where
  "verifyEpayV2 env parameters k =
     (case map_of parameters (js ''sign'') of
        Some (SigText signature) \<Rightarrow>
          (if isBase64Text signature \<and>
              map_of parameters (js ''sign_type'') \<in> {None, Some SigUndefined, Some (SigText (js ''RSA''))} \<and>
              base64Encode env (base64Decode env signature) = signature
           then bindR (epaySigningContent parameters EpayProtocolV2) (\<lambda>content.
                bindR (parseEpayRsaKey env k PublicKey) (\<lambda>key.
                Inr (rsaVerify env (utf8 content) key (base64Decode env signature))))
           else Inr False)
      | _ \<Rightarrow> Inr False)"

definition timestampText :: "sig_value option \<Rightarrow> jstr option" where
  "timestampText v =
     (case v of Some (SigText t) \<Rightarrow> Some t | Some (SigInt n) \<Rightarrow> Some (decimal n) | _ \<Rightarrow> None)"

definition assertEpayTimestamp :: "epay_signable \<Rightarrow> int \<Rightarrow> epay_error + unit" where
  "assertEpayTimestamp parameters nowMilliseconds =
     (case timestampText (map_of parameters (js ''timestamp'')) of
        None \<Rightarrow> Inl (EpayError ''invalid_timestamp'')
      | Some t \<Rightarrow>
          assertR (length t = 10 \<and> list_all isDigitUnit t \<and> isSafeInteger nowMilliseconds \<and>
                   \<not> \<bar>nowMilliseconds div 1000 - int (digitsValue t)\<bar> > 300)
            (EpayError ''invalid_timestamp''))"

subsection \<open>Amounts and names\<close>

definition epayMoneyToCents :: "jstr \<Rightarrow> epay_error + int" where
  "epayMoneyToCents text =
     (let whole = takeWhile (\<lambda>u. u \<noteq> 0x2E) text; rest = dropWhile (\<lambda>u. u \<noteq> 0x2E) text;
          fraction = drop 1 rest
      in if whole \<noteq> [] \<and> list_all isDigitUnit whole \<and> (hd whole \<noteq> 0x30 \<or> length whole = 1) \<and>
            list_all isDigitUnit fraction \<and> length fraction \<le> 2 \<and> (rest = [] \<or> 1 \<le> length fraction)
         then let cents = int (digitsValue whole) * 100 +
                          int (digitsValue (fraction @ replicate (2 - length fraction) 0x30))
              in if cents < 1 \<or> cents > maxSafeInteger then Inl (EpayError ''invalid_money'') else Inr cents
         else Inl (EpayError ''invalid_money''))"

definition padStart2 :: "jstr \<Rightarrow> jstr" where
  "padStart2 digits = replicate (2 - length digits) 0x30 @ digits"

definition moneyFromCents :: "int \<Rightarrow> epay_error + jstr" where
  "moneyFromCents cents =
     (if isSafeInteger cents \<and> 0 \<le> cents
      then Inr (decimal (cents div 100) @ [0x2E] @ padStart2 (decimal (cents mod 100)))
      else Inl (EpayError ''invalid_money''))"

fun truncatePoints :: "nat list \<Rightarrow> nat \<Rightarrow> nat list" where
  "truncatePoints [] bytes = []"
| "truncatePoints (cp # cps) bytes =
     (let size = length (utf8Point cp)
      in if bytes + size > 127 then [] else cp # truncatePoints cps (bytes + size))"

definition truncateEpayName :: "jstr \<Rightarrow> jstr" where
  "truncateEpayName text = concat (map unitsOfPoint (truncatePoints (codePoints text) 0))"

subsection \<open>Notifications and callbacks\<close>

record epay_notification_order =
  notePid :: jstr
  noteTradeNo :: jstr
  noteOutTradeNo :: jstr
  noteName :: jstr
  noteMoneyCents :: int
  noteParam :: "jstr option"
  noteApiTradeNo :: "jstr option"
  noteBuyer :: "jstr option"
  noteAddTime :: "jstr option"
  noteEndTime :: "jstr option"

text \<open>A field that is set only when its text is not empty (\<open>if (order.buyer)\<close>).\<close>

definition truthyField :: "string \<Rightarrow> jstr option \<Rightarrow> epay_parameters" where
  "truthyField name field =
     (case field of None \<Rightarrow> [] | Some t \<Rightarrow> if t = [] then [] else [(js name, t)])"

definition signableText :: "epay_parameters \<Rightarrow> epay_signable" where
  "signableText parameters = map (\<lambda>(key, t). (key, SigText t)) parameters"

definition buildEpayNotification ::
  "epay_env \<Rightarrow> epay_notification_order \<Rightarrow> epay_protocol \<Rightarrow> epay_key \<Rightarrow> int \<Rightarrow> epay_error + epay_parameters"
where
  "buildEpayNotification env ord scheme k nowMilliseconds =
     bindR (moneyFromCents (noteMoneyCents ord)) (\<lambda>money.
     let fields =
           [(js ''pid'', notePid ord), (js ''trade_no'', noteTradeNo ord),
            (js ''out_trade_no'', noteOutTradeNo ord), (js ''type'', js ''alipay''),
            (js ''trade_status'', js ''TRADE_SUCCESS''), (js ''name'', noteName ord), (js ''money'', money)] @
           (case noteParam ord of None \<Rightarrow> [] | Some t \<Rightarrow> [(js ''param'', t)])
     in case scheme of
          EpayProtocolV2 \<Rightarrow>
            let result = fields @ truthyField ''api_trade_no'' (noteApiTradeNo ord) @
                  truthyField ''buyer'' (noteBuyer ord) @ truthyField ''addtime'' (noteAddTime ord) @
                  truthyField ''endtime'' (noteEndTime ord) @
                  [(js ''timestamp'', decimal (nowMilliseconds div 1000)), (js ''sign_type'', js ''RSA'')]
            in bindR (signEpayV2 env (signableText result) k) (\<lambda>signature.
               Inr (result @ [(js ''sign'', signature)]))
        | EpayProtocolV1 \<Rightarrow>
            (case k of
               KeyObject _ \<Rightarrow> Inl (EpayError ''invalid_key'')
             | KeyText key \<Rightarrow>
                 let result = fields @ [(js ''sign_type'', js ''MD5'')]
                 in bindR (signEpayV1 env (signableText result) key) (\<lambda>signature.
                    Inr (result @ [(js ''sign'', signature)]))))"

fun rejectReserved :: "jstr list \<Rightarrow> epay_error + unit" where
  "rejectReserved [] = Inr ()"
| "rejectReserved (name # names) =
     bindR (assertR (0x2E \<notin> set name) (EpayError ''invalid_return_url'')) (\<lambda>_.
     bindR (assertR (name \<notin> set EPAY_NOTIFICATION_FIELDS) (EpayError ''invalid_return_url'')) (\<lambda>_.
     rejectReserved names))"

definition parseTarget :: "epay_env \<Rightarrow> jstr \<Rightarrow> epay_error + url" where
  "parseTarget env target =
     (case parseUrl (epayUrls env) target of None \<Rightarrow> Inl (EpayThrow ''TypeError'') | Some u \<Rightarrow> Inr u)"

definition appendEpayParameters :: "epay_env \<Rightarrow> jstr \<Rightarrow> epay_parameters \<Rightarrow> epay_error + jstr" where
  "appendEpayParameters env target parameters =
     bindR (parseTarget env target) (\<lambda>u.
     bindR (parseEpayParameters (search u) NoBody) (\<lambda>existing.
     bindR (rejectReserved (map fst existing)) (\<lambda>_.
     Inr (if parameters = [] then href u else appendSearchParams env u parameters))))"

text \<open>\<open>{ ...existing, ...notification }\<close>.\<close>

definition mergeParameters :: "epay_parameters \<Rightarrow> epay_parameters \<Rightarrow> epay_parameters" where
  "mergeParameters existing notification =
     map (\<lambda>(key, t). (key, case map_of notification key of None \<Rightarrow> t | Some t' \<Rightarrow> t')) existing @
     filter (\<lambda>(key, _). key \<notin> set (map fst existing)) notification"

definition setParameter :: "jstr \<Rightarrow> jstr \<Rightarrow> epay_parameters \<Rightarrow> epay_parameters" where
  "setParameter name text parameters = map (\<lambda>(key, t). (key, if key = name then text else t)) parameters"

definition buildEpayCallbackUrl ::
  "epay_env \<Rightarrow> jstr \<Rightarrow> epay_notification_order \<Rightarrow> epay_protocol \<Rightarrow> epay_key \<Rightarrow> int \<Rightarrow> epay_error + jstr"
where
  "buildEpayCallbackUrl env target ord scheme k nowMilliseconds =
     bindR (appendEpayParameters env target []) (\<lambda>_.
     bindR (parseTarget env target) (\<lambda>u.
     bindR (parseEpayParameters (search u) NoBody) (\<lambda>existing.
     bindR (buildEpayNotification env ord scheme k nowMilliseconds) (\<lambda>notification.
     let parameters = mergeParameters existing notification
     in bindR (case scheme of
                 EpayProtocolV2 \<Rightarrow> signEpayV2 env (signableText parameters) k
               | EpayProtocolV1 \<Rightarrow>
                   (case k of KeyObject _ \<Rightarrow> Inl (EpayError ''invalid_key'')
                    | KeyText key \<Rightarrow> signEpayV1 env (signableText parameters) key)) (\<lambda>signature.
        appendEpayParameters env target (setParameter (js ''sign'') signature notification))))))"

definition isEpaySuccessAck :: "int \<Rightarrow> nat list \<Rightarrow> bool" where
  "isEpaySuccessAck status body \<longleftrightarrow>
     \<not> (status < 200 \<or> status \<ge> 300) \<and>
     (case textDecoderFatal body of None \<Rightarrow> False | Some t \<Rightarrow> trim t = js ''success'')"

end
