(* ===== verification/NotificationRows.thy ===== *)
theory NotificationRows
  imports NotificationModel EpayProtocol
begin

text \<open>
  The rows behind merchant notifications: the outbox of financial events, the deliveries and their
  attempts (\<^verbatim>\<open>src/src/database/migrations.ts\<close>, \<^verbatim>\<open>src/src/notifications/epay-schema.ts\<close>), the signing
  keys of the websites (\<^verbatim>\<open>src/src/sites/migrations/schema.ts\<close>) and the EasyPay credentials.  The
  keys, \<open>CHECK\<close>s and triggers of the two tables the notification store writes are predicates, and a
  statement that violates one is a \<open>SqlAbort\<close>.
\<close>

subsection \<open>Records\<close>

text \<open>A delivery as callers see it; the row has the lease token and the request fingerprint too.\<close>

record webhook_delivery =
  deliveryId :: string
  deliveryEventId :: string
  deliveryTargetId :: string
  deliveryGeneration :: int
  predecessorDeliveryId :: "string option"
  requestKey :: string
  requestedByType :: requester
  requestedByActorId :: "string option"
  deliveryReason :: "jstr option"
  deliveryStatus :: delivery_status
  attemptCount :: int
  nextAttemptAt :: int
  leaseExpiresAt :: "int option"
  acknowledgedAt :: "int option"
  deadLetteredAt :: "int option"
  lastErrorCode :: "string option"
  deliveryCreatedAt :: int
  deliveryUpdatedAt :: int

record delivery_row = webhook_delivery +
  leaseToken :: "string option"
  deliveryFingerprint :: string

record attempt_evidence =
  resolvedAddressesFingerprint :: "string option"
  connectedAddress :: "jstr option"
  httpStatus :: "int option"
  responseBytes :: "int option"
  responseFingerprint :: "string option"
  ackCode :: "string option"
  errorCode :: "string option"

datatype request_method = POST | GET

record attempt_core =
  attemptId :: string
  attemptDeliveryId :: string
  attemptNumber :: int
  attemptLeaseToken :: string
  attemptProtocol :: attempt_protocol
  requestMethod :: request_method
  requestUrl :: "jstr option"
  attemptRequestFingerprint :: "string option"
  requestTimestamp :: int
  requestBodyFingerprint :: string
  attemptOutcome :: attempt_outcome
  attemptEvidence :: attempt_evidence
  startedAt :: int
  finishedAt :: "int option"

record webhook_attempt = attempt_core +
  usedKeyVersion :: int
  usedKeyId :: string

record attempt_row = attempt_core +
  attemptKeyVersion :: "int option"
  attemptEpayKeyId :: "string option"

record webhook_signing_key =
  signingKeyVersion :: int
  signingKeyId :: string
  secretFingerprint :: string
  signingActivatedAt :: int
  signingRetiredAt :: "int option"

record signing_key_row = webhook_signing_key +
  signingClientId :: jstr
  siteKeyVersion :: int

record outbox_event =
  outboxEventId :: string
  outboxOperationId :: string
  aggregateId :: string
  aggregateVersion :: int
  outboxEventType :: order_event_type
  payloadJson :: jstr
  payloadFingerprint :: string
  outboxCreatedAt :: int

record webhook_event =
  notifiedEventId :: string
  notifiedEventType :: order_event_type
  notifiedOrderId :: string
  notifiedOrderVersion :: int
  notifiedPayloadJson :: jstr
  notifiedPayloadFingerprint :: string
  notifiedCreatedAt :: int

datatype credential_purpose = V1Key | V2Merchant | V2Platform

record epay_credential_row =
  credentialId :: string
  credentialSiteId :: jstr
  credentialPurpose :: credential_purpose
  credentialKeyVersion :: int
  credentialFingerprint :: string
  credentialCreatedAt :: int
  credentialRetiredAt :: "int option"

record payment_match_row =
  matchOrderId :: string
  matchOperationId :: string
  matchSettled :: bool

record webhook_audit =
  webhookAuditAt :: int
  webhookAuditActor :: string
  webhookAuditDelivery :: string
  webhookAuditPredecessor :: string
  webhookAuditEvent :: string
  webhookAuditGeneration :: int
  webhookAuditRedelivery :: string

record notify_db =
  orderTables :: order_db
  providerEndpoints :: "(string \<times> string) list"
  outboxEvents :: "outbox_event list"
  webhookDeliveries :: "delivery_row list"
  webhookAttempts :: "attempt_row list"
  signingKeys :: "signing_key_row list"
  epayCredentials :: "epay_credential_row list"
  paymentMatches :: "payment_match_row list"
  webhookAudits :: "webhook_audit list"

subsection \<open>Joins\<close>

definition eventOf :: "notify_db \<Rightarrow> string \<Rightarrow> outbox_event option" where
  "eventOf db eid = List.find (\<lambda>e. outboxEventId e = eid) (outboxEvents db)"

definition targetWithId :: "notify_db \<Rightarrow> string \<Rightarrow> stored_webhook_target option" where
  "targetWithId db tid = List.find (\<lambda>t. targetId t = tid) (webhookTargets (orderTables db))"

definition SANDBOX_PROVIDER_ENDPOINT :: string where
  "SANDBOX_PROVIDER_ENDPOINT = ''https://openapi-sandbox.dl.alipaydev.com''"

text \<open>\<^verbatim>\<open>LIVE_NOTIFICATION_TARGET\<close>: the target's order was not collected through the sandbox.\<close>

definition liveTarget :: "notify_db \<Rightarrow> stored_webhook_target \<Rightarrow> bool" where
  "liveTarget db target \<longleftrightarrow>
     \<not> list_ex (\<lambda>ord. orderId ord = targetOrderId target \<and>
          list_ex (\<lambda>(profile, key). profile = collectionProfileId ord \<and>
             list_ex (\<lambda>(key', endpoint). key' = key \<and> endpoint = SANDBOX_PROVIDER_ENDPOINT)
               (providerEndpoints db))
            (profileProviderLinks (orderTables db)))
         (paymentOrders (orderTables db))"

definition targetLiveWithId :: "notify_db \<Rightarrow> string \<Rightarrow> bool" where
  "targetLiveWithId db tid =
     (case targetWithId db tid of None \<Rightarrow> False | Some t \<Rightarrow> liveTarget db t)"

subsection \<open>Constraints of the delivery table\<close>

definition isActiveStatus :: "delivery_status \<Rightarrow> bool" where
  "isActiveStatus s \<longleftrightarrow> s = PENDING \<or> s = LEASED \<or> s = RETRY_WAIT"

definition isWaiting :: "delivery_status \<Rightarrow> bool" where
  "isWaiting s \<longleftrightarrow> s = PENDING \<or> s = RETRY_WAIT"

definition isTerminal :: "delivery_status \<Rightarrow> bool" where
  "isTerminal s \<longleftrightarrow> s = ACKNOWLEDGED \<or> s = DEAD_LETTER"

text \<open>\<open>/^[a-z][a-z0-9_]{0,99}$/\<close>, and the same text as \<open>GLOB\<close> patterns.\<close>

definition isCodeText :: "string \<Rightarrow> bool" where
  "isCodeText text \<longleftrightarrow>
     text \<noteq> [] \<and> length text \<le> 100 \<and>
     (let n = of_char (hd text) :: nat in 97 \<le> n \<and> n \<le> 122) \<and>
     list_all (\<lambda>c. let n = of_char c :: nat in
       97 \<le> n \<and> n \<le> 122 \<or> 48 \<le> n \<and> n \<le> 57 \<or> n = 95) text"

definition requesterChecks :: "delivery_row \<Rightarrow> bool" where
  "requesterChecks d \<longleftrightarrow>
     (requestedByType d = SYSTEM \<and> deliveryGeneration d = 1 \<and> predecessorDeliveryId d = None \<and>
      requestedByActorId d = None \<and> deliveryReason d = None) \<or>
     (requestedByType d = ADMIN \<and> deliveryGeneration d > 1 \<and> predecessorDeliveryId d \<noteq> None \<and>
      requestedByActorId d \<noteq> None \<and> deliveryReason d \<noteq> None)"

definition statusChecks :: "delivery_row \<Rightarrow> bool" where
  "statusChecks d \<longleftrightarrow>
     (isWaiting (deliveryStatus d) \<and> leaseToken d = None \<and> leaseExpiresAt d = None \<and>
      acknowledgedAt d = None \<and> deadLetteredAt d = None) \<or>
     (deliveryStatus d = LEASED \<and> 1 \<le> attemptCount d \<and> leaseToken d \<noteq> None \<and> leaseExpiresAt d \<noteq> None \<and>
      acknowledgedAt d = None \<and> deadLetteredAt d = None) \<or>
     (deliveryStatus d = ACKNOWLEDGED \<and> 1 \<le> attemptCount d \<and> leaseToken d = None \<and> leaseExpiresAt d = None \<and>
      acknowledgedAt d \<noteq> None \<and> deadLetteredAt d = None \<and> lastErrorCode d = None) \<or>
     (deliveryStatus d = DEAD_LETTER \<and> 1 \<le> attemptCount d \<and> leaseToken d = None \<and> leaseExpiresAt d = None \<and>
      acknowledgedAt d = None \<and> deadLetteredAt d \<noteq> None \<and> lastErrorCode d \<noteq> None)"

definition deliveryChecks :: "delivery_row \<Rightarrow> bool" where
  "deliveryChecks d \<longleftrightarrow>
     length (deliveryId d) = 36 \<and> 1 \<le> deliveryGeneration d \<and> length (requestKey d) = 36 \<and>
     isHexDigest (deliveryFingerprint d) \<and>
     pred_option (\<lambda>a. 1 \<le> length a \<and> length a \<le> 128) (requestedByActorId d) \<and>
     pred_option (\<lambda>r. 1 \<le> length (codePoints r) \<and> length (codePoints r) \<le> 500 \<and> sqlTrimmed r)
       (deliveryReason d) \<and>
     0 \<le> attemptCount d \<and> 0 \<le> nextAttemptAt d \<and>
     pred_option (\<lambda>t. length t = 36) (leaseToken d) \<and> pred_option (\<lambda>t. 0 \<le> t) (leaseExpiresAt d) \<and>
     pred_option (\<lambda>t. 0 \<le> t) (acknowledgedAt d) \<and> pred_option (\<lambda>t. 0 \<le> t) (deadLetteredAt d) \<and>
     pred_option isCodeText (lastErrorCode d) \<and>
     0 \<le> deliveryCreatedAt d \<and> deliveryCreatedAt d \<le> deliveryUpdatedAt d \<and>
     requesterChecks d \<and> statusChecks d"

definition samePair :: "delivery_row \<Rightarrow> delivery_row \<Rightarrow> bool" where
  "samePair d e \<longleftrightarrow> deliveryEventId d = deliveryEventId e \<and> deliveryTargetId d = deliveryTargetId e"

text \<open>The unique keys and the partial unique index \<^verbatim>\<open>webhook_deliveries_one_active\<close>.\<close>

definition deliveryKeys :: "delivery_row list \<Rightarrow> bool" where
  "deliveryKeys rows \<longleftrightarrow>
     distinct (map deliveryId rows) \<and> distinct (map requestKey rows) \<and>
     distinct (map (\<lambda>d. (deliveryEventId d, deliveryTargetId d, deliveryGeneration d)) rows) \<and>
     distinct (List.map_filter leaseToken rows) \<and>
     distinct (map (\<lambda>d. (deliveryEventId d, deliveryTargetId d))
       (filter (\<lambda>d. isActiveStatus (deliveryStatus d)) rows))"

text \<open>The triggers \<^verbatim>\<open>webhook_deliveries_valid_insert\<close> and \<^verbatim>\<open>webhook_deliveries_epay_event_guard\<close>.\<close>

definition deliveryInsertAllowed :: "notify_db \<Rightarrow> delivery_row \<Rightarrow> bool" where
  "deliveryInsertAllowed db d \<longleftrightarrow>
     (case (eventOf db (deliveryEventId d), targetWithId db (deliveryTargetId d)) of
        (Some e, Some t) \<Rightarrow>
          aggregateId e = targetOrderId t \<and>
          \<not> (targetFormat t \<noteq> NATIVE_JSON_V1 \<and> outboxEventType e \<noteq> PAYMENT_CONFIRMED)
      | _ \<Rightarrow> False) \<and>
     \<not> (deliveryGeneration d = 1 \<and>
        (requestedByType d \<noteq> SYSTEM \<or> requestKey d \<noteq> deliveryEventId d \<or>
         list_ex (samePair d) (webhookDeliveries db))) \<and>
     \<not> (deliveryGeneration d > 1 \<and>
        \<not> list_ex (\<lambda>p. Some (deliveryId p) = predecessorDeliveryId d \<and> samePair d p \<and>
                     deliveryGeneration p = deliveryGeneration d - 1 \<and> isTerminal (deliveryStatus p))
            (webhookDeliveries db))"

text \<open>The trigger \<^verbatim>\<open>webhook_deliveries_valid_update\<close>.\<close>

definition deliveryIdentity :: "delivery_row \<Rightarrow> delivery_row \<Rightarrow> bool" where
  "deliveryIdentity old new \<longleftrightarrow>
     deliveryId new = deliveryId old \<and> deliveryEventId new = deliveryEventId old \<and>
     deliveryTargetId new = deliveryTargetId old \<and> deliveryGeneration new = deliveryGeneration old \<and>
     predecessorDeliveryId new = predecessorDeliveryId old \<and> requestKey new = requestKey old \<and>
     deliveryFingerprint new = deliveryFingerprint old \<and> requestedByType new = requestedByType old \<and>
     requestedByActorId new = requestedByActorId old \<and> deliveryReason new = deliveryReason old \<and>
     deliveryCreatedAt new = deliveryCreatedAt old"

definition statusTransition :: "delivery_row \<Rightarrow> delivery_row \<Rightarrow> bool" where
  "statusTransition old new \<longleftrightarrow>
     (isWaiting (deliveryStatus old) \<and> deliveryStatus new = LEASED \<and>
      attemptCount new = attemptCount old + 1) \<or>
     (isWaiting (deliveryStatus old) \<and> deliveryStatus new = DEAD_LETTER \<and>
      attemptCount new = attemptCount old \<and> 1 \<le> attemptCount old) \<or>
     (deliveryStatus old = LEASED \<and>
      (deliveryStatus new = RETRY_WAIT \<or> deliveryStatus new = ACKNOWLEDGED \<or>
       deliveryStatus new = DEAD_LETTER) \<and>
      attemptCount new = attemptCount old)"

definition deliveryUpdateAllowed :: "delivery_row \<Rightarrow> delivery_row \<Rightarrow> bool" where
  "deliveryUpdateAllowed old new \<longleftrightarrow>
     deliveryIdentity old new \<and> deliveryUpdatedAt old \<le> deliveryUpdatedAt new \<and> statusTransition old new"

definition insertDelivery :: "delivery_row \<Rightarrow> notify_db \<Rightarrow> store_error + notify_db" where
  "insertDelivery d db =
     bindR (assertR (deliveryInsertAllowed db d) (SqlAbort ''webhook delivery request is inconsistent'')) (\<lambda>_.
     bindR (assertR (deliveryChecks d \<and> deliveryKeys (webhookDeliveries db @ [d]))
              (SqlAbort ''webhook delivery insert'')) (\<lambda>_.
     Inr (db\<lparr>webhookDeliveries := webhookDeliveries db @ [d]\<rparr>)))"

text \<open>\<open>UPDATE webhook_deliveries SET f WHERE p\<close> with the number of changed rows.\<close>

definition updateDeliveries ::
  "(delivery_row \<Rightarrow> bool) \<Rightarrow> (delivery_row \<Rightarrow> delivery_row) \<Rightarrow> notify_db \<Rightarrow> store_error + nat \<times> notify_db"
where
  "updateDeliveries p f db =
     bindR (assertR (list_all (\<lambda>d. p d \<longrightarrow> deliveryUpdateAllowed d (f d)) (webhookDeliveries db))
              (SqlAbort ''webhook delivery transition is invalid'')) (\<lambda>_.
     bindR (assertR (list_all (\<lambda>d. p d \<longrightarrow> deliveryChecks (f d)) (webhookDeliveries db) \<and>
                     deliveryKeys (updateRows p f (webhookDeliveries db)))
              (SqlAbort ''webhook delivery update'')) (\<lambda>_.
     Inr (changes p (webhookDeliveries db),
          db\<lparr>webhookDeliveries := updateRows p f (webhookDeliveries db)\<rparr>)))"

subsection \<open>Constraints of the attempt table\<close>

definition noEvidence :: attempt_evidence where
  "noEvidence = \<lparr>resolvedAddressesFingerprint = None, connectedAddress = None, httpStatus = None,
     responseBytes = None, responseFingerprint = None, ackCode = None, errorCode = None\<rparr>"

definition evidenceChecks :: "attempt_evidence \<Rightarrow> bool" where
  "evidenceChecks v \<longleftrightarrow>
     pred_option isHexDigest (resolvedAddressesFingerprint v) \<and>
     pred_option (\<lambda>a. 2 \<le> length (codePoints a) \<and> length (codePoints a) \<le> 64) (connectedAddress v) \<and>
     pred_option (\<lambda>s. 100 \<le> s \<and> s \<le> 599) (httpStatus v) \<and>
     pred_option (\<lambda>n. 0 \<le> n \<and> n \<le> 16384) (responseBytes v) \<and>
     pred_option isHexDigest (responseFingerprint v) \<and>
     pred_option isCodeText (ackCode v) \<and> pred_option isCodeText (errorCode v)"

definition protocolChecks :: "attempt_row \<Rightarrow> bool" where
  "protocolChecks a \<longleftrightarrow>
     (if attemptProtocol a = NativeProtocol
      then attemptKeyVersion a \<noteq> None \<and> attemptEpayKeyId a = None \<and> requestMethod a = POST \<and>
           requestUrl a = None \<and> attemptRequestFingerprint a = None
      else attemptKeyVersion a = None \<and> attemptEpayKeyId a \<noteq> None \<and> requestMethod a = GET \<and>
           requestUrl a \<noteq> None \<and> attemptRequestFingerprint a \<noteq> None)"

definition outcomeChecks :: "attempt_row \<Rightarrow> bool" where
  "outcomeChecks a \<longleftrightarrow>
     (let v = attemptEvidence a in
      case attemptOutcome a of
        STARTED \<Rightarrow> v = noEvidence \<and> finishedAt a = None
      | AttemptAcknowledged \<Rightarrow>
          (case httpStatus v of None \<Rightarrow> False
           | Some s \<Rightarrow> if attemptProtocol a = NativeProtocol then s = 200 else 200 \<le> s \<and> s \<le> 299) \<and>
          responseBytes v \<noteq> None \<and> responseFingerprint v \<noteq> None \<and> ackCode v = Some ''acknowledged'' \<and>
          errorCode v = None \<and> finishedAt a \<noteq> None
      | _ \<Rightarrow> errorCode v \<noteq> None \<and> finishedAt a \<noteq> None)"

definition attemptChecks :: "attempt_row \<Rightarrow> bool" where
  "attemptChecks a \<longleftrightarrow>
     length (attemptId a) = 36 \<and> 1 \<le> attemptNumber a \<and> length (attemptLeaseToken a) = 36 \<and>
     pred_option (\<lambda>u. 10 \<le> byteLength u \<and> byteLength u \<le> 16384) (requestUrl a) \<and>
     pred_option isHexDigest (attemptRequestFingerprint a) \<and>
     0 \<le> requestTimestamp a \<and> isHexDigest (requestBodyFingerprint a) \<and>
     evidenceChecks (attemptEvidence a) \<and> 0 \<le> startedAt a \<and>
     pred_option (\<lambda>t. startedAt a \<le> t) (finishedAt a) \<and> protocolChecks a \<and> outcomeChecks a"

definition attemptKeys :: "attempt_row list \<Rightarrow> bool" where
  "attemptKeys rows \<longleftrightarrow>
     distinct (map attemptId rows) \<and> distinct (map attemptLeaseToken rows) \<and>
     distinct (map (\<lambda>a. (attemptDeliveryId a, attemptNumber a)) rows)"

fun protocolFormat :: "epay_protocol \<Rightarrow> webhook_target_format" where
  "protocolFormat EpayProtocolV1 = EPAY_V1"
| "protocolFormat EpayProtocolV2 = EPAY_V2"

fun protocolPurpose :: "epay_protocol \<Rightarrow> credential_purpose" where
  "protocolPurpose EpayProtocolV1 = V1Key"
| "protocolPurpose EpayProtocolV2 = V2Platform"

text \<open>The triggers \<^verbatim>\<open>webhook_attempts_valid_insert\<close> and \<^verbatim>\<open>webhook_attempts_site_key_guard\<close>.\<close>

definition attemptKeyAllowed :: "notify_db \<Rightarrow> attempt_row \<Rightarrow> stored_webhook_target \<Rightarrow> bool" where
  "attemptKeyAllowed db a t \<longleftrightarrow>
     (case attemptProtocol a of
        NativeProtocol \<Rightarrow>
          targetFormat t = NATIVE_JSON_V1 \<and>
          list_ex (\<lambda>k. Some (signingKeyVersion k) = attemptKeyVersion a \<and> signingRetiredAt k = None \<and>
                     signingClientId k = targetClientId t) (signingKeys db)
      | EpayProtocol p \<Rightarrow>
          targetFormat t = protocolFormat p \<and>
          list_ex (\<lambda>c. Some (credentialId c) = attemptEpayKeyId a \<and> credentialRetiredAt c = None \<and>
                     credentialSiteId c = targetClientId t \<and> credentialPurpose c = protocolPurpose p)
            (epayCredentials db))"

definition attemptInsertAllowed :: "notify_db \<Rightarrow> attempt_row \<Rightarrow> bool" where
  "attemptInsertAllowed db a \<longleftrightarrow>
     list_ex (\<lambda>d. deliveryId d = attemptDeliveryId a \<and> deliveryStatus d = LEASED \<and>
                attemptCount d = attemptNumber a \<and> leaseToken d = Some (attemptLeaseToken a) \<and>
                (case targetWithId db (deliveryTargetId d) of
                   None \<Rightarrow> False | Some t \<Rightarrow> attemptKeyAllowed db a t)) (webhookDeliveries db)"

text \<open>The trigger \<^verbatim>\<open>webhook_attempts_valid_update\<close>.\<close>

definition attemptUpdateAllowed :: "attempt_row \<Rightarrow> attempt_row \<Rightarrow> bool" where
  "attemptUpdateAllowed old new \<longleftrightarrow>
     attemptId new = attemptId old \<and> attemptDeliveryId new = attemptDeliveryId old \<and>
     attemptNumber new = attemptNumber old \<and> attemptLeaseToken new = attemptLeaseToken old \<and>
     attemptKeyVersion new = attemptKeyVersion old \<and> attemptProtocol new = attemptProtocol old \<and>
     attemptEpayKeyId new = attemptEpayKeyId old \<and> requestMethod new = requestMethod old \<and>
     requestUrl new = requestUrl old \<and> attemptRequestFingerprint new = attemptRequestFingerprint old \<and>
     requestTimestamp new = requestTimestamp old \<and>
     requestBodyFingerprint new = requestBodyFingerprint old \<and> startedAt new = startedAt old \<and>
     attemptOutcome old = STARTED \<and> attemptOutcome new \<noteq> STARTED"

definition insertAttempt :: "attempt_row \<Rightarrow> notify_db \<Rightarrow> store_error + notify_db" where
  "insertAttempt a db =
     bindR (assertR (attemptInsertAllowed db a)
              (SqlAbort ''webhook attempt must match its lease, protocol and website key'')) (\<lambda>_.
     bindR (assertR (attemptChecks a \<and> attemptKeys (webhookAttempts db @ [a]))
              (SqlAbort ''webhook attempt insert'')) (\<lambda>_.
     Inr (db\<lparr>webhookAttempts := webhookAttempts db @ [a]\<rparr>)))"

definition updateAttempts ::
  "(attempt_row \<Rightarrow> bool) \<Rightarrow> (attempt_row \<Rightarrow> attempt_row) \<Rightarrow> notify_db \<Rightarrow> store_error + nat \<times> notify_db"
where
  "updateAttempts p f db =
     bindR (assertR (list_all (\<lambda>a. p a \<longrightarrow> attemptUpdateAllowed a (f a)) (webhookAttempts db))
              (SqlAbort ''webhook attempt transition is invalid'')) (\<lambda>_.
     bindR (assertR (list_all (\<lambda>a. p a \<longrightarrow> attemptChecks (f a)) (webhookAttempts db) \<and>
                     attemptKeys (updateRows p f (webhookAttempts db)))
              (SqlAbort ''webhook attempt update'')) (\<lambda>_.
     Inr (changes p (webhookAttempts db),
          db\<lparr>webhookAttempts := updateRows p f (webhookAttempts db)\<rparr>)))"

end
