(* ===== verification/ReconModel.thy ===== *)
theory ReconModel
  imports NotificationRows
begin

text \<open>
  \<^verbatim>\<open>src/src/reconciliation/model.ts\<close>: the vocabulary of matching ledger entries to orders, the evidence
  a decision stores and the fingerprints that identify it, and the validation of an administrator's
  decision.  Evidence is a JSON object whose members keep the order of the source; a fingerprint is
  SHA-256 (a parameter) of its text.
\<close>

subsection \<open>Limits\<close>

definition RECONCILIATION_RULE_VERSION :: int where
  "RECONCILIATION_RULE_VERSION = 3"

definition MAX_RECONCILIATION_BATCH_SIZE :: int where
  "MAX_RECONCILIATION_BATCH_SIZE = 256"

definition MAX_FINANCIAL_REASON_CHARACTERS :: nat where
  "MAX_FINANCIAL_REASON_CHARACTERS = 512"

definition MAX_FINANCIAL_REASON_BYTES :: nat where
  "MAX_FINANCIAL_REASON_BYTES = MAX_FINANCIAL_REASON_CHARACTERS * 4"

definition MAX_LATE_PAYMENT_ATTRIBUTION_MILLISECONDS :: int where
  "MAX_LATE_PAYMENT_ATTRIBUTION_MILLISECONDS = 24 * 60 * 60 * 1000"

subsection \<open>Kinds and states\<close>

datatype candidate_status = ELIGIBLE | SELECTED | SUPERSEDED

datatype match_status = SETTLED | REVERSED

datatype financial_operation_type =
    AUTO_SETTLEMENT
  | SUPERSEDE_CANDIDATE
  | MANUAL_SETTLEMENT
  | REVERSE_SETTLEMENT
  | RECORD_REFUND

datatype financial_exception_type =
    UNMATCHED_CREDIT
  | UNMATCHED_DEBIT
  | AMBIGUOUS_MATCH
  | CHECKOUT_ENDED_PAYMENT
  | DUPLICATE_PAYMENT
  | AMOUNT_MISMATCH
  | UNLINKED_REFUND
  | RECONCILIATION_CONFLICT

datatype evidence_type = AMOUNT_INFERRED | MANUAL

datatype financial_actor = FinancialSystem | FinancialAdmin

datatype exception_status = OpenException | ResolvedException

fun operationTypeText :: "financial_operation_type \<Rightarrow> string" where
  "operationTypeText AUTO_SETTLEMENT = ''AUTO_SETTLEMENT''"
| "operationTypeText SUPERSEDE_CANDIDATE = ''SUPERSEDE_CANDIDATE''"
| "operationTypeText MANUAL_SETTLEMENT = ''MANUAL_SETTLEMENT''"
| "operationTypeText REVERSE_SETTLEMENT = ''REVERSE_SETTLEMENT''"
| "operationTypeText RECORD_REFUND = ''RECORD_REFUND''"

fun exceptionTypeText :: "financial_exception_type \<Rightarrow> string" where
  "exceptionTypeText UNMATCHED_CREDIT = ''UNMATCHED_CREDIT''"
| "exceptionTypeText UNMATCHED_DEBIT = ''UNMATCHED_DEBIT''"
| "exceptionTypeText AMBIGUOUS_MATCH = ''AMBIGUOUS_MATCH''"
| "exceptionTypeText CHECKOUT_ENDED_PAYMENT = ''CHECKOUT_ENDED_PAYMENT''"
| "exceptionTypeText DUPLICATE_PAYMENT = ''DUPLICATE_PAYMENT''"
| "exceptionTypeText AMOUNT_MISMATCH = ''AMOUNT_MISMATCH''"
| "exceptionTypeText UNLINKED_REFUND = ''UNLINKED_REFUND''"
| "exceptionTypeText RECONCILIATION_CONFLICT = ''RECONCILIATION_CONFLICT''"

fun financialActorText :: "financial_actor \<Rightarrow> string" where
  "financialActorText FinancialSystem = ''SYSTEM''"
| "financialActorText FinancialAdmin = ''ADMIN''"

lemma operationTypeText_inject [simp]: "operationTypeText t = operationTypeText u \<longleftrightarrow> t = u"
  by (cases t; cases u) simp_all

lemma exceptionTypeText_inject [simp]: "exceptionTypeText t = exceptionTypeText u \<longleftrightarrow> t = u"
  by (cases t; cases u) simp_all

lemma financialActorText_inject [simp]: "financialActorText t = financialActorText u \<longleftrightarrow> t = u"
  by (cases t; cases u) simp_all

subsection \<open>JSON objects\<close>

abbreviation jtext :: "string \<Rightarrow> json" where
  "jtext s \<equiv> JStr (js s)"

definition jtextOption :: "jstr option \<Rightarrow> json" where
  "jtextOption x = (case x of None \<Rightarrow> JNull | Some s \<Rightarrow> JStr s)"

definition jintOption :: "int option \<Rightarrow> json" where
  "jintOption x = (case x of None \<Rightarrow> JNull | Some n \<Rightarrow> JInt n)"

definition jobject :: "(string \<times> json) list \<Rightarrow> json" where
  "jobject members = JObj (map (\<lambda>(k, v). (js k, v)) members)"

definition sha256Json :: "(nat list \<Rightarrow> string) \<Rightarrow> json \<Rightarrow> string" where
  "sha256Json sha v = sha (utf8 (stringify v))"

subsection \<open>Evidence and fingerprints\<close>

record candidate_fingerprint_input =
  inProviderAccountKey :: string
  inLedgerEntryId :: string
  inLedgerSemanticFingerprint :: string
  inOccurredAt :: int
  inOccurredAtPrecision :: int
  inAmountCents :: int
  inOrderId :: string
  inCollectionProfileId :: string
  inSlotId :: string
  inSlotGeneration :: int
  inSlotOccupiedFrom :: int
  inSlotReleasedAt :: "int option"

definition candidateEvidence :: "candidate_fingerprint_input \<Rightarrow> json" where
  "candidateEvidence i = jobject
     [(''schema'', jtext ''perpay:match-candidate:v3''),
      (''rule_version'', JInt RECONCILIATION_RULE_VERSION),
      (''provider_account_key'', jtext (inProviderAccountKey i)),
      (''ledger_entry_id'', jtext (inLedgerEntryId i)),
      (''ledger_semantic_fingerprint'', jtext (inLedgerSemanticFingerprint i)),
      (''occurred_at'', JInt (inOccurredAt i)),
      (''occurred_at_precision_milliseconds'', JInt (inOccurredAtPrecision i)),
      (''occurred_at_interval_end_exclusive'', JInt (inOccurredAt i + inOccurredAtPrecision i)),
      (''amount_cents'', JInt (inAmountCents i)),
      (''order_id'', jtext (inOrderId i)),
      (''collection_profile_id'', jtext (inCollectionProfileId i)),
      (''slot_id'', jtext (inSlotId i)),
      (''slot_generation'', JInt (inSlotGeneration i)),
      (''slot_occupied_from'', JInt (inSlotOccupiedFrom i)),
      (''slot_released_at'', jintOption (inSlotReleasedAt i)),
      (''evidence_type'', jtext ''AMOUNT_INFERRED'')]"

definition candidateFingerprint :: "(nat list \<Rightarrow> string) \<Rightarrow> candidate_fingerprint_input \<Rightarrow> string" where
  "candidateFingerprint sha i = sha256Json sha (candidateEvidence i)"

record operation_fingerprint_input =
  inOperationType :: financial_operation_type
  inActorType :: financial_actor
  inActorId :: "jstr option"
  inOperationOrderId :: "string option"
  inOperationEntryId :: "string option"
  inCandidateId :: "string option"
  inPaymentMatchId :: "string option"
  inReversesOperationId :: "string option"
  inReason :: "jstr option"

definition financialOperationEvidence :: "operation_fingerprint_input \<Rightarrow> json" where
  "financialOperationEvidence i = jobject
     [(''schema'', jtext ''perpay:financial-operation:v1''),
      (''operation_type'', jtext (operationTypeText (inOperationType i))),
      (''actor_type'', jtext (financialActorText (inActorType i))),
      (''actor_id'', jtextOption (inActorId i)),
      (''order_id'', jnull (inOperationOrderId i)),
      (''ledger_entry_id'', jnull (inOperationEntryId i)),
      (''candidate_id'', jnull (inCandidateId i)),
      (''payment_match_id'', jnull (inPaymentMatchId i)),
      (''reverses_operation_id'', jnull (inReversesOperationId i)),
      (''reason'', jtextOption (inReason i))]"

definition financialOperationFingerprint :: "(nat list \<Rightarrow> string) \<Rightarrow> operation_fingerprint_input \<Rightarrow> string" where
  "financialOperationFingerprint sha i = sha256Json sha (financialOperationEvidence i)"

definition manualSettlementEvidence :: "string \<Rightarrow> jstr \<Rightarrow> jstr option \<Rightarrow> json" where
  "manualSettlementEvidence operation actor reason = jobject
     [(''schema'', jtext (if reason = None then ''perpay:manual-settlement:v2''
                         else ''perpay:manual-settlement:v1'')),
      (''financial_operation_id'', jtext operation),
      (''actor_id'', JStr actor),
      (''reason'', jtextOption reason)]"

definition refundRecordEvidence :: "string \<Rightarrow> jstr \<Rightarrow> jstr \<Rightarrow> json" where
  "refundRecordEvidence operation actor reason = jobject
     [(''schema'', jtext ''perpay:refund-record:v1''),
      (''financial_operation_id'', jtext operation),
      (''actor_id'', JStr actor),
      (''reason'', JStr reason)]"

record exception_fingerprint_input =
  exProviderAccountKey :: string
  exExceptionType :: financial_exception_type
  exLedgerEntryId :: "string option"
  exOrderId :: "string option"
  exCandidateId :: "string option"
  exContextKey :: string

definition financialExceptionFingerprint :: "(nat list \<Rightarrow> string) \<Rightarrow> exception_fingerprint_input \<Rightarrow> string" where
  "financialExceptionFingerprint sha i = sha256Json sha (jobject
     [(''schema'', jtext ''perpay:financial-exception:v1''),
      (''rule_version'', JInt RECONCILIATION_RULE_VERSION),
      (''provider_account_key'', jtext (exProviderAccountKey i)),
      (''exception_type'', jtext (exceptionTypeText (exExceptionType i))),
      (''ledger_entry_id'', jnull (exLedgerEntryId i)),
      (''order_id'', jnull (exOrderId i)),
      (''candidate_id'', jnull (exCandidateId i)),
      (''context_key'', jtext (exContextKey i))])"

definition fingerprintFinancialExceptionJson :: "(nat list \<Rightarrow> string) \<Rightarrow> string \<Rightarrow> json \<Rightarrow> string" where
  "fingerprintFinancialExceptionJson sha kind v =
     sha (map of_char (''perpay:financial-exception-'' @ kind @ '':v1'') @ [0] @ utf8 (stringify v))"

definition financialExceptionDetailsFingerprint :: "(nat list \<Rightarrow> string) \<Rightarrow> json \<Rightarrow> string" where
  "financialExceptionDetailsFingerprint sha v = fingerprintFinancialExceptionJson sha ''details'' v"

definition financialExceptionResolutionFingerprint :: "(nat list \<Rightarrow> string) \<Rightarrow> json \<Rightarrow> string" where
  "financialExceptionResolutionFingerprint sha v = fingerprintFinancialExceptionJson sha ''resolution'' v"

definition outboxPayloadFingerprint :: "(nat list \<Rightarrow> string) \<Rightarrow> json \<Rightarrow> string" where
  "outboxPayloadFingerprint sha payload = sha (utf8 (stringify payload))"

subsection \<open>An administrator's decision\<close>

text \<open>\<^verbatim>\<open>financialDecisionReasonSchema\<close>: the length is in UTF-16 units.\<close>

definition financialDecisionReasonSchema :: "jstr \<Rightarrow> bool" where
  "financialDecisionReasonSchema reason \<longleftrightarrow>
     1 \<le> length reason \<and> length reason \<le> MAX_FINANCIAL_REASON_CHARACTERS \<and> reason = trim reason \<and>
     \<not> hasControlCharacter reason \<and> byteLength reason \<le> MAX_FINANCIAL_REASON_BYTES"

text \<open>
  \<^verbatim>\<open>optionalManualSettlementReasonSchema\<close>: \<open>None\<close> stands for a missing or null note, and a note of
  white space becomes null.  The result is \<open>None\<close> when the schema rejects.
\<close>

definition optionalManualSettlementReasonSchema :: "jstr option \<Rightarrow> jstr option option" where
  "optionalManualSettlementReasonSchema reason =
     (case reason of
        None \<Rightarrow> Some None
      | Some text \<Rightarrow>
          if length text > MAX_FINANCIAL_REASON_CHARACTERS then None
          else if trim text = [] then Some None
          else if financialDecisionReasonSchema text then Some (Some text)
          else None)"

definition validateAdministratorOperationInput :: "jstr \<Rightarrow> jstr option \<Rightarrow> bool \<Rightarrow> store_error + unit" where
  "validateAdministratorOperationInput actor reason optionalReason =
     assertR (\<not> (length actor < 1 \<or> length actor > 128 \<or> 0 \<in> set actor \<or>
              (case reason of
                 None \<Rightarrow> \<not> optionalReason
               | Some text \<Rightarrow>
                   length text < 1 \<or> length text > 512 \<or> byteLength text > MAX_FINANCIAL_REASON_BYTES \<or>
                   text \<noteq> trim text \<or> hasControlCharacter text)))
       (RangeFailure ''financial decision input is invalid'')"

definition requireIdentifier :: "string \<Rightarrow> string \<Rightarrow> store_error + unit" where
  "requireIdentifier text label = assertR (isUuidV4 text) (RangeFailure (label @ '' is invalid''))"

lemma requireIdentifier_Inr_iff [result_simps]: "requireIdentifier text label = Inr u \<longleftrightarrow> isUuidV4 text"
  by (simp add: requireIdentifier_def assertR_Inr_iff)

record manual_settlement_input =
  msExpectedClientId :: "jstr option"
  msFinancialOperationId :: string
  msOrderId :: string
  msLedgerEntryId :: string
  msActorId :: jstr
  msReason :: "jstr option"

record financial_decision_input =
  fdExpectedClientId :: "jstr option"
  fdFinancialOperationId :: string
  fdPaymentMatchId :: string
  fdActorId :: jstr
  fdReason :: jstr

definition validateManualSettlementInput :: "manual_settlement_input \<Rightarrow> store_error + jstr option" where
  "validateManualSettlementInput i =
     bindR (requireIdentifier (msFinancialOperationId i) ''financial operation ID'') (\<lambda>_.
     bindR (requireIdentifier (msOrderId i) ''payment order ID'') (\<lambda>_.
     bindR (requireIdentifier (msLedgerEntryId i) ''ledger entry ID'') (\<lambda>_.
     (case optionalManualSettlementReasonSchema (msReason i) of
        None \<Rightarrow> Inl (RangeFailure ''financial decision input is invalid'')
      | Some reason \<Rightarrow>
          bindR (validateAdministratorOperationInput (msActorId i) reason True) (\<lambda>_. Inr reason)))))"

definition validateDecisionInput :: "financial_decision_input \<Rightarrow> store_error + unit" where
  "validateDecisionInput i =
     bindR (requireIdentifier (fdFinancialOperationId i) ''financial operation ID'') (\<lambda>_.
     bindR (requireIdentifier (fdPaymentMatchId i) ''payment match ID'') (\<lambda>_.
     validateAdministratorOperationInput (fdActorId i) (Some (fdReason i)) False))"

subsection \<open>A fingerprint determines what it covers\<close>

lemma js_inject [simp]: "js s = js t \<longleftrightarrow> s = t"
proof -
  have "inj (\<lambda>c :: char. unitOf (of_char c))"
  proof (rule injI)
    fix c d :: char
    assume "unitOf (of_char c) = unitOf (of_char d)"
    then have "unat (unitOf (of_char c)) = unat (unitOf (of_char d))" by simp
    moreover have "(of_char c :: nat) < 0x10000" for c :: char
      using nat_of_char_less_256 [of c] by (rule less_trans) simp
    ultimately have "(of_char c :: nat) = of_char d" by (simp only: unat_unitOf)
    then show "c = d" by simp
  qed
  then show ?thesis by (simp add: js_def inj_map_eq_map)
qed

lemma jnull_inject [simp]: "jnull x = jnull y \<longleftrightarrow> x = y"
  by (simp add: jnull_def split: option.splits)

lemma jtextOption_inject [simp]: "jtextOption x = jtextOption y \<longleftrightarrow> x = y"
  by (simp add: jtextOption_def split: option.splits)

lemma jintOption_inject [simp]: "jintOption x = jintOption y \<longleftrightarrow> x = y"
  by (simp add: jintOption_def split: option.splits)

lemma sha256Json_inject: "inj sha \<Longrightarrow> sha256Json sha v = sha256Json sha w \<longleftrightarrow> v = w"
  by (simp add: sha256Json_def inj_eq stringify_utf8_inject)

lemma operationFingerprint_inject:
  "inj sha \<Longrightarrow> financialOperationFingerprint sha i = financialOperationFingerprint sha j \<longleftrightarrow> i = j"
  by (cases i; cases j)
    (auto simp: financialOperationFingerprint_def financialOperationEvidence_def sha256Json_inject jobject_def)

lemma exceptionFingerprint_inject:
  "inj sha \<Longrightarrow> financialExceptionFingerprint sha i = financialExceptionFingerprint sha j \<longleftrightarrow> i = j"
  by (cases i; cases j) (auto simp: financialExceptionFingerprint_def sha256Json_inject jobject_def)

lemma candidateFingerprint_inject:
  "inj sha \<Longrightarrow> candidateFingerprint sha i = candidateFingerprint sha j \<longleftrightarrow> i = j"
  by (cases i; cases j) (auto simp: candidateFingerprint_def candidateEvidence_def sha256Json_inject jobject_def)

end
