(* ===== verification/ReconRows.thy ===== *)
theory ReconRows
  imports ReconModel
begin

text \<open>
  The tables behind the matching of payments (\<^verbatim>\<open>src/src/database/migrations.ts\<close>): the ledger's entries
  and conflicts, the candidates, the matches with their history, the append-only financial operations,
  the double-entry transactions and postings, the exceptions and the outbox.  Each constraint or
  trigger a statement of \<^verbatim>\<open>src/src/reconciliation/store.ts\<close> can meet is a predicate, and the statement
  throws \<open>SqlAbort\<close> when it fails.

  Every amount column of these tables is in the one currency their \<open>CHECK\<close>s allow, so the currency
  columns are left out.  A JSON column is the value whose text it holds.  An automatically numbered
  history is the list itself.
\<close>

subsection \<open>Rows\<close>

datatype ledger_direction = CREDIT | DEBIT

datatype ledger_state = UNALLOCATED | CANDIDATE | ALLOCATED | CONFLICT | ISOLATED | IGNORED

record ledger_entry =
  ledgerEntryId :: string
  entryProviderKey :: string
  semanticFingerprint :: string
  entryOccurredAt :: int
  occurredAtPrecision :: int
  entryAmountCents :: int
  entryDirection :: ledger_direction
  entryState :: ledger_state
  entryUpdatedAt :: int

record ledger_conflict =
  conflictEntryId :: "string option"
  conflictOpen :: bool

record match_candidate =
  candidateId :: string
  candidateEntryId :: string
  candidateOrderId :: string
  candidateSlotId :: string
  candidateRuleVersion :: int
  candidateEvidenceJson :: json
  storedCandidateFingerprint :: string
  candidateStatus :: candidate_status
  decidedByOperationId :: "string option"
  candidateCreatedAt :: int
  candidateUpdatedAt :: int
  decidedAt :: "int option"

record payment_match =
  paymentMatchId :: string
  pmEntryId :: string
  pmOrderId :: string
  pmCandidateId :: "string option"
  pmEvidenceType :: evidence_type
  pmEvidence :: json
  pmStatus :: match_status
  createdByOperationId :: string
  resolvedByOperationId :: "string option"
  pmCreatedAt :: int
  pmUpdatedAt :: int
  pmResolvedAt :: "int option"

record payment_match_event =
  historyMatchId :: string
  historyStatus :: match_status
  historyAt :: int

record financial_operation =
  financialOperationId :: string
  operationKey :: string
  operationFingerprint :: string
  operationRequest :: json
  operationType :: financial_operation_type
  operationActorType :: financial_actor
  operationActorId :: "jstr option"
  operationOrderId :: "string option"
  operationEntryId :: "string option"
  reversesOperationId :: "string option"
  operationReason :: "jstr option"
  operationCreatedAt :: int

datatype transaction_type = SettlementTransaction | ReversalTransaction | RefundTransaction

datatype account_code = PROVIDER_CASH | ORDER_SETTLEMENT | REFUND_CLEARING

datatype posting_side = DebitSide | CreditSide

record ledger_transaction =
  transactionId :: string
  transactionOperationId :: string
  transactionOrderId :: "string option"
  transactionEntryId :: "string option"
  transactionType :: transaction_type
  transactionPosted :: bool
  transactionCreatedAt :: int
  postedAt :: "int option"

record ledger_posting =
  postingId :: string
  postingTransactionId :: string
  accountCode :: account_code
  postingSide :: posting_side
  postingAmountCents :: int
  postingOrderId :: "string option"
  postingEntryId :: "string option"
  postingCreatedAt :: int

record financial_exception =
  exceptionId :: string
  exceptionProviderKey :: string
  exceptionType :: financial_exception_type
  exceptionEntryId :: "string option"
  exceptionOrderId :: "string option"
  exceptionCandidateId :: "string option"
  contextKey :: string
  exceptionDetails :: json
  exceptionDetailsFingerprint :: string
  exceptionFingerprint :: string
  exceptionStatus :: exception_status
  resolutionOperationId :: "string option"
  exceptionResolution :: "json option"
  exceptionResolutionFingerprint :: "string option"
  exceptionCreatedAt :: int
  exceptionResolvedAt :: "int option"

record financial_audit =
  financialAuditAt :: int
  financialAuditActor :: financial_actor
  financialAuditActorId :: "jstr option"
  financialAuditType :: financial_operation_type
  financialAuditOperation :: string
  financialAuditSite :: "jstr option"
  financialAuditOrder :: "string option"
  financialAuditEntry :: "string option"
  financialAuditReverses :: "string option"
  financialAuditAmount :: "int option"

text \<open>
  \<open>bindingEndpoints\<close> holds the key and the endpoint of each row of \<^verbatim>\<open>provider_account_bindings\<close>,
  \<open>liveSites\<close> the client identifiers of the websites that are not deleted.
\<close>

record recon_db =
  orderSide :: order_db
  bindingEndpoints :: "(string \<times> string) list"
  liveSites :: "jstr list"
  ledgerEntries :: "ledger_entry list"
  ledgerConflicts :: "ledger_conflict list"
  financialOperations :: "financial_operation list"
  matchCandidates :: "match_candidate list"
  matches :: "payment_match list"
  matchEvents :: "payment_match_event list"
  ledgerTransactions :: "ledger_transaction list"
  ledgerPostings :: "ledger_posting list"
  financialExceptions :: "financial_exception list"
  outbox :: "outbox_event list"
  financialAudits :: "financial_audit list"

text \<open>
  What a transaction takes from outside: the caller's clock if it passes one, SQLite's clock,
  SHA-256, and the identifiers \<^verbatim>\<open>randomUUID\<close> returns (\<open>freshId use n\<close> for the row that becomes the
  \<open>n\<close>-th of its table).
\<close>

datatype id_use =
    ForCandidate
  | ForOperation
  | ForMatch
  | ForTransaction
  | ForPosting
  | ForException
  | ForOrderEvent
  | ForOutboxEvent

record recon_env =
  nowInput :: "int option"
  databaseClock :: int
  reconSha :: "nat list \<Rightarrow> string"
  freshId :: "id_use \<Rightarrow> nat \<Rightarrow> string"

subsection \<open>Column checks\<close>

definition isSha256Text :: "string \<Rightarrow> bool" where
  "isSha256Text text \<longleftrightarrow> length text = 64 \<and> list_all isLowerHex text"

definition jsonFits :: "nat \<Rightarrow> json \<Rightarrow> bool" where
  "jsonFits limit v \<longleftrightarrow> byteLength (stringify v) \<le> limit"

text \<open>
  \<open>length(x) BETWEEN 1 AND n AND instr(x, char(0)) = 0\<close> on text: SQLite counts characters.
\<close>

definition sqlTextWithin :: "nat \<Rightarrow> jstr \<Rightarrow> bool" where
  "sqlTextWithin n text \<longleftrightarrow>
     1 \<le> unicodeCharacterCount text \<and> unicodeCharacterCount text \<le> n \<and> 0 \<notin> set text"

subsection \<open>Look-ups\<close>

definition orders :: "recon_db \<Rightarrow> payment_order list" where
  "orders db = paymentOrders (orderSide db)"

definition slots :: "recon_db \<Rightarrow> amount_slot list" where
  "slots db = amountSlots (orderSide db)"

definition orderWithId :: "recon_db \<Rightarrow> string \<Rightarrow> payment_order option" where
  "orderWithId db oid = List.find (\<lambda>r. orderId r = oid) (orders db)"

definition entryWithId :: "recon_db \<Rightarrow> string \<Rightarrow> ledger_entry option" where
  "entryWithId db eid = List.find (\<lambda>e. ledgerEntryId e = eid) (ledgerEntries db)"

definition operationWithId :: "recon_db \<Rightarrow> string \<Rightarrow> financial_operation option" where
  "operationWithId db fid = List.find (\<lambda>f. financialOperationId f = fid) (financialOperations db)"

definition profileUsesKey :: "recon_db \<Rightarrow> string \<Rightarrow> string \<Rightarrow> bool" where
  "profileUsesKey db profile key \<longleftrightarrow> (profile, key) \<in> set (profileProviderLinks (orderSide db))"

definition hasOpenConflict :: "recon_db \<Rightarrow> string \<Rightarrow> bool" where
  "hasOpenConflict db eid \<longleftrightarrow>
     list_ex (\<lambda>c. conflictEntryId c = Some eid \<and> conflictOpen c) (ledgerConflicts db)"

text \<open>
  The time window shared by the queries and the triggers: the instants the provider's timestamp can
  stand for overlap the order's payment window and its slot's occupation.
\<close>

definition paymentInWindow :: "ledger_entry \<Rightarrow> payment_order \<Rightarrow> amount_slot \<Rightarrow> bool" where
  "paymentInWindow e ord slot \<longleftrightarrow>
     entryOccurredAt e + occurredAtPrecision e > eligibleFrom ord \<and>
     entryOccurredAt e + occurredAtPrecision e > occupiedFrom slot \<and>
     entryOccurredAt e < expiresAt ord \<and>
     (case releasedAt slot of None \<Rightarrow> True | Some t \<Rightarrow> entryOccurredAt e < t)"

subsection \<open>Financial operations\<close>

text \<open>
  The keys, \<open>CHECK\<close>s and references of \<^verbatim>\<open>financial_operations\<close> and its triggers
  \<^verbatim>\<open>financial_operations_valid_insert\<close> and \<^verbatim>\<open>financial_operations_reason_required\<close>.
\<close>

definition operationChecks :: "financial_operation \<Rightarrow> bool" where
  "operationChecks f \<longleftrightarrow>
     length (financialOperationId f) = 36 \<and>
     1 \<le> length (operationKey f) \<and> length (operationKey f) \<le> 128 \<and>
     isSha256Text (operationFingerprint f) \<and> jsonFits 8192 (operationRequest f) \<and>
     (case operationActorId f of None \<Rightarrow> True | Some a \<Rightarrow> sqlTextWithin 128 a) \<and>
     (case operationReason f of None \<Rightarrow> True | Some r \<Rightarrow> sqlTextWithin 512 r) \<and>
     0 \<le> operationCreatedAt f \<and>
     (operationActorType f = FinancialSystem \<longleftrightarrow> operationActorId f = None) \<and>
     (operationType f = REVERSE_SETTLEMENT \<longleftrightarrow> reversesOperationId f \<noteq> None) \<and>
     (operationType f = RECORD_REFUND \<or> operationOrderId f \<noteq> None \<and> operationEntryId f \<noteq> None)"

definition operationInsertAllowed :: "financial_operation \<Rightarrow> recon_db \<Rightarrow> bool" where
  "operationInsertAllowed f db \<longleftrightarrow>
     operationChecks f \<and>
     \<not> list_ex (\<lambda>g. financialOperationId g = financialOperationId f \<or> operationKey g = operationKey f \<or>
                  reversesOperationId f \<noteq> None \<and> reversesOperationId g = reversesOperationId f)
        (financialOperations db) \<and>
     (case operationOrderId f of None \<Rightarrow> True | Some oid \<Rightarrow> orderWithId db oid \<noteq> None) \<and>
     (case operationEntryId f of None \<Rightarrow> True | Some eid \<Rightarrow> entryWithId db eid \<noteq> None) \<and>
     (if operationType f \<in> {AUTO_SETTLEMENT, SUPERSEDE_CANDIDATE} then operationActorType f = FinancialSystem
      else operationActorType f = FinancialAdmin) \<and>
     (case reversesOperationId f of
        None \<Rightarrow> True
      | Some rid \<Rightarrow>
          list_ex (\<lambda>g. financialOperationId g = rid \<and> operationType g \<in> {AUTO_SETTLEMENT, MANUAL_SETTLEMENT} \<and>
                     operationOrderId g = operationOrderId f \<and> operationEntryId g = operationEntryId f)
            (financialOperations db)) \<and>
     \<not> (operationActorType f = FinancialAdmin \<and> operationType f \<noteq> MANUAL_SETTLEMENT \<and> operationReason f = None)"

subsection \<open>Candidates\<close>

text \<open>The table's checks and keys and the trigger \<^verbatim>\<open>match_candidates_valid_insert\<close>.\<close>

definition candidateInsertAllowed :: "match_candidate \<Rightarrow> recon_db \<Rightarrow> bool" where
  "candidateInsertAllowed c db \<longleftrightarrow>
     length (candidateId c) = 36 \<and> candidateRuleVersion c = 3 \<and> jsonFits 8192 (candidateEvidenceJson c) \<and>
     isSha256Text (storedCandidateFingerprint c) \<and>
     0 \<le> candidateCreatedAt c \<and> candidateCreatedAt c \<le> candidateUpdatedAt c \<and>
     candidateStatus c = ELIGIBLE \<and> decidedByOperationId c = None \<and> decidedAt c = None \<and>
     \<not> list_ex (\<lambda>d. candidateId d = candidateId c \<or>
                  storedCandidateFingerprint d = storedCandidateFingerprint c \<or>
                  candidateEntryId d = candidateEntryId c \<and> candidateOrderId d = candidateOrderId c \<and>
                  candidateSlotId d = candidateSlotId c \<and> candidateRuleVersion d = candidateRuleVersion c)
        (matchCandidates db) \<and>
     list_ex (\<lambda>e. ledgerEntryId e = candidateEntryId c \<and> entryDirection e = CREDIT \<and>
        entryState e \<in> {UNALLOCATED, CANDIDATE} \<and>
        list_ex (\<lambda>ord. orderId ord = candidateOrderId c \<and>
           profileUsesKey db (collectionProfileId ord) (entryProviderKey e) \<and>
           entryAmountCents e = payableAmountCents ord \<and> paymentStatus ord = UNPAID \<and>
           list_ex (\<lambda>s. slotId s = candidateSlotId c \<and> paymentInWindow e ord s \<and> slotOrderId s = orderId ord \<and>
              slotProfileId s = collectionProfileId ord \<and> slotAmountCents s = payableAmountCents ord) (slots db))
          (orders db))
       (ledgerEntries db)"

text \<open>
  The triggers on deciding a candidate: \<^verbatim>\<open>match_candidates_status_transition\<close>,
  \<^verbatim>\<open>match_candidates_decision_operation\<close> and \<^verbatim>\<open>match_candidates_updated_at_monotonic\<close>, the
  uniqueness of the deciding operation and the table's checks.
\<close>

definition candidateDecisionAllowed ::
  "candidate_status \<Rightarrow> string \<Rightarrow> int \<Rightarrow> match_candidate \<Rightarrow> recon_db \<Rightarrow> bool"
where
  "candidateDecisionAllowed status operation now c db \<longleftrightarrow>
     candidateStatus c = ELIGIBLE \<and> status \<noteq> ELIGIBLE \<and> candidateUpdatedAt c \<le> now \<and>
     candidateCreatedAt c \<le> now \<and>
     \<not> list_ex (\<lambda>d. candidateId d \<noteq> candidateId c \<and> decidedByOperationId d = Some operation) (matchCandidates db) \<and>
     list_ex (\<lambda>f. financialOperationId f = operation \<and> operationOrderId f = Some (candidateOrderId c) \<and>
        operationEntryId f = Some (candidateEntryId c) \<and>
        (status = SELECTED \<and> operationType f = AUTO_SETTLEMENT \<or>
         status = SUPERSEDED \<and> operationType f = SUPERSEDE_CANDIDATE)) (financialOperations db)"

subsection \<open>Matches\<close>

text \<open>
  An order that is already paid and whose window, amount and provider key fit the entry: the
  \<open>NOT EXISTS\<close> of \<^verbatim>\<open>payment_matches_valid_insert\<close>, which reads the key off the profile itself.
\<close>

definition settledElsewhere :: "ledger_entry \<Rightarrow> payment_order \<Rightarrow> recon_db \<Rightarrow> bool" where
  "settledElsewhere e ord db \<longleftrightarrow>
     list_ex (\<lambda>other. orderId other \<noteq> orderId ord \<and> paymentStatus other \<noteq> UNPAID \<and>
        list_ex (\<lambda>s. slotOrderId s = orderId other \<and> slotProfileId s = collectionProfileId other \<and>
           slotAmountCents s = payableAmountCents other \<and> slotAmountCents s = entryAmountCents e \<and>
           paymentInWindow e other s \<and>
           list_ex (\<lambda>p. profileId p = slotProfileId s \<and> providerAccountKey p = entryProviderKey e)
             (collectionProfiles (orderSide db))) (slots db)) (orders db)"

definition activeCandidates :: "recon_db \<Rightarrow> string \<Rightarrow> match_candidate list" where
  "activeCandidates db eid =
     filter (\<lambda>c. candidateEntryId c = eid \<and> candidateStatus c \<noteq> SUPERSEDED) (matchCandidates db)"

definition autoMatchSupported ::
  "payment_match \<Rightarrow> financial_operation \<Rightarrow> ledger_entry \<Rightarrow> payment_order \<Rightarrow> recon_db \<Rightarrow> bool"
where
  "autoMatchSupported m f e ord db \<longleftrightarrow>
     pmStatus m = SETTLED \<and> entryState e \<in> {UNALLOCATED, CANDIDATE} \<and> entryDirection e = CREDIT \<and>
     paymentStatus ord = UNPAID \<and> paymentBasis ord = BasisNone \<and> receivedAmountCents ord = None \<and>
     \<not> hasOpenConflict db (pmEntryId m) \<and>
     length (activeCandidates db (pmEntryId m)) = 1 \<and>
     entryAmountCents e = payableAmountCents ord \<and> \<not> settledElsewhere e ord db \<and>
     operationType f = AUTO_SETTLEMENT \<and> pmEvidenceType m = AMOUNT_INFERRED \<and>
     (case pmCandidateId m of
        None \<Rightarrow> False
      | Some cid \<Rightarrow>
          list_ex (\<lambda>c. candidateId c = cid \<and> candidateEntryId c = pmEntryId m \<and>
             candidateOrderId c = pmOrderId m \<and> candidateStatus c = SELECTED \<and>
             decidedByOperationId c = Some (createdByOperationId m) \<and>
             candidateEvidenceJson c = pmEvidence m) (matchCandidates db))"

definition manualMatchSupported :: "payment_match \<Rightarrow> financial_operation \<Rightarrow> ledger_entry \<Rightarrow> bool" where
  "manualMatchSupported m f e \<longleftrightarrow>
     pmStatus m = SETTLED \<and> entryState e \<in> {UNALLOCATED, CANDIDATE, CONFLICT} \<and>
     operationType f = MANUAL_SETTLEMENT \<and> pmEvidenceType m = MANUAL \<and> pmCandidateId m = None"

text \<open>The checks, keys and partial indices of \<^verbatim>\<open>payment_matches\<close> and its insert trigger.\<close>

definition matchKeysFree :: "payment_match \<Rightarrow> recon_db \<Rightarrow> bool" where
  "matchKeysFree m db \<longleftrightarrow>
     \<not> list_ex (\<lambda>n. paymentMatchId n = paymentMatchId m \<or>
          pmCandidateId m \<noteq> None \<and> pmCandidateId n = pmCandidateId m \<or>
          createdByOperationId n = createdByOperationId m \<or>
          resolvedByOperationId n = resolvedByOperationId m \<or>
          pmStatus m = SETTLED \<and> pmStatus n = SETTLED \<and>
            (pmEntryId n = pmEntryId m \<or> pmOrderId n = pmOrderId m)) (matches db)"

definition matchInsertAllowed :: "payment_match \<Rightarrow> recon_db \<Rightarrow> bool" where
  "matchInsertAllowed m db \<longleftrightarrow>
     length (paymentMatchId m) = 36 \<and> jsonFits 8192 (pmEvidence m) \<and>
     0 \<le> pmCreatedAt m \<and> pmCreatedAt m \<le> pmUpdatedAt m \<and>
     pmResolvedAt m = Some (pmCreatedAt m) \<and> resolvedByOperationId m = Some (createdByOperationId m) \<and>
     matchKeysFree m db \<and>
     list_ex (\<lambda>f. financialOperationId f = createdByOperationId m \<and>
        operationOrderId f = Some (pmOrderId m) \<and> operationEntryId f = Some (pmEntryId m) \<and>
        list_ex (\<lambda>e. ledgerEntryId e = pmEntryId m \<and>
           list_ex (\<lambda>ord. orderId ord = pmOrderId m \<and>
              (autoMatchSupported m f e ord db \<or> manualMatchSupported m f e)) (orders db))
          (ledgerEntries db)) (financialOperations db)"

text \<open>
  \<^verbatim>\<open>payment_matches_status_transition\<close>, \<^verbatim>\<open>payment_matches_resolution_operation\<close>,
  \<^verbatim>\<open>payment_matches_updated_at_monotonic\<close> and the key of the resolving operation, for the reversal.
\<close>

definition matchReversalAllowed :: "string \<Rightarrow> int \<Rightarrow> payment_match \<Rightarrow> recon_db \<Rightarrow> bool" where
  "matchReversalAllowed operation now m db \<longleftrightarrow>
     pmStatus m = SETTLED \<and> pmUpdatedAt m \<le> now \<and> pmCreatedAt m \<le> now \<and>
     \<not> list_ex (\<lambda>n. paymentMatchId n \<noteq> paymentMatchId m \<and> resolvedByOperationId n = Some operation) (matches db) \<and>
     list_ex (\<lambda>f. financialOperationId f = operation \<and> operationOrderId f = Some (pmOrderId m) \<and>
        operationEntryId f = Some (pmEntryId m) \<and> operationType f = REVERSE_SETTLEMENT)
       (financialOperations db)"

subsection \<open>Ledger entries and orders\<close>

text \<open>The trigger \<^verbatim>\<open>ledger_entries_state_transition\<close>.\<close>

fun ledgerTransitionAllowed :: "ledger_state \<Rightarrow> ledger_state \<Rightarrow> bool" where
  "ledgerTransitionAllowed UNALLOCATED new \<longleftrightarrow> new \<in> {CANDIDATE, ALLOCATED, CONFLICT, IGNORED}"
| "ledgerTransitionAllowed CANDIDATE new \<longleftrightarrow> new \<in> {UNALLOCATED, ALLOCATED, CONFLICT, IGNORED}"
| "ledgerTransitionAllowed ALLOCATED new \<longleftrightarrow> new \<in> {UNALLOCATED, CONFLICT, IGNORED}"
| "ledgerTransitionAllowed CONFLICT new \<longleftrightarrow> new \<in> {ALLOCATED, IGNORED}"
| "ledgerTransitionAllowed ISOLATED new \<longleftrightarrow> False"
| "ledgerTransitionAllowed IGNORED new \<longleftrightarrow> False"

text \<open>The trigger \<^verbatim>\<open>payment_orders_payment_state_transition\<close>, on the rows before and after.\<close>

definition paymentTransitionAllowed :: "payment_order \<Rightarrow> payment_order \<Rightarrow> bool" where
  "paymentTransitionAllowed old new \<longleftrightarrow>
     (paymentStatus old = UNPAID \<and> paymentBasis old = BasisNone \<and> receivedAmountCents old = None \<and>
      refundStatus old = RefundNone \<and> paymentStatus new = CONFIRMED \<and>
      paymentBasis new \<in> {BasisInferred, BasisManual} \<and> receivedAmountCents new \<noteq> None \<and>
      refundStatus new = RefundNone) \<or>
     (paymentStatus old = CONFIRMED \<and> paymentStatus new = DISPUTED \<and> paymentBasis new = paymentBasis old \<and>
      receivedAmountCents old \<noteq> None \<and> receivedAmountCents new = receivedAmountCents old \<and>
      refundStatus new = refundStatus old) \<or>
     (paymentStatus old \<in> {CONFIRMED, DISPUTED} \<and> paymentStatus new = paymentStatus old \<and>
      paymentBasis new = paymentBasis old \<and> receivedAmountCents old \<noteq> None \<and>
      receivedAmountCents new = receivedAmountCents old \<and>
      (refundStatus old = RefundNone \<and> refundStatus new \<in> {RefundPartial, RefundFull} \<or>
       refundStatus old = RefundPartial \<and> refundStatus new \<in> {RefundPartial, RefundFull}))"

text \<open>The column checks on the payment, \<^verbatim>\<open>payment_orders_version_step\<close> and the monotonic \<open>updated_at\<close>.\<close>

definition paymentUpdateAllowed :: "payment_order \<Rightarrow> payment_order \<Rightarrow> bool" where
  "paymentUpdateAllowed old new \<longleftrightarrow>
     (case receivedAmountCents new of None \<Rightarrow> True | Some n \<Rightarrow> 1 \<le> n \<and> n \<le> 9999999999) \<and>
     (paymentStatus new = UNPAID \<and> paymentBasis new = BasisNone \<and> receivedAmountCents new = None \<or>
      paymentStatus new \<noteq> UNPAID \<and> paymentBasis new \<noteq> BasisNone \<and> receivedAmountCents new \<noteq> None) \<and>
     version new = version old + 1 \<and> updatedAt old \<le> updatedAt new \<and> createdAt new \<le> updatedAt new \<and>
     paymentTransitionAllowed old new"

subsection \<open>Double-entry transactions\<close>

fun transactionOfOperation :: "transaction_type \<Rightarrow> financial_operation_type \<Rightarrow> bool" where
  "transactionOfOperation SettlementTransaction ty \<longleftrightarrow> ty \<in> {AUTO_SETTLEMENT, MANUAL_SETTLEMENT}"
| "transactionOfOperation ReversalTransaction ty \<longleftrightarrow> ty = REVERSE_SETTLEMENT"
| "transactionOfOperation RefundTransaction ty \<longleftrightarrow> ty = RECORD_REFUND"

text \<open>The table's keys and the trigger \<^verbatim>\<open>ledger_transactions_draft_insert\<close>.\<close>

definition draftAllowed :: "ledger_transaction \<Rightarrow> recon_db \<Rightarrow> bool" where
  "draftAllowed t db \<longleftrightarrow>
     length (transactionId t) = 36 \<and> 0 \<le> transactionCreatedAt t \<and>
     \<not> transactionPosted t \<and> postedAt t = None \<and>
     \<not> list_ex (\<lambda>u. transactionId u = transactionId t \<or>
          transactionOperationId u = transactionOperationId t) (ledgerTransactions db) \<and>
     list_ex (\<lambda>f. financialOperationId f = transactionOperationId t \<and>
        operationOrderId f = transactionOrderId t \<and> operationEntryId f = transactionEntryId t \<and>
        transactionOfOperation (transactionType t) (operationType f)) (financialOperations db)"

text \<open>The table's keys and the trigger \<^verbatim>\<open>ledger_postings_draft_only\<close>.\<close>

definition postingAllowed :: "ledger_posting \<Rightarrow> recon_db \<Rightarrow> bool" where
  "postingAllowed p db \<longleftrightarrow>
     length (postingId p) = 36 \<and> 1 \<le> postingAmountCents p \<and> postingAmountCents p \<le> 999999999999 \<and>
     0 \<le> postingCreatedAt p \<and>
     \<not> list_ex (\<lambda>q. postingId q = postingId p \<or>
          postingTransactionId q = postingTransactionId p \<and> accountCode q = accountCode p \<and>
          postingSide q = postingSide p) (ledgerPostings db) \<and>
     list_ex (\<lambda>t. transactionId t = postingTransactionId p \<and> \<not> transactionPosted t \<and>
        transactionOrderId t = postingOrderId p \<and> transactionEntryId t = postingEntryId p)
       (ledgerTransactions db)"

definition postingsOf :: "recon_db \<Rightarrow> string \<Rightarrow> ledger_posting list" where
  "postingsOf db tid = filter (\<lambda>p. postingTransactionId p = tid) (ledgerPostings db)"

definition sideTotal :: "posting_side \<Rightarrow> ledger_posting list \<Rightarrow> int" where
  "sideTotal side ps = sum_list (map postingAmountCents (filter (\<lambda>p. postingSide p = side) ps))"

definition hasPosting :: "account_code \<Rightarrow> posting_side \<Rightarrow> int \<Rightarrow> ledger_posting list \<Rightarrow> bool" where
  "hasPosting account side amount ps \<longleftrightarrow>
     list_ex (\<lambda>p. accountCode p = account \<and> postingSide p = side \<and> postingAmountCents p = amount) ps"

fun postsEntry :: "transaction_type \<Rightarrow> ledger_entry \<Rightarrow> ledger_posting list \<Rightarrow> bool" where
  "postsEntry SettlementTransaction e ps \<longleftrightarrow> entryDirection e = CREDIT \<and>
     hasPosting PROVIDER_CASH DebitSide (entryAmountCents e) ps \<and>
     hasPosting ORDER_SETTLEMENT CreditSide (entryAmountCents e) ps"
| "postsEntry ReversalTransaction e ps \<longleftrightarrow> entryDirection e = CREDIT \<and>
     hasPosting ORDER_SETTLEMENT DebitSide (entryAmountCents e) ps \<and>
     hasPosting PROVIDER_CASH CreditSide (entryAmountCents e) ps"
| "postsEntry RefundTransaction e ps \<longleftrightarrow> entryDirection e = DEBIT \<and>
     hasPosting REFUND_CLEARING DebitSide (entryAmountCents e) ps \<and>
     hasPosting PROVIDER_CASH CreditSide (entryAmountCents e) ps"

text \<open>The trigger \<^verbatim>\<open>ledger_transactions_post_balanced\<close>.\<close>

definition postAllowed :: "ledger_transaction \<Rightarrow> int \<Rightarrow> recon_db \<Rightarrow> bool" where
  "postAllowed t now db \<longleftrightarrow>
     \<not> transactionPosted t \<and> transactionCreatedAt t \<le> now \<and>
     (let ps = postingsOf db (transactionId t)
      in length ps \<ge> 2 \<and> sideTotal DebitSide ps = sideTotal CreditSide ps \<and> length ps = 2 \<and>
         list_ex (\<lambda>e. transactionEntryId t = Some (ledgerEntryId e) \<and> postsEntry (transactionType t) e ps)
           (ledgerEntries db))"

subsection \<open>Exceptions and the outbox\<close>

text \<open>The table's checks and keys and the insert triggers of \<^verbatim>\<open>financial_exceptions\<close>.\<close>

definition exceptionInsertAllowed :: "financial_exception \<Rightarrow> recon_db \<Rightarrow> bool" where
  "exceptionInsertAllowed x db \<longleftrightarrow>
     length (exceptionId x) = 36 \<and>
     1 \<le> length (exceptionProviderKey x) \<and> length (exceptionProviderKey x) \<le> 128 \<and>
     1 \<le> length (contextKey x) \<and> length (contextKey x) \<le> 128 \<and>
     jsonFits 8192 (exceptionDetails x) \<and> isSha256Text (exceptionDetailsFingerprint x) \<and>
     isSha256Text (exceptionFingerprint x) \<and>
     exceptionStatus x = OpenException \<and> resolutionOperationId x = None \<and> exceptionResolution x = None \<and>
     exceptionResolutionFingerprint x = None \<and> exceptionResolvedAt x = None \<and> 0 \<le> exceptionCreatedAt x \<and>
     \<not> list_ex (\<lambda>y. exceptionId y = exceptionId x \<or> exceptionFingerprint y = exceptionFingerprint x)
        (financialExceptions db) \<and>
     (case exceptionEntryId x of
        None \<Rightarrow> True
      | Some eid \<Rightarrow> list_ex (\<lambda>e. ledgerEntryId e = eid \<and> entryProviderKey e = exceptionProviderKey x)
                     (ledgerEntries db)) \<and>
     (case exceptionOrderId x of None \<Rightarrow> True | Some oid \<Rightarrow> orderWithId db oid \<noteq> None) \<and>
     (case exceptionCandidateId x of
        None \<Rightarrow> True
      | Some cid \<Rightarrow> list_ex (\<lambda>c. candidateId c = cid \<and> Some (candidateEntryId c) = exceptionEntryId x \<and>
                     Some (candidateOrderId c) = exceptionOrderId x) (matchCandidates db))"

text \<open>
  The trigger \<^verbatim>\<open>financial_exceptions_resolution_once\<close>; the resolution of a foreign order is accepted
  when it names the match of the settlement that supersedes it.
\<close>

definition resolutionJson :: "string \<Rightarrow> string \<Rightarrow> json" where
  "resolutionJson resolution match =
     jobject [(''resolution'', jtext resolution), (''payment_match_id'', jtext match)]"

definition exceptionResolutionAllowed ::
  "string \<Rightarrow> string \<Rightarrow> string \<Rightarrow> int \<Rightarrow> financial_exception \<Rightarrow> recon_db \<Rightarrow> bool"
where
  "exceptionResolutionAllowed operation resolution match now x db \<longleftrightarrow>
     exceptionStatus x = OpenException \<and> jsonFits 8192 (resolutionJson resolution match) \<and>
     exceptionCreatedAt x \<le> now \<and>
     list_ex (\<lambda>f. financialOperationId f = operation \<and> operationEntryId f = exceptionEntryId x \<and>
        (exceptionOrderId x = None \<or> operationOrderId f = exceptionOrderId x \<or>
         operationType f \<in> {AUTO_SETTLEMENT, MANUAL_SETTLEMENT} \<and> resolution = ''superseded_by_settlement'' \<and>
         list_ex (\<lambda>m. paymentMatchId m = match \<and> Some (pmEntryId m) = operationEntryId f \<and>
            Some (pmOrderId m) = operationOrderId f \<and> createdByOperationId m = financialOperationId f)
           (matches db)) \<and>
        operationCreatedAt f = now \<and>
        operationType f \<in> {AUTO_SETTLEMENT, MANUAL_SETTLEMENT, RECORD_REFUND}) (financialOperations db)"

fun outboxMatches :: "order_event_type \<Rightarrow> payment_order \<Rightarrow> financial_operation_type \<Rightarrow> bool" where
  "outboxMatches PAYMENT_CONFIRMED ord ty \<longleftrightarrow>
     paymentStatus ord = CONFIRMED \<and> ty \<in> {AUTO_SETTLEMENT, MANUAL_SETTLEMENT}"
| "outboxMatches PAYMENT_DISPUTED ord ty \<longleftrightarrow> paymentStatus ord = DISPUTED \<and> ty = REVERSE_SETTLEMENT"
| "outboxMatches REFUND_UPDATED ord ty \<longleftrightarrow> refundStatus ord \<noteq> RefundNone \<and> ty = RECORD_REFUND"
| "outboxMatches ty' ord ty \<longleftrightarrow> False"

text \<open>The table's checks and keys and the trigger \<^verbatim>\<open>outbox_events_valid_insert\<close>.\<close>

definition outboxInsertAllowed :: "outbox_event \<Rightarrow> recon_db \<Rightarrow> bool" where
  "outboxInsertAllowed x db \<longleftrightarrow>
     length (outboxEventId x) = 36 \<and> 1 \<le> aggregateVersion x \<and> byteLength (payloadJson x) \<le> 65536 \<and>
     isSha256Text (payloadFingerprint x) \<and> 0 \<le> outboxCreatedAt x \<and>
     \<not> list_ex (\<lambda>y. outboxEventId y = outboxEventId x \<or> outboxOperationId y = outboxOperationId x \<or>
          aggregateId y = aggregateId x \<and> aggregateVersion y = aggregateVersion x \<and>
          outboxEventType y = outboxEventType x) (outbox db) \<and>
     list_ex (\<lambda>ord. orderId ord = aggregateId x \<and> version ord = aggregateVersion x \<and>
        updatedAt ord = outboxCreatedAt x \<and>
        list_ex (\<lambda>f. financialOperationId f = outboxOperationId x \<and>
           operationOrderId f = Some (aggregateId x) \<and>
           outboxMatches (outboxEventType x) ord (operationType f)) (financialOperations db)) (orders db)"

end
