(* ===== verification/ReconStore.thy ===== *)
theory ReconStore
  imports ReconRows
begin

text \<open>
  \<^verbatim>\<open>src/src/reconciliation/store.ts\<close>: the statements and reads every decision is made of.  A
  statement checks the constraints of its table and appends or updates rows; a read maps the row it
  finds the way the code does, with its safe-integer tests.
\<close>

subsection \<open>Reading rows\<close>

definition mapFound :: "('a \<Rightarrow> 'e + 'b) \<Rightarrow> 'a option \<Rightarrow> 'e + 'b option" where
  "mapFound f found = (case found of None \<Rightarrow> Inr None | Some r \<Rightarrow> bindR (f r) (\<lambda>x. Inr (Some x)))"

definition nullableSafeInteger :: "int option \<Rightarrow> string \<Rightarrow> store_error + int option" where
  "nullableSafeInteger x label =
     (case x of None \<Rightarrow> Inr None | Some n \<Rightarrow> bindR (toSafeInteger n label) (\<lambda>m. Inr (Some m)))"

fun mapAll :: "('a \<Rightarrow> 'e + 'b) \<Rightarrow> 'a list \<Rightarrow> 'e + 'b list" where
  "mapAll f [] = Inr []"
| "mapAll f (x # xs) = bindR (f x) (\<lambda>y. bindR (mapAll f xs) (\<lambda>ys. Inr (y # ys)))"

definition mapCandidate :: "match_candidate \<Rightarrow> store_error + match_candidate" where
  "mapCandidate row =
     bindR (toSafeInteger (candidateRuleVersion row) ''candidate rule version'') (\<lambda>v.
     bindR (assertR (v = RECONCILIATION_RULE_VERSION) (Failure ''unsupported candidate rule version'')) (\<lambda>_.
     bindR (toSafeInteger (candidateCreatedAt row) ''candidate creation time'') (\<lambda>_.
     bindR (toSafeInteger (candidateUpdatedAt row) ''candidate update time'') (\<lambda>_.
     bindR (nullableSafeInteger (decidedAt row) ''candidate decision time'') (\<lambda>_.
     Inr row)))))"

definition mapPaymentMatch :: "payment_match \<Rightarrow> store_error + payment_match" where
  "mapPaymentMatch row =
     bindR (toSafeInteger (pmCreatedAt row) ''payment match creation time'') (\<lambda>_.
     bindR (toSafeInteger (pmUpdatedAt row) ''payment match update time'') (\<lambda>_.
     bindR (nullableSafeInteger (pmResolvedAt row) ''payment match resolution time'') (\<lambda>_.
     Inr row)))"

definition mapOperation :: "financial_operation \<Rightarrow> store_error + financial_operation" where
  "mapOperation row =
     bindR (toSafeInteger (operationCreatedAt row) ''financial operation time'') (\<lambda>_. Inr row)"

definition mapException :: "financial_exception \<Rightarrow> store_error + financial_exception" where
  "mapException row =
     bindR (toSafeInteger (exceptionCreatedAt row) ''financial exception creation time'') (\<lambda>_.
     bindR (nullableSafeInteger (exceptionResolvedAt row) ''financial exception resolution time'') (\<lambda>_.
     Inr row))"

definition readLedgerEntry :: "recon_db \<Rightarrow> string \<Rightarrow> ledger_entry option" where
  "readLedgerEntry db eid = List.find (\<lambda>e. ledgerEntryId e = eid) (ledgerEntries db)"

definition hasOpenLedgerConflict :: "recon_db \<Rightarrow> string \<Rightarrow> bool" where
  "hasOpenLedgerConflict db eid \<longleftrightarrow>
     list_ex (\<lambda>c. conflictEntryId c = Some eid \<and> conflictOpen c) (ledgerConflicts db)"

definition requireLedgerEntry :: "recon_db \<Rightarrow> string \<Rightarrow> store_error + ledger_entry" where
  "requireLedgerEntry db eid =
     (case readLedgerEntry db eid of
        None \<Rightarrow> Inl (ReconciliationFailure ''match_state_conflict'')
      | Some e \<Rightarrow> Inr e)"

definition readOperation :: "recon_db \<Rightarrow> string \<Rightarrow> store_error + financial_operation option" where
  "readOperation db fid =
     mapFound mapOperation (List.find (\<lambda>f. financialOperationId f = fid) (financialOperations db))"

definition readOperationByKey :: "recon_db \<Rightarrow> string \<Rightarrow> store_error + financial_operation option" where
  "readOperationByKey db key =
     mapFound mapOperation (List.find (\<lambda>f. operationKey f = key) (financialOperations db))"

definition readCandidate :: "recon_db \<Rightarrow> string \<Rightarrow> store_error + match_candidate option" where
  "readCandidate db cid =
     mapFound mapCandidate (List.find (\<lambda>c. candidateId c = cid) (matchCandidates db))"

definition readCandidateByTuple ::
  "recon_db \<Rightarrow> string \<Rightarrow> string \<Rightarrow> string \<Rightarrow> store_error + match_candidate option"
where
  "readCandidateByTuple db eid oid sid =
     mapFound mapCandidate
       (List.find (\<lambda>c. candidateEntryId c = eid \<and> candidateOrderId c = oid \<and> candidateSlotId c = sid \<and>
          candidateRuleVersion c = RECONCILIATION_RULE_VERSION) (matchCandidates db))"

definition readPaymentMatch :: "recon_db \<Rightarrow> string \<Rightarrow> store_error + payment_match option" where
  "readPaymentMatch db mid =
     mapFound mapPaymentMatch (List.find (\<lambda>m. paymentMatchId m = mid) (matches db))"

definition readPaymentMatchByCreationOperation ::
  "recon_db \<Rightarrow> string \<Rightarrow> store_error + payment_match option"
where
  "readPaymentMatchByCreationOperation db fid =
     mapFound mapPaymentMatch (List.find (\<lambda>m. createdByOperationId m = fid) (matches db))"

definition readActiveMatchForEntry :: "recon_db \<Rightarrow> string \<Rightarrow> store_error + payment_match option" where
  "readActiveMatchForEntry db eid =
     mapFound mapPaymentMatch (List.find (\<lambda>m. pmEntryId m = eid \<and> pmStatus m = SETTLED) (matches db))"

definition readActiveMatchForOrder :: "recon_db \<Rightarrow> string \<Rightarrow> store_error + payment_match option" where
  "readActiveMatchForOrder db oid =
     mapFound mapPaymentMatch (List.find (\<lambda>m. pmOrderId m = oid \<and> pmStatus m = SETTLED) (matches db))"

definition latestMatchContext :: "recon_db \<Rightarrow> string \<Rightarrow> string" where
  "latestMatchContext db eid =
     (case rev (sort_key (\<lambda>m. (pmCreatedAt m, paymentMatchId m))
              (filter (\<lambda>m. pmEntryId m = eid) (matches db))) of
        [] \<Rightarrow> ''initial''
      | m # _ \<Rightarrow> paymentMatchId m)"

definition requireOrderDecision :: "recon_db \<Rightarrow> string \<Rightarrow> store_error + payment_order" where
  "requireOrderDecision db oid =
     (case List.find (\<lambda>r. orderId r = oid) (orders db) of
        None \<Rightarrow> Inl (ReconciliationFailure ''candidate_not_found'')
      | Some ord \<Rightarrow> Inr ord)"

definition orderUsesProviderAccount :: "recon_db \<Rightarrow> string \<Rightarrow> string \<Rightarrow> bool" where
  "orderUsesProviderAccount db oid key \<longleftrightarrow>
     list_ex (\<lambda>ord. orderId ord = oid \<and> profileUsesKey db (collectionProfileId ord) key) (orders db)"

subsection \<open>The clock\<close>

definition databaseTime :: "recon_env \<Rightarrow> store_error + int" where
  "databaseTime env = toSafeInteger (databaseClock env) ''database time''"

definition financialNow :: "recon_env \<Rightarrow> recon_db \<Rightarrow> store_error + int \<times> recon_db" where
  "financialNow env db =
     bindR (case nowInput env of None \<Rightarrow> databaseTime env | Some n \<Rightarrow> Inr n) (\<lambda>physical.
     bindR (assertR (isSafeInteger physical \<and> \<not> physical < 0)
             (RangeFailure ''financial clock must be a non-negative safe integer'')) (\<lambda>_.
     bindR (toSafeInteger (orderClock (orderSide db)) ''financial clock'') (\<lambda>previous.
     bindR (assertR (\<not> previous - physical > MAX_ORDER_CLOCK_AHEAD_MILLISECONDS)
             (ReconciliationFailure ''financial_clock_unavailable'')) (\<lambda>_.
     (let now = max previous physical
      in bindR (toSafeInteger now ''financial clock'') (\<lambda>t.
         Inr (t, db\<lparr>orderSide := (orderSide db)\<lparr>orderClock := now\<rparr>\<rparr>)))))))"

subsection \<open>Financial operations\<close>

text \<open>
  The audit fact of an operation: the administrator's identifier must be free of control characters,
  or the whole decision is rolled back.
\<close>

definition isAuditText :: "jstr \<Rightarrow> bool" where
  "isAuditText text \<longleftrightarrow>
     text \<noteq> [] \<and> length text \<le> 128 \<and> list_all (\<lambda>u. \<not> (unat u \<le> 0x1F \<or> unat u = 0x7F)) text"

definition operationAudit :: "financial_operation \<Rightarrow> recon_db \<Rightarrow> financial_audit" where
  "operationAudit f db =
     \<lparr>financialAuditAt = operationCreatedAt f,
      financialAuditActor = operationActorType f,
      financialAuditActorId = operationActorId f,
      financialAuditType = operationType f,
      financialAuditOperation = financialOperationId f,
      financialAuditSite =
        (case operationOrderId f of None \<Rightarrow> None | Some oid \<Rightarrow> map_option apiClientId (orderWithId db oid)),
      financialAuditOrder = operationOrderId f,
      financialAuditEntry = operationEntryId f,
      financialAuditReverses = reversesOperationId f,
      financialAuditAmount =
        (case operationEntryId f of None \<Rightarrow> None | Some eid \<Rightarrow> map_option entryAmountCents (entryWithId db eid))\<rparr>"

definition insertFinancialOperation ::
  "recon_env \<Rightarrow> string \<Rightarrow> string \<Rightarrow> operation_fingerprint_input \<Rightarrow> int \<Rightarrow> recon_db
     \<Rightarrow> store_error + financial_operation \<times> recon_db"
where
  "insertFinancialOperation env fid key i now db =
     (let f = \<lparr>financialOperationId = fid, operationKey = key,
               operationFingerprint = financialOperationFingerprint (reconSha env) i,
               operationRequest = financialOperationEvidence i, operationType = inOperationType i,
               operationActorType = inActorType i, operationActorId = inActorId i,
               operationOrderId = inOperationOrderId i, operationEntryId = inOperationEntryId i,
               reversesOperationId = inReversesOperationId i, operationReason = inReason i,
               operationCreatedAt = now\<rparr>
      in bindR (assertR (operationInsertAllowed f db) (SqlAbort ''financial operation insert'')) (\<lambda>_.
         bindR (assertR (case inActorId i of None \<Rightarrow> True | Some a \<Rightarrow> isAuditText a)
                 (Failure ''audit actor_id is invalid'')) (\<lambda>_.
         (let db' = db\<lparr>financialOperations := financialOperations db @ [f],
                       financialAudits := financialAudits db @ [operationAudit f db]\<rparr>
          in bindR (readOperation db' fid) (\<lambda>found.
             case found of
               None \<Rightarrow> Inl (Failure ''inserted operation cannot be read'')
             | Some g \<Rightarrow> Inr (g, db'))))))"

definition readDecisionReplay ::
  "recon_env \<Rightarrow> string \<Rightarrow> operation_fingerprint_input \<Rightarrow> recon_db \<Rightarrow> store_error + financial_operation option"
where
  "readDecisionReplay env fid i db =
     bindR (readOperation db fid) (\<lambda>found.
     case found of
       None \<Rightarrow> Inr None
     | Some existing \<Rightarrow>
         if operationKey existing \<noteq> ''admin:'' @ fid \<or>
            operationFingerprint existing \<noteq> financialOperationFingerprint (reconSha env) i \<or>
            operationType existing \<noteq> inOperationType i
         then Inl (ReconciliationFailure ''operation_conflict'')
         else Inr (Some existing))"

subsection \<open>Order and ledger state\<close>

definition payOrder :: "payment_status \<Rightarrow> payment_basis \<Rightarrow> int \<Rightarrow> int \<Rightarrow> payment_order \<Rightarrow> payment_order" where
  "payOrder status basis received now r =
     r\<lparr>paymentStatus := status, paymentBasis := basis, receivedAmountCents := Some received,
       updatedAt := now, version := version r + 1\<rparr>"

text \<open>The order the decision was made on is compared by version and payment status.\<close>

definition updateOrderPayment ::
  "payment_order \<Rightarrow> payment_status \<Rightarrow> payment_basis \<Rightarrow> int \<Rightarrow> int \<Rightarrow> recon_db \<Rightarrow> store_error + int \<times> recon_db"
where
  "updateOrderPayment ord status basis received now db =
     bindR (toSafeInteger (version ord) ''order version'') (\<lambda>v.
     (let p = (\<lambda>r. orderId r = orderId ord \<and> version r = version ord \<and> paymentStatus r = paymentStatus ord);
          f = payOrder status basis received now
      in bindR (assertR (list_all (\<lambda>r. p r \<longrightarrow> paymentUpdateAllowed r (f r)) (orders db))
                 (SqlAbort ''payment order update'')) (\<lambda>_.
         bindR (assertChangedOnce (changes p (orders db)) ''payment order state update'') (\<lambda>_.
         Inr (v + 1, db\<lparr>orderSide := (orderSide db)\<lparr>paymentOrders := updateRows p f (orders db)\<rparr>\<rparr>)))))"

definition moveEntry :: "ledger_state \<Rightarrow> int \<Rightarrow> ledger_entry \<Rightarrow> ledger_entry" where
  "moveEntry state now e = e\<lparr>entryState := state, entryUpdatedAt := now\<rparr>"

definition setLedgerState :: "ledger_entry \<Rightarrow> ledger_state \<Rightarrow> int \<Rightarrow> recon_db \<Rightarrow> store_error + recon_db" where
  "setLedgerState entry state now db =
     (if entryState entry = state then Inr db
      else (let p = (\<lambda>e. ledgerEntryId e = ledgerEntryId entry \<and> entryState e = entryState entry)
            in bindR (assertR (list_all (\<lambda>e. p e \<longrightarrow> ledgerTransitionAllowed (entryState e) state \<and>
                                            entryUpdatedAt e \<le> now) (ledgerEntries db))
                       (SqlAbort ''ledger entry state transition is invalid'')) (\<lambda>_.
               bindR (assertChangedOnce (changes p (ledgerEntries db)) ''ledger entry state update'') (\<lambda>_.
               Inr (db\<lparr>ledgerEntries := updateRows p (moveEntry state now) (ledgerEntries db)\<rparr>)))))"

subsection \<open>Accounting\<close>

definition insertDraft :: "ledger_transaction \<Rightarrow> recon_db \<Rightarrow> store_error + recon_db" where
  "insertDraft t db =
     bindR (assertR (draftAllowed t db) (SqlAbort ''ledger transaction must begin as a valid draft'')) (\<lambda>_.
     Inr (db\<lparr>ledgerTransactions := ledgerTransactions db @ [t]\<rparr>))"

definition insertPosting :: "ledger_posting \<Rightarrow> recon_db \<Rightarrow> store_error + recon_db" where
  "insertPosting p db =
     bindR (assertR (postingAllowed p db)
             (SqlAbort ''postings can only be appended to their draft transaction'')) (\<lambda>_.
     Inr (db\<lparr>ledgerPostings := ledgerPostings db @ [p]\<rparr>))"

definition markPosted :: "int \<Rightarrow> ledger_transaction \<Rightarrow> ledger_transaction" where
  "markPosted now t = t\<lparr>transactionPosted := True, postedAt := Some now\<rparr>"

definition postTransaction :: "string \<Rightarrow> int \<Rightarrow> recon_db \<Rightarrow> store_error + recon_db" where
  "postTransaction tid now db =
     (let p = (\<lambda>t. transactionId t = tid \<and> \<not> transactionPosted t)
      in bindR (assertR (list_all (\<lambda>t. p t \<longrightarrow> postAllowed t now db) (ledgerTransactions db))
                 (SqlAbort ''ledger transaction must be balanced before posting'')) (\<lambda>_.
         bindR (assertChangedOnce (changes p (ledgerTransactions db)) ''ledger transaction post'') (\<lambda>_.
         Inr (db\<lparr>ledgerTransactions := updateRows p (markPosted now) (ledgerTransactions db)\<rparr>))))"

definition postingRow ::
  "string \<Rightarrow> string \<Rightarrow> account_code \<Rightarrow> posting_side \<Rightarrow> int \<Rightarrow> string \<Rightarrow> string \<Rightarrow> int \<Rightarrow> ledger_posting"
where
  "postingRow pid tid account side amount oid eid now =
     \<lparr>postingId = pid, postingTransactionId = tid, accountCode = account, postingSide = side,
      postingAmountCents = amount, postingOrderId = Some oid, postingEntryId = Some eid,
      postingCreatedAt = now\<rparr>"

definition postAccountingTransaction ::
  "recon_env \<Rightarrow> financial_operation \<Rightarrow> string \<Rightarrow> string \<Rightarrow> transaction_type \<Rightarrow> int \<Rightarrow> account_code
     \<Rightarrow> account_code \<Rightarrow> int \<Rightarrow> recon_db \<Rightarrow> store_error + recon_db"
where
  "postAccountingTransaction env f oid eid ty amount debitAccount creditAccount now db =
     (let tid = freshId env ForTransaction (length (ledgerTransactions db));
          n = length (ledgerPostings db)
      in bindR (insertDraft
                 \<lparr>transactionId = tid, transactionOperationId = financialOperationId f,
                  transactionOrderId = Some oid, transactionEntryId = Some eid, transactionType = ty,
                  transactionPosted = False, transactionCreatedAt = now, postedAt = None\<rparr> db) (\<lambda>db1.
         bindR (insertPosting (postingRow (freshId env ForPosting n) tid debitAccount DebitSide amount
                                oid eid now) db1) (\<lambda>db2.
         bindR (insertPosting (postingRow (freshId env ForPosting (n + 1)) tid creditAccount CreditSide amount
                                oid eid now) db2) (\<lambda>db3.
         postTransaction tid now db3))))"

subsection \<open>Events\<close>

definition insertPaymentEvent ::
  "recon_env \<Rightarrow> string \<Rightarrow> int \<Rightarrow> order_event_type \<Rightarrow> int \<Rightarrow> order_event_details \<Rightarrow> recon_db
     \<Rightarrow> store_error + recon_db"
where
  "insertPaymentEvent env oid seqn ty now details db =
     (let e = \<lparr>eventId = freshId env ForOrderEvent (length (orderEvents (orderSide db))), eventOrderId = oid,
               eventSequence = seqn, eventType = ty, occurredAt = now, eventDetails = details\<rparr>
      in bindR (assertR (orderEventAllowed e (orderSide db) \<and> length (eventId e) = 36 \<and>
                   \<not> list_ex (\<lambda>x. eventId x = eventId e) (orderEvents (orderSide db)))
                 (SqlAbort ''order event must match the current order version'')) (\<lambda>_.
         Inr (db\<lparr>orderSide := (orderSide db)\<lparr>orderEvents := orderEvents (orderSide db) @ [e]\<rparr>\<rparr>)))"

fun orderEventTypeText :: "order_event_type \<Rightarrow> string" where
  "orderEventTypeText CREATED = ''CREATED''"
| "orderEventTypeText CHECKOUT_CLOSED = ''CHECKOUT_CLOSED''"
| "orderEventTypeText CHECKOUT_EXPIRED = ''CHECKOUT_EXPIRED''"
| "orderEventTypeText PAYMENT_CONFIRMED = ''PAYMENT_CONFIRMED''"
| "orderEventTypeText PAYMENT_DISPUTED = ''PAYMENT_DISPUTED''"
| "orderEventTypeText REFUND_UPDATED = ''REFUND_UPDATED''"

fun paymentStatusText :: "payment_status \<Rightarrow> string" where
  "paymentStatusText UNPAID = ''UNPAID''"
| "paymentStatusText CONFIRMED = ''CONFIRMED''"
| "paymentStatusText DISPUTED = ''DISPUTED''"

fun paymentBasisText :: "payment_basis \<Rightarrow> string" where
  "paymentBasisText BasisNone = ''NONE''"
| "paymentBasisText BasisInferred = ''INFERRED''"
| "paymentBasisText BasisManual = ''MANUAL''"

fun refundStatusText :: "refund_status \<Rightarrow> string" where
  "refundStatusText RefundNone = ''NONE''"
| "refundStatusText RefundPartial = ''PARTIAL''"
| "refundStatusText RefundFull = ''FULL''"

text \<open>
  The payload a merchant is notified with.  \<open>ord\<close> is the order the decision read, with the fields
  the decision changes given explicitly.
\<close>

definition outboxPayload ::
  "string \<Rightarrow> order_event_type \<Rightarrow> financial_operation \<Rightarrow> payment_order \<Rightarrow> payment_status \<Rightarrow> payment_basis
     \<Rightarrow> int \<Rightarrow> int \<Rightarrow> (string \<times> json) list \<Rightarrow> int \<Rightarrow> json"
where
  "outboxPayload eid ty f ord status basis received version' details now = jobject
     [(''schema'', jtext ''perpay:outbox-event:v2''),
      (''event_id'', jtext eid),
      (''event_type'', jtext (orderEventTypeText ty)),
      (''financial_operation_id'', jtext (financialOperationId f)),
      (''order_id'', jtext (orderId ord)),
      (''merchant_order_no'', JStr (merchantOrderNo ord)),
      (''product_name'', JStr (productName ord)),
      (''note'', jtextOption (orderNote ord)),
      (''requested_amount_cents'', JInt (requestedAmountCents ord)),
      (''payable_amount_cents'', JInt (payableAmountCents ord)),
      (''received_amount_cents'', JInt received),
      (''currency'', jtext ''CNY''),
      (''payment_status'', jtext (paymentStatusText status)),
      (''payment_basis'', jtext (paymentBasisText basis)),
      (''refund_status'', jtext (refundStatusText (refundStatus ord))),
      (''event_details'', jobject details),
      (''order_version'', JInt version'),
      (''occurred_at'', JInt now)]"

definition insertOutboxEvent ::
  "recon_env \<Rightarrow> financial_operation \<Rightarrow> payment_order \<Rightarrow> payment_status \<Rightarrow> payment_basis \<Rightarrow> int \<Rightarrow> int
     \<Rightarrow> order_event_type \<Rightarrow> (string \<times> json) list \<Rightarrow> int \<Rightarrow> recon_db \<Rightarrow> store_error + recon_db"
where
  "insertOutboxEvent env f ord status basis received version' ty details now db =
     (let eid = freshId env ForOutboxEvent (length (outbox db));
          payload = outboxPayload eid ty f ord status basis received version' details now;
          x = \<lparr>outboxEventId = eid, outboxOperationId = financialOperationId f, aggregateId = orderId ord,
               aggregateVersion = version', outboxEventType = ty, payloadJson = stringify payload,
               payloadFingerprint = outboxPayloadFingerprint (reconSha env) payload,
               outboxCreatedAt = now\<rparr>
      in bindR (toSafeInteger (requestedAmountCents ord) ''requested amount'') (\<lambda>_.
         bindR (toSafeInteger (payableAmountCents ord) ''payable amount'') (\<lambda>_.
         bindR (toSafeInteger received ''received amount'') (\<lambda>_.
         bindR (toSafeInteger version' ''order version'') (\<lambda>_.
         bindR (assertR (outboxInsertAllowed x db)
                 (SqlAbort ''outbox event must match the committed order operation'')) (\<lambda>_.
         Inr (db\<lparr>outbox := outbox db @ [x]\<rparr>)))))))"

end
