(* ===== verification/ReconMatching.thy ===== *)
theory ReconMatching
  imports ReconStore
begin

text \<open>
  Matching one ledger entry (\<^verbatim>\<open>reconcileEntry\<close> of \<^verbatim>\<open>src/src/reconciliation/store.ts\<close>): the orders
  whose window and amount fit it become candidates; a single candidate settles its order, several make
  the entry ambiguous, none makes it unmatched, and every outcome that is not a settlement leaves one
  open exception.
\<close>

subsection \<open>Which orders an entry can pay\<close>

type_synonym candidate_fact = "payment_order \<times> amount_slot"

definition factsAmong :: "(payment_order \<Rightarrow> amount_slot \<Rightarrow> bool) \<Rightarrow> recon_db \<Rightarrow> payment_order list \<Rightarrow> candidate_fact list" where
  "factsAmong p db ords =
     concat (map (\<lambda>ord. map (Pair ord) (filter (\<lambda>s. slotOrderId s = orderId ord \<and> p ord s) (slots db))) ords)"

definition readCandidateFacts :: "recon_db \<Rightarrow> ledger_entry \<Rightarrow> candidate_fact list" where
  "readCandidateFacts db e =
     sort_key (\<lambda>(ord, s). (eligibleFrom ord, orderId ord))
       (factsAmong (paymentInWindow e) db
         (filter (\<lambda>ord. profileUsesKey db (collectionProfileId ord) (entryProviderKey e) \<and>
                   payableAmountCents ord = entryAmountCents e \<and> paymentStatus ord = UNPAID) (orders db)))"

record settled_order_overlap =
  overlapCount :: int
  overlapOrderId :: "string option"

definition overlappingOrders :: "recon_db \<Rightarrow> ledger_entry \<Rightarrow> payment_order list" where
  "overlappingOrders db e =
     concat (map (\<lambda>s. filter (\<lambda>ord. orderId ord = slotOrderId s \<and> collectionProfileId ord = slotProfileId s \<and>
                  payableAmountCents ord = slotAmountCents s \<and>
                  profileUsesKey db (slotProfileId s) (entryProviderKey e) \<and>
                  slotAmountCents s = entryAmountCents e \<and> paymentInWindow e ord s \<and>
                  paymentStatus ord \<in> {CONFIRMED, DISPUTED}) (orders db)) (slots db))"

definition readSettledOrderOverlap :: "recon_db \<Rightarrow> ledger_entry \<Rightarrow> settled_order_overlap" where
  "readSettledOrderOverlap db e =
     (let rows = take 2 (overlappingOrders db e)
      in \<lparr>overlapCount = int (length rows),
          overlapOrderId = (case rows of [ord] \<Rightarrow> Some (orderId ord) | _ \<Rightarrow> None)\<rparr>)"

subsection \<open>Classifying an entry nobody can claim\<close>

record classification =
  classType :: financial_exception_type
  classOrderId :: "string option"
  classContextKey :: string
  classDetails :: json

definition duplicatePaymentClassification :: "settled_order_overlap \<Rightarrow> store_error + classification" where
  "duplicatePaymentClassification overlap =
     bindR (assertR (\<not> overlapCount overlap < 1) (Failure ''settled order overlap is missing'')) (\<lambda>_.
     Inr \<lparr>classType = DUPLICATE_PAYMENT, classOrderId = overlapOrderId overlap,
          classContextKey =
            (case overlapOrderId overlap of
               None \<Rightarrow> ''settled-orders:3:'' @ decimalText (nat (overlapCount overlap))
             | Some oid \<Rightarrow> ''order:'' @ oid),
          classDetails = jobject
            [(''reason'', jtext ''order_already_has_primary_settlement''),
             (''overlapping_settled_order_count'', JInt (overlapCount overlap)),
             (''overlapping_settled_order_count_is_lower_bound'', JBool (overlapCount overlap > 1))]\<rparr>)"

definition checkoutEndedAt :: "payment_order \<Rightarrow> amount_slot \<Rightarrow> int" where
  "checkoutEndedAt ord s =
     min (expiresAt ord) (case releasedAt s of None \<Rightarrow> expiresAt ord | Some t \<Rightarrow> t)"

definition endedFacts :: "recon_db \<Rightarrow> ledger_entry \<Rightarrow> candidate_fact list" where
  "endedFacts db e =
     take 2 (sort_key (\<lambda>(ord, s). (- checkoutEndedAt ord s, orderId ord))
       (factsAmong (\<lambda>ord s. entryOccurredAt e \<ge> checkoutEndedAt ord s \<and>
                     entryOccurredAt e - checkoutEndedAt ord s \<le> MAX_LATE_PAYMENT_ATTRIBUTION_MILLISECONDS) db
         (filter (\<lambda>ord. profileUsesKey db (collectionProfileId ord) (entryProviderKey e) \<and>
                   payableAmountCents ord = entryAmountCents e) (orders db))))"

definition mismatchFacts :: "recon_db \<Rightarrow> ledger_entry \<Rightarrow> candidate_fact list" where
  "mismatchFacts db e =
     take 2 (sort_key (\<lambda>(ord, s). (eligibleFrom ord, orderId ord))
       (factsAmong (paymentInWindow e) db
         (filter (\<lambda>ord. profileUsesKey db (collectionProfileId ord) (entryProviderKey e) \<and>
                   payableAmountCents ord \<noteq> entryAmountCents e \<and> paymentStatus ord = UNPAID) (orders db))))"

fun endedStatusText :: "checkout_status \<Rightarrow> string" where
  "endedStatusText OPEN = ''EXPIRED''"
| "endedStatusText EXPIRED = ''EXPIRED''"
| "endedStatusText CLOSED = ''CLOSED''"

definition classifyUnmatchedCredit ::
  "recon_db \<Rightarrow> ledger_entry \<Rightarrow> settled_order_overlap \<Rightarrow> store_error + classification"
where
  "classifyUnmatchedCredit db e overlap =
     (let previousContext = latestMatchContext db (ledgerEntryId e)
      in if overlapCount overlap > 0 then duplicatePaymentClassification overlap
         else
           (case endedFacts db e of
              [(ord, s)] \<Rightarrow>
                bindR (toSafeInteger (checkoutEndedAt ord s) ''effective checkout end time'') (\<lambda>ended.
                Inr \<lparr>classType = CHECKOUT_ENDED_PAYMENT, classOrderId = Some (orderId ord),
                     classContextKey = ''order:'' @ orderId ord,
                     classDetails = jobject
                       [(''reason'', jtext ''exact_amount_arrived_after_checkout_end''),
                        (''checkout_status'', jtext (endedStatusText (checkoutStatus ord))),
                        (''checkout_ended_at'', JInt ended),
                        (''attribution_window_milliseconds'', JInt MAX_LATE_PAYMENT_ATTRIBUTION_MILLISECONDS)]\<rparr>)
            | _ \<Rightarrow>
                (case mismatchFacts db e of
                   [(ord, s)] \<Rightarrow>
                     bindR (toSafeInteger (payableAmountCents ord) ''expected order amount'') (\<lambda>expected.
                     bindR (toSafeInteger (entryAmountCents e) ''ledger amount'') (\<lambda>actual.
                     Inr \<lparr>classType = AMOUNT_MISMATCH, classOrderId = Some (orderId ord),
                          classContextKey = ''order:'' @ orderId ord,
                          classDetails = jobject
                            [(''reason'', jtext (if actual < expected then ''possible_underpayment''
                                                else ''possible_overpayment'')),
                             (''association'', jtext ''single_open_slot_inference''),
                             (''expected_amount_cents'', JInt expected),
                             (''actual_amount_cents'', JInt actual),
                             (''difference_cents'', JInt (actual - expected))]\<rparr>))
                 | _ \<Rightarrow>
                     Inr \<lparr>classType = UNMATCHED_CREDIT, classOrderId = None,
                          classContextKey = previousContext,
                          classDetails = jobject [(''reason'', jtext ''no_exact_amount_slot_interval'')]\<rparr>)))"

subsection \<open>Candidates\<close>

definition toTimestampPrecision :: "int \<Rightarrow> string \<Rightarrow> store_error + int" where
  "toTimestampPrecision x label =
     bindR (toSafeInteger x label) (\<lambda>precision.
     bindR (assertR (precision = 1 \<or> precision = 10 \<or> precision = 100 \<or> precision = 1000)
             (Failure (label @ '' is invalid''))) (\<lambda>_. Inr precision))"

definition candidateInput :: "ledger_entry \<Rightarrow> payment_order \<Rightarrow> amount_slot \<Rightarrow> candidate_fingerprint_input" where
  "candidateInput e ord s =
     \<lparr>inProviderAccountKey = entryProviderKey e, inLedgerEntryId = ledgerEntryId e,
      inLedgerSemanticFingerprint = semanticFingerprint e, inOccurredAt = entryOccurredAt e,
      inOccurredAtPrecision = occurredAtPrecision e, inAmountCents = entryAmountCents e, inOrderId = orderId ord,
      inCollectionProfileId = collectionProfileId ord, inSlotId = slotId s,
      inSlotGeneration = generation s, inSlotOccupiedFrom = occupiedFrom s, inSlotReleasedAt = releasedAt s\<rparr>"

text \<open>The integers of the evidence, read in the code's order.\<close>

definition safeCandidateInput :: "ledger_entry \<Rightarrow> payment_order \<Rightarrow> amount_slot \<Rightarrow> store_error + candidate_fingerprint_input" where
  "safeCandidateInput e ord s =
     bindR (toSafeInteger (entryOccurredAt e) ''ledger occurrence'') (\<lambda>_.
     bindR (toTimestampPrecision (occurredAtPrecision e) ''ledger occurrence precision'') (\<lambda>_.
     bindR (toSafeInteger (entryAmountCents e) ''ledger amount'') (\<lambda>_.
     bindR (toSafeInteger (generation s) ''slot generation'') (\<lambda>_.
     bindR (toSafeInteger (occupiedFrom s) ''slot occupied time'') (\<lambda>_.
     bindR (nullableSafeInteger (releasedAt s) ''slot release time'') (\<lambda>_.
     Inr (candidateInput e ord s)))))))"

definition newCandidate ::
  "recon_env \<Rightarrow> string \<Rightarrow> ledger_entry \<Rightarrow> payment_order \<Rightarrow> amount_slot \<Rightarrow> int \<Rightarrow> match_candidate"
where
  "newCandidate env cid e ord s now =
     \<lparr>candidateId = cid, candidateEntryId = ledgerEntryId e, candidateOrderId = orderId ord,
      candidateSlotId = slotId s, candidateRuleVersion = RECONCILIATION_RULE_VERSION,
      candidateEvidenceJson = candidateEvidence (candidateInput e ord s),
      storedCandidateFingerprint = candidateFingerprint (reconSha env) (candidateInput e ord s),
      candidateStatus = ELIGIBLE, decidedByOperationId = None, candidateCreatedAt = now,
      candidateUpdatedAt = now, decidedAt = None\<rparr>"

definition insertCandidate ::
  "recon_env \<Rightarrow> ledger_entry \<Rightarrow> payment_order \<Rightarrow> amount_slot \<Rightarrow> int \<Rightarrow> recon_db
     \<Rightarrow> store_error + match_candidate \<times> recon_db"
where
  "insertCandidate env e ord s now db =
     bindR (safeCandidateInput e ord s) (\<lambda>_.
     (let cid = freshId env ForCandidate (length (matchCandidates db));
          c = newCandidate env cid e ord s now
      in bindR (assertR (candidateInsertAllowed c db)
                 (SqlAbort ''match candidate is not supported by current facts'')) (\<lambda>_.
         (let db' = db\<lparr>matchCandidates := matchCandidates db @ [c]\<rparr>
          in bindR (readCandidate db' cid) (\<lambda>found.
             case found of
               None \<Rightarrow> Inl (Failure ''inserted candidate cannot be read'')
             | Some d \<Rightarrow> Inr (d, db'))))))"

definition ensureCandidate ::
  "recon_env \<Rightarrow> ledger_entry \<Rightarrow> candidate_fact \<Rightarrow> int \<Rightarrow> recon_db \<Rightarrow> store_error + match_candidate \<times> recon_db"
where
  "ensureCandidate env e cfact now db =
     (case cfact of (ord, s) \<Rightarrow>
        bindR (readCandidateByTuple db (ledgerEntryId e) (orderId ord) (slotId s)) (\<lambda>existing.
        case existing of
          Some c \<Rightarrow> Inr (c, db)
        | None \<Rightarrow> insertCandidate env e ord s now db))"

fun ensureCandidates ::
  "recon_env \<Rightarrow> ledger_entry \<Rightarrow> candidate_fact list \<Rightarrow> int \<Rightarrow> recon_db
     \<Rightarrow> store_error + match_candidate list \<times> recon_db"
where
  "ensureCandidates env e [] now db = Inr ([], db)"
| "ensureCandidates env e (cfact # facts) now db =
     bindR (ensureCandidate env e cfact now db) (\<lambda>(c, db1).
     bindR (ensureCandidates env e facts now db1) (\<lambda>(cs, db2). Inr (c # cs, db2)))"

definition decide :: "candidate_status \<Rightarrow> string \<Rightarrow> int \<Rightarrow> match_candidate \<Rightarrow> match_candidate" where
  "decide status operation now c =
     c\<lparr>candidateStatus := status, decidedByOperationId := Some operation, candidateUpdatedAt := now,
       decidedAt := Some now\<rparr>"

definition decideCandidate ::
  "candidate_status \<Rightarrow> string \<Rightarrow> string \<Rightarrow> int \<Rightarrow> string \<Rightarrow> recon_db \<Rightarrow> store_error + recon_db"
where
  "decideCandidate status cid operation now label db =
     (let p = (\<lambda>c. candidateId c = cid \<and> candidateStatus c = ELIGIBLE)
      in bindR (assertR (list_all (\<lambda>c. p c \<longrightarrow> candidateDecisionAllowed status operation now c db)
                          (matchCandidates db))
                 (SqlAbort ''match candidate transition is invalid'')) (\<lambda>_.
         bindR (assertChangedOnce (changes p (matchCandidates db)) label) (\<lambda>_.
         Inr (db\<lparr>matchCandidates := updateRows p (decide status operation now) (matchCandidates db)\<rparr>))))"

definition supersedeCandidate ::
  "recon_env \<Rightarrow> match_candidate \<Rightarrow> int \<Rightarrow> recon_db \<Rightarrow> store_error + recon_db"
where
  "supersedeCandidate env c now db =
     bindR (insertFinancialOperation env
              (freshId env ForOperation (length (financialOperations db)))
              (''supersede:'' @ candidateId c)
              \<lparr>inOperationType = SUPERSEDE_CANDIDATE, inActorType = FinancialSystem, inActorId = None,
               inOperationOrderId = Some (candidateOrderId c), inOperationEntryId = Some (candidateEntryId c),
               inCandidateId = Some (candidateId c), inPaymentMatchId = None,
               inReversesOperationId = None, inReason = None\<rparr> now db) (\<lambda>(f, db').
     decideCandidate SUPERSEDED (candidateId c) (financialOperationId f) now ''candidate supersede'' db')"

fun supersedeAll :: "recon_env \<Rightarrow> match_candidate list \<Rightarrow> int \<Rightarrow> recon_db \<Rightarrow> store_error + recon_db" where
  "supersedeAll env [] now db = Inr db"
| "supersedeAll env (c # cs) now db = bindR (supersedeCandidate env c now db) (supersedeAll env cs now)"

definition supersedeStaleEligibleCandidates ::
  "recon_env \<Rightarrow> ledger_entry \<Rightarrow> string list \<Rightarrow> int \<Rightarrow> recon_db \<Rightarrow> store_error + recon_db"
where
  "supersedeStaleEligibleCandidates env e keep now db =
     bindR (mapAll mapCandidate
              (filter (\<lambda>c. candidateEntryId c = ledgerEntryId e \<and> candidateStatus c = ELIGIBLE)
                (matchCandidates db))) (\<lambda>rows.
     supersedeAll env (filter (\<lambda>c. candidateId c \<notin> set keep) rows) now db)"

subsection \<open>Exceptions\<close>

definition exceptionHistory :: "recon_db \<Rightarrow> exception_fingerprint_input \<Rightarrow> financial_exception list" where
  "exceptionHistory db i =
     rev (sort_key (\<lambda>x. (exceptionCreatedAt x, exceptionId x))
       (filter (\<lambda>x. exceptionProviderKey x = exProviderAccountKey i \<and> exceptionType x = exExceptionType i \<and>
                  exceptionEntryId x = exLedgerEntryId i \<and> exceptionOrderId x = exOrderId i \<and>
                  exceptionCandidateId x = exCandidateId i) (financialExceptions db)))"

definition newException ::
  "recon_env \<Rightarrow> exception_fingerprint_input \<Rightarrow> json \<Rightarrow> int \<Rightarrow> recon_db \<Rightarrow> financial_exception"
where
  "newException env i details now db =
     \<lparr>exceptionId = freshId env ForException (length (financialExceptions db)),
      exceptionProviderKey = exProviderAccountKey i, exceptionType = exExceptionType i,
      exceptionEntryId = exLedgerEntryId i, exceptionOrderId = exOrderId i,
      exceptionCandidateId = exCandidateId i, contextKey = exContextKey i, exceptionDetails = details,
      exceptionDetailsFingerprint = financialExceptionDetailsFingerprint (reconSha env) details,
      exceptionFingerprint = financialExceptionFingerprint (reconSha env) i,
      exceptionStatus = OpenException, resolutionOperationId = None, exceptionResolution = None,
      exceptionResolutionFingerprint = None, exceptionCreatedAt = now, exceptionResolvedAt = None\<rparr>"

definition insertException ::
  "recon_env \<Rightarrow> exception_fingerprint_input \<Rightarrow> json \<Rightarrow> int \<Rightarrow> recon_db
     \<Rightarrow> store_error + financial_exception \<times> recon_db"
where
  "insertException env i details now db =
     (let x = newException env i details now db
      in bindR (assertR (exceptionInsertAllowed x db)
                 (SqlAbort ''financial exception references inconsistent facts'')) (\<lambda>_.
         bindR (mapException x) (\<lambda>y.
         Inr (y, db\<lparr>financialExceptions := financialExceptions db @ [x]\<rparr>))))"

text \<open>
  The loop of at most 64 attempts, from the input \<open>i\<close> of the caller and the input \<open>j\<close> of the
  current attempt: an open exception of the fingerprint is returned, an unused fingerprint is
  inserted, and a resolved one derives the next context key from the history of the classification.
\<close>

fun ensureExceptionFrom ::
  "recon_env \<Rightarrow> exception_fingerprint_input \<Rightarrow> exception_fingerprint_input \<Rightarrow> json \<Rightarrow> int \<Rightarrow> nat \<Rightarrow> recon_db
     \<Rightarrow> store_error + financial_exception \<times> recon_db"
where
  "ensureExceptionFrom env i j details now 0 db =
     Inl (Failure ''financial exception classification history is exhausted'')"
| "ensureExceptionFrom env i j details now (Suc attempts) db =
     (case List.find (\<lambda>x. exceptionFingerprint x = financialExceptionFingerprint (reconSha env) j)
             (financialExceptions db) of
        None \<Rightarrow> insertException env j details now db
      | Some existing \<Rightarrow>
          if exceptionStatus existing = OpenException
          then bindR (mapException existing) (\<lambda>x. Inr (x, db))
          else (let history = exceptionHistory db i;
                    latest = (case history of [] \<Rightarrow> existing | x # _ \<Rightarrow> x)
                in ensureExceptionFrom env i
                     (i\<lparr>exContextKey := ''reclassified:'' @ decimalText (length history + 1) @ '':'' @
                          exceptionId latest\<rparr>) details now attempts db))"

definition ensureException ::
  "recon_env \<Rightarrow> exception_fingerprint_input \<Rightarrow> json \<Rightarrow> int \<Rightarrow> recon_db
     \<Rightarrow> store_error + financial_exception \<times> recon_db"
where
  "ensureException env i details now db = ensureExceptionFrom env i i details now 64 db"

definition resolveException ::
  "recon_env \<Rightarrow> string \<Rightarrow> json \<Rightarrow> int \<Rightarrow> financial_exception \<Rightarrow> financial_exception"
where
  "resolveException env operation resolution now x =
     x\<lparr>exceptionStatus := ResolvedException, resolutionOperationId := Some operation,
       exceptionResolution := Some resolution,
       exceptionResolutionFingerprint :=
         Some (financialExceptionResolutionFingerprint (reconSha env) resolution),
       exceptionResolvedAt := Some now\<rparr>"

definition resolveWhere ::
  "recon_env \<Rightarrow> (financial_exception \<Rightarrow> bool) \<Rightarrow> string \<Rightarrow> string \<Rightarrow> string \<Rightarrow> int \<Rightarrow> recon_db
     \<Rightarrow> store_error + recon_db"
where
  "resolveWhere env p operation resolution match now db =
     bindR (assertR (list_all (\<lambda>x. p x \<longrightarrow> exceptionResolutionAllowed operation resolution match now x db)
                      (financialExceptions db))
             (SqlAbort ''financial exception resolution is invalid'')) (\<lambda>_.
     Inr (db\<lparr>financialExceptions :=
              updateRows p (resolveException env operation (resolutionJson resolution match) now)
                (financialExceptions db)\<rparr>))"

definition resolveEntryExceptions ::
  "recon_env \<Rightarrow> string \<Rightarrow> financial_operation \<Rightarrow> string \<Rightarrow> string \<Rightarrow> int \<Rightarrow> recon_db \<Rightarrow> store_error + recon_db"
where
  "resolveEntryExceptions env eid f resolution match now db =
     bindR (resolveWhere env
              (\<lambda>x. exceptionEntryId x = Some eid \<and> exceptionStatus x = OpenException \<and>
                   (exceptionOrderId x = None \<or> exceptionOrderId x = operationOrderId f))
              (financialOperationId f) resolution match now db) (\<lambda>db1.
     if operationType f \<noteq> AUTO_SETTLEMENT \<and> operationType f \<noteq> MANUAL_SETTLEMENT then Inr db1
     else
       (case operationOrderId f of
          None \<Rightarrow> Inl (ReconciliationFailure ''match_state_conflict'')
        | Some oid \<Rightarrow>
            resolveWhere env
              (\<lambda>x. exceptionEntryId x = Some eid \<and> exceptionStatus x = OpenException \<and>
                   exceptionOrderId x \<noteq> None \<and> exceptionOrderId x \<noteq> Some oid)
              (financialOperationId f) ''superseded_by_settlement'' match now db1))"

subsection \<open>Settling automatically\<close>

definition insertMatch :: "payment_match \<Rightarrow> string \<Rightarrow> recon_db \<Rightarrow> store_error + recon_db" where
  "insertMatch m label db =
     bindR (assertR (matchInsertAllowed m db) (SqlAbort label)) (\<lambda>_.
     Inr (db\<lparr>matches := matches db @ [m],
             matchEvents := matchEvents db @
               [\<lparr>historyMatchId = paymentMatchId m, historyStatus = pmStatus m, historyAt = pmUpdatedAt m\<rparr>]\<rparr>))"

datatype reconcile_result =
    ResultIgnored string
  | ResultAllocated string string
  | ResultUnmatched string string
  | ResultAmbiguous string "string list" string
  | ResultAutoSettled string string string string

definition eligibleReads ::
  "recon_db \<Rightarrow> ledger_entry \<Rightarrow> candidate_fact list \<Rightarrow> store_error + match_candidate option list"
where
  "eligibleReads db e facts =
     bindR (mapAll (\<lambda>(ord, s). readCandidateByTuple db (ledgerEntryId e) (orderId ord) (slotId s)) facts) (\<lambda>found.
     Inr (filter (\<lambda>c. case c of None \<Rightarrow> True | Some x \<Rightarrow> candidateStatus x = ELIGIBLE) found))"

text \<open>The rows a settlement writes, after its operation is recorded and its candidate selected.\<close>

definition settleRows ::
  "recon_env \<Rightarrow> financial_operation \<Rightarrow> payment_order \<Rightarrow> ledger_entry \<Rightarrow> payment_match \<Rightarrow> payment_basis
     \<Rightarrow> order_event_details \<Rightarrow> (string \<times> json) list \<Rightarrow> string \<Rightarrow> int \<Rightarrow> recon_db \<Rightarrow> store_error + recon_db"
where
  "settleRows env f ord e m basis decision outboxDetails resolution now db =
     bindR (toSafeInteger (entryAmountCents e) ''ledger amount'') (\<lambda>received.
     bindR (postAccountingTransaction env f (orderId ord) (ledgerEntryId e) SettlementTransaction received
              PROVIDER_CASH ORDER_SETTLEMENT now db) (\<lambda>db1.
     bindR (insertMatch m ''payment match is not supported by its operation and facts'' db1) (\<lambda>db2.
     bindR (setLedgerState e ALLOCATED now db2) (\<lambda>db3.
     bindR (updateOrderPayment ord CONFIRMED basis received now db3) (\<lambda>(nextVersion, db4).
     bindR (insertPaymentEvent env (orderId ord) nextVersion PAYMENT_CONFIRMED now decision db4) (\<lambda>db5.
     bindR (insertOutboxEvent env f ord CONFIRMED basis received nextVersion PAYMENT_CONFIRMED outboxDetails
              now db5) (\<lambda>db6.
     resolveEntryExceptions env (ledgerEntryId e) f resolution (paymentMatchId m) now db6)))))))"

definition autoSettleChecks ::
  "recon_db \<Rightarrow> ledger_entry \<Rightarrow> match_candidate \<Rightarrow> store_error + payment_order"
where
  "autoSettleChecks db e c =
     bindR (assertR (\<not> hasOpenLedgerConflict db (ledgerEntryId e))
             (ReconciliationFailure ''match_state_conflict'')) (\<lambda>_.
     bindR (eligibleReads db e (readCandidateFacts db e)) (\<lambda>current.
     bindR (assertR (case current of [Some x] \<Rightarrow> candidateId x = candidateId c | _ \<Rightarrow> False)
             (ReconciliationFailure ''candidate_set_changed'')) (\<lambda>_.
     bindR (requireOrderDecision db (candidateOrderId c)) (\<lambda>ord.
     bindR (assertR (paymentStatus ord = UNPAID \<and> paymentBasis ord = BasisNone \<and>
                     receivedAmountCents ord = None)
             (ReconciliationFailure ''match_state_conflict'')) (\<lambda>_.
     bindR (readActiveMatchForEntry db (ledgerEntryId e)) (\<lambda>entryMatch.
     bindR (assertR (entryMatch = None) (ReconciliationFailure ''match_state_conflict'')) (\<lambda>_.
     bindR (readActiveMatchForOrder db (orderId ord)) (\<lambda>orderMatch.
     bindR (assertR (orderMatch = None) (ReconciliationFailure ''match_state_conflict'')) (\<lambda>_.
     Inr ord)))))))))"

text \<open>The operation of the candidate is already recorded: its settlement is the result.\<close>

definition replayAutoSettlement ::
  "recon_db \<Rightarrow> ledger_entry \<Rightarrow> match_candidate \<Rightarrow> financial_operation \<Rightarrow> store_error + reconcile_result"
where
  "replayAutoSettlement db e c f =
     bindR (assertR (operationType f = AUTO_SETTLEMENT \<and> operationOrderId f = Some (candidateOrderId c) \<and>
                     operationEntryId f = Some (ledgerEntryId e))
             (ReconciliationFailure ''operation_conflict'')) (\<lambda>_.
     bindR (readPaymentMatchByCreationOperation db (financialOperationId f)) (\<lambda>found.
     case found of
       None \<Rightarrow> Inl (ReconciliationFailure ''match_state_conflict'')
     | Some m \<Rightarrow>
         if pmStatus m \<noteq> SETTLED \<or> pmCandidateId m \<noteq> Some (candidateId c)
         then Inl (ReconciliationFailure ''match_state_conflict'')
         else Inr (ResultAutoSettled (ledgerEntryId e) (candidateId c) (paymentMatchId m)
                     (candidateOrderId c))))"

definition autoOperationInput :: "ledger_entry \<Rightarrow> match_candidate \<Rightarrow> string \<Rightarrow> operation_fingerprint_input" where
  "autoOperationInput e c mid =
     \<lparr>inOperationType = AUTO_SETTLEMENT, inActorType = FinancialSystem, inActorId = None,
      inOperationOrderId = Some (candidateOrderId c), inOperationEntryId = Some (ledgerEntryId e),
      inCandidateId = Some (candidateId c), inPaymentMatchId = Some mid, inReversesOperationId = None,
      inReason = None\<rparr>"

definition autoMatch ::
  "ledger_entry \<Rightarrow> match_candidate \<Rightarrow> string \<Rightarrow> financial_operation \<Rightarrow> int \<Rightarrow> payment_match"
where
  "autoMatch e c mid f now =
     \<lparr>paymentMatchId = mid, pmEntryId = ledgerEntryId e, pmOrderId = candidateOrderId c,
      pmCandidateId = Some (candidateId c), pmEvidenceType = AMOUNT_INFERRED,
      pmEvidence = candidateEvidenceJson c, pmStatus = SETTLED,
      createdByOperationId = financialOperationId f,
      resolvedByOperationId = Some (financialOperationId f), pmCreatedAt = now,
      pmUpdatedAt = now, pmResolvedAt = Some now\<rparr>"

definition recordAutoSettlement ::
  "recon_env \<Rightarrow> ledger_entry \<Rightarrow> match_candidate \<Rightarrow> payment_order \<Rightarrow> int \<Rightarrow> recon_db
     \<Rightarrow> store_error + reconcile_result \<times> recon_db"
where
  "recordAutoSettlement env e c ord now db =
     (let mid = freshId env ForMatch (length (matches db))
      in bindR (insertFinancialOperation env
                  (freshId env ForOperation (length (financialOperations db)))
                  (''auto-settlement:'' @ storedCandidateFingerprint c)
                  (autoOperationInput e c mid) now db) (\<lambda>(f, db1).
         bindR (decideCandidate SELECTED (candidateId c) (financialOperationId f) now
                  ''automatic candidate selection'' db1) (\<lambda>db2.
         bindR (settleRows env f ord e (autoMatch e c mid f now) BasisInferred
                  (DecisionDetails (financialOperationId f) mid (Some (candidateId c))
                    (Some ''AMOUNT_INFERRED''))
                  [(''payment_match_id'', jtext mid), (''candidate_id'', jtext (candidateId c)),
                   (''evidence_type'', jtext ''AMOUNT_INFERRED'')]
                  ''auto_settled'' now db2) (\<lambda>db3.
         Inr (ResultAutoSettled (ledgerEntryId e) (candidateId c) mid (candidateOrderId c), db3)))))"

definition autoSettleCandidate ::
  "recon_env \<Rightarrow> ledger_entry \<Rightarrow> match_candidate \<Rightarrow> int \<Rightarrow> recon_db \<Rightarrow> store_error + reconcile_result \<times> recon_db"
where
  "autoSettleCandidate env e c now db =
     bindR (autoSettleChecks db e c) (\<lambda>ord.
     bindR (readOperationByKey db (''auto-settlement:'' @ storedCandidateFingerprint c)) (\<lambda>existing.
     case existing of
       Some f \<Rightarrow> bindR (replayAutoSettlement db e c f) (\<lambda>r. Inr (r, db))
     | None \<Rightarrow> recordAutoSettlement env e c ord now db))"

subsection \<open>Reconciling an entry\<close>

definition exceptionInput ::
  "ledger_entry \<Rightarrow> financial_exception_type \<Rightarrow> string option \<Rightarrow> string \<Rightarrow> exception_fingerprint_input"
where
  "exceptionInput e ty oid ctx =
     \<lparr>exProviderAccountKey = entryProviderKey e, exExceptionType = ty,
      exLedgerEntryId = Some (ledgerEntryId e), exOrderId = oid, exCandidateId = None, exContextKey = ctx\<rparr>"

definition reportUnmatched ::
  "recon_env \<Rightarrow> ledger_entry \<Rightarrow> store_error + classification \<Rightarrow> int \<Rightarrow> recon_db
     \<Rightarrow> store_error + reconcile_result \<times> recon_db"
where
  "reportUnmatched env e classified now db =
     bindR classified (\<lambda>k.
     bindR (ensureException env (exceptionInput e (classType k) (classOrderId k) (classContextKey k))
              (classDetails k) now db) (\<lambda>(x, db').
     Inr (ResultUnmatched (ledgerEntryId e) (exceptionId x), db')))"

definition isSandboxEntry :: "recon_db \<Rightarrow> ledger_entry \<Rightarrow> bool" where
  "isSandboxEntry db e \<longleftrightarrow> (entryProviderKey e, SANDBOX_PROVIDER_ENDPOINT) \<in> set (bindingEndpoints db)"

definition entryOutcome ::
  "recon_env \<Rightarrow> ledger_entry \<Rightarrow> settled_order_overlap \<Rightarrow> match_candidate list \<Rightarrow> int \<Rightarrow> recon_db
     \<Rightarrow> store_error + reconcile_result \<times> recon_db"
where
  "entryOutcome env e overlap candidates now db =
     (case candidates of
        [] \<Rightarrow>
          bindR (setLedgerState e UNALLOCATED now db) (\<lambda>db1.
          reportUnmatched env e (classifyUnmatchedCredit db1 e overlap) now db1)
      | [c] \<Rightarrow>
          if overlapCount overlap > 0 then
            bindR (setLedgerState e UNALLOCATED now db) (\<lambda>db1.
            reportUnmatched env e (duplicatePaymentClassification overlap) now db1)
          else autoSettleCandidate env e c now db
      | _ \<Rightarrow>
          bindR (setLedgerState e CANDIDATE now db) (\<lambda>db1.
          bindR (ensureException env (exceptionInput e AMBIGUOUS_MATCH None ''rule:3'')
                   (jobject [(''candidate_count'', JInt (int (length candidates)))]) now db1) (\<lambda>(x, db2).
          Inr (ResultAmbiguous (ledgerEntryId e) (map candidateId candidates) (exceptionId x), db2))))"

definition matchEntry ::
  "recon_env \<Rightarrow> ledger_entry \<Rightarrow> int \<Rightarrow> recon_db \<Rightarrow> store_error + reconcile_result \<times> recon_db"
where
  "matchEntry env e now db =
     (let overlap = readSettledOrderOverlap db e
      in bindR (ensureCandidates env e (readCandidateFacts db e) now db) (\<lambda>(found, db1).
         (let candidates = filter (\<lambda>c. candidateStatus c = ELIGIBLE) found
          in bindR (supersedeStaleEligibleCandidates env e (map candidateId candidates) now db1) (\<lambda>db2.
             entryOutcome env e overlap candidates now db2))))"

definition reconcileEntry :: "recon_env \<Rightarrow> string \<Rightarrow> recon_db \<Rightarrow> store_error + reconcile_result \<times> recon_db" where
  "reconcileEntry env eid db =
     bindR (requireIdentifier eid ''ledger entry ID'') (\<lambda>_.
     (let entry = readLedgerEntry db eid
      in if (case entry of None \<Rightarrow> False | Some e \<Rightarrow> isSandboxEntry db e)
         then Inr (ResultIgnored eid, db)
         else
           bindR (financialNow env db) (\<lambda>(now, db1).
           case entry of
             None \<Rightarrow> Inr (ResultIgnored eid, db1)
           | Some e \<Rightarrow>
               if entryState e \<in> {CONFLICT, ISOLATED, IGNORED} \<or> hasOpenLedgerConflict db1 eid
               then Inr (ResultIgnored eid, db1)
               else if entryDirection e = DEBIT then Inr (ResultIgnored eid, db1)
               else
                 bindR (readActiveMatchForEntry db1 eid) (\<lambda>active.
                 case active of
                   Some m \<Rightarrow> Inr (ResultAllocated eid (paymentMatchId m), db1)
                 | None \<Rightarrow>
                     bindR (assertR (entryState e \<noteq> ALLOCATED)
                             (ReconciliationFailure ''match_state_conflict'')) (\<lambda>_.
                     matchEntry env e now db1)))))"

end
