(* ===== verification/ReconBooks.thy ===== *)
theory ReconBooks
  imports ReconMatching OrderSafety
begin

text \<open>
  The books of the reconciliation: orders, ledger entries, matches and postings.  A transaction of the
  store is one of five \<^emph>\<open>book steps\<close>: it leaves the books alone, the order tables move forward, an entry
  that pays nothing changes its state, one unpaid order is settled by one incoming entry, or one
  settlement is reversed.  Here are the steps, the invariant of the books and that every step keeps it;
  the refinement of the store's operations to steps is in the next theories.
\<close>

named_theorems book_steps \<open>statements that are book steps\<close>

subsection \<open>Balances\<close>

definition signedAmount :: "ledger_posting \<Rightarrow> int" where
  "signedAmount p = (case postingSide p of DebitSide \<Rightarrow> postingAmountCents p | CreditSide \<Rightarrow> - postingAmountCents p)"

text \<open>The debit balance of an account over the postings that satisfy \<open>q\<close>.\<close>

definition accountBalance :: "account_code \<Rightarrow> (ledger_posting \<Rightarrow> bool) \<Rightarrow> ledger_posting list \<Rightarrow> int" where
  "accountBalance account q ps = sum_list (map signedAmount (filter (\<lambda>p. accountCode p = account \<and> q p) ps))"

definition onOrders :: "(string \<Rightarrow> bool) \<Rightarrow> ledger_posting \<Rightarrow> bool" where
  "onOrders q p = (case postingOrderId p of None \<Rightarrow> False | Some oid \<Rightarrow> q oid)"

definition onEntries :: "(string \<Rightarrow> bool) \<Rightarrow> ledger_posting \<Rightarrow> bool" where
  "onEntries q p = (case postingEntryId p of None \<Rightarrow> False | Some eid \<Rightarrow> q eid)"

text \<open>What the confirmed orders among \<open>q\<close> have received, and what the allocated entries among \<open>q\<close> brought.\<close>

definition receiptOf :: "(string \<Rightarrow> bool) \<Rightarrow> payment_order \<Rightarrow> int" where
  "receiptOf q r =
     (if q (orderId r) \<and> paymentStatus r = CONFIRMED
      then (case receivedAmountCents r of None \<Rightarrow> 0 | Some n \<Rightarrow> n) else 0)"

definition receipts :: "(string \<Rightarrow> bool) \<Rightarrow> payment_order list \<Rightarrow> int" where
  "receipts q ords = sum_list (map (receiptOf q) ords)"

definition allocationOf :: "(string \<Rightarrow> bool) \<Rightarrow> ledger_entry \<Rightarrow> int" where
  "allocationOf q e = (if q (ledgerEntryId e) \<and> entryState e = ALLOCATED then entryAmountCents e else 0)"

definition allocations :: "(string \<Rightarrow> bool) \<Rightarrow> ledger_entry list \<Rightarrow> int" where
  "allocations q es = sum_list (map (allocationOf q) es)"

lemma accountBalance_append [simp]:
  "accountBalance account q (ps @ ps') = accountBalance account q ps + accountBalance account q ps'"
  by (simp add: accountBalance_def)

lemma sum_list_updateRows:
  assumes "distinct (map key rows)" "r \<in> set rows"
  shows "sum_list (map g (updateRows (\<lambda>x. key x = key r) f rows)) = sum_list (map g rows) + (g (f r) - g r :: int)"
  using assms
proof (induction rows)
  case (Cons x rows)
  show ?case
  proof (cases "x = r")
    case True
    then have "y \<in> set rows \<Longrightarrow> key y \<noteq> key r" for y using Cons.prems(1) by (auto simp: image_iff)
    then have "updateRows (\<lambda>x. key x = key r) f rows = rows"
      unfolding updateRows_def by (intro map_idI) auto
    then show ?thesis using True by (simp add: updateRows_def)
  next
    case False
    then have "key x \<noteq> key r" using Cons.prems by (auto simp: image_iff)
    then show ?thesis using Cons False by (simp add: updateRows_def)
  qed
qed simp

subsection \<open>The invariant of the books\<close>

definition matchOk :: "payment_order list \<Rightarrow> ledger_entry list \<Rightarrow> payment_match \<Rightarrow> bool" where
  "matchOk ords es m \<longleftrightarrow>
     (\<exists>ord \<in> set ords. \<exists>e \<in> set es.
        orderId ord = pmOrderId m \<and> ledgerEntryId e = pmEntryId m \<and> entryDirection e = CREDIT \<and>
        receivedAmountCents ord = Some (entryAmountCents e) \<and> paymentBasis ord \<noteq> BasisNone \<and>
        (pmStatus m = SETTLED \<and> paymentStatus ord = CONFIRMED \<and> entryState e = ALLOCATED \<or>
         pmStatus m = REVERSED \<and> paymentStatus ord = DISPUTED))"

definition settledEntries :: "payment_match list \<Rightarrow> string list" where
  "settledEntries ms = map pmEntryId (filter (\<lambda>m. pmStatus m = SETTLED) ms)"

definition booksOk ::
  "payment_order list \<Rightarrow> ledger_entry list \<Rightarrow> payment_match list \<Rightarrow> ledger_posting list \<Rightarrow> bool"
where
  "booksOk ords es ms ps \<longleftrightarrow>
     distinct (map ledgerEntryId es) \<and> distinct (map paymentMatchId ms) \<and> distinct (map pmOrderId ms) \<and>
     distinct (settledEntries ms) \<and>
     (\<forall>m \<in> set ms. matchOk ords es m) \<and>
     (\<forall>ord \<in> set ords. unpaidOrder ord \<or> (\<exists>m \<in> set ms. pmOrderId m = orderId ord)) \<and>
     (\<forall>e \<in> set es. entryState e = ALLOCATED \<longrightarrow> ledgerEntryId e \<in> set (settledEntries ms)) \<and>
     (\<forall>q. accountBalance ORDER_SETTLEMENT (onOrders q) ps = - receipts q ords) \<and>
     (\<forall>q. accountBalance PROVIDER_CASH (onEntries q) ps = allocations q es) \<and>
     receipts (\<lambda>_. True) ords = allocations (\<lambda>_. True) es"

text \<open>A match made from a candidate pays with the entry of that candidate.\<close>

definition candidateKeys :: "recon_db \<Rightarrow> (string \<times> string) list" where
  "candidateKeys db = map (\<lambda>c. (candidateId c, candidateEntryId c)) (matchCandidates db)"

definition linksOk :: "(string \<times> string) list \<Rightarrow> payment_match list \<Rightarrow> bool" where
  "linksOk keys ms \<longleftrightarrow>
     distinct (map fst keys) \<and>
     (\<forall>m \<in> set ms. \<forall>cid. pmCandidateId m = Some cid \<longrightarrow> (cid, pmEntryId m) \<in> set keys)"

definition reconInv :: "recon_db \<Rightarrow> bool" where
  "reconInv db \<longleftrightarrow>
     orderInv (orderSide db) \<and> linksOk (candidateKeys db) (matches db) \<and>
     booksOk (orders db) (ledgerEntries db) (matches db) (ledgerPostings db)"

subsection \<open>Book steps\<close>

text \<open>The order tables after a payment: one row changes, one event is appended.\<close>

definition paidSide ::
  "payment_order \<Rightarrow> payment_status \<Rightarrow> payment_basis \<Rightarrow> int \<Rightarrow> int \<Rightarrow> order_event \<Rightarrow> order_db \<Rightarrow> order_db"
where
  "paidSide ord status basis received now ev side =
     side\<lparr>paymentOrders :=
            updateRows (\<lambda>r. orderId r = orderId ord) (payOrder status basis received now) (paymentOrders side),
          orderEvents := orderEvents side @ [ev]\<rparr>"

definition payable :: "payment_order \<Rightarrow> int \<Rightarrow> order_event \<Rightarrow> order_db \<Rightarrow> bool" where
  "payable ord now ev side \<longleftrightarrow>
     ord \<in> set (paymentOrders side) \<and> updatedAt ord \<le> now \<and> now \<le> orderClock side \<and>
     eventOrderId ev = orderId ord \<and> eventSequence ev = version ord + 1"

definition movedEntries :: "ledger_entry \<Rightarrow> ledger_state \<Rightarrow> int \<Rightarrow> ledger_entry list \<Rightarrow> ledger_entry list" where
  "movedEntries e state now es =
     updateRows (\<lambda>x. ledgerEntryId x = ledgerEntryId e) (moveEntry state now) es"

text \<open>The two postings of a transaction that moves \<open>amount\<close> from one account to the other.\<close>

definition transferPostings ::
  "string \<Rightarrow> string \<Rightarrow> string \<Rightarrow> account_code \<Rightarrow> account_code \<Rightarrow> int \<Rightarrow> string \<Rightarrow> string \<Rightarrow> int
     \<Rightarrow> ledger_posting list"
where
  "transferPostings pid pid' tid debit credit amount oid eid now =
     [postingRow pid tid debit DebitSide amount oid eid now,
      postingRow pid' tid credit CreditSide amount oid eid now]"

text \<open>Candidates may be added and decided; their identifiers and entries stay.\<close>

definition candidatesKept :: "recon_db \<Rightarrow> recon_db \<Rightarrow> bool" where
  "candidatesKept db db' \<longleftrightarrow>
     set (candidateKeys db) \<subseteq> set (candidateKeys db') \<and>
     (distinct (map fst (candidateKeys db)) \<longrightarrow> distinct (map fst (candidateKeys db')))"

definition sameBooks :: "recon_db \<Rightarrow> recon_db \<Rightarrow> bool" where
  "sameBooks db db' \<longleftrightarrow> candidatesKept db db' \<and>
     orderSide db' = orderSide db \<and> ledgerEntries db' = ledgerEntries db \<and> matches db' = matches db \<and>
     ledgerPostings db' = ledgerPostings db"

inductive bookStep :: "recon_db \<Rightarrow> recon_db \<Rightarrow> bool" where
  quiet: "sameBooks db db' \<Longrightarrow> bookStep db db'"
| ordersMove:
    "orderInv (orderSide db') \<Longrightarrow> advances (orderSide db) (orderSide db') \<Longrightarrow>
     ledgerEntries db' = ledgerEntries db \<Longrightarrow> matches db' = matches db \<Longrightarrow>
     ledgerPostings db' = ledgerPostings db \<Longrightarrow> candidatesKept db db' \<Longrightarrow> bookStep db db'"
| entryMoves:
    "e \<in> set (ledgerEntries db) \<Longrightarrow> entryState e \<noteq> ALLOCATED \<Longrightarrow> state \<noteq> ALLOCATED \<Longrightarrow>
     orderSide db' = orderSide db \<Longrightarrow> matches db' = matches db \<Longrightarrow> ledgerPostings db' = ledgerPostings db \<Longrightarrow>
     ledgerEntries db' = movedEntries e state now (ledgerEntries db) \<Longrightarrow> candidatesKept db db' \<Longrightarrow>
     bookStep db db'"
| settles:
    "payable ord now ev (orderSide db) \<Longrightarrow> paymentStatus ord = UNPAID \<Longrightarrow> basis \<noteq> BasisNone \<Longrightarrow>
     e \<in> set (ledgerEntries db) \<Longrightarrow> entryState e \<noteq> ALLOCATED \<Longrightarrow> entryDirection e = CREDIT \<Longrightarrow>
     pmOrderId m = orderId ord \<Longrightarrow> pmEntryId m = ledgerEntryId e \<Longrightarrow> pmStatus m = SETTLED \<Longrightarrow>
     paymentMatchId m \<notin> paymentMatchId ` set (matches db) \<Longrightarrow>
     orderSide db' = paidSide ord CONFIRMED basis (entryAmountCents e) now ev (orderSide db) \<Longrightarrow>
     ledgerEntries db' = movedEntries e ALLOCATED now (ledgerEntries db) \<Longrightarrow>
     matches db' = matches db @ [m] \<Longrightarrow>
     ledgerPostings db' = ledgerPostings db @
       transferPostings pid pid' tid PROVIDER_CASH ORDER_SETTLEMENT (entryAmountCents e) (orderId ord)
         (ledgerEntryId e) now \<Longrightarrow>
     candidatesKept db db' \<Longrightarrow>
     (\<And>cid. pmCandidateId m = Some cid \<Longrightarrow> (cid, ledgerEntryId e) \<in> set (candidateKeys db)) \<Longrightarrow>
     bookStep db db'"
| reverses:
    "payable ord now ev (orderSide db) \<Longrightarrow> receivedAmountCents ord = Some received \<Longrightarrow>
     e \<in> set (ledgerEntries db) \<Longrightarrow> state \<noteq> ALLOCATED \<Longrightarrow>
     m \<in> set (matches db) \<Longrightarrow> pmStatus m = SETTLED \<Longrightarrow> pmOrderId m = orderId ord \<Longrightarrow>
     pmEntryId m = ledgerEntryId e \<Longrightarrow>
     (\<And>x. pmStatus (reverse x) = REVERSED \<and> pmOrderId (reverse x) = pmOrderId x \<and>
           pmEntryId (reverse x) = pmEntryId x \<and> paymentMatchId (reverse x) = paymentMatchId x) \<Longrightarrow>
     (\<And>x. pmCandidateId (reverse x) = pmCandidateId x) \<Longrightarrow> candidatesKept db db' \<Longrightarrow>
     orderSide db' = paidSide ord DISPUTED (paymentBasis ord) received now ev (orderSide db) \<Longrightarrow>
     ledgerEntries db' = movedEntries e state now (ledgerEntries db) \<Longrightarrow>
     matches db' = updateRows (\<lambda>x. paymentMatchId x = paymentMatchId m) reverse (matches db) \<Longrightarrow>
     ledgerPostings db' = ledgerPostings db @
       transferPostings pid pid' tid ORDER_SETTLEMENT PROVIDER_CASH received (orderId ord)
         (ledgerEntryId e) now \<Longrightarrow>
     bookStep db db'"

subsection \<open>A payment keeps the order tables' invariant\<close>

lemma payOrder_simps [simp]:
  "orderId (payOrder status basis received now r) = orderId r"
  "paymentStatus (payOrder status basis received now r) = status"
  "paymentBasis (payOrder status basis received now r) = basis"
  "receivedAmountCents (payOrder status basis received now r) = Some received"
  "refundStatus (payOrder status basis received now r) = refundStatus r"
  "version (payOrder status basis received now r) = version r + 1"
  "updatedAt (payOrder status basis received now r) = now"
  "payableAmountCents (payOrder status basis received now r) = payableAmountCents r"
  "collectionProfileId (payOrder status basis received now r) = collectionProfileId r"
  "apiClientId (payOrder status basis received now r) = apiClientId r"
  "createdAt (payOrder status basis received now r) = createdAt r"
  by (simp_all add: payOrder_def)

lemma moveEntry_simps [simp]:
  "ledgerEntryId (moveEntry state now e) = ledgerEntryId e"
  "entryState (moveEntry state now e) = state"
  "entryDirection (moveEntry state now e) = entryDirection e"
  "entryAmountCents (moveEntry state now e) = entryAmountCents e"
  "entryProviderKey (moveEntry state now e) = entryProviderKey e"
  by (simp_all add: moveEntry_def)

lemma endedBefore_pay [simp]: "endedBefore (payOrder status basis received now r) t = endedBefore r t"
  by (simp add: endedBefore_def payOrder_def endedAt_def)

lemma slotMatches_pay [simp]: "slotMatches (payOrder status basis received now r) s = slotMatches r s"
  by (simp add: slotMatches_def payOrder_def)

lemma windowsOk_pay:
  "windowsOk ords ss \<Longrightarrow> windowsOk (updateRows p (payOrder status basis received now) ords) ss"
  by (auto simp: windowsOk_def set_updateRows)

lemma eventsOk_pay:
  assumes "eventsOk ords events" "distinct (map orderId ords)" "ord \<in> set ords" "1 \<le> version ord"
    "eventOrderId e = orderId ord" "eventSequence e = version ord + 1"
  shows "eventsOk (updateRows (\<lambda>r. orderId r = orderId ord) (payOrder status basis received now) ords) (events @ [e])"
  by (rule eventsOk_step) (use assms in auto)

lemma paidSide_inv:
  assumes inv: "orderInv side" and p: "payable ord now ev side"
  shows "orderInv (paidSide ord status basis received now ev side)"
proof -
  note rows = orderInv_rows [OF inv] and p' = p [unfolded payable_def]
  have ok: "orderRowOk ord" "1 \<le> version ord" "createdAt ord \<le> updatedAt ord"
    using rowsInvD(4) [OF rows] p' by (auto simp: orderRowOk_def)
  have row: "orderRowOk (payOrder status basis received now ord)"
    using ok p' by (simp add: orderRowOk_def payOrder_def)
  have one: "r = ord" if "r \<in> set (paymentOrders side)" "orderId r = orderId ord" for r
    using order_unique [OF rows] p' that by simp
  have "list_all2 slotMatches (updateRows (\<lambda>r. orderId r = orderId ord) (payOrder status basis received now)
      (paymentOrders side)) (amountSlots side)"
    using rowsInvD(2) [OF rows] by (simp add: updateRows_def list_all2_map1 if_distrib [where f = "\<lambda>r. slotMatches r _"])
  moreover have "timesWithin (orderClock side) (payOrder status basis received now ord)"
    using rowsInvD(5) [OF rows, of ord] p' by (simp add: timesWithin_def payOrder_def)
  ultimately have "rowsInv (paidSide ord status basis received now ev side)"
    using rowsInvD [OF rows] row one unfolding rowsInv_def paidSide_def
    by (auto simp: map_updateRows windowsOk_pay set_updateRows)
  moreover have "eventsOk (paymentOrders (paidSide ord status basis received now ev side))
      (orderEvents (paidSide ord status basis received now ev side))"
    using eventsOk_pay [OF orderInv_events [OF inv] rowsInvD(1) [OF rows] _ ok(2)] p' by (simp add: paidSide_def)
  moreover have "keysOk (paymentOrders (paidSide ord status basis received now ev side))"
    using orderInv_keys [OF inv] by (simp add: keysOk_def paidSide_def map_updateRows payOrder_def)
  ultimately show ?thesis by (simp add: orderInv_def)
qed

subsection \<open>Every step keeps the invariant\<close>

lemma linksOk_kept:
  "linksOk (candidateKeys db) ms \<Longrightarrow> candidatesKept db db' \<Longrightarrow> linksOk (candidateKeys db') ms"
  by (auto simp: linksOk_def candidatesKept_def)

lemma linksOk_settle:
  assumes "linksOk (candidateKeys db) ms" "candidatesKept db db'" "pmEntryId m = eid"
    "\<And>cid. pmCandidateId m = Some cid \<Longrightarrow> (cid, eid) \<in> set (candidateKeys db)"
  shows "linksOk (candidateKeys db') (ms @ [m])"
  using linksOk_kept [OF assms(1,2)] assms(2-4) by (auto simp: linksOk_def candidatesKept_def)

lemma linksOk_update:
  assumes "linksOk (candidateKeys db) ms" "candidatesKept db db'"
    "\<And>x. pmCandidateId (f x) = pmCandidateId x" "\<And>x. pmEntryId (f x) = pmEntryId x"
  shows "linksOk (candidateKeys db') (updateRows p f ms)"
  using linksOk_kept [OF assms(1,2)] assms(3,4) by (auto simp: linksOk_def set_updateRows)

lemma candidatesKept_refl [simp]: "matchCandidates db' = matchCandidates db \<Longrightarrow> candidatesKept db db'"
  by (simp add: candidatesKept_def candidateKeys_def)

lemma candidatesKept_trans: "candidatesKept db db' \<Longrightarrow> candidatesKept db' db'' \<Longrightarrow> candidatesKept db db''"
  by (auto simp: candidatesKept_def)

lemma reconInvD:
  assumes "reconInv db"
  shows "orderInv (orderSide db)" "rowsInv (orderSide db)"
    "booksOk (orders db) (ledgerEntries db) (matches db) (ledgerPostings db)"
    "distinct (map orderId (orders db))"
    "linksOk (candidateKeys db) (matches db)"
  using assms orderInv_rows rowsInvD(1) by (auto simp: reconInv_def orders_def)

lemma booksOkD:
  assumes "booksOk ords es ms ps"
  shows "distinct (map ledgerEntryId es)" "distinct (map paymentMatchId ms)" "distinct (map pmOrderId ms)"
    "distinct (settledEntries ms)"
    "m \<in> set ms \<Longrightarrow> matchOk ords es m"
    "ord \<in> set ords \<Longrightarrow> unpaidOrder ord \<or> (\<exists>m \<in> set ms. pmOrderId m = orderId ord)"
    "e \<in> set es \<Longrightarrow> entryState e = ALLOCATED \<Longrightarrow> ledgerEntryId e \<in> set (settledEntries ms)"
    "accountBalance ORDER_SETTLEMENT (onOrders q) ps = - receipts q ords"
    "accountBalance PROVIDER_CASH (onEntries q) ps = allocations q es"
    "receipts (\<lambda>_. True) ords = allocations (\<lambda>_. True) es"
  using assms by (simp_all add: booksOk_def)

lemma entry_unique:
  "distinct (map ledgerEntryId es) \<Longrightarrow> e \<in> set es \<Longrightarrow> e' \<in> set es \<Longrightarrow> ledgerEntryId e = ledgerEntryId e' \<Longrightarrow> e = e'"
  by (auto simp: distinct_map dest: inj_onD)

lemma match_unique:
  "distinct (map paymentMatchId ms) \<Longrightarrow> m \<in> set ms \<Longrightarrow> n \<in> set ms \<Longrightarrow> paymentMatchId m = paymentMatchId n \<Longrightarrow> m = n"
  by (auto simp: distinct_map dest: inj_onD)

lemma order_row_unique:
  "distinct (map orderId ords) \<Longrightarrow> r \<in> set ords \<Longrightarrow> r' \<in> set ords \<Longrightarrow> orderId r = orderId r' \<Longrightarrow> r = r'"
  by (auto simp: distinct_map dest: inj_onD)

text \<open>The orders may move forward: what the books read of them does not change.\<close>

lemma receipts_append: "receipts q (xs @ ys) = receipts q xs + receipts q ys"
  by (simp add: receipts_def)

lemma receiptOf_evolve: "evolves r r' \<Longrightarrow> receiptOf q r' = receiptOf q r"
  using evolves_payment [of r r'] evolves_identity [of r r'] by (simp add: receiptOf_def)

lemma receipts_evolve: "list_all2 evolves ords ords' \<Longrightarrow> receipts q ords' = receipts q ords"
  by (induction rule: list_all2_induct)
     (auto simp: receipts_def dest: receiptOf_evolve)

lemma receipts_unpaid: "list_all unpaidOrder ords \<Longrightarrow> receipts q ords = 0"
  by (induction ords) (auto simp: receipts_def receiptOf_def unpaidOrder_def)

lemma matchOk_evolve:
  assumes "list_all2 evolves ords ords'" "matchOk ords es m"
  shows "matchOk (ords' @ new) es m"
proof -
  obtain ord e where w: "ord \<in> set ords" "e \<in> set es" "orderId ord = pmOrderId m" "ledgerEntryId e = pmEntryId m"
      "entryDirection e = CREDIT" "receivedAmountCents ord = Some (entryAmountCents e)" "paymentBasis ord \<noteq> BasisNone"
      "pmStatus m = SETTLED \<and> paymentStatus ord = CONFIRMED \<and> entryState e = ALLOCATED \<or>
       pmStatus m = REVERSED \<and> paymentStatus ord = DISPUTED"
    using assms(2) unfolding matchOk_def by blast
  obtain ord' where "ord' \<in> set ords'" "evolves ord ord'" using list_all2_right [OF assms(1) w(1)] by blast
  then show ?thesis
    using w evolves_payment [of ord ord'] evolves_identity [of ord ord'] unfolding matchOk_def
    by (intro bexI [where x = ord'] bexI [where x = e]) auto
qed

lemma booksOk_advance:
  assumes "booksOk ords es ms ps" "list_all2 evolves ords ended" "list_all unpaidOrder new"
  shows "booksOk (ended @ new) es ms ps"
proof -
  note b = booksOkD [OF assms(1)]
  have "unpaidOrder r \<or> (\<exists>m \<in> set ms. pmOrderId m = orderId r)" if "r \<in> set (ended @ new)" for r
  proof (cases "r \<in> set ended")
    case True
    then obtain r0 where "r0 \<in> set ords" "evolves r0 r" using list_all2_left [OF assms(2)] by blast
    then show ?thesis
      using b(6) [of r0] evolves_identity [of r0 r] evolves_payment [of r0 r] by (simp add: unpaidOrder_def)
  qed (use that assms(3) in \<open>auto simp: list_all_iff\<close>)
  then show ?thesis
    using b matchOk_evolve [OF assms(2)] receipts_evolve [OF assms(2)] receipts_unpaid [OF assms(3)]
    unfolding booksOk_def by (auto simp: receipts_append)
qed

text \<open>What a match says of its order and its entry.\<close>

lemma matchOk_facts:
  assumes m: "matchOk ords es m" and d: "distinct (map orderId ords)" "distinct (map ledgerEntryId es)"
  shows "ord \<in> set ords \<Longrightarrow> orderId ord = pmOrderId m \<Longrightarrow>
      paymentStatus ord = (if pmStatus m = SETTLED then CONFIRMED else DISPUTED) \<and> paymentBasis ord \<noteq> BasisNone"
    "e \<in> set es \<Longrightarrow> ledgerEntryId e = pmEntryId m \<Longrightarrow>
      entryDirection e = CREDIT \<and> (pmStatus m = SETTLED \<longrightarrow> entryState e = ALLOCATED)"
    "ord \<in> set ords \<Longrightarrow> orderId ord = pmOrderId m \<Longrightarrow> e \<in> set es \<Longrightarrow> ledgerEntryId e = pmEntryId m \<Longrightarrow>
      receivedAmountCents ord = Some (entryAmountCents e)"
proof -
  obtain r x where w: "r \<in> set ords" "x \<in> set es" "orderId r = pmOrderId m" "ledgerEntryId x = pmEntryId m"
      "entryDirection x = CREDIT" "receivedAmountCents r = Some (entryAmountCents x)" "paymentBasis r \<noteq> BasisNone"
      "pmStatus m = SETTLED \<and> paymentStatus r = CONFIRMED \<and> entryState x = ALLOCATED \<or>
       pmStatus m = REVERSED \<and> paymentStatus r = DISPUTED"
    using m unfolding matchOk_def by blast
  have r: "ord = r" if "ord \<in> set ords" "orderId ord = pmOrderId m" for ord
    using order_row_unique [OF d(1) that(1) w(1)] that(2) w(3) by simp
  have x: "e = x" if "e \<in> set es" "ledgerEntryId e = pmEntryId m" for e
    using entry_unique [OF d(2) that(1) w(2)] that(2) w(4) by simp
  show "ord \<in> set ords \<Longrightarrow> orderId ord = pmOrderId m \<Longrightarrow>
      paymentStatus ord = (if pmStatus m = SETTLED then CONFIRMED else DISPUTED) \<and> paymentBasis ord \<noteq> BasisNone"
    using r w(7,8) by (cases "pmStatus m") auto
  show "e \<in> set es \<Longrightarrow> ledgerEntryId e = pmEntryId m \<Longrightarrow>
      entryDirection e = CREDIT \<and> (pmStatus m = SETTLED \<longrightarrow> entryState e = ALLOCATED)"
    using x w(5,8) by auto
  show "ord \<in> set ords \<Longrightarrow> orderId ord = pmOrderId m \<Longrightarrow> e \<in> set es \<Longrightarrow> ledgerEntryId e = pmEntryId m \<Longrightarrow>
      receivedAmountCents ord = Some (entryAmountCents e)"
    using r x w(6) by simp
qed

text \<open>One entry changes its state, one order its payment.\<close>

lemma moved_in_entries:
  "e \<in> set es \<Longrightarrow> moveEntry state now e \<in> set (movedEntries e state now es)"
  by (auto simp: movedEntries_def set_updateRows)

lemma paid_in_orders:
  "ord \<in> set ords \<Longrightarrow> f ord \<in> set (updateRows (\<lambda>r. orderId r = orderId ord) f ords)"
  by (auto simp: set_updateRows)

lemma map_movedEntries [simp]: "map ledgerEntryId (movedEntries e state now es) = map ledgerEntryId es"
  by (simp add: movedEntries_def map_updateRows)

lemma mem_movedEntries:
  assumes "distinct (map ledgerEntryId es)" "e \<in> set es" "x \<in> set (movedEntries e state now es)"
  shows "x = moveEntry state now e \<or> x \<in> set es \<and> ledgerEntryId x \<noteq> ledgerEntryId e"
  using assms(3) entry_unique [OF assms(1) _ assms(2)] unfolding movedEntries_def
  by (auto elim!: mem_updateRowsE)

lemma mem_paidOrders:
  assumes "distinct (map orderId ords)" "ord \<in> set ords" "x \<in> set (updateRows (\<lambda>r. orderId r = orderId ord) f ords)"
  shows "x = f ord \<or> x \<in> set ords \<and> orderId x \<noteq> orderId ord"
  using assms(3) order_row_unique [OF assms(1) _ assms(2)] by (auto elim!: mem_updateRowsE)

lemma matchOk_moved:
  assumes "distinct (map ledgerEntryId es)" "e \<in> set es" "matchOk ords es m"
    and "pmStatus m = SETTLED \<Longrightarrow> pmEntryId m \<noteq> ledgerEntryId e"
  shows "matchOk ords (movedEntries e state now es) m"
proof -
  obtain ord x where w: "ord \<in> set ords" "x \<in> set es" "orderId ord = pmOrderId m" "ledgerEntryId x = pmEntryId m"
      "entryDirection x = CREDIT" "receivedAmountCents ord = Some (entryAmountCents x)" "paymentBasis ord \<noteq> BasisNone"
      "pmStatus m = SETTLED \<and> paymentStatus ord = CONFIRMED \<and> entryState x = ALLOCATED \<or>
       pmStatus m = REVERSED \<and> paymentStatus ord = DISPUTED"
    using assms(3) unfolding matchOk_def by blast
  have "(if ledgerEntryId x = ledgerEntryId e then moveEntry state now x else x) \<in> set (movedEntries e state now es)"
    unfolding movedEntries_def using w(2) by (rule mem_updateRows_image)
  then show ?thesis using w assms(4) unfolding matchOk_def
    by (intro bexI [OF _ w(1)] bexI [rotated, of "if ledgerEntryId x = ledgerEntryId e then moveEntry state now x else x"]) auto
qed

lemma matchOk_paid:
  assumes "matchOk ords es m" "pmOrderId m \<noteq> orderId ord"
  shows "matchOk (updateRows (\<lambda>r. orderId r = orderId ord) f ords) es m"
proof -
  obtain r where r: "r \<in> set ords" "orderId r = pmOrderId m" "\<exists>e \<in> set es.
        orderId r = pmOrderId m \<and> ledgerEntryId e = pmEntryId m \<and> entryDirection e = CREDIT \<and>
        receivedAmountCents r = Some (entryAmountCents e) \<and> paymentBasis r \<noteq> BasisNone \<and>
        (pmStatus m = SETTLED \<and> paymentStatus r = CONFIRMED \<and> entryState e = ALLOCATED \<or>
         pmStatus m = REVERSED \<and> paymentStatus r = DISPUTED)"
    using assms(1) unfolding matchOk_def by blast
  have "r \<in> set (updateRows (\<lambda>r. orderId r = orderId ord) f ords)"
    using r assms(2) by (auto simp: set_updateRows)
  then show ?thesis using r(3) unfolding matchOk_def by blast
qed

lemma allocations_moved:
  assumes "distinct (map ledgerEntryId es)" "e \<in> set es"
  shows "allocations q (movedEntries e state now es) =
    allocations q es + (allocationOf q (moveEntry state now e) - allocationOf q e)"
  unfolding allocations_def movedEntries_def using assms by (rule sum_list_updateRows)

lemma receipts_paid:
  assumes "distinct (map orderId ords)" "ord \<in> set ords"
  shows "receipts q (updateRows (\<lambda>r. orderId r = orderId ord) f ords) =
    receipts q ords + (receiptOf q (f ord) - receiptOf q ord)"
  unfolding receipts_def using assms by (rule sum_list_updateRows)

lemma booksOk_move:
  assumes ok: "booksOk ords es ms ps" and d: "distinct (map orderId ords)"
    and e: "e \<in> set es" "entryState e \<noteq> ALLOCATED" and st: "state \<noteq> ALLOCATED"
  shows "booksOk ords (movedEntries e state now es) ms ps"
proof -
  note b = booksOkD [OF ok]
  have free: "pmEntryId m \<noteq> ledgerEntryId e" if "m \<in> set ms" "pmStatus m = SETTLED" for m
    using matchOk_facts(2) [OF b(5) [OF that(1)] d b(1) e(1)] that(2) e(2) by auto
  have "matchOk ords (movedEntries e state now es) m" if "m \<in> set ms" for m
    using matchOk_moved [OF b(1) e(1) b(5) [OF that]] free [OF that] by blast
  moreover have "ledgerEntryId x \<in> set (settledEntries ms)"
    if "x \<in> set (movedEntries e state now es)" "entryState x = ALLOCATED" for x
    using mem_movedEntries [OF b(1) e(1) that(1)] that(2) st b(7) by auto
  moreover have "allocations q (movedEntries e state now es) = allocations q es" for q
    using e(2) st by (simp add: allocations_moved [OF b(1) e(1)] allocationOf_def)
  ultimately show ?thesis using b unfolding booksOk_def by simp
qed

lemma accountBalance_transfer:
  "accountBalance account (onOrders q) (transferPostings pid pid' tid debit credit amount oid eid now) =
     (if q oid then (if account = debit then amount else 0) - (if account = credit then amount else 0) else 0)"
  "accountBalance account (onEntries q) (transferPostings pid pid' tid debit credit amount oid eid now) =
     (if q eid then (if account = debit then amount else 0) - (if account = credit then amount else 0) else 0)"
  by (simp_all add: accountBalance_def transferPostings_def postingRow_def onOrders_def onEntries_def signedAmount_def)

lemma booksOk_settle:
  assumes ok: "booksOk ords es ms ps" and d: "distinct (map orderId ords)"
    and ord: "ord \<in> set ords" "paymentStatus ord = UNPAID" and basis: "basis \<noteq> BasisNone"
    and e: "e \<in> set es" "entryState e \<noteq> ALLOCATED" "entryDirection e = CREDIT"
    and m: "pmOrderId m = orderId ord" "pmEntryId m = ledgerEntryId e" "pmStatus m = SETTLED"
      "paymentMatchId m \<notin> paymentMatchId ` set ms"
  shows "booksOk (updateRows (\<lambda>r. orderId r = orderId ord) (payOrder CONFIRMED basis (entryAmountCents e) now) ords)
    (movedEntries e ALLOCATED now es) (ms @ [m])
    (ps @ transferPostings pid pid' tid PROVIDER_CASH ORDER_SETTLEMENT (entryAmountCents e) (orderId ord)
       (ledgerEntryId e) now)" (is "booksOk ?ords ?es ?ms ?ps")
proof -
  note b = booksOkD [OF ok]
  have no_match: "pmOrderId n \<noteq> orderId ord" if "n \<in> set ms" for n
    using matchOk_facts(1) [OF b(5) [OF that] d b(1) ord(1)] ord(2) by (auto split: if_splits)
  have free: "pmEntryId n \<noteq> ledgerEntryId e" if "n \<in> set ms" "pmStatus n = SETTLED" for n
    using matchOk_facts(2) [OF b(5) [OF that(1)] d b(1) e(1)] that(2) e(2) by auto
  have "matchOk ?ords ?es n" if "n \<in> set ms" for n
    using matchOk_paid [OF matchOk_moved [OF b(1) e(1) b(5) [OF that]] no_match [OF that]] free [OF that] by blast
  moreover have "matchOk ?ords ?es m"
    unfolding matchOk_def
    by (rule bexI [OF _ paid_in_orders [OF ord(1)]], rule bexI [OF _ moved_in_entries [OF e(1)]])
       (use m basis e(3) in simp)
  moreover have "unpaidOrder r \<or> (\<exists>n \<in> set ?ms. pmOrderId n = orderId r)" if "r \<in> set ?ords" for r
    using mem_paidOrders [OF d ord(1) that] b(6) [of r] m(1) by auto
  moreover have "ledgerEntryId x \<in> set (settledEntries ?ms)" if "x \<in> set ?es" "entryState x = ALLOCATED" for x
    using mem_movedEntries [OF b(1) e(1) that(1)] that(2) b(7) [of x] m(2,3) by (auto simp: settledEntries_def)
  moreover have "receipts q ?ords = receipts q ords + (if q (orderId ord) then entryAmountCents e else 0)" for q
    using ord(2) by (simp add: receipts_paid [OF d ord(1)] receiptOf_def)
  moreover have "allocations q ?es = allocations q es + (if q (ledgerEntryId e) then entryAmountCents e else 0)" for q
    using e(2) by (simp add: allocations_moved [OF b(1) e(1)] allocationOf_def)
  moreover have new: "pmOrderId m \<notin> pmOrderId ` set ms" "pmEntryId m \<notin> set (settledEntries ms)"
    using m(1,2) by (auto simp: settledEntries_def dest: no_match free)
  moreover have "distinct (settledEntries ?ms)" "distinct (map pmOrderId ?ms)" "distinct (map paymentMatchId ?ms)"
    using b(2-4) m new by (simp_all add: settledEntries_def)
  ultimately show ?thesis using b unfolding booksOk_def by (simp add: accountBalance_transfer)
qed

lemma booksOk_reverse:
  assumes ok: "booksOk ords es ms ps" and d: "distinct (map orderId ords)"
    and ord: "ord \<in> set ords" "receivedAmountCents ord = Some received"
    and e: "e \<in> set es" and st: "state \<noteq> ALLOCATED"
    and m: "m \<in> set ms" "pmStatus m = SETTLED" "pmOrderId m = orderId ord" "pmEntryId m = ledgerEntryId e"
    and f: "\<And>x. pmStatus (f x) = REVERSED \<and> pmOrderId (f x) = pmOrderId x \<and> pmEntryId (f x) = pmEntryId x \<and>
      paymentMatchId (f x) = paymentMatchId x"
  shows "booksOk (updateRows (\<lambda>r. orderId r = orderId ord) (payOrder DISPUTED (paymentBasis ord) received now) ords)
    (movedEntries e state now es) (updateRows (\<lambda>x. paymentMatchId x = paymentMatchId m) f ms)
    (ps @ transferPostings pid pid' tid ORDER_SETTLEMENT PROVIDER_CASH received (orderId ord)
       (ledgerEntryId e) now)" (is "booksOk ?ords ?es ?ms ?ps")
proof -
  note b = booksOkD [OF ok]
  have facts: "paymentStatus ord = CONFIRMED" "entryState e = ALLOCATED" "entryDirection e = CREDIT"
      "received = entryAmountCents e" "paymentBasis ord \<noteq> BasisNone"
    using matchOk_facts(1) [OF b(5) [OF m(1)] d b(1) ord(1)] matchOk_facts(2) [OF b(5) [OF m(1)] d b(1) e]
      matchOk_facts(3) [OF b(5) [OF m(1)] d b(1) ord(1) _ e] m(2-4) ord(2)
    by simp_all
  have only: "n = m" if "n \<in> set ms" "paymentMatchId n = paymentMatchId m \<or> pmOrderId n = pmOrderId m \<or>
      pmStatus n = SETTLED \<and> pmEntryId n = pmEntryId m" for n
    using that m(1,2) b(2,3,4) by (auto simp: distinct_map settledEntries_def dest: inj_onD)
  have mems: "x = f m \<or> x \<in> set ms \<and> x \<noteq> m" if "x \<in> set ?ms" for x
    using that
  proof (cases rule: mem_updateRowsE)
    case (1 r)
    then show ?thesis using only [of r] by simp
  qed auto
  have keep: "x \<in> set ?ms" if "x \<in> set ms" "x \<noteq> m" for x
    using that only by (auto simp: set_updateRows)
  have fm: "f m \<in> set ?ms" using m(1) by (auto simp: set_updateRows)
  have "matchOk ?ords ?es (f m)"
    unfolding matchOk_def
    by (rule bexI [OF _ paid_in_orders [OF ord(1)]], rule bexI [OF _ moved_in_entries [OF e]])
       (use m f facts in simp)
  moreover have "matchOk ?ords ?es n" if "n \<in> set ms" "n \<noteq> m" for n
    using matchOk_paid [OF matchOk_moved [OF b(1) e b(5) [OF that(1)]]] only [OF that(1)] that(2) m(3,4) by metis
  moreover have "unpaidOrder r \<or> (\<exists>n \<in> set ?ms. pmOrderId n = orderId r)" if "r \<in> set ?ords" for r
    using mem_paidOrders [OF d ord(1) that] b(6) [of r] m(3) f fm keep by (metis payOrder_simps(1))
  moreover have "ledgerEntryId x \<in> set (settledEntries ?ms)" if moved: "x \<in> set ?es" "entryState x = ALLOCATED" for x
  proof -
    have x: "x \<in> set es" "ledgerEntryId x \<noteq> ledgerEntryId e"
      using mem_movedEntries [OF b(1) e moved(1)] moved(2) st by auto
    then obtain n where "n \<in> set ms" "pmStatus n = SETTLED" "pmEntryId n = ledgerEntryId x"
      using b(7) [OF x(1) moved(2)] by (auto simp: settledEntries_def)
    then show ?thesis using keep [of n] x(2) m(4) by (force simp: settledEntries_def)
  qed
  moreover have "receipts q ?ords = receipts q ords - (if q (orderId ord) then received else 0)" for q
    using facts(1) ord(2) by (simp add: receipts_paid [OF d ord(1)] receiptOf_def)
  moreover have "allocations q ?es = allocations q es - (if q (ledgerEntryId e) then received else 0)" for q
    using facts(2,4) st by (simp add: allocations_moved [OF b(1) e] allocationOf_def)
  moreover have "map pmOrderId ?ms = map pmOrderId ms" "map paymentMatchId ?ms = map paymentMatchId ms"
    using f by (simp_all add: map_updateRows)
  moreover have "distinct (settledEntries ?ms)"
    using b(4) f by (induction ms) (auto simp: settledEntries_def updateRows_def split: if_splits)
  moreover have "matchOk ?ords ?es n" if "n \<in> set ?ms" for n
    using mems [OF that] calculation(1,2) by blast
  ultimately show ?thesis using b unfolding booksOk_def by (simp add: accountBalance_transfer)
qed

text \<open>The refinement target: every book step keeps the invariant, and moves the books forward.\<close>

lemma bookStep_inv: "bookStep db db' \<Longrightarrow> reconInv db \<Longrightarrow> reconInv db'"
proof (induction rule: bookStep.induct)
  case (quiet db db')
  then show ?case by (auto simp: sameBooks_def reconInv_def orders_def intro: linksOk_kept)
next
  case (ordersMove db' db)
  obtain ended new where "orders db' = ended @ new" "list_all2 evolves (orders db) ended" "list_all unpaidOrder new"
    using ordersMove.hyps(2) by (auto simp: advances_def orders_def)
  then show ?case
    using booksOk_advance [OF reconInvD(3) [OF ordersMove.prems]] ordersMove.hyps
      linksOk_kept [OF reconInvD(5) [OF ordersMove.prems]] by (simp add: reconInv_def)
next
  case (entryMoves e db state db' now)
  note i = reconInvD [OF entryMoves.prems]
  show ?case
    using booksOk_move [OF i(3,4) entryMoves.hyps(1-3)] i(1) linksOk_kept [OF i(5)] entryMoves.hyps
    by (simp add: reconInv_def orders_def)
next
  case (settles ord now ev db basis e m db' pid pid' tid)
  note i = reconInvD [OF settles.prems]
  have "ord \<in> set (orders db)" using settles.hyps(1) by (simp add: payable_def orders_def)
  from booksOk_settle [OF i(3,4) this settles.hyps(2-10)] paidSide_inv [OF i(1) settles.hyps(1)]
    linksOk_settle [OF i(5), of db' m "ledgerEntryId e"]
  show ?case using settles.hyps by (simp add: reconInv_def orders_def paidSide_def)
next
  case (reverses ord now ev db received e state m reverse db' pid pid' tid)
  note i = reconInvD [OF reverses.prems]
  have "ord \<in> set (orders db)" using reverses.hyps(1) by (simp add: payable_def orders_def)
  from booksOk_reverse [OF i(3,4) this reverses.hyps(2-9)] paidSide_inv [OF i(1) reverses.hyps(1)]
    linksOk_update [OF i(5), of db' reverse]
  show ?case using reverses.hyps by (simp add: reconInv_def orders_def paidSide_def)
qed

lemma bookSteps_inv: "bookStep\<^sup>*\<^sup>* db db' \<Longrightarrow> reconInv db \<Longrightarrow> reconInv db'"
  by (induction rule: rtranclp_induct) (auto intro: bookStep_inv)

lemma sameBooks_refl [simp]: "sameBooks db db"
  by (simp add: sameBooks_def)

lemma sameBooks_trans: "sameBooks db db' \<Longrightarrow> sameBooks db' db'' \<Longrightarrow> sameBooks db db''"
  by (auto simp: sameBooks_def elim: candidatesKept_trans)

lemma sameBooks_orders: "sameBooks db db' \<Longrightarrow> orders db' = orders db"
  by (simp add: sameBooks_def orders_def)

lemma sameBooks_steps: "sameBooks db db' \<Longrightarrow> bookStep\<^sup>*\<^sup>* db db'"
  by (intro r_into_rtranclp quiet)

end
