(* ===== verification/ReconDecisions.thy ===== *)
theory ReconDecisions
  imports ReconMatching
begin

text \<open>
  The administrator's decisions of \<^verbatim>\<open>src/src/reconciliation/store.ts\<close> (\<^verbatim>\<open>settleManually\<close>,
  \<^verbatim>\<open>reverseSettlement\<close>), which are idempotent in their operation identifier, the work lists
  (\<^verbatim>\<open>pendingLedgerPage\<close>, \<^verbatim>\<open>reconcilePending\<close>, \<^verbatim>\<open>reconcileOrder\<close>) and the reads, with the scope checks
  of \<^verbatim>\<open>src/src/sites/admin-scope.ts\<close>.
\<close>

subsection \<open>The website scope\<close>

definition assertOrderScope :: "recon_db \<Rightarrow> jstr option \<Rightarrow> string \<Rightarrow> store_error + unit" where
  "assertOrderScope db client oid =
     (case client of
        None \<Rightarrow> Inr ()
      | Some c \<Rightarrow>
          if c = [] then Inr ()
          else assertR (list_ex (\<lambda>ord. orderId ord = oid \<and> apiClientId ord = c \<and> c \<in> set (liveSites db)) (orders db))
                 (AdminOperationFailure 404 ''order_not_found''))"

definition evidenceOrders :: "recon_db \<Rightarrow> string \<Rightarrow> string list" where
  "evidenceOrders db eid =
     map pmOrderId (filter (\<lambda>m. pmEntryId m = eid) (matches db)) @
     map candidateOrderId (filter (\<lambda>c. candidateEntryId c = eid) (matchCandidates db)) @
     concat (map (\<lambda>x. case exceptionOrderId x of None \<Rightarrow> [] | Some oid \<Rightarrow> [oid])
       (filter (\<lambda>x. exceptionEntryId x = Some eid) (financialExceptions db)))"

definition assertSiteLedger :: "recon_db \<Rightarrow> jstr option \<Rightarrow> string \<Rightarrow> store_error + unit" where
  "assertSiteLedger db client eid =
     (case client of
        None \<Rightarrow> Inr ()
      | Some c \<Rightarrow>
          if c = [] then Inr ()
          else assertR (\<not> (hasOpenConflict db eid \<or>
                 list_ex (\<lambda>oid. list_ex (\<lambda>ord. orderId ord = oid \<and> apiClientId ord \<noteq> c) (orders db))
                   (evidenceOrders db eid)))
                 (AdminOperationFailure 409 ''site_scope_conflict''))"

subsection \<open>The result of a decision\<close>

record financial_decision_result =
  resultOperation :: financial_operation
  resultMatch :: payment_match
  resultOrderId :: string
  resultEntryId :: string
  resultOrderVersion :: int
  resultReplayed :: bool

fun decisionEventType :: "financial_operation_type \<Rightarrow> store_error + order_event_type" where
  "decisionEventType MANUAL_SETTLEMENT = Inr PAYMENT_CONFIRMED"
| "decisionEventType REVERSE_SETTLEMENT = Inr PAYMENT_DISPUTED"
| "decisionEventType ty = Inl (ReconciliationFailure ''match_state_conflict'')"

fun decidedByOperation :: "order_event_details \<Rightarrow> string \<Rightarrow> bool" where
  "decidedByOperation (DecisionDetails fid mid cid evidence) operation \<longleftrightarrow> fid = operation"
| "decidedByOperation (CreatedDetails offset gen) operation \<longleftrightarrow> False"
| "decidedByOperation (ReasonDetails reason) operation \<longleftrightarrow> False"

definition decisionOrderVersion :: "recon_db \<Rightarrow> financial_operation \<Rightarrow> string \<Rightarrow> store_error + int" where
  "decisionOrderVersion db f oid =
     bindR (decisionEventType (operationType f)) (\<lambda>ty.
     (case filter (\<lambda>e. eventOrderId e = oid \<and> eventType e = ty \<and>
                      decidedByOperation (eventDetails e) (financialOperationId f))
             (orderEvents (orderSide db)) of
        [e] \<Rightarrow>
          bindR (toSafeInteger (occurredAt e) ''financial operation event time'') (\<lambda>t.
          bindR (assertR (t = operationCreatedAt f) (ReconciliationFailure ''match_state_conflict'')) (\<lambda>_.
          toSafeInteger (eventSequence e) ''financial operation order version''))
      | _ \<Rightarrow> Inl (ReconciliationFailure ''match_state_conflict'')))"

definition replayedPaymentMatch :: "payment_match \<Rightarrow> financial_operation \<Rightarrow> payment_match" where
  "replayedPaymentMatch m f =
     m\<lparr>pmStatus := (if operationType f = REVERSE_SETTLEMENT then REVERSED else SETTLED),
       resolvedByOperationId := Some (financialOperationId f),
       pmUpdatedAt := operationCreatedAt f, pmResolvedAt := Some (operationCreatedAt f)\<rparr>"

definition decisionResult ::
  "recon_db \<Rightarrow> financial_operation \<Rightarrow> string \<Rightarrow> bool \<Rightarrow> store_error + financial_decision_result"
where
  "decisionResult db f mid replayed =
     bindR (readPaymentMatch db mid) (\<lambda>found.
     case found of
       None \<Rightarrow> Inl (ReconciliationFailure ''match_not_found'')
     | Some m \<Rightarrow>
         bindR (decisionOrderVersion db f (pmOrderId m)) (\<lambda>v.
         Inr \<lparr>resultOperation = f,
              resultMatch = (if replayed then replayedPaymentMatch m f else m),
              resultOrderId = pmOrderId m, resultEntryId = pmEntryId m, resultOrderVersion = v,
              resultReplayed = replayed\<rparr>))"

subsection \<open>Settling by hand\<close>

definition manualOperationInput ::
  "manual_settlement_input \<Rightarrow> jstr option \<Rightarrow> string \<Rightarrow> operation_fingerprint_input"
where
  "manualOperationInput i reason mid =
     \<lparr>inOperationType = MANUAL_SETTLEMENT, inActorType = FinancialAdmin, inActorId = Some (msActorId i),
      inOperationOrderId = Some (msOrderId i), inOperationEntryId = Some (msLedgerEntryId i),
      inCandidateId = None, inPaymentMatchId = Some mid, inReversesOperationId = None, inReason = reason\<rparr>"

definition manualMatchId ::
  "recon_env \<Rightarrow> manual_settlement_input \<Rightarrow> recon_db \<Rightarrow> store_error + string"
where
  "manualMatchId env i db =
     bindR (readOperation db (msFinancialOperationId i)) (\<lambda>existing.
     bindR (case existing of
              None \<Rightarrow> Inr None
            | Some f \<Rightarrow>
                if operationType f = MANUAL_SETTLEMENT
                then readPaymentMatchByCreationOperation db (financialOperationId f) else Inr None) (\<lambda>found.
     Inr (case found of None \<Rightarrow> freshId env ForMatch (length (matches db)) | Some m \<Rightarrow> paymentMatchId m)))"

definition manualFactsEligible ::
  "ledger_entry \<Rightarrow> payment_order \<Rightarrow> recon_db \<Rightarrow> store_error + unit"
where
  "manualFactsEligible e ord db =
     bindR (assertR (entryDirection e = CREDIT \<and> entryState e \<in> {UNALLOCATED, CANDIDATE, CONFLICT} \<and>
                     paymentStatus ord = UNPAID \<and> paymentBasis ord = BasisNone)
             (ReconciliationFailure ''match_state_conflict'')) (\<lambda>_.
     bindR (readActiveMatchForEntry db (ledgerEntryId e)) (\<lambda>active.
     assertR (active = None \<and> orderUsesProviderAccount db (orderId ord) (entryProviderKey e))
       (ReconciliationFailure ''match_state_conflict'')))"

definition manualMatch ::
  "manual_settlement_input \<Rightarrow> jstr option \<Rightarrow> string \<Rightarrow> ledger_entry \<Rightarrow> payment_order \<Rightarrow> financial_operation
     \<Rightarrow> int \<Rightarrow> payment_match"
where
  "manualMatch i reason mid e ord f now =
     \<lparr>paymentMatchId = mid, pmEntryId = ledgerEntryId e, pmOrderId = orderId ord,
      pmCandidateId = None, pmEvidenceType = MANUAL,
      pmEvidence = manualSettlementEvidence (financialOperationId f) (msActorId i) reason,
      pmStatus = SETTLED, createdByOperationId = financialOperationId f,
      resolvedByOperationId = Some (financialOperationId f), pmCreatedAt = now,
      pmUpdatedAt = now, pmResolvedAt = Some now\<rparr>"

text \<open>The rows of a new manual settlement, once its facts are eligible.\<close>

definition recordManualSettlement ::
  "recon_env \<Rightarrow> manual_settlement_input \<Rightarrow> jstr option \<Rightarrow> string \<Rightarrow> ledger_entry \<Rightarrow> payment_order \<Rightarrow> int
     \<Rightarrow> recon_db \<Rightarrow> store_error + financial_decision_result \<times> recon_db"
where
  "recordManualSettlement env i reason mid e ord now db =
     bindR (supersedeStaleEligibleCandidates env e [] now db) (\<lambda>db1.
     bindR (insertFinancialOperation env (msFinancialOperationId i)
              (''admin:'' @ msFinancialOperationId i) (manualOperationInput i reason mid) now db1) (\<lambda>(f, db2).
     bindR (settleRows env f ord e (manualMatch i reason mid e ord f now) BasisManual
              (DecisionDetails (financialOperationId f) mid None (Some ''MANUAL''))
              [(''payment_match_id'', jtext mid), (''evidence_type'', jtext ''MANUAL'')]
              ''manually_settled'' now db2) (\<lambda>db3.
     bindR (decisionResult db3 f mid False) (\<lambda>r. Inr (r, db3)))))"

definition settleManually ::
  "recon_env \<Rightarrow> manual_settlement_input \<Rightarrow> recon_db \<Rightarrow> store_error + financial_decision_result \<times> recon_db"
where
  "settleManually env i db =
     bindR (validateManualSettlementInput i) (\<lambda>reason.
     bindR (assertOrderScope db (msExpectedClientId i) (msOrderId i)) (\<lambda>_.
     bindR (financialNow env db) (\<lambda>(now, db1).
     bindR (manualMatchId env i db1) (\<lambda>mid.
     bindR (readDecisionReplay env (msFinancialOperationId i) (manualOperationInput i reason mid) db1) (\<lambda>replay.
     case replay of
       Some f \<Rightarrow> bindR (decisionResult db1 f mid True) (\<lambda>r. Inr (r, db1))
     | None \<Rightarrow>
         bindR (assertSiteLedger db1 (msExpectedClientId i) (msLedgerEntryId i)) (\<lambda>_.
         bindR (requireLedgerEntry db1 (msLedgerEntryId i)) (\<lambda>e.
         bindR (requireOrderDecision db1 (msOrderId i)) (\<lambda>ord.
         bindR (manualFactsEligible e ord db1) (\<lambda>_.
         recordManualSettlement env i reason mid e ord now db1)))))))))"

subsection \<open>Reversing a settlement\<close>

definition reverseMatch :: "string \<Rightarrow> int \<Rightarrow> payment_match \<Rightarrow> payment_match" where
  "reverseMatch operation now m =
     m\<lparr>pmStatus := REVERSED, resolvedByOperationId := Some operation, pmUpdatedAt := now,
       pmResolvedAt := Some now\<rparr>"

definition markReversed :: "string \<Rightarrow> string \<Rightarrow> int \<Rightarrow> recon_db \<Rightarrow> store_error + recon_db" where
  "markReversed mid operation now db =
     (let p = (\<lambda>m. paymentMatchId m = mid \<and> pmStatus m = SETTLED)
      in bindR (assertR (list_all (\<lambda>m. p m \<longrightarrow> matchReversalAllowed operation now m db) (matches db))
                 (SqlAbort ''payment match transition is invalid'')) (\<lambda>_.
         bindR (assertChangedOnce (changes p (matches db)) ''payment match reversal'') (\<lambda>_.
         Inr (db\<lparr>matches := updateRows p (reverseMatch operation now) (matches db),
                 matchEvents := matchEvents db @
                   [\<lparr>historyMatchId = mid, historyStatus = REVERSED, historyAt = now\<rparr>]\<rparr>))))"

definition reversalOperationInput ::
  "financial_decision_input \<Rightarrow> payment_match \<Rightarrow> string option \<Rightarrow> operation_fingerprint_input"
where
  "reversalOperationInput i m reverses =
     \<lparr>inOperationType = REVERSE_SETTLEMENT, inActorType = FinancialAdmin, inActorId = Some (fdActorId i),
      inOperationOrderId = Some (pmOrderId m), inOperationEntryId = Some (pmEntryId m),
      inCandidateId = pmCandidateId m, inPaymentMatchId = Some (paymentMatchId m),
      inReversesOperationId = reverses, inReason = Some (fdReason i)\<rparr>"

definition safeReceived :: "payment_order \<Rightarrow> store_error + int" where
  "safeReceived ord =
     (case receivedAmountCents ord of
        None \<Rightarrow> Inl (Failure ''received amount is missing'')
      | Some n \<Rightarrow> toSafeInteger n ''received amount'')"

definition reversalRows ::
  "recon_env \<Rightarrow> financial_operation \<Rightarrow> payment_match \<Rightarrow> ledger_entry \<Rightarrow> payment_order \<Rightarrow> int \<Rightarrow> recon_db
     \<Rightarrow> store_error + recon_db"
where
  "reversalRows env f m e ord now db =
     bindR (safeReceived ord) (\<lambda>received.
     bindR (postAccountingTransaction env f (pmOrderId m) (pmEntryId m) ReversalTransaction received
              ORDER_SETTLEMENT PROVIDER_CASH now db) (\<lambda>db1.
     bindR (markReversed (paymentMatchId m) (financialOperationId f) now db1) (\<lambda>db2.
     bindR (setLedgerState e CONFLICT now db2) (\<lambda>db3.
     bindR (updateOrderPayment ord DISPUTED (paymentBasis ord) received now db3) (\<lambda>(nextVersion, db4).
     bindR (insertPaymentEvent env (orderId ord) nextVersion PAYMENT_DISPUTED now
              (DecisionDetails (financialOperationId f) (paymentMatchId m) None None) db4) (\<lambda>db5.
     bindR (insertOutboxEvent env f ord DISPUTED (paymentBasis ord) received nextVersion PAYMENT_DISPUTED
              [(''payment_match_id'', jtext (paymentMatchId m))] now db5) (\<lambda>db6.
     bindR (ensureException env
              \<lparr>exProviderAccountKey = entryProviderKey e, exExceptionType = RECONCILIATION_CONFLICT,
               exLedgerEntryId = Some (ledgerEntryId e), exOrderId = Some (orderId ord),
               exCandidateId = pmCandidateId m, exContextKey = financialOperationId f\<rparr>
              (jobject [(''reason'', jtext ''settlement_reversed''),
                        (''payment_match_id'', jtext (paymentMatchId m))]) now db6) (\<lambda>(x, db7).
     Inr db7))))))))"

text \<open>A new reversal: the match is settled, its entry allocated and its order confirmed.\<close>

definition recordReversal ::
  "recon_env \<Rightarrow> financial_decision_input \<Rightarrow> payment_match \<Rightarrow> operation_fingerprint_input \<Rightarrow> int \<Rightarrow> recon_db
     \<Rightarrow> store_error + financial_decision_result \<times> recon_db"
where
  "recordReversal env i m opInput now db =
     bindR (assertR (pmStatus m = SETTLED \<and> resolvedByOperationId m \<noteq> None)
             (ReconciliationFailure ''match_state_conflict'')) (\<lambda>_.
     bindR (requireLedgerEntry db (pmEntryId m)) (\<lambda>e.
     bindR (assertSiteLedger db (fdExpectedClientId i) (pmEntryId m)) (\<lambda>_.
     bindR (requireOrderDecision db (pmOrderId m)) (\<lambda>ord.
     bindR (assertR (entryState e = ALLOCATED \<and> paymentStatus ord = CONFIRMED)
             (ReconciliationFailure ''match_state_conflict'')) (\<lambda>_.
     bindR (insertFinancialOperation env (fdFinancialOperationId i)
              (''admin:'' @ fdFinancialOperationId i) opInput now db) (\<lambda>(f, db1).
     bindR (reversalRows env f m e ord now db1) (\<lambda>db2.
     bindR (decisionResult db2 f (paymentMatchId m) False) (\<lambda>r. Inr (r, db2)))))))))"

definition reversedOperation :: "payment_match \<Rightarrow> financial_operation option \<Rightarrow> string option" where
  "reversedOperation m existing =
     (case existing of
        None \<Rightarrow> resolvedByOperationId m
      | Some f \<Rightarrow> if operationType f = REVERSE_SETTLEMENT then reversesOperationId f
                  else resolvedByOperationId m)"

definition reverseSettlement ::
  "recon_env \<Rightarrow> financial_decision_input \<Rightarrow> recon_db \<Rightarrow> store_error + financial_decision_result \<times> recon_db"
where
  "reverseSettlement env i db =
     bindR (validateDecisionInput i) (\<lambda>_.
     bindR (financialNow env db) (\<lambda>(now, db1).
     bindR (readPaymentMatch db1 (fdPaymentMatchId i)) (\<lambda>found.
     case found of
       None \<Rightarrow> Inl (ReconciliationFailure ''match_not_found'')
     | Some m \<Rightarrow>
         bindR (assertOrderScope db1 (fdExpectedClientId i) (pmOrderId m)) (\<lambda>_.
         bindR (readOperation db1 (fdFinancialOperationId i)) (\<lambda>existing.
         (let opInput = reversalOperationInput i m (reversedOperation m existing)
          in bindR (readDecisionReplay env (fdFinancialOperationId i) opInput db1) (\<lambda>replay.
             case replay of
               Some f \<Rightarrow> bindR (decisionResult db1 f (paymentMatchId m) True) (\<lambda>r. Inr (r, db1))
             | None \<Rightarrow> recordReversal env i m opInput now db1)))))))"

subsection \<open>Work lists\<close>

definition validateBatchLimit :: "int \<Rightarrow> store_error + unit" where
  "validateBatchLimit limit =
     assertR (\<not> (\<not> isSafeInteger limit \<or> limit < 1 \<or> limit > MAX_RECONCILIATION_BATCH_SIZE))
       (RangeFailure ''reconciliation batch limit is invalid'')"

record pending_page =
  pageEntryIds :: "string list"
  pageCursor :: "(int \<times> string) option"
  pageHasMore :: bool

definition isPendingEntry :: "recon_db \<Rightarrow> ledger_entry \<Rightarrow> bool" where
  "isPendingEntry db e \<longleftrightarrow>
     entryState e \<in> {UNALLOCATED, CANDIDATE} \<and> entryDirection e = CREDIT \<and> \<not> isSandboxEntry db e \<and>
     \<not> hasOpenConflict db (ledgerEntryId e)"

definition afterCursor :: "(int \<times> string) option \<Rightarrow> ledger_entry \<Rightarrow> bool" where
  "afterCursor cursor e \<longleftrightarrow>
     (case cursor of
        None \<Rightarrow> True
      | Some (t, eid) \<Rightarrow> entryOccurredAt e > t \<or> entryOccurredAt e = t \<and> ledgerEntryId e > eid)"

definition pendingLedgerPage ::
  "recon_db \<Rightarrow> (int \<times> string) option \<Rightarrow> int \<Rightarrow> store_error + pending_page"
where
  "pendingLedgerPage db cursor limit =
     bindR (validateBatchLimit limit) (\<lambda>_.
     bindR (case cursor of
              None \<Rightarrow> Inr ()
            | Some (t, eid) \<Rightarrow>
                bindR (requireIdentifier eid ''reconciliation cursor ledger entry ID'') (\<lambda>_.
                assertR (isSafeInteger t \<and> \<not> t < 0) (RangeFailure ''reconciliation cursor occurrence is invalid'')))
       (\<lambda>_.
     (let rows = take (nat (limit + 1)) (sort_key (\<lambda>e. (entryOccurredAt e, ledgerEntryId e))
            (filter (\<lambda>e. isPendingEntry db e \<and> afterCursor cursor e) (ledgerEntries db)));
          selected = take (nat limit) rows
      in bindR (if selected = [] then Inr None
                else bindR (toSafeInteger (entryOccurredAt (last selected)) ''reconciliation cursor occurrence'')
                       (\<lambda>t. Inr (Some (t, ledgerEntryId (last selected))))) (\<lambda>nextCursor.
         Inr \<lparr>pageEntryIds = map ledgerEntryId selected, pageCursor = nextCursor,
              pageHasMore = int (length rows) > limit\<rparr>))))"

text \<open>
  A batch reconciles its entries one transaction at a time, and a throw ends it with the entries
  before it committed.  Transaction \<open>n\<close> runs in the environment \<open>envs n\<close>.
\<close>

fun reconcileMany ::
  "(nat \<Rightarrow> recon_env) \<Rightarrow> nat \<Rightarrow> string list \<Rightarrow> recon_db \<Rightarrow> (store_error + reconcile_result list) \<times> recon_db"
where
  "reconcileMany envs n [] db = (Inr [], db)"
| "reconcileMany envs n (eid # eids) db =
     (case dbWrite (reconcileEntry (envs n) eid) db of
        (Inl e, db') \<Rightarrow> (Inl e, db')
      | (Inr r, db') \<Rightarrow>
          (case reconcileMany envs (n + 1) eids db' of
             (Inl e, db'') \<Rightarrow> (Inl e, db'')
           | (Inr rs, db'') \<Rightarrow> (Inr (r # rs), db'')))"

record batch_result =
  batchProcessed :: nat
  batchResults :: "reconcile_result list"
  batchHasMore :: bool

definition reconcileBatch ::
  "(nat \<Rightarrow> recon_env) \<Rightarrow> string list \<Rightarrow> bool \<Rightarrow> recon_db \<Rightarrow> (store_error + batch_result) \<times> recon_db"
where
  "reconcileBatch envs eids hasMore db =
     (case reconcileMany envs 0 eids db of
        (Inl e, db') \<Rightarrow> (Inl e, db')
      | (Inr rs, db') \<Rightarrow>
          (Inr \<lparr>batchProcessed = length rs, batchResults = rs, batchHasMore = hasMore\<rparr>, db'))"

definition reconcilePending ::
  "(nat \<Rightarrow> recon_env) \<Rightarrow> int \<Rightarrow> recon_db \<Rightarrow> (store_error + batch_result) \<times> recon_db"
where
  "reconcilePending envs limit db =
     (case pendingLedgerPage db None limit of
        Inl e \<Rightarrow> (Inl e, db)
      | Inr page \<Rightarrow> reconcileBatch envs (pageEntryIds page) (pageHasMore page) db)"

definition entriesForOrder :: "recon_db \<Rightarrow> string \<Rightarrow> ledger_entry list" where
  "entriesForOrder db oid =
     sort_key (\<lambda>e. (entryOccurredAt e, ledgerEntryId e))
       (filter (\<lambda>e. isPendingEntry db e \<and>
          list_ex (\<lambda>ord. orderId ord = oid \<and> profileUsesKey db (collectionProfileId ord) (entryProviderKey e) \<and>
             entryAmountCents e = payableAmountCents ord \<and>
             list_ex (\<lambda>s. slotOrderId s = oid \<and> paymentInWindow e ord s) (slots db)) (orders db))
          (ledgerEntries db))"

definition reconcileOrder ::
  "(nat \<Rightarrow> recon_env) \<Rightarrow> string \<Rightarrow> int \<Rightarrow> recon_db \<Rightarrow> (store_error + batch_result) \<times> recon_db"
where
  "reconcileOrder envs oid limit db =
     (case bindR (requireIdentifier oid ''order ID'') (\<lambda>_. validateBatchLimit limit) of
        Inl e \<Rightarrow> (Inl e, db)
      | Inr _ \<Rightarrow>
          (let ids = map ledgerEntryId (take (nat (limit + 1)) (entriesForOrder db oid))
           in reconcileBatch envs (take (nat limit) ids) (int (length ids) > limit) db))"

subsection \<open>Reads\<close>

definition candidate :: "recon_db \<Rightarrow> string \<Rightarrow> store_error + match_candidate option" where
  "candidate db cid = bindR (requireIdentifier cid ''candidate ID'') (\<lambda>_. readCandidate db cid)"

definition paymentMatch :: "recon_db \<Rightarrow> string \<Rightarrow> store_error + payment_match option" where
  "paymentMatch db mid = bindR (requireIdentifier mid ''payment match ID'') (\<lambda>_. readPaymentMatch db mid)"

definition listCandidates :: "recon_db \<Rightarrow> string \<Rightarrow> store_error + match_candidate list" where
  "listCandidates db eid =
     bindR (requireIdentifier eid ''ledger entry ID'') (\<lambda>_.
     mapAll mapCandidate (sort_key (\<lambda>c. (candidateCreatedAt c, candidateId c))
       (filter (\<lambda>c. candidateEntryId c = eid) (matchCandidates db))))"

definition exceptionById :: "recon_db \<Rightarrow> string \<Rightarrow> store_error + financial_exception option" where
  "exceptionById db xid =
     bindR (requireIdentifier xid ''financial exception ID'') (\<lambda>_.
     mapFound mapException (List.find (\<lambda>x. exceptionId x = xid) (financialExceptions db)))"

definition financialExceptionsForOrder :: "recon_db \<Rightarrow> string \<Rightarrow> store_error + financial_exception list" where
  "financialExceptionsForOrder db oid =
     bindR (requireIdentifier oid ''order ID'') (\<lambda>_.
     mapAll mapException (rev (sort_key (\<lambda>x. (exceptionCreatedAt x, exceptionId x))
       (filter (\<lambda>x. exceptionOrderId x = Some oid) (financialExceptions db)))))"

record exception_summary =
  summaryProvider :: "string option"
  summaryOpen :: nat
  summaryResolved :: nat
  summaryTotal :: nat

text \<open>\<open>/^[A-Za-z0-9][A-Za-z0-9._:-]{0,127}$/\<close>.\<close>

definition isProviderKeyText :: "string \<Rightarrow> bool" where
  "isProviderKeyText text \<longleftrightarrow>
     (let alnum = (\<lambda>c. let n = of_char c :: nat in
            48 \<le> n \<and> n \<le> 57 \<or> 65 \<le> n \<and> n \<le> 90 \<or> 97 \<le> n \<and> n \<le> 122)
      in text \<noteq> [] \<and> length text \<le> 128 \<and> alnum (hd text) \<and>
         list_all (\<lambda>c. alnum c \<or> c \<in> {CHR ''.'', CHR ''_'', CHR '':'', CHR ''-''}) text)"

definition exceptionSummary :: "recon_db \<Rightarrow> string option \<Rightarrow> store_error + exception_summary" where
  "exceptionSummary db provider =
     bindR (assertR (case provider of None \<Rightarrow> True | Some key \<Rightarrow> isProviderKeyText key)
             (RangeFailure ''provider account key is invalid'')) (\<lambda>_.
     (let rows = filter (\<lambda>x. provider = None \<or> provider = Some (exceptionProviderKey x)) (financialExceptions db)
      in Inr \<lparr>summaryProvider = provider,
              summaryOpen = length (filter (\<lambda>x. exceptionStatus x = OpenException \<and>
                exceptionType x \<notin> {UNMATCHED_DEBIT, UNLINKED_REFUND}) rows),
              summaryResolved = length (filter (\<lambda>x. exceptionStatus x = ResolvedException) rows),
              summaryTotal = length rows\<rparr>))"

record payment_match_detail =
  detailMatch :: payment_match
  detailCreation :: financial_operation
  detailResolution :: "financial_operation option"
  detailCandidate :: "match_candidate option"
  detailEntry :: ledger_entry
  detailOrder :: payment_order

definition requirePaymentMatchDetail ::
  "recon_db \<Rightarrow> payment_match \<Rightarrow> store_error + payment_match_detail"
where
  "requirePaymentMatchDetail db m =
     bindR (readOperation db (createdByOperationId m)) (\<lambda>creation.
     bindR (case resolvedByOperationId m of None \<Rightarrow> Inr None | Some fid \<Rightarrow> readOperation db fid) (\<lambda>resolution.
     (case (readLedgerEntry db (pmEntryId m), orderWithId db (pmOrderId m), creation) of
        (Some e, Some ord, Some f) \<Rightarrow>
          bindR (assertR (resolvedByOperationId m = None \<or> resolution \<noteq> None)
                  (Failure ''payment match facts are incomplete'')) (\<lambda>_.
          bindR (case pmCandidateId m of None \<Rightarrow> Inr None | Some cid \<Rightarrow> readCandidate db cid) (\<lambda>c.
          Inr \<lparr>detailMatch = m, detailCreation = f, detailResolution = resolution, detailCandidate = c,
               detailEntry = e, detailOrder = ord\<rparr>))
      | _ \<Rightarrow> Inl (Failure ''payment match facts are incomplete''))))"

definition paymentMatchDetail :: "recon_db \<Rightarrow> string \<Rightarrow> store_error + payment_match_detail option" where
  "paymentMatchDetail db mid =
     bindR (requireIdentifier mid ''payment match ID'') (\<lambda>_.
     bindR (readPaymentMatch db mid) (\<lambda>found.
     case found of
       None \<Rightarrow> Inr None
     | Some m \<Rightarrow> bindR (requirePaymentMatchDetail db m) (\<lambda>d. Inr (Some d))))"

end
