(* ===== verification/ReconSteps.thy ===== *)
theory ReconSteps
  imports ReconBooks ReconDecisions
begin

text \<open>
  Every transaction of the reconciliation store is a sequence of book steps: its statements are taken
  one by one, the ones on operations, candidates, exceptions, audits and the outbox leave the books
  alone, and a settlement or a reversal, eight statements long, is one step.
\<close>

subsection \<open>Statements that leave the books alone\<close>

lemma insertFinancialOperation_books [book_steps]:
  "insertFinancialOperation env fid key i now db = Inr (f, db') \<Longrightarrow> sameBooks db db'"
  unfolding insertFinancialOperation_def Let_def bindR_Inr_iff assertR_Inr_iff
  by (elim exE conjE) (auto simp: sameBooks_def split: option.splits)

lemma decideCandidate_books [book_steps]:
  "decideCandidate status cid operation now label db = Inr db' \<Longrightarrow> sameBooks db db'"
proof -
  assume "decideCandidate status cid operation now label db = Inr db'"
  then obtain p where db': "db' = db\<lparr>matchCandidates := updateRows p (decide status operation now) (matchCandidates db)\<rparr>"
    by (auto simp: decideCandidate_def Let_def result_simps)
  then have "candidateKeys db' = candidateKeys db" by (simp add: candidateKeys_def map_updateRows decide_def)
  then show ?thesis using db' by (simp add: sameBooks_def candidatesKept_def)
qed

lemma supersedeCandidate_books [book_steps]: "supersedeCandidate env c now db = Inr db' \<Longrightarrow> sameBooks db db'"
  by (auto simp: supersedeCandidate_def result_simps dest!: book_steps intro: sameBooks_trans)

lemma supersedeAll_books [book_steps]: "supersedeAll env cs now db = Inr db' \<Longrightarrow> sameBooks db db'"
  by (induction cs arbitrary: db) (auto simp: result_simps dest!: supersedeCandidate_books intro: sameBooks_trans)

lemma supersedeStale_books [book_steps]:
  "supersedeStaleEligibleCandidates env e keep now db = Inr db' \<Longrightarrow> sameBooks db db'"
  by (auto simp: supersedeStaleEligibleCandidates_def result_simps dest: supersedeAll_books)

lemma insertCandidate_books: "insertCandidate env e ord s now db = Inr (c, db') \<Longrightarrow> sameBooks db db'"
proof -
  assume "insertCandidate env e ord s now db = Inr (c, db')"
  then obtain new where n: "candidateInsertAllowed new db" "db' = db\<lparr>matchCandidates := matchCandidates db @ [new]\<rparr>"
    by (auto simp: insertCandidate_def Let_def bindR_Inr_iff assertR_Inr_iff split: option.splits)
  then have "candidateId new \<notin> candidateId ` set (matchCandidates db)"
    by (auto simp: candidateInsertAllowed_def list_ex_iff)
  then show ?thesis using n(2) by (auto simp: sameBooks_def candidatesKept_def candidateKeys_def o_def)
qed

lemma ensureCandidate_books [book_steps]: "ensureCandidate env e k now db = Inr (c, db') \<Longrightarrow> sameBooks db db'"
  by (auto simp: ensureCandidate_def bindR_Inr_iff split: option.splits prod.splits dest: insertCandidate_books)

lemma ensureCandidates_books [book_steps]: "ensureCandidates env e ks now db = Inr (cs, db') \<Longrightarrow> sameBooks db db'"
  by (induction ks arbitrary: db cs) (auto simp: result_simps dest!: ensureCandidate_books intro: sameBooks_trans)

lemma insertException_books: "insertException env i details now db = Inr (x, db') \<Longrightarrow> sameBooks db db'"
  by (auto simp: insertException_def Let_def result_simps sameBooks_def)

lemma ensureExceptionFrom_books: "ensureExceptionFrom env i j details now n db = Inr (x, db') \<Longrightarrow> sameBooks db db'"
  by (induction env i j details now n db rule: ensureExceptionFrom.induct)
     (auto simp: result_simps Let_def dest: insertException_books split: option.splits if_splits)

lemma ensureException_books [book_steps]: "ensureException env i details now db = Inr (x, db') \<Longrightarrow> sameBooks db db'"
  unfolding ensureException_def by (rule ensureExceptionFrom_books)

lemma resolveWhere_books: "resolveWhere env p operation resolution match now db = Inr db' \<Longrightarrow> sameBooks db db'"
  by (auto simp: resolveWhere_def result_simps sameBooks_def)

lemma resolveEntryExceptions_books [book_steps]:
  "resolveEntryExceptions env eid f resolution match now db = Inr db' \<Longrightarrow> sameBooks db db'"
  by (auto simp: resolveEntryExceptions_def result_simps split: if_splits option.splits
      dest!: resolveWhere_books intro: sameBooks_trans)

lemma insertOutboxEvent_books [book_steps]:
  "insertOutboxEvent env f ord status basis received v ty details now db = Inr db' \<Longrightarrow> sameBooks db db'"
  by (auto simp: insertOutboxEvent_def Let_def result_simps sameBooks_def)

lemma reportUnmatched_books [book_steps]:
  "reportUnmatched env e k now db = Inr (r, db') \<Longrightarrow> sameBooks db db'"
  by (auto simp: reportUnmatched_def result_simps dest: ensureException_books)

subsection \<open>Statements on the books\<close>

lemma postAccountingTransaction_books:
  assumes "postAccountingTransaction env f oid eid ty amount debit credit now db = Inr db'"
  obtains pid pid' tid where "orderSide db' = orderSide db" "ledgerEntries db' = ledgerEntries db"
    "matches db' = matches db" "matchCandidates db' = matchCandidates db"
    "ledgerPostings db' = ledgerPostings db @ transferPostings pid pid' tid debit credit amount oid eid now"
proof
  let ?n = "length (ledgerPostings db)" and ?tid = "freshId env ForTransaction (length (ledgerTransactions db))"
  show "ledgerPostings db' = ledgerPostings db @ transferPostings (freshId env ForPosting ?n)
      (freshId env ForPosting (?n + 1)) ?tid debit credit amount oid eid now"
    using assms
    by (auto simp: postAccountingTransaction_def insertDraft_def insertPosting_def postTransaction_def Let_def
        result_simps transferPostings_def)
qed (use assms in \<open>auto simp: postAccountingTransaction_def insertDraft_def insertPosting_def postTransaction_def
       Let_def result_simps\<close>)

lemma candidateKeys_mem: "c \<in> set (matchCandidates db) \<Longrightarrow> (candidateId c, candidateEntryId c) \<in> set (candidateKeys db)"
  by (auto simp: candidateKeys_def)

lemma matchInsert_link:
  assumes "matchInsertAllowed m db" "pmCandidateId m = Some cid"
  shows "(cid, pmEntryId m) \<in> set (candidateKeys db)"
proof -
  obtain c where "c \<in> set (matchCandidates db)" "candidateId c = cid" "candidateEntryId c = pmEntryId m"
    using assms by (auto simp: matchInsertAllowed_def list_ex_iff autoMatchSupported_def manualMatchSupported_def)
  then show ?thesis using candidateKeys_mem by metis
qed

lemma insertMatch_books:
  assumes "insertMatch m label db = Inr db'"
  shows "orderSide db' = orderSide db \<and> ledgerEntries db' = ledgerEntries db \<and>
    ledgerPostings db' = ledgerPostings db \<and> matches db' = matches db @ [m] \<and>
    matchCandidates db' = matchCandidates db \<and>
    (\<forall>cid. pmCandidateId m = Some cid \<longrightarrow> (cid, pmEntryId m) \<in> set (candidateKeys db)) \<and>
    paymentMatchId m \<notin> paymentMatchId ` set (matches db)"
proof -
  have m: "matchInsertAllowed m db" using assms by (simp add: insertMatch_def result_simps)
  then have "paymentMatchId m \<notin> paymentMatchId ` set (matches db)"
    by (auto simp: matchInsertAllowed_def matchKeysFree_def list_ex_iff)
  then show ?thesis using assms matchInsert_link [OF m] by (auto simp: insertMatch_def result_simps)
qed

lemma setLedgerState_books:
  assumes d: "distinct (map ledgerEntryId (ledgerEntries db))" and e: "e \<in> set (ledgerEntries db)"
    and res: "setLedgerState e state now db = Inr db'"
  shows "db' = db \<and> entryState e = state \<or>
    entryState e \<noteq> state \<and> entryUpdatedAt e \<le> now \<and> ledgerTransitionAllowed (entryState e) state \<and>
    db' = db\<lparr>ledgerEntries := movedEntries e state now (ledgerEntries db)\<rparr>"
proof (cases "entryState e = state")
  case False
  have "updateRows (\<lambda>x. ledgerEntryId x = ledgerEntryId e \<and> entryState x = entryState e) (moveEntry state now)
      (ledgerEntries db) = movedEntries e state now (ledgerEntries db)"
    unfolding movedEntries_def using entry_unique [OF d _ e] by (intro updateRows_cong) blast
  then show ?thesis
    using res False e by (auto simp: setLedgerState_def Let_def result_simps list_all_iff)
qed (use res in \<open>simp add: setLedgerState_def\<close>)

lemma updateOrderPayment_books:
  assumes d: "distinct (map orderId (orders db))" and ord: "ord \<in> set (orders db)"
    and res: "updateOrderPayment ord status basis received now db = Inr (v, db')"
  shows "v = version ord + 1 \<and> updatedAt ord \<le> now \<and>
    db' = db\<lparr>orderSide := (orderSide db)\<lparr>paymentOrders :=
      updateRows (\<lambda>r. orderId r = orderId ord) (payOrder status basis received now) (orders db)\<rparr>\<rparr>"
proof -
  have "updateRows (\<lambda>r. orderId r = orderId ord \<and> version r = version ord \<and> paymentStatus r = paymentStatus ord)
      (payOrder status basis received now) (orders db) =
    updateRows (\<lambda>r. orderId r = orderId ord) (payOrder status basis received now) (orders db)"
    using order_row_unique [OF d _ ord] by (intro updateRows_cong) blast
  then show ?thesis
    using res ord by (auto simp: updateOrderPayment_def Let_def result_simps list_all_iff paymentUpdateAllowed_def)
qed

lemma insertPaymentEvent_books:
  assumes "insertPaymentEvent env oid v ty now details db = Inr db'"
  obtains ev where "eventOrderId ev = oid" "eventSequence ev = v" "eventType ev = ty" "occurredAt ev = now"
    "eventDetails ev = details"
    "db' = db\<lparr>orderSide := (orderSide db)\<lparr>orderEvents := orderEvents (orderSide db) @ [ev]\<rparr>\<rparr>"
proof
  show "db' = db\<lparr>orderSide := (orderSide db)\<lparr>orderEvents := orderEvents (orderSide db) @
      [\<lparr>eventId = freshId env ForOrderEvent (length (orderEvents (orderSide db))), eventOrderId = oid,
        eventSequence = v, eventType = ty, occurredAt = now, eventDetails = details\<rparr>]\<rparr>\<rparr>"
    using assms by (simp add: insertPaymentEvent_def Let_def result_simps)
qed simp_all

lemma financialNow_clock:
  assumes "financialNow env db = Inr (now, db')"
  shows "db' = db\<lparr>orderSide := (orderSide db)\<lparr>orderClock := now\<rparr>\<rparr>" "orderClock (orderSide db) \<le> now" "0 \<le> now"
    "isSafeInteger now"
  using assms by (auto simp: financialNow_def Let_def result_simps split: option.splits)

lemma clock_step:
  assumes inv: "reconInv db" and res: "financialNow env db = Inr (now, db')"
  shows "bookStep db db'" "reconInv db'" "orderClock (orderSide db') = now" "orders db' = orders db"
    "ledgerEntries db' = ledgerEntries db" "matches db' = matches db"
proof -
  note f = financialNow_clock [OF res]
  have "orderInv (orderSide db')"
    using reconInvD(1) [OF inv] f(1,2) by (simp add: orderInv_clock)
  moreover have "advances (orderSide db) (orderSide db')"
    using f(1,2) advances_refl [of "orderSide db"] by (simp add: advances_def)
  ultimately show "bookStep db db'" using f(1) by (intro ordersMove) auto
  then show "reconInv db'" using inv by (rule bookStep_inv)
qed (use financialNow_clock(1) [OF res] in \<open>simp_all add: orders_def\<close>)

subsection \<open>A settlement and a reversal are one step\<close>

lemma payment_step:
  assumes d: "distinct (map orderId (orders db))" and ord: "ord \<in> set (orders db)"
    and pay: "updateOrderPayment ord status basis received now db = Inr (v, db1)"
    and ev: "insertPaymentEvent env (orderId ord) v ty now details db1 = Inr db2"
    and clock: "now \<le> orderClock (orderSide db)"
  obtains event where "payable ord now event (orderSide db)"
    "db2 = db\<lparr>orderSide := paidSide ord status basis received now event (orderSide db)\<rparr>"
proof -
  note p = updateOrderPayment_books [OF d ord pay]
  obtain event where e: "eventOrderId event = orderId ord" "eventSequence event = v"
      "db2 = db1\<lparr>orderSide := (orderSide db1)\<lparr>orderEvents := orderEvents (orderSide db1) @ [event]\<rparr>\<rparr>"
    using insertPaymentEvent_books [OF ev] by metis
  show thesis
  proof (rule that)
    show "payable ord now event (orderSide db)" using p ord e clock by (simp add: payable_def orders_def)
    show "db2 = db\<lparr>orderSide := paidSide ord status basis received now event (orderSide db)\<rparr>"
      using p e by (simp add: paidSide_def orders_def)
  qed
qed

text \<open>All a settlement does to the books.\<close>

definition settledBooks ::
  "payment_order \<Rightarrow> ledger_entry \<Rightarrow> payment_match \<Rightarrow> payment_basis \<Rightarrow> int \<Rightarrow> recon_db \<Rightarrow> recon_db \<Rightarrow> bool"
where
  "settledBooks ord e m basis now db db' \<longleftrightarrow>
     (\<exists>event. payable ord now event (orderSide db) \<and>
        orderSide db' = paidSide ord CONFIRMED basis (entryAmountCents e) now event (orderSide db)) \<and>
     ledgerEntries db' = movedEntries e ALLOCATED now (ledgerEntries db) \<and>
     matches db' = matches db @ [m] \<and> paymentMatchId m \<notin> paymentMatchId ` set (matches db) \<and>
     (\<exists>pid pid' tid. ledgerPostings db' = ledgerPostings db @
        transferPostings pid pid' tid PROVIDER_CASH ORDER_SETTLEMENT (entryAmountCents e) (orderId ord)
          (ledgerEntryId e) now) \<and>
     candidatesKept db db' \<and>
     (\<forall>cid. pmCandidateId m = Some cid \<longrightarrow> (cid, pmEntryId m) \<in> set (candidateKeys db))"

lemma settleRows_effect:
  assumes inv: "reconInv db" and now: "now = orderClock (orderSide db)"
    and ord: "ord \<in> set (orders db)" and e: "e \<in> set (ledgerEntries db)" "entryState e \<noteq> ALLOCATED"
    and res: "settleRows env f ord e m basis decision details resolution now db = Inr db'"
  shows "settledBooks ord e m basis now db db'"
proof -
  obtain db1 db2 db3 v db4 db5 db6 where s:
      "postAccountingTransaction env f (orderId ord) (ledgerEntryId e) SettlementTransaction (entryAmountCents e)
         PROVIDER_CASH ORDER_SETTLEMENT now db = Inr db1"
      "insertMatch m ''payment match is not supported by its operation and facts'' db1 = Inr db2"
      "setLedgerState e ALLOCATED now db2 = Inr db3"
      "updateOrderPayment ord CONFIRMED basis (entryAmountCents e) now db3 = Inr (v, db4)"
      "insertPaymentEvent env (orderId ord) v PAYMENT_CONFIRMED now decision db4 = Inr db5"
      "insertOutboxEvent env f ord CONFIRMED basis (entryAmountCents e) v PAYMENT_CONFIRMED details now db5 = Inr db6"
      "resolveEntryExceptions env (ledgerEntryId e) f resolution (paymentMatchId m) now db6 = Inr db'"
    using res by (auto simp: settleRows_def result_simps)
  obtain pid pid' tid where a: "orderSide db1 = orderSide db" "ledgerEntries db1 = ledgerEntries db"
      "matches db1 = matches db" "matchCandidates db1 = matchCandidates db"
      "ledgerPostings db1 = ledgerPostings db @ transferPostings pid pid' tid PROVIDER_CASH ORDER_SETTLEMENT
         (entryAmountCents e) (orderId ord) (ledgerEntryId e) now"
    using postAccountingTransaction_books [OF s(1)] by metis
  note b = insertMatch_books [OF s(2)]
  have c: "db3 = db2\<lparr>ledgerEntries := movedEntries e ALLOCATED now (ledgerEntries db2)\<rparr>"
    using setLedgerState_books [OF _ _ s(3)] a(2) b e booksOkD(1) [OF reconInvD(3) [OF inv]] by auto
  have ids: "distinct (map orderId (orders db3))" "ord \<in> set (orders db3)"
    using reconInvD(4) [OF inv] ord a b c by (simp_all add: orders_def)
  obtain event where p: "payable ord now event (orderSide db3)"
      "db5 = db3\<lparr>orderSide := paidSide ord CONFIRMED basis (entryAmountCents e) now event (orderSide db3)\<rparr>"
    using payment_step [OF ids s(4,5)] a b c now by auto
  have q: "sameBooks db5 db'" using insertOutboxEvent_books [OF s(6)] resolveEntryExceptions_books [OF s(7)] by (rule sameBooks_trans)
  have k: "matchCandidates db5 = matchCandidates db" using a(4) b c p(2) by simp
  have "candidatesKept db db'"
    using q candidatesKept_trans [OF candidatesKept_refl [OF k]] by (simp add: sameBooks_def)
  then show ?thesis
    using a b c p q unfolding settledBooks_def by (auto simp: sameBooks_def candidateKeys_def)
qed

lemma settledBooks_step:
  assumes "settledBooks ord e m basis now db db'" "paymentStatus ord = UNPAID" "basis \<noteq> BasisNone"
    "e \<in> set (ledgerEntries db)" "entryState e \<noteq> ALLOCATED" "entryDirection e = CREDIT"
    "pmOrderId m = orderId ord" "pmEntryId m = ledgerEntryId e" "pmStatus m = SETTLED"
  shows "bookStep db db'"
proof -
  obtain event pid pid' tid where p: "payable ord now event (orderSide db)"
      "orderSide db' = paidSide ord CONFIRMED basis (entryAmountCents e) now event (orderSide db)"
      "ledgerPostings db' = ledgerPostings db @
        transferPostings pid pid' tid PROVIDER_CASH ORDER_SETTLEMENT (entryAmountCents e) (orderId ord)
          (ledgerEntryId e) now"
    using assms(1) unfolding settledBooks_def by blast
  show ?thesis
    by (rule settles [OF p(1) assms(2-9) _ p(2) _ _ p(3)]) (use assms(1,8) in \<open>simp_all add: settledBooks_def\<close>)
qed

lemma settleRows_step:
  assumes inv: "reconInv db" and now: "now = orderClock (orderSide db)"
    and ord: "ord \<in> set (orders db)" "paymentStatus ord = UNPAID" and basis: "basis \<noteq> BasisNone"
    and e: "e \<in> set (ledgerEntries db)" "entryState e \<noteq> ALLOCATED" "entryDirection e = CREDIT"
    and m: "pmOrderId m = orderId ord" "pmEntryId m = ledgerEntryId e" "pmStatus m = SETTLED"
    and res: "settleRows env f ord e m basis decision details resolution now db = Inr db'"
  shows "bookStep db db'"
  using settledBooks_step [OF settleRows_effect [OF inv now ord(1) e(1,2) res] ord(2) basis e m] .

lemma markReversed_books:
  assumes d: "distinct (map paymentMatchId (matches db))" and m: "m \<in> set (matches db)" "pmStatus m = SETTLED"
    and res: "markReversed (paymentMatchId m) operation now db = Inr db'"
  shows "orderSide db' = orderSide db \<and> ledgerEntries db' = ledgerEntries db \<and> ledgerPostings db' = ledgerPostings db \<and>
    matchCandidates db' = matchCandidates db \<and>
    matches db' = updateRows (\<lambda>x. paymentMatchId x = paymentMatchId m) (reverseMatch operation now) (matches db)"
proof -
  have "updateRows (\<lambda>x. paymentMatchId x = paymentMatchId m \<and> pmStatus x = SETTLED) (reverseMatch operation now)
      (matches db) = updateRows (\<lambda>x. paymentMatchId x = paymentMatchId m) (reverseMatch operation now) (matches db)"
    using match_unique [OF d _ m(1)] m(2) by (intro updateRows_cong) blast
  then show ?thesis using res by (auto simp: markReversed_def Let_def result_simps)
qed

lemma reversalRows_step:
  assumes inv: "reconInv db" and now: "now = orderClock (orderSide db)"
    and ord: "ord \<in> set (orders db)" "orderId ord = pmOrderId m"
    and e: "e \<in> set (ledgerEntries db)" "ledgerEntryId e = pmEntryId m"
    and m: "m \<in> set (matches db)" "pmStatus m = SETTLED"
    and res: "reversalRows env f m e ord now db = Inr db'"
  shows "bookStep db db'"
proof -
  have al: "entryState e = ALLOCATED"
    using matchOk_facts(2) [OF booksOkD(5) [OF reconInvD(3) [OF inv] m(1)] reconInvD(4) [OF inv]
        booksOkD(1) [OF reconInvD(3) [OF inv]] e] m(2) by simp
  obtain received db1 db2 db3 v db4 db5 db6 x where s:
      "safeReceived ord = Inr received"
      "postAccountingTransaction env f (pmOrderId m) (pmEntryId m) ReversalTransaction received
         ORDER_SETTLEMENT PROVIDER_CASH now db = Inr db1"
      "markReversed (paymentMatchId m) (financialOperationId f) now db1 = Inr db2"
      "setLedgerState e CONFLICT now db2 = Inr db3"
      "updateOrderPayment ord DISPUTED (paymentBasis ord) received now db3 = Inr (v, db4)"
      "insertPaymentEvent env (orderId ord) v PAYMENT_DISPUTED now
         (DecisionDetails (financialOperationId f) (paymentMatchId m) None None) db4 = Inr db5"
      "insertOutboxEvent env f ord DISPUTED (paymentBasis ord) received v PAYMENT_DISPUTED
         [(''payment_match_id'', jtext (paymentMatchId m))] now db5 = Inr db6"
      "ensureException env
         \<lparr>exProviderAccountKey = entryProviderKey e, exExceptionType = RECONCILIATION_CONFLICT,
          exLedgerEntryId = Some (ledgerEntryId e), exOrderId = Some (orderId ord),
          exCandidateId = pmCandidateId m, exContextKey = financialOperationId f\<rparr>
         (jobject [(''reason'', jtext ''settlement_reversed''),
                   (''payment_match_id'', jtext (paymentMatchId m))]) now db6 = Inr (x, db')"
    using res by (auto simp: reversalRows_def result_simps)
  obtain pid pid' tid where a: "orderSide db1 = orderSide db" "ledgerEntries db1 = ledgerEntries db"
      "matches db1 = matches db" "matchCandidates db1 = matchCandidates db"
      "ledgerPostings db1 = ledgerPostings db @ transferPostings pid pid' tid ORDER_SETTLEMENT PROVIDER_CASH
         received (pmOrderId m) (pmEntryId m) now"
    using postAccountingTransaction_books [OF s(2)] by metis
  have b: "orderSide db2 = orderSide db1 \<and> ledgerEntries db2 = ledgerEntries db1 \<and>
      ledgerPostings db2 = ledgerPostings db1 \<and> matchCandidates db2 = matchCandidates db1 \<and>
      matches db2 = updateRows (\<lambda>x. paymentMatchId x = paymentMatchId m)
        (reverseMatch (financialOperationId f) now) (matches db1)"
    using markReversed_books [OF _ _ m(2) s(3)] a(3) m(1) booksOkD(2) [OF reconInvD(3) [OF inv]] by simp
  have c: "db3 = db2\<lparr>ledgerEntries := movedEntries e CONFLICT now (ledgerEntries db2)\<rparr>"
    using setLedgerState_books [OF _ _ s(4)] a(2) b e(1) al booksOkD(1) [OF reconInvD(3) [OF inv]] by auto
  have ids: "distinct (map orderId (orders db3))" "ord \<in> set (orders db3)"
    using reconInvD(4) [OF inv] ord(1) a b c by (simp_all add: orders_def)
  obtain event where p: "payable ord now event (orderSide db3)"
      "db5 = db3\<lparr>orderSide := paidSide ord DISPUTED (paymentBasis ord) received now event (orderSide db3)\<rparr>"
    using payment_step [OF ids s(5,6)] a b c now by auto
  have q: "sameBooks db5 db'" using insertOutboxEvent_books [OF s(7)] ensureException_books [OF s(8)] by (rule sameBooks_trans)
  have k: "matchCandidates db5 = matchCandidates db" using a(4) b c p(2) by simp
  have kept: "candidatesKept db db'"
    using q candidatesKept_trans [OF candidatesKept_refl [OF k]] by (simp add: sameBooks_def)
  show ?thesis
    by (rule reverses [where ord = ord and now = now and ev = event and received = received and e = e and m = m and
          reverse = "reverseMatch (financialOperationId f) now" and pid = pid and pid' = pid' and tid = tid and
          state = CONFLICT])
       (use a b c p q ord e m s(1) kept in \<open>simp_all add: sameBooks_def reverseMatch_def safeReceived_def result_simps
          split: option.splits\<close>)
qed

subsection \<open>The operations\<close>

lemma sameBooks_inv: "sameBooks db db' \<Longrightarrow> reconInv db \<Longrightarrow> reconInv db'"
  using bookStep_inv quiet by blast

lemma requireOrderDecision_row:
  "requireOrderDecision db oid = Inr ord \<Longrightarrow> ord \<in> set (orders db) \<and> orderId ord = oid"
  by (auto simp: requireOrderDecision_def split: option.splits dest: find_SomeD)

lemma requireLedgerEntry_row:
  "requireLedgerEntry db eid = Inr e \<Longrightarrow> e \<in> set (ledgerEntries db) \<and> ledgerEntryId e = eid"
  by (auto simp: requireLedgerEntry_def readLedgerEntry_def split: option.splits dest: find_SomeD)

lemma mapFound_Inr: "mapFound f found = Inr (Some x) \<Longrightarrow> \<exists>r. found = Some r \<and> f r = Inr x"
  by (auto simp: mapFound_def result_simps split: option.splits)

lemma readPaymentMatch_row:
  "readPaymentMatch db mid = Inr (Some m) \<Longrightarrow> m \<in> set (matches db) \<and> paymentMatchId m = mid"
  unfolding readPaymentMatch_def
  by (drule mapFound_Inr) (auto simp: mapPaymentMatch_def result_simps dest: find_SomeD)

lemma autoMatch_simps [simp]:
  "paymentMatchId (autoMatch e c mid f now) = mid"
  "pmOrderId (autoMatch e c mid f now) = candidateOrderId c"
  "pmEntryId (autoMatch e c mid f now) = ledgerEntryId e"
  "pmStatus (autoMatch e c mid f now) = SETTLED"
  by (simp_all add: autoMatch_def)

lemma manualMatch_simps [simp]:
  "paymentMatchId (manualMatch i reason mid e ord f now) = mid"
  "pmOrderId (manualMatch i reason mid e ord f now) = orderId ord"
  "pmEntryId (manualMatch i reason mid e ord f now) = ledgerEntryId e"
  "pmStatus (manualMatch i reason mid e ord f now) = SETTLED"
  by (simp_all add: manualMatch_def)

lemma recordAutoSettlement_step:
  assumes inv: "reconInv db" and now: "now = orderClock (orderSide db)"
    and e: "e \<in> set (ledgerEntries db)" "entryState e \<noteq> ALLOCATED" "entryDirection e = CREDIT"
    and ord: "ord \<in> set (orders db)" "orderId ord = candidateOrderId c" "paymentStatus ord = UNPAID"
    and res: "recordAutoSettlement env e c ord now db = Inr (r, db')"
  shows "bookStep\<^sup>*\<^sup>* db db'"
proof -
  obtain mid fid key f db1 db2 decision details where s:
      "insertFinancialOperation env fid key (autoOperationInput e c mid) now db = Inr (f, db1)"
      "decideCandidate SELECTED (candidateId c) (financialOperationId f) now
         ''automatic candidate selection'' db1 = Inr db2"
      "settleRows env f ord e (autoMatch e c mid f now) BasisInferred decision details ''auto_settled'' now db2 =
         Inr db'"
    using res unfolding recordAutoSettlement_def Let_def by (auto simp: bindR_Inr_iff)
  have q: "sameBooks db db2"
    using insertFinancialOperation_books [OF s(1)] decideCandidate_books [OF s(2)] by (rule sameBooks_trans)
  have "bookStep db2 db'"
    by (rule settleRows_step [OF sameBooks_inv [OF q inv] _ _ ord(3) _ _ e(2,3) _ _ _ s(3)])
       (use q now e(1) ord sameBooks_orders [OF q] in \<open>simp_all add: sameBooks_def\<close>)
  then show ?thesis using sameBooks_steps [OF q] by simp
qed

lemma autoSettleChecks_Inr:
  "autoSettleChecks db e c = Inr ord \<Longrightarrow>
   ord \<in> set (orders db) \<and> orderId ord = candidateOrderId c \<and> unpaidOrder (ord\<lparr>refundStatus := RefundNone\<rparr>)"
  unfolding autoSettleChecks_def bindR_Inr_iff assertR_Inr_iff
  by (elim exE conjE) (auto dest: requireOrderDecision_row simp: unpaidOrder_def)

lemma autoSettle_step:
  assumes inv: "reconInv db" and now: "now = orderClock (orderSide db)"
    and e: "e \<in> set (ledgerEntries db)" "entryState e \<noteq> ALLOCATED" "entryDirection e = CREDIT"
    and res: "autoSettleCandidate env e c now db = Inr (r, db')"
  shows "bookStep\<^sup>*\<^sup>* db db'"
proof -
  obtain ord existing where o: "autoSettleChecks db e c = Inr ord"
      and rest: "(case existing of Some f \<Rightarrow> bindR (replayAutoSettlement db e c f) (\<lambda>r. Inr (r, db))
        | None \<Rightarrow> recordAutoSettlement env e c ord now db) = Inr (r, db')"
    using res unfolding autoSettleCandidate_def bindR_Inr_iff by blast
  show ?thesis
  proof (cases existing)
    case None
    then show ?thesis
      using recordAutoSettlement_step [OF inv now e, of ord c] autoSettleChecks_Inr [OF o] rest
      by (simp add: unpaidOrder_def)
  qed (use rest in \<open>auto simp: bindR_Inr_iff\<close>)
qed

lemma not_debit: "d \<noteq> DEBIT \<longleftrightarrow> d = CREDIT"
  by (cases d) auto

lemma setLedgerState_step:
  assumes "reconInv db" "e \<in> set (ledgerEntries db)" "entryState e \<noteq> ALLOCATED" "state \<noteq> ALLOCATED"
    and res: "setLedgerState e state now db = Inr db'"
  shows "bookStep db db'"
  using setLedgerState_books [OF booksOkD(1) [OF reconInvD(3) [OF assms(1)]] assms(2) res] assms(2-4)
  by (auto intro: quiet entryMoves)

lemma entryOutcome_cases:
  assumes "entryOutcome env e overlap candidates now db = Inr (r, db')"
  shows "(\<exists>c. candidates = [c] \<and> overlapCount overlap \<le> 0 \<and> autoSettleCandidate env e c now db = Inr (r, db')) \<or>
    (\<exists>state db1. state \<noteq> ALLOCATED \<and> setLedgerState e state now db = Inr db1 \<and> sameBooks db1 db')"
  using assms unfolding entryOutcome_def
  by (auto simp: bindR_Inr_iff split: list.splits if_splits dest!: reportUnmatched_books ensureException_books)

lemma matchEntry_step:
  assumes inv: "reconInv db" and now: "now = orderClock (orderSide db)"
    and e: "e \<in> set (ledgerEntries db)" "entryState e \<noteq> ALLOCATED" "entryDirection e = CREDIT"
    and res: "matchEntry env e now db = Inr (r, db')"
  shows "bookStep\<^sup>*\<^sup>* db db'"
proof -
  obtain found db1 db2 where s: "ensureCandidates env e (readCandidateFacts db e) now db = Inr (found, db1)"
      "supersedeStaleEligibleCandidates env e
         (map candidateId (filter (\<lambda>c. candidateStatus c = ELIGIBLE) found)) now db1 = Inr db2"
      "entryOutcome env e (readSettledOrderOverlap db e) (filter (\<lambda>c. candidateStatus c = ELIGIBLE) found) now db2 =
         Inr (r, db')"
    using res unfolding matchEntry_def Let_def bindR_Inr_iff by (auto simp: bindR_Inr_iff)
  note rest = entryOutcome_cases [OF s(3)]
  have q: "sameBooks db db2"
    using ensureCandidates_books [OF s(1)] supersedeStale_books [OF s(2)] by (rule sameBooks_trans)
  have i: "reconInv db2" "now = orderClock (orderSide db2)" "e \<in> set (ledgerEntries db2)"
    using sameBooks_inv [OF q inv] q now e(1) by (simp_all add: sameBooks_def)
  have "bookStep\<^sup>*\<^sup>* db2 db'"
    using rest
  proof (elim disjE exE conjE)
    fix state db3
    assume "state \<noteq> ALLOCATED" "setLedgerState e state now db2 = Inr db3" "sameBooks db3 db'"
    then show ?thesis
      using setLedgerState_step [OF i(1,3) e(2)] sameBooks_steps by (meson converse_rtranclp_into_rtranclp)
  qed (use autoSettle_step [OF i e(2,3)] in blast)
  then show ?thesis using sameBooks_steps [OF q] by simp
qed

lemma reconcileEntry_step:
  assumes inv: "reconInv db" and res: "reconcileEntry env eid db = Inr (r, db')"
  shows "bookStep\<^sup>*\<^sup>* db db'"
proof -
  consider "db' = db"
    | now where "financialNow env db = Inr (now, db')"
    | now db1 e where "financialNow env db = Inr (now, db1)" "readLedgerEntry db eid = Some e"
        "entryState e \<noteq> ALLOCATED" "entryDirection e = CREDIT" "matchEntry env e now db1 = Inr (r, db')"
    using res unfolding reconcileEntry_def Let_def
    by (cases "readLedgerEntry db eid")
       (auto simp: bindR_Inr_iff assertR_Inr_iff not_debit split: if_splits option.splits)
  then show ?thesis
  proof cases
    case 2
    then show ?thesis using clock_step(1) [OF inv] by auto
  next
    case 3
    note c = clock_step [OF inv 3(1)]
    have "e \<in> set (ledgerEntries db1)" using 3(2) c(5) by (auto simp: readLedgerEntry_def dest: find_SomeD)
    then show ?thesis
      using matchEntry_step [OF c(2) c(3) [symmetric] _ 3(3-5)] c(1) by simp
  qed simp
qed

lemma recordManualSettlement_step:
  assumes inv: "reconInv db" and now: "now = orderClock (orderSide db)"
    and e: "e \<in> set (ledgerEntries db)" "entryState e \<noteq> ALLOCATED" "entryDirection e = CREDIT"
    and ord: "ord \<in> set (orders db)" "paymentStatus ord = UNPAID"
    and res: "recordManualSettlement env i reason mid e ord now db = Inr (r, db')"
  shows "bookStep\<^sup>*\<^sup>* db db'"
proof -
  obtain db1 fid key f db2 decision details where s:
      "supersedeStaleEligibleCandidates env e [] now db = Inr db1"
      "insertFinancialOperation env fid key (manualOperationInput i reason mid) now db1 = Inr (f, db2)"
      "settleRows env f ord e (manualMatch i reason mid e ord f now) BasisManual decision details ''manually_settled''
         now db2 = Inr db'"
    using res unfolding recordManualSettlement_def by (auto simp: bindR_Inr_iff)
  have q: "sameBooks db db2"
    using supersedeStale_books [OF s(1)] insertFinancialOperation_books [OF s(2)] by (rule sameBooks_trans)
  have "bookStep db2 db'"
    by (rule settleRows_step [OF sameBooks_inv [OF q inv] _ _ ord(2) _ _ e(2,3) _ _ _ s(3)])
       (use q now e(1) ord sameBooks_orders [OF q] in \<open>simp_all add: sameBooks_def\<close>)
  then show ?thesis using sameBooks_steps [OF q] by simp
qed

lemma manualFactsEligible_Inr:
  "manualFactsEligible e ord db = Inr u \<Longrightarrow>
   entryDirection e = CREDIT \<and> entryState e \<in> {UNALLOCATED, CANDIDATE, CONFLICT} \<and> paymentStatus ord = UNPAID"
  unfolding manualFactsEligible_def bindR_Inr_iff assertR_Inr_iff by blast

lemma settleManually_cases:
  assumes "settleManually env i db = Inr (r, db')"
  obtains now mid reason f where "financialNow env db = Inr (now, db')"
      "manualMatchId env i db' = Inr mid" "validateManualSettlementInput i = Inr reason"
      "readDecisionReplay env (msFinancialOperationId i) (manualOperationInput i reason mid) db' = Inr (Some f)"
      "decisionResult db' f mid True = Inr r"
  | now db1 mid reason e ord where "financialNow env db = Inr (now, db1)"
      "manualMatchId env i db1 = Inr mid" "validateManualSettlementInput i = Inr reason"
      "readDecisionReplay env (msFinancialOperationId i) (manualOperationInput i reason mid) db1 = Inr None"
      "requireLedgerEntry db1 (msLedgerEntryId i) = Inr e" "requireOrderDecision db1 (msOrderId i) = Inr ord"
      "manualFactsEligible e ord db1 = Inr ()"
      "recordManualSettlement env i reason mid e ord now db1 = Inr (r, db')"
proof -
  obtain reason now db1 mid replay where s: "validateManualSettlementInput i = Inr reason"
      "financialNow env db = Inr (now, db1)" "manualMatchId env i db1 = Inr mid"
      "readDecisionReplay env (msFinancialOperationId i) (manualOperationInput i reason mid) db1 = Inr replay"
      "(case replay of Some f \<Rightarrow> bindR (decisionResult db1 f mid True) (\<lambda>r. Inr (r, db1))
        | None \<Rightarrow>
         bindR (assertSiteLedger db1 (msExpectedClientId i) (msLedgerEntryId i)) (\<lambda>_.
         bindR (requireLedgerEntry db1 (msLedgerEntryId i)) (\<lambda>e.
         bindR (requireOrderDecision db1 (msOrderId i)) (\<lambda>ord.
         bindR (manualFactsEligible e ord db1) (\<lambda>_.
         recordManualSettlement env i reason mid e ord now db1))))) = Inr (r, db')"
    using assms unfolding settleManually_def by (fastforce simp: bindR_Inr_iff)
  show thesis by (cases replay) (use s that in \<open>auto simp: bindR_Inr_iff\<close>)
qed

lemma settleManually_step:
  assumes inv: "reconInv db" and res: "settleManually env i db = Inr (r, db')"
  shows "bookStep\<^sup>*\<^sup>* db db'"
  using res
proof (cases rule: settleManually_cases)
  case (1 now mid reason f)
  then show ?thesis using clock_step(1) [OF inv] by auto
next
  case (2 now db1 mid reason e ord)
  note c = clock_step [OF inv 2(1)] and rows = requireLedgerEntry_row [OF 2(5)] requireOrderDecision_row [OF 2(6)]
  have "bookStep\<^sup>*\<^sup>* db1 db'"
    using recordManualSettlement_step [OF c(2) c(3) [symmetric] _ _ _ _ _ 2(8)] rows manualFactsEligible_Inr [OF 2(7)]
    by auto
  then show ?thesis using c(1) by simp
qed

lemma recordReversal_step:
  assumes inv: "reconInv db" and now: "now = orderClock (orderSide db)" and m: "m \<in> set (matches db)"
    and res: "recordReversal env i m opInput now db = Inr (r, db')"
  shows "bookStep\<^sup>*\<^sup>* db db'"
proof -
  obtain e ord fid key f db1 where s: "pmStatus m = SETTLED" "requireLedgerEntry db (pmEntryId m) = Inr e"
      "requireOrderDecision db (pmOrderId m) = Inr ord"
      "insertFinancialOperation env fid key opInput now db = Inr (f, db1)"
      "reversalRows env f m e ord now db1 = Inr db'"
    using res unfolding recordReversal_def by (auto simp: bindR_Inr_iff assertR_Inr_iff)
  note q = insertFinancialOperation_books [OF s(4)]
  note rows = requireLedgerEntry_row [OF s(2)] requireOrderDecision_row [OF s(3)]
  have "bookStep db1 db'"
    by (rule reversalRows_step [OF sameBooks_inv [OF q inv] _ _ _ _ _ _ s(1) s(5)])
       (use q now m rows sameBooks_orders [OF q] in \<open>simp_all add: sameBooks_def\<close>)
  then show ?thesis using sameBooks_steps [OF q] by simp
qed

lemma reverseSettlement_cases:
  assumes "reverseSettlement env i db = Inr (r, db')"
  obtains now m existing f where "financialNow env db = Inr (now, db')"
      "readPaymentMatch db' (fdPaymentMatchId i) = Inr (Some m)"
      "readOperation db' (fdFinancialOperationId i) = Inr existing"
      "readDecisionReplay env (fdFinancialOperationId i)
         (reversalOperationInput i m (reversedOperation m existing)) db' = Inr (Some f)"
      "decisionResult db' f (paymentMatchId m) True = Inr r"
  | now db1 m existing where "financialNow env db = Inr (now, db1)"
      "readPaymentMatch db1 (fdPaymentMatchId i) = Inr (Some m)"
      "readOperation db1 (fdFinancialOperationId i) = Inr existing"
      "readDecisionReplay env (fdFinancialOperationId i)
         (reversalOperationInput i m (reversedOperation m existing)) db1 = Inr None"
      "recordReversal env i m (reversalOperationInput i m (reversedOperation m existing)) now db1 = Inr (r, db')"
proof -
  obtain now db1 m existing replay where s: "financialNow env db = Inr (now, db1)"
      "readPaymentMatch db1 (fdPaymentMatchId i) = Inr (Some m)"
      "readOperation db1 (fdFinancialOperationId i) = Inr existing"
      "readDecisionReplay env (fdFinancialOperationId i)
         (reversalOperationInput i m (reversedOperation m existing)) db1 = Inr replay"
      "(case replay of Some f \<Rightarrow> bindR (decisionResult db1 f (paymentMatchId m) True) (\<lambda>r. Inr (r, db1))
        | None \<Rightarrow> recordReversal env i m (reversalOperationInput i m (reversedOperation m existing)) now db1) =
       Inr (r, db')"
    using assms unfolding reverseSettlement_def Let_def
    by (fastforce simp: bindR_Inr_iff split: option.splits)
  show thesis by (cases replay) (use s that in \<open>auto simp: bindR_Inr_iff\<close>)
qed

lemma reverseSettlement_step:
  assumes inv: "reconInv db" and res: "reverseSettlement env i db = Inr (r, db')"
  shows "bookStep\<^sup>*\<^sup>* db db'"
  using res
proof (cases rule: reverseSettlement_cases)
  case (1 now m existing f)
  then show ?thesis using clock_step(1) [OF inv] by auto
next
  case (2 now db1 m existing)
  note c = clock_step [OF inv 2(1)]
  show ?thesis
    using recordReversal_step [OF c(2) c(3) [symmetric] _ 2(5)] readPaymentMatch_row [OF 2(2)] c(1) by auto
qed

subsection \<open>The store as a step function\<close>

datatype recon_operation =
    ReconcileEntry recon_env string
  | SettleManually recon_env manual_settlement_input
  | ReverseSettlement recon_env financial_decision_input
  | OrderStep order_operation

text \<open>One call on the shared database: a transaction of the reconciliation store or of the order store.\<close>

fun reconStep :: "recon_operation \<Rightarrow> recon_db \<Rightarrow> recon_db" where
  "reconStep (ReconcileEntry env eid) db = snd (dbWrite (reconcileEntry env eid) db)"
| "reconStep (SettleManually env i) db = snd (dbWrite (settleManually env i) db)"
| "reconStep (ReverseSettlement env i) db = snd (dbWrite (reverseSettlement env i) db)"
| "reconStep (OrderStep op) db = db\<lparr>orderSide := orderStep op (orderSide db)\<rparr>"

lemma write_steps:
  "(\<And>r db'. f db = Inr (r, db') \<Longrightarrow> bookStep\<^sup>*\<^sup>* db db') \<Longrightarrow> bookStep\<^sup>*\<^sup>* db (snd (dbWrite f db))"
  by (rule dbWrite_keeps) auto

lemma orderStep_step: "reconInv db \<Longrightarrow> bookStep\<^sup>*\<^sup>* db (db\<lparr>orderSide := orderStep op (orderSide db)\<rparr>)"
  using orderStep_good [OF reconInvD(1)] by (intro r_into_rtranclp ordersMove) (simp_all add: goodStep_def)

lemma reconStep_steps: "reconInv db \<Longrightarrow> bookStep\<^sup>*\<^sup>* db (reconStep op db)"
  by (cases op) (simp_all add: write_steps reconcileEntry_step settleManually_step reverseSettlement_step
      orderStep_step)

interpretation recon: monotone_store reconStep reconInv "\<lambda>db. orderClock (orderSide db)"
proof
  show "reconInv db \<Longrightarrow> reconInv (reconStep op db)" for op db
    using bookSteps_inv reconStep_steps by blast
next
  have clock: "bookStep a b \<Longrightarrow> orderClock (orderSide a) \<le> orderClock (orderSide b)" for a b
    by (induction rule: bookStep.induct) (simp_all add: sameBooks_def advances_def paidSide_def)
  have "bookStep\<^sup>*\<^sup>* a b \<Longrightarrow> orderClock (orderSide a) \<le> orderClock (orderSide b)" for a b
    by (induction rule: rtranclp_induct) (use clock in \<open>auto intro: order_trans\<close>)
  then show "reconInv db \<Longrightarrow> orderClock (orderSide db) \<le> orderClock (orderSide (reconStep op db))" for op db
    using reconStep_steps by blast
qed

end
