(* ===== verification/ReconSamples.thy ===== *)
theory ReconSamples
  imports ReconSteps OrderSamples
begin

text \<open>
  Concrete books: two orders of one amount, an incoming payment in the window of the second, and the
  same books after the payment is settled.
\<close>

definition sampleEntry :: ledger_entry where
  "sampleEntry =
     \<lparr>ledgerEntryId = sampleUuid ''e'', entryProviderKey = ''primary'', semanticFingerprint = replicate 64 CHR ''0'',
      entryOccurredAt = 205000, occurredAtPrecision = 1000, entryAmountCents = 1001, entryDirection = CREDIT,
      entryState = UNALLOCATED, entryUpdatedAt = 206000\<rparr>"

text \<open>Fresh identifiers carry a letter for the table; the digit tells the two postings of a transaction apart.\<close>

fun sampleIdName :: "id_use \<Rightarrow> nat \<Rightarrow> string" where
  "sampleIdName ForCandidate n = ''c''"
| "sampleIdName ForOperation n = ''f''"
| "sampleIdName ForMatch n = ''m''"
| "sampleIdName ForTransaction n = ''t''"
| "sampleIdName ForPosting n = (if even n then ''x'' else ''y'')"
| "sampleIdName ForException n = ''z''"
| "sampleIdName ForOrderEvent n = ''v''"
| "sampleIdName ForOutboxEvent n = ''o''"

definition sampleReconEnv :: recon_env where
  "sampleReconEnv =
     \<lparr>nowInput = None, databaseClock = 220000, reconSha = (\<lambda>_. replicate 64 CHR ''0''),
      freshId = (\<lambda>u n. sampleUuid (sampleIdName u n))\<rparr>"

definition unpaidBooks :: recon_db where
  "unpaidBooks =
     \<lparr>orderSide = twoOrders\<lparr>orderClock := 210000, profileProviderLinks := [(''p'', ''primary'')],
        providerBindings := [''primary'']\<rparr>,
      bindingEndpoints = [(''primary'', ''https://openapi.alipay.com'')], liveSites = [js ''shop''],
      ledgerEntries = [sampleEntry], ledgerConflicts = [], financialOperations = [], matchCandidates = [],
      matches = [], matchEvents = [], ledgerTransactions = [], ledgerPostings = [], financialExceptions = [],
      outbox = [], financialAudits = []\<rparr>"

definition sampleMatch :: payment_match where
  "sampleMatch =
     \<lparr>paymentMatchId = sampleUuid ''m'', pmEntryId = sampleUuid ''e'', pmOrderId = sampleUuid ''2'',
      pmCandidateId = None, pmEvidenceType = MANUAL, pmEvidence = jobject [], pmStatus = SETTLED,
      createdByOperationId = sampleUuid ''f'', resolvedByOperationId = Some (sampleUuid ''f''),
      pmCreatedAt = 210000, pmUpdatedAt = 210000, pmResolvedAt = Some 210000\<rparr>"

definition samplePaidEvent :: order_event where
  "samplePaidEvent =
     \<lparr>eventId = sampleUuid ''v'', eventOrderId = sampleUuid ''2'', eventSequence = 2,
      eventType = PAYMENT_CONFIRMED, occurredAt = 210000,
      eventDetails = DecisionDetails (sampleUuid ''f'') (sampleUuid ''m'') None (Some ''MANUAL'')\<rparr>"

definition paidBooks :: recon_db where
  "paidBooks = unpaidBooks
     \<lparr>orderSide := paidSide openOrder CONFIRMED BasisManual 1001 210000 samplePaidEvent (orderSide unpaidBooks),
      ledgerEntries := [moveEntry ALLOCATED 210000 sampleEntry], matches := [sampleMatch],
      ledgerPostings := transferPostings (sampleUuid ''x'') (sampleUuid ''y'') (sampleUuid ''t'') PROVIDER_CASH
        ORDER_SETTLEMENT 1001 (sampleUuid ''2'') (sampleUuid ''e'') 210000\<rparr>"

lemma orderInv_tables:
  "orderInv db \<Longrightarrow> orderInv (db\<lparr>profileProviderLinks := links, providerBindings := bindings\<rparr>)"
  by (simp add: orderInv_def rowsInv_def)

lemma twoOrders_later: "orderInv (twoOrders\<lparr>orderClock := 210000\<rparr>)"
  by (rule orderInv_clock [OF orderInv_twoOrders]) (simp add: twoOrders_def)

lemma unpaidBooks_simps [simp]:
  "orderClock (orderSide unpaidBooks) = 210000" "orders unpaidBooks = [closedOrder, openOrder]"
  "paymentOrders (orderSide unpaidBooks) = [closedOrder, openOrder]"
  "ledgerEntries unpaidBooks = [sampleEntry]" "matchCandidates unpaidBooks = []" "matches unpaidBooks = []" "ledgerPostings unpaidBooks = []"
  by (simp_all add: unpaidBooks_def twoOrders_def orders_def)

lemma unpaid_samples: "unpaidOrder closedOrder" "unpaidOrder openOrder"
  by (simp_all add: unpaidOrder_def sample_defs)

lemma reconInv_unpaidBooks: "reconInv unpaidBooks"
proof -
  have "orderInv (orderSide unpaidBooks)"
    using orderInv_tables [OF twoOrders_later] by (simp add: unpaidBooks_def)
  then show ?thesis
    using unpaid_samples
    by (simp add: reconInv_def booksOk_def linksOk_def candidateKeys_def settledEntries_def sampleEntry_def accountBalance_def receipts_def
        receiptOf_def unpaidOrder_def allocations_def allocationOf_def)
qed

lemma paidBooks_step: "bookStep unpaidBooks paidBooks"
  by (rule settles [where ord = openOrder and now = 210000 and ev = samplePaidEvent and basis = BasisManual and
        e = sampleEntry and m = sampleMatch and pid = "sampleUuid ''x''" and pid' = "sampleUuid ''y''" and
        tid = "sampleUuid ''t''"])
     (simp_all add: payable_def openOrder_def samplePaidEvent_def sampleEntry_def sampleMatch_def paidBooks_def
        movedEntries_def updateRows_def)

lemma reconInv_paidBooks: "reconInv paidBooks"
  using bookStep_inv [OF paidBooks_step reconInv_unpaidBooks] .

end
