(* ===== verification/ReconLifecycle.thy ===== *)
theory ReconLifecycle
  imports ReconSteps ReconSamples
begin

text \<open>
  The life of an order in the shared database.  The order store ends an order, the reconciliation pays
  it and takes the payment back, in any interleaving: what each of them may change of the row.
\<close>

text \<open>The terms of an order: everything but its checkout, its payment and the row's own time and version.\<close>

definition terms :: "payment_order \<Rightarrow> payment_order" where
  "terms r =
     r\<lparr>checkoutStatus := OPEN, closedAt := None, paymentStatus := UNPAID, paymentBasis := BasisNone,
       receivedAmountCents := None, updatedAt := 0, version := 0\<rparr>"

text \<open>A checkout ends at most once: it expires at or after its deadline, or is closed before it.\<close>

definition endsOnce :: "payment_order \<Rightarrow> payment_order \<Rightarrow> bool" where
  "endsOnce r r' \<longleftrightarrow>
     checkoutStatus r' = checkoutStatus r \<and> closedAt r' = closedAt r \<or>
     checkoutStatus r = OPEN \<and> checkoutStatus r' = EXPIRED \<and> (\<exists>t. closedAt r' = Some t \<and> expiresAt r \<le> t) \<or>
     checkoutStatus r = OPEN \<and> checkoutStatus r' = CLOSED \<and>
       (\<exists>t. closedAt r' = Some t \<and> createdAt r \<le> t \<and> t < expiresAt r)"

text \<open>An order is paid at most once; a payment taken back leaves its amount and basis, and is not replaced.\<close>

definition paysOnce :: "payment_order \<Rightarrow> payment_order \<Rightarrow> bool" where
  "paysOnce r r' \<longleftrightarrow>
     paymentStatus r' = paymentStatus r \<and> paymentBasis r' = paymentBasis r \<and>
       receivedAmountCents r' = receivedAmountCents r \<or>
     paymentStatus r = UNPAID \<and> paymentStatus r' \<in> {CONFIRMED, DISPUTED} \<and> paymentBasis r' \<noteq> BasisNone \<and>
       receivedAmountCents r' \<noteq> None \<or>
     paymentStatus r = CONFIRMED \<and> paymentStatus r' = DISPUTED \<and> paymentBasis r' = paymentBasis r \<and>
       receivedAmountCents r' = receivedAmountCents r"

definition progresses :: "payment_order \<Rightarrow> payment_order \<Rightarrow> bool" where
  "progresses r r' \<longleftrightarrow>
     terms r' = terms r \<and> endsOnce r r' \<and> paysOnce r r' \<and> (r' = r \<or> version r < version r')"

lemma progresses_refl [simp]: "progresses r r"
  by (simp add: progresses_def endsOnce_def paysOnce_def)

lemma terms_times:
  assumes "terms r' = terms r"
  shows "createdAt r' = createdAt r" "expiresAt r' = expiresAt r" "orderId r' = orderId r"
  using arg_cong [OF assms, of createdAt] arg_cong [OF assms, of expiresAt] arg_cong [OF assms, of orderId]
  by (simp_all add: terms_def)

lemma endsOnce_trans:
  assumes "terms r' = terms r" "endsOnce r r'" "endsOnce r' r''"
  shows "endsOnce r r''"
  using assms(2,3) terms_times [OF assms(1)] unfolding endsOnce_def by auto

lemma paysOnce_trans: "paysOnce r r' \<Longrightarrow> paysOnce r' r'' \<Longrightarrow> paysOnce r r''"
  unfolding paysOnce_def by auto

lemma progresses_trans:
  assumes "progresses r r'" "progresses r' r''"
  shows "progresses r r''"
  using assms endsOnce_trans [of r' r r''] paysOnce_trans [of r r' r''] unfolding progresses_def by auto

lemma terms_steps [simp]:
  "terms (endOrder status t r) = terms r" "terms (payOrder payment basis received t r) = terms r"
  by (simp_all add: terms_def endOrder_def payOrder_def)

lemma step_columns [simp]:
  "checkoutStatus (payOrder payment basis received t r) = checkoutStatus r"
  "closedAt (payOrder payment basis received t r) = closedAt r"
  "paymentStatus (endOrder status t r) = paymentStatus r" "paymentBasis (endOrder status t r) = paymentBasis r"
  "receivedAmountCents (endOrder status t r) = receivedAmountCents r" "version (endOrder status t r) = version r + 1"
  "closedAt (endOrder status t r) = Some t"
  by (simp_all add: endOrder_def payOrder_def)

lemma ended_progresses:
  "checkoutStatus r = OPEN \<Longrightarrow> endTimeAllowed status t r \<Longrightarrow> progresses r (endOrder status t r)"
  by (cases status) (simp_all add: progresses_def endsOnce_def paysOnce_def endTimeAllowed_def)

lemma evolves_progresses: "evolves r r' \<Longrightarrow> progresses r r'"
  by (auto simp: evolves_def intro: ended_progresses)

lemma settled_progresses:
  "paymentStatus r = UNPAID \<Longrightarrow> basis \<noteq> BasisNone \<Longrightarrow> progresses r (payOrder CONFIRMED basis received now r)"
  by (simp add: progresses_def endsOnce_def paysOnce_def)

lemma reversed_progresses:
  "paymentStatus r = CONFIRMED \<Longrightarrow> receivedAmountCents r = Some received \<Longrightarrow>
   progresses r (payOrder DISPUTED (paymentBasis r) received now r)"
  by (simp add: progresses_def endsOnce_def paysOnce_def)

subsection \<open>Every step\<close>

lemma paid_row_progresses:
  assumes inv: "reconInv db" and r: "r \<in> set (orders db)" and ord: "payable ord now ev (orderSide db)"
    and pay: "progresses ord (payOrder payment basis received now ord)"
    and db': "orderSide db' = paidSide ord payment basis received now ev (orderSide db)"
  shows "\<exists>r' \<in> set (orders db'). progresses r r'"
proof -
  have o: "ord \<in> set (orders db)" using ord by (simp add: payable_def orders_def)
  have orders': "orders db' = updateRows (\<lambda>x. orderId x = orderId ord) (payOrder payment basis received now) (orders db)"
    by (simp add: orders_def db' paidSide_def)
  show ?thesis
  proof (cases "orderId r = orderId ord")
    case True
    then have "r = ord" using order_row_unique [OF reconInvD(4) [OF inv] r o] by simp
    then show ?thesis
      using pay mem_updateRows_image [OF r, of "\<lambda>x. orderId x = orderId ord" "payOrder payment basis received now"]
      by (intro bexI [of _ "payOrder payment basis received now ord"]) (simp_all add: orders')
  next
    case False
    then have "r \<in> set (orders db')" using r by (auto simp: orders' updateRows_def image_iff)
    then show ?thesis by (intro bexI) auto
  qed
qed

lemma bookStep_progresses:
  assumes step: "bookStep db db'" and inv: "reconInv db" and r: "r \<in> set (orders db)"
  shows "\<exists>r' \<in> set (orders db'). progresses r r'"
  using step
proof cases
  case quiet
  then show ?thesis using r sameBooks_orders [of db db'] by (intro bexI [of _ r]) auto
next
  case ordersMove
  then obtain ended new where e: "orders db' = ended @ new" "list_all2 evolves (orders db) ended"
    by (auto simp: advances_def orders_def)
  then show ?thesis using list_all2_right [OF e(2) r] evolves_progresses by auto
next
  case (entryMoves e state now)
  then show ?thesis using r by (intro bexI [of _ r]) (simp_all add: orders_def)
next
  case (settles ord now ev basis e m pid pid' tid)
  then show ?thesis using paid_row_progresses [OF inv r _ settled_progresses] by blast
next
  case (reverses ord now ev received e state m reverse pid pid' tid)
  obtain ord' where o: "ord' \<in> set (orders db)" "orderId ord' = pmOrderId m" "paymentStatus ord' = CONFIRMED"
    using booksOkD(5) [OF reconInvD(3) [OF inv] reverses(5)] reverses(6) by (auto simp: matchOk_def)
  have "ord \<in> set (orders db)" using reverses(1) by (simp add: payable_def orders_def)
  then have "ord' = ord" using order_row_unique [OF reconInvD(4) [OF inv] o(1)] o(2) reverses(7) by simp
  then show ?thesis using paid_row_progresses [OF inv r reverses(1) reversed_progresses] o(3) reverses by blast
qed

lemma bookSteps_progress:
  assumes "bookStep\<^sup>*\<^sup>* db db'" "reconInv db" "r \<in> set (orders db)"
  shows "\<exists>r' \<in> set (orders db'). progresses r r'"
  using assms
proof (induction rule: rtranclp_induct)
  case base
  then show ?case by (intro bexI [of _ r]) simp_all
next
  case (step db1 db2)
  then obtain r1 where r1: "r1 \<in> set (orders db1)" "progresses r r1" by blast
  have "reconInv db1" using bookSteps_inv [OF step(1)] step.prems by blast
  then show ?case using bookStep_progresses [OF step(2) _ r1(1)] progresses_trans [OF r1(2)] by blast
qed

lemma run_progresses:
  assumes "reconInv db" "r \<in> set (orders db)"
  shows "\<exists>r' \<in> set (orders (fold reconStep ops db)). progresses r r'"
  using assms
proof (induction ops arbitrary: db r)
  case Nil
  then show ?case by (intro bexI [of _ r]) simp_all
next
  case (Cons op ops)
  obtain r1 where r1: "r1 \<in> set (orders (reconStep op db))" "progresses r r1"
    using bookSteps_progress [OF reconStep_steps Cons.prems(1,2)] Cons.prems(1) by blast
  then show ?case
    using Cons.IH [OF recon.step_inv [OF Cons.prems(1)] r1(1)] progresses_trans [OF r1(2)] by auto
qed

subsection \<open>Every run\<close>

text \<open>C7: An order is never removed and its terms never change, whatever transactions of the order store and of the
  reconciliation run, in any order.  Its checkout ends at most once: an open one expires at or after its deadline or is
  closed before it, and one that has ended stays as it is.  It is paid at most once, open or ended: an unpaid order
  becomes confirmed, with an amount and a basis, and a confirmed one may only become disputed, with the same amount
  and basis.  And the row never changes without a higher version.\<close>

theorem orders_end_once:
  assumes "reconInv db" "r \<in> set (orders db)"
  shows "\<exists>r' \<in> set (orders (fold reconStep ops db)).
    terms r' = terms r \<and> endsOnce r r' \<and> paysOnce r r' \<and> (r' = r \<or> version r < version r')"
  using run_progresses [OF assms, of ops] by (simp add: progresses_def)

theorem orders_end_once_witness:
  "\<exists>r' \<in> set (orders (fold reconStep
        [ReconcileEntry sampleReconEnv (sampleUuid ''e''),
         OrderStep (CloseOrder (sampleEnv 300000 ''3'') (js ''shop'') (sampleUuid ''2''))] unpaidBooks)).
     terms r' = terms openOrder \<and> endsOnce openOrder r' \<and> paysOnce openOrder r' \<and>
     (r' = openOrder \<or> version openOrder < version r')"
  by (rule orders_end_once [OF reconInv_unpaidBooks]) simp

end
