(* ===== verification/NotificationStore.thy ===== *)
theory NotificationStore
  imports NotificationRows
begin

text \<open>
  The write operations of \<^verbatim>\<open>src/src/notifications/store.ts\<close>, each the callback of one transaction:
  materializing the deliveries of new events, claiming the next due delivery under a lease,
  completing an attempt, recovering expired leases and replaying a finished delivery.
\<close>

subsection \<open>Inputs from outside\<close>

text \<open>
  SHA-256, the EasyPay cryptography, \<^verbatim>\<open>isIP\<close> and the URL parser, and the random identifiers: the
  \<open>n\<close>-th delivery, and the lease token and attempt identifier of a claim.
\<close>

record notify_env =
  notifySha256 :: "nat list \<Rightarrow> string"
  epayEnv :: epay_env
  newDeliveryId :: "nat \<Rightarrow> string"
  newLeaseToken :: string
  newAttemptId :: string

definition assertTime :: "int \<Rightarrow> string \<Rightarrow> store_error + unit" where
  "assertTime n label = assertR (isSafeInteger n \<and> \<not> n < 0) (RangeFailure (label @ '' is invalid''))"

definition assertPositiveInteger :: "int \<Rightarrow> string \<Rightarrow> store_error + unit" where
  "assertPositiveInteger n label = assertR (isSafeInteger n \<and> \<not> n < 1) (RangeFailure (label @ '' is invalid''))"

lemma assertTime_Inr_iff [result_simps]: "assertTime n label = Inr u \<longleftrightarrow> isSafeInteger n \<and> 0 \<le> n"
  by (auto simp: assertTime_def assertR_def)

lemma assertPositiveInteger_Inr_iff [result_simps]:
  "assertPositiveInteger n label = Inr u \<longleftrightarrow> isSafeInteger n \<and> 1 \<le> n"
  by (auto simp: assertPositiveInteger_def assertR_def)

definition isIdentifierUnit :: "char \<Rightarrow> bool" where
  "isIdentifierUnit c \<longleftrightarrow> (let n = of_char c :: nat in
     65 \<le> n \<and> n \<le> 90 \<or> 97 \<le> n \<and> n \<le> 122 \<or> 48 \<le> n \<and> n \<le> 57)"

definition assertIdentifier :: "string \<Rightarrow> string \<Rightarrow> store_error + unit" where
  "assertIdentifier text label =
     assertR (text \<noteq> [] \<and> length text \<le> 128 \<and> isIdentifierUnit (hd text) \<and>
              list_all (\<lambda>c. isIdentifierUnit c \<or> c = CHR ''.'' \<or> c = CHR ''_'' \<or> c = CHR ''-'') text)
       (RangeFailure (label @ '' is invalid''))"

definition assertReason :: "jstr \<Rightarrow> store_error + unit" where
  "assertReason reason =
     assertR (isValidWebhookReason reason) (RangeFailure ''webhook replay reason is invalid'')"

definition assertFingerprint :: "string \<Rightarrow> string \<Rightarrow> store_error + unit" where
  "assertFingerprint text label = assertR (isHexDigest text) (RangeFailure (label @ '' is invalid''))"

text \<open>\<^verbatim>\<open>siteClientIdSchema\<close> of \<^verbatim>\<open>src/src/sites/model.ts\<close>.\<close>

definition siteClientIdSchema :: "jstr \<Rightarrow> bool" where
  "siteClientIdSchema text \<longleftrightarrow>
     3 \<le> length text \<and> length text \<le> 64 \<and> isAsciiAlphanumeric (hd text) \<and> list_all isMerchantOrderUnit text"

definition parseSiteClientId :: "jstr option \<Rightarrow> store_error + unit" where
  "parseSiteClientId client =
     assertR (case client of None \<Rightarrow> True | Some c \<Rightarrow> siteClientIdSchema c) (Failure ''ZodError'')"

definition activeOriginValid :: "url_env \<Rightarrow> jstr option \<Rightarrow> bool" where
  "activeOriginValid env allowed =
     (case allowed of
        None \<Rightarrow> True
      | Some text \<Rightarrow>
          (case parseUrl env text of
             None \<Rightarrow> False
           | Some u \<Rightarrow> \<not> (protocol u \<noteq> js ''https:'' \<or> origin u \<noteq> text \<or> pathname u \<noteq> js ''/'' \<or>
                         search u \<noteq> [] \<or> hash u \<noteq> [] \<or> username u \<noteq> [] \<or> password u \<noteq> [])))"

definition assertActiveAllowedOrigin :: "url_env \<Rightarrow> jstr option \<Rightarrow> store_error + unit" where
  "assertActiveAllowedOrigin env allowed =
     assertR (activeOriginValid env allowed) (RangeFailure ''webhook active allowed origin is invalid'')"

subsection \<open>Row mappers\<close>

definition safeOption :: "int option \<Rightarrow> string \<Rightarrow> store_error + int option" where
  "safeOption x label =
     (case x of None \<Rightarrow> Inr None | Some n \<Rightarrow> bindR (toSafeInteger n label) (\<lambda>m. Inr (Some m)))"

lemma safeOption_Inr_iff [result_simps]:
  "safeOption x label = Inr y \<longleftrightarrow> y = x \<and> pred_option isSafeInteger x"
  by (cases x) (auto simp: safeOption_def result_simps)

definition mapDelivery :: "delivery_row \<Rightarrow> store_error + webhook_delivery" where
  "mapDelivery row =
     bindR (toSafeInteger (deliveryGeneration row) ''webhook generation'') (\<lambda>_.
     bindR (toSafeInteger (attemptCount row) ''webhook attempt count'') (\<lambda>_.
     bindR (toSafeInteger (nextAttemptAt row) ''webhook next attempt time'') (\<lambda>_.
     bindR (safeOption (leaseExpiresAt row) ''webhook lease expiry time'') (\<lambda>_.
     bindR (safeOption (acknowledgedAt row) ''webhook acknowledgement time'') (\<lambda>_.
     bindR (safeOption (deadLetteredAt row) ''webhook dead letter time'') (\<lambda>_.
     bindR (toSafeInteger (deliveryCreatedAt row) ''webhook delivery creation time'') (\<lambda>_.
     bindR (toSafeInteger (deliveryUpdatedAt row) ''webhook delivery update time'') (\<lambda>_.
     Inr (webhook_delivery.truncate row)))))))))"

definition mapEvent :: "outbox_event \<Rightarrow> store_error + webhook_event" where
  "mapEvent row =
     bindR (toSafeInteger (aggregateVersion row) ''webhook order version'') (\<lambda>orderVersion.
     bindR (toSafeInteger (outboxCreatedAt row) ''webhook event time'') (\<lambda>created.
     Inr \<lparr>notifiedEventId = outboxEventId row, notifiedEventType = outboxEventType row,
          notifiedOrderId = aggregateId row, notifiedOrderVersion = orderVersion,
          notifiedPayloadJson = payloadJson row, notifiedPayloadFingerprint = payloadFingerprint row,
          notifiedCreatedAt = created\<rparr>))"

definition mapTarget :: "stored_webhook_target \<Rightarrow> store_error + stored_webhook_target" where
  "mapTarget row =
     bindR (toSafeInteger (targetCreatedAt row) ''webhook target time'') (\<lambda>_. Inr row)"

definition mapSigningKey :: "signing_key_row \<Rightarrow> store_error + webhook_signing_key" where
  "mapSigningKey row =
     bindR (toSafeInteger (signingKeyVersion row) ''webhook key version'') (\<lambda>_.
     bindR (toSafeInteger (signingActivatedAt row) ''webhook key activation time'') (\<lambda>_.
     bindR (safeOption (signingRetiredAt row) ''webhook key retirement time'') (\<lambda>_.
     Inr (webhook_signing_key.truncate row))))"

text \<open>
  The keys carry their website, so a read without one is refused; a read with one finds that
  website's only active key.
\<close>

definition readActiveSigningKey ::
  "notify_db \<Rightarrow> jstr option \<Rightarrow> store_error + webhook_signing_key option"
where
  "readActiveSigningKey db client =
     (case client of
        None \<Rightarrow> Inl (Failure ''website scope is required for notification keys'')
      | Some c \<Rightarrow>
          (case List.find (\<lambda>k. signingRetiredAt k = None \<and> signingClientId k = c) (signingKeys db) of
             None \<Rightarrow> Inr None
           | Some row \<Rightarrow> bindR (mapSigningKey row) (\<lambda>k. Inr (Some k))))"

subsection \<open>Materializing deliveries\<close>

text \<open>
  The query: events of a live target without a first delivery, oldest first.  \<open>None\<close> in the website
  filter selects every website.
\<close>

definition needsDelivery :: "notify_db \<Rightarrow> jstr option \<Rightarrow> outbox_event \<Rightarrow> stored_webhook_target \<Rightarrow> bool" where
  "needsDelivery db client e t \<longleftrightarrow>
     targetOrderId t = aggregateId e \<and>
     (case client of None \<Rightarrow> True | Some c \<Rightarrow> targetClientId t = c) \<and> liveTarget db t \<and>
     (targetFormat t = NATIVE_JSON_V1 \<or> outboxEventType e = PAYMENT_CONFIRMED) \<and>
     \<not> list_ex (\<lambda>d. deliveryEventId d = outboxEventId e \<and> deliveryTargetId d = targetId t \<and>
                  deliveryGeneration d = 1) (webhookDeliveries db)"

definition materializationRows ::
  "notify_db \<Rightarrow> jstr option \<Rightarrow> nat \<Rightarrow> (outbox_event \<times> stored_webhook_target) list"
where
  "materializationRows db client limit =
     take limit (sort_key (\<lambda>(e, t). (outboxCreatedAt e, outboxEventId e))
       (filter (\<lambda>(e, t). needsDelivery db client e t)
         (List.product (outboxEvents db) (webhookTargets (orderTables db)))))"

definition firstDelivery ::
  "notify_env \<Rightarrow> int \<Rightarrow> notify_db \<Rightarrow> outbox_event \<Rightarrow> stored_webhook_target \<Rightarrow> delivery_row"
where
  "firstDelivery env now db e t =
     (let t0 = max (max now (outboxCreatedAt e)) (targetCreatedAt t) in
      \<lparr>deliveryId = newDeliveryId env (length (webhookDeliveries db)),
       deliveryEventId = outboxEventId e, deliveryTargetId = targetId t, deliveryGeneration = 1,
       predecessorDeliveryId = None, requestKey = outboxEventId e, requestedByType = SYSTEM,
       requestedByActorId = None, deliveryReason = None, deliveryStatus = PENDING, attemptCount = 0,
       nextAttemptAt = t0, leaseExpiresAt = None, acknowledgedAt = None, deadLetteredAt = None,
       lastErrorCode = None, deliveryCreatedAt = t0, deliveryUpdatedAt = t0, leaseToken = None,
       deliveryFingerprint = webhookDeliveryRequestFingerprint (notifySha256 env)
         (outboxEventId e) (targetId t) 1 None SYSTEM None None\<rparr>)"

fun materializeRows ::
  "notify_env \<Rightarrow> int \<Rightarrow> (outbox_event \<times> stored_webhook_target) list \<Rightarrow> notify_db
     \<Rightarrow> store_error + int \<times> notify_db"
where
  "materializeRows env now [] db = Inr (0, db)"
| "materializeRows env now ((e, t) # rows) db =
     bindR (toSafeInteger (outboxCreatedAt e) ''webhook event time'') (\<lambda>_.
     bindR (toSafeInteger (targetCreatedAt t) ''webhook target time'') (\<lambda>_.
     bindR (insertDelivery (firstDelivery env now db e t) db) (\<lambda>db'.
     bindR (materializeRows env now rows db') (\<lambda>(inserted, db'').
     Inr (inserted + 1, db'')))))"

definition materialize ::
  "notify_env \<Rightarrow> int \<Rightarrow> int \<Rightarrow> jstr option \<Rightarrow> notify_db \<Rightarrow> store_error + int \<times> notify_db"
where
  "materialize env limit now client db =
     bindR (parseSiteClientId client) (\<lambda>_.
     bindR (assertPositiveInteger limit ''webhook materialize limit'') (\<lambda>_.
     bindR (assertTime now ''webhook materialize time'') (\<lambda>_.
     materializeRows env now (materializationRows db client (nat limit)) db)))"

subsection \<open>Recovering expired leases\<close>

definition leaseExpired :: "notify_db \<Rightarrow> int \<Rightarrow> delivery_row \<Rightarrow> bool" where
  "leaseExpired db now d \<longleftrightarrow>
     deliveryStatus d = LEASED \<and> (case leaseExpiresAt d of None \<Rightarrow> False | Some t \<Rightarrow> t \<le> now) \<and>
     targetLiveWithId db (deliveryTargetId d)"

definition attemptOfLease :: "delivery_row \<Rightarrow> attempt_row \<Rightarrow> bool" where
  "attemptOfLease d a \<longleftrightarrow>
     attemptDeliveryId a = deliveryId d \<and> attemptNumber a = attemptCount d \<and>
     Some (attemptLeaseToken a) = leaseToken d \<and> attemptOutcome a = STARTED"

definition expireAttempt :: "int \<Rightarrow> attempt_row \<Rightarrow> attempt_row" where
  "expireAttempt now a =
     a\<lparr>attemptOutcome := OUTCOME_UNKNOWN,
       attemptEvidence := (attemptEvidence a)\<lparr>errorCode := Some ''lease_expired_outcome_unknown''\<rparr>,
       finishedAt := Some now\<rparr>"

definition expireLease :: "int \<Rightarrow> delivery_row \<Rightarrow> delivery_row" where
  "expireLease now d =
     d\<lparr>deliveryStatus := RETRY_WAIT, leaseToken := None, leaseExpiresAt := None, nextAttemptAt := now,
       lastErrorCode := Some ''lease_expired_outcome_unknown'', deliveryUpdatedAt := now\<rparr>"

definition sameLease :: "delivery_row \<Rightarrow> delivery_row \<Rightarrow> bool" where
  "sameLease d x \<longleftrightarrow>
     deliveryId x = deliveryId d \<and> deliveryStatus x = LEASED \<and> leaseToken x = leaseToken d \<and> leaseToken d \<noteq> None"

fun recoverRows :: "int \<Rightarrow> delivery_row list \<Rightarrow> notify_db \<Rightarrow> store_error + int \<times> notify_db" where
  "recoverRows now [] db = Inr (0, db)"
| "recoverRows now (d # ds) db =
     bindR (toSafeInteger (attemptCount d) ''webhook expired attempt count'') (\<lambda>_.
     bindR (updateAttempts (attemptOfLease d) (expireAttempt now) db) (\<lambda>(n, db1).
     bindR (assertChangedOnce n ''webhook expired attempt recovery'') (\<lambda>_.
     bindR (updateDeliveries (sameLease d) (expireLease now) db1) (\<lambda>(m, db2).
     bindR (assertChangedOnce m ''webhook expired delivery recovery'') (\<lambda>_.
     bindR (recoverRows now ds db2) (\<lambda>(recovered, db3).
     Inr (recovered + 1, db3)))))))"

definition recoverExpiredLeases :: "int \<Rightarrow> notify_db \<Rightarrow> store_error + int \<times> notify_db" where
  "recoverExpiredLeases now db =
     recoverRows now
       (sort_key (\<lambda>d. (case leaseExpiresAt d of None \<Rightarrow> 0 | Some t \<Rightarrow> t, deliveryId d))
         (filter (leaseExpired db now) (webhookDeliveries db))) db"

definition recoverExpired :: "int \<Rightarrow> notify_db \<Rightarrow> store_error + int \<times> notify_db" where
  "recoverExpired now db =
     bindR (assertTime now ''webhook recovery time'') (\<lambda>_. recoverExpiredLeases now db)"

subsection \<open>Dead letters\<close>

definition isExhausted :: "notify_db \<Rightarrow> int \<Rightarrow> jstr option \<Rightarrow> delivery_row \<Rightarrow> bool" where
  "isExhausted db maximum client d \<longleftrightarrow>
     isWaiting (deliveryStatus d) \<and> targetLiveWithId db (deliveryTargetId d) \<and>
     maximum \<le> attemptCount d \<and> 1 \<le> attemptCount d \<and>
     (case client of None \<Rightarrow> True
      | Some c \<Rightarrow> list_ex (\<lambda>t. targetId t = deliveryTargetId d \<and> targetClientId t = c)
                   (webhookTargets (orderTables db)))"

definition exhaust :: "int \<Rightarrow> delivery_row \<Rightarrow> delivery_row" where
  "exhaust now d =
     d\<lparr>deliveryStatus := DEAD_LETTER, deadLetteredAt := Some (max (deliveryUpdatedAt d) now),
       lastErrorCode := Some ''maximum_attempts_reached'',
       deliveryUpdatedAt := max (deliveryUpdatedAt d) now\<rparr>"

definition deadLetterExhaustedDeliveries ::
  "int \<Rightarrow> int \<Rightarrow> jstr option \<Rightarrow> notify_db \<Rightarrow> store_error + int \<times> notify_db"
where
  "deadLetterExhaustedDeliveries maximum now client db =
     bindR (updateDeliveries (isExhausted db maximum client) (exhaust now) db) (\<lambda>(n, db').
     bindR (toSafeInteger (int n) ''exhausted webhook delivery count'') (\<lambda>count. Inr (count, db')))"

subsection \<open>Preparing an EasyPay attempt\<close>

text \<open>\<^verbatim>\<open>src/src/notifications/epay.ts\<close>.\<close>

definition EMPTY_WEBHOOK_BODY_FINGERPRINT :: "notify_env \<Rightarrow> string" where
  "EMPTY_WEBHOOK_BODY_FINGERPRINT env = notifySha256 env []"

definition epayRequestFingerprint :: "notify_env \<Rightarrow> jstr \<Rightarrow> string \<Rightarrow> string" where
  "epayRequestFingerprint env url keyId =
     fingerprintTuple (notifySha256 env)
       [JStr (js ''perpay:epay-notification:v1''), JStr (js ''GET''), JStr url,
        JStr (js (EMPTY_WEBHOOK_BODY_FINGERPRINT env)), JStr (js keyId)]"

definition epayConfirmationActive :: "notify_db \<Rightarrow> string \<Rightarrow> bool" where
  "epayConfirmationActive db eid \<longleftrightarrow>
     list_ex (\<lambda>e. outboxEventId e = eid \<and> outboxEventType e = PAYMENT_CONFIRMED \<and>
        list_ex (\<lambda>ord. orderId ord = aggregateId e \<and> paymentStatus ord = CONFIRMED)
          (paymentOrders (orderTables db)) \<and>
        list_ex (\<lambda>m. matchOperationId m = outboxOperationId e \<and> matchSettled m) (paymentMatches db))
       (outboxEvents db)"

record epay_credentials =
  credSiteId :: jstr
  v1Secret :: "jstr option"
  platformPrivateKey :: "jstr option"
  v1KeyId :: "string option"
  platformKeyId :: "string option"
  v1Fingerprint :: "string option"
  platformFingerprint :: "string option"

record prepared_epay_attempt =
  preparedProtocol :: epay_protocol
  preparedRequestUrl :: jstr
  preparedFingerprint :: string
  preparationError :: bool
  preparedKey :: webhook_signing_key

definition currentCredential ::
  "notify_db \<Rightarrow> string option \<Rightarrow> jstr \<Rightarrow> credential_purpose \<Rightarrow> epay_credential_row option"
where
  "currentCredential db keyId site purpose =
     List.find (\<lambda>c. Some (credentialId c) = keyId \<and> credentialSiteId c = site \<and>
                   credentialPurpose c = purpose \<and> credentialRetiredAt c = None) (epayCredentials db)"

definition callbackOrder :: "epay_order \<Rightarrow> payment_order \<Rightarrow> epay_notification_order" where
  "callbackOrder metadata ord =
     \<lparr>notePid = decimal (epayPid metadata), noteTradeNo = decimal (epayTradeNo metadata),
      noteOutTradeNo = merchantOrderNo ord, noteName = productName ord,
      noteMoneyCents = requestedAmountCents ord, noteParam = epayParam metadata,
      noteApiTradeNo = None, noteBuyer = None, noteAddTime = None, noteEndTime = None\<rparr>"

text \<open>
  The signed URL, or the stored target with a preparation error when it is too long or the target's
  own parameters are not acceptable; any other failure is thrown.
\<close>

definition callbackUrl ::
  "notify_env \<Rightarrow> jstr \<Rightarrow> epay_order \<Rightarrow> payment_order \<Rightarrow> jstr \<Rightarrow> int \<Rightarrow> store_error + jstr \<times> bool"
where
  "callbackUrl env target metadata ord secret now =
     (case buildEpayCallbackUrl (epayEnv env) target (callbackOrder metadata ord) (epayProtocol metadata)
             (KeyText secret) now of
        Inr url \<Rightarrow> if byteLength url > 16 * 1024 then Inr (target, True) else Inr (url, False)
      | Inl (EpayError code) \<Rightarrow>
          if code = ''invalid_return_url'' \<or> code = ''invalid_parameters'' then Inr (target, True)
          else Inl (Failure code)
      | Inl (EpayThrow code) \<Rightarrow> Inl (Failure code))"

definition prepareEpayAttempt ::
  "notify_env \<Rightarrow> notify_db \<Rightarrow> string \<Rightarrow> jstr \<Rightarrow> epay_credentials \<Rightarrow> int
     \<Rightarrow> store_error + prepared_epay_attempt option"
where
  "prepareEpayAttempt env db oid target credentials now =
     (case readEpayOrder (orderTables db) oid of
        None \<Rightarrow> Inl (Failure ''EasyPay notification ownership is invalid'')
      | Some metadata \<Rightarrow>
          if epaySiteId metadata \<noteq> credSiteId credentials
          then Inl (Failure ''EasyPay notification ownership is invalid'')
          else
            let v1 = epayProtocol metadata = EpayProtocolV1;
                keyId = (if v1 then v1KeyId credentials else platformKeyId credentials);
                secret = (if v1 then v1Secret credentials else platformPrivateKey credentials);
                fingerprint = (if v1 then v1Fingerprint credentials else platformFingerprint credentials)
            in case (keyId, secret, currentCredential db keyId (epaySiteId metadata)
                                      (if v1 then V1Key else V2Platform)) of
                 (Some kid, Some sec, Some key) \<Rightarrow>
                   if kid = [] \<or> sec = [] \<or> Some (credentialFingerprint key) \<noteq> fingerprint then Inr None
                   else (case List.find (\<lambda>ord. orderId ord = oid) (paymentOrders (orderTables db)) of
                      None \<Rightarrow> Inl (Failure ''TypeError'')
                    | Some ord \<Rightarrow>
                        bindR (callbackUrl env target metadata ord sec now) (\<lambda>(url, failed).
                        Inr (Some \<lparr>preparedProtocol = epayProtocol metadata, preparedRequestUrl = url,
                               preparedFingerprint = epayRequestFingerprint env url kid,
                               preparationError = failed,
                               preparedKey = \<lparr>signingKeyVersion = credentialKeyVersion key,
                                 signingKeyId = kid, secretFingerprint = credentialFingerprint key,
                                 signingActivatedAt = credentialCreatedAt key,
                                 signingRetiredAt = None\<rparr>\<rparr>)))
               | _ \<Rightarrow> Inr None)"

subsection \<open>Claiming a delivery\<close>

record claim_input =
  claimEpayCredentials :: "epay_credentials option"
  claimClientId :: "jstr option"
  claimSiteRevision :: "int option"
  claimSecretFingerprint :: "string option"
  claimNow :: int
  leaseMilliseconds :: int
  claimMaximumAttempts :: int

record claimed_attempt =
  claimedDelivery :: webhook_delivery
  claimedEvent :: webhook_event
  claimedTarget :: stored_webhook_target
  claimedAttempt :: webhook_attempt
  claimedKey :: webhook_signing_key
  claimedPreparationError :: bool

definition isDue :: "notify_db \<Rightarrow> jstr option \<Rightarrow> int \<Rightarrow> int \<Rightarrow> delivery_row \<Rightarrow> bool" where
  "isDue db client now maximum d \<longleftrightarrow>
     isWaiting (deliveryStatus d) \<and> eventOf db (deliveryEventId d) \<noteq> None \<and>
     (case targetWithId db (deliveryTargetId d) of
        None \<Rightarrow> False
      | Some t \<Rightarrow> (case client of None \<Rightarrow> True | Some c \<Rightarrow> targetClientId t = c) \<and> liveTarget db t) \<and>
     nextAttemptAt d \<le> now \<and> attemptCount d < maximum"

definition nextDue :: "notify_db \<Rightarrow> jstr option \<Rightarrow> int \<Rightarrow> int \<Rightarrow> delivery_row option" where
  "nextDue db client now maximum =
     (case sort_key (\<lambda>d. (nextAttemptAt d, deliveryCreatedAt d, deliveryId d))
             (filter (isDue db client now maximum) (webhookDeliveries db)) of
        [] \<Rightarrow> None | d # _ \<Rightarrow> Some d)"

definition leaseDelivery :: "string \<Rightarrow> int \<Rightarrow> int \<Rightarrow> int \<Rightarrow> delivery_row \<Rightarrow> delivery_row" where
  "leaseDelivery token expires now number d =
     d\<lparr>deliveryStatus := LEASED, attemptCount := number, leaseToken := Some token,
       leaseExpiresAt := Some expires, deliveryUpdatedAt := now\<rparr>"

definition startedAttempt ::
  "notify_env \<Rightarrow> prepared_epay_attempt option \<Rightarrow> webhook_signing_key \<Rightarrow> outbox_event \<Rightarrow> string \<Rightarrow> int \<Rightarrow> int
     \<Rightarrow> attempt_row"
where
  "startedAttempt env epay key e did number now =
     \<lparr>attemptId = newAttemptId env, attemptDeliveryId = did, attemptNumber = number,
      attemptLeaseToken = newLeaseToken env,
      attemptProtocol = (case epay of None \<Rightarrow> NativeProtocol | Some p \<Rightarrow> EpayProtocol (preparedProtocol p)),
      requestMethod = (case epay of None \<Rightarrow> POST | Some _ \<Rightarrow> GET),
      requestUrl = map_option preparedRequestUrl epay,
      attemptRequestFingerprint = map_option preparedFingerprint epay,
      requestTimestamp = now,
      requestBodyFingerprint =
        (case epay of None \<Rightarrow> payloadFingerprint e | Some _ \<Rightarrow> EMPTY_WEBHOOK_BODY_FINGERPRINT env),
      attemptOutcome = STARTED, attemptEvidence = noEvidence, startedAt = now, finishedAt = None,
      attemptKeyVersion = (case epay of None \<Rightarrow> Some (signingKeyVersion key) | Some _ \<Rightarrow> None),
      attemptEpayKeyId = (case epay of None \<Rightarrow> None | Some _ \<Rightarrow> Some (signingKeyId key))\<rparr>"

definition attemptView :: "webhook_signing_key \<Rightarrow> attempt_row \<Rightarrow> webhook_attempt" where
  "attemptView key row =
     attempt_core.extend (attempt_core.truncate row)
       (webhook_attempt.fields (signingKeyVersion key) (signingKeyId key))"

text \<open>The claim of the selected delivery.\<close>

definition claimDelivery ::
  "notify_env \<Rightarrow> claim_input \<Rightarrow> prepared_epay_attempt option \<Rightarrow> webhook_signing_key \<Rightarrow> outbox_event
     \<Rightarrow> stored_webhook_target \<Rightarrow> delivery_row \<Rightarrow> notify_db \<Rightarrow> store_error + claimed_attempt option \<times> notify_db"
where
  "claimDelivery env input epay key e t d db =
     bindR (toSafeInteger (attemptCount d) ''webhook attempt count'') (\<lambda>count.
     let number = count + 1; now = claimNow input; expires = now + leaseMilliseconds input;
         leased = leaseDelivery (newLeaseToken env) expires now number
     in bindR (assertTime expires ''webhook lease expiry time'') (\<lambda>_.
     bindR (updateDeliveries (\<lambda>x. deliveryId x = deliveryId d \<and> isWaiting (deliveryStatus x)) leased db)
       (\<lambda>(n, db1).
     bindR (assertChangedOnce n ''webhook delivery lease'') (\<lambda>_.
     bindR (insertAttempt (startedAttempt env epay key e (deliveryId d) number now) db1) (\<lambda>db2.
     bindR (mapDelivery (leased d)) (\<lambda>delivery.
     bindR (mapEvent e) (\<lambda>event.
     bindR (mapTarget t) (\<lambda>target.
     Inr (Some \<lparr>claimedDelivery = delivery, claimedEvent = event, claimedTarget = target,
            claimedAttempt = attemptView key (startedAttempt env epay key e (deliveryId d) number now),
            claimedKey = key,
            claimedPreparationError = (case epay of None \<Rightarrow> False | Some p \<Rightarrow> preparationError p)\<rparr>,
          db2)))))))))"

definition validateClaim :: "claim_input \<Rightarrow> store_error + unit" where
  "validateClaim input =
     bindR (assertTime (claimNow input) ''webhook claim time'') (\<lambda>_.
     bindR (parseSiteClientId (claimClientId input)) (\<lambda>_.
     bindR (assertR (isSafeInteger (leaseMilliseconds input) \<and> \<not> leaseMilliseconds input < 1 \<and>
                     \<not> leaseMilliseconds input > MAX_LEASE_MILLISECONDS)
              (RangeFailure ''webhook lease duration is invalid'')) (\<lambda>_.
     assertPositiveInteger (claimMaximumAttempts input) ''webhook maximum attempts'')))"

text \<open>The website may be notified: it exists, has notifications on and is at the revision the caller read.\<close>

definition siteMayNotify :: "claim_input \<Rightarrow> notify_db \<Rightarrow> bool" where
  "siteMayNotify input db \<longleftrightarrow>
     (case claimClientId input of
        None \<Rightarrow> True
      | Some c \<Rightarrow>
          (case readSite (orderTables db) c of
             None \<Rightarrow> False
           | Some site \<Rightarrow> notificationsEnabled site \<and> claimSiteRevision input = Some (siteRevision site)))"

definition claimSelected ::
  "notify_env \<Rightarrow> claim_input \<Rightarrow> webhook_signing_key option \<Rightarrow> delivery_row \<Rightarrow> notify_db
     \<Rightarrow> store_error + claimed_attempt option \<times> notify_db"
where
  "claimSelected env input nativeKey d db =
     (case (eventOf db (deliveryEventId d), targetWithId db (deliveryTargetId d)) of
        (Some e, Some t) \<Rightarrow>
          (if targetFormat t \<noteq> NATIVE_JSON_V1 then
             (case claimEpayCredentials input of
                None \<Rightarrow> Inr (None, db)
              | Some credentials \<Rightarrow>
                  bindR (prepareEpayAttempt env db (targetOrderId t) (targetUrl t) credentials (claimNow input))
                    (\<lambda>prepared. case prepared of
                       None \<Rightarrow> Inr (None, db)
                     | Some p \<Rightarrow> claimDelivery env input (Some p) (preparedKey p) e t d db))
           else
             (case nativeKey of
                None \<Rightarrow> Inr (None, db)
              | Some key \<Rightarrow>
                  if claimSecretFingerprint input \<noteq> None \<and>
                     claimSecretFingerprint input \<noteq> Some (secretFingerprint key)
                  then Inr (None, db)
                  else claimDelivery env input None key e t d db))
      | _ \<Rightarrow> Inr (None, db))"

definition claimNext ::
  "notify_env \<Rightarrow> claim_input \<Rightarrow> notify_db \<Rightarrow> store_error + claimed_attempt option \<times> notify_db"
where
  "claimNext env input db =
     bindR (validateClaim input) (\<lambda>_.
     bindR (recoverExpiredLeases (claimNow input) db) (\<lambda>(_, db1).
     if \<not> siteMayNotify input db1 then Inr (None, db1)
     else bindR (readActiveSigningKey db1 (claimClientId input)) (\<lambda>nativeKey.
     bindR (deadLetterExhaustedDeliveries (claimMaximumAttempts input) (claimNow input)
              (claimClientId input) db1) (\<lambda>(_, db2).
     case nextDue db2 (claimClientId input) (claimNow input) (claimMaximumAttempts input) of
       None \<Rightarrow> Inr (None, db2)
     | Some d \<Rightarrow> claimSelected env input nativeKey d db2))))"

subsection \<open>Completing an attempt\<close>

record complete_input =
  completeDeliveryId :: string
  completeAttemptId :: string
  completeLeaseToken :: string
  completeOutcome :: attempt_outcome
  completeNow :: int
  completeMaximumAttempts :: int
  retryBaseMilliseconds :: int
  retryMaximumMilliseconds :: int
  completeEvidence :: attempt_evidence

text \<open>How many of the three response fields are present.\<close>

definition responseEvidence :: "attempt_evidence \<Rightarrow> nat" where
  "responseEvidence v =
     (if httpStatus v = None then 0 else 1) + (if responseBytes v = None then 0 else 1) +
     (if responseFingerprint v = None then 0 else 1)"

definition acknowledgedEvidence :: "attempt_protocol \<Rightarrow> attempt_evidence \<Rightarrow> bool" where
  "acknowledgedEvidence scheme v \<longleftrightarrow>
     \<not> ((if scheme = NativeProtocol then httpStatus v \<noteq> Some 200
         else case httpStatus v of None \<Rightarrow> True | Some s \<Rightarrow> s < 200 \<or> s \<ge> 300) \<or>
        ackCode v \<noteq> Some ''acknowledged'' \<or> errorCode v \<noteq> None \<or>
        resolvedAddressesFingerprint v = None \<or> connectedAddress v = None)"

definition validateCompleteAttemptEvidence ::
  "notify_env \<Rightarrow> complete_input \<Rightarrow> attempt_protocol \<Rightarrow> store_error + attempt_evidence"
where
  "validateCompleteAttemptEvidence env input scheme =
     (let v = completeEvidence input in
      bindR (assertR (pred_option isHexDigest (resolvedAddressesFingerprint v))
               (RangeFailure ''webhook resolved-address fingerprint is invalid'')) (\<lambda>_.
      bindR (assertR (pred_option (\<lambda>a. resolvedAddressesFingerprint v \<noteq> None \<and>
                        isIP (epayUrls (epayEnv env)) a \<noteq> 0 \<and> length a \<le> 64) (connectedAddress v))
               (RangeFailure ''webhook connected address is invalid'')) (\<lambda>_.
      bindR (assertR (pred_option (\<lambda>s. isSafeInteger s \<and> \<not> s < 100 \<and> \<not> s > 599) (httpStatus v))
               (RangeFailure ''webhook HTTP status is invalid'')) (\<lambda>_.
      bindR (assertR (pred_option (\<lambda>n. isSafeInteger n \<and> \<not> n < 0 \<and> \<not> n > MAX_WEBHOOK_RESPONSE_BYTES)
                        (responseBytes v))
               (RangeFailure ''webhook response byte count is invalid'')) (\<lambda>_.
      bindR (assertR (pred_option isHexDigest (responseFingerprint v))
               (RangeFailure ''webhook response fingerprint is invalid'')) (\<lambda>_.
      bindR (assertR (pred_option isCodeText (ackCode v)) (RangeFailure ''webhook ack code is invalid'')) (\<lambda>_.
      bindR (assertR (pred_option isCodeText (errorCode v)) (RangeFailure ''webhook error code is invalid'')) (\<lambda>_.
      bindR (assertR (responseEvidence v = 0 \<or> responseEvidence v = 3)
               (RangeFailure ''webhook response evidence is incomplete'')) (\<lambda>_.
      bindR (assertR (\<not> (ackCode v \<noteq> None \<and> responseEvidence v \<noteq> 3))
               (RangeFailure ''webhook ACK evidence has no complete response'')) (\<lambda>_.
      bindR (if completeOutcome input = AttemptAcknowledged
             then assertR (acknowledgedEvidence scheme v)
                    (RangeFailure ''acknowledged webhook attempt evidence is incomplete'')
             else assertR (errorCode v \<noteq> None)
                    (RangeFailure ''failed webhook attempt requires an error code'')) (\<lambda>_.
      Inr v)))))))))))"

definition finishAttempt :: "attempt_outcome \<Rightarrow> attempt_evidence \<Rightarrow> int \<Rightarrow> attempt_row \<Rightarrow> attempt_row" where
  "finishAttempt outcome evidence finished a =
     a\<lparr>attemptOutcome := outcome, attemptEvidence := evidence, finishedAt := Some finished\<rparr>"

record completion =
  nextStatus :: delivery_status
  nextAttempt :: int
  nextAcknowledged :: "int option"
  nextDeadLettered :: "int option"
  nextError :: "string option"

text \<open>What a finished attempt does to its delivery.\<close>

definition completionOf ::
  "notify_env \<Rightarrow> complete_input \<Rightarrow> int \<Rightarrow> int \<Rightarrow> string option \<Rightarrow> store_error + completion"
where
  "completionOf env input number finished failure =
     (if completeOutcome input = AttemptAcknowledged then
        Inr \<lparr>nextStatus = ACKNOWLEDGED, nextAttempt = finished, nextAcknowledged = Some finished,
             nextDeadLettered = None, nextError = None\<rparr>
      else if (completeOutcome input = RETRYABLE_FAILURE \<or> completeOutcome input = OUTCOME_UNKNOWN) \<and>
              number < completeMaximumAttempts input then
        bindR (webhookRetryDelayMilliseconds (notifySha256 env) (completeDeliveryId input) number
                 (retryBaseMilliseconds input) (retryMaximumMilliseconds input)) (\<lambda>delay.
        bindR (assertTime (finished + delay) ''webhook next attempt time'') (\<lambda>_.
        Inr \<lparr>nextStatus = RETRY_WAIT, nextAttempt = finished + delay, nextAcknowledged = None,
             nextDeadLettered = None, nextError = failure\<rparr>))
      else
        Inr \<lparr>nextStatus = DEAD_LETTER, nextAttempt = finished, nextAcknowledged = None,
             nextDeadLettered = Some finished, nextError = failure\<rparr>)"

definition applyCompletion :: "completion \<Rightarrow> int \<Rightarrow> delivery_row \<Rightarrow> delivery_row" where
  "applyCompletion c finished d =
     d\<lparr>deliveryStatus := nextStatus c, nextAttemptAt := nextAttempt c, leaseToken := None,
       leaseExpiresAt := None, acknowledgedAt := nextAcknowledged c,
       deadLetteredAt := nextDeadLettered c, lastErrorCode := nextError c,
       deliveryUpdatedAt := finished\<rparr>"

definition holdsLease :: "string \<Rightarrow> delivery_row \<Rightarrow> bool" where
  "holdsLease token d \<longleftrightarrow> deliveryStatus d = LEASED \<and> leaseToken d = Some token"

definition validateComplete :: "complete_input \<Rightarrow> store_error + unit" where
  "validateComplete input =
     bindR (assertUuid (completeDeliveryId input) ''webhook delivery ID'') (\<lambda>_.
     bindR (assertUuid (completeAttemptId input) ''webhook attempt ID'') (\<lambda>_.
     bindR (assertUuid (completeLeaseToken input) ''webhook lease token'') (\<lambda>_.
     bindR (assertTime (completeNow input) ''webhook completion time'') (\<lambda>_.
     bindR (assertPositiveInteger (completeMaximumAttempts input) ''webhook maximum attempts'') (\<lambda>_.
     assertR (completeOutcome input \<noteq> STARTED) (RangeFailure ''webhook attempt outcome is invalid''))))))"

definition findLeased :: "complete_input \<Rightarrow> notify_db \<Rightarrow> store_error + delivery_row \<times> attempt_row" where
  "findLeased input db =
     (case List.find (\<lambda>d. deliveryId d = completeDeliveryId input) (webhookDeliveries db) of
        None \<Rightarrow> Inl (Failure ''webhook_delivery_state_conflict'')
      | Some current \<Rightarrow>
          bindR (assertR (holdsLease (completeLeaseToken input) current)
                   (Failure ''webhook_delivery_state_conflict'')) (\<lambda>_.
          bindR (toSafeInteger (attemptCount current) ''webhook attempt count'') (\<lambda>number.
          case List.find (\<lambda>a. attemptDeliveryId a = completeDeliveryId input \<and> attemptNumber a = number \<and>
                           attemptLeaseToken a = completeLeaseToken input \<and> attemptOutcome a = STARTED)
                 (webhookAttempts db) of
            None \<Rightarrow> Inl (Failure ''webhook_delivery_state_conflict'')
          | Some attempt \<Rightarrow>
              bindR (assertR (attemptId attempt = completeAttemptId input)
                       (Failure ''webhook_delivery_state_conflict'')) (\<lambda>_.
              Inr (current, attempt)))))"

definition completeAttempt ::
  "notify_env \<Rightarrow> complete_input \<Rightarrow> notify_db \<Rightarrow> store_error + webhook_delivery \<times> notify_db"
where
  "completeAttempt env input db =
     bindR (validateComplete input) (\<lambda>_.
     bindR (findLeased input db) (\<lambda>(current, attempt).
     bindR (toSafeInteger (deliveryUpdatedAt current) ''webhook delivery update time'') (\<lambda>updated.
     bindR (toSafeInteger (startedAt attempt) ''webhook attempt start time'') (\<lambda>started.
     let finished = max (max (completeNow input) updated) started in
     bindR (validateCompleteAttemptEvidence env input (attemptProtocol attempt)) (\<lambda>evidence.
     bindR (updateAttempts (\<lambda>a. attemptId a = completeAttemptId input \<and> attemptOutcome a = STARTED)
              (finishAttempt (completeOutcome input) evidence finished) db) (\<lambda>(n, db1).
     bindR (assertChangedOnce n ''webhook attempt completion'') (\<lambda>_.
     bindR (completionOf env input (attemptCount current) finished (errorCode evidence)) (\<lambda>c.
     bindR (updateDeliveries (\<lambda>d. deliveryId d = completeDeliveryId input \<and>
                                holdsLease (completeLeaseToken input) d) (applyCompletion c finished) db1)
       (\<lambda>(m, db2).
     bindR (assertChangedOnce m ''webhook delivery completion'') (\<lambda>_.
     case List.find (\<lambda>d. deliveryId d = completeDeliveryId input) (webhookDeliveries db2) of
       None \<Rightarrow> Inl (Failure ''completed webhook delivery cannot be read'')
     | Some row \<Rightarrow> bindR (mapDelivery row) (\<lambda>delivery. Inr (delivery, db2))))))))))))"

subsection \<open>Replaying a finished delivery\<close>

text \<open>\<^verbatim>\<open>src/src/sites/admin-scope.ts\<close>.\<close>

definition assertSiteOrder :: "notify_db \<Rightarrow> jstr option \<Rightarrow> string \<Rightarrow> store_error + unit" where
  "assertSiteOrder db client oid =
     (case client of
        None \<Rightarrow> Inr ()
      | Some c \<Rightarrow>
          if c = [] then Inr ()
          else assertR (list_ex (\<lambda>ord. orderId ord = oid \<and> apiClientId ord = c)
                           (paymentOrders (orderTables db)) \<and> readSite (orderTables db) c \<noteq> None)
                 (Failure ''order_not_found''))"

definition assertSiteDelivery :: "notify_db \<Rightarrow> jstr option \<Rightarrow> string \<Rightarrow> store_error + unit" where
  "assertSiteDelivery db client did =
     (case client of
        None \<Rightarrow> Inr ()
      | Some c \<Rightarrow>
          if c = [] then Inr ()
          else case List.find (\<lambda>d. deliveryId d = did) (webhookDeliveries db) of
                 None \<Rightarrow> Inl (Failure ''order_not_found'')
               | Some d \<Rightarrow>
                   (case targetWithId db (deliveryTargetId d) of
                      None \<Rightarrow> Inl (Failure ''order_not_found'')
                    | Some t \<Rightarrow> assertSiteOrder db client (targetOrderId t)))"

record replay_input =
  replayClientId :: "jstr option"
  redeliveryId :: string
  replayDeliveryId :: string
  replayActorId :: string
  replayReason :: jstr
  replayAllowedOrigin :: "jstr option"
  replayNow :: int

definition validateReplay :: "notify_env \<Rightarrow> replay_input \<Rightarrow> store_error + unit" where
  "validateReplay env input =
     bindR (assertUuid (redeliveryId input) ''webhook redelivery ID'') (\<lambda>_.
     bindR (assertUuid (replayDeliveryId input) ''webhook delivery ID'') (\<lambda>_.
     bindR (assertIdentifier (replayActorId input) ''webhook actor ID'') (\<lambda>_.
     bindR (assertReason (replayReason input)) (\<lambda>_.
     bindR (assertActiveAllowedOrigin (epayUrls (epayEnv env)) (replayAllowedOrigin input)) (\<lambda>_.
     assertTime (replayNow input) ''webhook replay time'')))))"

text \<open>Is the stored delivery under this operation number the same request?\<close>

definition sameReplay :: "notify_env \<Rightarrow> replay_input \<Rightarrow> delivery_row \<Rightarrow> delivery_row \<Rightarrow> bool" where
  "sameReplay env input original existing \<longleftrightarrow>
     \<not> (deliveryEventId existing \<noteq> deliveryEventId original \<or>
        deliveryTargetId existing \<noteq> deliveryTargetId original \<or>
        predecessorDeliveryId existing \<noteq> Some (deliveryId original) \<or>
        requestedByType existing \<noteq> ADMIN \<or>
        requestedByActorId existing \<noteq> Some (replayActorId input) \<or>
        deliveryReason existing \<noteq> Some (replayReason input) \<or>
        deliveryFingerprint existing \<noteq>
          webhookDeliveryRequestFingerprint (notifySha256 env) (deliveryEventId existing)
            (deliveryTargetId existing) (deliveryGeneration existing) (predecessorDeliveryId existing)
            ADMIN (Some (replayActorId input)) (Some (replayReason input)))"

text \<open>The origin the target's own website allows now; a website without notifications allows none.\<close>

definition currentAllowedOrigin :: "notify_db \<Rightarrow> stored_webhook_target \<Rightarrow> jstr option" where
  "currentAllowedOrigin db t =
     (case readSite (orderTables db) (targetClientId t) of
        None \<Rightarrow> None
      | Some site \<Rightarrow> if notificationsEnabled site then notificationOrigin site else None)"

definition newestDelivery :: "delivery_row list \<Rightarrow> delivery_row option" where
  "newestDelivery rows =
     fold (\<lambda>d best. case best of None \<Rightarrow> Some d
                     | Some b \<Rightarrow> if deliveryGeneration b < deliveryGeneration d then Some d else Some b) rows None"

definition redelivery :: "notify_env \<Rightarrow> replay_input \<Rightarrow> notify_db \<Rightarrow> delivery_row \<Rightarrow> int \<Rightarrow> int \<Rightarrow> delivery_row" where
  "redelivery env input db original gen t0 =
     \<lparr>deliveryId = newDeliveryId env (length (webhookDeliveries db)),
      deliveryEventId = deliveryEventId original, deliveryTargetId = deliveryTargetId original,
      deliveryGeneration = gen, predecessorDeliveryId = Some (deliveryId original),
      requestKey = redeliveryId input, requestedByType = ADMIN,
      requestedByActorId = Some (replayActorId input), deliveryReason = Some (replayReason input),
      deliveryStatus = PENDING, attemptCount = 0, nextAttemptAt = t0, leaseExpiresAt = None,
      acknowledgedAt = None, deadLetteredAt = None, lastErrorCode = None, deliveryCreatedAt = t0,
      deliveryUpdatedAt = t0, leaseToken = None,
      deliveryFingerprint = webhookDeliveryRequestFingerprint (notifySha256 env)
        (deliveryEventId original) (deliveryTargetId original) gen (Some (deliveryId original)) ADMIN
        (Some (replayActorId input)) (Some (replayReason input))\<rparr>"

definition replayNew ::
  "notify_env \<Rightarrow> replay_input \<Rightarrow> delivery_row \<Rightarrow> notify_db
     \<Rightarrow> store_error + (webhook_delivery \<times> bool) \<times> notify_db"
where
  "replayNew env input original db =
     (case targetWithId db (deliveryTargetId original) of
        None \<Rightarrow> Inl (Failure ''webhook delivery target cannot be read'')
      | Some t \<Rightarrow>
          bindR (assertR (liveTarget db t) (Failure ''webhook_delivery_state_conflict'')) (\<lambda>_.
          case currentAllowedOrigin db t of
            None \<Rightarrow> Inl (Failure ''webhook_disabled'')
          | Some allowed \<Rightarrow>
              bindR (assertR (targetAllowedOrigin t = allowed) (Failure ''webhook_target_inactive'')) (\<lambda>_.
              case newestDelivery (filter (samePair original) (webhookDeliveries db)) of
                None \<Rightarrow> Inl (Failure ''webhook_delivery_state_conflict'')
              | Some latest \<Rightarrow>
                  bindR (assertR (deliveryId latest = deliveryId original \<and> isTerminal (deliveryStatus latest))
                           (Failure ''webhook_delivery_state_conflict'')) (\<lambda>_.
                  bindR (toSafeInteger (deliveryGeneration latest) ''webhook generation'') (\<lambda>previous.
                  bindR (toSafeInteger (deliveryUpdatedAt original) ''webhook predecessor update time'')
                    (\<lambda>updated.
                  let t0 = max (replayNow input) updated; gen = previous + 1;
                      row = redelivery env input db original gen t0
                  in bindR (insertDelivery row db) (\<lambda>db1.
                     let db2 = db1\<lparr>webhookAudits := webhookAudits db1 @
                           [\<lparr>webhookAuditAt = t0, webhookAuditActor = replayActorId input,
                             webhookAuditDelivery = deliveryId row,
                             webhookAuditPredecessor = deliveryId original,
                             webhookAuditEvent = deliveryEventId original, webhookAuditGeneration = gen,
                             webhookAuditRedelivery = redeliveryId input\<rparr>]\<rparr>
                     in case List.find (\<lambda>d. requestKey d = redeliveryId input) (webhookDeliveries db2) of
                          None \<Rightarrow> Inl (Failure ''created webhook replay cannot be read'')
                        | Some created \<Rightarrow>
                            bindR (mapDelivery created) (\<lambda>view. Inr ((view, False), db2)))))))))"

definition replay ::
  "notify_env \<Rightarrow> replay_input \<Rightarrow> notify_db \<Rightarrow> store_error + (webhook_delivery \<times> bool) \<times> notify_db"
where
  "replay env input db =
     bindR (validateReplay env input) (\<lambda>_.
     bindR (assertSiteDelivery db (replayClientId input) (replayDeliveryId input)) (\<lambda>_.
     case List.find (\<lambda>d. deliveryId d = replayDeliveryId input) (webhookDeliveries db) of
       None \<Rightarrow> Inl (Failure ''webhook_delivery_not_found'')
     | Some original \<Rightarrow>
         (case List.find (\<lambda>d. requestKey d = redeliveryId input) (webhookDeliveries db) of
            Some existing \<Rightarrow>
              bindR (toSafeInteger (deliveryGeneration existing) ''webhook generation'') (\<lambda>_.
              bindR (assertR (sameReplay env input original existing) (Failure ''webhook_operation_conflict''))
                (\<lambda>_. bindR (mapDelivery existing) (\<lambda>view. Inr ((view, True), db))))
          | None \<Rightarrow> replayNew env input original db)))"

end
