(* ===== verification/NotificationMachine.thy ===== *)
theory NotificationMachine
  imports NotificationStore
begin

text \<open>
  The state machine of the notification tables.  A \<open>move\<close> is one change of the delivery and attempt
  rows: a new delivery, a claim, the end of a leased attempt, the retirement of exhausted
  deliveries, or a change of the other tables.  The invariant \<open>notifyInv\<close> and the way a delivery may
  evolve are proved by rule induction over the moves; that every operation of the store is a
  sequence of moves is proved operation by operation.
\<close>

subsection \<open>The invariant\<close>

definition attemptsOf :: "delivery_row \<Rightarrow> attempt_row list \<Rightarrow> attempt_row list" where
  "attemptsOf d attempts = filter (\<lambda>a. attemptDeliveryId a = deliveryId d) attempts"

text \<open>A delivery's attempts are numbered 1 to its count; only a leased delivery has an open one, the last.\<close>

definition attemptOk :: "delivery_row \<Rightarrow> attempt_row \<Rightarrow> bool" where
  "attemptOk d a \<longleftrightarrow>
     (attemptOutcome a = STARTED \<longleftrightarrow> deliveryStatus d = LEASED \<and> attemptNumber a = attemptCount d) \<and>
     (attemptOutcome a = STARTED \<longrightarrow>
        leaseToken d = Some (attemptLeaseToken a) \<and> startedAt a = deliveryUpdatedAt d)"

definition attemptsOk :: "attempt_row list \<Rightarrow> delivery_row \<Rightarrow> bool" where
  "attemptsOk attempts d \<longleftrightarrow>
     map attemptNumber (attemptsOf d attempts) = [1..attemptCount d] \<and>
     (\<forall>a \<in> set (attemptsOf d attempts). attemptOk d a)"

definition deliveryTimes :: "delivery_row \<Rightarrow> bool" where
  "deliveryTimes d \<longleftrightarrow>
     (isWaiting (deliveryStatus d) \<longrightarrow> deliveryUpdatedAt d \<le> nextAttemptAt d) \<and>
     (deliveryStatus d = LEASED \<longrightarrow> (\<exists>t. leaseExpiresAt d = Some t \<and> deliveryUpdatedAt d < t))"

definition predecessorOk :: "delivery_row list \<Rightarrow> delivery_row \<Rightarrow> bool" where
  "predecessorOk rows d \<longleftrightarrow>
     deliveryGeneration d > 1 \<longrightarrow>
     (\<exists>p \<in> set rows. predecessorDeliveryId d = Some (deliveryId p) \<and> samePair d p \<and>
        deliveryGeneration p = deliveryGeneration d - 1 \<and> isTerminal (deliveryStatus p))"

definition notifyInv :: "notify_db \<Rightarrow> bool" where
  "notifyInv db \<longleftrightarrow>
     deliveryKeys (webhookDeliveries db) \<and> attemptKeys (webhookAttempts db) \<and>
     (\<forall>d \<in> set (webhookDeliveries db).
        deliveryChecks d \<and> deliveryTimes d \<and> attemptsOk (webhookAttempts db) d \<and>
        predecessorOk (webhookDeliveries db) d) \<and>
     (\<forall>a \<in> set (webhookAttempts db).
        attemptChecks a \<and> (\<exists>d \<in> set (webhookDeliveries db). attemptDeliveryId a = deliveryId d))"

lemma notifyInvD:
  assumes "notifyInv db" "d \<in> set (webhookDeliveries db)"
  shows "deliveryChecks d" "deliveryTimes d" "attemptsOk (webhookAttempts db) d"
    "predecessorOk (webhookDeliveries db) d"
  using assms by (auto simp: notifyInv_def)

lemma notifyInv_keys: "notifyInv db \<Longrightarrow> deliveryKeys (webhookDeliveries db)"
  by (simp add: notifyInv_def)

lemma delivery_unique:
  assumes "notifyInv db" "d \<in> set (webhookDeliveries db)" "e \<in> set (webhookDeliveries db)"
    "deliveryId d = deliveryId e"
  shows "d = e"
  using assms by (auto simp: notifyInv_def deliveryKeys_def distinct_map dest: inj_onD)

lemma attempt_unique:
  assumes "notifyInv db" "a \<in> set (webhookAttempts db)" "b \<in> set (webhookAttempts db)"
    "attemptDeliveryId a = attemptDeliveryId b" "attemptNumber a = attemptNumber b"
  shows "a = b"
proof -
  have "inj_on (\<lambda>a. (attemptDeliveryId a, attemptNumber a)) (set (webhookAttempts db))"
    using assms(1) by (auto simp: notifyInv_def attemptKeys_def distinct_map)
  then show ?thesis by (rule inj_onD) (use assms in simp_all)
qed

lemma delivery_find:
  assumes "notifyInv db" "d \<in> set (webhookDeliveries db)"
  shows "List.find (\<lambda>x. deliveryId x = deliveryId d) (webhookDeliveries db) = Some d"
  by (rule find_Some_unique) (use assms delivery_unique in auto)

subsection \<open>Statements\<close>

lemma insertDelivery_Inr:
  "insertDelivery d db = Inr db' \<longleftrightarrow>
   deliveryInsertAllowed db d \<and> deliveryChecks d \<and> deliveryKeys (webhookDeliveries db @ [d]) \<and>
   db' = db\<lparr>webhookDeliveries := webhookDeliveries db @ [d]\<rparr>"
  by (auto simp: insertDelivery_def result_simps)

lemma updateDeliveries_Inr:
  "updateDeliveries p f db = Inr (n, db') \<longleftrightarrow>
   (\<forall>d \<in> set (webhookDeliveries db). p d \<longrightarrow> deliveryUpdateAllowed d (f d) \<and> deliveryChecks (f d)) \<and>
   deliveryKeys (updateRows p f (webhookDeliveries db)) \<and> n = changes p (webhookDeliveries db) \<and>
   db' = db\<lparr>webhookDeliveries := updateRows p f (webhookDeliveries db)\<rparr>"
  by (auto simp: updateDeliveries_def result_simps list_all_iff)

lemma insertAttempt_Inr:
  "insertAttempt a db = Inr db' \<longleftrightarrow>
   attemptInsertAllowed db a \<and> attemptChecks a \<and> attemptKeys (webhookAttempts db @ [a]) \<and>
   db' = db\<lparr>webhookAttempts := webhookAttempts db @ [a]\<rparr>"
  by (auto simp: insertAttempt_def result_simps)

lemma updateAttempts_Inr:
  "updateAttempts p f db = Inr (n, db') \<longleftrightarrow>
   (\<forall>a \<in> set (webhookAttempts db). p a \<longrightarrow> attemptUpdateAllowed a (f a) \<and> attemptChecks (f a)) \<and>
   attemptKeys (updateRows p f (webhookAttempts db)) \<and> n = changes p (webhookAttempts db) \<and>
   db' = db\<lparr>webhookAttempts := updateRows p f (webhookAttempts db)\<rparr>"
  by (auto simp: updateAttempts_def result_simps list_all_iff)

lemmas statement_Inr = insertDelivery_Inr updateDeliveries_Inr insertAttempt_Inr updateAttempts_Inr

subsection \<open>Moves\<close>

inductive move :: "notify_db \<Rightarrow> notify_db \<Rightarrow> bool" where
  newDelivery:
    "insertDelivery d db = Inr db' \<Longrightarrow> deliveryStatus d = PENDING \<Longrightarrow> attemptCount d = 0 \<Longrightarrow>
     deliveryUpdatedAt d \<le> nextAttemptAt d \<Longrightarrow> move db db'"
| claimed:
    "d \<in> set (webhookDeliveries db) \<Longrightarrow> isWaiting (deliveryStatus d) \<Longrightarrow>
     updateDeliveries (\<lambda>x. deliveryId x = deliveryId d \<and> isWaiting (deliveryStatus x))
       (leaseDelivery (attemptLeaseToken a) expires (startedAt a) (attemptNumber a)) db = Inr (n, db1) \<Longrightarrow>
     insertAttempt a db1 = Inr db' \<Longrightarrow> attemptDeliveryId a = deliveryId d \<Longrightarrow>
     attemptNumber a = attemptCount d + 1 \<Longrightarrow> attemptOutcome a = STARTED \<Longrightarrow> startedAt a < expires \<Longrightarrow>
     move db db'"
| finished:
    "d \<in> set (webhookDeliveries db) \<Longrightarrow> deliveryStatus d = LEASED \<Longrightarrow>
     updateAttempts p f db = Inr (1, db1) \<Longrightarrow> updateDeliveries q g db1 = Inr (1, db') \<Longrightarrow>
     \<forall>a \<in> set (webhookAttempts db). p a \<longrightarrow> attemptDeliveryId a = deliveryId d \<Longrightarrow>
     \<forall>x \<in> set (webhookDeliveries db). q x \<longrightarrow> x = d \<Longrightarrow>
     deliveryStatus (g d) = RETRY_WAIT \<longrightarrow> deliveryUpdatedAt (g d) \<le> nextAttemptAt (g d) \<Longrightarrow>
     move db db'"
| exhausted:
    "updateDeliveries p (exhaust now) db = Inr (n, db') \<Longrightarrow>
     \<forall>d \<in> set (webhookDeliveries db). p d \<longrightarrow> isWaiting (deliveryStatus d) \<Longrightarrow> move db db'"
| elsewhere:
    "webhookDeliveries db' = webhookDeliveries db \<Longrightarrow> webhookAttempts db' = webhookAttempts db \<Longrightarrow> move db db'"

subsection \<open>How a delivery evolves\<close>

definition deliveryEvolves :: "delivery_row \<Rightarrow> delivery_row \<Rightarrow> bool" where
  "deliveryEvolves d e \<longleftrightarrow>
     e = d \<or> \<not> isTerminal (deliveryStatus d) \<and> deliveryIdentity d e \<and>
             deliveryUpdatedAt d \<le> deliveryUpdatedAt e \<and> attemptCount d \<le> attemptCount e"

definition notifyAdvances :: "notify_db \<Rightarrow> notify_db \<Rightarrow> bool" where
  "notifyAdvances db db' \<longleftrightarrow>
     (\<exists>moved new. webhookDeliveries db' = moved @ new \<and>
        list_all2 deliveryEvolves (webhookDeliveries db) moved)"

lemma deliveryEvolves_refl [simp]: "deliveryEvolves d d"
  by (simp add: deliveryEvolves_def)

lemma deliveryIdentity_trans: "deliveryIdentity d e \<Longrightarrow> deliveryIdentity e f \<Longrightarrow> deliveryIdentity d f"
  by (auto simp: deliveryIdentity_def)

lemma deliveryEvolves_trans: "deliveryEvolves d e \<Longrightarrow> deliveryEvolves e f \<Longrightarrow> deliveryEvolves d f"
  by (auto simp: deliveryEvolves_def dest: deliveryIdentity_trans)

lemma deliveryEvolves_terminal: "deliveryEvolves d e \<Longrightarrow> isTerminal (deliveryStatus d) \<Longrightarrow> e = d"
  by (simp add: deliveryEvolves_def)

lemma deliveryEvolves_identity: "deliveryEvolves d e \<Longrightarrow> deliveryIdentity d e"
  by (auto simp: deliveryEvolves_def deliveryIdentity_def)

lemma updateAllowed_evolves: "deliveryUpdateAllowed d e \<Longrightarrow> deliveryEvolves d e"
  by (auto simp: deliveryUpdateAllowed_def deliveryEvolves_def statusTransition_def isWaiting_def isTerminal_def)

lemma notifyAdvances_refl: "notifyAdvances db db"
  by (auto simp: notifyAdvances_def list_all2_same intro: exI [of _ "webhookDeliveries db"])

lemma notifyAdvances_trans:
  assumes "notifyAdvances db db'" "notifyAdvances db' db''"
  shows "notifyAdvances db db''"
proof -
  obtain moved new where m: "webhookDeliveries db' = moved @ new"
      "list_all2 deliveryEvolves (webhookDeliveries db) moved"
    using assms(1) by (auto simp: notifyAdvances_def)
  obtain moved' new' where m': "webhookDeliveries db'' = moved' @ new'"
      "list_all2 deliveryEvolves (moved @ new) moved'"
    using assms(2) m(1) by (auto simp: notifyAdvances_def)
  obtain us vs where uv: "moved' = us @ vs" "list_all2 deliveryEvolves moved us"
    using m'(2) by (auto simp: list_all2_append1)
  have "list_all2 deliveryEvolves (webhookDeliveries db) us"
    using list_all2_trans [OF deliveryEvolves_trans m(2) uv(2)] .
  moreover have "webhookDeliveries db'' = us @ (vs @ new')" using m'(1) uv(1) by simp
  ultimately show ?thesis unfolding notifyAdvances_def by blast
qed

lemma updateRows_evolves:
  assumes "\<forall>d \<in> set rows. p d \<longrightarrow> deliveryUpdateAllowed d (f d)"
  shows "list_all2 deliveryEvolves rows (updateRows p f rows)"
  using assms by (auto simp: updateRows_def list_all2_map2 list_all2_same updateAllowed_evolves)

lemma updateDeliveries_advances:
  "updateDeliveries p f db = Inr (n, db') \<Longrightarrow> notifyAdvances db db'"
  using updateRows_evolves [of "webhookDeliveries db" p f]
  by (auto simp: updateDeliveries_Inr notifyAdvances_def intro: exI [of _ "[]"])

lemma notifyAdvances_deliveries:
  "webhookDeliveries db = webhookDeliveries db1 \<Longrightarrow> notifyAdvances db db' = notifyAdvances db1 db'"
  by (simp add: notifyAdvances_def)

lemma move_advances: "move db db' \<Longrightarrow> notifyAdvances db db'"
proof (induction rule: move.induct)
  case (newDelivery d db db')
  then have "webhookDeliveries db' = webhookDeliveries db @ [d]" by (simp add: insertDelivery_Inr)
  moreover have "list_all2 deliveryEvolves (webhookDeliveries db) (webhookDeliveries db)"
    by (simp add: list_all2_same)
  ultimately show ?case unfolding notifyAdvances_def by blast
next
  case (claimed d db a expires n db1 db')
  then have "notifyAdvances db db1" by (auto intro: updateDeliveries_advances)
  moreover have "webhookDeliveries db' = webhookDeliveries db1"
    using claimed.hyps(4) by (auto simp: insertAttempt_Inr)
  ultimately show ?case by (simp add: notifyAdvances_def)
next
  case (finished d db p f db1 q g db')
  have "webhookDeliveries db1 = webhookDeliveries db"
    using finished.hyps(3) by (auto simp: updateAttempts_Inr)
  then show ?case
    using updateDeliveries_advances [OF finished.hyps(4)] notifyAdvances_deliveries by metis
next
  case (exhausted p now db n db')
  then show ?case by (auto intro: updateDeliveries_advances)
next
  case (elsewhere db' db)
  then show ?case using notifyAdvances_refl [of db] by (simp add: notifyAdvances_def)
qed

subsection \<open>Moves keep the invariant\<close>

lemma map_number_update:
  assumes "\<forall>a \<in> set attempts. p a \<longrightarrow> attemptUpdateAllowed a (f a)"
  shows "map attemptNumber (attemptsOf d (updateRows p f attempts)) = map attemptNumber (attemptsOf d attempts)"
  using assms
  by (induction attempts) (auto simp: updateRows_def attemptsOf_def attemptUpdateAllowed_def)

lemma attemptsOf_identity: "deliveryId e = deliveryId d \<Longrightarrow> attemptsOf e attempts = attemptsOf d attempts"
  by (simp add: attemptsOf_def)

lemma attemptsOf_none: "\<forall>a \<in> set attempts. attemptDeliveryId a \<noteq> deliveryId d \<Longrightarrow> attemptsOf d attempts = []"
  by (simp add: attemptsOf_def)

lemma attemptsOf_append:
  "attemptsOf d (attempts @ [a]) =
   attemptsOf d attempts @ (if attemptDeliveryId a = deliveryId d then [a] else [])"
  by (simp add: attemptsOf_def)

lemma attemptsOf_update_other:
  assumes "\<forall>a \<in> set attempts. p a \<longrightarrow> attemptDeliveryId a \<noteq> deliveryId d \<and> attemptUpdateAllowed a (f a)"
  shows "attemptsOf d (updateRows p f attempts) = attemptsOf d attempts"
  using assms by (induction attempts) (auto simp: updateRows_def attemptsOf_def attemptUpdateAllowed_def)

lemma predecessorOk_update:
  assumes "\<forall>x \<in> set rows. p x \<longrightarrow> deliveryUpdateAllowed x (f x)" "predecessorOk rows d"
    "deliveryIdentity d e"
  shows "predecessorOk (updateRows p f rows) e"
proof -
  have "\<exists>q' \<in> set (updateRows p f rows). q' = q"
    if "q \<in> set rows" "isTerminal (deliveryStatus q)" for q
  proof -
    have "\<not> p q" using assms(1) that
      by (auto simp: deliveryUpdateAllowed_def statusTransition_def isTerminal_def isWaiting_def)
    then show ?thesis using mem_updateRows_image [OF that(1), of p f] by auto
  qed
  then show ?thesis using assms(2,3)
    unfolding predecessorOk_def deliveryIdentity_def samePair_def by (metis (no_types, lifting))
qed

lemma predecessorOk_append:
  "predecessorOk rows d \<Longrightarrow> predecessorOk (rows @ new) d"
  by (auto simp: predecessorOk_def)

lemma deliveryIdentity_refl [simp]: "deliveryIdentity d d"
  by (simp add: deliveryIdentity_def)

text \<open>An update of the deliveries together with a change of the attempts.\<close>

lemma inv_update:
  assumes inv: "notifyInv db"
    and allowed: "\<forall>d \<in> set (webhookDeliveries db). p d \<longrightarrow> deliveryUpdateAllowed d (f d) \<and> deliveryChecks (f d)"
    and rows: "webhookDeliveries db' = updateRows p f (webhookDeliveries db)"
    and keys: "deliveryKeys (webhookDeliveries db')" "attemptKeys (webhookAttempts db')"
    and attempt: "\<And>a. a \<in> set (webhookAttempts db') \<Longrightarrow>
      attemptChecks a \<and> (\<exists>d \<in> set (webhookDeliveries db). attemptDeliveryId a = deliveryId d)"
    and times: "\<And>d. d \<in> set (webhookDeliveries db) \<Longrightarrow> p d \<Longrightarrow> deliveryTimes (f d)"
    and changed: "\<And>d. d \<in> set (webhookDeliveries db) \<Longrightarrow> p d \<Longrightarrow> attemptsOk (webhookAttempts db') (f d)"
    and kept: "\<And>d. d \<in> set (webhookDeliveries db) \<Longrightarrow> \<not> p d \<Longrightarrow> attemptsOk (webhookAttempts db') d"
  shows "notifyInv db'"
proof -
  have row: "deliveryChecks e \<and> deliveryTimes e \<and> attemptsOk (webhookAttempts db') e \<and>
      predecessorOk (updateRows p f (webhookDeliveries db)) e"
    if "e \<in> set (updateRows p f (webhookDeliveries db))" for e
    using that
  proof (cases rule: mem_updateRowsE)
    case (1 d)
    have "deliveryIdentity d e" using allowed 1 by (auto simp: deliveryUpdateAllowed_def)
    then have "predecessorOk (updateRows p f (webhookDeliveries db)) e"
      using allowed notifyInvD(4) [OF inv 1(1)] by (intro predecessorOk_update [of _ p f d]) auto
    then show ?thesis using allowed 1 times changed by auto
  next
    case 2
    have "predecessorOk (updateRows p f (webhookDeliveries db)) e"
      using allowed notifyInvD(4) [OF inv 2(1)] by (intro predecessorOk_update [of _ p f e]) auto
    then show ?thesis using notifyInvD [OF inv 2(1)] kept [OF 2] by auto
  qed
  have owner: "\<exists>e \<in> set (updateRows p f (webhookDeliveries db)). attemptDeliveryId a = deliveryId e"
    if a: "a \<in> set (webhookAttempts db')" for a
  proof -
    obtain d where d: "d \<in> set (webhookDeliveries db)" "attemptDeliveryId a = deliveryId d"
      using attempt [OF a] by blast
    have "deliveryId (if p d then f d else d) = deliveryId d"
      using allowed d(1) by (auto simp: deliveryUpdateAllowed_def deliveryIdentity_def)
    then show ?thesis using mem_updateRows_image [OF d(1), of p f] d(2)
      by (intro bexI [of _ "if p d then f d else d"]) simp_all
  qed
  show ?thesis using row owner keys attempt unfolding notifyInv_def rows by blast
qed

lemma deliveryId_fresh:
  assumes "deliveryKeys (rows @ [d])" "e \<in> set rows"
  shows "deliveryId e \<noteq> deliveryId d"
proof -
  have "deliveryId d \<notin> deliveryId ` set rows" using assms(1) by (auto simp: deliveryKeys_def)
  then show ?thesis using assms(2) by (metis image_eqI)
qed

lemma inv_newDelivery:
  assumes inv: "notifyInv db" and ins: "insertDelivery d db = Inr db'"
    and d: "deliveryStatus d = PENDING" "attemptCount d = 0" "deliveryUpdatedAt d \<le> nextAttemptAt d"
  shows "notifyInv db'"
proof -
  have i: "deliveryInsertAllowed db d" "deliveryChecks d" "deliveryKeys (webhookDeliveries db @ [d])"
      and db': "db' = db\<lparr>webhookDeliveries := webhookDeliveries db @ [d]\<rparr>"
    using ins by (auto simp: insertDelivery_Inr)
  have "attemptsOf d (webhookAttempts db) = []"
    using inv deliveryId_fresh [OF i(3)] by (intro attemptsOf_none) (auto simp: notifyInv_def)
  then have a: "attemptsOk (webhookAttempts db) d" using d(2) by (simp add: attemptsOk_def)
  have t: "deliveryTimes d" using d by (simp add: deliveryTimes_def)
  have p: "predecessorOk (webhookDeliveries db @ [d]) d"
  proof (cases "deliveryGeneration d > 1")
    case True
    then obtain q where "q \<in> set (webhookDeliveries db)" "Some (deliveryId q) = predecessorDeliveryId d"
        "samePair d q" "deliveryGeneration q = deliveryGeneration d - 1" "isTerminal (deliveryStatus q)"
      using i(1) by (auto simp: deliveryInsertAllowed_def list_ex_iff)
    then show ?thesis by (auto simp: predecessorOk_def intro!: bexI [of _ q])
  qed (simp add: predecessorOk_def)
  show ?thesis
    unfolding notifyInv_def db'
    using inv i(2,3) a t p predecessorOk_append [of "webhookDeliveries db" _ "[d]"]
    by (auto simp: notifyInv_def)
qed

lemma upto_Suc: "0 \<le> n \<Longrightarrow> [1..n + 1] = [1..n] @ [n + (1 :: int)]"
  by (simp add: upto_rec2)

lemma attemptsOk_number:
  assumes "attemptsOk attempts d" "a \<in> set (attemptsOf d attempts)"
  shows "1 \<le> attemptNumber a" "attemptNumber a \<le> attemptCount d"
proof -
  have "attemptNumber a \<in> set (map attemptNumber (attemptsOf d attempts))" using assms(2) by simp
  also have "\<dots> = {1..attemptCount d}" using assms(1) unfolding attemptsOk_def by (metis set_upto)
  finally show "1 \<le> attemptNumber a" "attemptNumber a \<le> attemptCount d" by simp_all
qed

lemma inv_claimed:
  assumes inv: "notifyInv db" and d: "d \<in> set (webhookDeliveries db)" "isWaiting (deliveryStatus d)"
    and up: "updateDeliveries (\<lambda>x. deliveryId x = deliveryId d \<and> isWaiting (deliveryStatus x))
       (leaseDelivery (attemptLeaseToken a) expires (startedAt a) (attemptNumber a)) db = Inr (n, db1)"
    and ins: "insertAttempt a db1 = Inr db'"
    and a: "attemptDeliveryId a = deliveryId d" "attemptNumber a = attemptCount d + 1"
      "attemptOutcome a = STARTED" "startedAt a < expires"
  shows "notifyInv db'"
proof -
  let ?f = "leaseDelivery (attemptLeaseToken a) expires (startedAt a) (attemptNumber a)"
  let ?p = "\<lambda>x. deliveryId x = deliveryId d \<and> isWaiting (deliveryStatus x)"
  have allowed: "\<forall>x \<in> set (webhookDeliveries db). ?p x \<longrightarrow> deliveryUpdateAllowed x (?f x) \<and> deliveryChecks (?f x)"
    and rows: "webhookDeliveries db' = updateRows ?p ?f (webhookDeliveries db)"
    and attempts: "webhookAttempts db' = webhookAttempts db @ [a]"
    and keys: "deliveryKeys (webhookDeliveries db')" "attemptKeys (webhookAttempts db')"
    and checks: "attemptChecks a"
    using up ins by (auto simp: updateDeliveries_Inr insertAttempt_Inr)
  have one: "x = d" if "x \<in> set (webhookDeliveries db)" "deliveryId x = deliveryId d" for x
    using delivery_unique [OF inv that(1) d(1) that(2)] .
  have dOk: "attemptsOk (webhookAttempts db) d" by (rule notifyInvD(3) [OF inv d(1)])
  have count: "0 \<le> attemptCount d" using notifyInvD(1) [OF inv d(1)] by (simp add: deliveryChecks_def)
  have leased: "attemptsOk (webhookAttempts db') (?f d)"
  proof -
    have mine: "attemptsOf (?f d) (webhookAttempts db') = attemptsOf d (webhookAttempts db) @ [a]"
      using a(1) by (simp add: attempts attemptsOf_def leaseDelivery_def)
    have old: "attemptNumber x \<le> attemptCount d \<and> attemptOutcome x \<noteq> STARTED"
      if x: "x \<in> set (attemptsOf d (webhookAttempts db))" for x
    proof -
      have "attemptNumber x \<le> attemptCount d" by (rule attemptsOk_number(2) [OF dOk x])
      moreover have "attemptOk d x" using dOk x by (simp add: attemptsOk_def)
      ultimately show ?thesis using d(2) by (auto simp: attemptOk_def isWaiting_def)
    qed
    have "attemptOk (?f d) x" if "x \<in> set (attemptsOf d (webhookAttempts db))" for x
      using old [OF that] a(2) by (auto simp: attemptOk_def leaseDelivery_def)
    moreover have "attemptOk (?f d) a" using a by (simp add: attemptOk_def leaseDelivery_def)
    moreover have "attemptCount (?f d) = attemptCount d + 1" using a(2) by (simp add: leaseDelivery_def)
    moreover have "map attemptNumber (attemptsOf d (webhookAttempts db) @ [a]) = [1..attemptCount d + 1]"
      using dOk a(2) count by (simp add: attemptsOk_def upto_Suc)
    ultimately show ?thesis unfolding attemptsOk_def mine by auto
  qed
  show ?thesis
  proof (rule inv_update [OF inv allowed rows keys])
    fix x
    assume "x \<in> set (webhookAttempts db')"
    then show "attemptChecks x \<and> (\<exists>d \<in> set (webhookDeliveries db). attemptDeliveryId x = deliveryId d)"
      using inv checks a(1) d(1) by (auto simp: attempts notifyInv_def)
  next
    fix x
    assume "x \<in> set (webhookDeliveries db)" "?p x"
    then show "deliveryTimes (?f x)" using a(4) by (simp add: deliveryTimes_def leaseDelivery_def isWaiting_def)
  next
    fix x
    assume "x \<in> set (webhookDeliveries db)" "?p x"
    then show "attemptsOk (webhookAttempts db') (?f x)" using one leased by auto
  next
    fix x
    assume x: "x \<in> set (webhookDeliveries db)" "\<not> ?p x"
    then have "deliveryId x \<noteq> deliveryId d" using one d(2) by auto
    then have "attemptsOf x (webhookAttempts db') = attemptsOf x (webhookAttempts db)"
      using a(1) by (simp add: attempts attemptsOf_def)
    then show "attemptsOk (webhookAttempts db') x"
      using notifyInvD(3) [OF inv x(1)] by (simp add: attemptsOk_def)
  qed
qed

text \<open>A statement that changes exactly one row, the row \<open>d\<close>.\<close>

lemma changes_one:
  assumes "changes q rows = 1" "\<forall>x \<in> set rows. q x \<longrightarrow> x = d"
  shows "d \<in> set rows" "q d"
  using changes_1_ex [OF assms(1)] assms(2) by auto

lemma inv_finished:
  assumes inv: "notifyInv db" and d: "d \<in> set (webhookDeliveries db)" "deliveryStatus d = LEASED"
    and ua: "updateAttempts p f db = Inr (1, db1)" and ud: "updateDeliveries q g db1 = Inr (1, db')"
    and pd: "\<forall>a \<in> set (webhookAttempts db). p a \<longrightarrow> attemptDeliveryId a = deliveryId d"
    and qd: "\<forall>x \<in> set (webhookDeliveries db). q x \<longrightarrow> x = d"
    and later: "deliveryStatus (g d) = RETRY_WAIT \<longrightarrow> deliveryUpdatedAt (g d) \<le> nextAttemptAt (g d)"
  shows "notifyInv db'"
proof -
  have aallowed: "\<forall>a \<in> set (webhookAttempts db). p a \<longrightarrow> attemptUpdateAllowed a (f a) \<and> attemptChecks (f a)"
    and attempts: "webhookAttempts db' = updateRows p f (webhookAttempts db)"
    and dallowed: "\<forall>x \<in> set (webhookDeliveries db). q x \<longrightarrow> deliveryUpdateAllowed x (g x) \<and> deliveryChecks (g x)"
    and rows: "webhookDeliveries db' = updateRows q g (webhookDeliveries db)"
    and keys: "deliveryKeys (webhookDeliveries db')" "attemptKeys (webhookAttempts db')"
    and ones: "changes p (webhookAttempts db) = 1" "changes q (webhookDeliveries db) = 1"
    using ua ud by (auto simp: updateDeliveries_Inr updateAttempts_Inr)
  have gd: "deliveryUpdateAllowed d (g d)" "deliveryChecks (g d)" "q d"
    using changes_one [OF ones(2) qd] dallowed by auto
  have status: "deliveryStatus (g d) = RETRY_WAIT \<or> deliveryStatus (g d) = ACKNOWLEDGED \<or>
      deliveryStatus (g d) = DEAD_LETTER" "attemptCount (g d) = attemptCount d" "deliveryId (g d) = deliveryId d"
    using gd(1) d(2) by (auto simp: deliveryUpdateAllowed_def statusTransition_def deliveryIdentity_def isWaiting_def)
  obtain a where a: "a \<in> set (webhookAttempts db)" "p a" "attemptDeliveryId a = deliveryId d"
    using changes_1_ex [OF ones(1)] pd by blast
  have dOk: "attemptsOk (webhookAttempts db) d" by (rule notifyInvD(3) [OF inv d(1)])
  have closed: "attemptOutcome x \<noteq> STARTED" if x: "x \<in> set (attemptsOf d (webhookAttempts db'))" for x
  proof -
    have x': "x \<in> set (updateRows p f (webhookAttempts db))" "attemptDeliveryId x = deliveryId d"
      using x by (auto simp: attempts attemptsOf_def)
    from x'(1) show ?thesis
    proof (cases rule: mem_updateRowsE)
      case (1 r)
      then show ?thesis using aallowed by (auto simp: attemptUpdateAllowed_def)
    next
      case 2
      have ok: "attemptOk d y" if "y \<in> set (webhookAttempts db)" "attemptDeliveryId y = deliveryId d" for y
        using dOk that by (auto simp: attemptsOk_def attemptsOf_def)
      have "attemptOutcome a = STARTED" using aallowed a by (auto simp: attemptUpdateAllowed_def)
      then have "attemptNumber a = attemptCount d" using ok [OF a(1,3)] by (simp add: attemptOk_def)
      moreover have "attemptNumber x \<noteq> attemptNumber a"
        using attempt_unique [OF inv 2(1) a(1)] 2(2) a(2,3) x'(2) by auto
      ultimately show ?thesis using ok [OF 2(1) x'(2)] by (simp add: attemptOk_def)
    qed
  qed
  have numbers: "map attemptNumber (attemptsOf x (webhookAttempts db')) =
      map attemptNumber (attemptsOf x (webhookAttempts db))" for x
    unfolding attempts by (rule map_number_update) (use aallowed in blast)
  show ?thesis
  proof (rule inv_update [OF inv dallowed rows keys])
    fix x
    assume "x \<in> set (webhookAttempts db')"
    then have "x \<in> set (updateRows p f (webhookAttempts db))" by (simp add: attempts)
    then show "attemptChecks x \<and> (\<exists>d \<in> set (webhookDeliveries db). attemptDeliveryId x = deliveryId d)"
    proof (cases rule: mem_updateRowsE)
      case (1 r)
      then have "attemptDeliveryId x = attemptDeliveryId r" using aallowed by (simp add: attemptUpdateAllowed_def)
      then show ?thesis using 1 aallowed inv unfolding notifyInv_def by metis
    next
      case 2
      then show ?thesis using inv by (auto simp: notifyInv_def)
    qed
  next
    fix x
    assume "x \<in> set (webhookDeliveries db)" "q x"
    then have "x = d" using qd by blast
    then show "deliveryTimes (g x)" using status(1) later by (auto simp: deliveryTimes_def isWaiting_def)
  next
    fix x
    assume "x \<in> set (webhookDeliveries db)" "q x"
    then have x: "x = d" using qd by blast
    have "map attemptNumber (attemptsOf (g d) (webhookAttempts db')) = [1..attemptCount (g d)]"
      using dOk numbers [of d] status(2,3) attemptsOf_identity [of "g d" d] by (simp add: attemptsOk_def)
    moreover have "attemptOk (g d) y" if "y \<in> set (attemptsOf (g d) (webhookAttempts db'))" for y
      using closed [of y] that status attemptsOf_identity [of "g d" d] by (auto simp: attemptOk_def)
    ultimately show "attemptsOk (webhookAttempts db') (g x)" using x by (simp add: attemptsOk_def)
  next
    fix x
    assume x: "x \<in> set (webhookDeliveries db)" "\<not> q x"
    then have "deliveryId x \<noteq> deliveryId d" using delivery_unique [OF inv x(1) d(1)] gd(3) by auto
    then have "attemptsOf x (webhookAttempts db') = attemptsOf x (webhookAttempts db)"
      unfolding attempts by (intro attemptsOf_update_other) (use pd aallowed in auto)
    then show "attemptsOk (webhookAttempts db') x"
      using notifyInvD(3) [OF inv x(1)] by (simp add: attemptsOk_def)
  qed
qed

lemma inv_exhausted:
  assumes inv: "notifyInv db" and up: "updateDeliveries p (exhaust now) db = Inr (n, db')"
    and waiting: "\<forall>d \<in> set (webhookDeliveries db). p d \<longrightarrow> isWaiting (deliveryStatus d)"
  shows "notifyInv db'"
proof -
  have allowed: "\<forall>d \<in> set (webhookDeliveries db). p d \<longrightarrow>
      deliveryUpdateAllowed d (exhaust now d) \<and> deliveryChecks (exhaust now d)"
    and rows: "webhookDeliveries db' = updateRows p (exhaust now) (webhookDeliveries db)"
    and attempts: "webhookAttempts db' = webhookAttempts db"
    and keys: "deliveryKeys (webhookDeliveries db')"
    using up by (auto simp: updateDeliveries_Inr)
  show ?thesis
  proof (rule inv_update [OF inv allowed rows keys])
    show "attemptKeys (webhookAttempts db')" using inv by (simp add: attempts notifyInv_def)
  next
    fix d
    assume d: "d \<in> set (webhookDeliveries db)" "p d"
    then have "attemptsOk (webhookAttempts db) d" "isWaiting (deliveryStatus d)"
      using notifyInvD(3) [OF inv] waiting by auto
    then show "attemptsOk (webhookAttempts db') (exhaust now d)"
      by (auto simp: attemptsOk_def attemptsOf_def attemptOk_def exhaust_def attempts isWaiting_def)
  qed (use inv notifyInvD(3) [OF inv] in \<open>auto simp: notifyInv_def attempts deliveryTimes_def exhaust_def isWaiting_def\<close>)
qed

theorem move_inv: "move db db' \<Longrightarrow> notifyInv db \<Longrightarrow> notifyInv db'"
proof (induction rule: move.induct)
  case (newDelivery d db db')
  then show ?case using inv_newDelivery by blast
next
  case (claimed d db a expires n db1 db')
  then show ?case using inv_claimed by blast
next
  case (finished d db p f db1 q g db')
  show ?case by (rule inv_finished [OF finished.prems finished.hyps])
next
  case (exhausted p now db n db')
  then show ?case using inv_exhausted by blast
next
  case (elsewhere db' db)
  then show ?case by (simp add: notifyInv_def)
qed

subsection \<open>Runs\<close>

abbreviation moves :: "notify_db \<Rightarrow> notify_db \<Rightarrow> bool" where
  "moves \<equiv> move\<^sup>*\<^sup>*"

lemma moves_inv: "moves db db' \<Longrightarrow> notifyInv db \<Longrightarrow> notifyInv db'"
  by (induction rule: rtranclp_induct) (auto intro: move_inv)

lemma moves_advances: "moves db db' \<Longrightarrow> notifyAdvances db db'"
  by (induction rule: rtranclp_induct)
    (auto intro: notifyAdvances_refl notifyAdvances_trans move_advances)

end
