(* ===== verification/NotificationSafety.thy ===== *)
theory NotificationSafety
  imports NotificationMachine
begin

text \<open>
  Every operation of the notification store is a sequence of moves, so it keeps the invariant and a
  finished delivery never changes again, over every sequence of operations and of changes the
  other stores make to their own tables.
\<close>

named_theorems notify_moves \<open>operations of the notification store are runs of moves\<close>

lemma moves1: "move db db' \<Longrightarrow> moves db db'"
  by (rule r_into_rtranclp)

lemma moves_elsewhere:
  "webhookDeliveries db' = webhookDeliveries db \<Longrightarrow> webhookAttempts db' = webhookAttempts db \<Longrightarrow> moves db db'"
  by (intro moves1 elsewhere)

subsection \<open>Materializing\<close>

lemma materializeRows_moves: "materializeRows env now rows db = Inr (n, db') \<Longrightarrow> moves db db'"
proof (induction env now rows db arbitrary: n rule: materializeRows.induct)
  case (2 env now e t rows db)
  obtain db1 m where m: "insertDelivery (firstDelivery env now db e t) db = Inr db1"
      "materializeRows env now rows db1 = Inr (m, db')"
    and safe: "isSafeInteger (outboxCreatedAt e)" "isSafeInteger (targetCreatedAt t)"
    using "2.prems" by (auto simp: result_simps)
  have "move db db1" by (rule newDelivery [OF m(1)]) (simp_all add: firstDelivery_def Let_def)
  moreover have "moves db1 db'" by (rule "2.IH" [OF _ _ m(1) m(2)]) (use safe in simp_all)
  ultimately show ?case by (rule converse_rtranclp_into_rtranclp)
qed auto

lemma materialize_moves [notify_moves]:
  "materialize env limit now client db = Inr (n, db') \<Longrightarrow> moves db db'"
  by (auto simp: materialize_def result_simps materializeRows_moves)

subsection \<open>Recovering\<close>

lemma recoverRow_move:
  assumes inv: "notifyInv db" and ua: "updateAttempts (attemptOfLease d) (expireAttempt now) db = Inr (1, db1)"
    and ud: "updateDeliveries (sameLease d) (expireLease now) db1 = Inr (1, db2)"
  shows "move db db2"
proof -
  have rows: "webhookDeliveries db1 = webhookDeliveries db"
    and one: "changes (sameLease d) (webhookDeliveries db) = 1"
    using ua ud by (auto simp: updateAttempts_Inr updateDeliveries_Inr)
  obtain x where x: "x \<in> set (webhookDeliveries db)" "sameLease d x" using changes_1_ex [OF one] by blast
  show ?thesis
  proof (rule finished [OF x(1) _ ua ud])
    show "deliveryStatus x = LEASED" using x(2) by (simp add: sameLease_def)
    show "\<forall>a \<in> set (webhookAttempts db). attemptOfLease d a \<longrightarrow> attemptDeliveryId a = deliveryId x"
      using x(2) by (simp add: attemptOfLease_def sameLease_def)
    show "\<forall>y \<in> set (webhookDeliveries db). sameLease d y \<longrightarrow> y = x"
      using x delivery_unique [OF inv] by (auto simp: sameLease_def)
  qed (simp add: expireLease_def)
qed

lemma recoverRows_moves:
  "recoverRows now ds db = Inr (n, db') \<Longrightarrow> notifyInv db \<Longrightarrow> moves db db'"
proof (induction now ds db arbitrary: n rule: recoverRows.induct)
  case (2 now d ds db)
  obtain db1 db2 m where m: "isSafeInteger (attemptCount d)"
      "updateAttempts (attemptOfLease d) (expireAttempt now) db = Inr (1, db1)"
      "updateDeliveries (sameLease d) (expireLease now) db1 = Inr (1, db2)"
      "recoverRows now ds db2 = Inr (m, db')"
    using "2.prems"(1) by (auto simp: result_simps)
  have one: "move db db2" by (rule recoverRow_move [OF "2.prems"(2) m(2,3)])
  have "moves db2 db'"
    using m move_inv [OF one "2.prems"(2)] by (intro "2.IH" [OF _ m(2) _ _ m(3)]) (auto simp: result_simps)
  with one show ?case by (rule converse_rtranclp_into_rtranclp)
qed auto

lemma recoverExpiredLeases_moves:
  "recoverExpiredLeases now db = Inr (n, db') \<Longrightarrow> notifyInv db \<Longrightarrow> moves db db'"
  by (simp add: recoverExpiredLeases_def recoverRows_moves)

lemma recoverExpired_moves [notify_moves]:
  "recoverExpired now db = Inr (n, db') \<Longrightarrow> notifyInv db \<Longrightarrow> moves db db'"
  by (auto simp: recoverExpired_def result_simps recoverExpiredLeases_moves)

subsection \<open>Claiming\<close>

lemma deadLetter_move:
  assumes "deadLetterExhaustedDeliveries maximum now client db = Inr (n, db')"
  shows "move db db'"
proof -
  obtain m where m: "updateDeliveries (isExhausted db maximum client) (exhaust now) db = Inr (m, db')"
    using assms by (auto simp: deadLetterExhaustedDeliveries_def result_simps)
  show ?thesis by (rule exhausted [OF m]) (simp add: isExhausted_def)
qed

lemma claimDelivery_Inr:
  assumes "claimDelivery env input epay key e t d db = Inr (r, db')"
  obtains db1 where
    "updateDeliveries (\<lambda>x. deliveryId x = deliveryId d \<and> isWaiting (deliveryStatus x))
       (leaseDelivery (newLeaseToken env) (claimNow input + leaseMilliseconds input) (claimNow input)
         (attemptCount d + 1)) db = Inr (1, db1)"
    "insertAttempt (startedAttempt env epay key e (deliveryId d) (attemptCount d + 1) (claimNow input)) db1
       = Inr db'"
    "\<exists>c. r = Some c \<and> claimedDelivery c = webhook_delivery.truncate
       (leaseDelivery (newLeaseToken env) (claimNow input + leaseMilliseconds input) (claimNow input)
         (attemptCount d + 1) d) \<and>
       claimedAttempt c = attemptView key
         (startedAttempt env epay key e (deliveryId d) (attemptCount d + 1) (claimNow input))"
  using assms by (auto simp: claimDelivery_def Let_def result_simps mapDelivery_def)

lemma claimDelivery_move:
  assumes d: "d \<in> set (webhookDeliveries db)" "isWaiting (deliveryStatus d)" and lease: "1 \<le> leaseMilliseconds input"
    and c: "claimDelivery env input epay key e t d db = Inr (r, db')"
  shows "move db db'"
proof -
  let ?a = "startedAttempt env epay key e (deliveryId d) (attemptCount d + 1) (claimNow input)"
  obtain db1 where u: "updateDeliveries (\<lambda>x. deliveryId x = deliveryId d \<and> isWaiting (deliveryStatus x))
       (leaseDelivery (newLeaseToken env) (claimNow input + leaseMilliseconds input) (claimNow input)
         (attemptCount d + 1)) db = Inr (1, db1)" "insertAttempt ?a db1 = Inr db'"
    by (rule claimDelivery_Inr [OF c])
  have f: "attemptLeaseToken ?a = newLeaseToken env" "startedAt ?a = claimNow input"
    "attemptNumber ?a = attemptCount d + 1" "attemptDeliveryId ?a = deliveryId d" "attemptOutcome ?a = STARTED"
    by (simp_all add: startedAttempt_def)
  show ?thesis
    by (rule claimed [where a = ?a and expires = "claimNow input + leaseMilliseconds input", OF d _ u(2)])
      (use u(1) f lease in simp_all)
qed

lemma claimSelected_moves:
  assumes "d \<in> set (webhookDeliveries db)" "isWaiting (deliveryStatus d)" "1 \<le> leaseMilliseconds input"
    "claimSelected env input nativeKey d db = Inr (r, db')"
  shows "moves db db'"
proof -
  have "db' = db \<or> (\<exists>epay key e t. claimDelivery env input epay key e t d db = Inr (r, db'))"
    using assms(4) by (auto simp: claimSelected_def result_simps split: option.splits if_splits)
  then show ?thesis using claimDelivery_move [OF assms(1-3)] moves1 by blast
qed

lemma nextDue_SomeD:
  assumes "nextDue db client now maximum = Some d"
  shows "d \<in> set (webhookDeliveries db)" "isDue db client now maximum d"
proof -
  let ?rows = "sort_key (\<lambda>d. (nextAttemptAt d, deliveryCreatedAt d, deliveryId d))
      (filter (isDue db client now maximum) (webhookDeliveries db))"
  obtain ds where "?rows = d # ds" using assms by (auto simp: nextDue_def split: list.splits)
  then have "d \<in> set ?rows" by (metis list.set_intros(1))
  then show "d \<in> set (webhookDeliveries db)" "isDue db client now maximum d" by simp_all
qed

lemma claimNext_Inr:
  assumes "claimNext env input db = Inr (r, db')"
  obtains n db1 where "recoverExpiredLeases (claimNow input) db = Inr (n, db1)" "validateClaim input = Inr ()"
    "r = None \<and> db' = db1 \<or>
     (\<exists>m key db2. siteMayNotify input db1 \<and>
        deadLetterExhaustedDeliveries (claimMaximumAttempts input) (claimNow input) (claimClientId input) db1
          = Inr (m, db2) \<and>
        readActiveSigningKey db1 (claimClientId input) = Inr key \<and>
        (r = None \<and> db' = db2 \<or>
         (\<exists>d. nextDue db2 (claimClientId input) (claimNow input) (claimMaximumAttempts input) = Some d \<and>
            claimSelected env input key d db2 = Inr (r, db'))))"
  using assms by (auto simp: claimNext_def result_simps split: if_splits option.splits)

lemma validateClaim_lease:
  "validateClaim input = Inr () \<Longrightarrow> 1 \<le> leaseMilliseconds input \<and> leaseMilliseconds input \<le> 120000 \<and>
   isSafeInteger (claimNow input) \<and> 0 \<le> claimNow input \<and> 1 \<le> claimMaximumAttempts input"
  by (auto simp: validateClaim_def result_simps MAX_LEASE_MILLISECONDS_def)

lemma claimNext_moves [notify_moves]:
  assumes inv: "notifyInv db" and c: "claimNext env input db = Inr (r, db')"
  shows "moves db db'"
proof -
  obtain n db1 where r: "recoverExpiredLeases (claimNow input) db = Inr (n, db1)" "validateClaim input = Inr ()"
    and rest: "r = None \<and> db' = db1 \<or>
     (\<exists>m key db2. siteMayNotify input db1 \<and>
        deadLetterExhaustedDeliveries (claimMaximumAttempts input) (claimNow input) (claimClientId input) db1
          = Inr (m, db2) \<and>
        readActiveSigningKey db1 (claimClientId input) = Inr key \<and>
        (r = None \<and> db' = db2 \<or>
         (\<exists>d. nextDue db2 (claimClientId input) (claimNow input) (claimMaximumAttempts input) = Some d \<and>
            claimSelected env input key d db2 = Inr (r, db'))))"
    by (rule claimNext_Inr [OF c])
  have m1: "moves db db1" by (rule recoverExpiredLeases_moves [OF r(1) inv])
  from rest show ?thesis
  proof (elim disjE exE conjE)
    fix m key db2 d
    assume two: "deadLetterExhaustedDeliveries (claimMaximumAttempts input) (claimNow input)
        (claimClientId input) db1 = Inr (m, db2)"
      and next_: "nextDue db2 (claimClientId input) (claimNow input) (claimMaximumAttempts input) = Some d"
      and sel: "claimSelected env input key d db2 = Inr (r, db')"
    have "moves db1 db2" by (rule moves1 [OF deadLetter_move [OF two]])
    moreover have "moves db2 db'"
      using nextDue_SomeD [OF next_] validateClaim_lease [OF r(2)]
      by (intro claimSelected_moves [OF _ _ _ sel]) (auto simp: isDue_def)
    ultimately show ?thesis using m1 by (meson rtranclp_trans)
  next
    fix m key db2
    assume two: "deadLetterExhaustedDeliveries (claimMaximumAttempts input) (claimNow input)
        (claimClientId input) db1 = Inr (m, db2)" and e: "db' = db2"
    show ?thesis using m1 moves1 [OF deadLetter_move [OF two]] e by (meson rtranclp_trans)
  qed (use m1 in simp)
qed

subsection \<open>Completing\<close>

lemma webhookRetryDelay_bounds:
  "webhookRetryDelayMilliseconds sha did attempt base maximum = Inr delay \<Longrightarrow> 1 \<le> delay \<and> delay \<le> maximum"
  by (auto simp: webhookRetryDelayMilliseconds_def result_simps)

text \<open>What a completion decides: the final states carry their time, a retry comes strictly later.\<close>

lemma completionOf_Inr:
  assumes "completionOf env input number finished failure = Inr c"
  shows "nextStatus c = RETRY_WAIT \<and> finished < nextAttempt c \<and> number < completeMaximumAttempts input \<and>
           nextAcknowledged c = None \<and> nextDeadLettered c = None \<and> nextError c = failure \<or>
         nextStatus c = ACKNOWLEDGED \<and> nextAcknowledged c = Some finished \<and> nextDeadLettered c = None \<and>
           nextError c = None \<and> completeOutcome input = AttemptAcknowledged \<and> nextAttempt c = finished \<or>
         nextStatus c = DEAD_LETTER \<and> nextAcknowledged c = None \<and> nextDeadLettered c = Some finished \<and>
           nextError c = failure \<and> completeOutcome input \<noteq> AttemptAcknowledged \<and> nextAttempt c = finished"
proof (cases "completeOutcome input = AttemptAcknowledged")
  case True
  then show ?thesis using assms by (auto simp: completionOf_def)
next
  case other: False
  show ?thesis
  proof (cases "(completeOutcome input = RETRYABLE_FAILURE \<or> completeOutcome input = OUTCOME_UNKNOWN) \<and>
      number < completeMaximumAttempts input")
    case True
    then obtain delay where delay: "webhookRetryDelayMilliseconds (notifySha256 env) (completeDeliveryId input)
          number (retryBaseMilliseconds input) (retryMaximumMilliseconds input) = Inr delay"
        "c = \<lparr>nextStatus = RETRY_WAIT, nextAttempt = finished + delay, nextAcknowledged = None,
             nextDeadLettered = None, nextError = failure\<rparr>"
      using assms other by (auto simp: completionOf_def result_simps)
    then show ?thesis using webhookRetryDelay_bounds [OF delay(1)] True by simp
  next
    case False
    then show ?thesis using assms other by (auto simp: completionOf_def)
  qed
qed

lemma findLeased_Inr:
  assumes "findLeased input db = Inr (d, a)"
  shows "d \<in> set (webhookDeliveries db)" "deliveryId d = completeDeliveryId input"
    "holdsLease (completeLeaseToken input) d" "a \<in> set (webhookAttempts db)"
    "attemptDeliveryId a = deliveryId d" "attemptNumber a = attemptCount d"
    "attemptLeaseToken a = completeLeaseToken input" "attemptOutcome a = STARTED"
    "attemptId a = completeAttemptId input" "isSafeInteger (attemptCount d)"
proof -
  obtain d0 where d0: "List.find (\<lambda>d. deliveryId d = completeDeliveryId input) (webhookDeliveries db) = Some d0"
      "holdsLease (completeLeaseToken input) d0" "isSafeInteger (attemptCount d0)"
    using assms by (auto simp: findLeased_def result_simps split: option.splits)
  let ?find = "List.find (\<lambda>a. attemptDeliveryId a = completeDeliveryId input \<and>
        attemptNumber a = attemptCount d0 \<and> attemptLeaseToken a = completeLeaseToken input \<and>
        attemptOutcome a = STARTED) (webhookAttempts db)"
  have "bindR (assertR (holdsLease (completeLeaseToken input) d0)
          (Failure ''webhook_delivery_state_conflict'')) (\<lambda>_.
      bindR (toSafeInteger (attemptCount d0) ''webhook attempt count'') (\<lambda>number.
      case List.find (\<lambda>a. attemptDeliveryId a = completeDeliveryId input \<and> attemptNumber a = number \<and>
                       attemptLeaseToken a = completeLeaseToken input \<and> attemptOutcome a = STARTED)
             (webhookAttempts db) of
        None \<Rightarrow> Inl (Failure ''webhook_delivery_state_conflict'')
      | Some attempt \<Rightarrow>
          bindR (assertR (attemptId attempt = completeAttemptId input)
                   (Failure ''webhook_delivery_state_conflict'')) (\<lambda>_. Inr (d0, attempt)))) = Inr (d, a)"
    using assms unfolding findLeased_def d0(1) option.case .
  then have found: "(case ?find of None \<Rightarrow> Inl (Failure ''webhook_delivery_state_conflict'')
      | Some attempt \<Rightarrow> bindR (assertR (attemptId attempt = completeAttemptId input)
          (Failure ''webhook_delivery_state_conflict'')) (\<lambda>_. Inr (d0, attempt))) = Inr (d, a)"
    unfolding assertR_def toSafeInteger_safe [OF d0(3)] bindR.simps using d0(2)
    by (simp only: if_True bindR.simps)
  then obtain a0 where f0: "?find = Some a0" by (cases ?find) simp_all
  have "bindR (assertR (attemptId a0 = completeAttemptId input) (Failure ''webhook_delivery_state_conflict''))
      (\<lambda>_. Inr (d0, a0)) = Inr (d, a)"
    using found unfolding f0 option.case .
  then have a0: "?find = Some a0" "attemptId a0 = completeAttemptId input" "d = d0" "a = a0"
    using f0 unfolding bindR_Inr_iff assertR_Inr_iff by blast+
  show "d \<in> set (webhookDeliveries db)" "deliveryId d = completeDeliveryId input"
    "holdsLease (completeLeaseToken input) d" "a \<in> set (webhookAttempts db)"
    "attemptDeliveryId a = deliveryId d" "attemptNumber a = attemptCount d"
    "attemptLeaseToken a = completeLeaseToken input" "attemptOutcome a = STARTED"
    "attemptId a = completeAttemptId input" "isSafeInteger (attemptCount d)"
    using find_SomeD [OF d0(1)] find_SomeD [OF a0(1)] d0(2,3) a0(2-4) by auto
qed

lemma completeAttempt_Inr:
  assumes "completeAttempt env input db = Inr (r, db')"
  obtains d a evidence c db1 where "validateComplete input = Inr ()" "findLeased input db = Inr (d, a)"
    "validateCompleteAttemptEvidence env input (attemptProtocol a) = Inr evidence"
    "updateAttempts (\<lambda>a. attemptId a = completeAttemptId input \<and> attemptOutcome a = STARTED)
       (finishAttempt (completeOutcome input) evidence
         (max (max (completeNow input) (deliveryUpdatedAt d)) (startedAt a))) db = Inr (1, db1)"
    "completionOf env input (attemptCount d) (max (max (completeNow input) (deliveryUpdatedAt d)) (startedAt a))
       (errorCode evidence) = Inr c"
    "updateDeliveries (\<lambda>d. deliveryId d = completeDeliveryId input \<and> holdsLease (completeLeaseToken input) d)
       (applyCompletion c (max (max (completeNow input) (deliveryUpdatedAt d)) (startedAt a))) db1 = Inr (1, db')"
    "\<exists>row. List.find (\<lambda>d. deliveryId d = completeDeliveryId input) (webhookDeliveries db') = Some row \<and>
       mapDelivery row = Inr r"
proof -
  obtain d a where da: "findLeased input db = Inr (d, a)" "validateComplete input = Inr ()"
    using assms by (auto simp: completeAttempt_def result_simps Let_def)
  let ?t = "max (max (completeNow input) (deliveryUpdatedAt d)) (startedAt a)"
  obtain evidence c db1 row where
    "validateCompleteAttemptEvidence env input (attemptProtocol a) = Inr evidence"
    "updateAttempts (\<lambda>a. attemptId a = completeAttemptId input \<and> attemptOutcome a = STARTED)
       (finishAttempt (completeOutcome input) evidence ?t) db = Inr (1, db1)"
    "completionOf env input (attemptCount d) ?t (errorCode evidence) = Inr c"
    "updateDeliveries (\<lambda>d. deliveryId d = completeDeliveryId input \<and> holdsLease (completeLeaseToken input) d)
       (applyCompletion c ?t) db1 = Inr (1, db')"
    "List.find (\<lambda>d. deliveryId d = completeDeliveryId input) (webhookDeliveries db') = Some row"
    "mapDelivery row = Inr r"
    using assms da by (auto simp: completeAttempt_def result_simps Let_def split: option.splits)
  then show thesis using that [OF da(2,1)] by blast
qed

lemma completeAttempt_moves [notify_moves]:
  assumes inv: "notifyInv db" and c: "completeAttempt env input db = Inr (r, db')"
  shows "moves db db'"
proof -
  obtain d a evidence c db1 where f: "findLeased input db = Inr (d, a)"
    and ua: "updateAttempts (\<lambda>a. attemptId a = completeAttemptId input \<and> attemptOutcome a = STARTED)
       (finishAttempt (completeOutcome input) evidence
         (max (max (completeNow input) (deliveryUpdatedAt d)) (startedAt a))) db = Inr (1, db1)"
    and c: "completionOf env input (attemptCount d)
       (max (max (completeNow input) (deliveryUpdatedAt d)) (startedAt a)) (errorCode evidence) = Inr c"
    and ud: "updateDeliveries (\<lambda>d. deliveryId d = completeDeliveryId input \<and>
        holdsLease (completeLeaseToken input) d)
       (applyCompletion c (max (max (completeNow input) (deliveryUpdatedAt d)) (startedAt a))) db1 = Inr (1, db')"
    by (rule completeAttempt_Inr [OF c])
  note d = findLeased_Inr [OF f]
  have "attemptDeliveryId x = deliveryId d"
    if "x \<in> set (webhookAttempts db)" "attemptId x = completeAttemptId input" for x
  proof -
    have "inj_on attemptId (set (webhookAttempts db))"
      using inv by (auto simp: notifyInv_def attemptKeys_def distinct_map)
    then have "x = a" by (rule inj_onD) (use that d in auto)
    then show ?thesis using d(5) by simp
  qed
  then show ?thesis
    using d delivery_unique [OF inv] completionOf_Inr [OF c]
    by (intro moves1 finished [OF d(1) _ ua ud]) (auto simp: holdsLease_def applyCompletion_def)
qed

subsection \<open>Replaying\<close>

lemma newestDelivery_fold:
  "fold (\<lambda>d best. case best of None \<Rightarrow> Some d
      | Some b \<Rightarrow> if deliveryGeneration b < deliveryGeneration d then Some d else Some b) rows acc = Some m \<Longrightarrow>
   (m \<in> set rows \<or> acc = Some m) \<and> (\<forall>x \<in> set rows. deliveryGeneration x \<le> deliveryGeneration m) \<and>
   (\<forall>x. acc = Some x \<longrightarrow> deliveryGeneration x \<le> deliveryGeneration m)"
proof (induction rows arbitrary: acc)
  case (Cons d rows)
  let ?acc = "case acc of None \<Rightarrow> Some d
      | Some b \<Rightarrow> if deliveryGeneration b < deliveryGeneration d then Some d else Some b"
  have "(m \<in> set rows \<or> ?acc = Some m) \<and> (\<forall>x \<in> set rows. deliveryGeneration x \<le> deliveryGeneration m) \<and>
      (\<forall>x. ?acc = Some x \<longrightarrow> deliveryGeneration x \<le> deliveryGeneration m)"
    by (rule Cons.IH) (use Cons.prems in simp)
  then show ?case by (auto split: option.splits if_splits)
qed simp

lemma newestDelivery_Some:
  "newestDelivery rows = Some m \<Longrightarrow>
   m \<in> set rows \<and> (\<forall>x \<in> set rows. deliveryGeneration x \<le> deliveryGeneration m)"
  using newestDelivery_fold [of rows None m] by (auto simp: newestDelivery_def)

lemma replayNew_Inr:
  assumes "replayNew env input original db = Inr (r, db')"
  obtains latest db1 created where
    "newestDelivery (filter (samePair original) (webhookDeliveries db)) = Some latest"
    "deliveryId latest = deliveryId original" "isTerminal (deliveryStatus latest)"
    "insertDelivery (redelivery env input db original (deliveryGeneration latest + 1)
       (max (replayNow input) (deliveryUpdatedAt original))) db = Inr db1"
    "webhookDeliveries db' = webhookDeliveries db1" "webhookAttempts db' = webhookAttempts db1"
    "List.find (\<lambda>d. requestKey d = redeliveryId input) (webhookDeliveries db') = Some created"
    "mapDelivery created = Inr (fst r)" "\<not> snd r"
  using assms by (auto simp: replayNew_def result_simps Let_def split: option.splits)

lemma replayNew_moves:
  assumes "replayNew env input original db = Inr (r, db')"
  shows "moves db db'"
proof -
  obtain latest :: delivery_row and db1 where r: "insertDelivery (redelivery env input db original
        (deliveryGeneration latest + 1) (max (replayNow input) (deliveryUpdatedAt original))) db = Inr db1"
      "webhookDeliveries db' = webhookDeliveries db1" "webhookAttempts db' = webhookAttempts db1"
    by (rule replayNew_Inr [OF assms]) blast
  have "move db db1" by (rule newDelivery [OF r(1)]) (simp_all add: redelivery_def)
  then show ?thesis using moves_elsewhere [OF r(2,3)] by (rule converse_rtranclp_into_rtranclp)
qed

lemma replay_Inr:
  assumes "replay env input db = Inr (r, db')"
  obtains original where "validateReplay env input = Inr ()"
    "List.find (\<lambda>d. deliveryId d = replayDeliveryId input) (webhookDeliveries db) = Some original"
    "(\<exists>existing. List.find (\<lambda>d. requestKey d = redeliveryId input) (webhookDeliveries db) = Some existing \<and>
        sameReplay env input original existing \<and> mapDelivery existing = Inr (fst r) \<and> snd r \<and> db' = db) \<or>
     List.find (\<lambda>d. requestKey d = redeliveryId input) (webhookDeliveries db) = None \<and>
       replayNew env input original db = Inr (r, db')"
  using assms by (auto simp: replay_def result_simps split: option.splits)

lemma replay_moves [notify_moves]:
  assumes "replay env input db = Inr (r, db')"
  shows "moves db db'"
proof -
  obtain original where "db' = db \<or> replayNew env input original db = Inr (r, db')"
    by (rule replay_Inr [OF assms]) auto
  then show ?thesis using replayNew_moves by (metis rtranclp.rtrancl_refl)
qed

subsection \<open>Sequences of operations\<close>

text \<open>The last operation is any change another store makes to the other tables.\<close>

datatype notify_operation =
    Materialize notify_env int int "jstr option"
  | ClaimNext notify_env claim_input
  | CompleteAttempt notify_env complete_input
  | RecoverExpired int
  | Replay notify_env replay_input
  | OtherTables notify_db

fun notifyStep :: "notify_operation \<Rightarrow> notify_db \<Rightarrow> notify_db" where
  "notifyStep (Materialize env limit now client) db = snd (dbWrite (materialize env limit now client) db)"
| "notifyStep (ClaimNext env input) db = snd (dbWrite (claimNext env input) db)"
| "notifyStep (CompleteAttempt env input) db = snd (dbWrite (completeAttempt env input) db)"
| "notifyStep (RecoverExpired now) db = snd (dbWrite (recoverExpired now) db)"
| "notifyStep (Replay env input) db = snd (dbWrite (replay env input) db)"
| "notifyStep (OtherTables other) db =
     other\<lparr>webhookDeliveries := webhookDeliveries db, webhookAttempts := webhookAttempts db\<rparr>"

lemma dbWrite_moves:
  "(\<And>r db'. operation db = Inr (r, db') \<Longrightarrow> moves db db') \<Longrightarrow> moves db (snd (dbWrite operation db))"
  by (auto simp: dbWrite_def split: sum.splits)

lemma notifyStep_moves:
  assumes "notifyInv db"
  shows "moves db (notifyStep operation db)"
proof (cases operation)
  case Materialize
  show ?thesis unfolding Materialize notifyStep.simps by (rule dbWrite_moves) (rule materialize_moves)
next
  case ClaimNext
  show ?thesis unfolding ClaimNext notifyStep.simps by (rule dbWrite_moves) (rule claimNext_moves [OF assms])
next
  case CompleteAttempt
  show ?thesis unfolding CompleteAttempt notifyStep.simps
    by (rule dbWrite_moves) (rule completeAttempt_moves [OF assms])
next
  case RecoverExpired
  show ?thesis unfolding RecoverExpired notifyStep.simps
    by (rule dbWrite_moves) (rule recoverExpired_moves [OF _ assms])
next
  case Replay
  show ?thesis unfolding Replay notifyStep.simps by (rule dbWrite_moves) (rule replay_moves)
next
  case OtherTables
  show ?thesis unfolding OtherTables notifyStep.simps by (rule moves_elsewhere) simp_all
qed

lemma notifyAdvances_length: "notifyAdvances db db' \<Longrightarrow> length (webhookDeliveries db) \<le> length (webhookDeliveries db')"
  by (auto simp: notifyAdvances_def dest: list_all2_lengthD)

interpretation notifications: monotone_store notifyStep notifyInv "\<lambda>db. int (length (webhookDeliveries db))"
proof
  fix db operation
  assume inv: "notifyInv db"
  note m = notifyStep_moves [OF inv, of operation]
  show "notifyInv (notifyStep operation db)" by (rule moves_inv [OF m inv])
  show "int (length (webhookDeliveries db)) \<le> int (length (webhookDeliveries (notifyStep operation db)))"
    using notifyAdvances_length [OF moves_advances [OF m]] by simp
qed

lemma run_moves: "notifyInv db \<Longrightarrow> moves db (fold notifyStep operations db)"
proof (induction operations arbitrary: db)
  case (Cons operation operations)
  have "moves db (notifyStep operation db)" by (rule notifyStep_moves [OF Cons.prems])
  moreover have "moves (notifyStep operation db) (fold notifyStep operations (notifyStep operation db))"
    by (rule Cons.IH) (rule notifications.step_inv [OF Cons.prems])
  ultimately show ?case by (simp add: rtranclp_trans)
qed simp

lemma run_evolves:
  assumes "notifyInv db" "d \<in> set (webhookDeliveries db)"
  shows "\<exists>e \<in> set (webhookDeliveries (fold notifyStep operations db)). deliveryEvolves d e"
proof -
  obtain moved new where "webhookDeliveries (fold notifyStep operations db) = moved @ new"
      "list_all2 deliveryEvolves (webhookDeliveries db) moved"
    using moves_advances [OF run_moves [OF assms(1), of operations]] by (auto simp: notifyAdvances_def)
  then show ?thesis using list_all2_right [of deliveryEvolves] assms(2) by fastforce
qed

end
