(* ===== verification/NotificationProgress.thy ===== *)
theory NotificationProgress
  imports NotificationSafety
begin

text \<open>
  The application code and the constraints agree: from a state of the invariant, recovering leases
  always succeeds and leaves no expired lease, and a claim or a completion never runs into a key, a
  \<open>CHECK\<close> or a trigger of the tables.
\<close>

subsection \<open>Keys as injectivity\<close>

lemma distinct_map_filter:
  "distinct rows \<Longrightarrow> distinct (List.map_filter g rows) \<longleftrightarrow> inj_on g {x \<in> set rows. g x \<noteq> None}"
proof (induction rows)
  case (Cons r rows)
  have range: "y \<in> set (List.map_filter g rows) \<longleftrightarrow> (\<exists>x \<in> set rows. g x = Some y)" for y
    by (auto simp: map_filter_def image_iff)
  show ?case
  proof (cases "g r")
    case None
    then have "{x \<in> set (r # rows). g x \<noteq> None} = {x \<in> set rows. g x \<noteq> None}" by auto
    then show ?thesis using Cons None by (simp add: map_filter_def)
  next
    case (Some y)
    let ?A = "{x \<in> set rows. g x \<noteq> None}"
    have e: "{x \<in> set (r # rows). g x \<noteq> None} = insert r ?A" using Some by auto
    have "r \<notin> ?A" using Cons.prems by simp
    then have "inj_on g (insert r ?A) \<longleftrightarrow> inj_on g ?A \<and> g r \<notin> g ` ?A" by (simp add: inj_on_insert)
    moreover have "g r \<in> g ` ?A \<longleftrightarrow> y \<in> set (List.map_filter g rows)"
      unfolding range using Some by (auto simp: image_iff)
    moreover have "distinct (List.map_filter g (r # rows)) \<longleftrightarrow>
        y \<notin> set (List.map_filter g rows) \<and> distinct (List.map_filter g rows)"
      using Some by (simp add: map_filter_simps)
    ultimately show ?thesis using Cons.IH Cons.prems unfolding e by auto
  qed
qed (simp add: map_filter_def)

definition uniqueKeys :: "delivery_row set \<Rightarrow> bool" where
  "uniqueKeys S \<longleftrightarrow>
     inj_on requestKey S \<and> inj_on (\<lambda>d. (deliveryEventId d, deliveryTargetId d, deliveryGeneration d)) S \<and>
     inj_on leaseToken {d \<in> S. leaseToken d \<noteq> None} \<and>
     inj_on (\<lambda>d. (deliveryEventId d, deliveryTargetId d)) {d \<in> S. isActiveStatus (deliveryStatus d)}"

lemma deliveryKeys_iff:
  "deliveryKeys rows \<longleftrightarrow> distinct (map deliveryId rows) \<and> uniqueKeys (set rows)"
proof (cases "distinct rows")
  case True
  then show ?thesis
    by (auto simp: deliveryKeys_def uniqueKeys_def distinct_map_filter distinct_map)
next
  case False
  then show ?thesis by (auto simp: deliveryKeys_def distinct_map)
qed

lemma uniqueKeysD:
  assumes "uniqueKeys S" "x \<in> S" "y \<in> S"
  shows "leaseToken x = leaseToken y \<Longrightarrow> leaseToken x \<noteq> None \<Longrightarrow> x = y"
    and "isActiveStatus (deliveryStatus x) \<Longrightarrow> isActiveStatus (deliveryStatus y) \<Longrightarrow>
      deliveryEventId x = deliveryEventId y \<Longrightarrow> deliveryTargetId x = deliveryTargetId y \<Longrightarrow> x = y"
  using assms unfolding uniqueKeys_def inj_on_def by simp_all

lemma updateRows_image: "set (updateRows p f rows) = (\<lambda>x. if p x then f x else x) ` set rows"
  by (auto simp: updateRows_def)

text \<open>
  An update that keeps the identity of every row, makes none active and gives no token that another
  row holds keeps the keys.
\<close>

lemma deliveryKeys_update:
  assumes keys: "deliveryKeys rows"
    and same: "\<And>x. x \<in> set rows \<Longrightarrow> p x \<Longrightarrow> deliveryIdentity x (f x) \<and>
      (isActiveStatus (deliveryStatus (f x)) \<longrightarrow> isActiveStatus (deliveryStatus x))"
    and token: "\<And>x y. x \<in> set rows \<Longrightarrow> y \<in> set rows \<Longrightarrow> p x \<Longrightarrow> leaseToken (f x) \<noteq> None \<Longrightarrow>
      leaseToken (if p y then f y else y) = leaseToken (f x) \<Longrightarrow> y = x"
  shows "deliveryKeys (updateRows p f rows)"
proof -
  let ?h = "\<lambda>x. if p x then f x else x"
  have h: "deliveryIdentity x (?h x)" "isActiveStatus (deliveryStatus (?h x)) \<Longrightarrow> isActiveStatus (deliveryStatus x)"
    if "x \<in> set rows" for x
    using same [OF that] by (auto split: if_splits)
  have ids: "map deliveryId (updateRows p f rows) = map deliveryId rows"
    by (rule map_updateRows) (use same in \<open>simp add: deliveryIdentity_def\<close>)
  have u: "uniqueKeys (set rows)" using keys by (simp add: deliveryKeys_iff)
  have 1: "inj_on requestKey (?h ` set rows)"
  proof (rule inj_onI, elim imageE)
    fix a b x y
    assume xy: "requestKey a = requestKey b" "a = ?h x" "b = ?h y" "x \<in> set rows" "y \<in> set rows"
    then have "requestKey x = requestKey y" using h(1) by (simp add: deliveryIdentity_def)
    then have "x = y" using u xy by (auto simp: uniqueKeys_def dest: inj_onD)
    then show "a = b" using xy by simp
  qed
  have 2: "inj_on (\<lambda>d. (deliveryEventId d, deliveryTargetId d, deliveryGeneration d)) (?h ` set rows)"
  proof (rule inj_onI, elim imageE)
    fix a b x y
    assume xy: "(deliveryEventId a, deliveryTargetId a, deliveryGeneration a) =
        (deliveryEventId b, deliveryTargetId b, deliveryGeneration b)"
      "a = ?h x" "b = ?h y" "x \<in> set rows" "y \<in> set rows"
    then have "(deliveryEventId x, deliveryTargetId x, deliveryGeneration x) =
        (deliveryEventId y, deliveryTargetId y, deliveryGeneration y)"
      using h(1) by (simp add: deliveryIdentity_def)
    then have "x = y" using u xy unfolding uniqueKeys_def by (metis (mono_tags, lifting) inj_onD)
    then show "a = b" using xy by simp
  qed
  have 3: "inj_on leaseToken {d \<in> ?h ` set rows. leaseToken d \<noteq> None}"
  proof (rule inj_onI)
    fix a b
    assume ab: "a \<in> {d \<in> ?h ` set rows. leaseToken d \<noteq> None}" "b \<in> {d \<in> ?h ` set rows. leaseToken d \<noteq> None}"
      "leaseToken a = leaseToken b"
    then obtain x y where xy: "leaseToken a = leaseToken b" "leaseToken b \<noteq> None" "leaseToken a \<noteq> None"
        "a = ?h x" "b = ?h y" "x \<in> set rows" "y \<in> set rows" by blast
    have "x = y"
    proof (cases "p x \<or> p y")
      case True
      then show ?thesis
      proof
        assume p: "p x"
        have "y = x" by (rule token [OF xy(6,7) p]) (use xy(1-5) p in simp_all)
        then show ?thesis by simp
      next
        assume p: "p y"
        show ?thesis by (rule token [OF xy(7,6) p]) (use xy(1-5) p in simp_all)
      qed
    next
      case False
      then have "leaseToken x = leaseToken y" "leaseToken x \<noteq> None" using xy by auto
      then show ?thesis by (rule uniqueKeysD(1) [OF u xy(6,7)])
    qed
    then show "a = b" using xy by simp
  qed
  have 4: "inj_on (\<lambda>d. (deliveryEventId d, deliveryTargetId d))
      {d \<in> ?h ` set rows. isActiveStatus (deliveryStatus d)}"
  proof (rule inj_onI)
    fix a b
    assume "a \<in> {d \<in> ?h ` set rows. isActiveStatus (deliveryStatus d)}"
      "b \<in> {d \<in> ?h ` set rows. isActiveStatus (deliveryStatus d)}"
      "(deliveryEventId a, deliveryTargetId a) = (deliveryEventId b, deliveryTargetId b)"
    then obtain x y where xy: "deliveryEventId a = deliveryEventId b" "deliveryTargetId a = deliveryTargetId b"
        "isActiveStatus (deliveryStatus a)" "isActiveStatus (deliveryStatus b)"
        "a = ?h x" "b = ?h y" "x \<in> set rows" "y \<in> set rows" by blast
    have "deliveryEventId x = deliveryEventId y" "deliveryTargetId x = deliveryTargetId y"
      using xy(1,2) h(1) [OF xy(7)] h(1) [OF xy(8)] unfolding xy(5,6) deliveryIdentity_def by metis+
    moreover have "isActiveStatus (deliveryStatus x)" "isActiveStatus (deliveryStatus y)"
      using xy(3,4) h(2) [OF xy(7)] h(2) [OF xy(8)] unfolding xy(5,6) by blast+
    ultimately have "x = y" using uniqueKeysD(2) [OF u xy(7,8)] by blast
    then show "a = b" using xy by simp
  qed
  show ?thesis
    using keys 1 2 3 4 by (simp add: deliveryKeys_iff ids uniqueKeys_def updateRows_image)
qed

lemma attemptKeys_update:
  assumes "attemptKeys rows" "\<And>a. a \<in> set rows \<Longrightarrow> p a \<Longrightarrow> attemptUpdateAllowed a (f a)"
  shows "attemptKeys (updateRows p f rows)"
proof -
  have "map attemptId (updateRows p f rows) = map attemptId rows"
    "map attemptLeaseToken (updateRows p f rows) = map attemptLeaseToken rows"
    "map (\<lambda>a. (attemptDeliveryId a, attemptNumber a)) (updateRows p f rows) =
     map (\<lambda>a. (attemptDeliveryId a, attemptNumber a)) rows"
    by (rule map_updateRows; use assms(2) in \<open>simp add: attemptUpdateAllowed_def\<close>)+
  then show ?thesis using assms(1) by (simp add: attemptKeys_def)
qed

text \<open>An update of one row succeeds when its row passes the checks.\<close>

lemma changes_unique:
  assumes "distinct rows" "r \<in> set rows" "p r" "\<And>x. x \<in> set rows \<Longrightarrow> p x \<Longrightarrow> x = r"
  shows "changes p rows = 1"
proof -
  have "set (filter p rows) = {r}" unfolding set_filter using assms(2-4) by blast
  then have "card (set (filter p rows)) = 1" by simp
  then show ?thesis using distinct_card [of "filter p rows"] assms(1) by (simp add: changes_def)
qed

lemma distinct_rows:
  assumes "notifyInv db"
  shows "distinct (webhookDeliveries db)" "distinct (webhookAttempts db)"
  using assms by (auto simp: notifyInv_def deliveryKeys_def attemptKeys_def distinct_map)

lemma updateAttempts_one:
  assumes "notifyInv db" and a: "a \<in> set (webhookAttempts db)" "p a"
      "\<And>b. b \<in> set (webhookAttempts db) \<Longrightarrow> p b \<Longrightarrow> b = a"
    and ok: "attemptUpdateAllowed a (f a)" "attemptChecks (f a)"
  shows "updateAttempts p f db = Inr (1, db\<lparr>webhookAttempts := updateRows p f (webhookAttempts db)\<rparr>)"
proof -
  have "changes p (webhookAttempts db) = 1"
    by (rule changes_unique [where p = p, OF distinct_rows(2) [OF assms(1)] a])
  moreover have "attemptKeys (updateRows p f (webhookAttempts db))"
  proof (rule attemptKeys_update)
    show "attemptKeys (webhookAttempts db)" using assms(1) by (simp add: notifyInv_def)
  next
    fix b assume "b \<in> set (webhookAttempts db)" "p b"
    then have "b = a" by (rule a(3))
    then show "attemptUpdateAllowed b (f b)" using ok by simp
  qed
  moreover have "attemptUpdateAllowed b (f b) \<and> attemptChecks (f b)"
    if "b \<in> set (webhookAttempts db)" "p b" for b
    using a(3) [OF that] ok by simp
  ultimately show ?thesis unfolding updateAttempts_Inr by simp
qed

lemma updateDeliveries_one:
  assumes "notifyInv db" and d: "d \<in> set (webhookDeliveries db)" "p d"
      "\<And>x. x \<in> set (webhookDeliveries db) \<Longrightarrow> p x \<Longrightarrow> x = d"
    and ok: "deliveryUpdateAllowed d (f d)" "deliveryChecks (f d)" "deliveryIdentity d (f d)"
      "isActiveStatus (deliveryStatus (f d)) \<Longrightarrow> isActiveStatus (deliveryStatus d)"
    and token: "\<And>y. y \<in> set (webhookDeliveries db) \<Longrightarrow> leaseToken (f d) \<noteq> None \<Longrightarrow> leaseToken y = leaseToken (f d) \<Longrightarrow> y = d"
  shows "updateDeliveries p f db = Inr (1, db\<lparr>webhookDeliveries := updateRows p f (webhookDeliveries db)\<rparr>)"
proof -
  have "changes p (webhookDeliveries db) = 1"
    by (rule changes_unique [where p = p, OF distinct_rows(1) [OF assms(1)] d])
  moreover have "deliveryKeys (updateRows p f (webhookDeliveries db))"
  proof (rule deliveryKeys_update)
    show "deliveryKeys (webhookDeliveries db)" using assms(1) by (simp add: notifyInv_def)
  next
    fix x assume "x \<in> set (webhookDeliveries db)" "p x"
    then have "x = d" by (rule d(3))
    then show "deliveryIdentity x (f x) \<and> (isActiveStatus (deliveryStatus (f x)) \<longrightarrow> isActiveStatus (deliveryStatus x))"
      using ok by simp
  next
    fix x y
    assume xy: "x \<in> set (webhookDeliveries db)" "y \<in> set (webhookDeliveries db)" "p x" "leaseToken (f x) \<noteq> None"
      "leaseToken (if p y then f y else y) = leaseToken (f x)"
    have x: "x = d" by (rule d(3) [OF xy(1,3)])
    show "y = x"
    proof (cases "p y")
      case True
      then show ?thesis using d(3) [OF xy(2)] x by simp
    next
      case False
      then show ?thesis using token [OF xy(2)] xy(4,5) x by simp
    qed
  qed
  moreover have "deliveryUpdateAllowed x (f x) \<and> deliveryChecks (f x)"
    if "x \<in> set (webhookDeliveries db)" "p x" for x
    using d(3) [OF that] ok by simp
  ultimately show ?thesis unfolding updateDeliveries_Inr by simp
qed

subsection \<open>Recovering always succeeds\<close>

lemma leased_fields:
  assumes "notifyInv db" "d \<in> set (webhookDeliveries db)" "deliveryStatus d = LEASED"
  obtains t e where "leaseToken d = Some t" "length t = 36" "leaseExpiresAt d = Some e" "deliveryUpdatedAt d < e"
    "1 \<le> attemptCount d"
  using notifyInvD(1,2) [OF assms(1,2)] assms(3)
  by (auto simp: deliveryChecks_def statusChecks_def deliveryTimes_def isWaiting_def)

text \<open>The open attempt of a leased delivery: it exists, it is the one its lease names, and no other row is.\<close>

lemma open_attempt:
  assumes inv: "notifyInv db" and d: "d \<in> set (webhookDeliveries db)" "deliveryStatus d = LEASED"
  obtains a where "a \<in> set (webhookAttempts db)" "attemptOfLease d a" "startedAt a = deliveryUpdatedAt d"
    "\<And>b. b \<in> set (webhookAttempts db) \<Longrightarrow> attemptOfLease d b \<Longrightarrow> b = a"
proof -
  obtain t where t: "1 \<le> attemptCount d" by (rule leased_fields [OF inv d]) blast
  have ok: "attemptsOk (webhookAttempts db) d" by (rule notifyInvD(3) [OF inv d(1)])
  have "attemptCount d \<in> set [1..attemptCount d]" using t by simp
  also have "\<dots> = attemptNumber ` set (attemptsOf d (webhookAttempts db))"
    using ok unfolding attemptsOk_def by (metis list.set_map)
  finally obtain a where a: "a \<in> set (attemptsOf d (webhookAttempts db))" "attemptNumber a = attemptCount d"
    by auto
  have "attemptOk d a" using ok a(1) by (simp add: attemptsOk_def)
  then have s: "attemptOutcome a = STARTED" "leaseToken d = Some (attemptLeaseToken a)"
      "startedAt a = deliveryUpdatedAt d"
    using a(2) d(2) by (auto simp: attemptOk_def)
  have mem: "a \<in> set (webhookAttempts db)" "attemptDeliveryId a = deliveryId d"
    using a(1) by (auto simp: attemptsOf_def)
  show thesis
  proof (rule that [OF mem(1) _ s(3)])
    show "attemptOfLease d a" using a(2) s mem(2) by (simp add: attemptOfLease_def)
  next
    fix b
    assume "b \<in> set (webhookAttempts db)" "attemptOfLease d b"
    then show "b = a" using attempt_unique [OF inv _ mem(1)] mem(2) a(2) by (simp add: attemptOfLease_def)
  qed
qed

lemma isCodeText_recovery:
  "isCodeText ''lease_expired_outcome_unknown''" "isCodeText ''maximum_attempts_reached''"
  by (simp_all add: isCodeText_def)

lemma recoverRow_total:
  assumes inv: "notifyInv db" and d: "d \<in> set (webhookDeliveries db)" "deliveryStatus d = LEASED"
    and expired: "leaseExpiresAt d = Some e" "e \<le> now"
  obtains db1 db2 where
    "updateAttempts (attemptOfLease d) (expireAttempt now) db = Inr (1, db1)"
    "updateDeliveries (sameLease d) (expireLease now) db1 = Inr (1, db2)"
proof -
  obtain a where a: "a \<in> set (webhookAttempts db)" "attemptOfLease d a" "startedAt a = deliveryUpdatedAt d"
      "\<And>b. b \<in> set (webhookAttempts db) \<Longrightarrow> attemptOfLease d b \<Longrightarrow> b = a"
    by (rule open_attempt [OF inv d]) blast
  obtain t e' where f: "leaseToken d = Some t" "length t = 36" "leaseExpiresAt d = Some e'"
      "deliveryUpdatedAt d < e'" "1 \<le> attemptCount d"
    by (rule leased_fields [OF inv d])
  have now: "deliveryUpdatedAt d \<le> now" using f(3,4) expired by simp
  have checks: "attemptChecks a" using inv a(1) by (auto simp: notifyInv_def)
  have aUp: "attemptUpdateAllowed a (expireAttempt now a)" "attemptChecks (expireAttempt now a)"
    using a(2,3) checks now isCodeText_recovery(1)
    by (auto simp: attemptUpdateAllowed_def expireAttempt_def attemptOfLease_def attemptChecks_def
        evidenceChecks_def protocolChecks_def outcomeChecks_def noEvidence_def Let_def)
  let ?db1 = "db\<lparr>webhookAttempts := updateRows (attemptOfLease d) (expireAttempt now) (webhookAttempts db)\<rparr>"
  have "updateAttempts (attemptOfLease d) (expireAttempt now) db = Inr (1, ?db1)"
    by (rule updateAttempts_one [where p = "attemptOfLease d" and f = "expireAttempt now", OF inv a(1,2,4) aUp])
  moreover have "\<exists>db2. updateDeliveries (sameLease d) (expireLease now) ?db1 = Inr (1, db2)"
  proof -
    have only: "x = d" if "x \<in> set (webhookDeliveries db)" "sameLease d x" for x
      using delivery_unique [OF inv that(1) d(1)] that(2) by (simp add: sameLease_def)
    have up: "deliveryUpdateAllowed d (expireLease now d)" "deliveryIdentity d (expireLease now d)"
      "isActiveStatus (deliveryStatus d)" "leaseToken (expireLease now d) = None"
      using d(2) now
      by (simp_all add: deliveryUpdateAllowed_def deliveryIdentity_def statusTransition_def expireLease_def
          isActiveStatus_def)
    have checks: "deliveryChecks (expireLease now d)"
      using notifyInvD(1) [OF inv d(1)] d(2) now isCodeText_recovery(1) f
      by (simp add: expireLease_def deliveryChecks_def requesterChecks_def statusChecks_def isWaiting_def)
    have "updateDeliveries (sameLease d) (expireLease now) db =
        Inr (1, db\<lparr>webhookDeliveries := updateRows (sameLease d) (expireLease now) (webhookDeliveries db)\<rparr>)"
      by (rule updateDeliveries_one [where p = "sameLease d" and f = "expireLease now", OF inv d(1) _ only up(1) checks up(2)])
        (use d(2) f(1) up(3,4) in \<open>simp_all add: sameLease_def\<close>)
    then show ?thesis unfolding updateDeliveries_Inr by simp
  qed
  ultimately show thesis using that by blast
qed

text \<open>Rows whose identifier is not in the list are untouched, and no row of the list stays leased.\<close>

lemma recoverRow_rows:
  assumes inv: "notifyInv db"
    and ua: "updateAttempts (attemptOfLease d) (expireAttempt now) db = Inr (1, db1)"
    and ud: "updateDeliveries (sameLease d) (expireLease now) db1 = Inr (1, db2)"
    and x: "x \<in> set (webhookDeliveries db2)"
  shows "x \<in> set (webhookDeliveries db) \<and> deliveryId x \<noteq> deliveryId d \<or>
    deliveryStatus x = RETRY_WAIT \<and> deliveryId x = deliveryId d"
proof -
  have rows: "webhookDeliveries db2 = updateRows (sameLease d) (expireLease now) (webhookDeliveries db)"
    and one: "changes (sameLease d) (webhookDeliveries db) = 1"
    using ua ud by (auto simp: updateAttempts_Inr updateDeliveries_Inr)
  obtain r where r: "r \<in> set (webhookDeliveries db)" "sameLease d r" using changes_1_ex [OF one] by blast
  from x [unfolded rows] show ?thesis
  proof (cases rule: mem_updateRowsE)
    case (1 y)
    then show ?thesis by (simp add: expireLease_def sameLease_def)
  next
    case 2
    then have "deliveryId x \<noteq> deliveryId d"
      using delivery_unique [OF inv 2(1) r(1)] r(2) by (auto simp: sameLease_def)
    then show ?thesis using 2 by simp
  qed
qed

lemma recoverRows_rows:
  assumes "recoverRows now ds db = Inr (n, db')" "notifyInv db"
  shows "n = int (length ds) \<and>
    (\<forall>x \<in> set (webhookDeliveries db').
       x \<in> set (webhookDeliveries db) \<and> deliveryId x \<notin> deliveryId ` set ds \<or>
       deliveryStatus x \<noteq> LEASED \<and> deliveryId x \<in> deliveryId ` set ds)"
  using assms
proof (induction now ds db arbitrary: n rule: recoverRows.induct)
  case (2 now d ds db)
  obtain db1 db2 m where m: "isSafeInteger (attemptCount d)"
      "updateAttempts (attemptOfLease d) (expireAttempt now) db = Inr (1, db1)"
      "updateDeliveries (sameLease d) (expireLease now) db1 = Inr (1, db2)"
      "recoverRows now ds db2 = Inr (m, db')" "n = m + 1"
    using "2.prems" by (auto simp: result_simps)
  have inv2: "notifyInv db2" by (rule move_inv [OF recoverRow_move [OF "2.prems"(2) m(2,3)] "2.prems"(2)])
  have IH: "m = int (length ds) \<and>
    (\<forall>x \<in> set (webhookDeliveries db').
       x \<in> set (webhookDeliveries db2) \<and> deliveryId x \<notin> deliveryId ` set ds \<or>
       deliveryStatus x \<noteq> LEASED \<and> deliveryId x \<in> deliveryId ` set ds)"
    using m inv2 by (intro "2.IH" [OF _ m(2) _ _ m(3)]) (auto simp: result_simps)
  show ?case
  proof (intro conjI ballI)
    fix x
    assume "x \<in> set (webhookDeliveries db')"
    then have "x \<in> set (webhookDeliveries db2) \<and> deliveryId x \<notin> deliveryId ` set ds \<or>
       deliveryStatus x \<noteq> LEASED \<and> deliveryId x \<in> deliveryId ` set ds" using IH by blast
    then show "x \<in> set (webhookDeliveries db) \<and> deliveryId x \<notin> deliveryId ` set (d # ds) \<or>
       deliveryStatus x \<noteq> LEASED \<and> deliveryId x \<in> deliveryId ` set (d # ds)"
      using recoverRow_rows [OF "2.prems"(2) m(2,3), of x] by auto
  qed (use IH m(5) in simp)
qed auto

lemma recoverRows_total:
  assumes "notifyInv db" "distinct (map deliveryId ds)"
    "\<And>d. d \<in> set ds \<Longrightarrow> d \<in> set (webhookDeliveries db) \<and> deliveryStatus d = LEASED \<and>
       (\<exists>e. leaseExpiresAt d = Some e \<and> e \<le> now) \<and> isSafeInteger (attemptCount d)"
  shows "\<exists>n db'. recoverRows now ds db = Inr (n, db')"
  using assms
proof (induction ds arbitrary: db)
  case (Cons d ds)
  obtain e where d: "d \<in> set (webhookDeliveries db)" "deliveryStatus d = LEASED" "leaseExpiresAt d = Some e"
      "e \<le> now" "isSafeInteger (attemptCount d)"
    using Cons.prems(3) [of d] by auto
  obtain db1 db2 where m: "updateAttempts (attemptOfLease d) (expireAttempt now) db = Inr (1, db1)"
      "updateDeliveries (sameLease d) (expireLease now) db1 = Inr (1, db2)"
    by (rule recoverRow_total [OF Cons.prems(1) d(1-4)])
  have inv2: "notifyInv db2" by (rule move_inv [OF recoverRow_move [OF Cons.prems(1) m] Cons.prems(1)])
  have "\<exists>n db'. recoverRows now ds db2 = Inr (n, db')"
  proof (rule Cons.IH [OF inv2])
    fix x
    assume x: "x \<in> set ds"
    then have "x \<in> set (webhookDeliveries db)" "deliveryId x \<noteq> deliveryId d"
      using Cons.prems(2,3) by (auto simp: image_iff)
    moreover have "webhookDeliveries db2 = updateRows (sameLease d) (expireLease now) (webhookDeliveries db)"
      using m by (auto simp: updateAttempts_Inr updateDeliveries_Inr)
    ultimately have "x \<in> set (webhookDeliveries db2)"
      using mem_updateRows_image [of x "webhookDeliveries db" "sameLease d" "expireLease now"]
      by (simp add: sameLease_def)
    then show "x \<in> set (webhookDeliveries db2) \<and> deliveryStatus x = LEASED \<and>
       (\<exists>e. leaseExpiresAt x = Some e \<and> e \<le> now) \<and> isSafeInteger (attemptCount x)"
      using Cons.prems(3) [of x] x by auto
  qed (use Cons.prems(2) in simp)
  then show ?case using m d(5) by (auto simp: assertChangedOnce_def)
qed simp

lemma leaseExpired_D:
  "leaseExpired db now d \<Longrightarrow> deliveryStatus d = LEASED \<and> (\<exists>e. leaseExpiresAt d = Some e \<and> e \<le> now)"
  by (auto simp: leaseExpired_def split: option.splits)

definition countsSafe :: "notify_db \<Rightarrow> bool" where
  "countsSafe db \<longleftrightarrow> (\<forall>d \<in> set (webhookDeliveries db). isSafeInteger (attemptCount d))"

lemma expired_list:
  fixes now :: int
  assumes "notifyInv db"
  defines "ds \<equiv> sort_key (\<lambda>d. (case leaseExpiresAt d of None \<Rightarrow> 0 | Some t \<Rightarrow> t, deliveryId d))
         (filter (leaseExpired db now) (webhookDeliveries db))"
  shows "set ds = {d \<in> set (webhookDeliveries db). leaseExpired db now d}" "distinct (map deliveryId ds)"
    "length ds = changes (leaseExpired db now) (webhookDeliveries db)"
proof -
  show s: "set ds = {d \<in> set (webhookDeliveries db). leaseExpired db now d}"
    by (simp add: ds_def)
  show "length ds = changes (leaseExpired db now) (webhookDeliveries db)"
    by (simp add: ds_def changes_def)
  have "distinct ds" using distinct_rows(1) [OF assms(1)] by (simp add: ds_def)
  moreover have "inj_on deliveryId (set ds)"
    using delivery_unique [OF assms(1)] by (auto simp: s inj_on_def)
  ultimately show "distinct (map deliveryId ds)" by (simp add: distinct_map)
qed

lemma recoverExpiredLeases_total:
  assumes "notifyInv db" "countsSafe db"
  shows "\<exists>n db'. recoverExpiredLeases now db = Inr (n, db')"
  unfolding recoverExpiredLeases_def
  by (rule recoverRows_total [OF assms(1) expired_list(2) [OF assms(1)]])
    (use assms(2) expired_list(1) [OF assms(1), of now] leaseExpired_D in \<open>auto simp: countsSafe_def\<close>)

lemma recoverExpiredLeases_rows:
  assumes "recoverExpiredLeases now db = Inr (n, db')" "notifyInv db"
  shows "n = int (changes (leaseExpired db now) (webhookDeliveries db))"
    "x \<in> set (webhookDeliveries db') \<Longrightarrow>
       x \<in> set (webhookDeliveries db) \<and> \<not> leaseExpired db now x \<or>
       deliveryStatus x \<noteq> LEASED \<and>
         (\<exists>d \<in> set (webhookDeliveries db). leaseExpired db now d \<and> deliveryId x = deliveryId d)"
  using recoverRows_rows [OF assms(1) [unfolded recoverExpiredLeases_def] assms(2)] expired_list [OF assms(2), of now]
  by auto

end
