(* ===== verification/NotificationClaims.thy ===== *)
theory NotificationClaims
  imports NotificationProgress
begin

text \<open>
  What recovering and claiming do to the rows, in closed form: the recovery loop is one update of all
  expired leases, and a claim hands out exactly one delivery that nobody else may hold.
\<close>

subsection \<open>Recovery as one update\<close>

definition openAttemptOf :: "string set \<Rightarrow> attempt_row \<Rightarrow> bool" where
  "openAttemptOf ids a \<longleftrightarrow> attemptOutcome a = STARTED \<and> attemptDeliveryId a \<in> ids"

definition recoveredAt :: "int \<Rightarrow> notify_db \<Rightarrow> notify_db" where
  "recoveredAt now db =
     db\<lparr>webhookDeliveries := updateRows (leaseExpired db now) (expireLease now) (webhookDeliveries db),
        webhookAttempts :=
          updateRows (openAttemptOf (deliveryId ` set (filter (leaseExpired db now) (webhookDeliveries db))))
            (expireAttempt now) (webhookAttempts db)\<rparr>"

lemma rows_update_cong:
  "(\<And>x. x \<in> set rows \<Longrightarrow> p x = q x) \<Longrightarrow> updateRows p f rows = updateRows q f rows"
  by (simp add: updateRows_def)

lemma updateRows_kept: "x \<in> set rows \<Longrightarrow> \<not> p x \<Longrightarrow> x \<in> set (updateRows p f rows)"
  using mem_updateRows_image [of x rows p f] by simp

lemma updateRows_join:
  assumes "\<And>x. x \<in> set rows \<Longrightarrow> p x \<Longrightarrow> \<not> q (f x)"
  shows "updateRows q f (updateRows p f rows) = updateRows (\<lambda>x. p x \<or> q x) f rows"
  using assms by (simp add: updateRows_def)

lemma open_attempt_iff:
  assumes inv: "notifyInv db" and d: "d \<in> set (webhookDeliveries db)" "deliveryStatus d = LEASED"
    and a: "a \<in> set (webhookAttempts db)"
  shows "attemptOfLease d a \<longleftrightarrow> openAttemptOf {deliveryId d} a"
proof
  assume "openAttemptOf {deliveryId d} a"
  then have o: "attemptOutcome a = STARTED" "attemptDeliveryId a = deliveryId d"
    by (auto simp: openAttemptOf_def)
  then have "attemptOk d a"
    using notifyInvD(3) [OF inv d(1)] a by (auto simp: attemptsOk_def attemptsOf_def)
  then show "attemptOfLease d a" using o by (simp add: attemptOk_def attemptOfLease_def)
qed (simp add: attemptOfLease_def openAttemptOf_def)

lemma recoverRow_closed:
  assumes inv: "notifyInv db" and d: "d \<in> set (webhookDeliveries db)" "deliveryStatus d = LEASED"
    and ua: "updateAttempts (attemptOfLease d) (expireAttempt now) db = Inr (1, db1)"
    and ud: "updateDeliveries (sameLease d) (expireLease now) db1 = Inr (1, db2)"
  shows "db2 = db\<lparr>webhookDeliveries := updateRows (\<lambda>x. deliveryId x = deliveryId d) (expireLease now) (webhookDeliveries db),
       webhookAttempts := updateRows (openAttemptOf {deliveryId d}) (expireAttempt now) (webhookAttempts db)\<rparr>"
proof -
  obtain t where t: "leaseToken d = Some t" by (rule leased_fields [OF inv d])
  have "updateRows (sameLease d) (expireLease now) (webhookDeliveries db) =
      updateRows (\<lambda>x. deliveryId x = deliveryId d) (expireLease now) (webhookDeliveries db)"
  proof (rule rows_update_cong)
    fix x assume x: "x \<in> set (webhookDeliveries db)"
    show "sameLease d x = (deliveryId x = deliveryId d)"
      using delivery_unique [OF inv x d(1)] d(2) t by (auto simp: sameLease_def)
  qed
  moreover have "updateRows (attemptOfLease d) (expireAttempt now) (webhookAttempts db) =
      updateRows (openAttemptOf {deliveryId d}) (expireAttempt now) (webhookAttempts db)"
    by (rule rows_update_cong) (rule open_attempt_iff [OF inv d])
  ultimately show ?thesis using ua ud by (simp add: updateAttempts_Inr updateDeliveries_Inr)
qed

lemma recoverRows_closed:
  assumes "recoverRows now ds db = Inr (n, db')" "notifyInv db" "distinct (map deliveryId ds)"
    "\<And>d. d \<in> set ds \<Longrightarrow> d \<in> set (webhookDeliveries db) \<and> deliveryStatus d = LEASED"
  shows "db' = db\<lparr>webhookDeliveries := updateRows (\<lambda>x. deliveryId x \<in> deliveryId ` set ds) (expireLease now) (webhookDeliveries db),
       webhookAttempts := updateRows (openAttemptOf (deliveryId ` set ds)) (expireAttempt now) (webhookAttempts db)\<rparr>"
  using assms
proof (induction now ds db arbitrary: n rule: recoverRows.induct)
  case (1 now db)
  then show ?case by (simp add: updateRows_def openAttemptOf_def)
next
  case (2 now d ds db)
  obtain db1 db2 m where m: "isSafeInteger (attemptCount d)"
      "updateAttempts (attemptOfLease d) (expireAttempt now) db = Inr (1, db1)"
      "updateDeliveries (sameLease d) (expireLease now) db1 = Inr (1, db2)"
      "recoverRows now ds db2 = Inr (m, db')" "n = m + 1"
    using "2.prems"(1) by (auto simp: result_simps)
  have d: "d \<in> set (webhookDeliveries db)" "deliveryStatus d = LEASED" using "2.prems"(4) by auto
  have inv2: "notifyInv db2" by (rule move_inv [OF recoverRow_move [OF "2.prems"(2) m(2,3)] "2.prems"(2)])
  have db2: "db2 = db\<lparr>webhookDeliveries := updateRows (\<lambda>x. deliveryId x = deliveryId d) (expireLease now) (webhookDeliveries db),
       webhookAttempts := updateRows (openAttemptOf {deliveryId d}) (expireAttempt now) (webhookAttempts db)\<rparr>"
    by (rule recoverRow_closed [OF "2.prems"(2) d m(2,3)])
  have fresh: "deliveryId d \<notin> deliveryId ` set ds" using "2.prems"(3) by simp
  have "x \<in> set (webhookDeliveries db2) \<and> deliveryStatus x = LEASED" if x: "x \<in> set ds" for x
  proof -
    have "deliveryId x \<noteq> deliveryId d" using x fresh by (metis image_eqI)
    then show ?thesis
      using "2.prems"(4) [of x] x mem_updateRows_image [of x "webhookDeliveries db" "\<lambda>x. deliveryId x = deliveryId d"]
      by (simp add: db2)
  qed
  then have IH: "db' = db2\<lparr>webhookDeliveries := updateRows (\<lambda>x. deliveryId x \<in> deliveryId ` set ds) (expireLease now) (webhookDeliveries db2),
       webhookAttempts := updateRows (openAttemptOf (deliveryId ` set ds)) (expireAttempt now) (webhookAttempts db2)\<rparr>"
    using m inv2 "2.prems"(3) by (intro "2.IH" [OF _ m(2) _ _ m(3)]) (auto simp: result_simps)
  have "updateRows (\<lambda>x. deliveryId x \<in> deliveryId ` set ds) (expireLease now)
      (updateRows (\<lambda>x. deliveryId x = deliveryId d) (expireLease now) (webhookDeliveries db)) =
      updateRows (\<lambda>x. deliveryId x = deliveryId d \<or> deliveryId x \<in> deliveryId ` set ds) (expireLease now) (webhookDeliveries db)"
    by (rule updateRows_join) (use fresh in \<open>simp add: expireLease_def\<close>)
  moreover have "updateRows (openAttemptOf (deliveryId ` set ds)) (expireAttempt now)
      (updateRows (openAttemptOf {deliveryId d}) (expireAttempt now) (webhookAttempts db)) =
      updateRows (\<lambda>a. openAttemptOf {deliveryId d} a \<or> openAttemptOf (deliveryId ` set ds) a) (expireAttempt now) (webhookAttempts db)"
    by (rule updateRows_join) (simp add: openAttemptOf_def expireAttempt_def)
  moreover have "openAttemptOf (insert (deliveryId d) (deliveryId ` set ds)) =
      (\<lambda>a. openAttemptOf {deliveryId d} a \<or> openAttemptOf (deliveryId ` set ds) a)"
    by (auto simp: openAttemptOf_def)
  ultimately show ?case unfolding IH db2 by simp
qed

lemma recoverExpiredLeases_closed:
  assumes rec: "recoverExpiredLeases now db = Inr (n, db')" and inv: "notifyInv db"
  shows "db' = recoveredAt now db" "n = int (changes (leaseExpired db now) (webhookDeliveries db))"
proof -
  let ?ids = "deliveryId ` set (filter (leaseExpired db now) (webhookDeliveries db))"
  note l = expired_list [OF inv, of now]
  have "db' = db\<lparr>webhookDeliveries := updateRows (\<lambda>x. deliveryId x \<in> ?ids) (expireLease now) (webhookDeliveries db),
       webhookAttempts := updateRows (openAttemptOf ?ids) (expireAttempt now) (webhookAttempts db)\<rparr>"
    using recoverRows_closed [OF rec [unfolded recoverExpiredLeases_def] inv l(2)] leaseExpired_D
    unfolding l(1) by auto
  moreover have "updateRows (\<lambda>x. deliveryId x \<in> ?ids) (expireLease now) (webhookDeliveries db) =
      updateRows (leaseExpired db now) (expireLease now) (webhookDeliveries db)"
    by (rule rows_update_cong) (auto dest: delivery_unique [OF inv])
  ultimately show "db' = recoveredAt now db" by (simp add: recoveredAt_def)
  show "n = int (changes (leaseExpired db now) (webhookDeliveries db))"
    by (rule recoverExpiredLeases_rows(1) [OF rec inv])
qed

lemma recoverExpiredLeases_is:
  assumes "notifyInv db" "countsSafe db"
  shows "recoverExpiredLeases now db =
    Inr (int (changes (leaseExpired db now) (webhookDeliveries db)), recoveredAt now db)"
  using recoverExpiredLeases_total [OF assms, of now] recoverExpiredLeases_closed [OF _ assms(1)] by metis

lemma recoveredAt_rows:
  "x \<in> set (webhookDeliveries (recoveredAt now db)) \<longleftrightarrow>
   x \<in> set (webhookDeliveries db) \<and> \<not> leaseExpired db now x \<or>
   (\<exists>d \<in> set (webhookDeliveries db). leaseExpired db now d \<and> x = expireLease now d)"
  by (auto simp: recoveredAt_def updateRows_image)

subsection \<open>What a claim takes\<close>

text \<open>A row after the retirement of exhausted deliveries is an old row or a dead letter.\<close>

lemma deadLetter_rows:
  assumes "deadLetterExhaustedDeliveries maximum now client db = Inr (n, db')"
  shows "webhookDeliveries db' =
      updateRows (isExhausted db maximum client) (exhaust now) (webhookDeliveries db)"
    "webhookAttempts db' = webhookAttempts db"
  using assms by (auto simp: deadLetterExhaustedDeliveries_def result_simps updateDeliveries_Inr)

lemma deadLetter_waiting:
  assumes "deadLetterExhaustedDeliveries maximum now client db = Inr (n, db')"
    "x \<in> set (webhookDeliveries db')" "deliveryStatus x \<noteq> DEAD_LETTER"
  shows "x \<in> set (webhookDeliveries db)"
  using assms(2,3) unfolding deadLetter_rows(1) [OF assms(1)] updateRows_image
  by (auto simp: exhaust_def split: if_splits)

lemma claimSelected_Some:
  assumes "claimSelected env input nativeKey d db = Inr (Some c, db')"
  obtains epay key e t where "claimDelivery env input epay key e t d db = Inr (Some c, db')"
    "eventOf db (deliveryEventId d) = Some e" "targetWithId db (deliveryTargetId d) = Some t"
  using assms by (auto simp: claimSelected_def result_simps split: option.splits if_splits)

lemma claimNext_Some:
  assumes "claimNext env input db = Inr (Some c, db')" "notifyInv db"
  obtains db2 m d epay key e t where
    "deadLetterExhaustedDeliveries (claimMaximumAttempts input) (claimNow input) (claimClientId input)
       (recoveredAt (claimNow input) db) = Inr (m, db2)"
    "validateClaim input = Inr ()" "siteMayNotify input (recoveredAt (claimNow input) db)"
    "nextDue db2 (claimClientId input) (claimNow input) (claimMaximumAttempts input) = Some d"
    "claimDelivery env input epay key e t d db2 = Inr (Some c, db')"
    "eventOf db2 (deliveryEventId d) = Some e" "targetWithId db2 (deliveryTargetId d) = Some t"
proof -
  obtain n db1 where r: "recoverExpiredLeases (claimNow input) db = Inr (n, db1)" "validateClaim input = Inr ()"
    and rest: "\<exists>m key db2. siteMayNotify input db1 \<and>
        deadLetterExhaustedDeliveries (claimMaximumAttempts input) (claimNow input) (claimClientId input) db1
          = Inr (m, db2) \<and>
        (\<exists>d. nextDue db2 (claimClientId input) (claimNow input) (claimMaximumAttempts input) = Some d \<and>
             claimSelected env input key d db2 = Inr (Some c, db'))"
    by (rule claimNext_Inr [OF assms(1)]) blast
  have db1: "db1 = recoveredAt (claimNow input) db" by (rule recoverExpiredLeases_closed(1) [OF r(1) assms(2)])
  obtain m key db2 d where s: "siteMayNotify input db1"
      "deadLetterExhaustedDeliveries (claimMaximumAttempts input) (claimNow input) (claimClientId input) db1 = Inr (m, db2)"
      "nextDue db2 (claimClientId input) (claimNow input) (claimMaximumAttempts input) = Some d"
      "claimSelected env input key d db2 = Inr (Some c, db')"
    using rest by blast
  show thesis
    by (rule claimSelected_Some [OF s(4)], rule that [OF s(2) [unfolded db1] r(2) s(1) [unfolded db1] s(3)])
qed

text \<open>The row the claim selected, as it was before: waiting and due, or under a lease that had run out.\<close>

definition claimableAt :: "notify_db \<Rightarrow> int \<Rightarrow> delivery_row \<Rightarrow> bool" where
  "claimableAt db now d \<longleftrightarrow>
     isWaiting (deliveryStatus d) \<and> nextAttemptAt d \<le> now \<or> leaseExpired db now d"

lemma due_origin:
  assumes inv: "notifyInv db"
    and dead: "deadLetterExhaustedDeliveries maximum now client (recoveredAt now db) = Inr (m, db2)"
    and due: "nextDue db2 client now maximum = Some d"
  obtains d0 where "d0 \<in> set (webhookDeliveries db)" "claimableAt db now d0" "deliveryId d0 = deliveryId d"
    "attemptCount d0 = attemptCount d" "attemptCount d < maximum" "isWaiting (deliveryStatus d)"
    "d \<in> set (webhookDeliveries (recoveredAt now db))" "d \<in> set (webhookDeliveries db2)"
proof -
  note n = nextDue_SomeD [OF due]
  have w: "isWaiting (deliveryStatus d)" "nextAttemptAt d \<le> now" "attemptCount d < maximum"
    using n(2) by (simp_all add: isDue_def)
  have mem: "d \<in> set (webhookDeliveries (recoveredAt now db))"
    by (rule deadLetter_waiting [OF dead n(1)]) (use w(1) in \<open>auto simp: isWaiting_def\<close>)
  then consider "d \<in> set (webhookDeliveries db)"
    | d0 where "d0 \<in> set (webhookDeliveries db)" "leaseExpired db now d0" "d = expireLease now d0"
    unfolding recoveredAt_rows by blast
  then show thesis
  proof cases
    case 1
    then show ?thesis using that [of d] w mem n(1) by (simp add: claimableAt_def)
  next
    case (2 d0)
    then show ?thesis using that [of d0] w mem n(1) by (simp add: claimableAt_def expireLease_def)
  qed
qed

lemma due_unique:
  assumes inv: "notifyInv db"
    and dead: "deadLetterExhaustedDeliveries maximum now client (recoveredAt now db) = Inr (m, db2)"
    and safe: "recoverExpiredLeases now db = Inr (n, recoveredAt now db)"
  shows "notifyInv (recoveredAt now db)" "notifyInv db2"
proof -
  show one: "notifyInv (recoveredAt now db)"
    by (rule moves_inv [OF recoverExpiredLeases_moves [OF safe inv] inv])
  show "notifyInv db2" by (rule move_inv [OF deadLetter_move [OF dead] one])
qed

lemma claim_row:
  assumes claim: "claimNext env input db = Inr (Some c, db')" and inv: "notifyInv db"
  obtains d e where "d \<in> set (webhookDeliveries db)" "claimableAt db (claimNow input) d"
    "e \<in> set (webhookDeliveries db')" "deliveryId e = deliveryId d" "deliveryStatus e = LEASED"
    "leaseToken e = Some (newLeaseToken env)" "leaseExpiresAt e = Some (claimNow input + leaseMilliseconds input)"
    "attemptCount e = attemptCount d + 1" "attemptCount e \<le> claimMaximumAttempts input"
    "claimedDelivery c = webhook_delivery.truncate e"
proof -
  obtain db2 m d epay key ev t where s:
    "deadLetterExhaustedDeliveries (claimMaximumAttempts input) (claimNow input) (claimClientId input)
       (recoveredAt (claimNow input) db) = Inr (m, db2)"
    "nextDue db2 (claimClientId input) (claimNow input) (claimMaximumAttempts input) = Some d"
    "claimDelivery env input epay key ev t d db2 = Inr (Some c, db')"
    by (rule claimNext_Some [OF claim inv])
  let ?lease = "leaseDelivery (newLeaseToken env) (claimNow input + leaseMilliseconds input) (claimNow input)
      (attemptCount d + 1)"
  obtain db1 where u: "updateDeliveries (\<lambda>x. deliveryId x = deliveryId d \<and> isWaiting (deliveryStatus x)) ?lease db2
        = Inr (1, db1)"
      "insertAttempt (startedAttempt env epay key ev (deliveryId d) (attemptCount d + 1) (claimNow input)) db1 = Inr db'"
    and view: "claimedDelivery c = webhook_delivery.truncate (?lease d)"
    by (rule claimDelivery_Inr [OF s(3)]) auto
  obtain d0 where d: "d0 \<in> set (webhookDeliveries db)" "claimableAt db (claimNow input) d0"
      "deliveryId d0 = deliveryId d" "attemptCount d0 = attemptCount d"
      "attemptCount d < claimMaximumAttempts input" "isWaiting (deliveryStatus d)" "d \<in> set (webhookDeliveries db2)"
    by (rule due_origin [OF inv s(1,2)])
  have rows: "webhookDeliveries db' =
      updateRows (\<lambda>x. deliveryId x = deliveryId d \<and> isWaiting (deliveryStatus x)) ?lease (webhookDeliveries db2)"
    using u by (auto simp: updateDeliveries_Inr insertAttempt_Inr)
  have "?lease d \<in> set (webhookDeliveries db')"
    unfolding rows updateRows_image using d(6,7) by (intro image_eqI [where x = d]) simp_all
  then show thesis
    using d(3-5) by (intro that [OF d(1,2) _ _ _ _ _ _ _ view]) (simp_all add: leaseDelivery_def)
qed

text \<open>A lease that has not run out is not touched by the claims of others.\<close>

lemma claim_keeps_lease:
  assumes claim: "claimNext env input db = Inr (Some c, db')" and inv: "notifyInv db"
    and x: "x \<in> set (webhookDeliveries db)" "deliveryStatus x = LEASED" "\<not> leaseExpired db (claimNow input) x"
  shows "x \<in> set (webhookDeliveries db')"
proof -
  obtain db2 m d epay key ev t where s:
    "deadLetterExhaustedDeliveries (claimMaximumAttempts input) (claimNow input) (claimClientId input)
       (recoveredAt (claimNow input) db) = Inr (m, db2)"
    "claimDelivery env input epay key ev t d db2 = Inr (Some c, db')"
    by (rule claimNext_Some [OF claim inv])
  obtain db1 where u: "updateDeliveries (\<lambda>x. deliveryId x = deliveryId d \<and> isWaiting (deliveryStatus x))
       (leaseDelivery (newLeaseToken env) (claimNow input + leaseMilliseconds input) (claimNow input)
         (attemptCount d + 1)) db2 = Inr (1, db1)"
      "insertAttempt (startedAttempt env epay key ev (deliveryId d) (attemptCount d + 1) (claimNow input)) db1 = Inr db'"
    by (rule claimDelivery_Inr [OF s(2)])
  have "x \<in> set (webhookDeliveries (recoveredAt (claimNow input) db))"
    unfolding recoveredAt_rows using x by blast
  then have "x \<in> set (webhookDeliveries db2)"
    unfolding deadLetter_rows(1) [OF s(1)]
    by (rule updateRows_kept) (simp add: isExhausted_def isWaiting_def x(2))
  moreover have "webhookDeliveries db' = updateRows (\<lambda>x. deliveryId x = deliveryId d \<and> isWaiting (deliveryStatus x))
       (leaseDelivery (newLeaseToken env) (claimNow input + leaseMilliseconds input) (claimNow input)
         (attemptCount d + 1)) (webhookDeliveries db2)"
    using u by (auto simp: insertAttempt_Inr updateDeliveries_Inr)
  ultimately show ?thesis by (simp add: updateRows_kept isWaiting_def x(2))
qed

lemma claim_target:
  assumes claim: "claimNext env input db = Inr (Some c, db')" and inv: "notifyInv db"
  obtains t where "targetWithId db (deliveryTargetId (claimedDelivery c)) = Some t" "liveTarget db t"
    "claimedTarget c = t" "siteMayNotify input db"
    "\<And>client. claimClientId input = Some client \<Longrightarrow> targetClientId t = client"
proof -
  obtain db2 m d epay key ev t where s:
    "deadLetterExhaustedDeliveries (claimMaximumAttempts input) (claimNow input) (claimClientId input)
       (recoveredAt (claimNow input) db) = Inr (m, db2)" "siteMayNotify input (recoveredAt (claimNow input) db)"
    "nextDue db2 (claimClientId input) (claimNow input) (claimMaximumAttempts input) = Some d"
    "claimDelivery env input epay key ev t d db2 = Inr (Some c, db')"
    "targetWithId db2 (deliveryTargetId d) = Some t"
    by (rule claimNext_Some [OF claim inv])
  have same: "orderTables db2 = orderTables db" "providerEndpoints db2 = providerEndpoints db"
    using s(1) by (auto simp: deadLetterExhaustedDeliveries_def result_simps updateDeliveries_Inr recoveredAt_def)
  have "isDue db2 (claimClientId input) (claimNow input) (claimMaximumAttempts input) d"
    by (rule nextDue_SomeD(2) [OF s(3)])
  then have "liveTarget db2 t" "\<And>client. claimClientId input = Some client \<Longrightarrow> targetClientId t = client"
    using s(5) by (auto simp: isDue_def)
  moreover have "claimedTarget c = t" "deliveryTargetId (claimedDelivery c) = deliveryTargetId d"
    using s(4) by (auto simp: claimDelivery_def Let_def result_simps mapTarget_def mapDelivery_def
        webhook_delivery.truncate_def leaseDelivery_def)
  ultimately show thesis
    using s(2,5) same
    by (intro that) (simp_all add: targetWithId_def liveTarget_def siteMayNotify_def recoveredAt_def cong: option.case_cong)
qed

subsection \<open>Attempts are bounded\<close>

definition attemptsBounded :: "int \<Rightarrow> notify_db \<Rightarrow> bool" where
  "attemptsBounded maximum db \<longleftrightarrow> (\<forall>d \<in> set (webhookDeliveries db). attemptCount d \<le> maximum)"

fun claimsWithin :: "int \<Rightarrow> notify_operation \<Rightarrow> bool" where
  "claimsWithin maximum (ClaimNext env input) \<longleftrightarrow> claimMaximumAttempts input \<le> maximum"
| "claimsWithin maximum operation \<longleftrightarrow> True"

lemma updateRows_bounded:
  assumes "\<forall>x \<in> set rows. attemptCount x \<le> maximum" "\<And>x. x \<in> set rows \<Longrightarrow> p x \<Longrightarrow> attemptCount (f x) \<le> maximum"
  shows "\<forall>x \<in> set (updateRows p f rows). attemptCount x \<le> maximum"
  using assms by (auto simp: updateRows_image)

lemma materializeRows_bounded:
  "materializeRows env now rows db = Inr (n, db') \<Longrightarrow> 0 \<le> maximum \<Longrightarrow> attemptsBounded maximum db \<Longrightarrow>
   attemptsBounded maximum db'"
proof (induction env now rows db arbitrary: n rule: materializeRows.induct)
  case (2 env now e t rows db)
  obtain db1 m where m: "insertDelivery (firstDelivery env now db e t) db = Inr db1"
      "materializeRows env now rows db1 = Inr (m, db')"
    and safe: "isSafeInteger (outboxCreatedAt e)" "isSafeInteger (targetCreatedAt t)"
    using "2.prems"(1) by (auto simp: result_simps)
  have "attemptCount (firstDelivery env now db e t) = 0" by (simp add: firstDelivery_def Let_def)
  then have "attemptsBounded maximum db1"
    using m(1) "2.prems"(2,3) by (auto simp: insertDelivery_Inr attemptsBounded_def)
  then show ?case by (intro "2.IH" [OF _ _ m(1) m(2) "2.prems"(2)]) (use safe in simp_all)
qed simp

lemma recoveredAt_bounded: "attemptsBounded maximum db \<Longrightarrow> attemptsBounded maximum (recoveredAt now db)"
  unfolding attemptsBounded_def
  by (simp add: recoveredAt_def, rule updateRows_bounded) (simp_all add: expireLease_def)

lemma deadLetter_bounded:
  assumes "deadLetterExhaustedDeliveries limit now client db = Inr (n, db')" "attemptsBounded maximum db"
  shows "attemptsBounded maximum db'"
  using assms(2) unfolding attemptsBounded_def deadLetter_rows(1) [OF assms(1)]
  by (intro updateRows_bounded) (simp_all add: exhaust_def)

lemma claimDelivery_bounded:
  assumes "claimDelivery env input epay key e t d db = Inr (r, db')" "attemptsBounded maximum db"
    "attemptCount d < maximum"
  shows "attemptsBounded maximum db'"
proof -
  obtain db1 where u: "updateDeliveries (\<lambda>x. deliveryId x = deliveryId d \<and> isWaiting (deliveryStatus x))
       (leaseDelivery (newLeaseToken env) (claimNow input + leaseMilliseconds input) (claimNow input)
         (attemptCount d + 1)) db = Inr (1, db1)"
      "insertAttempt (startedAttempt env epay key e (deliveryId d) (attemptCount d + 1) (claimNow input)) db1 = Inr db'"
    by (rule claimDelivery_Inr [OF assms(1)])
  have "webhookDeliveries db' = updateRows (\<lambda>x. deliveryId x = deliveryId d \<and> isWaiting (deliveryStatus x))
       (leaseDelivery (newLeaseToken env) (claimNow input + leaseMilliseconds input) (claimNow input)
         (attemptCount d + 1)) (webhookDeliveries db)"
    using u by (auto simp: updateDeliveries_Inr insertAttempt_Inr)
  then show ?thesis
    using assms(2,3) unfolding attemptsBounded_def
    by (simp, intro updateRows_bounded) (simp_all add: leaseDelivery_def)
qed

lemma claimSelected_bounded:
  assumes "claimSelected env input nativeKey d db = Inr (r, db')" "attemptsBounded maximum db"
    "attemptCount d < maximum"
  shows "attemptsBounded maximum db'"
proof -
  have "db' = db \<or> (\<exists>epay key e t. claimDelivery env input epay key e t d db = Inr (r, db'))"
    using assms(1) by (auto simp: claimSelected_def result_simps split: option.splits if_splits)
  then show ?thesis using claimDelivery_bounded [OF _ assms(2,3)] assms(2) by blast
qed

lemma claimNext_bounded:
  assumes c: "claimNext env input db = Inr (r, db')" and inv: "notifyInv db"
    and b: "attemptsBounded maximum db" "claimMaximumAttempts input \<le> maximum"
  shows "attemptsBounded maximum db'"
proof -
  obtain n db1 where r: "recoverExpiredLeases (claimNow input) db = Inr (n, db1)"
    and rest: "r = None \<and> db' = db1 \<or>
     (\<exists>m key db2. siteMayNotify input db1 \<and>
        deadLetterExhaustedDeliveries (claimMaximumAttempts input) (claimNow input) (claimClientId input) db1
          = Inr (m, db2) \<and>
        readActiveSigningKey db1 (claimClientId input) = Inr key \<and>
        (r = None \<and> db' = db2 \<or>
         (\<exists>d. nextDue db2 (claimClientId input) (claimNow input) (claimMaximumAttempts input) = Some d \<and>
            claimSelected env input key d db2 = Inr (r, db'))))"
    by (rule claimNext_Inr [OF c])
  have b1: "attemptsBounded maximum db1"
    unfolding recoverExpiredLeases_closed(1) [OF r inv] by (rule recoveredAt_bounded [OF b(1)])
  from rest show ?thesis
  proof (elim disjE exE conjE)
    fix m key db2 d
    assume two: "deadLetterExhaustedDeliveries (claimMaximumAttempts input) (claimNow input)
        (claimClientId input) db1 = Inr (m, db2)"
      and next_: "nextDue db2 (claimClientId input) (claimNow input) (claimMaximumAttempts input) = Some d"
      and sel: "claimSelected env input key d db2 = Inr (r, db')"
    have "attemptCount d < maximum" using nextDue_SomeD(2) [OF next_] b(2) by (simp add: isDue_def)
    then show ?thesis by (rule claimSelected_bounded [OF sel deadLetter_bounded [OF two b1]])
  qed (use b1 deadLetter_bounded in blast)+
qed

lemma completeAttempt_bounded:
  assumes "completeAttempt env input db = Inr (r, db')" "attemptsBounded maximum db"
  shows "attemptsBounded maximum db'"
proof -
  obtain d a evidence c db1 where "findLeased input db = Inr (d, a)"
    "completionOf env input (attemptCount d) (max (max (completeNow input) (deliveryUpdatedAt d)) (startedAt a))
       (errorCode evidence) = Inr c"
    and ua: "updateAttempts (\<lambda>a. attemptId a = completeAttemptId input \<and> attemptOutcome a = STARTED)
       (finishAttempt (completeOutcome input) evidence
         (max (max (completeNow input) (deliveryUpdatedAt d)) (startedAt a))) db = Inr (1, db1)"
    and ud: "updateDeliveries (\<lambda>d. deliveryId d = completeDeliveryId input \<and> holdsLease (completeLeaseToken input) d)
       (applyCompletion c (max (max (completeNow input) (deliveryUpdatedAt d)) (startedAt a))) db1 = Inr (1, db')"
    by (rule completeAttempt_Inr [OF assms(1)]) blast
  have "webhookDeliveries db' = updateRows
      (\<lambda>d. deliveryId d = completeDeliveryId input \<and> holdsLease (completeLeaseToken input) d)
       (applyCompletion c (max (max (completeNow input) (deliveryUpdatedAt d)) (startedAt a))) (webhookDeliveries db)"
    using ua ud by (auto simp: updateAttempts_Inr updateDeliveries_Inr)
  then show ?thesis
    using assms(2) unfolding attemptsBounded_def
    by (simp, intro updateRows_bounded) (simp_all add: applyCompletion_def)
qed

lemma replay_bounded:
  assumes "replay env input db = Inr (r, db')" "attemptsBounded maximum db" "0 \<le> maximum"
  shows "attemptsBounded maximum db'"
proof -
  obtain original where "db' = db \<or> replayNew env input original db = Inr (r, db')"
    by (rule replay_Inr [OF assms(1)]) auto
  then show ?thesis
  proof
    assume new: "replayNew env input original db = Inr (r, db')"
    obtain latest :: delivery_row and db1 where r: "insertDelivery (redelivery env input db original
        (deliveryGeneration latest + 1) (max (replayNow input) (deliveryUpdatedAt original))) db = Inr db1"
      "webhookDeliveries db' = webhookDeliveries db1"
      by (rule replayNew_Inr [OF new]) blast
    then show ?thesis
      using assms(2,3) by (auto simp: insertDelivery_Inr attemptsBounded_def redelivery_def)
  qed (use assms(2) in simp)
qed

lemma dbWrite_bounded:
  "(\<And>r db'. operation db = Inr (r, db') \<Longrightarrow> attemptsBounded maximum db') \<Longrightarrow> attemptsBounded maximum db \<Longrightarrow>
   attemptsBounded maximum (snd (dbWrite operation db))"
  by (auto simp: dbWrite_def split: sum.splits)

lemma notifyStep_bounded:
  assumes "notifyInv db" "attemptsBounded maximum db" "claimsWithin maximum operation" "0 \<le> maximum"
  shows "attemptsBounded maximum (notifyStep operation db)"
proof (cases operation)
  case (Materialize env limit now client)
  show ?thesis
    unfolding Materialize notifyStep.simps
    by (rule dbWrite_bounded [OF _ assms(2)])
      (auto simp: materialize_def result_simps intro: materializeRows_bounded [OF _ assms(4,2)])
next
  case ClaimNext
  then show ?thesis
    using assms by (simp, intro dbWrite_bounded [OF _ assms(2)] claimNext_bounded [OF _ assms(1,2)]) simp_all
next
  case CompleteAttempt
  then show ?thesis by (simp, intro dbWrite_bounded [OF _ assms(2)] completeAttempt_bounded [OF _ assms(2)])
next
  case (RecoverExpired now)
  have "attemptsBounded maximum db'" if "recoverExpired now db = Inr (r, db')" for r db'
    using that recoverExpiredLeases_closed(1) [OF _ assms(1)] recoveredAt_bounded [OF assms(2)]
    by (auto simp: recoverExpired_def result_simps)
  then show ?thesis unfolding RecoverExpired notifyStep.simps by (intro dbWrite_bounded [OF _ assms(2)])
next
  case Replay
  then show ?thesis by (simp, intro dbWrite_bounded [OF _ assms(2)] replay_bounded [OF _ assms(2,4)])
next
  case OtherTables
  then show ?thesis using assms(2) by (simp add: attemptsBounded_def)
qed

lemma run_bounded:
  assumes "notifyInv db" "attemptsBounded maximum db" "list_all (claimsWithin maximum) operations" "0 \<le> maximum"
  shows "attemptsBounded maximum (fold notifyStep operations db)"
  using assms
proof (induction operations arbitrary: db)
  case (Cons operation operations)
  then show ?case
    using notifyStep_bounded [of db maximum operation] notifications.step_inv [of db operation] by simp
qed simp

text \<open>The attempts of a delivery are as many as its count.\<close>

lemma attempts_length:
  assumes "notifyInv db" "d \<in> set (webhookDeliveries db)"
  shows "int (length (attemptsOf d (webhookAttempts db))) = attemptCount d"
proof -
  have "map attemptNumber (attemptsOf d (webhookAttempts db)) = [1..attemptCount d]"
    using notifyInvD(3) [OF assms] by (simp add: attemptsOk_def)
  then have "length (attemptsOf d (webhookAttempts db)) = length [1..attemptCount d]" by (metis length_map)
  moreover have "0 \<le> attemptCount d" using notifyInvD(1) [OF assms] by (simp add: deliveryChecks_def)
  ultimately show ?thesis by simp
qed

end
