(* ===== verification/NotificationTotality.thy ===== *)
theory NotificationTotality
  imports NotificationClaims
begin

text \<open>
  Application code and constraints agree: a completion that passes the code's own validation and a
  claim of a due delivery never run into a key, a \<open>CHECK\<close> or a trigger of the tables.
\<close>

subsection \<open>Completing\<close>

text \<open>The documented meaning of \<^verbatim>\<open>isIP\<close>: an address text has at least two characters.\<close>

definition addressTexts :: "url_env \<Rightarrow> bool" where
  "addressTexts env \<longleftrightarrow> (\<forall>a. isIP env a \<noteq> 0 \<longrightarrow> 2 \<le> length (codePoints a))"

lemma evidence_checked:
  assumes "validateCompleteAttemptEvidence env input scheme = Inr evidence" "addressTexts (epayUrls (epayEnv env))"
  shows "evidenceChecks evidence" "completeOutcome input \<noteq> AttemptAcknowledged \<Longrightarrow> errorCode evidence \<noteq> None"
    "completeOutcome input = AttemptAcknowledged \<Longrightarrow>
       acknowledgedEvidence scheme evidence \<and> responseBytes evidence \<noteq> None \<and> responseFingerprint evidence \<noteq> None"
    "pred_option isCodeText (errorCode evidence)"
proof -
  have v: "evidence = completeEvidence input" "pred_option isHexDigest (resolvedAddressesFingerprint evidence)"
      "pred_option (\<lambda>a. resolvedAddressesFingerprint evidence \<noteq> None \<and>
          isIP (epayUrls (epayEnv env)) a \<noteq> 0 \<and> length a \<le> 64) (connectedAddress evidence)"
      "pred_option (\<lambda>s. isSafeInteger s \<and> \<not> s < 100 \<and> \<not> s > 599) (httpStatus evidence)"
      "pred_option (\<lambda>n. isSafeInteger n \<and> \<not> n < 0 \<and> \<not> n > MAX_WEBHOOK_RESPONSE_BYTES) (responseBytes evidence)"
      "pred_option isHexDigest (responseFingerprint evidence)"
      "pred_option isCodeText (ackCode evidence)" "pred_option isCodeText (errorCode evidence)"
      "responseEvidence evidence = 0 \<or> responseEvidence evidence = 3"
      "completeOutcome input = AttemptAcknowledged \<Longrightarrow> acknowledgedEvidence scheme evidence"
      "completeOutcome input \<noteq> AttemptAcknowledged \<Longrightarrow> errorCode evidence \<noteq> None"
    using assms(1) unfolding validateCompleteAttemptEvidence_def Let_def bindR_Inr_iff assertR_Inr_iff
    by (auto simp: assertR_Inr_iff split: if_splits)
  have ip: "2 \<le> length (codePoints a) \<and> length (codePoints a) \<le> 64" if "connectedAddress evidence = Some a" for a
    using v(3) that assms(2) length_codePoints_le [of a] by (auto simp: addressTexts_def)
  show "evidenceChecks evidence"
    using v ip by (auto simp: evidenceChecks_def MAX_WEBHOOK_RESPONSE_BYTES_def pred_option_def elim!: option.set_cases)
  show "completeOutcome input \<noteq> AttemptAcknowledged \<Longrightarrow> errorCode evidence \<noteq> None" by (rule v(11))
  show "pred_option isCodeText (errorCode evidence)" by (rule v(8))
  assume ack: "completeOutcome input = AttemptAcknowledged"
  have "httpStatus evidence \<noteq> None"
    using v(10) [OF ack] by (auto simp: acknowledgedEvidence_def split: if_splits option.splits)
  then show "acknowledgedEvidence scheme evidence \<and> responseBytes evidence \<noteq> None \<and> responseFingerprint evidence \<noteq> None"
    using v(9,10) ack by (auto simp: responseEvidence_def split: if_splits)
qed

lemma finishAttempt_checks:
  assumes "attemptChecks a" "attemptOutcome a = STARTED" "completeOutcome input \<noteq> STARTED" "startedAt a \<le> finished"
    and e: "validateCompleteAttemptEvidence env input (attemptProtocol a) = Inr evidence"
      "addressTexts (epayUrls (epayEnv env))"
  shows "attemptUpdateAllowed a (finishAttempt (completeOutcome input) evidence finished a)"
    "attemptChecks (finishAttempt (completeOutcome input) evidence finished a)"
proof -
  show "attemptUpdateAllowed a (finishAttempt (completeOutcome input) evidence finished a)"
    using assms(2,3) by (simp add: attemptUpdateAllowed_def finishAttempt_def)
  have "outcomeChecks (finishAttempt (completeOutcome input) evidence finished a)"
    using evidence_checked(2,3) [OF e] assms(3)
    by (cases "completeOutcome input")
      (auto simp: outcomeChecks_def finishAttempt_def acknowledgedEvidence_def Let_def split: option.splits if_splits)
  then show "attemptChecks (finishAttempt (completeOutcome input) evidence finished a)"
    using assms(1,4) evidence_checked(1) [OF e]
    by (simp add: attemptChecks_def finishAttempt_def protocolChecks_def)
qed

lemma applyCompletion_checks:
  assumes d: "deliveryChecks d" "deliveryStatus d = LEASED" "deliveryUpdatedAt d \<le> finished" "0 \<le> finished"
    and c: "completionOf env input number finished failure = Inr c"
    and failure: "completeOutcome input \<noteq> AttemptAcknowledged \<Longrightarrow> failure \<noteq> None" "pred_option isCodeText failure"
  shows "deliveryUpdateAllowed d (applyCompletion c finished d)" "deliveryChecks (applyCompletion c finished d)"
    "deliveryIdentity d (applyCompletion c finished d)" "leaseToken (applyCompletion c finished d) = None"
proof -
  note n = completionOf_Inr [OF c]
  show i: "deliveryIdentity d (applyCompletion c finished d)" "leaseToken (applyCompletion c finished d) = None"
    by (simp_all add: deliveryIdentity_def applyCompletion_def)
  show "deliveryUpdateAllowed d (applyCompletion c finished d)"
    using n d(2,3) i by (auto simp: deliveryUpdateAllowed_def statusTransition_def applyCompletion_def)
  have count: "1 \<le> attemptCount d" using d(1,2) by (auto simp: deliveryChecks_def statusChecks_def isWaiting_def)
  have "statusChecks (applyCompletion c finished d)"
    using n count failure(1) by (auto simp: statusChecks_def applyCompletion_def isWaiting_def)
  moreover have "requesterChecks (applyCompletion c finished d)"
    using d(1) by (simp add: deliveryChecks_def requesterChecks_def applyCompletion_def)
  moreover have "0 \<le> nextAttempt c" "pred_option (\<lambda>t. 0 \<le> t) (nextAcknowledged c)"
      "pred_option (\<lambda>t. 0 \<le> t) (nextDeadLettered c)" "pred_option isCodeText (nextError c)"
    using n d(4) failure(2) by auto
  ultimately show "deliveryChecks (applyCompletion c finished d)"
    using d(1,3) by (simp add: deliveryChecks_def applyCompletion_def)
qed

text \<open>The counters of a row are JavaScript safe integers, so reading it back succeeds.\<close>

definition safeDelivery :: "delivery_row \<Rightarrow> bool" where
  "safeDelivery d \<longleftrightarrow>
     isSafeInteger (deliveryGeneration d) \<and> isSafeInteger (attemptCount d) \<and> isSafeInteger (nextAttemptAt d) \<and>
     pred_option isSafeInteger (leaseExpiresAt d) \<and> pred_option isSafeInteger (acknowledgedAt d) \<and>
     pred_option isSafeInteger (deadLetteredAt d) \<and> isSafeInteger (deliveryCreatedAt d) \<and>
     isSafeInteger (deliveryUpdatedAt d)"

lemma mapDelivery_safe: "safeDelivery d \<Longrightarrow> mapDelivery d = Inr (webhook_delivery.truncate d)"
proof -
  have o: "safeOption x label = Inr x" if "pred_option isSafeInteger x" for x label
    using that by (simp add: safeOption_Inr_iff)
  show "safeDelivery d \<Longrightarrow> mapDelivery d = Inr (webhook_delivery.truncate d)"
    by (simp add: mapDelivery_def safeDelivery_def o)
qed

definition completedRow :: "completion \<Rightarrow> complete_input \<Rightarrow> delivery_row \<Rightarrow> attempt_row \<Rightarrow> delivery_row" where
  "completedRow c input d a =
     applyCompletion c (max (max (completeNow input) (deliveryUpdatedAt d)) (startedAt a)) d"

lemma completeAttempt_succeeds:
  assumes inv: "notifyInv db" and v: "validateComplete input = Inr ()" and f: "findLeased input db = Inr (d, a)"
    and e: "validateCompleteAttemptEvidence env input (attemptProtocol a) = Inr evidence"
      "addressTexts (epayUrls (epayEnv env))"
    and c: "completionOf env input (attemptCount d)
      (max (max (completeNow input) (deliveryUpdatedAt d)) (startedAt a)) (errorCode evidence) = Inr c"
    and safe: "safeDelivery d" "safeDelivery (completedRow c input d a)" "isSafeInteger (startedAt a)"
  shows "\<exists>db'. completeAttempt env input db = Inr (webhook_delivery.truncate (completedRow c input d a), db') \<and>
    webhookDeliveries db' =
      updateRows (\<lambda>x. deliveryId x = deliveryId d) (\<lambda>_. completedRow c input d a) (webhookDeliveries db)"
proof -
  let ?t = "max (max (completeNow input) (deliveryUpdatedAt d)) (startedAt a)"
  let ?p = "\<lambda>b. attemptId b = completeAttemptId input \<and> attemptOutcome b = STARTED"
  let ?q = "\<lambda>x. deliveryId x = completeDeliveryId input \<and> holdsLease (completeLeaseToken input) x"
  let ?f = "finishAttempt (completeOutcome input) evidence ?t"
  note l = findLeased_Inr [OF f]
  have leased: "deliveryStatus d = LEASED" using l(3) by (simp add: holdsLease_def)
  have now: "0 \<le> ?t" "completeOutcome input \<noteq> STARTED"
    using v by (auto simp: validateComplete_def result_simps)
  have a: "attemptChecks a" using inv l(4) by (auto simp: notifyInv_def)
  have keys: "distinct (map attemptId (webhookAttempts db))" using inv by (simp add: notifyInv_def attemptKeys_def)
  have a_only: "b = a" if "b \<in> set (webhookAttempts db)" "?p b" for b
  proof -
    have "inj_on attemptId (set (webhookAttempts db))" using keys by (simp add: distinct_map)
    then show ?thesis by (rule inj_onD) (use that l(4,9) in simp_all)
  qed
  have d_only: "x = d" if "x \<in> set (webhookDeliveries db)" "?q x" for x
    using delivery_unique [OF inv that(1) l(1)] that(2) l(2) by simp
  have ua: "updateAttempts ?p ?f db = Inr (1, db\<lparr>webhookAttempts := updateRows ?p ?f (webhookAttempts db)\<rparr>)"
    by (rule updateAttempts_one [where p = ?p and f = ?f, OF inv l(4) _ a_only])
      (use l(8,9) finishAttempt_checks [OF a l(8) now(2) _ e] in simp_all)
  let ?db1 = "db\<lparr>webhookAttempts := updateRows ?p ?f (webhookAttempts db)\<rparr>"
  note ac = applyCompletion_checks [OF notifyInvD(1) [OF inv l(1)] leased _ now(1) c
      evidence_checked(2) [OF e] evidence_checked(4) [OF e]]
  have "updateDeliveries ?q (applyCompletion c ?t) db =
      Inr (1, db\<lparr>webhookDeliveries := updateRows ?q (applyCompletion c ?t) (webhookDeliveries db)\<rparr>)"
    by (rule updateDeliveries_one [where p = ?q and f = "applyCompletion c ?t", OF inv l(1) _ d_only])
      (use l(2,3) ac leased in \<open>simp_all add: isActiveStatus_def\<close>)
  then have ud: "updateDeliveries ?q (applyCompletion c ?t) ?db1 =
      Inr (1, ?db1\<lparr>webhookDeliveries := updateRows ?q (applyCompletion c ?t) (webhookDeliveries db)\<rparr>)"
    by (simp add: updateDeliveries_Inr)
  have rows: "updateRows ?q (applyCompletion c ?t) (webhookDeliveries db) =
      updateRows (\<lambda>x. deliveryId x = deliveryId d) (\<lambda>_. completedRow c input d a) (webhookDeliveries db)"
    unfolding updateRows_def
  proof (rule map_cong [OF refl])
    fix x assume x: "x \<in> set (webhookDeliveries db)"
    show "(if ?q x then applyCompletion c ?t x else x) = (if deliveryId x = deliveryId d then completedRow c input d a else x)"
      using d_only [OF x] delivery_unique [OF inv x l(1)] l(2,3) by (auto simp: completedRow_def)
  qed
  have "List.find (\<lambda>x. deliveryId x = completeDeliveryId input)
      (updateRows (\<lambda>x. deliveryId x = deliveryId d) (\<lambda>_. completedRow c input d a) (webhookDeliveries db)) =
      Some (completedRow c input d a)"
  proof (rule find_Some_unique)
    show "completedRow c input d a \<in> set (updateRows (\<lambda>x. deliveryId x = deliveryId d)
        (\<lambda>_. completedRow c input d a) (webhookDeliveries db))"
      using l(1) by (auto simp: updateRows_image image_iff intro!: bexI [of _ d])
  qed (auto simp: updateRows_image completedRow_def applyCompletion_def l(2) split: if_splits)
  then show ?thesis
    unfolding completeAttempt_def v f
    using safe e ua ud c
    by (simp add: Let_def rows toSafeInteger_def safeDelivery_def assertChangedOnce_def mapDelivery_safe)
qed

end
