(* ===== verification/NotificationLiveness.thy ===== *)
theory NotificationLiveness
  imports NotificationTotality
begin

text \<open>
  A claim of a website whose targets are native succeeds: when a delivery is due, the website may be
  notified and has its signing key, the claim leases a delivery and starts its attempt.
\<close>

subsection \<open>The retirement of exhausted deliveries succeeds\<close>

lemma exhaust_checks:
  assumes "deliveryChecks d" "isWaiting (deliveryStatus d)" "1 \<le> attemptCount d" "0 \<le> now"
  shows "deliveryUpdateAllowed d (exhaust now d)" "deliveryChecks (exhaust now d)"
proof -
  show "deliveryUpdateAllowed d (exhaust now d)"
    using assms by (simp add: deliveryUpdateAllowed_def deliveryIdentity_def statusTransition_def exhaust_def)
  show "deliveryChecks (exhaust now d)"
    using assms isCodeText_recovery(2)
    by (auto simp: deliveryChecks_def requesterChecks_def statusChecks_def isWaiting_def exhaust_def)
qed

lemma deadLetter_succeeds:
  assumes inv: "notifyInv db" and now: "0 \<le> now" and size: "isSafeInteger (int (length (webhookDeliveries db)))"
  shows "\<exists>m db'. deadLetterExhaustedDeliveries maximum now client db = Inr (m, db')"
proof -
  let ?p = "isExhausted db maximum client"
  have row: "deliveryUpdateAllowed d (exhaust now d) \<and> deliveryChecks (exhaust now d)"
    if "d \<in> set (webhookDeliveries db)" "?p d" for d
    using exhaust_checks [OF notifyInvD(1) [OF inv that(1)] _ _ now] that(2) by (simp add: isExhausted_def)
  have keys: "deliveryKeys (updateRows ?p (exhaust now) (webhookDeliveries db))"
  proof (rule deliveryKeys_update [OF notifyInv_keys [OF inv]])
    fix x y
    assume x: "x \<in> set (webhookDeliveries db)" "?p x" "leaseToken (exhaust now x) \<noteq> None"
    have "leaseToken x = None"
      using notifyInvD(1) [OF inv x(1)] x(2) by (auto simp: deliveryChecks_def statusChecks_def isExhausted_def isWaiting_def)
    then show "y = x" using x(3) by (simp add: exhaust_def)
  qed (simp add: deliveryIdentity_def exhaust_def isActiveStatus_def)
  have "updateDeliveries ?p (exhaust now) db = Inr (changes ?p (webhookDeliveries db),
      db\<lparr>webhookDeliveries := updateRows ?p (exhaust now) (webhookDeliveries db)\<rparr>)"
    using row keys by (simp add: updateDeliveries_Inr)
  moreover have "isSafeInteger (int (changes ?p (webhookDeliveries db)))"
    using size changes_le_length [of ?p "webhookDeliveries db"] by (auto simp: isSafeInteger_def maxSafeInteger_def)
  ultimately show ?thesis by (simp add: deadLetterExhaustedDeliveries_def)
qed

subsection \<open>The claim of a native delivery succeeds\<close>

text \<open>The random identifiers of a claim have the length of a UUID and are new to the attempts.\<close>

definition freshClaim :: "notify_env \<Rightarrow> notify_db \<Rightarrow> bool" where
  "freshClaim env db \<longleftrightarrow>
     length (newLeaseToken env) = 36 \<and> length (newAttemptId env) = 36 \<and>
     (\<forall>a \<in> set (webhookAttempts db). attemptId a \<noteq> newAttemptId env \<and> attemptLeaseToken a \<noteq> newLeaseToken env)"

lemma fresh_token:
  assumes inv: "notifyInv db" and "freshClaim env db" and d: "d \<in> set (webhookDeliveries db)"
  shows "leaseToken d \<noteq> Some (newLeaseToken env)"
proof (cases "deliveryStatus d = LEASED")
  case True
  obtain a where "a \<in> set (webhookAttempts db)" "attemptOfLease d a" by (rule open_attempt [OF inv d True])
  then show ?thesis using assms(2) by (auto simp: attemptOfLease_def freshClaim_def)
next
  case False
  then show ?thesis
    using notifyInvD(1) [OF inv d] by (auto simp: deliveryChecks_def statusChecks_def isWaiting_def)
qed

lemma fresh_number:
  assumes inv: "notifyInv db" and d: "d \<in> set (webhookDeliveries db)"
    and a: "a \<in> set (webhookAttempts db)" "attemptDeliveryId a = deliveryId d"
  shows "attemptNumber a \<noteq> attemptCount d + 1"
proof -
  have "attemptNumber a \<in> set (map attemptNumber (attemptsOf d (webhookAttempts db)))"
    using a by (simp add: attemptsOf_def)
  also have "\<dots> = set [1..attemptCount d]"
    using notifyInvD(3) [OF inv d] by (simp add: attemptsOk_def)
  finally show ?thesis by simp
qed

lemma leaseDelivery_checks:
  assumes "deliveryChecks d" "deliveryTimes d" "isWaiting (deliveryStatus d)" "nextAttemptAt d \<le> now"
    "length token = 36" "0 \<le> now" "0 \<le> expires"
  shows "deliveryUpdateAllowed d (leaseDelivery token expires now (attemptCount d + 1) d)"
    "deliveryChecks (leaseDelivery token expires now (attemptCount d + 1) d)"
proof -
  have t: "deliveryUpdatedAt d \<le> now" using assms(2-4) by (simp add: deliveryTimes_def)
  show "deliveryUpdateAllowed d (leaseDelivery token expires now (attemptCount d + 1) d)"
    using assms(3) t by (simp add: deliveryUpdateAllowed_def deliveryIdentity_def statusTransition_def leaseDelivery_def)
  show "deliveryChecks (leaseDelivery token expires now (attemptCount d + 1) d)"
    using assms t by (auto simp: deliveryChecks_def requesterChecks_def statusChecks_def isWaiting_def leaseDelivery_def)
qed

lemma startedAttempt_native_checks:
  assumes "freshClaim env db" "1 \<le> number" "0 \<le> now" "isHexDigest (payloadFingerprint e)"
  shows "attemptChecks (startedAttempt env None key e did number now)"
  using assms
  by (simp add: attemptChecks_def startedAttempt_def freshClaim_def evidenceChecks_def noEvidence_def
      protocolChecks_def outcomeChecks_def Let_def)

lemma claimDelivery_native:
  assumes inv: "notifyInv db" and fresh: "freshClaim env db"
    and d: "d \<in> set (webhookDeliveries db)" "isWaiting (deliveryStatus d)" "nextAttemptAt d \<le> claimNow input"
    and t: "targetWithId db (deliveryTargetId d) = Some t" "targetFormat t = NATIVE_JSON_V1" "isSafeInteger (targetCreatedAt t)"
    and key: "k \<in> set (signingKeys db)" "signingRetiredAt k = None" "signingClientId k = targetClientId t"
      "signingKeyVersion k = signingKeyVersion key"
    and e: "isHexDigest (payloadFingerprint e)" "isSafeInteger (aggregateVersion e)" "isSafeInteger (outboxCreatedAt e)"
    and now: "0 \<le> claimNow input" "isSafeInteger (claimNow input)" "1 \<le> leaseMilliseconds input"
      "isSafeInteger (claimNow input + leaseMilliseconds input)"
    and safe: "safeDelivery d" "isSafeInteger (attemptCount d + 1)"
  shows "\<exists>c db'. claimDelivery env input None key e t d db = Inr (Some c, db')"
proof -
  let ?f = "leaseDelivery (newLeaseToken env) (claimNow input + leaseMilliseconds input) (claimNow input) (attemptCount d + 1)"
  let ?p = "\<lambda>x. deliveryId x = deliveryId d \<and> isWaiting (deliveryStatus x)"
  let ?a = "startedAttempt env None key e (deliveryId d) (attemptCount d + 1) (claimNow input)"
  have count: "0 \<le> attemptCount d" using notifyInvD(1) [OF inv d(1)] by (simp add: deliveryChecks_def)
  have checks: "deliveryUpdateAllowed d (?f d)" "deliveryChecks (?f d)"
    using leaseDelivery_checks [OF notifyInvD(1,2) [OF inv d(1)] d(2,3), of "newLeaseToken env"] fresh now
    by (simp_all add: freshClaim_def)
  have u: "updateDeliveries ?p ?f db = Inr (1, db\<lparr>webhookDeliveries := updateRows ?p ?f (webhookDeliveries db)\<rparr>)"
  proof (rule updateDeliveries_one [where p = ?p and f = ?f, OF inv d(1) _ _ checks])
    show "x = d" if "x \<in> set (webhookDeliveries db)" "?p x" for x
      using delivery_unique [OF inv that(1) d(1)] that(2) by simp
    show "y = d" if "y \<in> set (webhookDeliveries db)" "leaseToken y = leaseToken (?f d)" for y
      using fresh_token [OF inv fresh that(1)] that(2) by (simp add: leaseDelivery_def)
  qed (use d(2) in \<open>auto simp: deliveryIdentity_def leaseDelivery_def isActiveStatus_def isWaiting_def\<close>)
  let ?db1 = "db\<lparr>webhookDeliveries := updateRows ?p ?f (webhookDeliveries db)\<rparr>"
  have mem: "?f d \<in> set (webhookDeliveries ?db1)"
    using mem_updateRows_image [OF d(1), of ?p ?f] d(2) by simp
  have allowed: "attemptInsertAllowed ?db1 ?a"
    unfolding attemptInsertAllowed_def list_ex_iff
    by (rule bexI [OF _ mem])
      (use t key in \<open>auto simp: leaseDelivery_def startedAttempt_def targetWithId_def attemptKeyAllowed_def list_ex_iff\<close>)
  have "attemptKeys (webhookAttempts db @ [?a])"
  proof -
    have "(deliveryId d, attemptCount d + 1) \<notin> (\<lambda>a. (attemptDeliveryId a, attemptNumber a)) ` set (webhookAttempts db)"
      using fresh_number [OF inv d(1)] by force
    moreover have "attemptKeys (webhookAttempts db)" using inv by (simp add: notifyInv_def)
    ultimately show ?thesis using fresh by (auto simp: attemptKeys_def freshClaim_def startedAttempt_def)
  qed
  moreover have "attemptChecks ?a"
    by (rule startedAttempt_native_checks [OF fresh _ now(1) e(1)]) (use count in simp)
  ultimately have i: "insertAttempt ?a ?db1 = Inr (?db1\<lparr>webhookAttempts := webhookAttempts db @ [?a]\<rparr>)"
    using allowed by (simp add: insertAttempt_Inr)
  have "safeDelivery (?f d)" using safe now by (simp add: safeDelivery_def leaseDelivery_def)
  then have m: "mapDelivery (?f d) = Inr (webhook_delivery.truncate (?f d))" by (rule mapDelivery_safe)
  have "isSafeInteger (attemptCount d)" using safe(1) by (simp add: safeDelivery_def)
  moreover have "0 \<le> claimNow input + leaseMilliseconds input" using now by simp
  ultimately show ?thesis
    unfolding claimDelivery_def Let_def
    using u i m e(2,3) t(3) now(4)
    by (simp add: assertTime_def assertChangedOnce_def mapEvent_def mapTarget_def)
qed

subsection \<open>A due delivery is claimed\<close>

text \<open>Every counter of the tables is a safe integer and every stored fingerprint is a digest.\<close>

definition safeTables :: "notify_db \<Rightarrow> bool" where
  "safeTables db \<longleftrightarrow>
     isSafeInteger (int (length (webhookDeliveries db))) \<and>
     (\<forall>d \<in> set (webhookDeliveries db). safeDelivery d \<and> isSafeInteger (attemptCount d + 1)) \<and>
     (\<forall>e \<in> set (outboxEvents db). isHexDigest (payloadFingerprint e) \<and> isSafeInteger (aggregateVersion e) \<and>
        isSafeInteger (outboxCreatedAt e)) \<and>
     (\<forall>t \<in> set (webhookTargets (orderTables db)). isSafeInteger (targetCreatedAt t))"

definition nativeClient :: "notify_db \<Rightarrow> jstr \<Rightarrow> bool" where
  "nativeClient db client \<longleftrightarrow>
     (\<forall>t \<in> set (webhookTargets (orderTables db)). targetClientId t = client \<longrightarrow> targetFormat t = NATIVE_JSON_V1)"

lemma readActiveSigningKey_Some:
  assumes "readActiveSigningKey db (Some client) = Inr (Some key)"
  obtains k where "k \<in> set (signingKeys db)" "signingRetiredAt k = None" "signingClientId k = client"
    "signingKeyVersion k = signingKeyVersion key"
proof -
  obtain k :: signing_key_row where k: "List.find (\<lambda>k. signingRetiredAt k = None \<and> signingClientId k = client) (signingKeys db) = Some k"
      "mapSigningKey k = Inr key"
    using assms by (auto simp: readActiveSigningKey_def result_simps split: option.splits)
  have "signingKeyVersion k = signingKeyVersion key"
    using k(2) by (auto simp: mapSigningKey_def result_simps webhook_signing_key.truncate_def)
  then show thesis using find_SomeD [OF k(1)] by (intro that [of k]) simp_all
qed

lemma nextDue_exists:
  assumes "d \<in> set (webhookDeliveries db)" "isDue db client now maximum d"
  obtains d' where "nextDue db client now maximum = Some d'"
proof -
  let ?due = "sort_key (\<lambda>d. (nextAttemptAt d, deliveryCreatedAt d, deliveryId d))
      (filter (isDue db client now maximum) (webhookDeliveries db))"
  have "d \<in> set ?due" using assms by simp
  then obtain d' ds where "?due = d' # ds" by (cases ?due) simp_all
  then show thesis using that by (simp add: nextDue_def)
qed

lemma isDue_tables:
  assumes "orderTables db' = orderTables db" "outboxEvents db' = outboxEvents db"
    "providerEndpoints db' = providerEndpoints db"
  shows "isDue db' = isDue db" "targetWithId db' = targetWithId db" "eventOf db' = eventOf db"
proof -
  have live: "liveTarget db' = liveTarget db" using assms by (simp add: liveTarget_def fun_eq_iff)
  show t: "targetWithId db' = targetWithId db" and e: "eventOf db' = eventOf db"
    using assms by (simp_all add: eventOf_def targetWithId_def fun_eq_iff)
  show "isDue db' = isDue db" unfolding isDue_def live t e ..
qed

lemma safe_after:
  assumes "safeTables db" "isSafeInteger now" "0 \<le> now" "x \<in> set (webhookDeliveries (recoveredAt now db))"
  shows "safeDelivery x" "isSafeInteger (attemptCount x + 1)"
  using assms by (auto simp: recoveredAt_rows safeTables_def expireLease_def safeDelivery_def)

lemma claimNext_succeeds:
  assumes inv: "notifyInv db" and safe: "safeTables db" and fresh: "freshClaim env db"
    and v: "validateClaim input = Inr ()" and site: "siteMayNotify input db" "claimClientId input = Some client"
    and key: "readActiveSigningKey db (Some client) = Inr (Some key)"
      "claimSecretFingerprint input = None \<or> claimSecretFingerprint input = Some (secretFingerprint key)"
    and native: "nativeClient db client"
    and due: "d \<in> set (webhookDeliveries db)"
      "isDue db (Some client) (claimNow input) (claimMaximumAttempts input) d"
    and lease: "isSafeInteger (claimNow input + leaseMilliseconds input)"
  shows "\<exists>c db'. claimNext env input db = Inr (Some c, db')"
proof -
  let ?now = "claimNow input" and ?maximum = "claimMaximumAttempts input"
  note now = validateClaim_lease [OF v]
  have counts: "countsSafe db" using safe by (simp add: countsSafe_def safeTables_def safeDelivery_def)
  obtain n where rec: "recoverExpiredLeases ?now db = Inr (n, recoveredAt ?now db)"
    using recoverExpiredLeases_is [OF inv counts, of ?now] by blast
  let ?db1 = "recoveredAt ?now db"
  have inv1: "notifyInv ?db1" by (rule moves_inv [OF recoverExpiredLeases_moves [OF rec inv] inv])
  have tables1: "orderTables ?db1 = orderTables db" "outboxEvents ?db1 = outboxEvents db"
      "providerEndpoints ?db1 = providerEndpoints db" "signingKeys ?db1 = signingKeys db"
    and size1: "length (webhookDeliveries ?db1) = length (webhookDeliveries db)"
    by (simp_all add: recoveredAt_def)
  obtain m db2 where dead: "deadLetterExhaustedDeliveries ?maximum ?now (Some client) ?db1 = Inr (m, db2)"
  proof -
    have "isSafeInteger (int (length (webhookDeliveries ?db1)))" using safe size1 by (simp add: safeTables_def)
    then show thesis using deadLetter_succeeds [OF inv1, of ?now ?maximum "Some client"] now that by blast
  qed
  have inv2: "notifyInv db2" by (rule move_inv [OF deadLetter_move [OF dead] inv1])
  have tables2: "orderTables db2 = orderTables db" "outboxEvents db2 = outboxEvents db"
      "providerEndpoints db2 = providerEndpoints db" "signingKeys db2 = signingKeys db"
      "webhookAttempts db2 = webhookAttempts ?db1"
    using dead tables1 by (auto simp: deadLetterExhaustedDeliveries_def result_simps updateDeliveries_Inr)
  note same = isDue_tables [OF tables2(1-3)]
  have waiting: "isWaiting (deliveryStatus d)" "attemptCount d < ?maximum" using due(2) by (simp_all add: isDue_def)
  have "d \<in> set (webhookDeliveries ?db1)"
    unfolding recoveredAt_rows using due(1) waiting(1) by (auto simp: leaseExpired_def isWaiting_def)
  then have d2: "d \<in> set (webhookDeliveries db2)"
    unfolding deadLetter_rows(1) [OF dead]
    by (rule updateRows_kept) (use waiting(2) in \<open>simp add: isExhausted_def\<close>)
  obtain d' where next_: "nextDue db2 (Some client) ?now ?maximum = Some d'"
    by (rule nextDue_exists [OF d2, of "Some client" ?now ?maximum]) (use due(2) same in simp)
  note n = nextDue_SomeD [OF next_]
  obtain e t where et: "eventOf db2 (deliveryEventId d') = Some e" "targetWithId db2 (deliveryTargetId d') = Some t"
      "targetClientId t = client" "isWaiting (deliveryStatus d')" "nextAttemptAt d' \<le> ?now"
    using n(2) by (auto simp: isDue_def split: option.splits)
  have mem: "e \<in> set (outboxEvents db)" "t \<in> set (webhookTargets (orderTables db))"
    using et(1,2) unfolding same(2,3) by (auto simp: eventOf_def targetWithId_def dest: find_SomeD)
  have fmt: "targetFormat t = NATIVE_JSON_V1" using native mem(2) et(3) by (simp add: nativeClient_def)
  obtain k where k: "k \<in> set (signingKeys db2)" "signingRetiredAt k = None" "signingClientId k = targetClientId t"
      "signingKeyVersion k = signingKeyVersion key"
    using readActiveSigningKey_Some [OF key(1)] et(3) tables2(4) by metis
  have "d' \<in> set (webhookDeliveries ?db1)"
    by (rule deadLetter_waiting [OF dead n(1)]) (use et(4) in \<open>auto simp: isWaiting_def\<close>)
  then have s: "safeDelivery d'" "isSafeInteger (attemptCount d' + 1)"
    using safe_after [OF safe _ _ _] now by blast+
  have fresh2: "freshClaim env db2"
    using fresh unfolding freshClaim_def tables2(5)
    by (auto simp: recoveredAt_def updateRows_image expireAttempt_def)
  obtain c db' where claim: "claimDelivery env input None key e t d' db2 = Inr (Some c, db')"
    using claimDelivery_native [OF inv2 fresh2 n(1) et(4,5,2) fmt _ k, of e] mem safe now s lease
    by (auto simp: safeTables_def)
  have "siteMayNotify input ?db1" using site(1) unfolding siteMayNotify_def tables1(1) .
  moreover have "readActiveSigningKey ?db1 (Some client) = Inr (Some key)"
    using key(1) tables1(4) by (simp add: readActiveSigningKey_def)
  moreover have "claimSelected env input (Some key) d' db2 = Inr (Some c, db')"
    using et(1,2) fmt key(2) claim by (auto simp: claimSelected_def)
  ultimately have "claimNext env input db = Inr (Some c, db')"
    unfolding claimNext_def using v rec dead next_ site(2) by simp
  then show ?thesis by blast
qed

end
