(* ===== verification/NotificationRequests.thy ===== *)
theory NotificationRequests
  imports NotificationLiveness
begin

text \<open>
  What the requests of callers amount to: the text a webhook signature covers determines the attempt,
  a repeated redelivery request finds the delivery of the first, and materializing leaves no event of
  a live target without its first delivery.
\<close>

subsection \<open>The signed text\<close>

lemma decimalText_digits: "c \<in> set (decimalText n) \<Longrightarrow> 48 \<le> (of_char c :: nat) \<and> (of_char c :: nat) \<le> 57"
proof (induction n rule: decimalText.induct)
  case (1 n)
  have d: "n < 10 \<Longrightarrow> (of_char (char_of (48 + n) :: char) :: nat) = 48 + n" for n :: nat
    by (simp add: of_char_of)
  show ?case
    using 1 by (subst (asm) (2) decimalText.simps) (auto simp: d split: if_splits)
qed

lemma decimalText_inject: "decimalText m = decimalText n \<longleftrightarrow> m = n"
proof
  assume "decimalText m = decimalText n"
  then show "m = n"
  proof (induction m arbitrary: n rule: decimalText.induct)
    case (1 m)
    have d: "(char_of (48 + a) :: char) = char_of (48 + b) \<longleftrightarrow> a = b" if "a < 10" "b < 10" for a b :: nat
    proof -
      have "(of_char (char_of (48 + c) :: char) :: nat) = 48 + c" if "c < 10" for c :: nat
        using that by (simp add: of_char_of)
      then show ?thesis using that by (metis add_left_cancel)
    qed
    have ne: "decimalText k \<noteq> []" for k by (subst decimalText.simps) simp
    show ?case
    proof (cases "m < 10"; cases "n < 10")
      assume "m < 10" "n < 10"
      then show ?thesis using "1.prems" d by (simp add: decimalText.simps [of m] decimalText.simps [of n])
    next
      assume "m < 10" "\<not> n < 10"
      then show ?thesis using "1.prems" ne [of "n div 10"]
        by (simp add: decimalText.simps [of m] decimalText.simps [of n] Cons_eq_append_conv)
    next
      assume "\<not> m < 10" "n < 10"
      then show ?thesis using "1.prems" ne [of "m div 10"]
        by (simp add: decimalText.simps [of m] decimalText.simps [of n] append_eq_Cons_conv)
    next
      assume big: "\<not> m < 10" "\<not> n < 10"
      then have "decimalText (m div 10) = decimalText (n div 10)" "m mod 10 = n mod 10"
        using "1.prems" d by (simp_all add: decimalText.simps [of m] decimalText.simps [of n])
      then show ?thesis using "1.IH" [OF big(1)] by (metis div_mult_mod_eq)
    qed
  qed
qed simp

lemma joinLines_inject:
  assumes "length xs = length ys" "\<forall>x \<in> set xs. CHR 0x0A \<notin> set x" "\<forall>y \<in> set ys. CHR 0x0A \<notin> set y"
    "joinLines xs = joinLines ys"
  shows "xs = ys"
  using assms
proof (induction xs arbitrary: ys rule: joinLines.induct)
  case (2 x)
  then show ?case by (cases ys) simp_all
next
  case (3 x y rest)
  obtain x' y' rest' where ys: "ys = x' # y' # rest'"
    using "3.prems"(1) by (cases ys; cases "tl ys") simp_all
  have e: "x @ [CHR 0x0A] @ joinLines (y # rest) = x' @ [CHR 0x0A] @ joinLines (y' # rest')"
    using "3.prems"(4) ys by simp
  have n: "CHR 0x0A \<notin> set x" "CHR 0x0A \<notin> set x'" using "3.prems"(2,3) ys by simp_all
  have "takeWhile (\<lambda>c. c \<noteq> CHR 0x0A) (x @ [CHR 0x0A] @ joinLines (y # rest)) = x"
    "takeWhile (\<lambda>c. c \<noteq> CHR 0x0A) (x' @ [CHR 0x0A] @ joinLines (y' # rest')) = x'"
    using n by (auto simp: takeWhile_append)
  then have "x = x'" using e by metis
  moreover from this have "joinLines (y # rest) = joinLines (y' # rest')" using e by simp
  ultimately show ?case using "3.IH" [of "y' # rest'"] "3.prems"(1-3) ys by simp
qed simp

lemma uuid_no_newline: "isUuidV4 text \<Longrightarrow> CHR 0x0A \<notin> set text"
proof
  assume u: "isUuidV4 text" and "CHR 0x0A \<in> set text"
  then obtain i where i: "i < length text" "text ! i = CHR 0x0A" by (auto simp: in_set_conv_nth)
  have len: "length text = 36" and all: "list_all (\<lambda>(i, c). if i \<in> {8, 13, 18, 23} then c = CHR ''-''
      else isLowerHex c) (zip [0..<36] text)"
    using u by (simp_all only: isUuidV4_def isCanonicalUuid_def)
  have "(i, text ! i) \<in> set (zip [0..<36] text)"
    using i(1) len by (auto simp: set_zip intro!: exI [of _ i])
  then have "if i \<in> {8, 13, 18, 23} then text ! i = CHR ''-'' else isLowerHex (text ! i)"
    using all unfolding list_all_iff by fast
  then show False using i(2) by (auto simp: isLowerHex_def split: if_splits)
qed

lemma webhookCanonical_inject:
  assumes "isUuidV4 k" "isUuidV4 k'" "isUuidV4 d" "isUuidV4 d'" "isUuidV4 e" "isUuidV4 e'"
    "0 \<le> t" "0 \<le> t'" "0 \<le> n" "0 \<le> n'" "isHexDigest f" "isHexDigest f'"
    "webhookCanonical k t d e n f = webhookCanonical k' t' d' e' n' f'"
  shows "k = k' \<and> t = t' \<and> d = d' \<and> e = e' \<and> n = n' \<and> f = f'"
proof -
  have hex: "CHR 0x0A \<notin> set g" if "isHexDigest g" for g
    using that by (auto simp: isHexDigest_def list_all_iff isLowerHex_def Let_def)
  have dec: "CHR 0x0A \<notin> set (decimalText m)" for m
    using decimalText_digits [of "CHR 0x0A" m] by auto
  have "[''perpay:webhook:v1'', k, decimalText (nat t), d, e, decimalText (nat n), f] =
      [''perpay:webhook:v1'', k', decimalText (nat t'), d', e', decimalText (nat n'), f']"
    by (rule joinLines_inject) (use assms hex dec uuid_no_newline in \<open>auto simp: webhookCanonical_def\<close>)
  then show ?thesis using assms(7-10) by (simp add: decimalText_inject eq_nat_nat_iff)
qed

subsection \<open>Repeating a redelivery request\<close>

lemma find_append_new:
  "List.find p rows = None \<Longrightarrow> p r \<Longrightarrow> List.find p (rows @ [r]) = Some r"
  "List.find p rows = Some x \<Longrightarrow> List.find p (rows @ new) = Some x"
  by (induction rows) (auto split: if_splits)

lemma assertSiteDelivery_same:
  assumes "List.find (\<lambda>d. deliveryId d = did) (webhookDeliveries db') = Some d"
    "List.find (\<lambda>d. deliveryId d = did) (webhookDeliveries db) = Some d" "orderTables db' = orderTables db"
  shows "assertSiteDelivery db' client did = assertSiteDelivery db client did"
  using assms by (simp add: assertSiteDelivery_def assertSiteOrder_def targetWithId_def split: option.splits)

lemma replayNew_row:
  assumes new: "replayNew env input original db = Inr (r, db')"
    and none: "List.find (\<lambda>d. requestKey d = redeliveryId input) (webhookDeliveries db) = None"
  obtains row gen t0 where "row = redelivery env input db original gen t0"
    "webhookDeliveries db' = webhookDeliveries db @ [row]" "orderTables db' = orderTables db"
    "List.find (\<lambda>d. requestKey d = redeliveryId input) (webhookDeliveries db') = Some row"
    "mapDelivery row = Inr (fst r)" "\<not> snd r"
proof -
  obtain latest :: delivery_row and db1 created where r:
    "insertDelivery (redelivery env input db original (deliveryGeneration latest + 1)
       (max (replayNow input) (deliveryUpdatedAt original))) db = Inr db1"
    "webhookDeliveries db' = webhookDeliveries db1"
    "List.find (\<lambda>d. requestKey d = redeliveryId input) (webhookDeliveries db') = Some created"
    "mapDelivery created = Inr (fst r)" "\<not> snd r"
    by (rule replayNew_Inr [OF new]) blast
  let ?row = "redelivery env input db original (deliveryGeneration latest + 1)
       (max (replayNow input) (deliveryUpdatedAt original))"
  have rows: "webhookDeliveries db' = webhookDeliveries db @ [?row]"
    using r(1,2) by (simp add: insertDelivery_Inr)
  have found: "List.find (\<lambda>d. requestKey d = redeliveryId input) (webhookDeliveries db') = Some ?row"
    unfolding rows by (rule find_append_new(1) [OF none]) (simp add: redelivery_def)
  have "orderTables db' = orderTables db"
    using new by (auto simp: replayNew_def result_simps Let_def insertDelivery_Inr split: option.splits)
  then show thesis using that [OF refl rows _ found] r(3-5) found by simp
qed

lemma replay_again:
  assumes first: "replay env input db = Inr ((view, again), db')"
    and env: "notifySha256 env' = notifySha256 env" "epayEnv env' = epayEnv env"
  shows "replay env' input db' = Inr ((view, True), db')"
proof -
  obtain original where o: "validateReplay env input = Inr ()"
      "List.find (\<lambda>d. deliveryId d = replayDeliveryId input) (webhookDeliveries db) = Some original"
    and cases: "(\<exists>existing. List.find (\<lambda>d. requestKey d = redeliveryId input) (webhookDeliveries db) = Some existing \<and>
        sameReplay env input original existing \<and> mapDelivery existing = Inr view \<and> db' = db) \<or>
     List.find (\<lambda>d. requestKey d = redeliveryId input) (webhookDeliveries db) = None \<and>
       replayNew env input original db = Inr ((view, again), db')"
    by (rule replay_Inr [OF first]) auto
  have site: "assertSiteDelivery db (replayClientId input) (replayDeliveryId input) = Inr ()"
    using first by (auto simp: replay_def result_simps)
  have valid: "validateReplay env' input = Inr ()" using o(1) env by (simp add: validateReplay_def)
  have safe: "isSafeInteger (deliveryGeneration x)" if "mapDelivery x = Inr view" for x
    using that by (auto simp: mapDelivery_def result_simps)
  from cases show ?thesis
  proof (elim disjE exE conjE)
    fix existing
    assume e: "List.find (\<lambda>d. requestKey d = redeliveryId input) (webhookDeliveries db) = Some existing"
      "sameReplay env input original existing" "mapDelivery existing = Inr view" "db' = db"
    have "sameReplay env' input original existing" using e(2) env by (simp add: sameReplay_def)
    then show ?thesis
      unfolding replay_def e(4) using valid site o(2) e(1,3) safe [OF e(3)] by simp
  next
    assume none: "List.find (\<lambda>d. requestKey d = redeliveryId input) (webhookDeliveries db) = None"
      and new: "replayNew env input original db = Inr ((view, again), db')"
    obtain row gen t0 where r: "row = redelivery env input db original gen t0"
      "webhookDeliveries db' = webhookDeliveries db @ [row]" "orderTables db' = orderTables db"
      "List.find (\<lambda>d. requestKey d = redeliveryId input) (webhookDeliveries db') = Some row"
      "mapDelivery row = Inr view"
      by (rule replayNew_row [OF new none]) simp
    have found: "List.find (\<lambda>d. deliveryId d = replayDeliveryId input) (webhookDeliveries db') = Some original"
      unfolding r(2) by (rule find_append_new(2) [OF o(2)])
    have "assertSiteDelivery db' (replayClientId input) (replayDeliveryId input) = Inr ()"
      using assertSiteDelivery_same [OF found o(2) r(3)] site by simp
    moreover have "sameReplay env' input original row"
      unfolding sameReplay_def r(1) using env by (simp add: redelivery_def)
    ultimately show ?thesis
      unfolding replay_def using valid found r(4,5) safe [OF r(5)] by simp
  qed
qed

subsection \<open>Materializing is complete\<close>

definition hasFirstDelivery :: "notify_db \<Rightarrow> outbox_event \<Rightarrow> stored_webhook_target \<Rightarrow> bool" where
  "hasFirstDelivery db e t \<longleftrightarrow>
     list_ex (\<lambda>d. deliveryEventId d = outboxEventId e \<and> deliveryTargetId d = targetId t \<and>
                deliveryGeneration d = 1) (webhookDeliveries db)"

lemma materializeRows_rows:
  assumes "materializeRows env now rows db = Inr (n, db')"
  shows "n = int (length rows) \<and> (\<exists>new. webhookDeliveries db' = webhookDeliveries db @ new) \<and>
    (\<forall>(e, t) \<in> set rows. hasFirstDelivery db' e t)"
  using assms
proof (induction env now rows db arbitrary: n rule: materializeRows.induct)
  case (2 env now e t rows db)
  obtain db1 m where m: "insertDelivery (firstDelivery env now db e t) db = Inr db1"
      "materializeRows env now rows db1 = Inr (m, db')" "n = m + 1"
    and safe: "isSafeInteger (outboxCreatedAt e)" "isSafeInteger (targetCreatedAt t)"
    using "2.prems" by (auto simp: result_simps)
  have IH: "m = int (length rows) \<and> (\<exists>new. webhookDeliveries db' = webhookDeliveries db1 @ new) \<and>
      (\<forall>(e, t) \<in> set rows. hasFirstDelivery db' e t)"
    by (rule "2.IH" [OF _ _ m(1) m(2)]) (use safe in simp_all)
  have rows: "webhookDeliveries db1 = webhookDeliveries db @ [firstDelivery env now db e t]"
    using m(1) by (auto simp: insertDelivery_Inr)
  then have "hasFirstDelivery db' e t"
    using IH by (auto simp: hasFirstDelivery_def firstDelivery_def Let_def)
  then show ?case using IH rows m(3) by auto
qed simp

lemma materialize_complete:
  assumes m: "materialize env limit now client db = Inr (n, db')" and all: "n < limit"
    and e: "e \<in> set (outboxEvents db)" and t: "t \<in> set (webhookTargets (orderTables db))"
    and owner: "targetOrderId t = aggregateId e" "case client of None \<Rightarrow> True | Some c \<Rightarrow> targetClientId t = c"
    and live: "liveTarget db t" "targetFormat t = NATIVE_JSON_V1 \<or> outboxEventType e = PAYMENT_CONFIRMED"
  shows "hasFirstDelivery db' e t"
proof -
  let ?all = "sort_key (\<lambda>(e, t). (outboxCreatedAt e, outboxEventId e)) (filter (\<lambda>(e, t). needsDelivery db client e t)
      (List.product (outboxEvents db) (webhookTargets (orderTables db))))"
  have rows: "materializeRows env now (materializationRows db client (nat limit)) db = Inr (n, db')"
    using m by (auto simp: materialize_def result_simps)
  note r = materializeRows_rows [OF rows]
  have "length (take (nat limit) ?all) < nat limit" using r all by (simp add: materializationRows_def)
  then have taken: "materializationRows db client (nat limit) = ?all"
    by (simp add: materializationRows_def min_def split: if_splits)
  show ?thesis
  proof (cases "hasFirstDelivery db e t")
    case True
    then show ?thesis using r by (auto simp: hasFirstDelivery_def)
  next
    case False
    then have "needsDelivery db client e t"
      using owner live by (simp add: needsDelivery_def hasFirstDelivery_def)
    then have "(e, t) \<in> set (materializationRows db client (nat limit))"
      unfolding taken using e t by simp
    then show ?thesis using r by blast
  qed
qed

end
