(* ===== verification/NotificationSamples.thy ===== *)
theory NotificationSamples
  imports NotificationSchedule NotificationRequests OrderSamples
begin

text \<open>
  A website with one native target and one confirmed payment, and the rows its notification passes
  through, at which the properties of the notification store are instantiated.
\<close>

definition sampleEpayEnv :: epay_env where
  "sampleEpayEnv =
     \<lparr>md5 = (\<lambda>_. replicate 32 0x30), createRsaKey = (\<lambda>_ _. None), rsaSign = (\<lambda>_ _. []),
      rsaVerify = (\<lambda>_ _ _. False), base64Decode = (\<lambda>_. []), base64Encode = (\<lambda>_. []),
      epayUrls = sampleUrlEnv, appendSearchParams = (\<lambda>_ _. [])\<rparr>"

definition notifySample :: "string \<Rightarrow> notify_env" where
  "notifySample name =
     \<lparr>notifySha256 = (\<lambda>_. replicate 64 CHR ''0''), epayEnv = sampleEpayEnv,
      newDeliveryId = (\<lambda>_. sampleUuid name), newLeaseToken = sampleUuid name, newAttemptId = sampleUuid name\<rparr>"

definition sampleSite :: site_row where
  "sampleSite =
     \<lparr>siteClientId = js ''shop'', siteRevision = 1, acceptingOrders = True, pendingOrderLimit = None,
      notificationsEnabled = True, notificationOrigin = Some (js ''https://a.b'')\<rparr>"

definition sampleTarget :: stored_webhook_target where
  "sampleTarget =
     \<lparr>targetId = sampleUuid ''c'', targetOrderId = sampleUuid ''1'', targetClientId = js ''shop'',
      targetFormat = NATIVE_JSON_V1, targetUrl = js ''https://a.b/n'', targetAllowedOrigin = js ''https://a.b'',
      targetUrlFingerprint = replicate 64 CHR ''0'', targetRequestFingerprint = replicate 64 CHR ''0'',
      targetRequestFingerprintVersion = 1, targetCreatedAt = 1000\<rparr>"

definition confirmedEvent :: outbox_event where
  "confirmedEvent =
     \<lparr>outboxEventId = sampleUuid ''e'', outboxOperationId = sampleUuid ''0'', aggregateId = sampleUuid ''1'',
      aggregateVersion = 2, outboxEventType = PAYMENT_CONFIRMED, payloadJson = js ''{}'',
      payloadFingerprint = replicate 64 CHR ''0'', outboxCreatedAt = 2000\<rparr>"

definition sampleKey :: signing_key_row where
  "sampleKey =
     \<lparr>signingKeyVersion = 1, signingKeyId = sampleUuid ''f'', secretFingerprint = replicate 64 CHR ''0'',
      signingActivatedAt = 0, signingRetiredAt = None, signingClientId = js ''shop'', siteKeyVersion = 1\<rparr>"

definition freshTables :: notify_db where
  "freshTables =
     \<lparr>orderTables = sampleDb\<lparr>paymentOrders := [sampleOrder ''1'' 1000], webhookTargets := [sampleTarget], siteRows := [sampleSite]\<rparr>,
      providerEndpoints = [], outboxEvents = [confirmedEvent], webhookDeliveries = [], webhookAttempts = [],
      signingKeys = [sampleKey], epayCredentials = [], paymentMatches = [], webhookAudits = []\<rparr>"

definition queuedRow :: delivery_row where
  "queuedRow = firstDelivery (notifySample ''d'') 3000 freshTables confirmedEvent sampleTarget"

definition queuedTables :: notify_db where
  "queuedTables = freshTables\<lparr>webhookDeliveries := [queuedRow]\<rparr>"

lemmas notify_samples =
  freshTables_def sampleTarget_def sampleSite_def confirmedEvent_def sampleKey_def notifySample_def
  sampleEpayEnv_def sampleUuid_def

lemma digest_sample: "isHexDigest (replicate 64 CHR ''0'')"
  by (simp add: isHexDigest_def isLowerHex_def list_all_iff)

lemma queuedRow_fields [simp]:
  "deliveryId queuedRow = sampleUuid ''d''" "deliveryStatus queuedRow = PENDING" "attemptCount queuedRow = 0"
  "nextAttemptAt queuedRow = 3000" "leaseToken queuedRow = None" "leaseExpiresAt queuedRow = None"
  "deliveryEventId queuedRow = sampleUuid ''e''" "deliveryTargetId queuedRow = sampleUuid ''c''"
  "deliveryGeneration queuedRow = 1" "predecessorDeliveryId queuedRow = None" "requestKey queuedRow = sampleUuid ''e''"
  "requestedByType queuedRow = SYSTEM" "requestedByActorId queuedRow = None" "deliveryReason queuedRow = None"
  "acknowledgedAt queuedRow = None" "deadLetteredAt queuedRow = None" "lastErrorCode queuedRow = None"
  "deliveryCreatedAt queuedRow = 3000" "deliveryUpdatedAt queuedRow = 3000"
  "deliveryFingerprint queuedRow = replicate 64 CHR ''0''"
  by (simp_all add: queuedRow_def firstDelivery_def Let_def confirmedEvent_def sampleTarget_def notifySample_def
      webhookDeliveryRequestFingerprint_def fingerprintTuple_def)

lemma length_sampleUuid [simp]: "length (sampleUuid [c]) = 36"
  by (simp add: sampleUuid_def)

lemma queuedRow_checks: "deliveryChecks queuedRow"
  using digest_sample by (simp add: deliveryChecks_def requesterChecks_def statusChecks_def isWaiting_def)

lemma notifyInv_queued: "notifyInv queuedTables"
proof -
  have "attemptsOk [] queuedRow" by (simp add: attemptsOk_def attemptsOf_def)
  moreover have "deliveryTimes queuedRow" by (simp add: deliveryTimes_def)
  moreover have "deliveryKeys [queuedRow]" by (simp add: deliveryKeys_def map_filter_simps)
  moreover have "predecessorOk [queuedRow] queuedRow" by (simp add: predecessorOk_def)
  ultimately show ?thesis
    using queuedRow_checks by (simp add: notifyInv_def queuedTables_def freshTables_def attemptKeys_def)
qed

definition sampleClaim :: claim_input where
  "sampleClaim =
     \<lparr>claimEpayCredentials = None, claimClientId = Some (js ''shop''), claimSiteRevision = Some 1,
      claimSecretFingerprint = None, claimNow = 4000, leaseMilliseconds = 30000, claimMaximumAttempts = 3\<rparr>"

lemma js_shop: "siteClientIdSchema (js ''shop'')"
  by (simp add: siteClientIdSchema_def js_def unitOf_def isAsciiAlphanumeric_def isMerchantOrderUnit_def)

lemma validate_sampleClaim: "validateClaim sampleClaim = Inr ()"
  using js_shop
  by (simp add: validateClaim_def result_simps sampleClaim_def parseSiteClientId_def MAX_LEASE_MILLISECONDS_def
      isSafeInteger_def maxSafeInteger_def)

lemma sample_tables [simp]:
  "webhookDeliveries queuedTables = [queuedRow]" "webhookAttempts queuedTables = []"
  "signingKeys queuedTables = [sampleKey]" "outboxEvents queuedTables = [confirmedEvent]"
  "webhookTargets (orderTables queuedTables) = [sampleTarget]"
  "siteRows (orderTables queuedTables) = [sampleSite]" "providerEndpoints queuedTables = []"
  "paymentOrders (orderTables queuedTables) = [sampleOrder ''1'' 1000]"
  "profileProviderLinks (orderTables queuedTables) = []"
  by (simp_all add: queuedTables_def freshTables_def sampleDb_def)

lemma sample_joins:
  "eventOf queuedTables (sampleUuid ''e'') = Some confirmedEvent"
  "targetWithId queuedTables (sampleUuid ''c'') = Some sampleTarget" "liveTarget queuedTables sampleTarget"
  "targetClientId sampleTarget = js ''shop''"
  by (simp_all add: eventOf_def targetWithId_def confirmedEvent_def sampleTarget_def liveTarget_def)

lemma sample_due: "isDue queuedTables (Some (js ''shop'')) 4000 3 queuedRow"
  by (simp add: isDue_def sample_joins isWaiting_def)

lemma sample_site: "siteMayNotify sampleClaim queuedTables"
  by (simp add: siteMayNotify_def sampleClaim_def readSite_def sampleSite_def)

lemma sample_signing: "readActiveSigningKey queuedTables (Some (js ''shop'')) =
    Inr (Some (webhook_signing_key.truncate sampleKey))"
  by (simp add: readActiveSigningKey_def mapSigningKey_def sampleKey_def isSafeInteger_def maxSafeInteger_def safeOption_def)

lemma sample_safe: "safeTables queuedTables"
  using digest_sample
  by (simp add: safeTables_def safeDelivery_def isSafeInteger_def maxSafeInteger_def confirmedEvent_def sampleTarget_def)

lemma sample_fresh: "freshClaim (notifySample ''a'') queuedTables"
  by (simp add: freshClaim_def notifySample_def)

lemma sample_native: "nativeClient queuedTables (js ''shop'')"
  by (simp add: nativeClient_def sampleTarget_def)

lemma sample_claims:
  obtains c db' where "claimNext (notifySample ''a'') sampleClaim queuedTables = Inr (Some c, db')"
  using claimNext_succeeds [OF notifyInv_queued sample_safe sample_fresh validate_sampleClaim sample_site _
      sample_signing _ sample_native, of queuedRow] sample_due
  by (auto simp: sampleClaim_def isSafeInteger_def maxSafeInteger_def)

end
