(* ===== verification/NotificationTheorems.thy ===== *)
theory NotificationTheorems
  imports NotificationSamples
begin

text \<open>
  The properties of the notification store, each with an instance at the sample website.
\<close>

subsection \<open>Every reachable state\<close>

lemma notifyInv_empty: "webhookDeliveries db = [] \<Longrightarrow> webhookAttempts db = [] \<Longrightarrow> notifyInv db"
  by (simp add: notifyInv_def deliveryKeys_def attemptKeys_def map_filter_simps)

lemma reachable_inv:
  "webhookDeliveries db = [] \<Longrightarrow> webhookAttempts db = [] \<Longrightarrow> notifyInv (fold notifyStep operations db)"
  by (rule notifications.run_inv [OF notifyInv_empty])

text \<open>C14: Starting from tables without deliveries, after any sequence of operations of the notification store, successful or failed, and of any changes to the other tables, every delivery's attempts are numbered 1 to its attempt count, an attempt is open exactly when it is the last one of a leased delivery and then carries that delivery's lease token, and every row satisfies the CHECKs of its table.\<close>

theorem attempts_match_deliveries:
  assumes "webhookDeliveries db = []" "webhookAttempts db = []"
    and "d \<in> set (webhookDeliveries (fold notifyStep operations db))"
  shows "deliveryChecks d \<and>
    map attemptNumber (attemptsOf d (webhookAttempts (fold notifyStep operations db))) = [1..attemptCount d] \<and>
    (\<forall>a \<in> set (attemptsOf d (webhookAttempts (fold notifyStep operations db))).
       attemptChecks a \<and>
       (attemptOutcome a = STARTED \<longleftrightarrow> deliveryStatus d = LEASED \<and> attemptNumber a = attemptCount d) \<and>
       (attemptOutcome a = STARTED \<longrightarrow> leaseToken d = Some (attemptLeaseToken a)))"
proof -
  note inv = reachable_inv [OF assms(1,2), of operations]
  have "attemptChecks a" if "a \<in> set (attemptsOf d (webhookAttempts (fold notifyStep operations db)))" for a
    using inv that by (simp add: notifyInv_def attemptsOf_def)
  then show ?thesis
    using notifyInvD(1,3) [OF inv assms(3)] by (auto simp: attemptsOk_def attemptOk_def)
qed

lemma sample_materialize:
  "materialize (notifySample ''d'') 10 3000 None freshTables = Inr (1, queuedTables)"
proof -
  have need: "needsDelivery freshTables None confirmedEvent sampleTarget"
    using sample_joins(3) by (simp add: needsDelivery_def liveTarget_def confirmedEvent_def sampleTarget_def
        freshTables_def queuedTables_def)
  have rows: "materializationRows freshTables None 10 = [(confirmedEvent, sampleTarget)]"
    using need by (simp add: materializationRows_def freshTables_def)
  have "deliveryInsertAllowed freshTables queuedRow"
    using sample_joins by (simp add: deliveryInsertAllowed_def eventOf_def targetWithId_def freshTables_def
        confirmedEvent_def sampleTarget_def sampleDb_def)
  then have "insertDelivery queuedRow freshTables = Inr queuedTables"
    using queuedRow_checks
    by (simp add: insertDelivery_Inr freshTables_def queuedTables_def deliveryKeys_def map_filter_simps)
  then show ?thesis
    using rows by (simp add: materialize_def parseSiteClientId_def assertPositiveInteger_def assertTime_def
        isSafeInteger_def maxSafeInteger_def queuedRow_def [symmetric])
      (simp add: confirmedEvent_def sampleTarget_def isSafeInteger_def maxSafeInteger_def)
qed

lemma sample_run: "fold notifyStep [Materialize (notifySample ''d'') 10 3000 None] freshTables = queuedTables"
  using sample_materialize by (simp add: dbWrite_def)

theorem attempts_match_deliveries_witness:
  "map attemptNumber (attemptsOf queuedRow (webhookAttempts
     (fold notifyStep [Materialize (notifySample ''d'') 10 3000 None] freshTables))) = [1..attemptCount queuedRow]"
proof -
  have "queuedRow \<in> set (webhookDeliveries (fold notifyStep [Materialize (notifySample ''d'') 10 3000 None] freshTables))"
    unfolding sample_run by simp
  then show ?thesis
    using attempts_match_deliveries [of freshTables queuedRow "[Materialize (notifySample ''d'') 10 3000 None]"]
    by (simp add: freshTables_def)
qed

text \<open>C15: In every reachable state an event has at most one waiting or leased delivery per target, and a redelivery follows a finished delivery of the same event and target whose generation is one less.\<close>

theorem one_open_delivery:
  assumes "webhookDeliveries db = []" "webhookAttempts db = []"
    and "rows = webhookDeliveries (fold notifyStep operations db)" "d \<in> set rows"
  shows "(\<forall>e \<in> set rows. samePair d e \<and> isActiveStatus (deliveryStatus d) \<and> isActiveStatus (deliveryStatus e) \<longrightarrow> d = e) \<and>
    (deliveryGeneration d > 1 \<longrightarrow>
      (\<exists>p \<in> set rows. predecessorDeliveryId d = Some (deliveryId p) \<and> samePair d p \<and>
         deliveryGeneration p = deliveryGeneration d - 1 \<and> isTerminal (deliveryStatus p)))"
proof -
  note inv = reachable_inv [OF assms(1,2), of operations]
  have u: "uniqueKeys (set rows)" using inv assms(3) by (simp add: notifyInv_def deliveryKeys_iff)
  have "predecessorOk rows d" using notifyInvD(4) [OF inv] assms(3,4) by simp
  then show ?thesis
    using uniqueKeysD(2) [OF u assms(4)] by (auto simp: predecessorOk_def samePair_def)
qed

theorem one_open_delivery_witness:
  "filter (\<lambda>e. samePair queuedRow e \<and> isActiveStatus (deliveryStatus e))
     (webhookDeliveries (fold notifyStep [Materialize (notifySample ''d'') 10 3000 None] freshTables)) = [queuedRow]"
  using one_open_delivery [of freshTables "[queuedRow]" "[Materialize (notifySample ''d'') 10 3000 None]" queuedRow]
  unfolding sample_run by (simp add: freshTables_def isActiveStatus_def samePair_def)

text \<open>C16: A delivery that was acknowledged or dead-lettered never changes again, whatever operations of the store and changes of other tables follow.\<close>

theorem finished_deliveries_are_final:
  assumes "notifyInv db" "d \<in> set (webhookDeliveries db)" "isTerminal (deliveryStatus d)"
  shows "d \<in> set (webhookDeliveries (fold notifyStep operations db))"
  using run_evolves [OF assms(1,2), of operations] deliveryEvolves_terminal [OF _ assms(3)] by blast

definition deadRow :: delivery_row where
  "deadRow = queuedRow\<lparr>deliveryStatus := DEAD_LETTER, attemptCount := 1, deadLetteredAt := Some 5000,
     lastErrorCode := Some ''timeout'', deliveryUpdatedAt := 5000\<rparr>"

definition failedAttempt :: attempt_row where
  "failedAttempt =
     finishAttempt PERMANENT_FAILURE (noEvidence\<lparr>errorCode := Some ''timeout''\<rparr>) 5000
       (startedAttempt (notifySample ''a'') None (webhook_signing_key.truncate sampleKey) confirmedEvent
          (sampleUuid ''d'') 1 4000)"

definition deadTables :: notify_db where
  "deadTables = queuedTables\<lparr>webhookDeliveries := [deadRow], webhookAttempts := [failedAttempt]\<rparr>"

lemma codeText_timeout: "isCodeText ''timeout''"
  by (simp add: isCodeText_def)

lemma failedAttempt_fields [simp]:
  "attemptId failedAttempt = sampleUuid ''a''" "attemptDeliveryId failedAttempt = sampleUuid ''d''"
  "attemptNumber failedAttempt = 1" "attemptOutcome failedAttempt = PERMANENT_FAILURE"
  by (simp_all add: failedAttempt_def finishAttempt_def startedAttempt_def notifySample_def)

lemma failedAttempt_checks: "attemptChecks failedAttempt"
  using digest_sample codeText_timeout
  by (simp add: attemptChecks_def failedAttempt_def finishAttempt_def startedAttempt_def notifySample_def
      evidenceChecks_def noEvidence_def protocolChecks_def outcomeChecks_def confirmedEvent_def)

lemma notifyInv_dead: "notifyInv deadTables"
proof -
  have "deliveryChecks deadRow"
    using digest_sample codeText_timeout
    by (simp add: deadRow_def deliveryChecks_def requesterChecks_def statusChecks_def isWaiting_def)
  moreover have "attemptsOk [failedAttempt] deadRow"
    by (simp add: attemptsOk_def attemptsOf_def attemptOk_def deadRow_def upto.simps)
  moreover have "deliveryTimes deadRow" by (simp add: deadRow_def deliveryTimes_def isWaiting_def)
  moreover have "deliveryKeys [deadRow]" by (simp add: deliveryKeys_def map_filter_simps deadRow_def)
  moreover have "predecessorOk [deadRow] deadRow" by (simp add: predecessorOk_def deadRow_def)
  moreover have "deliveryId deadRow = sampleUuid ''d''" by (simp add: deadRow_def)
  ultimately show ?thesis
    using failedAttempt_checks by (simp add: notifyInv_def deadTables_def attemptKeys_def)
qed

theorem finished_deliveries_are_final_witness:
  "deadRow \<in> set (webhookDeliveries (fold notifyStep [RecoverExpired 9000, ClaimNext (notifySample ''b'') sampleClaim] deadTables))"
  by (rule finished_deliveries_are_final [OF notifyInv_dead])
    (simp_all add: deadTables_def deadRow_def isTerminal_def)

subsection \<open>Claims\<close>

text \<open>C17: A claim hands out one delivery that nobody else may hold: before, it was waiting and due or its lease had run out, and its attempts were below the maximum; afterwards it is leased under the claim's own token until the claim's expiry, counts one more attempt, and every lease of another delivery that has not run out is untouched.\<close>

theorem claim_takes_a_free_delivery:
  assumes "notifyInv db" "claimNext env input db = Inr (Some c, db')"
  shows "(\<exists>d \<in> set (webhookDeliveries db). \<exists>e \<in> set (webhookDeliveries db').
      deliveryId e = deliveryId d \<and>
      (isWaiting (deliveryStatus d) \<and> nextAttemptAt d \<le> claimNow input \<or> leaseExpired db (claimNow input) d) \<and>
      deliveryStatus e = LEASED \<and> leaseToken e = Some (newLeaseToken env) \<and>
      leaseExpiresAt e = Some (claimNow input + leaseMilliseconds input) \<and>
      attemptCount e = attemptCount d + 1 \<and> attemptCount e \<le> claimMaximumAttempts input \<and>
      claimedDelivery c = webhook_delivery.truncate e) \<and>
    (\<forall>x \<in> set (webhookDeliveries db).
      deliveryStatus x = LEASED \<and> \<not> leaseExpired db (claimNow input) x \<longrightarrow> x \<in> set (webhookDeliveries db'))"
proof -
  obtain d e where "d \<in> set (webhookDeliveries db)" "claimableAt db (claimNow input) d"
    "e \<in> set (webhookDeliveries db')" "deliveryId e = deliveryId d" "deliveryStatus e = LEASED"
    "leaseToken e = Some (newLeaseToken env)" "leaseExpiresAt e = Some (claimNow input + leaseMilliseconds input)"
    "attemptCount e = attemptCount d + 1" "attemptCount e \<le> claimMaximumAttempts input"
    "claimedDelivery c = webhook_delivery.truncate e"
    by (rule claim_row [OF assms(2,1)])
  then show ?thesis
    unfolding claimableAt_def using claim_keeps_lease [OF assms(2,1)] by blast
qed

theorem claim_takes_a_free_delivery_witness:
  "\<exists>c db'. claimNext (notifySample ''a'') sampleClaim queuedTables = Inr (Some c, db') \<and>
     (\<exists>e \<in> set (webhookDeliveries db'). deliveryStatus e = LEASED \<and> leaseExpiresAt e = Some 34000)"
proof -
  obtain c db' where c: "claimNext (notifySample ''a'') sampleClaim queuedTables = Inr (Some c, db')"
    by (rule sample_claims)
  show ?thesis
    using claim_takes_a_free_delivery [OF notifyInv_queued c] c by (auto simp: sampleClaim_def)
qed

text \<open>C18: A notification is claimed only for a live target of the website the caller acts for, and only while that website has notifications enabled and is at the revision the caller read; a target whose order was collected through the provider's sandbox is never claimed.\<close>

theorem claim_respects_the_website:
  assumes "notifyInv db" "claimNext env input db = Inr (Some c, db')" "claimClientId input = Some client"
  shows "\<exists>t site. targetWithId db (deliveryTargetId (claimedDelivery c)) = Some t \<and> claimedTarget c = t \<and>
    liveTarget db t \<and> targetClientId t = client \<and>
    readSite (orderTables db) client = Some site \<and> notificationsEnabled site \<and>
    claimSiteRevision input = Some (siteRevision site)"
proof -
  obtain t where "targetWithId db (deliveryTargetId (claimedDelivery c)) = Some t" "liveTarget db t"
    "claimedTarget c = t" "targetClientId t = client" and site: "siteMayNotify input db"
    by (rule claim_target [OF assms(2,1)]) (use assms(3) in blast)
  then show ?thesis
    using site assms(3) by (auto simp: siteMayNotify_def split: option.splits)
qed

theorem claim_respects_the_website_witness:
  "\<exists>c db'. claimNext (notifySample ''a'') sampleClaim queuedTables = Inr (Some c, db') \<and>
     targetClientId (claimedTarget c) = js ''shop''"
proof -
  obtain c db' where c: "claimNext (notifySample ''a'') sampleClaim queuedTables = Inr (Some c, db')"
    by (rule sample_claims)
  have "claimClientId sampleClaim = Some (js ''shop'')" by (simp add: sampleClaim_def)
  then show ?thesis using claim_respects_the_website [OF notifyInv_queued c] c by blast
qed

text \<open>C19: A due delivery is claimed: when the website may be notified, has its signing key and all its targets are native, and a delivery of it is due, the claim succeeds and hands out a delivery; no key, CHECK or trigger of the tables can stop it.\<close>

theorem due_delivery_is_claimed:
  assumes "notifyInv db" "safeTables db" "freshClaim env db" "validateClaim input = Inr ()"
    and "siteMayNotify input db" "claimClientId input = Some client"
    and "readActiveSigningKey db (Some client) = Inr (Some key)"
      "claimSecretFingerprint input = None \<or> claimSecretFingerprint input = Some (secretFingerprint key)"
    and "nativeClient db client" "d \<in> set (webhookDeliveries db)"
      "isDue db (Some client) (claimNow input) (claimMaximumAttempts input) d"
      "isSafeInteger (claimNow input + leaseMilliseconds input)"
  shows "\<exists>c db'. dbWrite (claimNext env input) db = (Inr (Some c), db')"
  using claimNext_succeeds [OF assms] by (auto simp: dbWrite_def)

theorem due_delivery_is_claimed_witness:
  "\<exists>c db'. dbWrite (claimNext (notifySample ''a'') sampleClaim) queuedTables = (Inr (Some c), db')"
  using due_delivery_is_claimed [OF notifyInv_queued sample_safe sample_fresh validate_sampleClaim sample_site _
      sample_signing _ sample_native, of queuedRow] sample_due
  by (simp add: sampleClaim_def isSafeInteger_def maxSafeInteger_def)

text \<open>C20: Starting from empty tables, no delivery is attempted more often than the largest maximum any claim of the run allows, and the attempt table holds exactly as many attempts of it as its counter says.\<close>

theorem attempts_are_bounded:
  assumes "webhookDeliveries db = []" "webhookAttempts db = []" "list_all (claimsWithin maximum) operations" "0 \<le> maximum"
    and "d \<in> set (webhookDeliveries (fold notifyStep operations db))"
  shows "int (length (attemptsOf d (webhookAttempts (fold notifyStep operations db)))) = attemptCount d \<and>
    attemptCount d \<le> maximum"
proof -
  note inv = reachable_inv [OF assms(1,2), of operations]
  have "attemptsBounded maximum (fold notifyStep operations db)"
    by (rule run_bounded [OF notifyInv_empty [OF assms(1,2)] _ assms(3,4)]) (simp add: attemptsBounded_def assms(1))
  then show ?thesis using attempts_length [OF inv assms(5)] assms(5) by (simp add: attemptsBounded_def)
qed

text \<open>The delivery that is materialized at 3000 and claimed at 4000.\<close>

abbreviation sampleOperations :: "notify_operation list" where
  "sampleOperations \<equiv> [Materialize (notifySample ''d'') 10 3000 None, ClaimNext (notifySample ''a'') sampleClaim]"

theorem attempts_are_bounded_witness:
  "\<exists>e \<in> set (webhookDeliveries (fold notifyStep sampleOperations freshTables)).
     attemptCount e = 1 \<and> attemptCount e \<le> 3 \<and>
     length (attemptsOf e (webhookAttempts (fold notifyStep sampleOperations freshTables))) = 1"
proof -
  obtain c db' where c: "claimNext (notifySample ''a'') sampleClaim queuedTables = Inr (Some c, db')"
    by (rule sample_claims)
  have run: "fold notifyStep sampleOperations freshTables = db'"
    using sample_run c by (simp add: dbWrite_def)
  obtain d e where de: "d \<in> set (webhookDeliveries queuedTables)" "e \<in> set (webhookDeliveries db')"
      "attemptCount e = attemptCount d + 1"
    by (rule claim_row [OF c notifyInv_queued])
  have "attemptCount e = 1" using de(1,3) by simp
  moreover have "int (length (attemptsOf e (webhookAttempts db'))) = attemptCount e \<and> attemptCount e \<le> 3"
  proof (rule attempts_are_bounded [where db = freshTables and operations = sampleOperations, unfolded run])
    show "webhookDeliveries freshTables = []" "webhookAttempts freshTables = []" by (simp_all add: freshTables_def)
    show "list_all (claimsWithin 3) sampleOperations" by (simp add: sampleClaim_def)
  qed (use de(2) in simp_all)
  ultimately show ?thesis using de(2) unfolding run by (intro bexI [of _ e]) simp_all
qed

subsection \<open>Recovery\<close>

text \<open>C21: Recovering expired leases always succeeds, and its loop over the expired rows is one update of the tables: exactly the deliveries whose lease has run out wait for a retry due now, exactly their open attempts end with an unknown outcome, everything else is unchanged, and the count it returns is theirs.\<close>

theorem recovery_is_one_update:
  assumes "notifyInv db" "countsSafe db"
  shows "recoverExpiredLeases now db =
    Inr (int (changes (leaseExpired db now) (webhookDeliveries db)),
      db\<lparr>webhookDeliveries := updateRows (leaseExpired db now) (expireLease now) (webhookDeliveries db),
         webhookAttempts :=
           updateRows (\<lambda>a. attemptOutcome a = STARTED \<and>
               (\<exists>d \<in> set (webhookDeliveries db). leaseExpired db now d \<and> deliveryId d = attemptDeliveryId a))
             (expireAttempt now) (webhookAttempts db)\<rparr>)"
proof -
  have "openAttemptOf (deliveryId ` set (filter (leaseExpired db now) (webhookDeliveries db))) =
      (\<lambda>a. attemptOutcome a = STARTED \<and>
         (\<exists>d \<in> set (webhookDeliveries db). leaseExpired db now d \<and> deliveryId d = attemptDeliveryId a))"
    by (auto simp: openAttemptOf_def fun_eq_iff image_iff)
  then show ?thesis using recoverExpiredLeases_is [OF assms, of now] by (simp add: recoveredAt_def)
qed

definition leasedRow :: delivery_row where
  "leasedRow = leaseDelivery (sampleUuid ''a'') 34000 4000 1 queuedRow"

definition openAttempt :: attempt_row where
  "openAttempt =
     startedAttempt (notifySample ''a'') None (webhook_signing_key.truncate sampleKey) confirmedEvent
       (sampleUuid ''d'') 1 4000"

definition leasedTables :: notify_db where
  "leasedTables = queuedTables\<lparr>webhookDeliveries := [leasedRow], webhookAttempts := [openAttempt]\<rparr>"

lemma openAttempt_fields [simp]:
  "attemptId openAttempt = sampleUuid ''a''" "attemptDeliveryId openAttempt = sampleUuid ''d''"
  "attemptNumber openAttempt = 1" "attemptOutcome openAttempt = STARTED"
  "attemptLeaseToken openAttempt = sampleUuid ''a''" "startedAt openAttempt = 4000"
  "attemptProtocol openAttempt = NativeProtocol"
  by (simp_all add: openAttempt_def startedAttempt_def notifySample_def)

lemma leasedRow_fields [simp]:
  "deliveryId leasedRow = sampleUuid ''d''" "deliveryStatus leasedRow = LEASED" "attemptCount leasedRow = 1"
  "leaseToken leasedRow = Some (sampleUuid ''a'')" "leaseExpiresAt leasedRow = Some 34000"
  "deliveryUpdatedAt leasedRow = 4000" "deliveryGeneration leasedRow = 1"
  "nextAttemptAt leasedRow = 3000" "acknowledgedAt leasedRow = None" "deadLetteredAt leasedRow = None"
  "deliveryCreatedAt leasedRow = 3000" "deliveryTargetId leasedRow = sampleUuid ''c''"
  by (simp_all add: leasedRow_def leaseDelivery_def)

lemma notifyInv_leased: "notifyInv leasedTables"
proof -
  have "deliveryChecks leasedRow"
    using digest_sample
    by (simp add: leasedRow_def leaseDelivery_def deliveryChecks_def requesterChecks_def statusChecks_def isWaiting_def)
  moreover have "attemptsOk [openAttempt] leasedRow"
    by (simp add: attemptsOk_def attemptsOf_def attemptOk_def upto.simps)
  moreover have "deliveryTimes leasedRow" by (simp add: deliveryTimes_def isWaiting_def)
  moreover have "deliveryKeys [leasedRow]" by (simp add: deliveryKeys_def map_filter_simps)
  moreover have "predecessorOk [leasedRow] leasedRow" by (simp add: predecessorOk_def)
  moreover have "attemptChecks openAttempt"
    unfolding openAttempt_def
    by (rule startedAttempt_native_checks [OF sample_fresh])
      (use digest_sample in \<open>simp_all add: confirmedEvent_def\<close>)
  ultimately show ?thesis by (simp add: notifyInv_def leasedTables_def attemptKeys_def)
qed

lemma leasedTables_rows [simp]:
  "webhookDeliveries leasedTables = [leasedRow]" "webhookAttempts leasedTables = [openAttempt]"
  by (simp_all add: leasedTables_def)

lemma leased_expires: "leaseExpired leasedTables 50000 leasedRow"
  using sample_joins(2,3)
  by (simp add: leaseExpired_def targetLiveWithId_def leasedTables_def targetWithId_def liveTarget_def)

theorem recovery_is_one_update_witness:
  "\<exists>db'. recoverExpiredLeases 50000 leasedTables = Inr (1, db') \<and>
     map deliveryStatus (webhookDeliveries db') = [RETRY_WAIT] \<and>
     map attemptOutcome (webhookAttempts db') = [OUTCOME_UNKNOWN]"
proof -
  have "countsSafe leasedTables" by (simp add: countsSafe_def isSafeInteger_def maxSafeInteger_def)
  then show ?thesis
    using leased_expires
    by (subst recovery_is_one_update [OF notifyInv_leased])
      (simp_all add: changes_def updateRows_def expireLease_def expireAttempt_def)
qed

subsection \<open>Completions\<close>

text \<open>C22: A completion is accepted only from the holder of the lease: when no delivery of the given identifier is leased under the given token, the completion fails with a state conflict and nothing is stored.\<close>

theorem completion_needs_the_lease:
  assumes "validateComplete input = Inr ()"
    and "\<And>d. d \<in> set (webhookDeliveries db) \<Longrightarrow> deliveryId d = completeDeliveryId input \<Longrightarrow>
      deliveryStatus d \<noteq> LEASED \<or> leaseToken d \<noteq> Some (completeLeaseToken input)"
  shows "dbWrite (completeAttempt env input) db = (Inl (Failure ''webhook_delivery_state_conflict''), db)"
proof -
  have "findLeased input db = Inl (Failure ''webhook_delivery_state_conflict'')"
  proof (cases "List.find (\<lambda>d. deliveryId d = completeDeliveryId input) (webhookDeliveries db)")
    case None
    then show ?thesis by (simp add: findLeased_def)
  next
    case (Some d)
    then have "\<not> holdsLease (completeLeaseToken input) d"
      using find_SomeD [OF Some] assms(2) by (auto simp: holdsLease_def)
    then show ?thesis using Some by (simp add: findLeased_def assertR_def)
  qed
  then show ?thesis using assms(1) by (simp add: completeAttempt_def dbWrite_def)
qed

definition sampleCompletion :: "string \<Rightarrow> complete_input" where
  "sampleCompletion token =
     \<lparr>completeDeliveryId = sampleUuid ''d'', completeAttemptId = sampleUuid ''a'',
      completeLeaseToken = sampleUuid token, completeOutcome = RETRYABLE_FAILURE, completeNow = 5000,
      completeMaximumAttempts = 1, retryBaseMilliseconds = 1000, retryMaximumMilliseconds = 60000,
      completeEvidence = noEvidence\<lparr>errorCode := Some ''timeout''\<rparr>\<rparr>"

lemma sample_uuids: "isUuidV4 (sampleUuid ''a'')" "isUuidV4 (sampleUuid ''b'')" "isUuidV4 (sampleUuid ''d'')"
    "isUuidV4 (sampleUuid ''e'')" "isUuidV4 (sampleUuid ''f'')"
  by code_simp+

lemma validate_completion:
  "validateComplete (sampleCompletion ''a'') = Inr ()" "validateComplete (sampleCompletion ''b'') = Inr ()"
  using sample_uuids
  by (simp_all add: validateComplete_def sampleCompletion_def result_simps isSafeInteger_def maxSafeInteger_def)

theorem completion_needs_the_lease_witness:
  "dbWrite (completeAttempt (notifySample ''a'') (sampleCompletion ''b'')) leasedTables =
     (Inl (Failure ''webhook_delivery_state_conflict''), leasedTables)"
  by (rule completion_needs_the_lease [OF validate_completion(2)])
    (simp add: sampleCompletion_def)

text \<open>C23: The completion of the lease holder succeeds: when the attempt is open under the caller's token, the evidence passes the code's own validation and the counters are safe integers, no key, CHECK or trigger stops it; the delivery alone changes, into the row the outcome decides, and its lease is gone.\<close>

theorem completion_succeeds:
  assumes "notifyInv db" "validateComplete input = Inr ()" "findLeased input db = Inr (d, a)"
    and "validateCompleteAttemptEvidence env input (attemptProtocol a) = Inr evidence"
      "addressTexts (epayUrls (epayEnv env))"
    and "completionOf env input (attemptCount d)
      (max (max (completeNow input) (deliveryUpdatedAt d)) (startedAt a)) (errorCode evidence) = Inr c"
    and "safeDelivery d" "safeDelivery (completedRow c input d a)" "isSafeInteger (startedAt a)"
  shows "\<exists>db'. dbWrite (completeAttempt env input) db =
      (Inr (webhook_delivery.truncate (completedRow c input d a)), db') \<and>
    webhookDeliveries db' =
      updateRows (\<lambda>x. deliveryId x = deliveryId d) (\<lambda>_. completedRow c input d a) (webhookDeliveries db) \<and>
    leaseToken (completedRow c input d a) = None \<and> deliveryStatus (completedRow c input d a) \<noteq> LEASED"
  using completeAttempt_succeeds [OF assms] completionOf_Inr [OF assms(6)]
  by (auto simp: dbWrite_def completedRow_def applyCompletion_def)

theorem completion_succeeds_witness:
  "\<exists>view db'. dbWrite (completeAttempt (notifySample ''a'') (sampleCompletion ''a'')) leasedTables = (Inr view, db') \<and>
     map deliveryStatus (webhookDeliveries db') = [DEAD_LETTER]"
proof -
  let ?i = "sampleCompletion ''a''"
  have f: "findLeased ?i leasedTables = Inr (leasedRow, openAttempt)"
    by (simp add: findLeased_def sampleCompletion_def holdsLease_def isSafeInteger_def maxSafeInteger_def)
  have e: "validateCompleteAttemptEvidence (notifySample ''a'') ?i (attemptProtocol openAttempt) = Inr (completeEvidence ?i)"
    using codeText_timeout
    by (simp add: validateCompleteAttemptEvidence_def sampleCompletion_def noEvidence_def responseEvidence_def)
  have ip: "addressTexts (epayUrls (epayEnv (notifySample ''a'')))"
    by (simp add: addressTexts_def notifySample_def sampleEpayEnv_def sampleUrlEnv_def)
  let ?c = "\<lparr>nextStatus = DEAD_LETTER, nextAttempt = 5000, nextAcknowledged = None, nextDeadLettered = Some 5000,
      nextError = Some ''timeout''\<rparr>"
  have c: "completionOf (notifySample ''a'') ?i (attemptCount leasedRow)
      (max (max (completeNow ?i) (deliveryUpdatedAt leasedRow)) (startedAt openAttempt))
      (errorCode (completeEvidence ?i)) = Inr ?c"
    by (simp add: completionOf_def sampleCompletion_def)
  have s: "safeDelivery leasedRow" "isSafeInteger (startedAt openAttempt)"
      "safeDelivery (completedRow ?c ?i leasedRow openAttempt)"
    by (simp_all add: safeDelivery_def isSafeInteger_def maxSafeInteger_def completedRow_def applyCompletion_def
        sampleCompletion_def)
  show ?thesis
    using completion_succeeds [OF notifyInv_leased validate_completion(1) f e ip c s(1,3,2)]
    by (auto simp: updateRows_def completedRow_def applyCompletion_def)
qed

subsection \<open>The retry schedule\<close>

text \<open>C24: The delay before a retry is at least a millisecond and at most the maximum, and lies within a fifth of the exponential schedule min(maximum, base * 2^min(attempt - 1, 30)), up to the rounding of the binary64 computation and to the next lower integer, whatever the digest that spreads it.\<close>

theorem retry_delay_follows_schedule:
  assumes "webhookRetryDelayMilliseconds sha did attempt base maximum = Inr delay" "\<And>bytes. isHexDigest (sha bytes)"
  shows "1 \<le> delay \<and> delay \<le> maximum \<and>
    4 / 5 * of_int (min maximum (base * 2 ^ nat (min (attempt - 1) 30))) * (1 - 1 / 2 ^ 50) - 1 < (of_int delay :: rat) \<and>
    (of_int delay :: rat) \<le> 6 / 5 * of_int (min maximum (base * 2 ^ nat (min (attempt - 1) 30))) * (1 + 1 / 2 ^ 50)"
  using webhookRetryDelay_bounds [OF assms(1)] retry_delay_close [OF assms] by (simp add: unjitteredDelay_def)

theorem retry_delay_follows_schedule_witness:
  "\<exists>delay. webhookRetryDelayMilliseconds (\<lambda>_. replicate 64 CHR ''0'') (sampleUuid ''d'') 3 1000 60000 = Inr delay \<and>
     4 / 5 * 4000 * (1 - 1 / 2 ^ 50) - 1 < (of_int delay :: rat)"
proof -
  obtain delay where d: "webhookRetryDelayMilliseconds (\<lambda>_. replicate 64 CHR ''0'') (sampleUuid ''d'') 3 1000 60000 = Inr delay"
    using sample_uuids
    by (auto simp: webhookRetryDelayMilliseconds_def result_simps assertUuid_def assertRetryNumber_def
        isSafeInteger_def maxSafeInteger_def)
  show ?thesis using retry_delay_follows_schedule [OF d] digest_sample d by simp
qed

subsection \<open>Requests\<close>

text \<open>C25: Repeating an accepted redelivery request, with the same operation number and the same contents, returns the same delivery, marked as a replay, and changes nothing.\<close>

theorem redelivery_is_idempotent:
  assumes "replay env input db = Inr ((view, again), db')"
    and "notifySha256 env' = notifySha256 env" "epayEnv env' = epayEnv env"
  shows "dbWrite (replay env' input) db' = (Inr (view, True), db')"
  using replay_again [OF assms] by (simp add: dbWrite_def)

definition sampleReplay :: replay_input where
  "sampleReplay =
     \<lparr>replayClientId = None, redeliveryId = sampleUuid ''f'', replayDeliveryId = sampleUuid ''d'',
      replayActorId = ''admin'', replayReason = js ''x'', replayAllowedOrigin = None, replayNow = 6000\<rparr>"

lemma validate_sampleReplay: "validateReplay (notifySample ''b'') sampleReplay = Inr ()"
proof -
  have "isValidWebhookReason (js ''x'')"
    by (simp add: isValidWebhookReason_def js_def unitOf_def trim_def isTrimmed_def hasControlCharacter_def
        hasOnlyUnicodeScalarValues_def isSurrogatePoint_def isControlPoint_def MAX_WEBHOOK_REASON_CHARACTERS_def)
  then show ?thesis
    using sample_uuids
    by (simp add: validateReplay_def result_simps sampleReplay_def assertIdentifier_def isIdentifierUnit_def
        assertReason_def assertActiveAllowedOrigin_def activeOriginValid_def isSafeInteger_def maxSafeInteger_def)
qed

lemma deadTables_rows [simp]:
  "webhookDeliveries deadTables = [deadRow]" "orderTables deadTables = orderTables queuedTables"
  "outboxEvents deadTables = [confirmedEvent]"
  by (simp_all add: deadTables_def)

lemma sample_redelivery:
  obtains view db' where "replay (notifySample ''b'') sampleReplay deadTables = Inr ((view, False), db')"
proof -
  let ?row = "redelivery (notifySample ''b'') sampleReplay deadTables deadRow 2 6000"
  have d: "deliveryId deadRow = sampleUuid ''d''" "deliveryEventId deadRow = sampleUuid ''e''"
      "deliveryTargetId deadRow = sampleUuid ''c''" "requestKey deadRow = sampleUuid ''e''"
      "deliveryGeneration deadRow = 1" "deliveryStatus deadRow = DEAD_LETTER" "deliveryUpdatedAt deadRow = 5000"
      "leaseToken deadRow = None"
    by (simp_all add: deadRow_def)
  have joins: "targetWithId deadTables (sampleUuid ''c'') = Some sampleTarget"
      "eventOf deadTables (sampleUuid ''e'') = Some confirmedEvent" "liveTarget deadTables sampleTarget"
    by (simp_all add: targetWithId_def eventOf_def liveTarget_def confirmedEvent_def sampleTarget_def)
  have r: "deliveryId ?row = sampleUuid ''b''" "requestKey ?row = sampleUuid ''f''" "deliveryGeneration ?row = 2"
      "deliveryEventId ?row = sampleUuid ''e''" "deliveryTargetId ?row = sampleUuid ''c''"
      "deliveryStatus ?row = PENDING" "predecessorDeliveryId ?row = Some (sampleUuid ''d'')" "leaseToken ?row = None"
    using d by (simp_all add: redelivery_def notifySample_def sampleReplay_def)
  have checks: "deliveryChecks ?row"
    using digest_sample
    by (simp add: deliveryChecks_def requesterChecks_def statusChecks_def isWaiting_def redelivery_def notifySample_def
        sampleReplay_def webhookDeliveryRequestFingerprint_def fingerprintTuple_def js_def unitOf_def sqlTrimmed_def)
  have allowed: "deliveryInsertAllowed deadTables ?row"
    using d r joins by (simp add: deliveryInsertAllowed_def confirmedEvent_def sampleTarget_def samePair_def isTerminal_def)
  have ins: "insertDelivery ?row deadTables = Inr (deadTables\<lparr>webhookDeliveries := [deadRow, ?row]\<rparr>)"
    using allowed checks d r by (simp add: insertDelivery_Inr deliveryKeys_def map_filter_simps isActiveStatus_def)
  have origin: "currentAllowedOrigin deadTables sampleTarget = Some (targetAllowedOrigin sampleTarget)"
    by (simp add: currentAllowedOrigin_def readSite_def sampleSite_def sampleTarget_def)
  have safe: "safeDelivery ?row"
    by (simp add: safeDelivery_def redelivery_def isSafeInteger_def maxSafeInteger_def)
  have "\<exists>view db'. replayNew (notifySample ''b'') sampleReplay deadRow deadTables = Inr ((view, False), db')"
    using joins origin d r ins mapDelivery_safe [OF safe]
    by (simp add: replayNew_def newestDelivery_def samePair_def isTerminal_def Let_def isSafeInteger_def
        maxSafeInteger_def sampleReplay_def)
  then obtain view db' where n: "replayNew (notifySample ''b'') sampleReplay deadRow deadTables = Inr ((view, False), db')"
    by blast
  have "replay (notifySample ''b'') sampleReplay deadTables = Inr ((view, False), db')"
    using validate_sampleReplay n d by (simp add: replay_def assertSiteDelivery_def) (simp add: sampleReplay_def)
  then show thesis by (rule that)
qed

theorem redelivery_is_idempotent_witness:
  "\<exists>view db'. replay (notifySample ''b'') sampleReplay deadTables = Inr ((view, False), db') \<and>
     dbWrite (replay (notifySample ''0'') sampleReplay) db' = (Inr (view, True), db')"
proof -
  obtain view db' where r: "replay (notifySample ''b'') sampleReplay deadTables = Inr ((view, False), db')"
    by (rule sample_redelivery)
  have "dbWrite (replay (notifySample ''0'') sampleReplay) db' = (Inr (view, True), db')"
    by (rule redelivery_is_idempotent [OF r]) (simp_all add: notifySample_def)
  then show ?thesis using r by blast
qed

text \<open>C26: Materializing leaves no gap: when it inserts fewer deliveries than its limit, every event of a live target of the website that the target's format reports has its first delivery afterwards.\<close>

theorem materializing_leaves_no_gap:
  assumes "materialize env limit now client db = Inr (n, db')" "n < limit"
    and "e \<in> set (outboxEvents db)" "t \<in> set (webhookTargets (orderTables db))" "targetOrderId t = aggregateId e"
    and "client = None \<or> client = Some (targetClientId t)" "liveTarget db t"
    and "targetFormat t = NATIVE_JSON_V1 \<or> outboxEventType e = PAYMENT_CONFIRMED"
  shows "\<exists>d \<in> set (webhookDeliveries db').
    deliveryEventId d = outboxEventId e \<and> deliveryTargetId d = targetId t \<and> deliveryGeneration d = 1"
proof -
  have "case client of None \<Rightarrow> True | Some c \<Rightarrow> targetClientId t = c" using assms(6) by (auto split: option.splits)
  then show ?thesis
    using materialize_complete [OF assms(1-5) _ assms(7,8)] by (auto simp: hasFirstDelivery_def list_ex_iff)
qed

theorem materializing_leaves_no_gap_witness:
  "\<exists>d \<in> set (webhookDeliveries queuedTables).
    deliveryEventId d = outboxEventId confirmedEvent \<and> deliveryTargetId d = targetId sampleTarget \<and> deliveryGeneration d = 1"
proof (rule materializing_leaves_no_gap [OF sample_materialize])
  show "liveTarget freshTables sampleTarget"
    using sample_joins(3) by (simp add: liveTarget_def freshTables_def queuedTables_def)
qed (simp_all add: freshTables_def confirmedEvent_def sampleTarget_def)

text \<open>C27: A webhook signature is bound to one attempt: the signed texts of two attempts are equal only when key, timestamp, delivery, event, attempt number and body digest are all equal.\<close>

theorem signed_text_determines_attempt:
  assumes "isUuidV4 k" "isUuidV4 k'" "isUuidV4 d" "isUuidV4 d'" "isUuidV4 e" "isUuidV4 e'"
    and "0 \<le> t" "0 \<le> t'" "1 \<le> n" "1 \<le> n'" "\<And>bytes. isHexDigest (sha bytes)"
    and "webhookCanonical k t d e n (webhookBodyFingerprint sha body) =
         webhookCanonical k' t' d' e' n' (webhookBodyFingerprint sha body')"
  shows "k = k' \<and> t = t' \<and> d = d' \<and> e = e' \<and> n = n' \<and> sha body = sha body'"
proof -
  have n: "0 \<le> n" "0 \<le> n'" using assms(9,10) by simp_all
  show ?thesis
    using webhookCanonical_inject [OF assms(1-8) n assms(11,11) assms(12) [unfolded webhookBodyFingerprint_def]] by simp
qed

theorem signed_text_determines_attempt_witness:
  "webhookCanonical (sampleUuid ''f'') 4000 (sampleUuid ''d'') (sampleUuid ''e'') 1
     (webhookBodyFingerprint (\<lambda>_. replicate 64 CHR ''0'') []) \<noteq>
   webhookCanonical (sampleUuid ''f'') 4000 (sampleUuid ''d'') (sampleUuid ''e'') 2
     (webhookBodyFingerprint (\<lambda>_. replicate 64 CHR ''0'') [])"
  using signed_text_determines_attempt [of "sampleUuid ''f''" "sampleUuid ''f''" "sampleUuid ''d''" "sampleUuid ''d''"
      "sampleUuid ''e''" "sampleUuid ''e''" 4000 4000 1 2 "\<lambda>_. replicate 64 CHR ''0''" "[]" "[]"]
    sample_uuids digest_sample
  by auto

end
