(* ===== verification/EpayFacts.thy ===== *)
theory EpayFacts
  imports EpayProtocol
begin

text \<open>
  Facts about the EasyPay protocol: the amount texts, the text a signature covers, the truncation of
  names, the parameters a request decodes to and the fields of a callback.
\<close>

subsection \<open>Amounts\<close>

lemma decimalNat_step: "10 \<le> n \<Longrightarrow> decimalNat n = decimalNat (n div 10) @ [unitOf (48 + n mod 10)]"
  by (simp add: decimalNat.simps [of n])

lemma decimalNat_ne [simp]: "decimalNat n \<noteq> []"
  by (simp add: decimalNat.simps [of n])

lemma hd_decimalNat: "1 \<le> n \<Longrightarrow> hd (decimalNat n) \<noteq> 0x30"
proof (induction n rule: decimalNat.induct)
  case (1 n)
  show ?case
  proof (cases "n < 10")
    case True
    have "unat (unitOf (48 + n) :: 16 word) = 48 + n" using True by (intro unat_unitOf) simp
    then have "(unitOf (48 + n) :: 16 word) \<noteq> 0x30" using "1.prems" by auto
    then show ?thesis using True by (simp add: decimalNat.simps [of n])
  next
    case False
    then show ?thesis using 1 by (simp add: decimalNat_step)
  qed
qed

lemma decimalNat_single: "length (decimalNat n) = Suc 0 \<longleftrightarrow> n < 10"
proof (cases "n < 10")
  case False
  then show ?thesis by (simp add: decimalNat_step)
qed (simp add: decimalNat.simps [of n])

lemma digitsValue_Cons0: "digitsValue (0x30 # ds) = digitsValue ds"
  by (simp add: digitsValue_def)

lemma padStart2_cents:
  assumes "n < 100"
  shows "length (padStart2 (decimalNat n)) = 2" "digitsValue (padStart2 (decimalNat n)) = n"
    "list_all isDigitUnit (padStart2 (decimalNat n))"
proof -
  have size: "length (decimalNat n) = (if n < 10 then 1 else 2)"
  proof (cases "n < 10")
    case False
    then have "n div 10 < 10" using assms by simp
    then have "length (decimalNat (n div 10)) = Suc 0" by (simp add: decimalNat_single)
    then show ?thesis using False by (simp add: decimalNat_step)
  qed (simp add: decimalNat.simps [of n])
  then have pad: "padStart2 (decimalNat n) = (if n < 10 then 0x30 # decimalNat n else decimalNat n)"
    by (simp add: padStart2_def)
  show "length (padStart2 (decimalNat n)) = 2"
    using size by (simp add: pad)
  show "digitsValue (padStart2 (decimalNat n)) = n"
    by (simp add: pad digitsValue_Cons0 digitsValue_decimalNat)
  show "list_all isDigitUnit (padStart2 (decimalNat n))"
    using decimalNat_digits [of n] by (auto simp: pad list_all_iff isDigitUnit_def)
qed

lemma money_roundtrip:
  assumes "isSafeInteger cents" "1 \<le> cents"
  shows "\<exists>text. moneyFromCents cents = Inr text \<and> epayMoneyToCents text = Inr cents"
proof -
  let ?whole = "decimalNat (nat (cents div 100))" and ?fraction = "padStart2 (decimalNat (nat (cents mod 100)))"
  have r: "nat (cents mod 100) < 100" by simp
  note f = padStart2_cents [OF r]
  have made: "moneyFromCents cents = Inr (?whole @ [0x2E] @ ?fraction)"
  proof -
    have "\<not> cents div 100 < 0" "\<not> cents mod 100 < 0" using assms(2) by (auto simp: not_less pos_imp_zdiv_nonneg_iff)
    then show ?thesis using assms by (simp add: moneyFromCents_def decimal_def)
  qed
  have digits: "\<forall>u \<in> set ?whole. u \<noteq> 0x2E"
    using decimalNat_digits [of "nat (cents div 100)"] by (auto simp: isDigitUnit_def)
  have split: "takeWhile (\<lambda>u. u \<noteq> 0x2E) (?whole @ [0x2E] @ ?fraction) = ?whole"
      "dropWhile (\<lambda>u. u \<noteq> 0x2E) (?whole @ [0x2E] @ ?fraction) = [0x2E] @ ?fraction"
    using digits by (auto simp: takeWhile_append dropWhile_append)
  have lead: "hd ?whole \<noteq> 0x30 \<or> length ?whole = 1"
    using hd_decimalNat [of "nat (cents div 100)"] decimalNat_single [of "nat (cents div 100)"] by linarith
  have w: "list_all isDigitUnit ?whole" using decimalNat_digits by (simp add: list_all_iff)
  have v: "int (digitsValue ?whole) * 100 + int (digitsValue ?fraction) = cents"
    using assms(2) f(2) by (simp add: digitsValue_decimalNat)
  have "epayMoneyToCents (?whole @ [0x2E] @ ?fraction) = Inr cents"
    unfolding epayMoneyToCents_def split Let_def
    using w f lead v assms by (auto simp: isSafeInteger_def)
  then show ?thesis using made by blast
qed

subsection \<open>Truncated names\<close>

lemma codePoints_take:
  "codePoints (concat (map unitsOfPoint (take n (codePoints s)))) = take n (codePoints s)"
proof (induction s arbitrary: n rule: codePoints.induct)
  case (2 u)
  then show ?case by (cases n) (simp_all add: unitsOfPoint_unat)
next
  case (3 u v rest)
  show ?case
  proof (cases n)
    case (Suc m)
    show ?thesis
    proof (cases "isHighSurrogate u \<and> isLowSurrogate v")
      case True
      then show ?thesis using "3.IH"(1) [of m] Suc by (simp add: unitsOfPoint_pair)
    next
      case False
      have IH: "codePoints (concat (map unitsOfPoint (take m (codePoints (v # rest))))) = take m (codePoints (v # rest))"
        using "3.IH"(2) False by blast
      have e: "codePoints (u # v # rest) = unat u # codePoints (v # rest)"
        by (simp only: codePoints.simps(3) False if_False)
      show ?thesis
      proof (cases "concat (map unitsOfPoint (take m (codePoints (v # rest))))")
        case Nil
        have "take m (codePoints (v # rest)) = []" using IH unfolding Nil by simp
        then show ?thesis by (simp add: Suc e unitsOfPoint_unat del: codePoints.simps(3))
      next
        case (Cons w ws)
        have "concat (map unitsOfPoint (codePoints (v # rest))) = v # rest" by (rule units_codePoints)
        then have "w = v"
          using Cons append_take_drop_id [of m "codePoints (v # rest)"]
          by (metis (no_types, lifting) append_Cons concat_append list.inject map_append)
        then have "codePoints (u # w # ws) = unat u # codePoints (w # ws)"
          by (simp only: codePoints.simps(3) False if_False)
        then show ?thesis using IH Suc Cons by (simp add: e unitsOfPoint_unat del: codePoints.simps(3))
      qed
    qed
  qed simp
qed simp

lemma truncatePoints_take:
  "\<exists>n. truncatePoints cps bytes = take n cps"
proof (induction cps arbitrary: bytes)
  case (Cons cp cps)
  obtain n where "truncatePoints cps (bytes + length (utf8Point cp)) = take n cps" using Cons by blast
  then have "truncatePoints (cp # cps) bytes = take (if bytes + length (utf8Point cp) > 127 then 0 else Suc n) (cp # cps)"
    by (simp add: Let_def)
  then show ?case by blast
qed simp

lemma truncatePoints_bytes:
  "bytes \<le> 127 \<Longrightarrow> bytes + length (concat (map utf8Point (truncatePoints cps bytes))) \<le> 127"
proof (induction cps arbitrary: bytes)
  case (Cons cp cps)
  show ?case
  proof (cases "bytes + length (utf8Point cp) > 127")
    case False
    then have "bytes + length (utf8Point cp) \<le> 127" by simp
    from Cons.IH [OF this] False show ?thesis by (simp add: Let_def)
  qed (use Cons.prems in \<open>simp add: Let_def\<close>)
qed simp

lemma truncatePoints_all:
  "bytes + length (concat (map utf8Point cps)) \<le> 127 \<Longrightarrow> truncatePoints cps bytes = cps"
  by (induction cps arbitrary: bytes) (auto simp: Let_def)

lemma truncateEpayName_prefix:
  "\<exists>rest. text = truncateEpayName text @ rest"
  "byteLength (truncateEpayName text) \<le> 127"
  "byteLength text \<le> 127 \<Longrightarrow> truncateEpayName text = text"
proof -
  obtain n where n: "truncatePoints (codePoints text) 0 = take n (codePoints text)" using truncatePoints_take by blast
  have t: "truncateEpayName text = concat (map unitsOfPoint (take n (codePoints text)))"
    by (simp add: truncateEpayName_def n)
  have "text = concat (map unitsOfPoint (take n (codePoints text) @ drop n (codePoints text)))"
    by (simp add: units_codePoints)
  then show "\<exists>rest. text = truncateEpayName text @ rest"
    unfolding t map_append concat_append by blast
  have p: "codePoints (truncateEpayName text) = truncatePoints (codePoints text) 0"
    unfolding t n by (rule codePoints_take)
  show "byteLength (truncateEpayName text) \<le> 127"
    using truncatePoints_bytes [of 0 "codePoints text"] by (simp add: byteLength_def utf8_def p)
  show "truncateEpayName text = text" if "byteLength text \<le> 127"
    using truncatePoints_all [of 0 "codePoints text"] that
    by (simp add: truncateEpayName_def byteLength_def utf8_def units_codePoints)
qed

subsection \<open>Parameters\<close>

lemma parsePair_valid: "parsePair text = Inr (key, decoded) \<Longrightarrow> fieldValid key decoded"
  by (auto simp: parsePair_def result_simps)

definition validParameters :: "epay_parameters \<Rightarrow> bool" where
  "validParameters parameters \<longleftrightarrow>
     distinct (map fst parameters) \<and> (\<forall>(key, t) \<in> set parameters. fieldValid key t)"

lemma parsePairs_valid:
  "parsePairs ps parameters = Inr result \<Longrightarrow> validParameters parameters \<Longrightarrow> validParameters result"
proof (induction ps arbitrary: parameters)
  case (Cons p ps)
  show ?case
  proof (cases "p = []")
    case False
    then obtain key decoded where k: "parsePair p = Inr (key, decoded)" "key \<notin> set (map fst parameters)"
        "parsePairs ps (parameters @ [(key, decoded)]) = Inr result"
      using Cons.prems(1) by (auto simp: result_simps)
    have "validParameters (parameters @ [(key, decoded)])"
      using Cons.prems(2) parsePair_valid [OF k(1)] k(2) by (auto simp: validParameters_def)
    then show ?thesis by (rule Cons.IH [OF k(3)])
  qed (use Cons in simp)
qed simp

lemma parseEpayParameters_valid:
  assumes "parseEpayParameters query body = Inr result"
  shows "validParameters result"
proof -
  have "validParameters []" by (simp add: validParameters_def)
  then show ?thesis
    using assms parsePairs_valid by (auto simp: parseEpayParameters_def result_simps split: epay_body.splits option.splits)
qed

subsection \<open>The signed text\<close>

text \<open>A rendered pair can be cut at its first equals sign, and a joined list at its ampersands.\<close>

lemma fieldValid_units:
  "fieldValid key t \<Longrightarrow> 0x3D \<notin> set key \<and> 0x26 \<notin> set key \<and> 0x26 \<notin> set t"
  by (auto simp: fieldValid_def list_ex_iff isForbiddenKeyUnit_def)

lemma renderPair_inject:
  assumes "0x3D \<notin> set (fst e)" "0x3D \<notin> set (fst e')" "renderPair e = renderPair e'"
  shows "e = e'"
proof -
  have "takeWhile (\<lambda>u. u \<noteq> 0x3D) (renderPair x) = fst x" "dropWhile (\<lambda>u. u \<noteq> 0x3D) (renderPair x) = 0x3D # snd x"
    if "0x3D \<notin> set (fst x)" for x
    using that by (auto simp: renderPair_def takeWhile_append dropWhile_append)
  then show ?thesis using assms by (metis list.inject prod.expand)
qed

lemma ampersandJoin_Cons: "q # qs = r \<Longrightarrow> ampersandJoin (p # r) = p @ [0x26] @ ampersandJoin r"
  by (auto simp: ampersandJoin_def)

lemma ampersandJoin_inject:
  assumes "\<forall>p \<in> set ps. p \<noteq> [] \<and> 0x26 \<notin> set p" "\<forall>p \<in> set qs. p \<noteq> [] \<and> 0x26 \<notin> set p"
    "ampersandJoin ps = ampersandJoin qs"
  shows "ps = qs"
  using assms
proof (induction ps arbitrary: qs)
  case Nil
  then show ?case by (cases qs) (auto simp: ampersandJoin_def)
next
  case (Cons p ps)
  obtain q qs' where qs: "qs = q # qs'" using Cons.prems by (cases qs) (auto simp: ampersandJoin_def)
  have head: "takeWhile (\<lambda>u. u \<noteq> 0x26) (ampersandJoin (x # xs)) = x" if "0x26 \<notin> set x" for x xs
    using that by (cases xs) (auto simp: ampersandJoin_def takeWhile_append)
  have tail: "drop (length x) (ampersandJoin (x # xs)) = (if xs = [] then [] else 0x26 # ampersandJoin xs)" for x xs
    by (cases xs) (simp_all add: ampersandJoin_def)
  have "p = q" using head [of p ps] head [of q qs'] Cons.prems qs by simp
  moreover have "(if ps = [] then [] else 0x26 # ampersandJoin ps) = (if qs' = [] then [] else 0x26 # ampersandJoin qs')"
    using tail [of p ps] tail [of q qs'] Cons.prems(3) qs \<open>p = q\<close> by metis
  then have "ampersandJoin ps = ampersandJoin qs' \<and> (ps = [] \<longleftrightarrow> qs' = [])" by (auto simp: ampersandJoin_def split: if_splits)
  then have "ps = qs'" using Cons.IH [of qs'] Cons.prems qs by simp
  ultimately show ?case using qs by simp
qed

lemma signedField_valid: "signedField scheme f = Inr (Some (key, t)) \<Longrightarrow> fieldValid key t"
  by (cases f; cases "snd f")
    (auto simp: signedField_def Let_def result_simps split: if_splits)

lemma signedFields_valid:
  "signedFields scheme fs = Inr entries \<Longrightarrow> (key, t) \<in> set entries \<Longrightarrow> fieldValid key t"
proof (induction fs arbitrary: entries)
  case (Cons f fs)
  obtain entry rest where e: "signedField scheme f = Inr entry" "signedFields scheme fs = Inr rest"
      "entries = (case entry of None \<Rightarrow> rest | Some e \<Rightarrow> e # rest)"
    using Cons.prems(1) by (auto simp: result_simps)
  show ?case
  proof (cases "entry = Some (key, t)")
    case True
    then show ?thesis using signedField_valid e(1) by simp
  next
    case False
    then have "(key, t) \<in> set rest" using e(3) Cons.prems(2) by (cases entry) auto
    then show ?thesis by (rule Cons.IH [OF e(2)])
  qed
qed simp

lemma epaySigningContent_inject:
  assumes "epaySigningContent ps scheme = Inr content" "epaySigningContent qs scheme = Inr content"
  obtains entries where "signedFields scheme (sortedFields ps) = Inr entries" "signedFields scheme (sortedFields qs) = Inr entries"
proof -
  obtain es where es: "signedFields scheme (sortedFields ps) = Inr es" "content = ampersandJoin (map renderPair es)"
    using assms(1) by (auto simp: epaySigningContent_def result_simps)
  obtain fs where fs: "signedFields scheme (sortedFields qs) = Inr fs" "content = ampersandJoin (map renderPair fs)"
    using assms(2) by (auto simp: epaySigningContent_def result_simps)
  have valid: "0x3D \<notin> set (fst e) \<and> renderPair e \<noteq> [] \<and> 0x26 \<notin> set (renderPair e)"
    if "e \<in> set es \<or> e \<in> set fs" for e
  proof -
    have "fieldValid (fst e) (snd e)"
      using that signedFields_valid [OF es(1), of "fst e" "snd e"] signedFields_valid [OF fs(1), of "fst e" "snd e"] by auto
    then show ?thesis using fieldValid_units by (auto simp: renderPair_def)
  qed
  have "map renderPair es = map renderPair fs"
    by (rule ampersandJoin_inject) (use valid es(2) fs(2) in auto)
  then have "es = fs"
  proof (rule map_inj_on)
    show "inj_on renderPair (set es \<union> set fs)"
      by (rule inj_onI, rule renderPair_inject) (use valid in blast)+
  qed
  then show thesis using that es(1) fs(1) by simp
qed

text \<open>The entries of text parameters under the first protocol: the non-empty fields without the signature.\<close>

lemma signedFields_texts:
  assumes "signedFields EpayProtocolV1 (signableText fs) = Inr entries"
  shows "entries = filter (\<lambda>(key, t). key \<noteq> js ''sign'' \<and> key \<noteq> js ''sign_type'' \<and> t \<noteq> []) fs"
  using assms
proof (induction fs arbitrary: entries)
  case (Cons f fs)
  obtain key t where f: "f = (key, t)" by (cases f)
  obtain entry rest where e: "signedField EpayProtocolV1 (key, SigText t) = Inr entry"
      "signedFields EpayProtocolV1 (signableText fs) = Inr rest"
      "entries = (case entry of None \<Rightarrow> rest | Some e \<Rightarrow> e # rest)"
    using Cons.prems f by (auto simp: signableText_def result_simps)
  show ?case
    using Cons.IH [OF e(2)] e(1,3) f by (auto simp: signedField_def Let_def result_simps split: if_splits)
qed (simp add: signableText_def)

lemma sort_key_map: "sort_key k (map f xs) = map f (sort_key (\<lambda>x. k (f x)) xs)"
proof (induction xs)
  case (Cons x xs)
  have "insort_key k (f x) (map f ys) = map f (insort_key (\<lambda>x. k (f x)) x ys)" for ys
    by (induction ys) simp_all
  then show ?case using Cons by simp
qed simp

lemma sortedFields_signable:
  "sortedFields (signableText ps) = signableText (sort_key (\<lambda>(key, _). utf8 key) ps)"
  by (simp add: sortedFields_def signableText_def sort_key_map case_prod_unfold)

definition signedSet :: "epay_parameters \<Rightarrow> (jstr \<times> jstr) set" where
  "signedSet ps = {(key, t). (key, t) \<in> set ps \<and> key \<noteq> js ''sign'' \<and> key \<noteq> js ''sign_type'' \<and> t \<noteq> []}"

lemma signedSet_filter:
  "signedSet ps = set (filter (\<lambda>(key, t). key \<noteq> js ''sign'' \<and> key \<noteq> js ''sign_type'' \<and> t \<noteq> [])
     (sort_key (\<lambda>(key, _). utf8 key) ps))"
  by (auto simp: signedSet_def)

lemma signed_content_determines:
  assumes "epaySigningContent (signableText ps) EpayProtocolV1 = Inr content"
    "epaySigningContent (signableText qs) EpayProtocolV1 = Inr content"
  shows "signedSet ps = signedSet qs"
proof -
  obtain entries where e: "signedFields EpayProtocolV1 (sortedFields (signableText ps)) = Inr entries"
      "signedFields EpayProtocolV1 (sortedFields (signableText qs)) = Inr entries"
    by (rule epaySigningContent_inject [OF assms])
  have "set entries = signedSet ps" "set entries = signedSet qs"
    unfolding signedSet_filter
    using signedFields_texts [OF e(1) [unfolded sortedFields_signable]]
      signedFields_texts [OF e(2) [unfolded sortedFields_signable]] by (metis (no_types))+
  then show ?thesis by simp
qed

subsection \<open>Callbacks\<close>

lemma setParameter_keys: "map fst (setParameter name t ps) = map fst ps"
  by (induction ps) (auto simp: setParameter_def)

lemma mergeParameters_disjoint:
  assumes "set (map fst existing) \<inter> set (map fst notification) = {}"
  shows "mergeParameters existing notification = existing @ notification"
proof -
  have "map (\<lambda>(key, t). (key, case map_of notification key of None \<Rightarrow> t | Some t' \<Rightarrow> t')) existing = map id existing"
  proof (rule map_cong [OF refl])
    fix x assume x: "x \<in> set existing"
    then have "map_of notification (fst x) = None" using assms by (force simp: map_of_eq_None_iff)
    then show "(case x of (key, t) \<Rightarrow> (key, case map_of notification key of None \<Rightarrow> t | Some t' \<Rightarrow> t')) = id x"
      by (cases x) simp
  qed
  moreover have "filter (\<lambda>(key, _). key \<notin> set (map fst existing)) notification = notification"
    using assms by (force simp: filter_id_conv)
  ultimately show ?thesis by (simp add: mergeParameters_def)
qed

text \<open>Changing the signature does not change what is signed.\<close>

lemma signed_setParameter:
  "epaySigningContent (signableText (setParameter (js ''sign'') t ps)) scheme =
   epaySigningContent (signableText ps) scheme"
proof -
  let ?f = "\<lambda>(key, v). (key, if key = js ''sign'' then SigText t else v)"
  have s: "signableText (setParameter (js ''sign'') t ps) = map ?f (signableText ps)"
    by (auto simp: signableText_def setParameter_def)
  have sorted: "sortedFields (map ?f fs) = map ?f (sortedFields fs)" for fs
    by (simp add: sortedFields_def sort_key_map case_prod_unfold)
  have "signedField scheme (?f x) = signedField scheme x" for x
    by (cases x) (simp add: signedField_def)
  then have "signedFields scheme (map ?f fs) = signedFields scheme fs" for fs
    by (induction fs) simp_all
  then show ?thesis by (simp add: epaySigningContent_def s sorted)
qed

lemma rejectReserved_Inr: "rejectReserved names = Inr () \<Longrightarrow> set names \<inter> set EPAY_NOTIFICATION_FIELDS = {}"
  by (induction names) (auto simp: result_simps)

lemma notification_keys:
  assumes "buildEpayNotification env ord EpayProtocolV1 (KeyText key) now = Inr notification"
  shows "set (map fst notification) \<subseteq> set EPAY_NOTIFICATION_FIELDS"
    "\<exists>fields signature. notification = fields @ [(js ''sign_type'', js ''MD5''), (js ''sign'', signature)] \<and>
       js ''sign'' \<notin> set (map fst fields) \<and> js ''sign_type'' \<notin> set (map fst fields)"
  using assms
  by (auto simp: buildEpayNotification_def result_simps Let_def EPAY_NOTIFICATION_FIELDS_def js_def unitOf_def
      split: option.splits)

text \<open>The documented form of an MD5 digest in hexadecimal.\<close>

definition md5Digests :: "epay_env \<Rightarrow> bool" where
  "md5Digests env \<longleftrightarrow>
     (\<forall>bytes. length (md5 env bytes) = 32 \<and>
        list_all (\<lambda>u. isHexUnit u \<and> \<not> (65 \<le> unat u \<and> unat u \<le> 70)) (md5 env bytes))"

lemma map_of_signable: "map_of (signableText ps) key = map_option SigText (map_of ps key)"
  by (induction ps) (auto simp: signableText_def)

lemma verifyEpayV1_signed:
  assumes "signEpayV1 env (signableText ps) key = Inr signature" "md5Digests env"
    "map_of ps (js ''sign'') = Some signature" "map_of ps (js ''sign_type'') = Some (js ''MD5'')"
  shows "verifyEpayV1 env (signableText ps) key = Inr True"
proof -
  have "length signature = 32 \<and> list_all (\<lambda>u. isHexUnit u \<and> \<not> (65 \<le> unat u \<and> unat u \<le> 70)) signature"
    using assms(1,2) by (auto simp: signEpayV1_def result_simps md5Digests_def)
  then show ?thesis using assms(1,3,4) by (simp add: verifyEpayV1_def map_of_signable)
qed

lemma signEpayV1_setParameter:
  "signEpayV1 env (signableText (setParameter (js ''sign'') t ps)) key = signEpayV1 env (signableText ps) key"
  by (simp add: signEpayV1_def signed_setParameter)

lemma js_sign_type: "js ''sign'' \<noteq> js ''sign_type''"
  by (simp add: js_def)

lemma callback_verifies:
  assumes "buildEpayCallbackUrl env target ord EpayProtocolV1 (KeyText key) now = Inr url" "md5Digests env"
  obtains u existing notification where
    "parseUrl (epayUrls env) target = Some u" "parseEpayParameters (search u) NoBody = Inr existing"
    "url = appendSearchParams env u notification" "set (map fst existing) \<inter> set (map fst notification) = {}"
    "verifyEpayV1 env (signableText (existing @ notification)) key = Inr True"
proof -
  obtain u existing notification signature where
    u: "parseUrl (epayUrls env) target = Some u" "parseEpayParameters (search u) NoBody = Inr existing"
      "rejectReserved (map fst existing) = Inr ()"
    and n: "buildEpayNotification env ord EpayProtocolV1 (KeyText key) now = Inr notification"
    and s: "signEpayV1 env (signableText (mergeParameters existing notification)) key = Inr signature"
    and url: "appendEpayParameters env target (setParameter (js ''sign'') signature notification) = Inr url"
    using assms(1)
    by (auto simp: buildEpayCallbackUrl_def result_simps Let_def appendEpayParameters_def parseTarget_def
        split: option.splits)
  let ?n = "setParameter (js ''sign'') signature notification"
  obtain fields old where f: "notification = fields @ [(js ''sign_type'', js ''MD5''), (js ''sign'', old)]"
      "js ''sign'' \<notin> set (map fst fields)" "js ''sign_type'' \<notin> set (map fst fields)"
    using notification_keys(2) [OF n] by blast
  have disjoint: "set (map fst existing) \<inter> set (map fst notification) = {}"
    using notification_keys(1) [OF n] rejectReserved_Inr [OF u(3)] by blast
  have merged: "mergeParameters existing notification = existing @ notification"
    by (rule mergeParameters_disjoint [OF disjoint])
  have sign_free: "js ''sign'' \<notin> set (map fst existing)" "js ''sign_type'' \<notin> set (map fst existing)"
    using disjoint f(1) by auto
  have "setParameter (js ''sign'') signature existing = existing"
    using sign_free(1) unfolding setParameter_def by (intro map_idI) force
  then have both: "setParameter (js ''sign'') signature (existing @ notification) = existing @ ?n"
    by (simp add: setParameter_def)
  have signed: "signEpayV1 env (signableText (existing @ ?n)) key = Inr signature"
    using s signEpayV1_setParameter [of env signature "existing @ notification" key] unfolding merged both by simp
  have "setParameter (js ''sign'') signature fields = fields"
    using f(2) unfolding setParameter_def by (intro map_idI) force
  then have tail: "?n = fields @ [(js ''sign_type'', js ''MD5''), (js ''sign'', signature)]"
    using f(1) js_sign_type by (simp add: setParameter_def)
  have "map_of (existing @ ?n) (js ''sign'') = Some signature"
    "map_of (existing @ ?n) (js ''sign_type'') = Some (js ''MD5'')"
    using sign_free f(2,3) js_sign_type
    by (simp_all add: tail map_of_eq_None_iff [symmetric] map_add_Some_iff map_add_def split: option.splits)
  then have "verifyEpayV1 env (signableText (existing @ ?n)) key = Inr True"
    by (rule verifyEpayV1_signed [OF signed assms(2)])
  moreover have "?n \<noteq> []" using tail by simp
  then have "url = appendSearchParams env u ?n"
    using url u by (auto simp: appendEpayParameters_def result_simps parseTarget_def)
  moreover have "set (map fst existing) \<inter> set (map fst ?n) = {}" using disjoint by (simp add: setParameter_keys)
  ultimately show thesis using that u(1,2) by blast
qed

end
