(* ===== verification/EpayTheorems.thy ===== *)
theory EpayTheorems
  imports EpayFacts
begin

text \<open>
  The properties of the EasyPay protocol, each with an instance at a small request.
\<close>

text \<open>C28: Every amount of at least one cent that JavaScript can hold exactly is written as a yuan text that reads back as the same number of cents.\<close>

theorem epay_amounts_roundtrip:
  assumes "isSafeInteger cents" "1 \<le> cents"
  shows "\<exists>yuan. moneyFromCents cents = Inr yuan \<and> epayMoneyToCents yuan = Inr cents"
  by (rule money_roundtrip [OF assms])

theorem epay_amounts_roundtrip_witness:
  "\<exists>yuan. moneyFromCents 150 = Inr yuan \<and> epayMoneyToCents yuan = Inr 150"
  by (rule epay_amounts_roundtrip) (simp_all add: isSafeInteger_def maxSafeInteger_def)

text \<open>C29: The text an EasyPay V1 signature covers determines every signed field: two parameter sets with the same signed text have the same non-empty fields apart from the signature and its type, so no field can be added, dropped, renamed or changed under a valid signature.\<close>

theorem epay_signature_covers_every_field:
  assumes "epaySigningContent (signableText ps) EpayProtocolV1 = Inr content"
    and "epaySigningContent (signableText qs) EpayProtocolV1 = Inr content"
  shows "{(key, t) \<in> set ps. key \<noteq> js ''sign'' \<and> key \<noteq> js ''sign_type'' \<and> t \<noteq> []} =
    {(key, t) \<in> set qs. key \<noteq> js ''sign'' \<and> key \<noteq> js ''sign_type'' \<and> t \<noteq> []}"
  using signed_content_determines [OF assms] by (auto simp: signedSet_def)

theorem epay_signature_covers_every_field_witness:
  "{(key, t) \<in> set [(js ''a'', js ''1'')]. key \<noteq> js ''sign'' \<and> key \<noteq> js ''sign_type'' \<and> t \<noteq> []} =
   {(key, t) \<in> set [(js ''sign'', js ''x''), (js ''a'', js ''1'')]. key \<noteq> js ''sign'' \<and> key \<noteq> js ''sign_type'' \<and> t \<noteq> []}"
proof (rule epay_signature_covers_every_field)
  have v: "fieldValid (js ''a'') (js ''1'')"
    by (simp add: fieldValid_def js_def unitOf_def isForbiddenKeyUnit_def hasOnlyUnicodeScalarValues_def isSurrogatePoint_def)
  have d: "js ''a'' \<noteq> js ''sign''" "js ''a'' \<noteq> js ''sign_type''" "js ''1'' \<noteq> []" by (simp_all add: js_def)
  have one: "signedField EpayProtocolV1 (js ''a'', SigText (js ''1'')) = Inr (Some (js ''a'', js ''1''))"
    using v d by (simp add: signedField_def validateField_def)
  have two: "signedField EpayProtocolV1 (js ''sign'', SigText x) = Inr None" for x by (simp add: signedField_def)
  show "epaySigningContent (signableText [(js ''a'', js ''1'')]) EpayProtocolV1 = Inr (renderPair (js ''a'', js ''1''))"
    using one by (simp add: epaySigningContent_def signableText_def sortedFields_def ampersandJoin_def)
  show "epaySigningContent (signableText [(js ''sign'', js ''x''), (js ''a'', js ''1'')]) EpayProtocolV1 =
      Inr (renderPair (js ''a'', js ''1''))"
    using one two by (simp add: epaySigningContent_def signableText_def sortedFields_def ampersandJoin_def)
qed

lemma codePoints_drop:
  "codePoints (concat (map unitsOfPoint (drop n (codePoints s)))) = drop n (codePoints s)"
proof (induction s arbitrary: n rule: codePoints.induct)
  case (2 u)
  then show ?case by (cases n) (simp_all add: unitsOfPoint_unat)
next
  case (3 u v rest)
  show ?case
  proof (cases n)
    case 0
    then show ?thesis using units_codePoints [of "u # v # rest"] by (simp del: codePoints.simps)
  next
    case (Suc m)
    show ?thesis
    proof (cases "isHighSurrogate u \<and> isLowSurrogate v")
      case True
      then show ?thesis using "3.IH"(1) [of m] Suc by simp
    next
      case False
      have e: "codePoints (u # v # rest) = unat u # codePoints (v # rest)"
        by (simp only: codePoints.simps(3) False if_False)
      show ?thesis using "3.IH"(2) [OF False, of m] by (simp only: e Suc drop_Suc_Cons)
    qed
  qed
qed simp

text \<open>The cut takes characters from the front while they fit.\<close>

lemma truncatePoints_maximal:
  obtains n where "truncatePoints cps bytes = take n cps" "n \<le> length cps"
    "n = length cps \<or> 127 < bytes + length (concat (map utf8Point (take n cps))) + length (utf8Point (cps ! n))"
proof -
  have "\<exists>n \<le> length cps. truncatePoints cps bytes = take n cps \<and>
      (n = length cps \<or> 127 < bytes + length (concat (map utf8Point (take n cps))) + length (utf8Point (cps ! n)))"
  proof (induction cps arbitrary: bytes)
    case (Cons cp cps)
    show ?case
    proof (cases "bytes + length (utf8Point cp) > 127")
      case True
      then show ?thesis by (intro exI [of _ 0]) (simp add: Let_def)
    next
      case False
      obtain n where "n \<le> length cps" "truncatePoints cps (bytes + length (utf8Point cp)) = take n cps"
          "n = length cps \<or> 127 < bytes + length (utf8Point cp) + length (concat (map utf8Point (take n cps))) +
             length (utf8Point (cps ! n))"
        using Cons.IH by blast
      then show ?thesis using False by (intro exI [of _ "Suc n"]) (simp add: Let_def add.assoc)
    qed
  qed simp
  then show thesis using that by blast
qed

text \<open>C30: A product name sent over EasyPay is cut to whole characters that take at most 127 bytes of UTF-8, and to no
  fewer: the name is the result followed by a rest, its characters are those of the result followed by those of the rest
  (so no character is split), and the rest is empty or its first character would not fit any more.\<close>

theorem epay_names_are_cut:
  "\<exists>rest. name = truncateEpayName name @ rest \<and>
     codePoints name = codePoints (truncateEpayName name) @ codePoints rest \<and>
     byteLength (truncateEpayName name) \<le> 127 \<and>
     (rest = [] \<or> 127 < byteLength (truncateEpayName name) + length (utf8Point (hd (codePoints rest))))"
proof -
  obtain n where n: "truncatePoints (codePoints name) 0 = take n (codePoints name)" "n \<le> length (codePoints name)"
      "n = length (codePoints name) \<or>
       127 < 0 + length (concat (map utf8Point (take n (codePoints name)))) + length (utf8Point (codePoints name ! n))"
    by (rule truncatePoints_maximal)
  let ?rest = "concat (map unitsOfPoint (drop n (codePoints name)))"
  have cut: "truncateEpayName name = concat (map unitsOfPoint (take n (codePoints name)))"
    using n(1) by (simp add: truncateEpayName_def)
  have points: "codePoints (truncateEpayName name) = take n (codePoints name)" "codePoints ?rest = drop n (codePoints name)"
    by (simp_all add: cut codePoints_take codePoints_drop)
  have "truncateEpayName name @ ?rest = concat (map unitsOfPoint (codePoints name))"
    by (simp add: cut flip: concat_append map_append)
  then have whole: "name = truncateEpayName name @ ?rest" by (simp add: units_codePoints)
  have size: "byteLength (truncateEpayName name) = length (concat (map utf8Point (take n (codePoints name))))"
    by (simp add: byteLength_def utf8_def points)
  have "?rest = [] \<or> 127 < byteLength (truncateEpayName name) + length (utf8Point (hd (codePoints ?rest)))"
  proof (cases "n = length (codePoints name)")
    case False
    then have "hd (drop n (codePoints name)) = codePoints name ! n" using n(2) by (simp add: hd_drop_conv_nth)
    then show ?thesis using False n(3) by (simp add: size points)
  qed simp
  then show ?thesis
    using whole points truncateEpayName_prefix [of name] by (intro exI [of _ ?rest]) simp
qed

text \<open>C31: The parameters a request decodes to have distinct names, and every name and value is well-formed Unicode, a name is not empty and free of brackets, separators and control characters, and no value has an ampersand.\<close>

theorem epay_parameters_are_valid:
  assumes "parseEpayParameters query body = Inr parameters"
  shows "distinct (map fst parameters) \<and>
    (\<forall>(key, t) \<in> set parameters. key \<noteq> [] \<and> \<not> list_ex isForbiddenKeyUnit key \<and> 0x26 \<notin> set t \<and>
       hasOnlyUnicodeScalarValues key \<and> hasOnlyUnicodeScalarValues t)"
  using parseEpayParameters_valid [OF assms] by (auto simp: validParameters_def fieldValid_def)

lemma sample_parse: "parseEpayParameters (js ''?k=v'') NoBody = Inr [(js ''k'', js ''v'')]"
proof -
  have v: "fieldValid (js ''k'') (js ''v'')"
    by (simp add: fieldValid_def js_def unitOf_def isForbiddenKeyUnit_def hasOnlyUnicodeScalarValues_def isSurrogatePoint_def)
  have k: "decodeComponent (js ''k'') = Inr (js ''k'')" "decodeComponent (js ''v'') = Inr (js ''v'')"
    by (simp_all add: decodeComponent_def js_def unitOf_def decodeURIComponent_plain)
  have "parsePair (js ''k=v'') = Inr (js ''k'', js ''v'')"
    using k v by (simp add: parsePair_def validateField_def js_def unitOf_def)
  then show ?thesis
    by (simp add: parseEpayParameters_def js_def unitOf_def byteLength_def utf8_def utf8Point_def)
qed

theorem epay_parameters_are_valid_witness:
  "distinct (map fst [(js ''k'', js ''v'')]) \<and> 0x26 \<notin> set (js ''v'')"
  using epay_parameters_are_valid [OF sample_parse] by simp

text \<open>C32: A V1 callback URL verifies at the merchant: it appends the signed notification to the target's own parameters without a name in common, and the merchant that checks all of them against the shared key accepts the signature.\<close>

theorem epay_callback_verifies:
  assumes "buildEpayCallbackUrl env target ord EpayProtocolV1 (KeyText key) now = Inr url" "md5Digests env"
  shows "\<exists>u existing notification. parseUrl (epayUrls env) target = Some u \<and>
    parseEpayParameters (search u) NoBody = Inr existing \<and> url = appendSearchParams env u notification \<and>
    set (map fst existing) \<inter> set (map fst notification) = {} \<and>
    verifyEpayV1 env (signableText (existing @ notification)) key = Inr True"
  by (rule callback_verifies [OF assms]) blast

definition sampleUrl :: url where
  "sampleUrl = \<lparr>href = js ''https://a.b/?k=v'', protocol = js ''https:'', username = [], password = [],
     hostname = js ''a.b'', origin = js ''https://a.b'', pathname = js ''/'', search = js ''?k=v'', hash = []\<rparr>"

definition callbackEnv :: epay_env where
  "callbackEnv =
     \<lparr>md5 = (\<lambda>_. replicate 32 0x30), createRsaKey = (\<lambda>_ _. None), rsaSign = (\<lambda>_ _. []),
      rsaVerify = (\<lambda>_ _ _. False), base64Decode = (\<lambda>_. []), base64Encode = (\<lambda>_. []),
      epayUrls = \<lparr>parseUrl = (\<lambda>_. Some sampleUrl), isIP = (\<lambda>_. 0)\<rparr>,
      appendSearchParams = (\<lambda>u ps. href u @ [0x26] @ ampersandJoin (map renderPair ps))\<rparr>"

definition callbackSample :: epay_notification_order where
  "callbackSample = \<lparr>notePid = js ''7'', noteTradeNo = js ''8'', noteOutTradeNo = js ''9'', noteName = js ''t'',
     noteMoneyCents = 150, noteParam = None, noteApiTradeNo = None, noteBuyer = None, noteAddTime = None,
     noteEndTime = None\<rparr>"

text \<open>Valid text fields can always be signed.\<close>

lemma signedFields_total:
  "\<forall>(key, t) \<in> set fs. fieldValid key t \<Longrightarrow> \<exists>entries. signedFields EpayProtocolV1 (signableText fs) = Inr entries"
proof (induction fs)
  case (Cons f fs)
  obtain key t where f: "f = (key, t)" by (cases f)
  have "\<exists>entry. signedField EpayProtocolV1 (key, SigText t) = Inr entry"
    using Cons.prems f by (auto simp: signedField_def validateField_def Let_def assertR_def)
  then show ?case using Cons f by (auto simp: signableText_def)
qed (simp add: signableText_def)

lemma signEpayV1_total:
  assumes "\<forall>(k, t) \<in> set fs. fieldValid k t" "key \<noteq> []"
  shows "\<exists>signature. signEpayV1 env (signableText fs) key = Inr signature"
proof -
  obtain entries where "signedFields EpayProtocolV1 (sortedFields (signableText fs)) = Inr entries"
    using signedFields_total [of "sort_key (\<lambda>(key, _). utf8 key) fs"] assms(1)
    by (auto simp: sortedFields_signable)
  then show ?thesis using assms(2) by (simp add: signEpayV1_def epaySigningContent_def assertR_def)
qed

lemma sample_fields:
  "fieldValid (js ''pid'') (js ''7'')" "fieldValid (js ''trade_no'') (js ''8'')" "fieldValid (js ''out_trade_no'') (js ''9'')"
  "fieldValid (js ''type'') (js ''alipay'')" "fieldValid (js ''trade_status'') (js ''TRADE_SUCCESS'')"
  "fieldValid (js ''name'') (js ''t'')" "fieldValid (js ''money'') (js ''1.50'')" "fieldValid (js ''sign_type'') (js ''MD5'')"
  "fieldValid (js ''k'') (js ''v'')"
  by (simp_all add: fieldValid_def js_def unitOf_def isForbiddenKeyUnit_def hasOnlyUnicodeScalarValues_def
      isSurrogatePoint_def isHighSurrogate_def isLowSurrogate_def)

lemma sample_money: "moneyFromCents 150 = Inr (js ''1.50'')"
  by (simp add: moneyFromCents_def isSafeInteger_def maxSafeInteger_def decimal_def decimalNat.simps padStart2_def
      js_def unitOf_def)

lemma sample_callback:
  obtains url where "buildEpayCallbackUrl callbackEnv [] callbackSample EpayProtocolV1 (KeyText (js ''k'')) 0 = Inr url"
proof -
  let ?fields = "[(js ''pid'', js ''7''), (js ''trade_no'', js ''8''), (js ''out_trade_no'', js ''9''),
      (js ''type'', js ''alipay''), (js ''trade_status'', js ''TRADE_SUCCESS''), (js ''name'', js ''t''),
      (js ''money'', js ''1.50''), (js ''sign_type'', js ''MD5'')]"
  have key: "js ''k'' \<noteq> []" by (simp add: js_def)
  have digits: "fieldValid (js ''sign'') (replicate 32 0x30)"
  proof -
    have "codePoints (replicate n (0x30 :: 16 word)) = replicate n 0x30" for n
      by (rule codePoints_low [THEN trans]) (simp_all add: list_all_iff)
    then have "hasOnlyUnicodeScalarValues (replicate 32 0x30)"
      by (simp add: hasOnlyUnicodeScalarValues_def list_all_iff isSurrogatePoint_def)
    then show ?thesis
      by (simp add: fieldValid_def js_def unitOf_def isForbiddenKeyUnit_def hasOnlyUnicodeScalarValues_def
          isSurrogatePoint_def)
  qed
  obtain s1 where s1: "signEpayV1 callbackEnv (signableText ?fields) (js ''k'') = Inr s1"
    using signEpayV1_total [of ?fields, OF _ key] sample_fields by auto
  then have s1': "s1 = replicate 32 0x30" by (auto simp: signEpayV1_def result_simps callbackEnv_def)
  let ?n = "?fields @ [(js ''sign'', s1)]"
  have n: "buildEpayNotification callbackEnv callbackSample EpayProtocolV1 (KeyText (js ''k'')) 0 = Inr ?n"
    using s1 sample_money by (simp add: buildEpayNotification_def callbackSample_def)
  have "js ''k'' \<notin> set (map fst ?n)" by (simp add: js_def unitOf_def)
  then have merged: "mergeParameters [(js ''k'', js ''v'')] ?n = (js ''k'', js ''v'') # ?n"
    using mergeParameters_disjoint [of "[(js ''k'', js ''v'')]" ?n] by simp
  have "\<forall>(k, t) \<in> set (mergeParameters [(js ''k'', js ''v'')] ?n). fieldValid k t"
    unfolding merged using sample_fields digits s1' by simp
  then obtain s2 where s2: "signEpayV1 callbackEnv (signableText (mergeParameters [(js ''k'', js ''v'')] ?n)) (js ''k'') = Inr s2"
    using signEpayV1_total key by blast
  have reserved: "rejectReserved [js ''k''] = Inr ()"
    by (simp add: EPAY_NOTIFICATION_FIELDS_def js_def unitOf_def assertR_def)
  have p: "parseTarget callbackEnv [] = Inr sampleUrl" by (simp add: parseTarget_def callbackEnv_def)
  have a: "\<exists>url. appendEpayParameters callbackEnv [] ps = Inr url" for ps
    using p sample_parse reserved by (simp add: appendEpayParameters_def) (simp add: sampleUrl_def)
  have "\<exists>url. buildEpayCallbackUrl callbackEnv [] callbackSample EpayProtocolV1 (KeyText (js ''k'')) 0 = Inr url"
    using a [of "[]"] a [of "setParameter (js ''sign'') s2 ?n"] p n s2 sample_parse
    by (auto simp: buildEpayCallbackUrl_def Let_def sampleUrl_def)
  then show thesis using that by blast
qed

theorem epay_callback_verifies_witness:
  "\<exists>url notification. buildEpayCallbackUrl callbackEnv [] callbackSample EpayProtocolV1 (KeyText (js ''k'')) 0 = Inr url \<and>
     verifyEpayV1 callbackEnv (signableText ([(js ''k'', js ''v'')] @ notification)) (js ''k'') = Inr True"
proof -
  obtain url where url: "buildEpayCallbackUrl callbackEnv [] callbackSample EpayProtocolV1 (KeyText (js ''k'')) 0 = Inr url"
    by (rule sample_callback)
  have "md5Digests callbackEnv" by (simp add: md5Digests_def callbackEnv_def isHexUnit_def list_all_iff)
  then show ?thesis
    using epay_callback_verifies [OF url] url sample_parse by (auto simp: callbackEnv_def sampleUrl_def)
qed

end
