(* ===== verification/ReconWindows.thy ===== *)
theory ReconWindows
  imports ReconSteps OrderAllocation
begin

text \<open>
  Which orders one ledger entry can pay.  The order store keeps two orders of one account and one
  amount apart by a cooldown of at least a minute, which is longer than any timestamp precision: an
  entry is in the window of one of them at most.
\<close>

subsection \<open>One window at a time\<close>

lemma released_in_window:
  assumes "orderRowOk ord" "slotMatches ord s" "endedBefore ord t" "paymentInWindow e ord s"
  shows "entryOccurredAt e + amountReuseCooldownSeconds ord * 1000 < t"
  using assms
  by (cases "checkoutStatus ord")
     (auto simp: orderRowOk_def slotMatches_def endedBefore_def paymentInWindow_def endedAt_def)

lemma window_ends_before:
  assumes rows: "rowsInv side" and ord: "ord \<in> set (paymentOrders side)" "slotMatches ord s" "s \<in> set (amountSlots side)"
    and s': "s' \<in> set (amountSlots side)" "sameAmount s s'" "generation s < generation s'"
    and w: "paymentInWindow e ord s"
  shows "entryOccurredAt e + 60000 < occupiedFrom s'"
proof -
  have "endedBefore ord (occupiedFrom s')"
    using windowsOkD [OF rowsInvD(3) [OF rows] ord(3) s'(1,2,3) ord(1)] slotMatches_ids [OF ord(2)] by simp
  then have "entryOccurredAt e + amountReuseCooldownSeconds ord * 1000 < occupiedFrom s'"
    using released_in_window [OF rowsInvD(4) [OF rows ord(1)] ord(2) _ w] by simp
  moreover have "60 \<le> amountReuseCooldownSeconds ord"
    using rowsInvD(4) [OF rows ord(1)] by (simp add: orderRowOk_def MIN_AMOUNT_REUSE_COOLDOWN_SECONDS_def)
  ultimately show ?thesis by linarith
qed

lemma one_window:
  assumes rows: "rowsInv side"
    and ord: "ord \<in> set (paymentOrders side)" "s \<in> set (amountSlots side)" "slotOrderId s = orderId ord"
    and ord': "ord' \<in> set (paymentOrders side)" "s' \<in> set (amountSlots side)" "slotOrderId s' = orderId ord'"
    and same: "alipayAccountId ord = alipayAccountId ord'" "payableAmountCents ord = payableAmountCents ord'"
    and w: "paymentInWindow e ord s" "paymentInWindow e ord' s'" "occurredAtPrecision e \<le> 60000"
  shows "ord = ord'"
proof -
  note m = slot_matches_by_id [OF rows ord] and m' = slot_matches_by_id [OF rows ord']
  have am: "sameAmount s s'" "sameAmount s' s" using m m' same by (simp_all add: sameAmount_def slotMatches_def)
  have "\<not> generation s < generation s'" "\<not> generation s' < generation s"
    using window_ends_before [OF rows ord(1) m ord(2) ord'(2) am(1) _ w(1)]
      window_ends_before [OF rows ord'(1) m' ord'(2) ord(2) am(2) _ w(2)] w by (auto simp: paymentInWindow_def)
  then have "slotOrderId s = slotOrderId s'"
    using rowsInvD(3) [OF rows] ord(2) ord'(2) am(1) by (auto simp: windowsOk_def)
  then show ?thesis using order_unique [OF rows ord(1) ord'(1)] ord(3) ord'(3) by simp
qed

subsection \<open>The facts of an entry\<close>

definition fitsOrder :: "recon_db \<Rightarrow> ledger_entry \<Rightarrow> payment_order \<Rightarrow> amount_slot \<Rightarrow> bool" where
  "fitsOrder db e ord s \<longleftrightarrow>
     ord \<in> set (orders db) \<and> s \<in> set (slots db) \<and> slotOrderId s = orderId ord \<and> paymentInWindow e ord s \<and>
     profileUsesKey db (collectionProfileId ord) (entryProviderKey e) \<and>
     payableAmountCents ord = entryAmountCents e"

lemma factsAmong_mem:
  "(ord, s) \<in> set (factsAmong p db ords) \<longleftrightarrow> ord \<in> set ords \<and> s \<in> set (slots db) \<and> slotOrderId s = orderId ord \<and> p ord s"
  by (auto simp: factsAmong_def)

lemma readCandidateFacts_mem:
  "(ord, s) \<in> set (readCandidateFacts db e) \<longleftrightarrow> fitsOrder db e ord s \<and> paymentStatus ord = UNPAID"
  by (auto simp: readCandidateFacts_def factsAmong_mem fitsOrder_def)

lemma factsAmong_distinct:
  assumes "distinct ords" "distinct (slots db)"
  shows "distinct (factsAmong p db ords)"
  using assms(1)
proof (induction ords)
  case (Cons ord ords)
  have "distinct (map (Pair ord) (filter (\<lambda>s. slotOrderId s = orderId ord \<and> p ord s) (slots db)))"
    using assms(2) by (simp add: distinct_map inj_on_def)
  then show ?case using Cons by (auto simp: factsAmong_def)
qed (simp add: factsAmong_def)

text \<open>
  The key of a provider account belongs to one Alipay account (\<^verbatim>\<open>alipay_account_generations\<close> has one
  row for each key), so the profiles that use it collect on one account.
\<close>

definition keyOfOneAccount :: "recon_db \<Rightarrow> string \<Rightarrow> bool" where
  "keyOfOneAccount db key \<longleftrightarrow>
     (\<forall>ord \<in> set (orders db). \<forall>ord' \<in> set (orders db).
        profileUsesKey db (collectionProfileId ord) key \<and> profileUsesKey db (collectionProfileId ord') key \<longrightarrow>
        alipayAccountId ord = alipayAccountId ord')"

lemma fits_one_order:
  assumes "rowsInv (orderSide db)" "keyOfOneAccount db (entryProviderKey e)" "occurredAtPrecision e \<le> 60000"
    "fitsOrder db e ord s" "fitsOrder db e ord' s'"
  shows "ord = ord' \<and> s = s'"
proof -
  note f = assms(4) [unfolded fitsOrder_def orders_def slots_def] and f' = assms(5) [unfolded fitsOrder_def orders_def slots_def]
  have "alipayAccountId ord = alipayAccountId ord'"
    using assms(2) f f' unfolding keyOfOneAccount_def orders_def by blast
  then have "ord = ord'"
    by (intro one_window [OF assms(1), of ord s ord' s' e]) (use f f' assms(3) in simp_all)
  moreover have "s = s'" if "ord = ord'"
    using slot_ids_distinct [OF assms(1)] assms(4,5) that inj_onD [of slotOrderId "set (slots db)" s s']
    by (simp add: fitsOrder_def slots_def distinct_map)
  ultimately show ?thesis by simp
qed

lemma distinct_all_equal:
  assumes "distinct xs" "\<And>x y. x \<in> set xs \<Longrightarrow> y \<in> set xs \<Longrightarrow> x = y"
  shows "length xs \<le> 1"
proof (cases xs)
  case (Cons x ys)
  then have "set xs \<subseteq> {x}" using assms(2) by (metis list.set_intros(1) singleton_iff subsetI)
  then have "card (set xs) \<le> 1" using card_mono [of "{x}"] by simp
  then show ?thesis using distinct_card [OF assms(1)] by simp
qed simp

lemma at_most_one_fact:
  assumes rows: "rowsInv (orderSide db)" and key: "keyOfOneAccount db (entryProviderKey e)"
    and precision: "occurredAtPrecision e \<le> 60000"
  shows "length (readCandidateFacts db e) \<le> 1"
proof (rule distinct_all_equal)
  have "distinct (orders db)" "distinct (slots db)"
    using rowsInvD(1) [OF rows] slot_ids_distinct [OF rows] by (auto simp: orders_def slots_def distinct_map)
  then show "distinct (readCandidateFacts db e)"
    unfolding readCandidateFacts_def by (simp add: factsAmong_distinct)
  fix x y
  assume "x \<in> set (readCandidateFacts db e)" "y \<in> set (readCandidateFacts db e)"
  moreover obtain ord s ord' s' where "x = (ord, s)" "y = (ord', s')" by (cases x, cases y)
  ultimately show "x = y"
    using fits_one_order [OF rows key precision, of ord s ord' s'] by (simp add: readCandidateFacts_mem)
qed

subsection \<open>The candidates of an entry\<close>

definition candidateOf :: "ledger_entry \<Rightarrow> candidate_fact \<Rightarrow> match_candidate \<Rightarrow> bool" where
  "candidateOf e k c \<longleftrightarrow>
     candidateEntryId c = ledgerEntryId e \<and> candidateOrderId c = orderId (fst k) \<and>
     candidateSlotId c = slotId (snd k)"

lemma readCandidateByTuple_Some:
  "readCandidateByTuple db eid oid sid = Inr (Some c) \<Longrightarrow>
   c \<in> set (matchCandidates db) \<and> candidateEntryId c = eid \<and> candidateOrderId c = oid \<and> candidateSlotId c = sid"
  unfolding readCandidateByTuple_def
  by (drule mapFound_Inr) (auto simp: mapCandidate_def result_simps dest: find_SomeD)

lemma readCandidate_Some:
  "readCandidate db cid = Inr (Some c) \<Longrightarrow> c \<in> set (matchCandidates db) \<and> candidateId c = cid"
  unfolding readCandidate_def
  by (drule mapFound_Inr) (auto simp: mapCandidate_def result_simps dest: find_SomeD)

lemma ensureCandidate_spec:
  assumes "ensureCandidate env e k now db = Inr (c, db')"
  shows "candidateOf e k c \<and> c \<in> set (matchCandidates db') \<and>
    (db' = db \<or> (\<exists>new. new = c \<and> candidateStatus c = ELIGIBLE \<and> candidateInsertAllowed c db \<and>
       db' = db\<lparr>matchCandidates := matchCandidates db @ [new]\<rparr>))"
proof -
  obtain ord s where k: "k = (ord, s)" by (cases k)
  obtain existing where ex: "readCandidateByTuple db (ledgerEntryId e) (orderId ord) (slotId s) = Inr existing"
    using assms k by (auto simp: ensureCandidate_def bindR_Inr_iff)
  show ?thesis
  proof (cases existing)
    case (Some d)
    then show ?thesis
      using assms k ex readCandidateByTuple_Some [of db "ledgerEntryId e" "orderId ord" "slotId s" d]
      by (simp add: ensureCandidate_def candidateOf_def)
  next
    case None
    let ?new = "newCandidate env (freshId env ForCandidate (length (matchCandidates db))) e ord s now"
    have n: "candidateInsertAllowed ?new db" "db' = db\<lparr>matchCandidates := matchCandidates db @ [?new]\<rparr>"
        "readCandidate db' (candidateId ?new) = Inr (Some c)"
      using assms k ex None
      by (auto simp: ensureCandidate_def insertCandidate_def Let_def bindR_Inr_iff assertR_Inr_iff newCandidate_def
          split: option.splits)
    have "c = ?new"
      using readCandidate_Some [OF n(3)] n(1,2) by (auto simp: candidateInsertAllowed_def list_ex_iff)
    then show ?thesis using n k by (simp add: candidateOf_def newCandidate_def)
  qed
qed

lemma ensureCandidates_spec:
  "ensureCandidates env e ks now db = Inr (cs, db') \<Longrightarrow>
   list_all2 (candidateOf e) ks cs \<and> set cs \<subseteq> set (matchCandidates db') \<and>
   set (matchCandidates db) \<subseteq> set (matchCandidates db') \<and>
   (\<forall>c \<in> set cs. c \<in> set (matchCandidates db) \<or> candidateStatus c = ELIGIBLE)"
proof (induction ks arbitrary: db cs)
  case (Cons k ks)
  obtain c db1 cs' where s: "ensureCandidate env e k now db = Inr (c, db1)"
      "ensureCandidates env e ks now db1 = Inr (cs', db')" "cs = c # cs'"
    using Cons.prems by (auto simp: bindR_Inr_iff)
  show ?case using Cons.IH [OF s(2)] ensureCandidate_spec [OF s(1)] s(3) by auto
qed simp

lemma not_ambiguous:
  assumes "length (readCandidateFacts db e) \<le> 1" "matchEntry env e now db = Inr (r, db')"
  shows "r \<noteq> ResultAmbiguous eid cids xid"
proof -
  obtain found db1 db2 where s: "ensureCandidates env e (readCandidateFacts db e) now db = Inr (found, db1)"
      "entryOutcome env e (readSettledOrderOverlap db e) (filter (\<lambda>c. candidateStatus c = ELIGIBLE) found) now db2 =
         Inr (r, db')"
    using assms(2) unfolding matchEntry_def Let_def bindR_Inr_iff by (auto simp: bindR_Inr_iff)
  have "length (filter (\<lambda>c. candidateStatus c = ELIGIBLE) found) \<le> 1"
    using ensureCandidates_spec [OF s(1)] assms(1) list_all2_lengthD le_trans [OF length_filter_le] by metis
  then show ?thesis
    using s(2) unfolding entryOutcome_def
    by (auto simp: bindR_Inr_iff reportUnmatched_def autoSettleCandidate_def replayAutoSettlement_def
        recordAutoSettlement_def Let_def split: list.splits if_splits option.splits)
qed

subsection \<open>What an automatic settlement has checked and done\<close>

lemma mapFound_None: "mapFound f found = Inr None \<Longrightarrow> found = None"
  by (auto simp: mapFound_def bindR_Inr_iff split: option.splits)

lemma no_active_for_entry:
  "readActiveMatchForEntry db eid = Inr None \<Longrightarrow> m \<in> set (matches db) \<Longrightarrow> pmStatus m = SETTLED \<Longrightarrow> pmEntryId m \<noteq> eid"
  unfolding readActiveMatchForEntry_def by (drule mapFound_None) (auto simp: find_None_iff_all)

lemma createdMatch_row:
  "readPaymentMatchByCreationOperation db fid = Inr (Some m) \<Longrightarrow> m \<in> set (matches db)"
  unfolding readPaymentMatchByCreationOperation_def
  by (drule mapFound_Inr) (auto simp: mapPaymentMatch_def result_simps dest: find_SomeD)

lemma linksOk_entry:
  assumes "linksOk keys ms" "m \<in> set ms" "pmCandidateId m = Some cid" "(cid, eid) \<in> set keys"
  shows "pmEntryId m = eid"
proof -
  have "(cid, pmEntryId m) \<in> set keys" "distinct (map fst keys)" using assms by (simp_all add: linksOk_def)
  then show ?thesis using assms(4) eq_key_imp_eq_value by metis
qed

text \<open>The operation of the candidate was never recorded before: a settlement writes its rows.\<close>

lemma autoSettleCandidate_cases:
  assumes inv: "reconInv db" and c: "(candidateId c, ledgerEntryId e) \<in> set (candidateKeys db)"
    and res: "autoSettleCandidate env e c now db = Inr (r, db')"
  obtains ord where "autoSettleChecks db e c = Inr ord" "recordAutoSettlement env e c ord now db = Inr (r, db')"
proof -
  obtain ord existing where o: "autoSettleChecks db e c = Inr ord"
      and rest: "(case existing of Some f \<Rightarrow> bindR (replayAutoSettlement db e c f) (\<lambda>r. Inr (r, db))
        | None \<Rightarrow> recordAutoSettlement env e c ord now db) = Inr (r, db')"
    using res unfolding autoSettleCandidate_def bindR_Inr_iff by blast
  have active: "readActiveMatchForEntry db (ledgerEntryId e) = Inr None"
    using o unfolding autoSettleChecks_def bindR_Inr_iff assertR_Inr_iff by blast
  have "existing = None"
  proof (rule ccontr)
    assume "existing \<noteq> None"
    then obtain f where "replayAutoSettlement db e c f = Inr r" using rest by (auto simp: bindR_Inr_iff)
    then obtain m where m: "m \<in> set (matches db)" "pmStatus m = SETTLED" "pmCandidateId m = Some (candidateId c)"
      by (auto simp: replayAutoSettlement_def bindR_Inr_iff split: option.splits if_splits dest: createdMatch_row)
    show False
      using no_active_for_entry [OF active m(1,2)] linksOk_entry [OF reconInvD(5) [OF inv] m(1,3) c] by simp
  qed
  then show thesis using that [OF o] rest by simp
qed

lemma recordAutoSettlement_effect:
  assumes inv: "reconInv db" and now: "now = orderClock (orderSide db)"
    and ord: "ord \<in> set (orders db)" and e: "e \<in> set (ledgerEntries db)" "entryState e \<noteq> ALLOCATED"
    and res: "recordAutoSettlement env e c ord now db = Inr (r, db')"
  obtains mid f db2 where "r = ResultAutoSettled (ledgerEntryId e) (candidateId c) mid (candidateOrderId c)"
    "sameBooks db db2" "settledBooks ord e (autoMatch e c mid f now) BasisInferred now db2 db'"
proof -
  obtain mid fid key f db1 db2 decision details where s:
      "insertFinancialOperation env fid key (autoOperationInput e c mid) now db = Inr (f, db1)"
      "decideCandidate SELECTED (candidateId c) (financialOperationId f) now
         ''automatic candidate selection'' db1 = Inr db2"
      "settleRows env f ord e (autoMatch e c mid f now) BasisInferred decision details ''auto_settled'' now db2 =
         Inr db'" "r = ResultAutoSettled (ledgerEntryId e) (candidateId c) mid (candidateOrderId c)"
    using res unfolding recordAutoSettlement_def Let_def by (auto simp: bindR_Inr_iff)
  have q: "sameBooks db db2"
    using insertFinancialOperation_books [OF s(1)] decideCandidate_books [OF s(2)] by (rule sameBooks_trans)
  have "settledBooks ord e (autoMatch e c mid f now) BasisInferred now db2 db'"
    by (rule settleRows_effect [OF sameBooks_inv [OF q inv] _ _ _ e(2) s(3)])
       (use q now e(1) ord sameBooks_orders [OF q] in \<open>simp_all add: sameBooks_def\<close>)
  then show thesis using that s(4) q by blast
qed

subsection \<open>An order already paid\<close>

lemma no_overlap:
  assumes rows: "rowsInv (orderSide db)" and none: "overlapCount (readSettledOrderOverlap db e) \<le> 0"
    and fits: "fitsOrder db e ord s"
  shows "paymentStatus ord = UNPAID"
proof (rule ccontr)
  assume paid: "paymentStatus ord \<noteq> UNPAID"
  have "slotMatches ord s"
    using slot_matches_by_id [OF rows, of ord s] fits by (simp add: fitsOrder_def orders_def slots_def)
  then have "ord \<in> set (overlappingOrders db e)"
    using fits paid
    by (cases "paymentStatus ord") (auto simp: overlappingOrders_def fitsOrder_def slotMatches_def intro!: bexI [of _ s])
  then show False using none by (cases "overlappingOrders db e") (auto simp: readSettledOrderOverlap_def Let_def)
qed

lemma fitsOrder_clock [simp]: "fitsOrder (db\<lparr>orderSide := (orderSide db)\<lparr>orderClock := t\<rparr>\<rparr>) e ord s = fitsOrder db e ord s"
  by (simp add: fitsOrder_def orders_def slots_def profileUsesKey_def)

text \<open>The way an entry is reconciled into an automatic settlement.\<close>

lemma auto_settled_path:
  assumes "reconcileEntry env eid db = Inr (ResultAutoSettled eid' cid mid oid, db')"
  obtains now db1 e where "financialNow env db = Inr (now, db1)" "readLedgerEntry db eid = Some e"
    "entryState e \<in> {UNALLOCATED, CANDIDATE}" "\<not> hasOpenLedgerConflict db1 eid" "entryDirection e = CREDIT"
    "\<not> isSandboxEntry db e" "matchEntry env e now db1 = Inr (ResultAutoSettled eid' cid mid oid, db')"
proof -
  have "\<exists>now db1 e. financialNow env db = Inr (now, db1) \<and> readLedgerEntry db eid = Some e \<and>
    entryState e \<noteq> CONFLICT \<and> entryState e \<noteq> ISOLATED \<and> entryState e \<noteq> IGNORED \<and> entryState e \<noteq> ALLOCATED \<and>
    \<not> hasOpenLedgerConflict db1 eid \<and> entryDirection e = CREDIT \<and> \<not> isSandboxEntry db e \<and>
    matchEntry env e now db1 = Inr (ResultAutoSettled eid' cid mid oid, db')"
    using assms unfolding reconcileEntry_def Let_def
    by (cases "readLedgerEntry db eid")
       (auto simp: bindR_Inr_iff assertR_Inr_iff not_debit split: if_splits option.splits)
  then show thesis using that by (metis insert_iff ledger_state.exhaust)
qed

lemma matchEntry_auto:
  assumes "matchEntry env e now db = Inr (ResultAutoSettled eid' cid mid oid, db')"
  obtains found db1 db2 c where "ensureCandidates env e (readCandidateFacts db e) now db = Inr (found, db1)"
    "filter (\<lambda>c. candidateStatus c = ELIGIBLE) found = [c]" "overlapCount (readSettledOrderOverlap db e) \<le> 0"
    "supersedeStaleEligibleCandidates env e [candidateId c] now db1 = Inr db2"
    "autoSettleCandidate env e c now db2 = Inr (ResultAutoSettled eid' cid mid oid, db')"
proof -
  obtain found db1 db2 where s: "ensureCandidates env e (readCandidateFacts db e) now db = Inr (found, db1)"
      "supersedeStaleEligibleCandidates env e
         (map candidateId (filter (\<lambda>c. candidateStatus c = ELIGIBLE) found)) now db1 = Inr db2"
      "entryOutcome env e (readSettledOrderOverlap db e) (filter (\<lambda>c. candidateStatus c = ELIGIBLE) found) now db2 =
         Inr (ResultAutoSettled eid' cid mid oid, db')"
    using assms unfolding matchEntry_def Let_def bindR_Inr_iff by (auto simp: bindR_Inr_iff)
  obtain c where c: "filter (\<lambda>c. candidateStatus c = ELIGIBLE) found = [c]"
      "\<not> overlapCount (readSettledOrderOverlap db e) > 0"
      "autoSettleCandidate env e c now db2 = Inr (ResultAutoSettled eid' cid mid oid, db')"
    using s(3) unfolding entryOutcome_def
    by (auto simp: bindR_Inr_iff reportUnmatched_def split: list.splits if_splits)
  then show thesis using that s by auto
qed

lemma candidateOf_key:
  "candidateOf e k c \<Longrightarrow> c \<in> set (matchCandidates db) \<Longrightarrow> (candidateId c, ledgerEntryId e) \<in> set (candidateKeys db)"
  by (metis candidateKeys_mem candidateOf_def)

lemma other_facts:
  assumes made: "ensureCandidates env e ks now db = Inr (found, db')"
    and one: "filter (\<lambda>c. candidateStatus c = ELIGIBLE) found = [c]" "candidateOf e (ord, s) c"
    and other: "(ord', s') \<in> set ks" "orderId ord' \<noteq> orderId ord"
  shows "\<exists>c' \<in> set (matchCandidates db). candidateOf e (ord', s') c' \<and> candidateStatus c' \<noteq> ELIGIBLE"
proof -
  note spec = ensureCandidates_spec [OF made]
  obtain c' where c': "c' \<in> set found" "candidateOf e (ord', s') c'"
    using list_all2_right [OF conjunct1 [OF spec] other(1)] by blast
  have "candidateStatus c' \<noteq> ELIGIBLE"
  proof
    assume "candidateStatus c' = ELIGIBLE"
    then have "c' \<in> set (filter (\<lambda>c. candidateStatus c = ELIGIBLE) found)" using c'(1) by simp
    then have "c' = c" using one(1) by simp
    then show False using c'(2) one(2) other(2) by (simp add: candidateOf_def)
  qed
  then show ?thesis using spec c' by blast
qed

lemma settledBooks_paid:
  assumes "settledBooks ord e m basis now db db'" "ord \<in> set (orders db)"
  shows "\<exists>paid \<in> set (orders db'). orderId paid = orderId ord \<and> paymentStatus paid = CONFIRMED \<and>
    receivedAmountCents paid = Some (entryAmountCents e) \<and> paymentBasis paid = basis"
proof -
  have "orders db' = updateRows (\<lambda>r. orderId r = orderId ord) (payOrder CONFIRMED basis (entryAmountCents e) now) (orders db)"
    using assms(1) by (auto simp: settledBooks_def paidSide_def orders_def)
  then show ?thesis
    using paid_in_orders [OF assms(2), of "payOrder CONFIRMED basis (entryAmountCents e) now"]
    by (intro bexI [of _ "payOrder CONFIRMED basis (entryAmountCents e) now ord"]) simp_all
qed

lemma auto_settle_effect:
  assumes inv: "reconInv db" and now: "now = orderClock (orderSide db)"
    and e: "e \<in> set (ledgerEntries db)" "entryState e \<noteq> ALLOCATED"
    and c: "(candidateId c, ledgerEntryId e) \<in> set (candidateKeys db)"
    and ord: "ord \<in> set (orders db)" "orderId ord = candidateOrderId c"
    and res: "autoSettleCandidate env e c now db = Inr (ResultAutoSettled eid cid mid oid, db')"
  shows "oid = orderId ord \<and> eid = ledgerEntryId e \<and>
    (\<exists>paid \<in> set (orders db'). orderId paid = oid \<and> paymentStatus paid = CONFIRMED \<and>
       receivedAmountCents paid = Some (entryAmountCents e)) \<and>
    (\<exists>m \<in> set (matches db'). paymentMatchId m = mid \<and> pmOrderId m = oid \<and> pmEntryId m = ledgerEntryId e \<and>
       pmStatus m = SETTLED)"
proof -
  obtain r where r: "autoSettleChecks db e c = Inr r" "recordAutoSettlement env e c r now db =
      Inr (ResultAutoSettled eid cid mid oid, db')"
    using autoSettleCandidate_cases [OF inv c res] .
  have "r = ord"
    using order_row_unique [OF reconInvD(4) [OF inv], of r ord] autoSettleChecks_Inr [OF r(1)] ord by simp
  then obtain mid' f db2 where s': "ResultAutoSettled eid cid mid oid =
        ResultAutoSettled (ledgerEntryId e) (candidateId c) mid' (candidateOrderId c)"
      "sameBooks db db2" "settledBooks ord e (autoMatch e c mid' f now) BasisInferred now db2 db'"
    using recordAutoSettlement_effect [OF inv now ord(1) e] r(2) by metis
  then have s: "oid = candidateOrderId c" "eid = ledgerEntryId e" "mid' = mid" "sameBooks db db2"
      "settledBooks ord e (autoMatch e c mid f now) BasisInferred now db2 db'"
    by auto
  have "autoMatch e c mid f now \<in> set (matches db')" using s(5) by (simp add: settledBooks_def)
  then have "\<exists>m \<in> set (matches db'). paymentMatchId m = mid \<and> pmOrderId m = oid \<and> pmEntryId m = ledgerEntryId e \<and>
       pmStatus m = SETTLED"
    using s(1) by (intro bexI) auto
  then show ?thesis
    using settledBooks_paid [OF s(5)] sameBooks_orders [OF s(4)] ord s(1,2) by auto
qed

text \<open>What a settlement of a matched entry shows of the order it paid and of the others.\<close>

definition soundlySettled :: "recon_db \<Rightarrow> ledger_entry \<Rightarrow> string \<Rightarrow> string \<Rightarrow> recon_db \<Rightarrow> bool" where
  "soundlySettled db e mid oid db' \<longleftrightarrow>
     (\<exists>ord s. fitsOrder db e ord s \<and> orderId ord = oid \<and> paymentStatus ord = UNPAID \<and>
        (\<forall>ord' s'. fitsOrder db e ord' s' \<and> ord' \<noteq> ord \<longrightarrow> paymentStatus ord' = UNPAID \<and>
           (\<exists>c \<in> set (matchCandidates db). candidateOf e (ord', s') c \<and> candidateStatus c \<noteq> ELIGIBLE)) \<and>
        (\<exists>paid \<in> set (orders db'). orderId paid = oid \<and> paymentStatus paid = CONFIRMED \<and>
           receivedAmountCents paid = Some (payableAmountCents ord)) \<and>
        (\<exists>m \<in> set (matches db'). paymentMatchId m = mid \<and> pmOrderId m = oid \<and> pmEntryId m = ledgerEntryId e \<and>
           pmStatus m = SETTLED))"

lemma matched_settlement:
  assumes inv: "reconInv db" and now: "now = orderClock (orderSide db)"
    and e: "e \<in> set (ledgerEntries db)" "entryState e \<noteq> ALLOCATED"
    and res: "matchEntry env e now db = Inr (ResultAutoSettled eid cid mid oid, db')"
  shows "soundlySettled db e mid oid db'"
proof -
  obtain found db1 db2 c where m: "ensureCandidates env e (readCandidateFacts db e) now db = Inr (found, db1)"
      "filter (\<lambda>c. candidateStatus c = ELIGIBLE) found = [c]" "overlapCount (readSettledOrderOverlap db e) \<le> 0"
      "supersedeStaleEligibleCandidates env e [candidateId c] now db1 = Inr db2"
      "autoSettleCandidate env e c now db2 = Inr (ResultAutoSettled eid cid mid oid, db')"
    using matchEntry_auto [OF res] by metis
  have q: "sameBooks db db2"
    using ensureCandidates_books [OF m(1)] supersedeStale_books [OF m(4)] by (rule sameBooks_trans)
  note spec = ensureCandidates_spec [OF m(1)]
  have found: "c \<in> set found" using m(2) by (auto simp: filter_eq_Cons_iff)
  obtain ord s where k: "(ord, s) \<in> set (readCandidateFacts db e)" "candidateOf e (ord, s) c"
    using list_all2_left [OF conjunct1 [OF spec] found] by auto
  then have fits: "fitsOrder db e ord s" "paymentStatus ord = UNPAID" by (simp_all add: readCandidateFacts_mem)
  have key: "(candidateId c, ledgerEntryId e) \<in> set (candidateKeys db2)"
    using candidateOf_key [OF k(2)] spec found supersedeStale_books [OF m(4)]
    by (auto simp: sameBooks_def candidatesKept_def)
  have "candidateOrderId c = orderId ord" "ord \<in> set (orders db2)" "e \<in> set (ledgerEntries db2)"
      "now = orderClock (orderSide db2)" "entryAmountCents e = payableAmountCents ord"
    using k(2) fits(1) sameBooks_orders [OF q] q e(1) now
    by (simp_all add: candidateOf_def fitsOrder_def sameBooks_def)
  note effect = auto_settle_effect [OF sameBooks_inv [OF q inv] this(4,3) e(2) key this(2) this(1) [symmetric] m(5)]
    and amount = this(5)
  have others: "paymentStatus ord' = UNPAID \<and>
      (\<exists>c \<in> set (matchCandidates db). candidateOf e (ord', s') c \<and> candidateStatus c \<noteq> ELIGIBLE)"
    if f: "fitsOrder db e ord' s'" "ord' \<noteq> ord" for ord' s'
  proof -
    have u: "paymentStatus ord' = UNPAID" using no_overlap [OF reconInvD(2) [OF inv] m(3) f(1)] .
    have "orderId ord' \<noteq> orderId ord"
      using order_row_unique [OF reconInvD(4) [OF inv]] f fits(1) by (auto simp: fitsOrder_def)
    then show ?thesis using other_facts [OF m(1,2) k(2), of ord' s'] f(1) u by (simp add: readCandidateFacts_mem)
  qed
  show ?thesis
    unfolding soundlySettled_def
    by (intro exI [of _ ord] exI [of _ s] conjI allI impI) (use fits effect amount others in auto)
qed

end
