(* ===== verification/ReconTrigger.thy ===== *)
theory ReconTrigger
  imports ReconWindows ReconSamples
begin

text \<open>
  The trigger \<^verbatim>\<open>payment_matches_valid_insert\<close> looks for orders already paid through the profile's own
  \<^verbatim>\<open>provider_account_key\<close>, which is \<open>''primary''\<close> in every row, while the store and the trigger on
  candidates go through \<^verbatim>\<open>collection_profile_provider_accounts\<close>.  An order paid on another Alipay
  account can therefore stop the settlement of an order on the account of key \<open>''primary''\<close>.
\<close>

lemma settledElsewhere_cong:
  "orderSide db' = orderSide db \<Longrightarrow> settledElsewhere e ord db' = settledElsewhere e ord db"
  by (simp add: settledElsewhere_def orders_def slots_def)

lemma settledElsewhere_clock [simp]:
  "settledElsewhere e ord (db\<lparr>orderSide := (orderSide db)\<lparr>orderClock := t\<rparr>\<rparr>) = settledElsewhere e ord db"
  by (simp add: settledElsewhere_def orders_def slots_def)

lemma insertMatch_not_elsewhere:
  assumes "insertMatch m label db = Inr db'" "pmCandidateId m \<noteq> None"
    and d: "distinct (map orderId (orders db))" "distinct (map ledgerEntryId (ledgerEntries db))"
    and ord: "ord \<in> set (orders db)" "pmOrderId m = orderId ord"
    and e: "e \<in> set (ledgerEntries db)" "pmEntryId m = ledgerEntryId e"
  shows "\<not> settledElsewhere e ord db"
proof -
  have "matchInsertAllowed m db" using assms(1) by (simp add: insertMatch_def result_simps)
  then obtain f e' ord' where s: "e' \<in> set (ledgerEntries db)" "ledgerEntryId e' = pmEntryId m"
      "ord' \<in> set (orders db)" "orderId ord' = pmOrderId m"
      "autoMatchSupported m f e' ord' db \<or> manualMatchSupported m f e'"
    unfolding matchInsertAllowed_def list_ex_iff by blast
  then have "e' = e" "ord' = ord" using entry_unique [OF d(2)] order_row_unique [OF d(1)] ord e by metis+
  then show ?thesis using s(5) assms(2) by (simp add: autoMatchSupported_def manualMatchSupported_def)
qed

lemma recordAutoSettlement_not_elsewhere:
  assumes inv: "reconInv db" and ord: "ord \<in> set (orders db)" "orderId ord = candidateOrderId c"
    and e: "e \<in> set (ledgerEntries db)"
    and res: "recordAutoSettlement env e c ord now db = Inr (r, db')"
  shows "\<not> settledElsewhere e ord db"
proof -
  obtain mid fid key f db1 db2 decision details where s:
      "insertFinancialOperation env fid key (autoOperationInput e c mid) now db = Inr (f, db1)"
      "decideCandidate SELECTED (candidateId c) (financialOperationId f) now
         ''automatic candidate selection'' db1 = Inr db2"
      "settleRows env f ord e (autoMatch e c mid f now) BasisInferred decision details ''auto_settled'' now db2 =
         Inr db'"
    using res unfolding recordAutoSettlement_def Let_def by (auto simp: bindR_Inr_iff)
  have q: "sameBooks db db2"
    using insertFinancialOperation_books [OF s(1)] decideCandidate_books [OF s(2)] by (rule sameBooks_trans)
  obtain label db3 db4 where t: "postAccountingTransaction env f (orderId ord) (ledgerEntryId e) SettlementTransaction
       (entryAmountCents e) PROVIDER_CASH ORDER_SETTLEMENT now db2 = Inr db3"
      "insertMatch (autoMatch e c mid f now) label db3 = Inr db4"
    using s(3) by (auto simp: settleRows_def result_simps)
  have p: "orderSide db3 = orderSide db" "ledgerEntries db3 = ledgerEntries db"
    using postAccountingTransaction_books [OF t(1)] q by (auto simp: sameBooks_def)
  have "\<not> settledElsewhere e ord db3"
    by (rule insertMatch_not_elsewhere [OF t(2)])
       (use ord e p reconInvD(4) [OF inv] booksOkD(1) [OF reconInvD(3) [OF inv]]
        in \<open>simp_all add: orders_def, simp add: autoMatch_def\<close>)
  then show ?thesis using settledElsewhere_cong [OF p(1)] by simp
qed

lemma matched_not_elsewhere:
  assumes inv: "reconInv db" and ord: "ord \<in> set (orders db)" and e: "e \<in> set (ledgerEntries db)"
    and res: "matchEntry env e now db = Inr (ResultAutoSettled eid cid mid (orderId ord), db')"
  shows "\<not> settledElsewhere e ord db"
proof -
  obtain found db1 db2 c where m: "ensureCandidates env e (readCandidateFacts db e) now db = Inr (found, db1)"
      "filter (\<lambda>c. candidateStatus c = ELIGIBLE) found = [c]"
      "supersedeStaleEligibleCandidates env e [candidateId c] now db1 = Inr db2"
      "autoSettleCandidate env e c now db2 = Inr (ResultAutoSettled eid cid mid (orderId ord), db')"
    using matchEntry_auto [OF res] by metis
  have q: "sameBooks db db2"
    using ensureCandidates_books [OF m(1)] supersedeStale_books [OF m(3)] by (rule sameBooks_trans)
  note inv2 = sameBooks_inv [OF q inv] and spec = ensureCandidates_spec [OF m(1)]
  have found: "c \<in> set found" using m(2) by (auto simp: filter_eq_Cons_iff)
  obtain k where k: "candidateOf e k c" using list_all2_left [OF conjunct1 [OF spec] found] by auto
  have key: "(candidateId c, ledgerEntryId e) \<in> set (candidateKeys db2)"
    using candidateOf_key [OF k] spec found supersedeStale_books [OF m(3)] by (auto simp: sameBooks_def candidatesKept_def)
  obtain r where r: "autoSettleChecks db2 e c = Inr r" "recordAutoSettlement env e c r now db2 =
      Inr (ResultAutoSettled eid cid mid (orderId ord), db')"
    using autoSettleCandidate_cases [OF inv2 key m(4)] .
  have "candidateOrderId c = orderId ord"
    using r(2) unfolding recordAutoSettlement_def Let_def by (auto simp: bindR_Inr_iff)
  moreover have ord2: "ord \<in> set (orders db2)" "e \<in> set (ledgerEntries db2)" "orderSide db2 = orderSide db"
    using ord e q sameBooks_orders [OF q] by (simp_all add: sameBooks_def)
  ultimately have "r = ord"
    using order_row_unique [OF reconInvD(4) [OF inv2], of r ord] autoSettleChecks_Inr [OF r(1)] by simp
  then show ?thesis
    using recordAutoSettlement_not_elsewhere [OF inv2 ord2(1) _ ord2(2)] r(2) autoSettleChecks_Inr [OF r(1)]
      settledElsewhere_cong [OF ord2(3)] by simp
qed

end
