(* ===== verification/JsonSizes.thy ===== *)
theory JsonSizes
  imports JsonText
begin

text \<open>
  A bound on the UTF-8 length of a rendered JSON value that only counts characters: a text of plain
  ASCII takes one byte a unit, any other text at most six.  The size limits of the stored documents
  are discharged with it.
\<close>

definition unitBytes :: "16 word \<Rightarrow> nat" where
  "unitBytes u = (if unat u < 0x80 then 1 else 3)"

definition bytesBound :: "jstr \<Rightarrow> nat" where
  "bytesBound s = sum_list (map unitBytes s)"

lemma bytesBound_simps [simp]:
  "bytesBound [] = 0" "bytesBound (u # s) = unitBytes u + bytesBound s"
  "bytesBound (s @ t) = bytesBound s + bytesBound t"
  by (simp_all add: bytesBound_def)

lemma utf8Point_unat: "length (utf8Point (unat u)) \<le> unitBytes u"
  using unat_16_bound [of u] by (auto simp: utf8Point_def unitBytes_def)

lemma byteLength_bound: "byteLength s \<le> bytesBound s"
proof -
  have "length (concat (map utf8Point (codePoints s))) \<le> bytesBound s"
  proof (induction s rule: codePoints.induct)
    case (2 u)
    then show ?case using utf8Point_unat [of u] by simp
  next
    case (3 u v rest)
    show ?case
    proof (cases "isHighSurrogate u \<and> isLowSurrogate v")
      case True
      then have "unitBytes u = 3" "unitBytes v = 3"
        by (simp_all add: unitBytes_def isHighSurrogate_def isLowSurrogate_def)
      then show ?thesis
        using 3(1) [OF True] True length_utf8Point(1) [of "0x10000 + (unat u - 0xD800) * 0x400 + (unat v - 0xDC00)"]
        by simp
    next
      case False
      then show ?thesis using 3(2) [OF False] utf8Point_unat [of u] by auto
    qed
  qed simp
  then show ?thesis by (simp add: byteLength_def utf8_def)
qed

text \<open>Texts that are rendered unit by unit.\<close>

definition plainUnit :: "16 word \<Rightarrow> bool" where
  "plainUnit u \<longleftrightarrow> 0x20 \<le> unat u \<and> unat u < 0x80 \<and> unat u \<noteq> 0x22 \<and> unat u \<noteq> 0x5C"

definition textBytes :: "jstr \<Rightarrow> nat" where
  "textBytes s = (if list_all plainUnit s then length s else 6 * length s)"

lemma codePoints_plain: "list_all plainUnit s \<Longrightarrow> codePoints s = map unat s"
  by (induction s rule: codePoints.induct) (auto simp: plainUnit_def isHighSurrogate_def)

lemma escapePoint_plain: "plainUnit u \<Longrightarrow> escapePoint (unat u) = [u]"
  using unitsOfPoint_unat [of u]
  by (auto simp: escapePoint_def plainUnit_def isSurrogatePoint_def)

lemma hexDigit_bytes: "n < 16 \<Longrightarrow> unitBytes (hexDigit n) = 1"
  by (simp add: hexDigit_def unitBytes_def)

lemma unitBytes_le: "unitBytes u \<le> 3"
  by (simp add: unitBytes_def)

lemma escapePoint_bytes: "bytesBound (escapePoint cp) \<le> 6"
proof -
  have h: "bytesBound (hex4 cp) = 4" by (simp add: hex4_def hexDigit_bytes)
  have "bytesBound (unitsOfPoint cp) \<le> 6"
    using unitBytes_le [of "unitOf cp"] unitBytes_le [of "unitOf (0xD800 + (cp - 0x10000) div 0x400)"]
      unitBytes_le [of "unitOf (0xDC00 + (cp - 0x10000) mod 0x400)"]
    by (simp add: unitsOfPoint_def)
  then show ?thesis using h by (simp add: escapePoint_def unitBytes_def)
qed

lemma quoteString_bytes: "bytesBound (quoteString s) \<le> textBytes s + 2"
proof -
  have q: "bytesBound (quoteString s) = 2 + bytesBound (concat (map escapePoint (codePoints s)))"
    by (simp add: quoteString_def unitBytes_def)
  have any: "bytesBound (concat (map escapePoint cps)) \<le> 6 * length cps" for cps
  proof (induction cps)
    case (Cons cp cps)
    then show ?case using escapePoint_bytes [of cp] by simp
  qed simp
  have plain: "bytesBound (concat (map escapePoint (map unat s))) = length s" if "list_all plainUnit s"
    using that by (induction s) (auto simp: escapePoint_plain plainUnit_def unitBytes_def)
  show ?thesis
    using any [of "codePoints s"] plain length_codePoints_le [of s]
    by (auto simp: q textBytes_def codePoints_plain)
qed

subsection \<open>Numbers\<close>

lemma decimalNat_bytes: "n < 10 ^ Suc k \<Longrightarrow> bytesBound (decimalNat n) \<le> Suc k"
proof (induction k arbitrary: n)
  case 0
  then show ?case by (simp add: decimalNat.simps [of n] unitBytes_def)
next
  case (Suc k)
  show ?case
  proof (cases "n < 10")
    case True
    then show ?thesis by (simp add: decimalNat.simps [of n] unitBytes_def)
  next
    case False
    have "n div 10 < 10 ^ Suc k" using Suc.prems by (simp add: less_mult_imp_div_less)
    then have "bytesBound (decimalNat (n div 10)) \<le> Suc k" by (rule Suc.IH)
    moreover have "unitBytes (unitOf (48 + n mod 10)) = 1"
    proof -
      have "48 + n mod 10 < 0x80" by simp
      then show ?thesis by (simp add: unitBytes_def)
    qed
    ultimately show ?thesis using False by (simp add: decimalNat.simps [of n])
  qed
qed

text \<open>A safe integer takes at most seventeen bytes.\<close>

definition intBytes :: "int \<Rightarrow> nat" where
  "intBytes n = (if isSafeInteger n then 17 else bytesBound (decimal n))"

lemma decimal_bytes: "bytesBound (decimal n) \<le> intBytes n"
proof (cases "isSafeInteger n")
  case True
  then have "\<bar>n\<bar> < 10 ^ 16" by (auto simp: isSafeInteger_def maxSafeInteger_def abs_if)
  then have "nat \<bar>n\<bar> < 10 ^ Suc 15" by (simp add: nat_less_iff)
  then have "bytesBound (decimalNat (nat \<bar>n\<bar>)) \<le> 16" using decimalNat_bytes [of _ 15] by simp
  then show ?thesis using True by (auto simp: decimal_def intBytes_def unitBytes_def abs_if)
qed (simp add: intBytes_def)

subsection \<open>Values\<close>

fun jsonBytes :: "json \<Rightarrow> nat" where
  "jsonBytes JNull = 4"
| "jsonBytes (JBool b) = 5"
| "jsonBytes (JInt n) = intBytes n"
| "jsonBytes (JStr s) = textBytes s + 2"
| "jsonBytes (JArr vs) = 2 + sum_list (map (\<lambda>v. jsonBytes v + 1) vs)"
| "jsonBytes (JObj ms) = 2 + sum_list (map (\<lambda>(k, v). textBytes k + jsonBytes v + 4) ms)"

lemma commaJoin_bytes: "bytesBound (commaJoin parts) \<le> sum_list (map (\<lambda>p. bytesBound p + 1) parts)"
proof -
  have "bytesBound (concat (map (\<lambda>q. [0x2C] @ q) ps)) = sum_list (map (\<lambda>p. bytesBound p + 1) ps)" for ps
    by (induction ps) (auto simp: unitBytes_def)
  note rest = this
  show ?thesis
  proof (cases parts)
    case (Cons p ps)
    then show ?thesis by (simp only: commaJoin_def list.case bytesBound_simps rest list.map sum_list.Cons)
  qed (simp add: commaJoin_def)
qed

lemma stringify_bytes: "bytesBound (stringify v) \<le> jsonBytes v"
proof (induction v)
  case (JArr vs)
  have "sum_list (map (\<lambda>p. bytesBound p + 1) (map stringify vs)) \<le> sum_list (map (\<lambda>v. jsonBytes v + 1) vs)"
    unfolding map_map o_def by (rule sum_list_mono) (use JArr in simp)
  then show ?case using commaJoin_bytes [of "map stringify vs"] by (simp add: unitBytes_def)
next
  case (JObj ms)
  have "sum_list (map (\<lambda>p. bytesBound p + 1) (map (\<lambda>(k, v). quoteString k @ [0x3A] @ stringify v) ms))
      \<le> sum_list (map (\<lambda>(k, v). textBytes k + jsonBytes v + 4) ms)"
    using JObj
  proof (induction ms)
    case (Cons m ms)
    obtain k v where m: "m = (k, v)" by (cases m)
    have "bytesBound (stringify v) \<le> jsonBytes v" using Cons.prems [of "(k, v)" v] m by simp
    moreover have "sum_list (map (\<lambda>p. bytesBound p + 1) (map (\<lambda>(k, v). quoteString k @ [0x3A] @ stringify v) ms))
        \<le> sum_list (map (\<lambda>(k, v). textBytes k + jsonBytes v + 4) ms)"
      using Cons.IH Cons.prems by auto
    ultimately show ?case using quoteString_bytes [of k] m by (simp add: unitBytes_def)
  qed simp
  then show ?case using commaJoin_bytes [of "map (\<lambda>(k, v). quoteString k @ [0x3A] @ stringify v) ms"]
    by (simp add: unitBytes_def)
next
  case (JStr s)
  then show ?case using quoteString_bytes [of s] by simp
qed (auto simp: js_def unitBytes_def decimal_bytes)

lemma stringify_byteLength: "jsonBytes v \<le> n \<Longrightarrow> byteLength (stringify v) \<le> n"
  using byteLength_bound [of "stringify v"] stringify_bytes [of v] by linarith

subsection \<open>Plain strings\<close>

text \<open>The same on texts of characters, where it is decided without words.\<close>

definition plainChar :: "char \<Rightarrow> bool" where
  "plainChar c \<longleftrightarrow> (let n = of_char c :: nat in 0x20 \<le> n \<and> n < 0x80 \<and> n \<noteq> 0x22 \<and> n \<noteq> 0x5C)"

definition plainText :: "string \<Rightarrow> bool" where
  "plainText s \<longleftrightarrow> list_all plainChar s"

lemma plainUnit_js: "plainChar c \<Longrightarrow> plainUnit (unitOf (of_char c))"
proof -
  assume p: "plainChar c"
  have "unat (unitOf (of_char c)) = (of_char c :: nat)"
    using p by (intro unat_unitOf) (simp add: plainChar_def Let_def)
  then show ?thesis using p by (simp add: plainChar_def plainUnit_def Let_def)
qed

lemma textBytes_plain: "plainText s \<Longrightarrow> textBytes (js s) = length s"
  using plainUnit_js by (auto simp: textBytes_def plainText_def js_def list_all_iff)

lemma plainText_Nil [simp]: "plainText []"
  by (simp add: plainText_def)

lemma plainText_append [simp]: "plainText (s @ t) \<longleftrightarrow> plainText s \<and> plainText t"
  by (simp add: plainText_def)

end
