(* ===== verification/ReconLiveness.thy ===== *)
theory ReconLiveness
  imports ReconTrigger JsonSizes
begin

text \<open>
  A unique match is settled.  Each statement of an automatic settlement goes through when the
  identifiers it takes are fresh, the documents fit their columns and the integers are safe; so an
  incoming entry that fits exactly one unpaid order is settled, and nothing is left to be decided.
\<close>

subsection \<open>What the environment and the rows must provide\<close>

definition readyEnv :: "recon_env \<Rightarrow> bool" where
  "readyEnv env \<longleftrightarrow>
     (\<forall>x. isSha256Text (reconSha env x)) \<and>
     (\<forall>u n. length (freshId env u n) = 36 \<and> plainText (freshId env u n)) \<and>
     (\<forall>n. freshId env ForPosting n \<noteq> freshId env ForPosting (Suc n))"

lemma readyEnvD:
  assumes "readyEnv env"
  shows "isSha256Text (reconSha env x)" "length (freshId env u n) = 36" "plainText (freshId env u n)"
    "freshId env ForPosting n \<noteq> freshId env ForPosting (Suc n)"
  using assms by (simp_all add: readyEnv_def)

text \<open>No row mentions an identifier the transaction is about to use.\<close>

definition idsUnused :: "recon_env \<Rightarrow> recon_db \<Rightarrow> bool" where
  "idsUnused env db \<longleftrightarrow>
     (let cid = freshId env ForCandidate (length (matchCandidates db));
          fid = freshId env ForOperation (length (financialOperations db));
          mid = freshId env ForMatch (length (matches db));
          tid = freshId env ForTransaction (length (ledgerTransactions db));
          n = length (ledgerPostings db);
          vid = freshId env ForOrderEvent (length (orderEvents (orderSide db)));
          xid = freshId env ForOutboxEvent (length (outbox db))
      in list_all (\<lambda>c. candidateId c \<noteq> cid \<and> decidedByOperationId c \<noteq> Some fid) (matchCandidates db) \<and>
         list_all (\<lambda>f. financialOperationId f \<noteq> fid) (financialOperations db) \<and>
         list_all (\<lambda>m. paymentMatchId m \<noteq> mid \<and> pmCandidateId m \<noteq> Some cid \<and> createdByOperationId m \<noteq> fid \<and>
           resolvedByOperationId m \<noteq> Some fid) (matches db) \<and>
         list_all (\<lambda>t. transactionId t \<noteq> tid \<and> transactionOperationId t \<noteq> fid) (ledgerTransactions db) \<and>
         list_all (\<lambda>p. postingTransactionId p \<noteq> tid \<and> postingId p \<noteq> freshId env ForPosting n \<and>
           postingId p \<noteq> freshId env ForPosting (n + 1)) (ledgerPostings db) \<and>
         list_all (\<lambda>v. eventId v \<noteq> vid) (orderEvents (orderSide db)) \<and>
         list_all (\<lambda>x. outboxEventId x \<noteq> xid \<and> outboxOperationId x \<noteq> fid) (outbox db))"

text \<open>The texts of the evidence are short and plain, as the program writes them; the merchant's texts may be any.\<close>

definition plainWithin :: "nat \<Rightarrow> string \<Rightarrow> bool" where
  "plainWithin n s \<longleftrightarrow> plainText s \<and> length s \<le> n"

definition textsFit :: "ledger_entry \<Rightarrow> payment_order \<Rightarrow> amount_slot \<Rightarrow> bool" where
  "textsFit e ord s \<longleftrightarrow>
     plainWithin 128 (entryProviderKey e) \<and> plainWithin 36 (ledgerEntryId e) \<and>
     plainWithin 64 (semanticFingerprint e) \<and> plainWithin 36 (orderId ord) \<and>
     plainWithin 36 (collectionProfileId ord) \<and> plainWithin 36 (slotId s) \<and>
     length (merchantOrderNo ord) \<le> 1000 \<and> length (productName ord) \<le> 1000 \<and>
     (case orderNote ord of None \<Rightarrow> True | Some text \<Rightarrow> length text \<le> 1000)"

definition numbersFit :: "ledger_entry \<Rightarrow> payment_order \<Rightarrow> amount_slot \<Rightarrow> bool" where
  "numbersFit e ord s \<longleftrightarrow>
     isSafeInteger (entryOccurredAt e) \<and> occurredAtPrecision e \<in> {1, 10, 100, 1000} \<and>
     isSafeInteger (entryOccurredAt e + occurredAtPrecision e) \<and>
     1 \<le> entryAmountCents e \<and> entryAmountCents e \<le> 9999999999 \<and>
     isSafeInteger (generation s) \<and> isSafeInteger (occupiedFrom s) \<and>
     (case releasedAt s of None \<Rightarrow> True | Some t \<Rightarrow> isSafeInteger t) \<and>
     isSafeInteger (requestedAmountCents ord) \<and> isSafeInteger (version ord + 1) \<and> 1 \<le> version ord"

lemma amount_safe: "1 \<le> n \<Longrightarrow> n \<le> 9999999999 \<Longrightarrow> isSafeInteger n"
  by (simp add: isSafeInteger_def maxSafeInteger_def)

lemma textBytes_within: "plainWithin n s \<Longrightarrow> textBytes (js s) \<le> n"
  by (simp add: plainWithin_def textBytes_plain)

lemma textBytes_any: "textBytes s \<le> 6 * length s"
  by (simp add: textBytes_def)

lemma intBytes_safe [simp]: "isSafeInteger n \<Longrightarrow> intBytes n = 17"
  by (simp add: intBytes_def)

subsection \<open>Documents\<close>

lemmas document_sizes = jobject_def textBytes_plain plainText_def plainChar_def jnull_def jtextOption_def

lemma candidateEvidence_fits:
  assumes "textsFit e ord s" "numbersFit e ord s"
  shows "jsonFits 8192 (candidateEvidence (candidateInput e ord s))"
proof -
  have t: "textBytes (js (entryProviderKey e)) \<le> 128" "textBytes (js (ledgerEntryId e)) \<le> 36"
      "textBytes (js (semanticFingerprint e)) \<le> 64" "textBytes (js (orderId ord)) \<le> 36"
      "textBytes (js (collectionProfileId ord)) \<le> 36" "textBytes (js (slotId s)) \<le> 36"
    using assms(1) by (simp_all add: textsFit_def textBytes_within)
  have r: "jsonBytes (jintOption (releasedAt s)) \<le> 17"
    using assms(2) by (simp add: jintOption_def numbersFit_def split: option.splits)
  have n: "intBytes RECONCILIATION_RULE_VERSION = 17" "intBytes (occurredAtPrecision e) = 17"
    using assms(2)
    by (auto simp: RECONCILIATION_RULE_VERSION_def numbersFit_def isSafeInteger_def maxSafeInteger_def intBytes_def)
  have "jsonBytes (candidateEvidence (candidateInput e ord s)) \<le> 8192"
    using t r n assms(2) amount_safe [of "entryAmountCents e"]
    by (simp add: candidateEvidence_def candidateInput_def numbersFit_def document_sizes)
  then show ?thesis by (simp add: jsonFits_def stringify_byteLength)
qed

lemma autoOperation_fits:
  assumes "plainWithin 36 (ledgerEntryId e)" "plainWithin 36 (candidateOrderId c)" "plainWithin 36 (candidateId c)"
    "plainWithin 36 mid"
  shows "jsonFits 8192 (financialOperationEvidence (autoOperationInput e c mid))"
proof -
  have "jsonBytes (financialOperationEvidence (autoOperationInput e c mid)) \<le> 8192"
    using assms [THEN textBytes_within]
    by (simp add: financialOperationEvidence_def autoOperationInput_def document_sizes)
  then show ?thesis by (simp add: jsonFits_def stringify_byteLength)
qed

lemma resolution_fits:
  assumes "plainWithin 36 mid" "plainWithin 64 resolution"
  shows "jsonFits 8192 (resolutionJson resolution mid)"
proof -
  have "jsonBytes (resolutionJson resolution mid) \<le> 8192"
    using assms [THEN textBytes_within] by (simp add: resolutionJson_def document_sizes)
  then show ?thesis by (simp add: jsonFits_def stringify_byteLength)
qed

lemma outboxPayload_fits:
  assumes t: "textsFit e ord s" "numbersFit e ord s" and n: "isSafeInteger (payableAmountCents ord)" "isSafeInteger received" "isSafeInteger now"
    and ids: "plainWithin 36 xid" "plainWithin 36 (financialOperationId f)" "plainWithin 36 mid" "plainWithin 36 cid"
  shows "byteLength (stringify (outboxPayload xid PAYMENT_CONFIRMED f ord CONFIRMED BasisInferred received (version ord + 1)
    [(''payment_match_id'', jtext mid), (''candidate_id'', jtext cid), (''evidence_type'', jtext ''AMOUNT_INFERRED'')] now)) \<le> 65536"
proof -
  have i: "textBytes (js (orderId ord)) \<le> 36" using t(1) by (simp add: textsFit_def textBytes_within)
  have m: "textBytes (merchantOrderNo ord) \<le> 6000" "textBytes (productName ord) \<le> 6000"
    using t(1) textBytes_any [of "merchantOrderNo ord"] textBytes_any [of "productName ord"]
    by (simp_all add: textsFit_def)
  have w: "jsonBytes (jtextOption (orderNote ord)) \<le> 6010"
    using t(1) textBytes_any [of "the (orderNote ord)"] by (auto simp: jtextOption_def textsFit_def split: option.splits)
  have r: "textBytes (js (refundStatusText (refundStatus ord))) \<le> 7"
    by (cases "refundStatus ord") (simp_all add: document_sizes)
  have "jsonBytes (outboxPayload xid PAYMENT_CONFIRMED f ord CONFIRMED BasisInferred received (version ord + 1)
    [(''payment_match_id'', jtext mid), (''candidate_id'', jtext cid), (''evidence_type'', jtext ''AMOUNT_INFERRED'')] now) \<le> 65536"
    using i m w r ids [THEN textBytes_within] n t(2)
    by (simp add: outboxPayload_def numbersFit_def jobject_def textBytes_plain plainText_def plainChar_def)
  then show ?thesis by (rule stringify_byteLength)
qed

subsection \<open>The statements go through\<close>

definition autoOperation :: "recon_env \<Rightarrow> string \<Rightarrow> string \<Rightarrow> operation_fingerprint_input \<Rightarrow> int \<Rightarrow> financial_operation" where
  "autoOperation env fid key i now =
     \<lparr>financialOperationId = fid, operationKey = key,
      operationFingerprint = financialOperationFingerprint (reconSha env) i,
      operationRequest = financialOperationEvidence i, operationType = inOperationType i,
      operationActorType = inActorType i, operationActorId = inActorId i,
      operationOrderId = inOperationOrderId i, operationEntryId = inOperationEntryId i,
      reversesOperationId = inReversesOperationId i, operationReason = inReason i,
      operationCreatedAt = now\<rparr>"

lemma autoOperation_simps [simp]:
  "financialOperationId (autoOperation env fid key i now) = fid"
  "operationType (autoOperation env fid key i now) = inOperationType i"
  "operationOrderId (autoOperation env fid key i now) = inOperationOrderId i"
  "operationEntryId (autoOperation env fid key i now) = inOperationEntryId i"
  "operationCreatedAt (autoOperation env fid key i now) = now"
  by (simp_all add: autoOperation_def)

definition recordedOperation :: "financial_operation \<Rightarrow> recon_db \<Rightarrow> recon_db" where
  "recordedOperation f db =
     db\<lparr>financialOperations := financialOperations db @ [f],
        financialAudits := financialAudits db @ [operationAudit f db]\<rparr>"

lemma find_new_last: "list_all (\<lambda>x. \<not> p x) xs \<Longrightarrow> p x \<Longrightarrow> List.find p (xs @ [x]) = Some x"
  by (induction xs) simp_all

lemma sha_json: "readyEnv env \<Longrightarrow> isSha256Text (sha256Json (reconSha env) v)"
  by (simp add: sha256Json_def readyEnvD(1))

lemma insertFinancialOperation_auto:
  assumes env: "readyEnv env" and now: "isSafeInteger now" "0 \<le> now"
    and fid: "fid = freshId env u n" "list_all (\<lambda>f. financialOperationId f \<noteq> fid) (financialOperations db)"
    and key: "list_all (\<lambda>f. operationKey f \<noteq> key) (financialOperations db)" "1 \<le> length key" "length key \<le> 128"
    and rows: "ord \<in> set (orders db)" "orderId ord = candidateOrderId c" "e \<in> set (ledgerEntries db)"
    and texts: "jsonFits 8192 (financialOperationEvidence (autoOperationInput e c mid))"
  shows "insertFinancialOperation env fid key (autoOperationInput e c mid) now db =
    (let f = autoOperation env fid key (autoOperationInput e c mid) now in Inr (f, recordedOperation f db))"
proof -
  let ?f = "autoOperation env fid key (autoOperationInput e c mid) now"
  have checks: "operationChecks ?f"
    using assms sha_json [OF env]
    by (simp add: operationChecks_def autoOperation_def autoOperationInput_def readyEnvD(2)
        financialOperationFingerprint_def)
  have found: "orderWithId db (candidateOrderId c) \<noteq> None" "entryWithId db (ledgerEntryId e) \<noteq> None"
    using rows by (auto simp: orderWithId_def entryWithId_def find_None_iff_all)
  have allowed: "operationInsertAllowed ?f db"
    using checks found fid(2) key(1)
    by (auto simp: operationInsertAllowed_def autoOperation_def autoOperationInput_def list_all_iff list_ex_iff)
  have last: "List.find (\<lambda>g. financialOperationId g = fid) (financialOperations db @ [?f]) = Some ?f"
    using fid(2) by (intro find_new_last) (simp_all add: autoOperation_def list_all_iff)
  have r: "inActorId (autoOperationInput e c mid) = None" by (simp add: autoOperationInput_def)
  have m: "mapOperation ?f = Inr ?f" using now by (simp add: mapOperation_def autoOperation_def)
  show ?thesis
    unfolding insertFinancialOperation_def autoOperation_def [symmetric] Let_def
    using allowed last m by (simp add: r readOperation_def mapFound_def recordedOperation_def)
qed

text \<open>A guarded update of the one row with a key: its guard holds, it changes one row, and it is the update by key.\<close>

lemma guarded_update:
  assumes d: "distinct (map key rows)" and r: "r \<in> set rows" "p r" "q r" and key: "\<And>x. p x \<Longrightarrow> key x = key r"
  shows "list_all (\<lambda>x. p x \<longrightarrow> q x) rows" "changes p rows = 1"
    "updateRows p f rows = updateRows (\<lambda>x. key x = key r) f rows"
proof -
  have same: "x = r" if "x \<in> set rows" "key x = key r" for x
    using that r(1) d by (auto simp: distinct_map inj_on_def)
  show "list_all (\<lambda>x. p x \<longrightarrow> q x) rows" using same key r(3) by (auto simp: list_all_iff)
  show "changes p rows = 1" using d r(1,2) key by (intro changes_Suc_0_iff_distinct [where key = key and r = r])
  show "updateRows p f rows = updateRows (\<lambda>x. key x = key r) f rows"
    using same key r(2) by (intro updateRows_cong) metis
qed

lemma assert_changed_once: "assertChangedOnce (Suc 0) action = Inr ()"
  by (simp add: assertChangedOnce_def)

lemma decideCandidate_goes:
  assumes d: "distinct (map candidateId (matchCandidates db))"
    and c: "c \<in> set (matchCandidates db)" "candidateStatus c = ELIGIBLE" "candidateCreatedAt c \<le> now" "candidateUpdatedAt c \<le> now"
    and f: "f \<in> set (financialOperations db)" "operationType f = AUTO_SETTLEMENT"
      "operationOrderId f = Some (candidateOrderId c)" "operationEntryId f = Some (candidateEntryId c)"
    and unused: "\<And>x. x \<in> set (matchCandidates db) \<Longrightarrow> decidedByOperationId x \<noteq> Some (financialOperationId f)"
  shows "decideCandidate SELECTED (candidateId c) (financialOperationId f) now label db =
    Inr (db\<lparr>matchCandidates := updateRows (\<lambda>x. candidateId x = candidateId c)
      (decide SELECTED (financialOperationId f) now) (matchCandidates db)\<rparr>)"
proof -
  have ok: "candidateDecisionAllowed SELECTED (financialOperationId f) now c db"
    unfolding candidateDecisionAllowed_def list_ex_iff using c f unused by auto
  note u = guarded_update [OF d c(1), of "\<lambda>x. candidateId x = candidateId c \<and> candidateStatus x = ELIGIBLE"
      "\<lambda>x. candidateDecisionAllowed SELECTED (financialOperationId f) now x db"]
  show ?thesis
    unfolding decideCandidate_def Let_def using u c(2) ok by (simp add: assert_changed_once)
qed

lemma setLedgerState_goes:
  assumes d: "distinct (map ledgerEntryId (ledgerEntries db))" and e: "e \<in> set (ledgerEntries db)"
    and st: "entryState e \<noteq> state" "ledgerTransitionAllowed (entryState e) state" "entryUpdatedAt e \<le> now"
  shows "setLedgerState e state now db = Inr (db\<lparr>ledgerEntries := movedEntries e state now (ledgerEntries db)\<rparr>)"
proof -
  note u = guarded_update [OF d e, of "\<lambda>x. ledgerEntryId x = ledgerEntryId e \<and> entryState x = entryState e"
      "\<lambda>x. ledgerTransitionAllowed (entryState x) state \<and> entryUpdatedAt x \<le> now"]
  show ?thesis
    unfolding setLedgerState_def Let_def using u st by (simp add: assert_changed_once movedEntries_def)
qed

lemma updateOrderPayment_goes:
  assumes d: "distinct (map orderId (orders db))" and ord: "ord \<in> set (orders db)"
    and ok: "paymentUpdateAllowed ord (payOrder status basis received now ord)" "isSafeInteger (version ord)"
  shows "updateOrderPayment ord status basis received now db =
    Inr (version ord + 1, db\<lparr>orderSide := (orderSide db)\<lparr>paymentOrders :=
      updateRows (\<lambda>r. orderId r = orderId ord) (payOrder status basis received now) (orders db)\<rparr>\<rparr>)"
proof -
  note u = guarded_update [OF d ord,
      of "\<lambda>r. orderId r = orderId ord \<and> version r = version ord \<and> paymentStatus r = paymentStatus ord"
      "\<lambda>r. paymentUpdateAllowed r (payOrder status basis received now r)"]
  show ?thesis
    unfolding updateOrderPayment_def Let_def using u ok by (simp add: assert_changed_once)
qed

lemma postAccountingTransaction_goes:
  assumes env: "readyEnv env" and now: "0 \<le> now"
    and f: "f \<in> set (financialOperations db)" "operationType f = AUTO_SETTLEMENT" "operationOrderId f = Some oid"
      "operationEntryId f = Some (ledgerEntryId e)"
    and t: "list_all (\<lambda>t. transactionId t \<noteq> freshId env ForTransaction (length (ledgerTransactions db)) \<and>
        transactionOperationId t \<noteq> financialOperationId f) (ledgerTransactions db)"
    and p: "list_all (\<lambda>p. postingTransactionId p \<noteq> freshId env ForTransaction (length (ledgerTransactions db)) \<and>
        postingId p \<noteq> freshId env ForPosting (length (ledgerPostings db)) \<and>
        postingId p \<noteq> freshId env ForPosting (Suc (length (ledgerPostings db)))) (ledgerPostings db)"
    and e: "e \<in> set (ledgerEntries db)" "entryDirection e = CREDIT" "1 \<le> entryAmountCents e" "entryAmountCents e \<le> 9999999999"
  obtains ts ps where "postAccountingTransaction env f oid (ledgerEntryId e) SettlementTransaction (entryAmountCents e) PROVIDER_CASH
     ORDER_SETTLEMENT now db = Inr (db\<lparr>ledgerTransactions := ts, ledgerPostings := ps\<rparr>)"
proof -
  let ?n = "length (ledgerPostings db)" and ?tid = "freshId env ForTransaction (length (ledgerTransactions db))"
  let ?t = "\<lparr>transactionId = ?tid, transactionOperationId = financialOperationId f, transactionOrderId = Some oid,
      transactionEntryId = Some (ledgerEntryId e), transactionType = SettlementTransaction, transactionPosted = False,
      transactionCreatedAt = now, postedAt = None\<rparr>"
  let ?p = "\<lambda>k account side. postingRow (freshId env ForPosting k) ?tid account side (entryAmountCents e) oid (ledgerEntryId e) now"
  let ?db1 = "db\<lparr>ledgerTransactions := ledgerTransactions db @ [?t]\<rparr>"
  let ?db2 = "?db1\<lparr>ledgerPostings := ledgerPostings db @ [?p ?n PROVIDER_CASH DebitSide]\<rparr>"
  let ?db3 = "?db1\<lparr>ledgerPostings := (ledgerPostings db @ [?p ?n PROVIDER_CASH DebitSide]) @ [?p (?n + 1) ORDER_SETTLEMENT CreditSide]\<rparr>"
  have "draftAllowed ?t db"
    using f t now readyEnvD(2) [OF env] by (auto simp: draftAllowed_def list_ex_iff list_all_iff)
  then have 1: "insertDraft ?t db = Inr ?db1" by (simp add: insertDraft_def)
  have 2: "insertPosting (?p ?n PROVIDER_CASH DebitSide) ?db1 = Inr ?db2"
    using e now p readyEnvD(2) [OF env]
    by (auto simp: insertPosting_def postingAllowed_def postingRow_def list_ex_iff list_all_iff)
  have 3: "insertPosting (?p (?n + 1) ORDER_SETTLEMENT CreditSide) ?db2 = Inr ?db3"
    using e now p readyEnvD(2,4) [OF env]
    by (auto simp: insertPosting_def postingAllowed_def postingRow_def list_ex_iff list_all_iff)
  have none: "filter (\<lambda>p. postingTransactionId p = ?tid) (ledgerPostings db) = []"
    using p by (auto simp: filter_empty_conv list_all_iff)
  have "postingsOf ?db3 ?tid = [?p ?n PROVIDER_CASH DebitSide, ?p (?n + 1) ORDER_SETTLEMENT CreditSide]"
    using none by (simp add: postingsOf_def postingRow_def)
  then have ok: "postAllowed ?t now ?db3"
    using e by (auto simp: postAllowed_def sideTotal_def hasPosting_def postingRow_def list_ex_iff)
  have "\<not> list_ex (\<lambda>t. transactionId t = ?tid) (ledgerTransactions db)" using t by (auto simp: list_ex_iff list_all_iff)
  then obtain ts where 4: "postTransaction ?tid now ?db3 = Inr (?db3\<lparr>ledgerTransactions := ts\<rparr>)"
    using ok by (auto simp: postTransaction_def list_all_iff list_ex_iff changes_def filter_empty_conv assertChangedOnce_def)
  show thesis
    by (rule that [of "ledgerPostings ?db3" ts]) (use 1 2 3 4 in \<open>simp add: postAccountingTransaction_def Let_def\<close>)
qed

lemma insertPaymentEvent_goes:
  assumes "readyEnv env" and d: "distinct (map orderId (paymentOrders (orderSide db)))"
    and ord: "r \<in> set (paymentOrders (orderSide db))" "orderId r = oid" "version r = v" "updatedAt r = now" "paymentStatus r = CONFIRMED"
    and none: "list_all (\<lambda>x. eventId x \<noteq> freshId env ForOrderEvent (length (orderEvents (orderSide db))) \<and>
      (eventOrderId x = oid \<longrightarrow> eventSequence x < v)) (orderEvents (orderSide db))"
  obtains ev where "insertPaymentEvent env oid v PAYMENT_CONFIRMED now details db =
    Inr (db\<lparr>orderSide := (orderSide db)\<lparr>orderEvents := orderEvents (orderSide db) @ [ev]\<rparr>\<rparr>)"
proof -
  let ?e = "\<lparr>eventId = freshId env ForOrderEvent (length (orderEvents (orderSide db))), eventOrderId = oid,
               eventSequence = v, eventType = PAYMENT_CONFIRMED, occurredAt = now, eventDetails = details\<rparr>"
  have "orderEventAllowed ?e (orderSide db)"
    using ord none by (fastforce simp: orderEventAllowed_def list_ex_iff list_all_iff)
  moreover have "\<not> list_ex (\<lambda>x. eventId x = eventId ?e) (orderEvents (orderSide db))"
    using none by (auto simp: list_ex_iff list_all_iff)
  ultimately have "insertPaymentEvent env oid v PAYMENT_CONFIRMED now details db =
    Inr (db\<lparr>orderSide := (orderSide db)\<lparr>orderEvents := orderEvents (orderSide db) @ [?e]\<rparr>\<rparr>)"
    using readyEnvD(2) [OF assms(1)] by (simp add: insertPaymentEvent_def Let_def)
  then show thesis by (rule that)
qed

lemma resolveWhere_goes:
  assumes "\<And>x. x \<in> set (financialExceptions db) \<Longrightarrow> p x \<Longrightarrow> exceptionResolutionAllowed operation resolution match now x db"
  shows "resolveWhere env p operation resolution match now db = Inr (db\<lparr>financialExceptions :=
    updateRows p (resolveException env operation (resolutionJson resolution match) now) (financialExceptions db)\<rparr>)"
proof -
  have "list_all (\<lambda>x. p x \<longrightarrow> exceptionResolutionAllowed operation resolution match now x db) (financialExceptions db)"
    using assms by (auto simp: list_all_iff)
  then show ?thesis by (simp add: resolveWhere_def)
qed

lemma resolveEntryExceptions_goes:
  assumes mid: "plainWithin 36 mid"
    and f: "f \<in> set (financialOperations db)" "operationType f = AUTO_SETTLEMENT" "operationOrderId f = Some oid"
      "operationEntryId f = Some eid" "operationCreatedAt f = now"
    and m: "m \<in> set (matches db)" "paymentMatchId m = mid" "pmEntryId m = eid" "pmOrderId m = oid"
      "createdByOperationId m = financialOperationId f"
    and x: "list_all (\<lambda>x. exceptionEntryId x = Some eid \<longrightarrow> exceptionCreatedAt x \<le> now) (financialExceptions db)"
  obtains xs where "resolveEntryExceptions env eid f ''auto_settled'' mid now db = Inr (db\<lparr>financialExceptions := xs\<rparr>)"
proof -
  have fits: "jsonFits 8192 (resolutionJson ''auto_settled'' mid)" "jsonFits 8192 (resolutionJson ''superseded_by_settlement'' mid)"
    using mid by (auto intro!: resolution_fits simp: plainWithin_def plainText_def plainChar_def)
  let ?p = "\<lambda>x. exceptionEntryId x = Some eid \<and> exceptionStatus x = OpenException \<and>
                   (exceptionOrderId x = None \<or> exceptionOrderId x = operationOrderId f)"
  let ?q = "\<lambda>x. exceptionEntryId x = Some eid \<and> exceptionStatus x = OpenException \<and>
                   exceptionOrderId x \<noteq> None \<and> exceptionOrderId x \<noteq> Some oid"
  let ?xs = "updateRows ?p (resolveException env (financialOperationId f) (resolutionJson ''auto_settled'' mid) now)
    (financialExceptions db)"
  have 1: "resolveWhere env ?p (financialOperationId f) ''auto_settled'' mid now db = Inr (db\<lparr>financialExceptions := ?xs\<rparr>)"
    using f x fits(1)
    by (intro resolveWhere_goes) (fastforce simp: exceptionResolutionAllowed_def list_ex_iff list_all_iff)
  have "resolveWhere env ?q (financialOperationId f) ''superseded_by_settlement'' mid now (db\<lparr>financialExceptions := ?xs\<rparr>) =
    Inr (db\<lparr>financialExceptions := updateRows ?q (resolveException env (financialOperationId f)
      (resolutionJson ''superseded_by_settlement'' mid) now) ?xs\<rparr>)"
  proof (subst resolveWhere_goes)
    fix y
    assume y: "y \<in> set (financialExceptions (db\<lparr>financialExceptions := ?xs\<rparr>))" "?q y"
    then have "y \<in> set (financialExceptions db)" by (auto simp: set_updateRows resolveException_def)
    then have "exceptionCreatedAt y \<le> now" using x y(2) by (auto simp: list_all_iff)
    then show "exceptionResolutionAllowed (financialOperationId f) ''superseded_by_settlement'' mid now y
        (db\<lparr>financialExceptions := ?xs\<rparr>)"
      using f m fits(2) y(2) by (fastforce simp: exceptionResolutionAllowed_def list_ex_iff)
  qed simp
  then show thesis using that 1 f(2,3) by (simp add: resolveEntryExceptions_def)
qed

definition autoDetails :: "string \<Rightarrow> string \<Rightarrow> (string \<times> json) list" where
  "autoDetails mid cid =
     [(''payment_match_id'', jtext mid), (''candidate_id'', jtext cid), (''evidence_type'', jtext ''AMOUNT_INFERRED'')]"

lemma insertOutboxEvent_goes:
  assumes env: "readyEnv env" and fits: "textsFit e ord s" "numbersFit e ord s"
    and n: "isSafeInteger (payableAmountCents ord)" "isSafeInteger received" "isSafeInteger now" "0 \<le> now"
    and ids: "plainWithin 36 (financialOperationId f)" "plainWithin 36 mid" "plainWithin 36 cid"
    and f: "f \<in> set (financialOperations db)" "operationType f = AUTO_SETTLEMENT" "operationOrderId f = Some (orderId ord)"
    and r: "r \<in> set (orders db)" "orderId r = orderId ord" "version r = version ord + 1" "updatedAt r = now"
      "paymentStatus r = CONFIRMED"
    and none: "list_all (\<lambda>x. outboxEventId x \<noteq> freshId env ForOutboxEvent (length (outbox db)) \<and>
      outboxOperationId x \<noteq> financialOperationId f \<and>
      (aggregateId x = orderId ord \<longrightarrow> aggregateVersion x \<le> version ord)) (outbox db)"
  obtains xs where "insertOutboxEvent env f ord CONFIRMED BasisInferred received (version ord + 1) PAYMENT_CONFIRMED
    (autoDetails mid cid) now db = Inr (db\<lparr>outbox := xs\<rparr>)"
proof -
  let ?id = "freshId env ForOutboxEvent (length (outbox db))"
  let ?payload = "outboxPayload ?id PAYMENT_CONFIRMED f ord CONFIRMED BasisInferred received (version ord + 1) (autoDetails mid cid) now"
  let ?x = "\<lparr>outboxEventId = ?id, outboxOperationId = financialOperationId f, aggregateId = orderId ord,
               aggregateVersion = version ord + 1, outboxEventType = PAYMENT_CONFIRMED, payloadJson = stringify ?payload,
               payloadFingerprint = outboxPayloadFingerprint (reconSha env) ?payload, outboxCreatedAt = now\<rparr>"
  have xid: "plainWithin 36 ?id" using readyEnvD(2,3) [OF env] by (simp add: plainWithin_def)
  have size: "byteLength (stringify ?payload) \<le> 65536"
    unfolding autoDetails_def by (rule outboxPayload_fits [OF fits n(1-3) xid ids])
  have event: "list_ex (\<lambda>ord'. orderId ord' = aggregateId ?x \<and> version ord' = aggregateVersion ?x \<and>
        updatedAt ord' = outboxCreatedAt ?x \<and> list_ex (\<lambda>f. financialOperationId f = outboxOperationId ?x \<and>
           operationOrderId f = Some (aggregateId ?x) \<and>
           outboxMatches (outboxEventType ?x) ord' (operationType f)) (financialOperations db)) (orders db)"
    unfolding list_ex_iff using r f by (intro bexI [of _ r] conjI bexI [of _ f]) simp_all
  have free: "\<not> list_ex (\<lambda>y. outboxEventId y = outboxEventId ?x \<or> outboxOperationId y = outboxOperationId ?x \<or>
          aggregateId y = aggregateId ?x \<and> aggregateVersion y = aggregateVersion ?x \<and>
          outboxEventType y = outboxEventType ?x) (outbox db)"
    using none by (auto simp: list_ex_iff list_all_iff)
  have "outboxInsertAllowed ?x db"
    unfolding outboxInsertAllowed_def
    using size event free fits(2) n(4) readyEnvD(1,2) [OF env]
    by (simp add: numbersFit_def outboxPayloadFingerprint_def)
  then have "insertOutboxEvent env f ord CONFIRMED BasisInferred received (version ord + 1) PAYMENT_CONFIRMED
    (autoDetails mid cid) now db = Inr (db\<lparr>outbox := outbox db @ [?x]\<rparr>)"
    using fits(2) n by (simp add: insertOutboxEvent_def Let_def numbersFit_def)
  then show thesis by (rule that)
qed

subsection \<open>The settlement goes through\<close>

text \<open>The rows an automatic settlement meets once its operation \<open>f\<close> is recorded and its candidate \<open>c\<close> selected.\<close>

definition settlementReady ::
  "recon_env \<Rightarrow> financial_operation \<Rightarrow> payment_order \<Rightarrow> ledger_entry \<Rightarrow> match_candidate \<Rightarrow> string \<Rightarrow> int \<Rightarrow> recon_db \<Rightarrow> bool"
where
  "settlementReady env f ord e c mid now db \<longleftrightarrow>
     f \<in> set (financialOperations db) \<and> operationType f = AUTO_SETTLEMENT \<and> operationOrderId f = Some (orderId ord) \<and>
     operationEntryId f = Some (ledgerEntryId e) \<and> operationCreatedAt f = now \<and>
     plainWithin 36 (financialOperationId f) \<and>
     matchInsertAllowed (autoMatch e c mid f now) db \<and>
     list_all (\<lambda>t. transactionId t \<noteq> freshId env ForTransaction (length (ledgerTransactions db)) \<and>
        transactionOperationId t \<noteq> financialOperationId f) (ledgerTransactions db) \<and>
     list_all (\<lambda>p. postingTransactionId p \<noteq> freshId env ForTransaction (length (ledgerTransactions db)) \<and>
        postingId p \<noteq> freshId env ForPosting (length (ledgerPostings db)) \<and>
        postingId p \<noteq> freshId env ForPosting (Suc (length (ledgerPostings db)))) (ledgerPostings db) \<and>
     list_all (\<lambda>v. eventId v \<noteq> freshId env ForOrderEvent (length (orderEvents (orderSide db))) \<and>
        (eventOrderId v = orderId ord \<longrightarrow> eventSequence v < version ord + 1)) (orderEvents (orderSide db)) \<and>
     list_all (\<lambda>x. outboxEventId x \<noteq> freshId env ForOutboxEvent (length (outbox db)) \<and>
        outboxOperationId x \<noteq> financialOperationId f \<and>
        (aggregateId x = orderId ord \<longrightarrow> aggregateVersion x \<le> version ord)) (outbox db) \<and>
     list_all (\<lambda>x. exceptionEntryId x = Some (ledgerEntryId e) \<longrightarrow> exceptionCreatedAt x \<le> now) (financialExceptions db)"

lemma autoMatchSupported_ts:
  "autoMatchSupported m f e ord (db\<lparr>ledgerTransactions := ts, ledgerPostings := ps\<rparr>) = autoMatchSupported m f e ord db"
  by (cases "pmCandidateId m")
     (simp_all add: autoMatchSupported_def settledElsewhere_def hasOpenConflict_def activeCandidates_def orders_def slots_def)

lemma matchInsertAllowed_ts:
  "matchInsertAllowed m (db\<lparr>ledgerTransactions := ts, ledgerPostings := ps\<rparr>) = matchInsertAllowed m db"
  by (simp add: matchInsertAllowed_def matchKeysFree_def autoMatchSupported_ts orders_def)

lemma settleRows_goes:
  assumes env: "readyEnv env" and ready: "settlementReady env f ord e c mid now db"
    and fits: "textsFit e ord s" "numbersFit e ord s" and now: "isSafeInteger now" "0 \<le> now"
    and ids: "plainWithin 36 mid" "plainWithin 36 (candidateId c)"
    and d: "distinct (map orderId (orders db))" "distinct (map ledgerEntryId (ledgerEntries db))"
    and ord: "ord \<in> set (orders db)" "unpaidOrder ord" "updatedAt ord \<le> now" "createdAt ord \<le> now"
      "isSafeInteger (payableAmountCents ord)"
    and e: "e \<in> set (ledgerEntries db)" "entryState e \<in> {UNALLOCATED, CANDIDATE}" "entryDirection e = CREDIT"
      "entryUpdatedAt e \<le> now" and c: "candidateOrderId c = orderId ord"
  shows "\<exists>db'. settleRows env f ord e (autoMatch e c mid f now) BasisInferred details (autoDetails mid (candidateId c))
    ''auto_settled'' now db = Inr db'"
proof -
  let ?pay = "payOrder CONFIRMED BasisInferred (entryAmountCents e) now"
  note r = ready [unfolded settlementReady_def]
  have f: "f \<in> set (financialOperations db)" "operationType f = AUTO_SETTLEMENT" "operationOrderId f = Some (orderId ord)"
      "operationEntryId f = Some (ledgerEntryId e)" "operationCreatedAt f = now" "plainWithin 36 (financialOperationId f)"
    using r by simp_all
  have amount: "1 \<le> entryAmountCents e" "entryAmountCents e \<le> 9999999999" "isSafeInteger (entryAmountCents e)"
    using fits(2) amount_safe by (auto simp: numbersFit_def)
  obtain ts ps where 1: "postAccountingTransaction env f (orderId ord) (ledgerEntryId e) SettlementTransaction
      (entryAmountCents e) PROVIDER_CASH ORDER_SETTLEMENT now db = Inr (db\<lparr>ledgerTransactions := ts, ledgerPostings := ps\<rparr>)"
    by (rule postAccountingTransaction_goes [OF env now(2) f(1-4) _ _ e(1,3) amount(1,2)]) (use r in blast)+
  let ?db1 = "db\<lparr>ledgerTransactions := ts, ledgerPostings := ps\<rparr>"
  let ?m = "autoMatch e c mid f now"
  obtain es where 2: "insertMatch ?m label ?db1 = Inr (?db1\<lparr>matches := matches db @ [?m], matchEvents := es\<rparr>)" for label
    using r by (simp add: insertMatch_def matchInsertAllowed_ts)
  let ?db2 = "?db1\<lparr>matches := matches db @ [?m], matchEvents := es\<rparr>"
  let ?db3 = "?db2\<lparr>ledgerEntries := movedEntries e ALLOCATED now (ledgerEntries db)\<rparr>"
  have 3: "setLedgerState e ALLOCATED now ?db2 = Inr ?db3"
    using setLedgerState_goes [of ?db2 e ALLOCATED now] d(2) e by auto
  let ?db4 = "?db3\<lparr>orderSide := (orderSide db)\<lparr>paymentOrders := updateRows (\<lambda>r. orderId r = orderId ord) ?pay (orders db)\<rparr>\<rparr>"
  have ok: "paymentUpdateAllowed ord (?pay ord)"
    using ord amount by (simp add: paymentUpdateAllowed_def paymentTransitionAllowed_def payOrder_def unpaidOrder_def)
  have v: "isSafeInteger (version ord)" using fits(2) by (auto simp: numbersFit_def isSafeInteger_def)
  have 4: "updateOrderPayment ord CONFIRMED BasisInferred (entryAmountCents e) now ?db3 = Inr (version ord + 1, ?db4)"
    using updateOrderPayment_goes [of ?db3 ord] d(1) ord(1) ok v by (simp add: orders_def)
  have paid: "?pay ord \<in> set (paymentOrders (orderSide ?db4))"
    using mem_updateRows_image [OF ord(1), of "\<lambda>r. orderId r = orderId ord" ?pay] by simp
  obtain ev where 5: "insertPaymentEvent env (orderId ord) (version ord + 1) PAYMENT_CONFIRMED now details ?db4 =
      Inr (?db4\<lparr>orderSide := (orderSide ?db4)\<lparr>orderEvents := orderEvents (orderSide ?db4) @ [ev]\<rparr>\<rparr>)"
    by (rule insertPaymentEvent_goes [OF env _ paid, of "orderId ord" "version ord + 1" now])
       (use d(1) r in \<open>simp_all add: map_updateRows orders_def\<close>)
  let ?db5 = "?db4\<lparr>orderSide := (orderSide ?db4)\<lparr>orderEvents := orderEvents (orderSide ?db4) @ [ev]\<rparr>\<rparr>"
  have row: "?pay ord \<in> set (orders ?db5)" using paid by (simp add: orders_def)
  obtain xs where 6: "insertOutboxEvent env f ord CONFIRMED BasisInferred (entryAmountCents e) (version ord + 1)
      PAYMENT_CONFIRMED (autoDetails mid (candidateId c)) now ?db5 = Inr (?db5\<lparr>outbox := xs\<rparr>)"
    by (rule insertOutboxEvent_goes [OF env fits ord(5) amount(3) now f(6) ids, of ?db5 "?pay ord"])
       (use r f row in simp_all)
  obtain ys where 7: "resolveEntryExceptions env (ledgerEntryId e) f ''auto_settled'' mid now (?db5\<lparr>outbox := xs\<rparr>) =
      Inr (?db5\<lparr>outbox := xs, financialExceptions := ys\<rparr>)"
    by (rule resolveEntryExceptions_goes [OF ids(1), of f "?db5\<lparr>outbox := xs\<rparr>" "orderId ord" "ledgerEntryId e" now ?m])
       (use r f c in \<open>simp_all add: autoMatch_def\<close>)
  show ?thesis
    unfolding settleRows_def using amount(3) 1 2 3 4 5 6 7 by (simp add: autoMatch_def)
qed

text \<open>
  Books in which entry \<open>e\<close> can be settled to \<open>ord\<close> at time \<open>now\<close>: everything the transaction writes is new
  and fits, and no time of the rows it moves is ahead of the clock.
\<close>

definition settlementPossible ::
  "recon_env \<Rightarrow> ledger_entry \<Rightarrow> payment_order \<Rightarrow> amount_slot \<Rightarrow> int \<Rightarrow> recon_db \<Rightarrow> bool"
where
  "settlementPossible env e ord s now db \<longleftrightarrow>
     (let fingerprint = candidateFingerprint (reconSha env) (candidateInput e ord s)
      in readyEnv env \<and> idsUnused env db \<and> textsFit e ord s \<and> numbersFit e ord s \<and>
         list_all (\<lambda>c. candidateEntryId c \<noteq> ledgerEntryId e \<and> storedCandidateFingerprint c \<noteq> fingerprint)
           (matchCandidates db) \<and>
         list_all (\<lambda>f. operationKey f \<noteq> ''auto-settlement:'' @ fingerprint) (financialOperations db) \<and>
         list_all (\<lambda>x. aggregateId x = orderId ord \<longrightarrow> aggregateVersion x \<le> version ord) (outbox db) \<and>
         list_all (\<lambda>x. exceptionEntryId x = Some (ledgerEntryId e) \<longrightarrow> exceptionCreatedAt x \<le> now) (financialExceptions db) \<and>
         entryUpdatedAt e \<le> now)"

abbreviation freshCandidate :: "recon_env \<Rightarrow> ledger_entry \<Rightarrow> payment_order \<Rightarrow> amount_slot \<Rightarrow> int \<Rightarrow> recon_db \<Rightarrow> match_candidate" where
  "freshCandidate env e ord s now db \<equiv> newCandidate env (freshId env ForCandidate (length (matchCandidates db))) e ord s now"

lemma newCandidate_simps [simp]:
  "candidateId (newCandidate env cid e ord s now) = cid" "candidateEntryId (newCandidate env cid e ord s now) = ledgerEntryId e"
  "candidateOrderId (newCandidate env cid e ord s now) = orderId ord" "candidateSlotId (newCandidate env cid e ord s now) = slotId s"
  "candidateStatus (newCandidate env cid e ord s now) = ELIGIBLE" "candidateCreatedAt (newCandidate env cid e ord s now) = now"
  "candidateUpdatedAt (newCandidate env cid e ord s now) = now" "decidedByOperationId (newCandidate env cid e ord s now) = None"
  "storedCandidateFingerprint (newCandidate env cid e ord s now) = candidateFingerprint (reconSha env) (candidateInput e ord s)"
  "candidateEvidenceJson (newCandidate env cid e ord s now) = candidateEvidence (candidateInput e ord s)"
  "candidateRuleVersion (newCandidate env cid e ord s now) = RECONCILIATION_RULE_VERSION"
  "decidedAt (newCandidate env cid e ord s now) = None"
  by (simp_all add: newCandidate_def)

lemma rule_version_safe: "isSafeInteger RECONCILIATION_RULE_VERSION"
  by (simp add: RECONCILIATION_RULE_VERSION_def isSafeInteger_def maxSafeInteger_def)

lemma mapCandidate_new: "isSafeInteger now \<Longrightarrow> mapCandidate (newCandidate env cid e ord s now) = Inr (newCandidate env cid e ord s now)"
  using rule_version_safe by (simp add: mapCandidate_def nullableSafeInteger_def)

lemma ensureCandidates_goes:
  assumes possible: "settlementPossible env e ord s now db" and now: "isSafeInteger now" "0 \<le> now"
    and fits: "fitsOrder db e ord s" "paymentStatus ord = UNPAID" and match: "slotMatches ord s"
    and e: "e \<in> set (ledgerEntries db)" "entryState e \<in> {UNALLOCATED, CANDIDATE}" "entryDirection e = CREDIT"
  shows "ensureCandidates env e [(ord, s)] now db =
    Inr ([freshCandidate env e ord s now db], db\<lparr>matchCandidates := matchCandidates db @ [freshCandidate env e ord s now db]\<rparr>)"
proof -
  let ?c = "freshCandidate env e ord s now db"
  note p = possible [unfolded settlementPossible_def Let_def]
  have new: "readCandidateByTuple db (ledgerEntryId e) (orderId ord) (slotId s) = Inr None"
    using p by (auto simp: readCandidateByTuple_def mapFound_def find_None_iff_all list_all_iff split: option.splits
        dest!: find_SomeD)
  have safe: "safeCandidateInput e ord s = Inr (candidateInput e ord s)"
  proof -
    have "isSafeInteger (occurredAtPrecision e)" "nullableSafeInteger (releasedAt s) label = Inr (releasedAt s)" for label
      using p by (auto simp: numbersFit_def isSafeInteger_def maxSafeInteger_def nullableSafeInteger_def split: option.splits)
    then show ?thesis
      using p amount_safe [of "entryAmountCents e"]
      by (auto simp: safeCandidateInput_def numbersFit_def toTimestampPrecision_def)
  qed
  have order: "list_ex (\<lambda>e. ledgerEntryId e = candidateEntryId ?c \<and> entryDirection e = CREDIT \<and>
        entryState e \<in> {UNALLOCATED, CANDIDATE} \<and>
        list_ex (\<lambda>ord. orderId ord = candidateOrderId ?c \<and>
           profileUsesKey db (collectionProfileId ord) (entryProviderKey e) \<and>
           entryAmountCents e = payableAmountCents ord \<and> paymentStatus ord = UNPAID \<and>
           list_ex (\<lambda>s. slotId s = candidateSlotId ?c \<and> paymentInWindow e ord s \<and> slotOrderId s = orderId ord \<and>
              slotProfileId s = collectionProfileId ord \<and> slotAmountCents s = payableAmountCents ord) (slots db))
          (orders db)) (ledgerEntries db)"
    unfolding list_ex_iff using e fits match
    by (intro bexI [of _ e] conjI bexI [of _ ord] bexI [of _ s]) (simp_all add: fitsOrder_def slotMatches_def)
  have free: "\<not> list_ex (\<lambda>d. candidateId d = candidateId ?c \<or> storedCandidateFingerprint d = storedCandidateFingerprint ?c \<or>
        candidateEntryId d = candidateEntryId ?c \<and> candidateOrderId d = candidateOrderId ?c \<and>
        candidateSlotId d = candidateSlotId ?c \<and> candidateRuleVersion d = candidateRuleVersion ?c) (matchCandidates db)"
    using p by (auto simp: idsUnused_def Let_def list_all_iff list_ex_iff)
  have allowed: "candidateInsertAllowed ?c db"
    unfolding candidateInsertAllowed_def
    using order free p now candidateEvidence_fits [of e ord s] sha_json [of env] readyEnvD(2) [of env]
    by (simp add: candidateFingerprint_def RECONCILIATION_RULE_VERSION_def)
  have "List.find (\<lambda>c. candidateId c = candidateId ?c) (matchCandidates db @ [?c]) = Some ?c"
    using p by (intro find_new_last) (auto simp: idsUnused_def Let_def list_all_iff)
  then have "readCandidate (db\<lparr>matchCandidates := matchCandidates db @ [?c]\<rparr>)
      (freshId env ForCandidate (length (matchCandidates db))) = Inr (Some ?c)"
    using now by (simp add: readCandidate_def mapFound_def mapCandidate_new)
  then show ?thesis
    using new safe allowed by (simp add: ensureCandidate_def insertCandidate_def Let_def)
qed

lemma no_settled_match:
  assumes inv: "reconInv db"
  shows "e \<in> set (ledgerEntries db) \<Longrightarrow> entryState e \<noteq> ALLOCATED \<Longrightarrow> m \<in> set (matches db) \<Longrightarrow> pmStatus m = SETTLED \<Longrightarrow>
      pmEntryId m \<noteq> ledgerEntryId e"
    and "ord \<in> set (orders db) \<Longrightarrow> paymentStatus ord = UNPAID \<Longrightarrow> m \<in> set (matches db) \<Longrightarrow> pmOrderId m \<noteq> orderId ord"
proof -
  note b = booksOkD [OF reconInvD(3) [OF inv]] and d = reconInvD(4) [OF inv]
  show "e \<in> set (ledgerEntries db) \<Longrightarrow> entryState e \<noteq> ALLOCATED \<Longrightarrow> m \<in> set (matches db) \<Longrightarrow> pmStatus m = SETTLED \<Longrightarrow>
      pmEntryId m \<noteq> ledgerEntryId e"
    using b(5) [of m] by (auto simp: matchOk_def dest: entry_unique [OF b(1)])
  show "ord \<in> set (orders db) \<Longrightarrow> paymentStatus ord = UNPAID \<Longrightarrow> m \<in> set (matches db) \<Longrightarrow> pmOrderId m \<noteq> orderId ord"
    using b(5) [of m] by (auto simp: matchOk_def dest: order_row_unique [OF d])
qed

lemma autoSettleChecks_goes:
  assumes inv: "reconInv db" and open_: "\<not> hasOpenLedgerConflict db (ledgerEntryId e)"
    and ord: "ord \<in> set (orders db)" "unpaidOrder ord" "candidateOrderId c = orderId ord"
    and e: "e \<in> set (ledgerEntries db)" "entryState e \<noteq> ALLOCATED"
    and one: "readCandidateFacts db e = [(ord, s)]"
      "readCandidateByTuple db (ledgerEntryId e) (orderId ord) (slotId s) = Inr (Some c)" "candidateStatus c = ELIGIBLE"
  shows "autoSettleChecks db e c = Inr ord"
proof -
  note m = no_settled_match [OF inv]
  have "readActiveMatchForEntry db (ledgerEntryId e) = Inr None"
    using m(1) [OF e] by (auto simp: readActiveMatchForEntry_def mapFound_def find_None_iff_all split: option.splits dest!: find_SomeD)
  moreover have "readActiveMatchForOrder db (orderId ord) = Inr None"
    using m(2) [OF ord(1)] ord(2)
    by (auto simp: unpaidOrder_def readActiveMatchForOrder_def mapFound_def find_None_iff_all split: option.splits dest!: find_SomeD)
  moreover have "List.find (\<lambda>r. orderId r = orderId ord) (orders db) = Some ord"
    using order_row_unique [OF reconInvD(4) [OF inv]] ord(1) by (intro find_Some_unique) auto
  ultimately show ?thesis
    using open_ one ord by (simp add: autoSettleChecks_def eligibleReads_def requireOrderDecision_def unpaidOrder_def)
qed

text \<open>The books after the operation is recorded and the fresh candidate selected.\<close>

definition selectedBooks :: "financial_operation \<Rightarrow> match_candidate \<Rightarrow> int \<Rightarrow> recon_db \<Rightarrow> recon_db" where
  "selectedBooks f c now db =
     (recordedOperation f db)\<lparr>matchCandidates := matchCandidates db @ [decide SELECTED (financialOperationId f) now c]\<rparr>"

lemma selectedBooks_tables [simp]:
  "orders (selectedBooks f c now db) = orders db" "slots (selectedBooks f c now db) = slots db"
  "orderSide (selectedBooks f c now db) = orderSide db" "ledgerEntries (selectedBooks f c now db) = ledgerEntries db"
  "matches (selectedBooks f c now db) = matches db" "ledgerTransactions (selectedBooks f c now db) = ledgerTransactions db"
  "ledgerPostings (selectedBooks f c now db) = ledgerPostings db" "outbox (selectedBooks f c now db) = outbox db"
  "financialExceptions (selectedBooks f c now db) = financialExceptions db"
  "ledgerConflicts (selectedBooks f c now db) = ledgerConflicts db"
  "financialOperations (selectedBooks f c now db) = financialOperations db @ [f]"
  "matchCandidates (selectedBooks f c now db) = matchCandidates db @ [decide SELECTED (financialOperationId f) now c]"
  by (simp_all add: selectedBooks_def recordedOperation_def orders_def slots_def)

lemma operationAudit_candidates: "operationAudit f (db\<lparr>matchCandidates := cs\<rparr>) = operationAudit f db"
  by (cases "operationOrderId f"; cases "operationEntryId f")
     (simp_all add: operationAudit_def orderWithId_def entryWithId_def orders_def)

lemma recorded_selected:
  "(recordedOperation f (db\<lparr>matchCandidates := cs\<rparr>))\<lparr>matchCandidates := matchCandidates db @ [decide SELECTED (financialOperationId f) now c]\<rparr> =
   selectedBooks f c now db"
  by (simp add: selectedBooks_def recordedOperation_def operationAudit_candidates)

lemma matchInsertAllowed_auto:
  assumes inv: "reconInv db" and possible: "settlementPossible env e ord s now db" and now: "0 \<le> now"
    and c: "c = freshCandidate env e ord s now db" and mid: "mid = freshId env ForMatch (length (matches db))"
    and f: "financialOperationId f = freshId env ForOperation (length (financialOperations db))" "operationType f = AUTO_SETTLEMENT"
      "operationOrderId f = Some (orderId ord)" "operationEntryId f = Some (ledgerEntryId e)"
    and fits: "fitsOrder db e ord s" "unpaidOrder ord"
    and e: "e \<in> set (ledgerEntries db)" "entryState e \<in> {UNALLOCATED, CANDIDATE}" "entryDirection e = CREDIT"
    and free: "\<not> hasOpenConflict db (ledgerEntryId e)" "\<not> settledElsewhere e ord db"
  shows "matchInsertAllowed (autoMatch e c mid f now) (selectedBooks f c now db)"
proof -
  let ?m = "autoMatch e c mid f now" and ?db = "selectedBooks f c now db"
  note p = possible [unfolded settlementPossible_def idsUnused_def Let_def]
  note m = no_settled_match [OF inv]
  have st: "entryState e \<noteq> ALLOCATED" using e(2) by auto
  have keys: "matchKeysFree ?m ?db"
    using p m(1) [OF e(1) st] m(2) [of ord] fits by (auto simp: matchKeysFree_def list_ex_iff list_all_iff autoMatch_def c mid f(1)
        fitsOrder_def unpaidOrder_def)
  have active: "activeCandidates ?db (pmEntryId ?m) = [decide SELECTED (financialOperationId f) now c]"
    using p by (auto simp: activeCandidates_def autoMatch_def filter_empty_conv list_all_iff decide_def c)
  have else_: "settledElsewhere e ord ?db = settledElsewhere e ord db" by (rule settledElsewhere_cong) simp
  have supported: "autoMatchSupported ?m f e ord ?db"
    using e fits free active else_ f(2)
    by (simp add: autoMatchSupported_def hasOpenConflict_def unpaidOrder_def fitsOrder_def autoMatch_def decide_def c)
  have sizes: "jsonFits 8192 (pmEvidence ?m)" "length (paymentMatchId ?m) = 36"
    using p candidateEvidence_fits [of e ord s] readyEnvD(2) [of env] by (simp_all add: autoMatch_def c mid)
  have "list_ex (\<lambda>f. financialOperationId f = createdByOperationId ?m \<and>
        operationOrderId f = Some (pmOrderId ?m) \<and> operationEntryId f = Some (pmEntryId ?m) \<and>
        list_ex (\<lambda>e. ledgerEntryId e = pmEntryId ?m \<and>
           list_ex (\<lambda>ord. orderId ord = pmOrderId ?m \<and>
              (autoMatchSupported ?m f e ord ?db \<or> manualMatchSupported ?m f e)) (orders ?db))
          (ledgerEntries ?db)) (financialOperations ?db)"
    unfolding list_ex_iff using e(1) fits(1) f(3,4) supported
    by (intro bexI [of _ f] conjI bexI [of _ e] bexI [of _ ord]) (simp_all add: autoMatch_def c fitsOrder_def)
  then show ?thesis
    unfolding matchInsertAllowed_def using keys sizes now by (simp add: autoMatch_def)
qed

lemma recordAutoSettlement_goes:
  fixes db0 :: recon_db and env e ord s now
  defines "c \<equiv> freshCandidate env e ord s now db0"
  defines "db \<equiv> db0\<lparr>matchCandidates := matchCandidates db0 @ [c]\<rparr>"
  assumes inv: "reconInv db0" and possible: "settlementPossible env e ord s now db0" and now: "isSafeInteger now" "0 \<le> now"
    and clock: "now = orderClock (orderSide db0)" and fits: "fitsOrder db0 e ord s" "unpaidOrder ord"
    and e: "e \<in> set (ledgerEntries db0)" "entryState e \<in> {UNALLOCATED, CANDIDATE}" "entryDirection e = CREDIT"
    and free: "\<not> hasOpenConflict db0 (ledgerEntryId e)" "\<not> settledElsewhere e ord db0"
  shows "\<exists>mid db'. recordAutoSettlement env e c ord now db = Inr (ResultAutoSettled (ledgerEntryId e) (candidateId c) mid (orderId ord), db')"
proof -
  let ?fid = "freshId env ForOperation (length (financialOperations db))" and ?mid = "freshId env ForMatch (length (matches db))"
    and ?key = "''auto-settlement:'' @ storedCandidateFingerprint c"
  let ?f = "autoOperation env ?fid ?key (autoOperationInput e c ?mid) now"
  let ?db1 = "recordedOperation ?f db"
  note p = possible [unfolded settlementPossible_def Let_def] and unused = possible [unfolded settlementPossible_def idsUnused_def Let_def]
  have env: "readyEnv env" and texts: "textsFit e ord s" "numbersFit e ord s" using p by simp_all
  have c: "candidateOrderId c = orderId ord" "candidateEntryId c = ledgerEntryId e" "candidateStatus c = ELIGIBLE"
      "candidateCreatedAt c = now" "candidateUpdatedAt c = now" by (simp_all add: c_def)
  have sizes: "jsonFits 8192 (financialOperationEvidence (autoOperationInput e c ?mid))"
    using texts(1) env by (intro autoOperation_fits) (auto simp: c_def textsFit_def plainWithin_def readyEnvD)
  have sha: "length (storedCandidateFingerprint c) = 64"
    using sha_json [OF env] by (simp add: c_def candidateFingerprint_def isSha256Text_def)
  have ord_facts: "updatedAt ord \<le> now" "createdAt ord \<le> now" "isSafeInteger (payableAmountCents ord)"
    using rowsInvD(4,5) [OF orderInv_rows [OF reconInvD(1) [OF inv]], of ord] fits(1) clock texts(2)
    by (auto simp: orderRowOk_def timesWithin_def fitsOrder_def orders_def numbersFit_def intro!: amount_safe)
  have 1: "insertFinancialOperation env ?fid ?key (autoOperationInput e c ?mid) now db = Inr (?f, ?db1)"
    by (subst insertFinancialOperation_auto [OF env now refl _ _ _ _ _ _ _ sizes, where ord = ord])
       (use p unused fits(1) e(1) sha c in \<open>simp_all add: db_def orders_def fitsOrder_def c_def Let_def list_all_iff\<close>)
  have fresh: "list_all (\<lambda>x. candidateId x \<noteq> candidateId c) (matchCandidates db0)"
    using unused by (auto simp: c_def list_all_iff)
  have ids: "distinct (map candidateId (matchCandidates ?db1))"
    using reconInvD(5) [OF inv] fresh
    by (auto simp: linksOk_def candidateKeys_def recordedOperation_def db_def list_all_iff o_def)
  have rows: "updateRows (\<lambda>x. candidateId x = candidateId c) g (matchCandidates ?db1) = matchCandidates db0 @ [g c]" for g
    using fresh by (auto simp: updateRows_def recordedOperation_def db_def list_all_iff intro!: map_idI)
  have f: "financialOperationId ?f = ?fid" "operationType ?f = AUTO_SETTLEMENT" "operationOrderId ?f = Some (orderId ord)"
      "operationEntryId ?f = Some (ledgerEntryId e)" "operationCreatedAt ?f = now"
    by (simp_all add: autoOperation_def autoOperationInput_def c)
  let ?db2 = "selectedBooks ?f c now db0"
  have "decideCandidate SELECTED (candidateId c) ?fid now label ?db1 = Inr (?db1\<lparr>matchCandidates := matchCandidates db0 @
      [decide SELECTED ?fid now c]\<rparr>)" for label
  proof -
    have "c \<in> set (matchCandidates ?db1)" "?f \<in> set (financialOperations ?db1)"
      by (simp_all add: recordedOperation_def db_def)
    moreover have "decidedByOperationId x \<noteq> Some ?fid" if "x \<in> set (matchCandidates ?db1)" for x
      using that unused by (auto simp: recordedOperation_def db_def list_all_iff c_def)
    ultimately show ?thesis
      using decideCandidate_goes [OF ids, of c now ?f label] rows [of "decide SELECTED ?fid now"] f c by simp
  qed
  moreover have "?db1\<lparr>matchCandidates := matchCandidates db0 @ [decide SELECTED ?fid now c]\<rparr> = ?db2"
    using recorded_selected [where f = ?f and db = db0 and cs = "matchCandidates db0 @ [c]" and now = now and c = c] f(1) by (simp add: db_def)
  ultimately have 2: "decideCandidate SELECTED (candidateId c) ?fid now label ?db1 = Inr ?db2" for label by simp
  have events: "eventSequence v < version ord + 1" if v: "v \<in> set (orderEvents (orderSide db0))" "eventOrderId v = orderId ord" for v
  proof -
    obtain r where "r \<in> set (orders db0)" "orderId r = orderId ord" "eventSequence v \<le> version r"
      using orderInv_events [OF reconInvD(1) [OF inv]] v by (auto simp: eventsOk_def orders_def)
    then show ?thesis
      using order_row_unique [OF reconInvD(4) [OF inv], of r ord] fits(1) by (simp add: fitsOrder_def)
  qed
  have ready: "settlementReady env ?f ord e c ?mid now ?db2"
    unfolding settlementReady_def
    using matchInsertAllowed_auto [OF inv possible now(2) _ _ _ f(2-4) fits(1,2) e free, of c ?mid] unused f events env
    by (auto simp: c_def db_def list_all_iff plainWithin_def readyEnvD)
  have "plainWithin 36 ?mid" "plainWithin 36 (candidateId c)" using env by (simp_all add: plainWithin_def readyEnvD c_def)
  then obtain db' where 3: "settleRows env ?f ord e (autoMatch e c ?mid ?f now) BasisInferred
      (DecisionDetails ?fid ?mid (Some (candidateId c)) (Some ''AMOUNT_INFERRED'')) (autoDetails ?mid (candidateId c))
      ''auto_settled'' now ?db2 = Inr db'"
    using settleRows_goes [OF env ready texts now, of _] ord_facts fits(1,2) e c p booksOkD(1) [OF reconInvD(3) [OF inv]]
      reconInvD(4) [OF inv]
    by (auto simp: fitsOrder_def)
  show ?thesis
    unfolding recordAutoSettlement_def Let_def using 1 2 3 c by (simp add: autoDetails_def f)
qed

subsection \<open>A unique match is settled\<close>

lemma readCandidateFacts_added [simp]:
  "readCandidateFacts (db\<lparr>matchCandidates := cs\<rparr>) e = readCandidateFacts db e"
  by (simp add: readCandidateFacts_def factsAmong_def profileUsesKey_def orders_def slots_def)

lemma matchEntry_settles:
  assumes inv: "reconInv db" and clock: "now = orderClock (orderSide db)" and now: "isSafeInteger now" "0 \<le> now"
    and possible: "settlementPossible env e ord s now db"
    and one: "readCandidateFacts db e = [(ord, s)]" "overlappingOrders db e = []"
    and e: "e \<in> set (ledgerEntries db)" "entryState e \<in> {UNALLOCATED, CANDIDATE}" "entryDirection e = CREDIT"
    and free: "\<not> hasOpenLedgerConflict db (ledgerEntryId e)" "\<not> settledElsewhere e ord db"
  shows "\<exists>cid mid db'. matchEntry env e now db = Inr (ResultAutoSettled (ledgerEntryId e) cid mid (orderId ord), db')"
proof -
  let ?c = "freshCandidate env e ord s now db"
  let ?db = "db\<lparr>matchCandidates := matchCandidates db @ [?c]\<rparr>"
  note p = possible [unfolded settlementPossible_def idsUnused_def Let_def]
  have fits: "fitsOrder db e ord s" "paymentStatus ord = UNPAID"
    using one(1) readCandidateFacts_mem [of ord s db e] by simp_all
  have ord: "ord \<in> set (orders db)" using fits(1) by (simp add: fitsOrder_def)
  have unpaid: "unpaidOrder ord"
    using booksOkD(6) [OF reconInvD(3) [OF inv] ord] no_settled_match(2) [OF inv ord fits(2)] by blast
  have match: "slotMatches ord s"
    using slot_matches_by_id [OF reconInvD(2) [OF inv]] fits(1) by (simp add: fitsOrder_def orders_def slots_def)
  have ensured: "ensureCandidates env e [(ord, s)] now db = Inr ([?c], ?db)"
    by (rule ensureCandidates_goes [OF possible now fits match e])
  have "filter (\<lambda>c. candidateEntryId c = ledgerEntryId e \<and> candidateStatus c = ELIGIBLE) (matchCandidates db) = []"
    using p by (auto simp: filter_empty_conv list_all_iff)
  then have kept: "supersedeStaleEligibleCandidates env e [candidateId ?c] now ?db = Inr ?db"
    using now(1) by (simp add: supersedeStaleEligibleCandidates_def mapCandidate_new)
  have inv': "reconInv ?db"
    using ensureCandidates_books [OF ensured] inv by (rule sameBooks_inv)
  have "List.find (\<lambda>c. candidateEntryId c = ledgerEntryId e \<and> candidateOrderId c = orderId ord \<and> candidateSlotId c = slotId s \<and>
      candidateRuleVersion c = RECONCILIATION_RULE_VERSION) (matchCandidates db @ [?c]) = Some ?c"
    using p by (intro find_new_last) (auto simp: list_all_iff)
  then have tuple: "readCandidateByTuple ?db (ledgerEntryId e) (orderId ord) (slotId s) = Inr (Some ?c)"
    using now(1) by (simp add: readCandidateByTuple_def mapFound_def mapCandidate_new)
  have st: "entryState e \<noteq> ALLOCATED" using e(2) by auto
  have checks: "autoSettleChecks ?db e ?c = Inr ord"
    by (rule autoSettleChecks_goes [OF inv' _ _ unpaid _ _ st, where s = s])
       (use free ord e(1) one(1) tuple in \<open>simp_all add: hasOpenLedgerConflict_def orders_def\<close>)
  have key: "readOperationByKey ?db (''auto-settlement:'' @ storedCandidateFingerprint ?c) = Inr None"
    using p by (auto simp: readOperationByKey_def mapFound_def list_all_iff split: option.splits dest!: find_SomeD)
  have conflict: "\<not> hasOpenConflict db (ledgerEntryId e)"
    using free(1) by (simp add: hasOpenConflict_def hasOpenLedgerConflict_def)
  obtain mid db' where "recordAutoSettlement env e ?c ord now ?db =
      Inr (ResultAutoSettled (ledgerEntryId e) (candidateId ?c) mid (orderId ord), db')"
    using recordAutoSettlement_goes [OF inv possible now clock fits(1) unpaid e conflict free(2)] by blast
  then have "autoSettleCandidate env e ?c now ?db = Inr (ResultAutoSettled (ledgerEntryId e) (candidateId ?c) mid (orderId ord), db')"
    using checks key by (simp add: autoSettleCandidate_def)
  then show ?thesis
    using ensured kept one by (auto simp: matchEntry_def entryOutcome_def readSettledOrderOverlap_def Let_def)
qed

lemma settlementPossible_clock [simp]:
  "settlementPossible env e ord s now (db\<lparr>orderSide := (orderSide db)\<lparr>orderClock := t\<rparr>\<rparr>) = settlementPossible env e ord s now db"
  by (simp add: settlementPossible_def idsUnused_def)

lemma readCandidateFacts_clock [simp]:
  "readCandidateFacts (db\<lparr>orderSide := (orderSide db)\<lparr>orderClock := t\<rparr>\<rparr>) e = readCandidateFacts db e"
  "overlappingOrders (db\<lparr>orderSide := (orderSide db)\<lparr>orderClock := t\<rparr>\<rparr>) e = overlappingOrders db e"
  by (simp_all add: readCandidateFacts_def factsAmong_def overlappingOrders_def profileUsesKey_def orders_def slots_def)

text \<open>The way of an entry that nothing pays yet to its matching.\<close>

lemma reconcileEntry_matches:
  assumes inv: "reconInv db" and eid: "isUuidV4 eid" "readLedgerEntry db eid = Some e" "\<not> isSandboxEntry db e"
    and now: "financialNow env db = Inr (now, db1)" and e: "entryState e \<in> {UNALLOCATED, CANDIDATE}" "entryDirection e = CREDIT"
    and free: "\<not> hasOpenLedgerConflict db eid"
  shows "reconcileEntry env eid db = matchEntry env e now db1"
proof -
  note clock = financialNow_clock(1) [OF now]
  have row: "e \<in> set (ledgerEntries db)" "ledgerEntryId e = eid" using eid(2) by (auto simp: readLedgerEntry_def dest: find_SomeD)
  have "readActiveMatchForEntry db1 eid = Inr None"
    using no_settled_match(1) [OF inv row(1)] row(2) e(1)
    by (auto simp: clock readActiveMatchForEntry_def mapFound_def split: option.splits dest!: find_SomeD)
  then show ?thesis
    using eid now e free clock by (auto simp: reconcileEntry_def requireIdentifier_def hasOpenLedgerConflict_def)
qed

lemma unique_match_settles:
  assumes inv: "reconInv db" and eid: "isUuidV4 eid" "readLedgerEntry db eid = Some e" "\<not> isSandboxEntry db e"
    and now: "financialNow env db = Inr (now, db1)"
    and possible: "settlementPossible env e ord s now db"
    and one: "readCandidateFacts db e = [(ord, s)]" "overlappingOrders db e = []"
    and e: "entryState e \<in> {UNALLOCATED, CANDIDATE}" "entryDirection e = CREDIT"
    and free: "\<not> hasOpenLedgerConflict db eid" "\<not> settledElsewhere e ord db"
  shows "\<exists>cid mid db'. reconcileEntry env eid db = Inr (ResultAutoSettled eid cid mid (orderId ord), db')"
proof -
  note clock = financialNow_clock(1) [OF now] and k = clock_step [OF inv now]
  have row: "e \<in> set (ledgerEntries db)" "ledgerEntryId e = eid" using eid(2) by (auto simp: readLedgerEntry_def dest: find_SomeD)
  have safe: "isSafeInteger now" "0 \<le> now" using now by (auto simp: financialNow_def Let_def result_simps)
  have "\<exists>cid mid db'. matchEntry env e now db1 = Inr (ResultAutoSettled (ledgerEntryId e) cid mid (orderId ord), db')"
    by (rule matchEntry_settles [OF k(2) k(3) [symmetric] safe, where s = s])
       (use clock possible one e free row in \<open>simp_all add: hasOpenLedgerConflict_def\<close>)
  then show ?thesis using reconcileEntry_matches [OF inv eid now e free(1)] row(2) by simp
qed

end
