(* ===== verification/ReconTheorems.thy ===== *)
theory ReconTheorems
  imports ReconLiveness
begin

text \<open>
  What the reconciliation promises over any sequence of its transactions and of the order store's,
  from books in order.
\<close>

text \<open>C33: Money is conserved.  After any calls, the amounts of the allocated ledger entries add up to what the
  confirmed orders have received, and the double-entry accounts say so order by order and entry by
  entry.\<close>

theorem money_is_conserved:
  assumes "reconInv db"
  shows "let db' = fold reconStep ops db in
     receipts (\<lambda>_. True) (orders db') = allocations (\<lambda>_. True) (ledgerEntries db') \<and>
     accountBalance ORDER_SETTLEMENT (onOrders ((=) oid)) (ledgerPostings db') = - receipts ((=) oid) (orders db') \<and>
     accountBalance PROVIDER_CASH (onEntries ((=) eid)) (ledgerPostings db') =
       allocations ((=) eid) (ledgerEntries db')"
  unfolding Let_def using booksOkD(8,9,10) [OF reconInvD(3) [OF recon.run_inv [OF assms]]] by blast

theorem money_is_conserved_witness:
  "let db' = fold reconStep [ReconcileEntry sampleReconEnv (sampleUuid ''e'')] paidBooks in
     receipts (\<lambda>_. True) (orders db') = allocations (\<lambda>_. True) (ledgerEntries db') \<and>
     accountBalance ORDER_SETTLEMENT (onOrders ((=) (sampleUuid ''2''))) (ledgerPostings db') =
       - receipts ((=) (sampleUuid ''2'')) (orders db') \<and>
     accountBalance PROVIDER_CASH (onEntries ((=) (sampleUuid ''e''))) (ledgerPostings db') =
       allocations ((=) (sampleUuid ''e'')) (ledgerEntries db')"
  by (rule money_is_conserved [OF reconInv_paidBooks])

text \<open>C34: The payment status of an order, its match and the match's ledger entry always agree: an order is unpaid
  exactly when nothing matches it, confirmed exactly when one settled match pays it its full entry
  amount, disputed exactly when its match was reversed; and an entry pays at most one order.\<close>

theorem payments_agree_with_matches:
  assumes "reconInv db" "db' = fold reconStep ops db" "ord \<in> set (orders db')"
  shows "(paymentStatus ord = UNPAID \<longleftrightarrow> (\<forall>m \<in> set (matches db'). pmOrderId m \<noteq> orderId ord)) \<and>
     (paymentStatus ord = CONFIRMED \<longleftrightarrow>
        (\<exists>m \<in> set (matches db'). pmOrderId m = orderId ord \<and> pmStatus m = SETTLED \<and>
           (\<exists>e \<in> set (ledgerEntries db'). ledgerEntryId e = pmEntryId m \<and> entryState e = ALLOCATED \<and>
              entryDirection e = CREDIT \<and> receivedAmountCents ord = Some (entryAmountCents e)))) \<and>
     (paymentStatus ord = DISPUTED \<longleftrightarrow>
        (\<exists>m \<in> set (matches db'). pmOrderId m = orderId ord \<and> pmStatus m = REVERSED)) \<and>
     distinct (map pmOrderId (matches db')) \<and> distinct (settledEntries (matches db'))"
proof -
  have inv: "reconInv db'" using recon.run_inv [OF assms(1)] assms(2) by simp
  note b = booksOkD [OF reconInvD(3) [OF inv]] and d = reconInvD(4) [OF inv]
  have status: "pmStatus m = SETTLED \<and> paymentStatus ord = CONFIRMED \<or> pmStatus m = REVERSED \<and> paymentStatus ord = DISPUTED"
    if "m \<in> set (matches db')" "pmOrderId m = orderId ord" for m
    using matchOk_facts(1) [OF b(5) [OF that(1)] d b(1) assms(3)] that(2) by (cases "pmStatus m") simp_all
  have entry: "\<exists>e \<in> set (ledgerEntries db'). ledgerEntryId e = pmEntryId m \<and> entryState e = ALLOCATED \<and>
      entryDirection e = CREDIT \<and> receivedAmountCents ord = Some (entryAmountCents e)"
    if "m \<in> set (matches db')" "pmOrderId m = orderId ord" "pmStatus m = SETTLED" for m
    using b(5) [OF that(1)] that(2,3) by (auto simp: matchOk_def dest!: order_row_unique [OF d _ assms(3)])
  have paid: "\<exists>m \<in> set (matches db'). pmOrderId m = orderId ord" if "paymentStatus ord \<noteq> UNPAID"
    using b(6) [OF assms(3)] that by (auto simp: unpaidOrder_def)
  have "paymentStatus ord = UNPAID \<longleftrightarrow> (\<forall>m \<in> set (matches db'). pmOrderId m \<noteq> orderId ord)"
    using paid by (auto dest: status)
  moreover have "paymentStatus ord = CONFIRMED \<longleftrightarrow>
      (\<exists>m \<in> set (matches db'). pmOrderId m = orderId ord \<and> pmStatus m = SETTLED)"
    using paid status payment_status.distinct match_status.distinct by metis
  moreover have "paymentStatus ord = DISPUTED \<longleftrightarrow>
      (\<exists>m \<in> set (matches db'). pmOrderId m = orderId ord \<and> pmStatus m = REVERSED)"
    using paid status payment_status.distinct match_status.distinct by metis
  ultimately show ?thesis using entry b(3,4) by blast
qed

theorem payments_agree_with_matches_witness:
  "paymentStatus (payOrder CONFIRMED BasisManual 1001 210000 openOrder) = CONFIRMED \<longleftrightarrow>
     (\<exists>m \<in> set (matches paidBooks). pmOrderId m = orderId openOrder \<and> pmStatus m = SETTLED \<and>
        (\<exists>e \<in> set (ledgerEntries paidBooks). ledgerEntryId e = pmEntryId m \<and> entryState e = ALLOCATED \<and>
           entryDirection e = CREDIT \<and>
           receivedAmountCents (payOrder CONFIRMED BasisManual 1001 210000 openOrder) = Some (entryAmountCents e)))"
  using payments_agree_with_matches [OF reconInv_paidBooks, of paidBooks "[]"
      "payOrder CONFIRMED BasisManual 1001 210000 openOrder"]
  by (simp add: paidBooks_def orders_def paidSide_def updateRows_def)

text \<open>C35: One entry never fits two orders.  An entry of a key that belongs to one Alipay account, with a timestamp
  precise to a second or better, is never found ambiguous: the cooldown of amounts keeps the windows of
  two orders of one amount further apart than a timestamp can blur.\<close>

theorem reconciling_is_never_ambiguous:
  assumes inv: "reconInv db" and e: "readLedgerEntry db eid = Some e" and key: "keyOfOneAccount db (entryProviderKey e)"
    and precision: "occurredAtPrecision e \<le> 1000" and res: "reconcileEntry env eid db = Inr (r, db')"
  shows "r \<noteq> ResultAmbiguous eid' cids xid"
proof -
  have False if res': "reconcileEntry env eid db = Inr (ResultAmbiguous eid' cids xid, db')"
  proof -
    have "\<exists>now db1. financialNow env db = Inr (now, db1) \<and> matchEntry env e now db1 = Inr (ResultAmbiguous eid' cids xid, db')"
      using res' e unfolding reconcileEntry_def Let_def
      by (auto simp: bindR_Inr_iff assertR_Inr_iff split: if_splits option.splits)
    then obtain now db1 where n: "financialNow env db = Inr (now, db1)"
        "matchEntry env e now db1 = Inr (ResultAmbiguous eid' cids xid, db')" by blast
    note k = clock_step [OF inv n(1)] and clock = financialNow_clock(1) [OF n(1)]
    have "keyOfOneAccount db1 (entryProviderKey e) = keyOfOneAccount db (entryProviderKey e)"
      by (simp add: clock keyOfOneAccount_def orders_def profileUsesKey_def)
    then have "length (readCandidateFacts db1 e) \<le> 1"
      using at_most_one_fact [OF reconInvD(2) [OF k(2)], of e] key precision by simp
    then show False using not_ambiguous n(2) by blast
  qed
  then show ?thesis using res by auto
qed

lemma reconcile_settlement:
  assumes inv: "reconInv db" and res: "reconcileEntry env eid db = Inr (ResultAutoSettled eid' cid mid oid, db')"
  shows "\<exists>e. readLedgerEntry db eid = Some e \<and> entryDirection e = CREDIT \<and>
     entryState e \<in> {UNALLOCATED, CANDIDATE} \<and> \<not> hasOpenLedgerConflict db eid \<and> soundlySettled db e mid oid db'"
proof -
  obtain now db1 e where p: "financialNow env db = Inr (now, db1)" "readLedgerEntry db eid = Some e"
      "entryState e \<in> {UNALLOCATED, CANDIDATE}" "\<not> hasOpenLedgerConflict db1 eid" "entryDirection e = CREDIT"
      "matchEntry env e now db1 = Inr (ResultAutoSettled eid' cid mid oid, db')"
    using auto_settled_path [OF res] by metis
  note k = clock_step [OF inv p(1)] and clock = financialNow_clock(1) [OF p(1)]
  have "e \<in> set (ledgerEntries db1)"
    using p(2) k(5) by (auto simp: readLedgerEntry_def dest: find_SomeD)
  then have "soundlySettled db1 e mid oid db'"
    by (intro matched_settlement [OF k(2) k(3) [symmetric] _ _ p(6)]) (use p(3) in auto)
  then show ?thesis using p(2-5) clock by (auto simp: soundlySettled_def hasOpenLedgerConflict_def)
qed

lemma sample_uuid_e: "isUuidV4 (sampleUuid ''e'')"
  by code_simp

lemma sample_financialNow:
  "financialNow sampleReconEnv unpaidBooks = Inr (220000, unpaidBooks\<lparr>orderSide := (orderSide unpaidBooks)\<lparr>orderClock := 220000\<rparr>\<rparr>)"
  by (simp add: financialNow_def databaseTime_def sampleReconEnv_def isSafeInteger_def maxSafeInteger_def
      MAX_ORDER_CLOCK_AHEAD_MILLISECONDS_def)

lemma sample_candidate_fact: "readCandidateFacts unpaidBooks sampleEntry = [(openOrder, sampleSlot ''2'' 2 200000)]"
  by (simp add: readCandidateFacts_def factsAmong_def paymentInWindow_def unpaidBooks_def twoOrders_def orders_def slots_def
      profileUsesKey_def sampleEntry_def closedOrder_def openOrder_def endOrder_def releaseSlot_def)

lemma sample_settlement_possible:
  "settlementPossible sampleReconEnv sampleEntry openOrder (sampleSlot ''2'' 2 200000) 220000 unpaidBooks"
proof -
  have ids: "plainText (sampleIdName u n) \<and> length (sampleIdName u n) = 1" for u n
    by (cases u) (simp_all add: plainText_def plainChar_def)
  have env: "readyEnv sampleReconEnv"
    using ids by (auto simp: readyEnv_def sampleReconEnv_def isSha256Text_def isLowerHex_def list.pred_set sampleUuid_def plainText_def plainChar_def)
  have texts: "textsFit sampleEntry openOrder (sampleSlot ''2'' 2 200000)"
    by (simp add: textsFit_def plainWithin_def plainText_def list.pred_set plainChar_def sample_defs sampleEntry_def js_def)
  have numbers: "numbersFit sampleEntry openOrder (sampleSlot ''2'' 2 200000)"
    by (simp add: numbersFit_def sampleEntry_def openOrder_def isSafeInteger_def maxSafeInteger_def)
  show ?thesis
    using env texts numbers
    by (simp add: settlementPossible_def idsUnused_def unpaidBooks_def twoOrders_def sampleEvent_def sampleReconEnv_def
        sampleEntry_def sampleUuid_def)
qed

lemma sample_reads:
  "readLedgerEntry unpaidBooks (sampleUuid ''e'') = Some sampleEntry" "\<not> isSandboxEntry unpaidBooks sampleEntry"
  "overlappingOrders unpaidBooks sampleEntry = []" "\<not> settledElsewhere sampleEntry openOrder unpaidBooks"
  "\<not> hasOpenLedgerConflict unpaidBooks (sampleUuid ''e'')" "keyOfOneAccount unpaidBooks ''primary''"
  by (simp_all add: readLedgerEntry_def isSandboxEntry_def SANDBOX_PROVIDER_ENDPOINT_def overlappingOrders_def settledElsewhere_def
      hasOpenLedgerConflict_def keyOfOneAccount_def unpaidBooks_def twoOrders_def orders_def slots_def sampleEntry_def
      closedOrder_def openOrder_def endOrder_def)

lemma sample_settles:
  "\<exists>cid mid db'. reconcileEntry sampleReconEnv (sampleUuid ''e'') unpaidBooks =
     Inr (ResultAutoSettled (sampleUuid ''e'') cid mid (sampleUuid ''2''), db')"
  using unique_match_settles [OF reconInv_unpaidBooks sample_uuid_e sample_reads(1,2) sample_financialNow
      sample_settlement_possible sample_candidate_fact sample_reads(3) _ _ sample_reads(5,4)]
  by (simp add: sampleEntry_def openOrder_def)

theorem reconciling_is_never_ambiguous_witness:
  "\<exists>r db'. reconcileEntry sampleReconEnv (sampleUuid ''e'') unpaidBooks = Inr (r, db') \<and>
     r \<noteq> ResultAmbiguous (sampleUuid ''e'') [] []"
proof -
  have s: "keyOfOneAccount unpaidBooks (entryProviderKey sampleEntry)" "occurredAtPrecision sampleEntry \<le> 1000"
    using sample_reads(6) by (simp_all add: sampleEntry_def)
  show ?thesis
    using sample_settles reconciling_is_never_ambiguous [OF reconInv_unpaidBooks sample_reads(1) s] by blast
qed

text \<open>C36: An automatic settlement is sound.  It happens only to an unallocated incoming entry with no open
  conflict; the order it pays was unpaid and fits the entry's account, amount and time; any other
  order that fits had a candidate decided before, and none was already paid; and afterwards the
  order is confirmed with exactly its payable amount, by a settled match with that entry.\<close>

theorem auto_settlement_is_sound:
  assumes inv: "reconInv db" and res: "reconcileEntry env eid db = Inr (ResultAutoSettled eid' cid mid oid, db')"
  shows "\<exists>e. readLedgerEntry db eid = Some e \<and> entryDirection e = CREDIT \<and>
     entryState e \<in> {UNALLOCATED, CANDIDATE} \<and> \<not> hasOpenLedgerConflict db eid \<and> soundlySettled db e mid oid db'"
  using reconcile_settlement [OF assms] .

theorem auto_settlement_is_sound_witness:
  "\<exists>mid db'. soundlySettled unpaidBooks sampleEntry mid (sampleUuid ''2'') db'"
proof -
  obtain cid mid db' where "reconcileEntry sampleReconEnv (sampleUuid ''e'') unpaidBooks =
      Inr (ResultAutoSettled (sampleUuid ''e'') cid mid (sampleUuid ''2''), db')"
    using sample_settles by blast
  from auto_settlement_is_sound [OF reconInv_unpaidBooks this] show ?thesis
    using sample_reads(1) by auto
qed

text \<open>C37: A payment is not left lying.  An incoming entry that fits exactly one unpaid order and no paid one, with
  no open conflict and no foreign payment in the way, settles that order in one transaction, when the
  identifiers drawn are new and the stored documents fit their columns.\<close>

theorem unique_match_is_settled:
  assumes "reconInv db" "isUuidV4 eid" "readLedgerEntry db eid = Some e" "\<not> isSandboxEntry db e"
    "financialNow env db = Inr (now, db1)" "settlementPossible env e ord s now db"
    "readCandidateFacts db e = [(ord, s)]" "overlappingOrders db e = []"
    "entryState e \<in> {UNALLOCATED, CANDIDATE}" "entryDirection e = CREDIT"
    "\<not> hasOpenLedgerConflict db eid" "\<not> settledElsewhere e ord db"
  shows "\<exists>cid mid db'. reconcileEntry env eid db = Inr (ResultAutoSettled eid cid mid (orderId ord), db') \<and>
     (\<exists>paid \<in> set (orders db'). orderId paid = orderId ord \<and> paymentStatus paid = CONFIRMED \<and>
        receivedAmountCents paid = Some (payableAmountCents ord))"
proof -
  obtain cid mid db' where run: "reconcileEntry env eid db = Inr (ResultAutoSettled eid cid mid (orderId ord), db')"
    using unique_match_settles [OF assms] by blast
  have "soundlySettled db e mid (orderId ord) db'"
    using reconcile_settlement [OF assms(1) run] assms(3) by auto
  then obtain ord' paid where paid: "orderId ord' = orderId ord" "ord' \<in> set (orders db)" "paid \<in> set (orders db')"
      "orderId paid = orderId ord" "paymentStatus paid = CONFIRMED" "receivedAmountCents paid = Some (payableAmountCents ord')"
    unfolding soundlySettled_def fitsOrder_def by blast
  moreover have "ord \<in> set (orders db)"
    using readCandidateFacts_mem [of ord s db e] assms(7) by (simp add: fitsOrder_def)
  ultimately have "ord' = ord" using order_row_unique [OF reconInvD(4) [OF assms(1)]] by blast
  then show ?thesis using run paid by blast
qed

theorem unique_match_is_settled_witness:
  "\<exists>cid mid db'. reconcileEntry sampleReconEnv (sampleUuid ''e'') unpaidBooks =
     Inr (ResultAutoSettled (sampleUuid ''e'') cid mid (orderId openOrder), db') \<and>
     (\<exists>paid \<in> set (orders db'). orderId paid = orderId openOrder \<and> paymentStatus paid = CONFIRMED \<and>
        receivedAmountCents paid = Some (payableAmountCents openOrder))"
  by (rule unique_match_is_settled [OF reconInv_unpaidBooks sample_uuid_e sample_reads(1,2) sample_financialNow
      sample_settlement_possible sample_candidate_fact sample_reads(3) _ _ sample_reads(5,4)])
     (simp_all add: sampleEntry_def)

end
