(* ===== verification/ReconForeign.thy ===== *)
theory ReconForeign
  imports ReconTheorems
begin

text \<open>
  Two Alipay accounts, one open order of the same amount on each.  The order on the second account has
  been paid; the payment of the other one has just been seen on the account of key \<open>''primary''\<close>.
\<close>

definition foreignOrder :: payment_order where
  "foreignOrder = (sampleOrder ''3'' 200000)\<lparr>alipayAccountId := ''second'', collectionProfileId := ''q''\<rparr>"

definition foreignSlot :: amount_slot where
  "foreignSlot = (sampleSlot ''3'' 1 200000)\<lparr>slotAccountId := ''second'', slotProfileId := ''q''\<rparr>"

definition twoAccounts :: order_db where
  "twoAccounts = sampleDb\<lparr>orderClock := 210000,
     collectionProfiles := [sampleProfile, sampleProfile\<lparr>profileId := ''q'', profileAccountId := ''second''\<rparr>],
     profileProviderLinks := [(''p'', ''primary''), (''q'', ''second-key'')], providerBindings := [''primary'', ''second-key''],
     paymentOrders := [foreignOrder, openOrder], amountSlots := [foreignSlot, sampleSlot ''2'' 1 200000],
     orderEvents := [sampleEvent ''3'' 1 CREATED 200000, sampleEvent ''2'' 1 CREATED 200000]\<rparr>"

definition foreignEntry :: ledger_entry where
  "foreignEntry = sampleEntry\<lparr>ledgerEntryId := sampleUuid ''a'', entryProviderKey := ''second-key''\<rparr>"

definition foreignEvent :: order_event where
  "foreignEvent =
     \<lparr>eventId = sampleUuid ''v'', eventOrderId = sampleUuid ''3'', eventSequence = 2, eventType = PAYMENT_CONFIRMED,
      occurredAt = 210000, eventDetails = DecisionDetails (sampleUuid ''f'') (sampleUuid ''m'') None (Some ''MANUAL'')\<rparr>"

definition foreignMatch :: payment_match where
  "foreignMatch = sampleMatch\<lparr>pmEntryId := sampleUuid ''a'', pmOrderId := sampleUuid ''3''\<rparr>"

definition beforeForeign :: recon_db where
  "beforeForeign = unpaidBooks\<lparr>orderSide := twoAccounts,
     bindingEndpoints := [(''primary'', ''https://openapi.alipay.com''), (''second-key'', ''https://openapi.alipay.com'')],
     ledgerEntries := [sampleEntry, foreignEntry]\<rparr>"

definition foreignBooks :: recon_db where
  "foreignBooks = beforeForeign
     \<lparr>orderSide := paidSide foreignOrder CONFIRMED BasisManual 1001 210000 foreignEvent twoAccounts,
      ledgerEntries := [sampleEntry, moveEntry ALLOCATED 210000 foreignEntry], matches := [foreignMatch],
      ledgerPostings := transferPostings (sampleUuid ''x'') (sampleUuid ''y'') (sampleUuid ''t'') PROVIDER_CASH
        ORDER_SETTLEMENT 1001 (sampleUuid ''3'') (sampleUuid ''a'') 210000\<rparr>"

lemma js_23: "js ''3'' \<noteq> js ''2''"
  by code_simp

lemma orderInv_twoAccounts: "orderInv twoAccounts"
proof -
  have rows: "orderRowOk foreignOrder" "orderRowOk openOrder"
    using orderRowOk_samples(2) by (simp_all add: foreignOrder_def openOrder_def orderRowOk_def isSafeInteger_def maxSafeInteger_def)
  have "list_all2 slotMatches (paymentOrders twoAccounts) (amountSlots twoAccounts)"
    by (simp add: twoAccounts_def slotMatches_def foreignOrder_def foreignSlot_def openOrder_def)
  moreover have "windowsOk (paymentOrders twoAccounts) (amountSlots twoAccounts)"
    by (simp add: windowsOk_def twoAccounts_def sameAmount_def foreignSlot_def)
  moreover have "timesWithin 210000 foreignOrder" "timesWithin 210000 openOrder"
    by (simp_all add: timesWithin_def foreignOrder_def openOrder_def)
  moreover have "keysOk (paymentOrders twoAccounts)"
    using js_23 by (simp add: keysOk_def twoAccounts_def foreignOrder_def openOrder_def)
  moreover have "eventsOk (paymentOrders twoAccounts) (orderEvents twoAccounts)"
  proof -
    have k: "1 \<le> k \<Longrightarrow> k \<le> 1 \<Longrightarrow> k = 1" for k :: int by linarith
    show ?thesis
      unfolding eventsOk_def
      by (auto simp: twoAccounts_def foreignOrder_def openOrder_def sampleEvent_def dest!: k)
  qed
  ultimately show ?thesis
    using rows by (simp add: orderInv_def rowsInv_def) (simp add: twoAccounts_def foreignOrder_def openOrder_def)
qed

lemma reconInv_beforeForeign: "reconInv beforeForeign"
proof -
  have "unpaidOrder foreignOrder" by (simp add: unpaidOrder_def foreignOrder_def sample_defs)
  then show ?thesis
    using orderInv_twoAccounts unpaid_samples(2)
    by (simp add: reconInv_def booksOk_def linksOk_def candidateKeys_def settledEntries_def beforeForeign_def foreignEntry_def
        sampleEntry_def orders_def twoAccounts_def accountBalance_def receipts_def receiptOf_def unpaidOrder_def
        allocations_def allocationOf_def)
qed

lemma foreign_step: "bookStep beforeForeign foreignBooks"
proof -
  have unpaid: "paymentStatus foreignOrder = UNPAID" "orderId foreignOrder = sampleUuid ''3''" by (simp_all add: foreignOrder_def)
  show ?thesis
    by (rule settles [where ord = foreignOrder and now = 210000 and ev = foreignEvent and basis = BasisManual and
          e = foreignEntry and m = foreignMatch and pid = "sampleUuid ''x''" and pid' = "sampleUuid ''y''" and
          tid = "sampleUuid ''t''"])
       (simp_all add: unpaid payable_def beforeForeign_def twoAccounts_def foreignEvent_def foreignEntry_def
          sampleEntry_def foreignMatch_def sampleMatch_def foreignBooks_def movedEntries_def updateRows_def,
        simp add: foreignOrder_def)
qed

lemma reconInv_foreignBooks: "reconInv foreignBooks"
  using bookStep_inv [OF foreign_step reconInv_beforeForeign] .

lemma foreign_facts:
  "readLedgerEntry foreignBooks (sampleUuid ''e'') = Some sampleEntry" "settledElsewhere sampleEntry openOrder foreignBooks"
  "readCandidateFacts foreignBooks sampleEntry = [(openOrder, sampleSlot ''2'' 1 200000)]"
  "overlappingOrders foreignBooks sampleEntry = []" "matchCandidates foreignBooks = []"
  "\<not> isSandboxEntry foreignBooks sampleEntry" "\<not> hasOpenLedgerConflict foreignBooks (sampleUuid ''e'')"
  by (simp_all add: readLedgerEntry_def foreignBooks_def beforeForeign_def sampleEntry_def foreignEntry_def orders_def paidSide_def
      twoAccounts_def updateRows_def settledElsewhere_def slots_def foreignOrder_def foreignSlot_def openOrder_def
      paymentInWindow_def sampleProfile_def readCandidateFacts_def factsAmong_def profileUsesKey_def overlappingOrders_def
      payOrder_def isSandboxEntry_def SANDBOX_PROVIDER_ENDPOINT_def hasOpenLedgerConflict_def unpaidBooks_def)

text \<open>A single candidate that the trigger rejects: reconciling the entry can only fail.\<close>

lemma blocked_candidate_fails:
  assumes inv: "reconInv db" and e: "e \<in> set (ledgerEntries db)" and none: "matchCandidates db = []"
    and one: "readCandidateFacts db e = [(ord, s)]" "overlappingOrders db e = []"
    and blocked: "settledElsewhere e ord db"
  shows "matchEntry env e now db \<noteq> Inr (r, db')"
proof
  assume "matchEntry env e now db = Inr (r, db')"
  then obtain found db1 db2 where m: "ensureCandidates env e [(ord, s)] now db = Inr (found, db1)"
      "supersedeStaleEligibleCandidates env e
         (map candidateId (filter (\<lambda>c. candidateStatus c = ELIGIBLE) found)) now db1 = Inr db2"
      "entryOutcome env e (readSettledOrderOverlap db e) (filter (\<lambda>c. candidateStatus c = ELIGIBLE) found) now db2 =
         Inr (r, db')"
    unfolding matchEntry_def Let_def one bindR_Inr_iff by (auto simp: bindR_Inr_iff)
  note spec = ensureCandidates_spec [OF m(1)]
  then obtain c where c: "found = [c]" "candidateOf e (ord, s) c" "candidateStatus c = ELIGIBLE" "c \<in> set (matchCandidates db1)"
    using none by (auto simp: list_all2_Cons1)
  have settle: "autoSettleCandidate env e c now db2 = Inr (r, db')"
    using m(3) c(1,3) one(2) by (simp add: entryOutcome_def readSettledOrderOverlap_def)
  have same: "sameBooks db db2"
    using ensureCandidates_books [OF m(1)] supersedeStale_books [OF m(2)] by (rule sameBooks_trans)
  note inv2 = sameBooks_inv [OF same inv]
  have key: "(candidateId c, ledgerEntryId e) \<in> set (candidateKeys db2)"
    using candidateOf_key [OF c(2,4)] supersedeStale_books [OF m(2)] by (auto simp: sameBooks_def candidatesKept_def)
  obtain ord' where r: "autoSettleChecks db2 e c = Inr ord'" "recordAutoSettlement env e c ord' now db2 = Inr (r, db')"
    using autoSettleCandidate_cases [OF inv2 key settle] .
  have rows: "ord \<in> set (orders db2)" "e \<in> set (ledgerEntries db2)" "orderSide db2 = orderSide db"
    using readCandidateFacts_mem [of ord s db e] one(1) e same sameBooks_orders [OF same]
    by (simp_all add: fitsOrder_def sameBooks_def)
  have "candidateOrderId c = orderId ord" using c(2) by (simp add: candidateOf_def)
  then have "ord' = ord"
    using order_row_unique [OF reconInvD(4) [OF inv2] _ rows(1)] autoSettleChecks_Inr [OF r(1)] by simp
  then have "\<not> settledElsewhere e ord db2"
    using recordAutoSettlement_not_elsewhere [OF inv2 rows(1) _ rows(2)] r(2) autoSettleChecks_Inr [OF r(1)] by simp
  then show False using blocked settledElsewhere_cong [OF rows(3)] by simp
qed

lemma foreign_entry_fails: "reconcileEntry env (sampleUuid ''e'') foreignBooks \<noteq> Inr outcome"
proof
  assume res: "reconcileEntry env (sampleUuid ''e'') foreignBooks = Inr outcome"
  then obtain now db1 where n: "financialNow env foreignBooks = Inr (now, db1)"
    using foreign_facts(1,6) by (auto simp: reconcileEntry_def bindR_Inr_iff)
  note clock = financialNow_clock(1) [OF n] and k = clock_step [OF reconInv_foreignBooks n]
  have kind: "entryState sampleEntry \<in> {UNALLOCATED, CANDIDATE}" "entryDirection sampleEntry = CREDIT"
    by (simp_all add: sampleEntry_def)
  obtain r db' where matched: "matchEntry env sampleEntry now db1 = Inr (r, db')"
    using reconcileEntry_matches [OF reconInv_foreignBooks sample_uuid_e foreign_facts(1,6) n kind foreign_facts(7)] res
    by (metis prod.collapse)
  have "sampleEntry \<in> set (ledgerEntries db1)"
    using foreign_facts(1) k(5) by (auto simp: readLedgerEntry_def dest: find_SomeD)
  moreover have "matchCandidates db1 = []" "settledElsewhere sampleEntry openOrder db1" "overlappingOrders db1 sampleEntry = []"
      "readCandidateFacts db1 sampleEntry = [(openOrder, sampleSlot ''2'' 1 200000)]"
    using foreign_facts by (simp_all add: clock)
  ultimately show False using blocked_candidate_fails [OF k(2)] matched by blast
qed

text \<open>The same entry before the other account's order is paid.\<close>

lemma before_facts:
  "readLedgerEntry beforeForeign (sampleUuid ''e'') = Some sampleEntry" "\<not> isSandboxEntry beforeForeign sampleEntry"
  "readCandidateFacts beforeForeign sampleEntry = [(openOrder, sampleSlot ''2'' 1 200000)]"
  "overlappingOrders beforeForeign sampleEntry = []" "\<not> hasOpenLedgerConflict beforeForeign (sampleUuid ''e'')"
  "\<not> settledElsewhere sampleEntry openOrder beforeForeign"
  by (simp_all add: readLedgerEntry_def beforeForeign_def sampleEntry_def foreignEntry_def orders_def
      twoAccounts_def settledElsewhere_def slots_def foreignOrder_def foreignSlot_def openOrder_def
      paymentInWindow_def sampleProfile_def readCandidateFacts_def factsAmong_def profileUsesKey_def overlappingOrders_def
      isSandboxEntry_def SANDBOX_PROVIDER_ENDPOINT_def hasOpenLedgerConflict_def unpaidBooks_def)

lemma before_financialNow:
  "financialNow sampleReconEnv beforeForeign = Inr (220000, beforeForeign\<lparr>orderSide := twoAccounts\<lparr>orderClock := 220000\<rparr>\<rparr>)"
  by (simp add: financialNow_def databaseTime_def sampleReconEnv_def isSafeInteger_def maxSafeInteger_def
      MAX_ORDER_CLOCK_AHEAD_MILLISECONDS_def beforeForeign_def twoAccounts_def)

lemma before_possible:
  "settlementPossible sampleReconEnv sampleEntry openOrder (sampleSlot ''2'' 1 200000) 220000 beforeForeign"
proof -
  note ready = sample_settlement_possible [unfolded settlementPossible_def Let_def]
  have "slotId (sampleSlot ''2'' 1 200000) = slotId (sampleSlot ''2'' 2 200000)" by (simp add: sample_defs)
  then have texts: "textsFit sampleEntry openOrder (sampleSlot ''2'' 1 200000)" using ready by (simp add: textsFit_def)
  have numbers: "numbersFit sampleEntry openOrder (sampleSlot ''2'' 1 200000)"
    by (simp add: numbersFit_def sampleEntry_def openOrder_def isSafeInteger_def maxSafeInteger_def)
  show ?thesis
    using ready texts numbers
    by (simp add: settlementPossible_def idsUnused_def beforeForeign_def unpaidBooks_def twoAccounts_def sampleEvent_def
        sampleReconEnv_def sampleEntry_def sampleUuid_def)
qed

lemma before_settles:
  "\<exists>cid mid db'. reconcileEntry sampleReconEnv (sampleUuid ''e'') beforeForeign =
     Inr (ResultAutoSettled (sampleUuid ''e'') cid mid (orderId openOrder), db')"
  using unique_match_settles [OF reconInv_beforeForeign sample_uuid_e before_facts(1,2) before_financialNow
      before_possible before_facts(3,4) _ _ before_facts(5,6)]
  by (simp add: sampleEntry_def)

text \<open>C38: A payment on another Alipay account stops a settlement.  Two accounts, reached under the keys
  "primary" and "second-key", hold one order each of the same amount, and both profiles carry the key "primary" in
  their own row, as every profile does.  The payment seen under "primary" fits exactly one order, the one of its
  account, and settles it; but once the order of the other account has been paid under "second-key",
  which is an ordinary step of the books and leaves the same single candidate, reconciling that payment fails at every
  time and with every choice of identifiers.\<close>

theorem foreign_payment_blocks_settlement:
  "alipayAccountId openOrder = ''default'' \<and> alipayAccountId foreignOrder = ''second'' \<and>
   profileUsesKey beforeForeign (collectionProfileId openOrder) ''primary'' \<and>
   \<not> profileUsesKey beforeForeign (collectionProfileId foreignOrder) ''primary'' \<and>
   entryProviderKey sampleEntry = ''primary'' \<and> entryProviderKey foreignEntry = ''second-key'' \<and>
   (\<exists>cid mid db'. reconcileEntry sampleReconEnv (sampleUuid ''e'') beforeForeign =
      Inr (ResultAutoSettled (sampleUuid ''e'') cid mid (orderId openOrder), db')) \<and>
   bookStep beforeForeign foreignBooks \<and> reconInv foreignBooks \<and>
   readCandidateFacts foreignBooks sampleEntry = readCandidateFacts beforeForeign sampleEntry \<and>
   length (readCandidateFacts foreignBooks sampleEntry) = 1 \<and> overlappingOrders foreignBooks sampleEntry = [] \<and>
   (\<forall>env outcome. reconcileEntry env (sampleUuid ''e'') foreignBooks \<noteq> Inr outcome)"
proof -
  have accounts: "alipayAccountId openOrder = ''default''" "alipayAccountId foreignOrder = ''second''"
      "collectionProfileId openOrder = ''p''" "collectionProfileId foreignOrder = ''q''"
    by (simp_all add: openOrder_def foreignOrder_def)
  have keys: "profileUsesKey beforeForeign ''p'' ''primary''" "\<not> profileUsesKey beforeForeign ''q'' ''primary''"
      "entryProviderKey sampleEntry = ''primary''" "entryProviderKey foreignEntry = ''second-key''"
    by (simp_all add: profileUsesKey_def beforeForeign_def twoAccounts_def sampleEntry_def foreignEntry_def)
  show ?thesis
    using accounts keys before_settles foreign_step reconInv_foreignBooks before_facts(3) foreign_facts(3,4) foreign_entry_fails
    by simp
qed

end
