(* ===== verification/JsDate.thy ===== *)
theory JsDate
  imports "HOL-Library.Word" Complex_Main
begin

text \<open>
  The calendar of JavaScript's \<^verbatim>\<open>Date\<close> (the proleptic Gregorian calendar of ECMAScript) on integers:
  \<^verbatim>\<open>Date.UTC\<close> with its carry of months and its reading of the years 0 to 99, and the UTC fields of a
  time.  The lemmas: the fields of a time lead back to it, and a later time never has earlier fields.
\<close>

subsection \<open>Days and years\<close>

definition msPerDay :: int where
  "msPerDay = 86400000"

definition isLeapYear :: "int \<Rightarrow> bool" where
  "isLeapYear y \<longleftrightarrow> y mod 4 = 0 \<and> (y mod 100 \<noteq> 0 \<or> y mod 400 = 0)"

definition dayFromYear :: "int \<Rightarrow> int" where
  "dayFromYear y = 365 * (y - 1970) + (y - 1969) div 4 - (y - 1901) div 100 + (y - 1601) div 400"

lemma div_next:
  assumes "0 < (n :: int)"
  shows "(m + 1) div n = m div n + (if (m + 1) mod n = 0 then 1 else 0)"
proof (cases "m mod n + 1 = n")
  case True
  then have eq: "m + 1 = n * (m div n + 1)" using mult_div_mod_eq [of n m] by (simp only: distrib_left)
  have "(m + 1) div n = m div n + 1" "(m + 1) mod n = 0" using assms unfolding eq by simp_all
  then show ?thesis by simp
next
  case False
  then have "m mod n + 1 < n" "0 \<le> m mod n" using pos_mod_bound [OF assms, of m] pos_mod_sign [OF assms, of m] by linarith+
  moreover have "m + 1 = n * (m div n) + (m mod n + 1)" using mult_div_mod_eq [of n m] by linarith
  ultimately have "(m + 1) div n = m div n" "(m + 1) mod n = m mod n + 1"
    using int_div_pos_eq [of "m + 1" n "m div n" "m mod n + 1"] int_mod_pos_eq [of "m + 1" n "m div n" "m mod n + 1"] by simp_all
  then show ?thesis using \<open>0 \<le> m mod n\<close> by simp
qed

lemma mod_shift: "n dvd c \<Longrightarrow> (y - c) mod n = 0 \<longleftrightarrow> y mod n = (0 :: int)"
  by (metis diff_0_right dvd_imp_mod_0 mod_diff_right_eq)

lemma leap_count:
  assumes "p100 \<Longrightarrow> p4" and "p400 \<Longrightarrow> p100"
  shows "365 * (y + 1 - 1970) + (a + (if p4 then 1 else 0)) - (b + (if p100 then 1 else 0)) + (c + (if p400 then 1 else 0)) =
    365 * (y - 1970) + a - b + c + (if p4 \<and> (\<not> p100 \<or> p400) then 366 else (365 :: int))"
  using assms by auto

lemma dayFromYear_step: "dayFromYear (y + 1) = dayFromYear y + (if isLeapYear y then 366 else 365)"
proof -
  have d4: "(y + 1 - 1969) div 4 = (y - 1969) div 4 + (if y mod 4 = 0 then 1 else 0)"
    using div_next [of 4 "y - 1969"] mod_shift [of 4 1968 y] by simp
  have d100: "(y + 1 - 1901) div 100 = (y - 1901) div 100 + (if y mod 100 = 0 then 1 else 0)"
    using div_next [of 100 "y - 1901"] mod_shift [of 100 1900 y] by simp
  have d400: "(y + 1 - 1601) div 400 = (y - 1601) div 400 + (if y mod 400 = 0 then 1 else 0)"
    using div_next [of 400 "y - 1601"] mod_shift [of 400 1600 y] by simp
  have "y mod 100 = 0 \<Longrightarrow> y mod 4 = 0" "y mod 400 = 0 \<Longrightarrow> y mod 100 = 0"
    using dvd_trans [of 4 100 y] dvd_trans [of 100 400 y] by (simp_all add: mod_eq_0_iff_dvd)
  then show ?thesis unfolding dayFromYear_def isLeapYear_def d4 d100 d400 by (rule leap_count)
qed

lemma dayFromYear_next: "dayFromYear y < dayFromYear (y + 1)"
  by (simp add: dayFromYear_step)

lemma dayFromYear_less: "y < z \<Longrightarrow> dayFromYear y + 365 \<le> dayFromYear z"
proof (induction "nat (z - y)" arbitrary: z)
  case (Suc n)
  show ?case
  proof (cases "y = z - 1")
    case True
    then show ?thesis using dayFromYear_step [of y] by (simp split: if_splits)
  next
    case False
    then have "dayFromYear y + 365 \<le> dayFromYear (z - 1)" using Suc by (intro Suc.hyps(1)) auto
    then show ?thesis using dayFromYear_step [of "z - 1"] by (simp split: if_splits)
  qed
qed simp

text \<open>The year of a day: the last year that does not start after it.\<close>

function yearFrom :: "int \<Rightarrow> int \<Rightarrow> int" where
  "yearFrom y d = (if dayFromYear (y + 1) \<le> d then yearFrom (y + 1) d else y)"
  by auto
termination
proof (relation "measure (\<lambda>(y, d). nat (d - dayFromYear y))")
  fix y d assume "dayFromYear (y + 1) \<le> d"
  then show "((y + 1, d), y, d) \<in> measure (\<lambda>(y, d). nat (d - dayFromYear y))"
    using dayFromYear_next [of y] by simp
qed simp

declare yearFrom.simps [simp del]

definition yearOfDay :: "int \<Rightarrow> int" where
  "yearOfDay d = yearFrom (1969 + 400 * d div 146097) d"

lemma yearFrom_bounds: "dayFromYear y \<le> d \<Longrightarrow> dayFromYear (yearFrom y d) \<le> d \<and> d < dayFromYear (yearFrom y d + 1)"
  by (induction y d rule: yearFrom.induct) (subst (1 2) yearFrom.simps, auto)

lemma year_start: "dayFromYear (1969 + 400 * d div 146097) \<le> d"
proof -
  define k where "k = 400 * d div 146097 - 1"
  define a where "a = (k + 1) div 4"
  define b where "b = (k + 69) div 100"
  define c where "c = (k + 369) div 400"
  define r where "r = (k + 69) mod 100"
  have "146097 * (k + 1) \<le> 400 * d" unfolding k_def by simp
  moreover have "a * 4 \<le> k + 1" unfolding a_def by simp
  moreover have "r < 100" unfolding r_def by simp
  moreover have "k + 69 = b * 100 + r" unfolding b_def r_def by simp
  moreover have "c * 400 \<le> k + 369" unfolding c_def by simp
  ultimately have "400 * (365 * k + a - b + c) \<le> 400 * d" by (simp only: distrib_left right_diff_distrib)
  then have "365 * k + a - b + c \<le> d" by simp
  moreover have "1970 + k - 1970 = k" "1970 + k - 1969 = k + 1" "1970 + k - 1901 = k + 69" "1970 + k - 1601 = k + 369"
    by simp_all
  then have "dayFromYear (1970 + k) = 365 * k + a - b + c" by (simp only: dayFromYear_def a_def b_def c_def)
  moreover have "1969 + 400 * d div 146097 = 1970 + k" by (simp add: k_def)
  ultimately show ?thesis by simp
qed

lemma yearOfDay_bounds: "dayFromYear (yearOfDay d) \<le> d" "d < dayFromYear (yearOfDay d + 1)"
  using yearFrom_bounds [OF year_start] by (simp_all add: yearOfDay_def)

lemma yearOfDay_mono: "d \<le> d' \<Longrightarrow> yearOfDay d \<le> yearOfDay d'"
proof (rule ccontr)
  assume "d \<le> d'" "\<not> yearOfDay d \<le> yearOfDay d'"
  then have "yearOfDay d' + 1 \<le> yearOfDay d" by simp
  then have "dayFromYear (yearOfDay d' + 1) \<le> dayFromYear (yearOfDay d)"
    using dayFromYear_less [of "yearOfDay d' + 1" "yearOfDay d"] by (cases "yearOfDay d' + 1 = yearOfDay d") auto
  then show False using yearOfDay_bounds(1) [of d] yearOfDay_bounds(2) [of d'] \<open>d \<le> d'\<close> by linarith
qed

subsection \<open>Months\<close>

definition monthStarts :: "int list" where
  "monthStarts = [0, 31, 59, 90, 120, 151, 181, 212, 243, 273, 304, 334]"

text \<open>The day of the year a month (from 0) starts at.\<close>

definition monthStart :: "bool \<Rightarrow> nat \<Rightarrow> int" where
  "monthStart leap m = monthStarts ! m + (if leap \<and> 2 \<le> m then 1 else 0)"

definition monthOfYearDay :: "bool \<Rightarrow> int \<Rightarrow> nat" where
  "monthOfYearDay leap n = length (takeWhile (\<lambda>m. monthStart leap m \<le> n) [1..<12])"

lemma monthOfYearDay_less: "monthOfYearDay leap n < 12"
proof -
  have "length (takeWhile (\<lambda>m. monthStart leap m \<le> n) [1..<12]) \<le> length [1..<12::nat]" by (rule length_takeWhile_le)
  then show ?thesis by (simp add: monthOfYearDay_def)
qed

lemma takeWhile_length_mono: "(\<And>x. P x \<Longrightarrow> Q x) \<Longrightarrow> length (takeWhile P xs) \<le> length (takeWhile Q xs)"
  by (induction xs) auto

lemma monthOfYearDay_mono: "n \<le> n' \<Longrightarrow> monthOfYearDay leap n \<le> monthOfYearDay leap n'"
  unfolding monthOfYearDay_def by (rule takeWhile_length_mono) simp

lemma monthStart_le:
  assumes "0 \<le> n"
  shows "monthStart leap (monthOfYearDay leap n) \<le> n"
proof (cases "monthOfYearDay leap n")
  case 0
  then show ?thesis using assms by (simp add: monthStart_def monthStarts_def)
next
  case (Suc m)
  let ?xs = "takeWhile (\<lambda>m. monthStart leap m \<le> n) [1..<12]"
  have len: "length ?xs = Suc m" using Suc by (simp add: monthOfYearDay_def)
  then have "?xs ! m = [1..<12] ! m" by (intro takeWhile_nth) simp
  moreover have "m < length [1..<12::nat]"
    using monthOfYearDay_less [of leap n] Suc by simp
  ultimately have "?xs ! m = Suc m" by simp
  then have "monthStart leap (Suc m) \<le> n" using nth_mem [of m ?xs] len by (auto dest: set_takeWhileD)
  then show ?thesis using Suc by simp
qed

subsection \<open>Fields of a time and \<^verbatim>\<open>Date.UTC\<close>\<close>

record utc_fields =
  utcYear :: int
  utcMonth :: nat
  utcDate :: int
  utcHours :: int
  utcMinutes :: int
  utcSeconds :: int

definition utcFields :: "int \<Rightarrow> utc_fields" where
  "utcFields t =
     (let d = t div msPerDay; s = t mod msPerDay; y = yearOfDay d; n = d - dayFromYear y; m = monthOfYearDay (isLeapYear y) n
      in \<lparr>utcYear = y, utcMonth = m, utcDate = n - monthStart (isLeapYear y) m + 1, utcHours = s div 3600000,
          utcMinutes = s div 60000 mod 60, utcSeconds = s div 1000 mod 60\<rparr>)"

definition makeDay :: "int \<Rightarrow> int \<Rightarrow> int \<Rightarrow> int" where
  "makeDay year month date =
     (let y = year + month div 12; m = nat (month mod 12) in dayFromYear y + monthStart (isLeapYear y) m + date - 1)"

definition dateUTC :: "int \<Rightarrow> int \<Rightarrow> int \<Rightarrow> int \<Rightarrow> int \<Rightarrow> int \<Rightarrow> int \<Rightarrow> int" where
  "dateUTC year month date hours minutes seconds ms =
     (let y = (if 0 \<le> year \<and> year \<le> 99 then 1900 + year else year)
      in makeDay y month date * msPerDay + hours * 3600000 + minutes * 60000 + seconds * 1000 + ms)"

lemma time_of_day: "(s :: int) = s div 3600000 * 3600000 + s div 60000 mod 60 * 60000 + s div 1000 mod 60 * 1000 + s mod 1000"
proof -
  have "s div 60000 = s div 1000 div 60" "s div 3600000 = s div 60000 div 60"
    by (simp_all add: zdiv_zmult2_eq [symmetric])
  then show ?thesis
    using div_mult_mod_eq [of s 1000] div_mult_mod_eq [of "s div 1000" 60] div_mult_mod_eq [of "s div 60000" 60] by linarith
qed

lemma time_split:
  "t div msPerDay * msPerDay + t mod msPerDay div 3600000 * 3600000 + t mod msPerDay div 60000 mod 60 * 60000 +
    t mod msPerDay div 1000 mod 60 * 1000 + t mod 1000 = t"
proof -
  have r: "t mod msPerDay mod 1000 = t mod 1000" unfolding msPerDay_def by (rule mod_mod_cancel) simp
  have h: "t mod msPerDay = t mod msPerDay div 3600000 * 3600000 + t mod msPerDay div 60000 mod 60 * 60000 +
      t mod msPerDay div 1000 mod 60 * 1000 + t mod 1000"
    using time_of_day [of "t mod msPerDay"] unfolding r .
  show ?thesis
    using trans [OF arg_cong [OF h [symmetric], where f = "\<lambda>x. t div msPerDay * msPerDay + x"] div_mult_mod_eq]
    by (simp only: add.assoc)
qed

lemma makeDay_of_fields:
  assumes "m < 12"
  shows "makeDay y (int m) (d - dayFromYear y - monthStart (isLeapYear y) m + 1) = d"
proof -
  have "int m div 12 = 0" "nat (int m mod 12) = m" using assms by simp_all
  then show ?thesis by (simp add: makeDay_def)
qed

theorem dateUTC_utcFields:
  assumes "utcYear (utcFields t) \<notin> {0..99}"
  shows "dateUTC (utcYear (utcFields t)) (int (utcMonth (utcFields t))) (utcDate (utcFields t)) (utcHours (utcFields t))
    (utcMinutes (utcFields t)) (utcSeconds (utcFields t)) (t mod 1000) = t"
proof -
  have y: "(if 0 \<le> y \<and> y \<le> 99 then 1900 + y else y) = y" if "y = utcYear (utcFields t)" for y
    using assms that by simp
  show ?thesis
    unfolding dateUTC_def y [OF refl] Let_def
    by (simp only: utcFields_def Let_def utc_fields.simps makeDay_of_fields [OF monthOfYearDay_less] time_split)
qed

subsection \<open>Bounds and order of the fields\<close>

lemma takeWhile_stops: "length (takeWhile P xs) < length xs \<Longrightarrow> \<not> P (xs ! length (takeWhile P xs))"
  by (rule nth_length_takeWhile)

lemma monthStart_next:
  assumes "monthOfYearDay leap n < 11"
  shows "n < monthStart leap (Suc (monthOfYearDay leap n))"
  using takeWhile_stops [of "\<lambda>m. monthStart leap m \<le> n" "[1..<12]"] assms by (simp add: monthOfYearDay_def)

lemma month_lengths:
  assumes "m < 11"
  shows "monthStart leap (Suc m) \<le> monthStart leap m + 31"
proof -
  have "m \<in> set [0..<11]" using assms by simp
  then show ?thesis by (auto simp: monthStart_def monthStarts_def upt_rec)
qed

lemma dayOfMonth_bounds:
  assumes "0 \<le> n" "n < (if leap then 366 else 365)"
  shows "0 \<le> n - monthStart leap (monthOfYearDay leap n)" "n - monthStart leap (monthOfYearDay leap n) < 31"
proof -
  let ?m = "monthOfYearDay leap n"
  show "0 \<le> n - monthStart leap ?m" using monthStart_le [OF assms(1)] by simp
  show "n - monthStart leap ?m < 31"
  proof (cases "?m < 11")
    case True
    then show ?thesis using monthStart_next [OF True] month_lengths [OF True, of leap] by linarith
  next
    case False
    then have "?m = 11" using monthOfYearDay_less [of leap n] by linarith
    then show ?thesis using assms(2) by (cases leap) (simp_all add: monthStart_def monthStarts_def)
  qed
qed

lemma utcDate_bounds: "1 \<le> utcDate (utcFields t)" "utcDate (utcFields t) \<le> 31"
proof -
  let ?d = "t div msPerDay" let ?y = "yearOfDay ?d" let ?n = "?d - dayFromYear ?y"
  have "0 \<le> ?n" "?n < (if isLeapYear ?y then 366 else 365)"
    using yearOfDay_bounds [of ?d] dayFromYear_step [of ?y] by (simp_all split: if_splits)
  from dayOfMonth_bounds [OF this] show "1 \<le> utcDate (utcFields t)" "utcDate (utcFields t) \<le> 31"
    by (simp_all add: utcFields_def Let_def)
qed

lemma utcMonth_bound: "utcMonth (utcFields t) < 12"
  by (simp add: utcFields_def Let_def monthOfYearDay_less)

lemma msPerDay_pos [simp]: "0 < msPerDay" by (simp add: msPerDay_def)

lemma utcClock_bounds:
  "0 \<le> utcHours (utcFields t)" "utcHours (utcFields t) \<le> 23"
  "0 \<le> utcMinutes (utcFields t)" "utcMinutes (utcFields t) \<le> 59"
  "0 \<le> utcSeconds (utcFields t)" "utcSeconds (utcFields t) \<le> 59"
proof -
  have s: "0 \<le> t mod msPerDay" "t mod msPerDay < 86400000" by (simp_all add: msPerDay_def)
  have "t mod msPerDay div 3600000 \<le> 86399999 div 3600000" using s by (intro zdiv_mono1) simp_all
  then show "utcHours (utcFields t) \<le> 23" by (simp add: utcFields_def Let_def)
  show "0 \<le> utcHours (utcFields t)" using s(1) by (simp add: utcFields_def Let_def pos_imp_zdiv_nonneg_iff)
  have "a mod 60 \<le> 59" for a :: int using pos_mod_bound [of 60 a] by simp
  then show "0 \<le> utcMinutes (utcFields t)" "utcMinutes (utcFields t) \<le> 59"
    "0 \<le> utcSeconds (utcFields t)" "utcSeconds (utcFields t) \<le> 59"
    by (simp_all add: utcFields_def Let_def)
qed

lemma dayFromYear_mono: "y \<le> z \<Longrightarrow> dayFromYear y \<le> dayFromYear z"
  using dayFromYear_less [of y z] by (cases "y = z") simp_all

lemma utcYear_range:
  assumes "dayFromYear a * msPerDay \<le> t" "t < dayFromYear b * msPerDay"
  shows "a \<le> utcYear (utcFields t)" "utcYear (utcFields t) < b"
proof -
  let ?d = "t div msPerDay"
  have "dayFromYear a * msPerDay div msPerDay \<le> ?d" using assms(1) by (rule zdiv_mono1) simp
  then have "dayFromYear a < dayFromYear (yearOfDay ?d + 1)" using yearOfDay_bounds(2) [of ?d] by (simp add: msPerDay_def)
  then show "a \<le> utcYear (utcFields t)"
    using dayFromYear_mono [of "yearOfDay ?d + 1" a] by (cases "yearOfDay ?d + 1 \<le> a") (simp_all add: utcFields_def Let_def)
  have "?d * msPerDay \<le> t" using div_mult_mod_eq [of t msPerDay] pos_mod_sign [OF msPerDay_pos, of t] by linarith
  then have "?d * msPerDay < dayFromYear b * msPerDay" using assms(2) by linarith
  then have "?d < dayFromYear b" by (rule mult_right_less_imp_less) (simp add: msPerDay_def)
  then show "utcYear (utcFields t) < b"
    using dayFromYear_mono [of b "yearOfDay ?d"] yearOfDay_bounds(1) [of ?d]
    by (cases "b \<le> yearOfDay ?d") (simp_all add: utcFields_def Let_def)
qed

lemma fields_le:
  assumes "t \<le> t'"
  defines "f \<equiv> utcFields t" and "f' \<equiv> utcFields t'"
  shows "utcYear f \<le> utcYear f'"
    and "utcYear f = utcYear f' \<Longrightarrow> utcMonth f \<le> utcMonth f'"
    and "utcYear f = utcYear f' \<Longrightarrow> utcMonth f = utcMonth f' \<Longrightarrow> utcDate f \<le> utcDate f'"
    and "utcYear f = utcYear f' \<Longrightarrow> utcMonth f = utcMonth f' \<Longrightarrow> utcDate f = utcDate f' \<Longrightarrow> utcHours f \<le> utcHours f'"
    and "utcYear f = utcYear f' \<Longrightarrow> utcMonth f = utcMonth f' \<Longrightarrow> utcDate f = utcDate f' \<Longrightarrow> utcHours f = utcHours f' \<Longrightarrow>
      utcMinutes f \<le> utcMinutes f'"
    and "utcYear f = utcYear f' \<Longrightarrow> utcMonth f = utcMonth f' \<Longrightarrow> utcDate f = utcDate f' \<Longrightarrow> utcHours f = utcHours f' \<Longrightarrow>
      utcMinutes f = utcMinutes f' \<Longrightarrow> utcSeconds f \<le> utcSeconds f'"
proof -
  let ?d = "t div msPerDay" and ?d' = "t' div msPerDay"
  let ?s = "t mod msPerDay" and ?s' = "t' mod msPerDay"
  have d: "?d \<le> ?d'" using assms(1) by (rule zdiv_mono1) simp
  show "utcYear f \<le> utcYear f'" using yearOfDay_mono [OF d] by (simp add: f_def f'_def utcFields_def Let_def)
  have month: "monthOfYearDay l (?d - k) \<le> monthOfYearDay l (?d' - k)" for l k
    using d by (intro monthOfYearDay_mono) simp
  show "utcYear f = utcYear f' \<Longrightarrow> utcMonth f \<le> utcMonth f'"
    using month by (simp add: f_def f'_def utcFields_def Let_def)
  show "utcYear f = utcYear f' \<Longrightarrow> utcMonth f = utcMonth f' \<Longrightarrow> utcDate f \<le> utcDate f'"
    using d by (simp add: f_def f'_def utcFields_def Let_def)
  have s: "?s \<le> ?s'" if "utcYear f = utcYear f'" "utcMonth f = utcMonth f'" "utcDate f = utcDate f'"
  proof -
    have "?d = ?d'" using that by (simp add: f_def f'_def utcFields_def Let_def)
    then have "?d * msPerDay = ?d' * msPerDay" by simp
    then show ?thesis using assms(1) div_mult_mod_eq [of t msPerDay] div_mult_mod_eq [of t' msPerDay] by linarith
  qed
  have q: "?s div k \<le> ?s' div k" if "?s \<le> ?s'" "0 < k" for k using that by (rule zdiv_mono1)
  have m: "?s div k mod 60 \<le> ?s' div k mod 60" if "?s \<le> ?s'" "0 < k" "?s div k div 60 = ?s' div k div 60" for k
    using q [OF that(1,2)] that(3) div_mult_mod_eq [of "?s div k" 60] div_mult_mod_eq [of "?s' div k" 60] by linarith
  show "utcYear f = utcYear f' \<Longrightarrow> utcMonth f = utcMonth f' \<Longrightarrow> utcDate f = utcDate f' \<Longrightarrow> utcHours f \<le> utcHours f'"
    using q [OF s, of 3600000] by (simp add: f_def f'_def utcFields_def Let_def)
  have e: "a div 60000 div 60 = a div 3600000" "a div 1000 div 60 = a div 60000" for a :: int
    by (simp_all add: zdiv_zmult2_eq [symmetric])
  have s60: "a div 60000 = b div 60000"
    if "a div 3600000 = b div 3600000" "a div 60000 mod 60 = b div 60000 mod 60" for a b :: int
    by (metis div_mult_mod_eq e(1) that)
  show "utcMinutes f \<le> utcMinutes f'"
    if y: "utcYear f = utcYear f'" and mo: "utcMonth f = utcMonth f'" and da: "utcDate f = utcDate f'" and h: "utcHours f = utcHours f'"
  proof -
    have "?s div 60000 div 60 = ?s' div 60000 div 60"
      using h unfolding e by (simp only: f_def f'_def utcFields_def Let_def utc_fields.simps)
    from m [OF s [OF y mo da] _ this] show ?thesis
      unfolding f_def f'_def utcFields_def Let_def utc_fields.simps by (simp only: zero_less_numeral)
  qed
  assume y: "utcYear f = utcYear f'" and mo: "utcMonth f = utcMonth f'" and da: "utcDate f = utcDate f'"
    and h: "utcHours f = utcHours f'" and mi: "utcMinutes f = utcMinutes f'"
  have "?s div 3600000 = ?s' div 3600000" using h by (simp only: f_def f'_def utcFields_def Let_def utc_fields.simps)
  moreover have "?s div 60000 mod 60 = ?s' div 60000 mod 60"
    using mi by (simp only: f_def f'_def utcFields_def Let_def utc_fields.simps)
  ultimately have "?s div 1000 div 60 = ?s' div 1000 div 60" unfolding e by (rule s60)
  from m [OF s [OF y mo da] _ this] have "?s div 1000 mod 60 \<le> ?s' div 1000 mod 60" by (simp only: zero_less_numeral)
  then show "utcSeconds f \<le> utcSeconds f'" by (simp only: f_def f'_def utcFields_def Let_def utc_fields.simps)
qed

lemma utcClock_of:
  assumes "0 \<le> h" "h \<le> 23" "0 \<le> mi" "mi \<le> 59" "0 \<le> s" "s \<le> 59"
    and t: "t = d * msPerDay + h * 3600000 + mi * 60000 + s * 1000"
  shows "utcHours (utcFields t) = h" "utcMinutes (utcFields t) = mi" "utcSeconds (utcFields t) = s"
proof -
  let ?r = "h * 3600000 + mi * 60000 + s * 1000"
  have r: "0 \<le> ?r" "?r < msPerDay" using assms(1-6) by (simp_all add: msPerDay_def)
  have "t = msPerDay * d + ?r" using t by simp
  then have m: "t mod msPerDay = ?r" using r by (intro int_mod_pos_eq [where q = d]) simp_all
  have q: "a div b = c" if "a = b * c + e" "0 \<le> e" "e < b" for a b c e :: int using that by (rule int_div_pos_eq)
  have "?r div 3600000 = h" by (rule q [where e = "mi * 60000 + s * 1000"]) (use assms(1-6) in simp_all)
  moreover have "?r div 60000 = h * 60 + mi" by (rule q [where e = "s * 1000"]) (use assms(1-6) in simp_all)
  moreover have "?r div 1000 = (h * 60 + mi) * 60 + s" by (rule q [where e = 0]) simp_all
  moreover have "(h * 60 + mi) mod 60 = mi" by (rule int_mod_pos_eq [where q = h]) (use assms(1-6) in simp_all)
  moreover have "((h * 60 + mi) * 60 + s) mod 60 = s"
    by (rule int_mod_pos_eq [where q = "h * 60 + mi"]) (use assms(1-6) in simp_all)
  ultimately show "utcHours (utcFields t) = h" "utcMinutes (utcFields t) = mi" "utcSeconds (utcFields t) = s"
    unfolding utcFields_def Let_def m utc_fields.simps by (simp_all only:)
qed

end
