(* ===== verification/LedgerModel.thy ===== *)
theory LedgerModel
  imports JsDate EpayProtocol ReconRows "HOL-Library.Monad_Syntax"
begin

text \<open>
  The pure part of the ledger (\<^verbatim>\<open>ledger/model.ts\<close>): the provider's timestamps and windows, the split
  of a window that is too dense for one page, the amount and direction of a statement line, and the
  fingerprints.  A line that cannot be normalised is a \<open>LedgerNormalizationError\<close> with the type of
  the conflict it becomes; every other throw is a \<open>LedgerFailure\<close>.
\<close>

subsection \<open>Types and errors\<close>

datatype ingest_run_status = RunRunning | RunCompleted | RunPartial | RunFailed

datatype ingest_scan_kind = NormalScan | Compensation10m | Compensation1h | Compensation1d

datatype ingest_scan_lane = NormalLane | CompensationLane

datatype ingest_segment_state = SegmentPending | SegmentSplit | SegmentComplete

datatype ledger_conflict_type =
    RawPageVariant
  | DuplicateExternalId
  | MissingExternalId
  | InvalidAmount
  | InvalidTimestamp
  | InvalidDirection
  | InvalidShape

fun conflictTypeText :: "ledger_conflict_type \<Rightarrow> string" where
  "conflictTypeText RawPageVariant = ''RAW_PAGE_VARIANT''"
| "conflictTypeText DuplicateExternalId = ''DUPLICATE_EXTERNAL_ID''"
| "conflictTypeText MissingExternalId = ''MISSING_EXTERNAL_ID''"
| "conflictTypeText InvalidAmount = ''INVALID_AMOUNT''"
| "conflictTypeText InvalidTimestamp = ''INVALID_TIMESTAMP''"
| "conflictTypeText InvalidDirection = ''INVALID_DIRECTION''"
| "conflictTypeText InvalidShape = ''INVALID_SHAPE''"

datatype ledger_error =
    LedgerNormalizationError ledger_conflict_type string
  | LedgerConflictError string
  | LedgerFailure store_error

abbreviation ledgerRange :: "string \<Rightarrow> ledger_error" where
  "ledgerRange m \<equiv> LedgerFailure (RangeFailure m)"

definition ledgerMaxPageSize :: int where "ledgerMaxPageSize = 2000"

definition ledgerMaxOverlapMilliseconds :: int where
  "ledgerMaxOverlapMilliseconds = 7 * 24 * 60 * 60 * 1000"

subsection \<open>Reading a timestamp\<close>

text \<open>The pieces of the two regular expressions: \<open>\d{n}\<close>, one of some characters, and the optional fraction.\<close>

definition digitsAt :: "nat \<Rightarrow> jstr \<Rightarrow> (nat \<times> jstr) option" where
  "digitsAt n s =
     (if n \<le> length s \<and> list_all isDigitUnit (take n s) then Some (digitsValue (take n s), drop n s) else None)"

definition unitAt :: "string \<Rightarrow> jstr \<Rightarrow> jstr option" where
  "unitAt cs s = (case s of [] \<Rightarrow> None | u # r \<Rightarrow> if u \<in> set (js cs) then Some r else None)"

definition fractionAt :: "jstr \<Rightarrow> jstr option \<times> jstr" where
  "fractionAt s =
     (let ds = takeWhile isDigitUnit (take 3 (drop 1 s))
      in if unitAt ''.'' s \<noteq> None \<and> ds \<noteq> [] then (Some ds, drop (Suc (length ds)) s) else (None, s))"

record clock_text =
  clockYear :: nat
  clockMonth :: nat
  clockDay :: nat
  clockHour :: nat
  clockMinute :: nat
  clockSecond :: nat
  clockFraction :: "jstr option"

definition clockAt :: "string \<Rightarrow> jstr \<Rightarrow> (clock_text \<times> jstr) option" where
  "clockAt separators s0 = do {
     (year, s1) \<leftarrow> digitsAt 4 s0;
     s2 \<leftarrow> unitAt ''-'' s1;
     (month, s3) \<leftarrow> digitsAt 2 s2;
     s4 \<leftarrow> unitAt ''-'' s3;
     (day, s5) \<leftarrow> digitsAt 2 s4;
     s6 \<leftarrow> unitAt separators s5;
     (hour, s7) \<leftarrow> digitsAt 2 s6;
     s8 \<leftarrow> unitAt '':'' s7;
     (minute, s9) \<leftarrow> digitsAt 2 s8;
     s10 \<leftarrow> unitAt '':'' s9;
     (second, s11) \<leftarrow> digitsAt 2 s10;
     let (fraction, s12) = fractionAt s11;
     Some (\<lparr>clockYear = year, clockMonth = month, clockDay = day, clockHour = hour, clockMinute = minute,
            clockSecond = second, clockFraction = fraction\<rparr>, s12)
   }"

text \<open>The zone of a zoned timestamp: \<open>Z\<close>, or a sign with hours and minutes.\<close>

datatype clock_zone = ZoneZ | ZoneOffset bool nat nat

definition zoneAt :: "jstr \<Rightarrow> clock_zone option" where
  "zoneAt s =
     (if s = js ''Z'' then Some ZoneZ
      else do {
        s1 \<leftarrow> unitAt ''+-'' s;
        (hours, s2) \<leftarrow> digitsAt 2 s1;
        s3 \<leftarrow> unitAt '':'' s2;
        (minutes, s4) \<leftarrow> digitsAt 2 s3;
        if s4 = [] then Some (ZoneOffset (s \<noteq> [] \<and> hd s = unitOf 0x2D) hours minutes) else None
      })"

definition localClock :: "jstr \<Rightarrow> clock_text option" where
  "localClock s = do { (c, rest) \<leftarrow> clockAt '' T'' s; if rest = [] then Some c else None }"

definition zonedClock :: "jstr \<Rightarrow> (clock_text \<times> clock_zone) option" where
  "zonedClock s = do { (c, rest) \<leftarrow> clockAt ''T'' s; z \<leftarrow> zoneAt rest; Some (c, z) }"

definition precisionFromFraction :: "jstr option \<Rightarrow> int" where
  "precisionFromFraction fraction =
     (case fraction of None \<Rightarrow> 1000 | Some ds \<Rightarrow> if length ds = 1 then 100 else if length ds = 2 then 10 else 1)"

definition fractionMilliseconds :: "jstr option \<Rightarrow> int" where
  "fractionMilliseconds fraction =
     (let ds = (case fraction of None \<Rightarrow> [] | Some ds \<Rightarrow> ds)
      in int (digitsValue (ds @ replicate (3 - length ds) 0x30)))"

abbreviation invalidTimestamp :: ledger_error where
  "invalidTimestamp \<equiv> LedgerNormalizationError InvalidTimestamp ''occurred time is invalid''"

definition zoneMinutes :: "clock_zone option \<Rightarrow> ledger_error + int" where
  "zoneMinutes zone =
     (case zone of
        None \<Rightarrow> Inr (8 * 60)
      | Some ZoneZ \<Rightarrow> Inr 0
      | Some (ZoneOffset negative hours minutes) \<Rightarrow>
          if 23 < hours \<or> 59 < minutes
          then Inl (LedgerNormalizationError InvalidTimestamp ''occurred time offset is invalid'')
          else Inr ((if negative then -1 else 1) * (int hours * 60 + int minutes)))"

text \<open>The year, month and day the calendar reads back are those of the text.\<close>

definition clockTime :: "clock_text \<Rightarrow> int" where
  "clockTime c = dateUTC (int (clockYear c)) (int (clockMonth c) - 1) (int (clockDay c)) (int (clockHour c))
     (int (clockMinute c)) (int (clockSecond c)) (fractionMilliseconds (clockFraction c))"

definition clockValid :: "clock_text \<Rightarrow> bool" where
  "clockValid c \<longleftrightarrow>
     (let f = utcFields (clockTime c)
      in 1 \<le> clockMonth c \<and> clockMonth c \<le> 12 \<and> clockHour c \<le> 23 \<and> clockMinute c \<le> 59 \<and> clockSecond c \<le> 59 \<and>
         utcYear f = int (clockYear c) \<and> int (utcMonth f) = int (clockMonth c) - 1 \<and> utcDate f = int (clockDay c))"

definition parseClock :: "clock_text \<Rightarrow> clock_zone option \<Rightarrow> ledger_error + int \<times> int" where
  "parseClock c zone =
     (if zone = None \<and> clockYear c < 2000 \<or> \<not> clockValid c then Inl invalidTimestamp
      else bindR (zoneMinutes zone) (\<lambda>offset.
        let milliseconds = clockTime c - offset * 60000; precision = precisionFromFraction (clockFraction c)
        in if isSafeInteger milliseconds \<and> 0 \<le> milliseconds \<and> isSafeInteger (milliseconds + precision)
           then Inr (milliseconds, precision) else Inl invalidTimestamp))"

definition parseOccurredAtWithPrecision :: "jstr option \<Rightarrow> ledger_error + int \<times> int" where
  "parseOccurredAtWithPrecision value =
     (case value of
        None \<Rightarrow> Inl (LedgerNormalizationError InvalidTimestamp ''occurred time is missing'')
      | Some text \<Rightarrow>
          let trimmed = trim text
          in if trimmed = [] then Inl (LedgerNormalizationError InvalidTimestamp ''occurred time is missing'')
             else case localClock trimmed of
               Some c \<Rightarrow> parseClock c None
             | None \<Rightarrow> (case zonedClock trimmed of
                 Some (c, z) \<Rightarrow> parseClock c (Some z)
               | None \<Rightarrow> Inl invalidTimestamp))"

definition parseOccurredAt :: "jstr option \<Rightarrow> ledger_error + int" where
  "parseOccurredAt value = bindR (parseOccurredAtWithPrecision value) (\<lambda>(milliseconds, _). Inr milliseconds)"

text \<open>\<open>\d{4}-\d{2}-\d{2} \d{2}:\d{2}:\d{2}\<close>, and the time it names exists.\<close>

definition providerClock :: "jstr \<Rightarrow> clock_text option" where
  "providerClock s = do {
     (c, rest) \<leftarrow> clockAt '' '' s;
     if rest = [] \<and> clockFraction c = None then Some c else None
   }"

definition isProviderTimestamp :: "jstr \<Rightarrow> bool" where
  "isProviderTimestamp value \<longleftrightarrow> providerClock value \<noteq> None \<and> \<not> isl (parseOccurredAt (Some value))"

subsection \<open>Writing a timestamp\<close>

text \<open>A \<^verbatim>\<open>Date\<close> outside 8.64e15 milliseconds is invalid and its fields are \<open>NaN\<close>.\<close>

definition localTimeText :: "int \<Rightarrow> jstr" where
  "localTimeText time =
     (if \<bar>time\<bar> > 8640000000000000 then js ''NaN-NaN-NaN NaN:NaN:NaN''
      else let f = utcFields time; pad = (\<lambda>n. padStart2 (decimal n))
        in decimal (utcYear f) @ js ''-'' @ pad (int (utcMonth f) + 1) @ js ''-'' @ pad (utcDate f) @ js '' '' @
           pad (utcHours f) @ js '':'' @ pad (utcMinutes f) @ js '':'' @ pad (utcSeconds f))"

definition formatProviderTimestamp :: "int \<Rightarrow> ledger_error + jstr" where
  "formatProviderTimestamp milliseconds =
     (if \<not> isSafeInteger milliseconds \<or> milliseconds < 0 \<or> milliseconds mod 1000 \<noteq> 0
      then Inl (ledgerRange ''provider timestamp is invalid'')
      else Inr (localTimeText (milliseconds + 8 * 60 * 60 * 1000)))"

subsection \<open>Windows\<close>

record ledger_window =
  windowFrom :: jstr
  windowUntil :: jstr

text \<open>JavaScript compares strings by their code units.\<close>

definition validateWindow :: "ledger_window \<Rightarrow> ledger_error + unit" where
  "validateWindow window =
     bindR (assertR (isProviderTimestamp (windowFrom window) \<and> isProviderTimestamp (windowUntil window))
       (ledgerRange ''ledger window is invalid'')) (\<lambda>_.
     assertR (windowFrom window < windowUntil window)
       (ledgerRange ''ledger window start must be earlier than its end''))"

record split_window =
  splitPoint :: jstr
  leftWindow :: ledger_window
  rightWindow :: ledger_window

definition splitLedgerWindow :: "ledger_window \<Rightarrow> ledger_error + split_window option" where
  "splitLedgerWindow window =
     bindR (validateWindow window) (\<lambda>_.
     bindR (parseOccurredAt (Some (windowFrom window))) (\<lambda>start.
     bindR (parseOccurredAt (Some (windowUntil window))) (\<lambda>until.
     if until - start \<le> 1000 then Inr None
     else let midpoint = (start + until) div 2000 * 1000
       in if midpoint \<le> start \<or> until \<le> midpoint then Inr None
          else bindR (formatProviderTimestamp midpoint) (\<lambda>splitAt.
            Inr (Some \<lparr>splitPoint = splitAt,
              leftWindow = \<lparr>windowFrom = windowFrom window, windowUntil = splitAt\<rparr>,
              rightWindow = \<lparr>windowFrom = splitAt, windowUntil = windowUntil window\<rparr>\<rparr>)))))"

definition validateOverlapMilliseconds :: "int \<Rightarrow> ledger_error + unit" where
  "validateOverlapMilliseconds overlap =
     assertR (isSafeInteger overlap \<and> \<not> overlap < 0 \<and> \<not> ledgerMaxOverlapMilliseconds < overlap)
       (ledgerRange ''ledger overlap is invalid'')"

definition validatePageSize :: "int \<Rightarrow> ledger_error + unit" where
  "validatePageSize pageSize =
     assertR (isSafeInteger pageSize \<and> \<not> pageSize < 1 \<and> \<not> ledgerMaxPageSize < pageSize)
       (ledgerRange ''ledger page size is invalid'')"

definition rewindProviderWindowStart :: "jstr \<Rightarrow> int \<Rightarrow> int option \<Rightarrow> ledger_error + jstr" where
  "rewindProviderWindowStart windowStart overlapMilliseconds lastEventOccurredAt =
     bindR (validateOverlapMilliseconds overlapMilliseconds) (\<lambda>_.
     bindR (parseOccurredAt (Some windowStart)) (\<lambda>start.
     let pivot = (case lastEventOccurredAt of Some at' \<Rightarrow> at' | None \<Rightarrow> start)
     in if \<not> isSafeInteger pivot \<or> pivot < 0 then Inl (ledgerRange ''ledger overlap pivot is invalid'')
        else Inr (localTimeText (max 0 (pivot - overlapMilliseconds) + 8 * 60 * 60 * 1000))))"

subsection \<open>Amounts and directions\<close>

definition parseAmountCents :: "jstr option \<Rightarrow> ledger_error + int" where
  "parseAmountCents value =
     (case value of
        None \<Rightarrow> Inl (LedgerNormalizationError InvalidAmount ''amount is missing'')
      | Some v \<Rightarrow>
          let text = trim v;
              unsigned = (case unitAt ''+-'' text of Some r \<Rightarrow> r | None \<Rightarrow> text);
              whole = takeWhile isDigitUnit unsigned; rest = dropWhile isDigitUnit unsigned; fraction = drop 1 rest
          in if (whole = js ''0'' \<or> whole \<noteq> [] \<and> hd whole \<noteq> 0x30 \<and> length whole \<le> 12) \<and>
                (rest = [] \<or> hd rest = 0x2E \<and> 1 \<le> length fraction \<and> length fraction \<le> 2 \<and> list_all isDigitUnit fraction)
             then let cents = int (digitsValue whole) * 100 +
                              int (digitsValue (fraction @ replicate (2 - length fraction) 0x30))
                  in if \<not> isSafeInteger cents \<or> cents < 1 \<or> cents > 999999999999
                     then Inl (LedgerNormalizationError InvalidAmount ''amount is outside the supported range'')
                     else Inr cents
             else Inl (LedgerNormalizationError InvalidAmount ''amount is not a supported CNY decimal''))"

text \<open>
  \<^verbatim>\<open>toUpperCase\<close> as far as the comparison can see it: the letters \<open>a\<close> to \<open>z\<close>, and the two
  other characters whose upper case is an ASCII letter (dotless i and long s).  No other character
  has an upper case that occurs in the accepted words.
\<close>

definition upperUnit :: "16 word \<Rightarrow> 16 word" where
  "upperUnit u =
     (if 0x61 \<le> unat u \<and> unat u \<le> 0x7A then u - 0x20 else if u = 0x131 then 0x49 else if u = 0x17F then 0x53 else u)"

definition creditWords :: "jstr list" where
  "creditWords = map js [''CREDIT'', ''IN'', ''INCOME'', ''RECEIVE'', ''RECEIVED''] @
     [[0x6536, 0x5165], [0x6536, 0x6B3E], [0x8F6C, 0x5165]]"

definition debitWords :: "jstr list" where
  "debitWords = map js [''DEBIT'', ''OUT'', ''EXPENSE'', ''PAY'', ''PAID''] @
     [[0x652F, 0x51FA], [0x4ED8, 0x6B3E], [0x8F6C, 0x51FA]]"

definition parseDirection :: "jstr option \<Rightarrow> ledger_error + ledger_direction" where
  "parseDirection value =
     (case value of
        None \<Rightarrow> Inl (LedgerNormalizationError InvalidDirection ''direction is missing'')
      | Some v \<Rightarrow>
          let normalized = map upperUnit (trim v)
          in if normalized \<in> set creditWords then Inr CREDIT
             else if normalized \<in> set debitWords then Inr DEBIT
             else Inl (LedgerNormalizationError InvalidDirection ''direction is invalid''))"

end
