(* ===== verification/LedgerRows.thy ===== *)
theory LedgerRows
  imports LedgerModel
begin

text \<open>
  The tables of the ledger (\<^verbatim>\<open>database/migrations.ts\<close>, versions 5, 13, 14 and 19) as row lists, the
  environment of the store, and the constraints and triggers an INSERT has to pass.  UPDATE and
  DELETE triggers protect columns the store never changes; the length checks of text columns that
  the code has already bounded are left out.
\<close>

subsection \<open>Rows\<close>

record provider_binding =
  bindingKey :: string
  bindingKind :: string
  bindingEndpoint :: jstr
  bindingAccountId :: jstr
  bindingVersion :: int
  bindingFingerprint :: string
  boundAt :: int

datatype activation_reason = MigrationReason | ConfigSync

record provider_activation =
  activationId :: string
  activationSequence :: int
  activationKey :: string
  activationPrevious :: "string option"
  activatedAt :: int
  activationReason :: activation_reason

record ingest_run =
  runId :: string
  runProviderKey :: string
  runWindow :: ledger_window
  runPageSize :: int
  runScanKind :: ingest_scan_kind
  runStatus :: ingest_run_status
  runStartedAt :: int
  runCompletedAt :: "int option"
  runPagesReceived :: int
  runDetailsReceived :: int
  runFailureCode :: "string option"

record ingest_segment =
  segmentId :: string
  segmentRunId :: string
  segmentParent :: "string option"
  segmentWindow :: ledger_window
  segmentDepth :: int
  segmentState :: ingest_segment_state
  segmentSplitAt :: "jstr option"
  segmentPage :: "string option"
  segmentCreatedAt :: int
  segmentCompletedAt :: "int option"

record raw_page =
  rawPageId :: string
  pageRunId :: string
  pageProviderKey :: string
  pageWindow :: ledger_window
  pageNumber :: int
  pageSizeOf :: int
  pageTotalSize :: int
  pageHasMore :: bool
  pageRequestHash :: string
  pageResponseHash :: string
  pageHttpStatus :: int
  pageHeadersJson :: jstr
  pageBody :: "nat list"
  pageTraceId :: "jstr option"
  pageVerified :: bool
  pageReceivedAt :: int

datatype observation_kind = OversizedProbe | AcceptedLeaf

datatype observation_disposition = Processed | RejectedVariant

record page_observation =
  observationRunId :: string
  observationSegmentId :: string
  observationPageId :: string
  observationAttempt :: int
  observationKind :: observation_kind
  observationStatus :: int
  observationHeadersJson :: jstr
  observationTraceId :: "jstr option"
  observationVerified :: bool
  observedAt :: int
  observationDisposition :: observation_disposition
  observationSequence :: int

record event_texts =
  externalEventId :: "jstr option"
  occurredAtText :: "jstr option"
  amountText :: "jstr option"
  directionText :: "jstr option"
  alipayOrderNo :: "jstr option"
  merchantOrderNo :: "jstr option"
  transMemo :: "jstr option"
  otherAccount :: "jstr option"

record raw_event =
  rawEventId :: string
  eventPageId :: string
  eventProviderKey :: string
  eventOrdinal :: nat
  eventTexts :: event_texts
  eventPayloadHash :: string
  eventPayload :: "nat list"
  eventObservedAt :: int

text \<open>A ledger entry, with the columns the reconciliation does not read.\<close>

record ingested_entry = ledger_entry +
  entryRawEventId :: string
  entryExternalId :: jstr
  entryAlipayOrderNo :: "jstr option"
  entryMerchantOrderNo :: "jstr option"
  entryTransMemo :: "jstr option"
  entryOtherAccount :: "jstr option"
  entryCreatedAt :: int

datatype ingest_conflict_status = ConflictOpen | ConflictResolved | ConflictIgnored

record ingest_conflict =
  conflictId :: string
  conflictProviderKey :: string
  conflictType :: ledger_conflict_type
  conflictPageId :: "string option"
  conflictEventId :: "string option"
  conflictLedgerEntryId :: "string option"
  conflictExternalId :: "jstr option"
  conflictExistingFingerprint :: "string option"
  conflictIncomingFingerprint :: "string option"
  conflictDetails :: json
  conflictStatus :: ingest_conflict_status
  conflictResolution :: "json option"
  conflictOperationOf :: "string option"
  conflictResolutionFingerprint :: "string option"
  conflictCreatedAt :: int
  conflictResolvedAt :: "int option"
  conflictFingerprintOf :: string

datatype conflict_action = ConfirmVariant | KeepExisting | AcknowledgeIsolated

datatype conflict_actor = SystemActor | AdminActor

record conflict_request =
  requestConflictId :: string
  requestAction :: conflict_action
  requestActorType :: conflict_actor
  requestActorId :: "jstr option"
  requestReason :: jstr

record conflict_operation =
  conflictOperationId :: string
  conflictOperationKey :: string
  conflictOperationFingerprint :: string
  conflictOperationRequest :: conflict_request
  conflictOperationAt :: int

record ingest_error =
  ingestErrorId :: string
  errorRunId :: string
  errorProviderKey :: string
  errorPageNo :: "int option"
  errorKind :: string
  errorCode :: string
  errorRetryable :: bool
  errorEvidence :: "(int \<times> jstr \<times> nat list \<times> string \<times> jstr option \<times> bool option) option"
  errorDetails :: json
  errorOccurredAt :: int

record ledger_cursor =
  cursorKey :: string
  cursorLane :: ingest_scan_lane
  cursorWindow :: ledger_window
  cursorNextPage :: "int option"
  cursorPageSize :: int
  cursorScanKind :: ingest_scan_kind
  cursorOverlap :: int
  cursorComplete :: bool
  cursorLastEvent :: "int option"
  cursorLastCompleted :: "int option"
  cursorUpdatedAt :: int
  cursorVersion :: int

record compensation_state =
  compensationKey :: string
  next10mAt :: int
  next1hAt :: int
  next1dAt :: int
  compensationUpdatedAt :: int

record schedule_state =
  scheduleKey :: string
  consecutiveFailures :: int
  cooldownUntil :: int
  lastErrorCode :: string
  scheduleRetryable :: bool
  scheduleUpdatedAt :: int

record conflict_audit =
  auditOperationId :: string
  auditConflictId :: string
  auditActionOf :: conflict_action
  auditAtTime :: int
  auditRequestId :: "jstr option"
  auditAddressHash :: "string option"

text \<open>\<^verbatim>\<open>alipay_accounts\<close> is another store's table; the ledger only looks a provider key up in it.\<close>

record ledger_db =
  providerBindings :: "provider_binding list"
  providerActivations :: "provider_activation list"
  accountKeys :: "string list"
  ingestRuns :: "ingest_run list"
  ingestSegments :: "ingest_segment list"
  rawPages :: "raw_page list"
  pageObservations :: "page_observation list"
  rawEvents :: "raw_event list"
  ingestedEntries :: "ingested_entry list"
  ingestConflicts :: "ingest_conflict list"
  conflictOperations :: "conflict_operation list"
  ingestErrors :: "ingest_error list"
  ledgerCursors :: "ledger_cursor list"
  compensationStates :: "compensation_state list"
  scheduleStates :: "schedule_state list"
  conflictAudits :: "conflict_audit list"

text \<open>
  \<open>randomUUID()\<close> is \<open>uuidFor\<close> of the table and its row count, \<open>Date.now()\<close> the clock,
  \<open>collationRank\<close> the order of \<^verbatim>\<open>localeCompare\<close>.
\<close>

datatype ledger_id_use =
    ForActivation
  | ForRun
  | ForSegment
  | ForRawPage
  | ForRawEvent
  | ForLedgerEntry
  | ForLedgerConflict
  | ForConflictOperation
  | ForIngestError

record ledger_env =
  ledgerSha :: "nat list \<Rightarrow> string"
  ledgerClock :: int
  uuidFor :: "ledger_id_use \<Rightarrow> nat \<Rightarrow> string"
  ledgerUrls :: url_env
  collationRank :: "jstr \<Rightarrow> nat"

abbreviation ledgerThrow :: "string \<Rightarrow> ledger_error" where
  "ledgerThrow m \<equiv> LedgerFailure (Failure m)"

abbreviation ledgerAbort :: "string \<Rightarrow> ledger_error" where
  "ledgerAbort m \<equiv> LedgerFailure (SqlAbort m)"

fun scanLaneForKind :: "ingest_scan_kind \<Rightarrow> ingest_scan_lane" where
  "scanLaneForKind NormalScan = NormalLane"
| "scanLaneForKind _ = CompensationLane"

subsection \<open>Runs and segments\<close>

definition insertRun :: "ingest_run \<Rightarrow> ledger_db \<Rightarrow> ledger_error + ledger_db" where
  "insertRun row db =
     bindR (assertR (length (runId row) = 36 \<and> 1 \<le> runPageSize row \<and> runPageSize row \<le> 2000 \<and> 0 \<le> runStartedAt row)
       (ledgerAbort ''CHECK ingest_runs'')) (\<lambda>_.
     bindR (assertR (\<not> list_ex (\<lambda>r. runId r = runId row) (ingestRuns db)) (ledgerAbort ''UNIQUE ingest_runs.ingest_run_id'')) (\<lambda>_.
     bindR (assertR (\<not> (runStatus row = RunRunning \<and>
         list_ex (\<lambda>r. runStatus r = RunRunning \<and> runProviderKey r = runProviderKey row \<and>
           scanLaneForKind (runScanKind r) = scanLaneForKind (runScanKind row)) (ingestRuns db)))
       (ledgerAbort ''UNIQUE ingest_runs_one_running_lane'')) (\<lambda>_.
     Inr (db\<lparr>ingestRuns := ingestRuns db @ [row]\<rparr>))))"

definition segmentBelongs :: "ledger_db \<Rightarrow> ingest_segment \<Rightarrow> bool" where
  "segmentBelongs db row \<longleftrightarrow>
     list_ex (\<lambda>run. runId run = segmentRunId row \<and>
       (case segmentParent row of
          None \<Rightarrow> segmentWindow row = runWindow run \<and> segmentDepth row = 0
        | Some parent \<Rightarrow>
            list_ex (\<lambda>p. segmentId p = parent \<and> segmentRunId p = segmentRunId row \<and> segmentState p = SegmentSplit \<and>
              segmentDepth row = segmentDepth p + 1 \<and>
              windowFrom (segmentWindow p) \<le> windowFrom (segmentWindow row) \<and>
              windowUntil (segmentWindow row) \<le> windowUntil (segmentWindow p)) (ingestSegments db))) (ingestRuns db)"

definition insertSegment :: "ingest_segment \<Rightarrow> ledger_db \<Rightarrow> ledger_error + ledger_db" where
  "insertSegment row db =
     bindR (assertR (segmentBelongs db row) (ledgerAbort ''ingest segment must belong to its run and parent window'')) (\<lambda>_.
     bindR (assertR (length (segmentId row) = 36 \<and> 0 \<le> segmentDepth row \<and> segmentDepth row \<le> 63 \<and>
         windowFrom (segmentWindow row) < windowUntil (segmentWindow row) \<and> 0 \<le> segmentCreatedAt row)
       (ledgerAbort ''CHECK ingest_segments'')) (\<lambda>_.
     bindR (assertR (\<not> list_ex (\<lambda>s. segmentId s = segmentId row) (ingestSegments db))
       (ledgerAbort ''UNIQUE ingest_segments.ingest_segment_id'')) (\<lambda>_.
     bindR (assertR (\<not> list_ex (\<lambda>s. segmentRunId s = segmentRunId row \<and> segmentWindow s = segmentWindow row) (ingestSegments db))
       (ledgerAbort ''UNIQUE ingest_segments.ingest_run_id, window_start, window_end'')) (\<lambda>_.
     bindR (assertR (\<not> (segmentParent row = None \<and>
         list_ex (\<lambda>s. segmentRunId s = segmentRunId row \<and> segmentParent s = None) (ingestSegments db)))
       (ledgerAbort ''UNIQUE ingest_segments_one_root'')) (\<lambda>_.
     Inr (db\<lparr>ingestSegments := ingestSegments db @ [row]\<rparr>))))))"

subsection \<open>Pages, observations and events\<close>

definition insertRawPage :: "raw_page \<Rightarrow> ledger_db \<Rightarrow> ledger_error + ledger_db" where
  "insertRawPage row db =
     bindR (assertR (list_ex (\<lambda>r. runId r = pageRunId row \<and> runProviderKey r = pageProviderKey row \<and> runPageSize r = pageSizeOf row)
         (ingestRuns db)) (ledgerAbort ''provider raw page must match its originating run'')) (\<lambda>_.
     bindR (assertR (length (rawPageId row) = 36 \<and> 1 \<le> pageNumber row \<and> 0 \<le> pageTotalSize row \<and>
         isSha256Text (pageRequestHash row) \<and> isSha256Text (pageResponseHash row) \<and> length (pageBody row) \<le> 2097152 \<and>
         0 \<le> pageReceivedAt row) (ledgerAbort ''CHECK provider_raw_pages'')) (\<lambda>_.
     bindR (assertR (\<not> list_ex (\<lambda>p. rawPageId p = rawPageId row) (rawPages db))
       (ledgerAbort ''UNIQUE provider_raw_pages.raw_page_id'')) (\<lambda>_.
     bindR (assertR (\<not> list_ex (\<lambda>p. pageProviderKey p = pageProviderKey row \<and> pageRequestHash p = pageRequestHash row \<and>
         pageResponseHash p = pageResponseHash row) (rawPages db))
       (ledgerAbort ''UNIQUE provider_raw_pages.request_fingerprint, response_fingerprint'')) (\<lambda>_.
     Inr (db\<lparr>rawPages := rawPages db @ [row]\<rparr>)))))"

text \<open>\<open>COALESCE(MAX(x) + 1, 1)\<close> over the rows.\<close>

definition successorOf :: "int list \<Rightarrow> int" where
  "successorOf xs = (if xs = [] then 1 else foldr max xs (hd xs) + 1)"

definition observationsOfRequest :: "ledger_db \<Rightarrow> string \<Rightarrow> string \<Rightarrow> (page_observation \<times> raw_page) list" where
  "observationsOfRequest db key requestHash =
     concat (map (\<lambda>o'. map (Pair o') (filter (\<lambda>p. rawPageId p = observationPageId o' \<and> pageProviderKey p = key \<and>
       pageRequestHash p = requestHash) (rawPages db))) (pageObservations db))"

definition latestOf :: "(page_observation \<times> raw_page) list \<Rightarrow> (page_observation \<times> raw_page) option" where
  "latestOf rows =
     List.find (\<lambda>r. list_all (\<lambda>r'. observationSequence (fst r') \<le> observationSequence (fst r)) rows) rows"

definition observationMatches :: "ledger_db \<Rightarrow> page_observation \<Rightarrow> bool" where
  "observationMatches db row \<longleftrightarrow>
     list_ex (\<lambda>run. runId run = observationRunId row \<and>
       list_ex (\<lambda>s. segmentId s = observationSegmentId row \<and> segmentRunId s = runId run \<and>
         list_ex (\<lambda>p. rawPageId p = observationPageId row \<and> runProviderKey run = pageProviderKey p \<and>
           segmentWindow s = pageWindow p \<and> runPageSize run = pageSizeOf p \<and> pageNumber p = 1 \<and>
           observationStatus row = pageHttpStatus p \<and> observationVerified row \<and> pageVerified p \<and>
           (observationKind row = OversizedProbe \<longleftrightarrow> pageHasMore p)) (rawPages db)) (ingestSegments db)) (ingestRuns db)"

definition expectedDisposition :: "ledger_db \<Rightarrow> raw_page \<Rightarrow> observation_disposition" where
  "expectedDisposition db p =
     (case latestOf (observationsOfRequest db (pageProviderKey p) (pageRequestHash p)) of
        None \<Rightarrow> Processed
      | Some (_, previous) \<Rightarrow> if pageResponseHash previous = pageResponseHash p then Processed else RejectedVariant)"

definition variantEvidence :: "ledger_db \<Rightarrow> page_observation \<Rightarrow> bool" where
  "variantEvidence db row \<longleftrightarrow>
     list_ex (\<lambda>run. runId run = observationRunId row \<and> runStatus run = RunRunning \<and>
       list_ex (\<lambda>s. segmentId s = observationSegmentId row \<and> segmentRunId s = runId run \<and> segmentState s = SegmentPending)
         (ingestSegments db) \<and>
       list_ex (\<lambda>p. rawPageId p = observationPageId row \<and>
         list_ex (\<lambda>c. conflictPageId c = Some (rawPageId p) \<and> conflictProviderKey c = runProviderKey run \<and>
           conflictType c = RawPageVariant \<and> conflictIncomingFingerprint c = Some (pageResponseHash p) \<and>
           conflictExistingFingerprint c \<noteq> Some (pageResponseHash p)) (ingestConflicts db)) (rawPages db)) (ingestRuns db)"

definition insertObservation :: "page_observation \<Rightarrow> ledger_db \<Rightarrow> ledger_error + ledger_db" where
  "insertObservation row db =
     bindR (assertR (observationMatches db row) (ledgerAbort ''ingest page observation must match its run and page'')) (\<lambda>_.
     bindR (assertR (observationSequence row = successorOf (map observationSequence (pageObservations db)) \<and>
         observationAttempt row = successorOf (map observationAttempt
           (filter (\<lambda>o'. observationSegmentId o' = observationSegmentId row \<and> observationPageId o' = observationPageId row)
             (pageObservations db))))
       (ledgerAbort ''ingest page observation sequence or disposition is invalid'')) (\<lambda>_.
     bindR (assertR (list_all (\<lambda>p. rawPageId p = observationPageId row \<longrightarrow> observationDisposition row = expectedDisposition db p)
         (rawPages db)) (ledgerAbort ''ingest page observation transition is invalid'')) (\<lambda>_.
     bindR (assertR (observationDisposition row = RejectedVariant \<longrightarrow> variantEvidence db row)
       (ledgerAbort ''rejected provider variant lacks matching conflict evidence'')) (\<lambda>_.
     Inr (db\<lparr>pageObservations := pageObservations db @ [row]\<rparr>)))))"

definition insertEventRow :: "raw_event \<Rightarrow> ledger_db \<Rightarrow> ledger_error + ledger_db" where
  "insertEventRow row db =
     bindR (assertR (list_ex (\<lambda>p. rawPageId p = eventPageId row \<and> pageProviderKey p = eventProviderKey row) (rawPages db))
       (ledgerAbort ''provider raw event must share its page account'')) (\<lambda>_.
     bindR (assertR (list_ex (\<lambda>o'. observationPageId o' = eventPageId row \<and> observationKind o' = AcceptedLeaf \<and>
         observationDisposition o' = Processed) (pageObservations db))
       (ledgerAbort ''provider raw events require a processed accepted leaf'')) (\<lambda>_.
     bindR (assertR (length (rawEventId row) = 36 \<and> isSha256Text (eventPayloadHash row) \<and> length (eventPayload row) \<le> 524288 \<and>
         0 \<le> eventObservedAt row) (ledgerAbort ''CHECK provider_raw_events'')) (\<lambda>_.
     bindR (assertR (\<not> list_ex (\<lambda>e. rawEventId e = rawEventId row) (rawEvents db))
       (ledgerAbort ''UNIQUE provider_raw_events.raw_event_id'')) (\<lambda>_.
     bindR (assertR (\<not> list_ex (\<lambda>e. eventPageId e = eventPageId row \<and> eventOrdinal e = eventOrdinal row) (rawEvents db))
       (ledgerAbort ''UNIQUE provider_raw_events.raw_page_id, ordinal'')) (\<lambda>_.
     Inr (db\<lparr>rawEvents := rawEvents db @ [row]\<rparr>))))))"

subsection \<open>Entries and conflicts\<close>

definition insertEntryRow :: "ingested_entry \<Rightarrow> ledger_db \<Rightarrow> ledger_error + ledger_db" where
  "insertEntryRow row db =
     bindR (assertR (list_ex (\<lambda>e. rawEventId e = entryRawEventId row \<and> eventProviderKey e = entryProviderKey row \<and>
         externalEventId (eventTexts e) = Some (entryExternalId row)) (rawEvents db))
       (ledgerAbort ''normalized ledger entry must match its raw event identity'')) (\<lambda>_.
     bindR (assertR (length (ledgerEntryId row) = 36 \<and> isSha256Text (semanticFingerprint row) \<and> 0 \<le> entryOccurredAt row \<and>
         1 \<le> entryAmountCents row \<and> entryAmountCents row \<le> 999999999999 \<and> 0 \<le> entryCreatedAt row \<and>
         entryCreatedAt row \<le> entryUpdatedAt row) (ledgerAbort ''CHECK ledger_entries'')) (\<lambda>_.
     bindR (assertR (\<not> list_ex (\<lambda>e. ledgerEntryId e = ledgerEntryId row) (ingestedEntries db))
       (ledgerAbort ''UNIQUE ledger_entries.ledger_entry_id'')) (\<lambda>_.
     bindR (assertR (\<not> list_ex (\<lambda>e. entryRawEventId e = entryRawEventId row) (ingestedEntries db))
       (ledgerAbort ''UNIQUE ledger_entries.raw_event_id'')) (\<lambda>_.
     bindR (assertR (\<not> list_ex (\<lambda>e. entryProviderKey e = entryProviderKey row \<and> entryExternalId e = entryExternalId row)
         (ingestedEntries db)) (ledgerAbort ''UNIQUE ledger_entries.provider_account_key, external_event_id'')) (\<lambda>_.
     Inr (db\<lparr>ingestedEntries := ingestedEntries db @ [row]\<rparr>))))))"

definition optionIn :: "'a option \<Rightarrow> ('a \<Rightarrow> bool) \<Rightarrow> bool" where
  "optionIn x p \<longleftrightarrow> (case x of None \<Rightarrow> True | Some v \<Rightarrow> p v)"

definition insertConflictRow :: "ingest_conflict \<Rightarrow> ledger_db \<Rightarrow> ledger_error + ledger_db" where
  "insertConflictRow row db =
     bindR (assertR
         (optionIn (conflictPageId row) (\<lambda>i. list_ex (\<lambda>p. rawPageId p = i \<and> pageProviderKey p = conflictProviderKey row) (rawPages db)) \<and>
          optionIn (conflictEventId row) (\<lambda>i. list_ex (\<lambda>e. rawEventId e = i \<and> eventProviderKey e = conflictProviderKey row) (rawEvents db)) \<and>
          optionIn (conflictLedgerEntryId row) (\<lambda>i. list_ex (\<lambda>e. ledgerEntryId e = i \<and> entryProviderKey e = conflictProviderKey row)
            (ingestedEntries db)))
       (ledgerAbort ''ledger conflict references a different provider account'')) (\<lambda>_.
     bindR (assertR (length (conflictId row) = 36 \<and> jsonFits 8192 (conflictDetails row) \<and> 0 \<le> conflictCreatedAt row \<and>
         isSha256Text (conflictFingerprintOf row)) (ledgerAbort ''CHECK ledger_conflicts'')) (\<lambda>_.
     bindR (assertR (\<not> list_ex (\<lambda>c. conflictId c = conflictId row) (ingestConflicts db))
       (ledgerAbort ''UNIQUE ledger_conflicts.conflict_id'')) (\<lambda>_.
     bindR (assertR (\<not> list_ex (\<lambda>c. conflictProviderKey c = conflictProviderKey row \<and>
         conflictFingerprintOf c = conflictFingerprintOf row) (ingestConflicts db))
       (ledgerAbort ''UNIQUE ledger_conflicts.provider_account_key, conflict_fingerprint'')) (\<lambda>_.
     Inr (db\<lparr>ingestConflicts := ingestConflicts db @ [row]\<rparr>)))))"

definition insertErrorRow :: "ingest_error \<Rightarrow> ledger_db \<Rightarrow> ledger_error + ledger_db" where
  "insertErrorRow row db =
     bindR (assertR (list_ex (\<lambda>r. runId r = errorRunId row \<and> runProviderKey r = errorProviderKey row) (ingestRuns db))
       (ledgerAbort ''ingest error must share its run account'')) (\<lambda>_.
     bindR (assertR (length (ingestErrorId row) = 36 \<and> jsonFits 8192 (errorDetails row) \<and> 0 \<le> errorOccurredAt row)
       (ledgerAbort ''CHECK ingest_errors'')) (\<lambda>_.
     bindR (assertR (\<not> list_ex (\<lambda>e. ingestErrorId e = ingestErrorId row) (ingestErrors db))
       (ledgerAbort ''UNIQUE ingest_errors.ingest_error_id'')) (\<lambda>_.
     Inr (db\<lparr>ingestErrors := ingestErrors db @ [row]\<rparr>))))"

end
