(* ===== verification/LedgerIdentity.thy ===== *)
theory LedgerIdentity
  imports LedgerRows
begin

text \<open>
  The accounts the ledger ingests for: the canonical identity of a provider account
  (\<^verbatim>\<open>normalizeProviderIdentity\<close> of \<^verbatim>\<open>ledger/model.ts\<close>), its permanent binding and the
  activation that publishes it (\<^verbatim>\<open>bindProviderIdentityInTransaction\<close> of \<^verbatim>\<open>ledger/store.ts\<close>).
\<close>

subsection \<open>Canonical identities\<close>

definition isKeyChar :: "char \<Rightarrow> bool" where
  "isKeyChar c \<longleftrightarrow> (let n = of_char c :: nat in 48 \<le> n \<and> n \<le> 57 \<or> 65 \<le> n \<and> n \<le> 90 \<or> 97 \<le> n \<and> n \<le> 122)"

definition normalizeProviderAccountKey :: "string option \<Rightarrow> ledger_error + string" where
  "normalizeProviderAccountKey value =
     (let account = (case value of None \<Rightarrow> ''primary'' | Some v \<Rightarrow> v)
      in if account \<noteq> [] \<and> isKeyChar (hd account) \<and> length account \<le> 128 \<and>
            list_all (\<lambda>c. isKeyChar c \<or> c \<in> set ''._:-'') (tl account)
         then Inr account else Inl (ledgerRange ''provider account key is invalid''))"

text \<open>\<open>[\u0000-\u001f\u007f]\<close>.\<close>

definition hasAsciiControl :: "jstr \<Rightarrow> bool" where
  "hasAsciiControl value \<longleftrightarrow> list_ex (\<lambda>u. unat u \<le> 0x1F \<or> u = 0x7F) value"

definition normalizeIdentityEndpoint :: "url_env \<Rightarrow> jstr \<Rightarrow> ledger_error + jstr" where
  "normalizeIdentityEndpoint env value =
     (if value \<noteq> trim value \<or> length value < 1 \<or> length value > 2048 \<or> hasAsciiControl value
      then Inl (ledgerRange ''provider identity endpoint is invalid'')
      else case parseUrl env value of
        None \<Rightarrow> Inl (ledgerRange ''provider identity endpoint is invalid'')
      | Some endpoint \<Rightarrow>
          if protocol endpoint \<noteq> js ''https:'' \<or> username endpoint \<noteq> [] \<or> password endpoint \<noteq> [] \<or>
             pathname endpoint \<noteq> js ''/'' \<or> search endpoint \<noteq> [] \<or> hash endpoint \<noteq> []
          then Inl (ledgerRange ''provider identity endpoint must be an HTTPS origin'')
          else Inr (origin endpoint))"

definition normalizeExternalAccountId :: "jstr \<Rightarrow> ledger_error + jstr" where
  "normalizeExternalAccountId value =
     (if value \<noteq> trim value \<or> length value < 1 \<or> length value > 128 \<or> hasAsciiControl value
      then Inl (ledgerRange ''provider external account ID is invalid'') else Inr value)"

record provider_identity =
  identityKey :: string
  identityEndpoint :: jstr
  identityAccountId :: jstr
  identityFingerprint :: string

definition identityPreimage :: "string \<Rightarrow> jstr \<Rightarrow> jstr \<Rightarrow> json" where
  "identityPreimage key endpoint account =
     JObj [(js ''schema'', JStr (js ''perpay:provider-identity:v1'')), (js ''provider_account_key'', JStr (js key)),
       (js ''provider_kind'', JStr (js ''alipay'')), (js ''endpoint'', JStr endpoint), (js ''external_account_id'', JStr account)]"

definition normalizeProviderIdentity ::
    "ledger_env \<Rightarrow> string option \<Rightarrow> string \<Rightarrow> jstr \<Rightarrow> jstr \<Rightarrow> ledger_error + provider_identity" where
  "normalizeProviderIdentity env key kind endpoint account =
     bindR (normalizeProviderAccountKey key) (\<lambda>k.
     bindR (assertR (kind = ''alipay'') (ledgerRange ''provider identity kind is invalid'')) (\<lambda>_.
     bindR (normalizeIdentityEndpoint (ledgerUrls env) endpoint) (\<lambda>e.
     bindR (normalizeExternalAccountId account) (\<lambda>a.
     Inr \<lparr>identityKey = k, identityEndpoint = e, identityAccountId = a,
          identityFingerprint = ledgerSha env (utf8 (stringify (identityPreimage k e a)))\<rparr>))))"

subsection \<open>Safe values\<close>

definition safeLedgerInteger :: "int \<Rightarrow> string \<Rightarrow> ledger_error + int" where
  "safeLedgerInteger value label =
     (if isSafeInteger value \<and> 0 \<le> value then Inr value else Inl (ledgerThrow (label @ '' is outside the safe integer range'')))"

definition safeLedgerOption :: "int option \<Rightarrow> string \<Rightarrow> ledger_error + int option" where
  "safeLedgerOption value label =
     (case value of None \<Rightarrow> Inr None | Some v \<Rightarrow> bindR (safeLedgerInteger v label) (\<lambda>n. Inr (Some n)))"

definition safeLedgerNow :: "ledger_env \<Rightarrow> int option \<Rightarrow> ledger_error + int" where
  "safeLedgerNow env value =
     (let now = (case value of None \<Rightarrow> ledgerClock env | Some v \<Rightarrow> v)
      in if isSafeInteger now \<and> 0 \<le> now then Inr now else Inl (ledgerRange ''ledger clock is invalid''))"

subsection \<open>Bindings and activations\<close>

definition mapProviderBinding :: "provider_binding \<Rightarrow> ledger_error + provider_binding" where
  "mapProviderBinding row =
     bindR (assertR (bindingKind row = ''alipay'') (ledgerThrow ''provider identity binding has an invalid namespace'')) (\<lambda>_.
     bindR (safeLedgerInteger (bindingVersion row) ''provider identity fingerprint version'') (\<lambda>version.
     bindR (assertR (version = 1) (ledgerThrow ''provider identity fingerprint version is unsupported'')) (\<lambda>_.
     bindR (safeLedgerInteger (boundAt row) ''provider identity binding time'') (\<lambda>_. Inr row))))"

definition readProviderIdentityBinding :: "ledger_db \<Rightarrow> string \<Rightarrow> ledger_error + provider_binding option" where
  "readProviderIdentityBinding db key =
     (case List.find (\<lambda>b. bindingKey b = key) (providerBindings db) of
        None \<Rightarrow> Inr None
      | Some row \<Rightarrow> bindR (mapProviderBinding row) (\<lambda>b. Inr (Some b)))"

definition assertBindingIntegrity :: "ledger_env \<Rightarrow> provider_binding \<Rightarrow> ledger_error + unit" where
  "assertBindingIntegrity env b =
     bindR (normalizeProviderIdentity env (Some (bindingKey b)) (bindingKind b) (bindingEndpoint b) (bindingAccountId b)) (\<lambda>expected.
     assertR (bindingVersion b = 1 \<and> bindingFingerprint b = identityFingerprint expected)
       (ledgerThrow ''provider identity binding fingerprint is invalid''))"

text \<open>The view \<^verbatim>\<open>active_provider_account\<close>: the activation with the highest sequence, joined with its binding.\<close>

definition activeRows :: "ledger_db \<Rightarrow> (provider_activation \<times> provider_binding) list" where
  "activeRows db = concat (map (\<lambda>a. map (Pair a) (filter (\<lambda>b. bindingKey b = activationKey a) (providerBindings db)))
     (providerActivations db))"

definition readActiveProviderIdentity ::
    "ledger_env \<Rightarrow> ledger_db \<Rightarrow> ledger_error + (provider_activation \<times> provider_binding) option" where
  "readActiveProviderIdentity env db =
     (case List.find (\<lambda>r. list_all (\<lambda>r'. activationSequence (fst r') \<le> activationSequence (fst r)) (activeRows db)) (activeRows db) of
        None \<Rightarrow> Inr None
      | Some (activation, row) \<Rightarrow>
          bindR (mapProviderBinding row) (\<lambda>b.
          bindR (assertBindingIntegrity env b) (\<lambda>_.
          bindR (safeLedgerInteger (activationSequence activation) ''provider activation sequence'') (\<lambda>_.
          bindR (safeLedgerInteger (activatedAt activation) ''provider activation time'') (\<lambda>_.
          Inr (Some (activation, b)))))))"

definition insertBinding :: "provider_binding \<Rightarrow> ledger_db \<Rightarrow> ledger_error + ledger_db" where
  "insertBinding row db =
     bindR (assertR (isSha256Text (bindingFingerprint row) \<and> 0 \<le> boundAt row) (ledgerAbort ''CHECK provider_account_bindings'')) (\<lambda>_.
     bindR (assertR (\<not> list_ex (\<lambda>b. bindingKey b = bindingKey row) (providerBindings db))
       (ledgerAbort ''UNIQUE provider_account_bindings.provider_account_key'')) (\<lambda>_.
     Inr (db\<lparr>providerBindings := providerBindings db @ [row]\<rparr>)))"

definition lastActivation :: "ledger_db \<Rightarrow> provider_activation option" where
  "lastActivation db =
     List.find (\<lambda>a. list_all (\<lambda>a'. activationSequence a' \<le> activationSequence a) (providerActivations db)) (providerActivations db)"

definition insertActivation :: "provider_activation \<Rightarrow> ledger_db \<Rightarrow> ledger_error + ledger_db" where
  "insertActivation row db =
     bindR (assertR
         (activationSequence row = successorOf (map activationSequence (providerActivations db)) \<and>
          activationPrevious row = map_option activationKey (lastActivation db) \<and>
          list_ex (\<lambda>b. bindingKey b = activationKey row \<and> boundAt b \<le> activatedAt row) (providerBindings db) \<and>
          list_all (\<lambda>a. activatedAt a \<le> activatedAt row) (providerActivations db))
       (ledgerAbort ''provider account activation is invalid'')) (\<lambda>_.
     bindR (assertR (length (activationId row) = 36 \<and> 0 \<le> activatedAt row \<and> activationPrevious row \<noteq> Some (activationKey row))
       (ledgerAbort ''CHECK provider_account_activations'')) (\<lambda>_.
     bindR (assertR (\<not> list_ex (\<lambda>a. activationId a = activationId row \<or> activationSequence a = activationSequence row \<or>
         activationKey a = activationKey row) (providerActivations db)) (ledgerAbort ''UNIQUE provider_account_activations'')) (\<lambda>_.
     Inr (db\<lparr>providerActivations := providerActivations db @ [row]\<rparr>))))"

subsection \<open>Runs\<close>

definition mapRun :: "ingest_run \<Rightarrow> ledger_error + ingest_run" where
  "mapRun row =
     bindR (safeLedgerInteger (runPageSize row) ''ingest page size'') (\<lambda>_.
     bindR (safeLedgerInteger (runStartedAt row) ''ingest started-at'') (\<lambda>_.
     bindR (safeLedgerOption (runCompletedAt row) ''ingest completed-at'') (\<lambda>_.
     bindR (safeLedgerInteger (runPagesReceived row) ''ingest page count'') (\<lambda>_.
     bindR (safeLedgerInteger (runDetailsReceived row) ''ingest detail count'') (\<lambda>_.
     Inr row)))))"

text \<open>\<open>ORDER BY started_at, ingest_run_id LIMIT 1\<close>.\<close>

definition readRunningRun :: "ledger_db \<Rightarrow> string \<Rightarrow> ingest_scan_lane option \<Rightarrow> ledger_error + ingest_run option" where
  "readRunningRun db key lane =
     (case sort_key (\<lambda>r. (runStartedAt r, runId r))
             (filter (\<lambda>r. runProviderKey r = key \<and> runStatus r = RunRunning \<and>
                (case lane of None \<Rightarrow> True | Some l \<Rightarrow> scanLaneForKind (runScanKind r) = l)) (ingestRuns db)) of
        [] \<Rightarrow> Inr None
      | row # _ \<Rightarrow> bindR (mapRun row) (\<lambda>r. Inr (Some r)))"

definition activateProviderIdentity :: "ledger_env \<Rightarrow> provider_binding \<Rightarrow> int \<Rightarrow> ledger_db \<Rightarrow> ledger_error + ledger_db" where
  "activateProviderIdentity env binding requestedAt db =
     bindR (readActiveProviderIdentity env db) (\<lambda>active.
     if map_option (activationKey \<circ> fst) active = Some (bindingKey binding) then Inr db
     else
       bindR (case active of
           None \<Rightarrow> Inr ()
         | Some (a, _) \<Rightarrow> bindR (readRunningRun db (activationKey a) None) (\<lambda>running.
             assertR (running = None)
               (ledgerThrow ''active provider ingestion must finish before changing account generation''))) (\<lambda>_.
       let at' = max (max requestedAt (boundAt binding)) (case active of None \<Rightarrow> 0 | Some (a, _) \<Rightarrow> activatedAt a);
           sequence = (case active of None \<Rightarrow> 0 | Some (a, _) \<Rightarrow> activationSequence a) + 1
       in bindR (insertActivation
             \<lparr>activationId = uuidFor env ForActivation (length (providerActivations db)), activationSequence = sequence,
              activationKey = bindingKey binding, activationPrevious = map_option (activationKey \<circ> fst) active,
              activatedAt = at', activationReason = ConfigSync\<rparr> db) (\<lambda>db.
          bindR (readActiveProviderIdentity env db) (\<lambda>activated.
          bindR (assertR (case activated of None \<Rightarrow> False | Some (a, _) \<Rightarrow> activationKey a = bindingKey binding \<and> activationSequence a = sequence)
            (ledgerThrow ''provider account activation was not published'')) (\<lambda>_.
          Inr db)))))"

definition bindProviderIdentity ::
    "ledger_env \<Rightarrow> string option \<Rightarrow> string \<Rightarrow> jstr \<Rightarrow> jstr \<Rightarrow> int option \<Rightarrow> ledger_db \<Rightarrow> ledger_error + provider_binding \<times> ledger_db" where
  "bindProviderIdentity env key kind endpoint account nowArg db =
     bindR (safeLedgerNow env nowArg) (\<lambda>now.
     bindR (normalizeProviderIdentity env key kind endpoint account) (\<lambda>identity.
     bindR (readProviderIdentityBinding db (identityKey identity)) (\<lambda>existing.
     bindR (if existing = None
            then insertBinding \<lparr>bindingKey = identityKey identity, bindingKind = kind, bindingEndpoint = identityEndpoint identity,
              bindingAccountId = identityAccountId identity, bindingVersion = 1,
              bindingFingerprint = identityFingerprint identity, boundAt = now\<rparr> db
            else Inr db) (\<lambda>db.
     bindR (readProviderIdentityBinding db (identityKey identity)) (\<lambda>found.
     case found of
       None \<Rightarrow> Inl (ledgerThrow ''provider identity binding does not exist'')
     | Some binding \<Rightarrow>
         bindR (assertBindingIntegrity env binding) (\<lambda>_.
         bindR (assertR (bindingKind binding = kind \<and> bindingEndpoint binding = identityEndpoint identity \<and>
             bindingAccountId binding = identityAccountId identity \<and> bindingVersion binding = 1 \<and>
             bindingFingerprint binding = identityFingerprint identity)
           (ledgerThrow ''provider identity does not match the existing account binding'')) (\<lambda>_.
         bindR (activateProviderIdentity env binding now db) (\<lambda>db. Inr (binding, db)))))))))"

end
