(* ===== verification/LedgerEvidence.thy ===== *)
theory LedgerEvidence
  imports LedgerIdentity
begin

text \<open>
  What the provider sends and how \<^verbatim>\<open>ledger/store.ts\<close> checks and stores it: the validation of a page
  and its evidence, the raw event of a statement line and its normalisation into a ledger entry or a
  conflict.
\<close>

subsection \<open>Input\<close>

datatype raw_body = BodyText jstr | BodyBytes "nat list"

fun toBytes :: "raw_body \<Rightarrow> nat list" where
  "toBytes (BodyText s) = utf8 s"
| "toBytes (BodyBytes bs) = bs"

datatype header_value = HeaderText jstr | HeaderList "jstr list"

record page_evidence =
  evidenceStatus :: int
  evidenceHeaders :: "(jstr \<times> header_value) list"
  evidenceBody :: raw_body
  evidenceTraceId :: "jstr option"
  evidenceVerified :: bool

text \<open>
  One line of the provider's statement; \<open>detailRaw\<close> is what \<^verbatim>\<open>JSON.stringify\<close> returns for the
  unmodified object, \<open>None\<close> when it throws or returns no text.
\<close>

record log_detail =
  detailTexts :: event_texts
  detailRaw :: "jstr option"

record page_input =
  inputPageNo :: int
  inputPageSize :: int
  inputTotalSize :: int
  inputHasMore :: bool
  inputDetails :: "log_detail list"
  inputRawResponse :: "page_evidence option"

subsection \<open>Headers and details\<close>

text \<open>
  \<^verbatim>\<open>toLowerCase\<close> as far as the header pattern accepts the result: the ASCII letters and the Kelvin
  sign, the only other character whose lower case is an ASCII letter on its own.
\<close>

definition lowerUnit :: "16 word \<Rightarrow> 16 word" where
  "lowerUnit u = (if 0x41 \<le> unat u \<and> unat u \<le> 0x5A then u + 0x20 else if u = 0x212A then 0x6B else u)"

definition isHeaderName :: "jstr \<Rightarrow> bool" where
  "isHeaderName key \<longleftrightarrow> key \<noteq> [] \<and>
     list_all (\<lambda>u. isDigitUnit u \<or> 0x61 \<le> unat u \<and> unat u \<le> 0x7A \<or> u \<in> set (js ''!#$%&'' @ [0x27] @ js ''*+.^_`|~-'')) key"

fun headerJson :: "header_value \<Rightarrow> json" where
  "headerJson (HeaderText v) = JStr v"
| "headerJson (HeaderList vs) = JArr (map JStr vs)"

fun headerClean :: "header_value \<Rightarrow> bool" where
  "headerClean (HeaderText v) \<longleftrightarrow> 0 \<notin> set v"
| "headerClean (HeaderList vs) \<longleftrightarrow> list_all (\<lambda>v. 0 \<notin> set v) vs"

text \<open>
  The entries an object literal ends up with, in the order \<^verbatim>\<open>JSON.stringify\<close> lists them: assigning
  \<^verbatim>\<open>__proto__\<close> makes no entry, and array indices come first, in ascending order.
\<close>

definition isArrayIndex :: "jstr \<Rightarrow> bool" where
  "isArrayIndex key \<longleftrightarrow> key \<noteq> [] \<and> list_all isDigitUnit key \<and> (hd key \<noteq> 0x30 \<or> length key = 1) \<and>
     digitsValue key < 4294967295"

definition objectEntries :: "(jstr \<times> json) list \<Rightarrow> (jstr \<times> json) list" where
  "objectEntries kvs =
     (let own = filter (\<lambda>kv. fst kv \<noteq> js ''__proto__'') kvs
      in sort_key (\<lambda>kv. digitsValue (fst kv)) (filter (isArrayIndex \<circ> fst) own) @
         filter (\<lambda>kv. \<not> isArrayIndex (fst kv)) own)"

fun headerEntries :: "(jstr \<times> header_value) list \<Rightarrow> (jstr \<times> json) list \<Rightarrow> ledger_error + (jstr \<times> json) list" where
  "headerEntries [] done' = Inr done'"
| "headerEntries ((name, v) # rest) done' =
     (let key = map lowerUnit name
      in if \<not> isHeaderName key then Inl (ledgerRange ''provider response header name is invalid'')
         else if key \<in> fst ` set done' \<and> key \<noteq> js ''__proto__'' then Inl (ledgerRange ''provider response headers are ambiguous'')
         else if \<not> headerClean v then Inl (ledgerRange ''provider response header value is invalid'')
         else headerEntries rest (done' @ [(key, headerJson v)]))"

definition serializeHeaders :: "ledger_env \<Rightarrow> (jstr \<times> header_value) list \<Rightarrow> ledger_error + jstr" where
  "serializeHeaders env headers =
     bindR (headerEntries (sort_key (\<lambda>(name, _). collationRank env (map lowerUnit name)) headers) []) (\<lambda>entries.
     let text = stringify (JObj (objectEntries entries))
     in if byteLength text > 16384 then Inl (ledgerRange ''provider response headers exceed the persistence limit'')
        else Inr text)"

definition serializeDetails :: "json \<Rightarrow> ledger_error + json" where
  "serializeDetails details =
     (if byteLength (stringify details) > 8192 then Inl (ledgerRange ''ledger details exceed the persistence limit'')
      else case details of JObj _ \<Rightarrow> Inr details | _ \<Rightarrow> Inl (ledgerRange ''ledger details must be a JSON object''))"

subsection \<open>A page and its evidence\<close>

record prepared_page =
  preparedNow :: int
  preparedEvidence :: page_evidence
  preparedBody :: "nat list"
  preparedHeaders :: jstr
  preparedHash :: string

definition traceIdValid :: "jstr option \<Rightarrow> bool" where
  "traceIdValid traceId \<longleftrightarrow> (case traceId of None \<Rightarrow> True | Some t \<Rightarrow> 1 \<le> length t \<and> length t \<le> 256)"

definition prepareSegmentPage ::
    "ledger_env \<Rightarrow> page_input \<Rightarrow> page_evidence option \<Rightarrow> int option \<Rightarrow> ledger_error + prepared_page" where
  "prepareSegmentPage env page given nowArg =
     bindR (safeLedgerNow env nowArg) (\<lambda>now.
     bindR (case given of Some e \<Rightarrow> Inr e | None \<Rightarrow>
       (case inputRawResponse page of Some e \<Rightarrow> Inr e | None \<Rightarrow> Inl (ledgerThrow ''raw provider response evidence is required'')))
       (\<lambda>evidence.
     let body = toBytes (evidenceBody evidence); n = int (length (inputDetails page)) in
     bindR (assertR (\<not> length body > 2097152) (ledgerRange ''provider raw page exceeds the persistence limit'')) (\<lambda>_.
     bindR (validatePageSize (inputPageSize page)) (\<lambda>_.
     bindR (assertR (inputPageNo page = 1) (ledgerRange ''segment ingestion only accepts provider page one'')) (\<lambda>_.
     bindR (assertR (isSafeInteger (inputTotalSize page) \<and> \<not> inputTotalSize page < 0)
       (ledgerRange ''provider total size is invalid'')) (\<lambda>_.
     bindR (assertR (\<not> n > inputPageSize page) (ledgerRange ''provider page contains too many details'')) (\<lambda>_.
     bindR (if inputHasMore page
            then assertR (\<not> (inputTotalSize page \<le> inputPageSize page \<or> n \<noteq> inputPageSize page))
              (ledgerRange ''oversized provider probe metadata is inconsistent'')
            else assertR (inputTotalSize page = n)
              (ledgerRange ''accepted provider leaf must contain its complete result set'')) (\<lambda>_.
     bindR (assertR (isSafeInteger (evidenceStatus evidence) \<and> 100 \<le> evidenceStatus evidence \<and> evidenceStatus evidence \<le> 599)
       (ledgerRange ''provider HTTP status is invalid'')) (\<lambda>_.
     bindR (assertR (evidenceVerified evidence) (ledgerThrow ''unverified provider responses cannot enter ledger ingestion'')) (\<lambda>_.
     bindR (assertR (traceIdValid (evidenceTraceId evidence)) (ledgerRange ''provider trace ID is invalid'')) (\<lambda>_.
     bindR (serializeHeaders env (evidenceHeaders evidence)) (\<lambda>headers.
     Inr \<lparr>preparedNow = now, preparedEvidence = evidence, preparedBody = body, preparedHeaders = headers,
          preparedHash = ledgerSha env body\<rparr>))))))))))))"

text \<open>Lines whose time can be read have to lie in the segment, both ends included.\<close>

definition validateDetailsWithinSegment :: "log_detail list \<Rightarrow> ingest_segment \<Rightarrow> ledger_error + unit" where
  "validateDetailsWithinSegment details segment =
     bindR (parseOccurredAt (Some (windowFrom (segmentWindow segment)))) (\<lambda>start.
     bindR (parseOccurredAt (Some (windowUntil (segmentWindow segment)))) (\<lambda>until.
     assertR (list_all (\<lambda>d. case occurredAtText (detailTexts d) of None \<Rightarrow> True | Some t \<Rightarrow>
         (case parseOccurredAt (Some t) of Inl _ \<Rightarrow> True | Inr at' \<Rightarrow> start \<le> at' \<and> at' \<le> until)) details)
       (ledgerRange ''provider event is outside the ingest segment'')))"

subsection \<open>Raw events\<close>

definition boundedString :: "nat \<Rightarrow> jstr option \<Rightarrow> jstr option" where
  "boundedString maximum value =
     (case value of None \<Rightarrow> None | Some v \<Rightarrow>
        let t = trim v in if length t < 1 \<or> length t > maximum \<or> 0 \<in> set t then None else Some t)"

definition boundedTexts :: "event_texts \<Rightarrow> event_texts" where
  "boundedTexts t =
     \<lparr>externalEventId = boundedString 256 (externalEventId t), occurredAtText = boundedString 128 (occurredAtText t),
      amountText = boundedString 128 (amountText t), directionText = boundedString 64 (directionText t),
      alipayOrderNo = boundedString 128 (alipayOrderNo t), merchantOrderNo = boundedString 128 (merchantOrderNo t),
      transMemo = boundedString 1024 (transMemo t), otherAccount = boundedString 256 (otherAccount t)\<rparr>"

definition invalidBoundedValue :: "jstr option \<Rightarrow> jstr option \<Rightarrow> bool" where
  "invalidBoundedValue original normalized \<longleftrightarrow> original \<noteq> None \<and> normalized = None"

definition textsInvalid :: "event_texts \<Rightarrow> bool" where
  "textsInvalid t \<longleftrightarrow> (let b = boundedTexts t in
     list_ex (\<lambda>f. invalidBoundedValue (f t) (f b))
       [externalEventId, occurredAtText, amountText, directionText, alipayOrderNo, merchantOrderNo, transMemo, otherAccount])"

definition rawPayloadOf :: "ledger_env \<Rightarrow> log_detail \<Rightarrow> nat list \<times> bool" where
  "rawPayloadOf env detail =
     (let (text, invalid) = (case detailRaw detail of
            Some t \<Rightarrow> (t, False)
          | None \<Rightarrow> (stringify (JObj [(js ''_perpay_invalid_shape'', JBool True)]), True));
          bytes = utf8 text
      in if length bytes > 524288
         then (utf8 (stringify (JObj [(js ''_perpay_invalid_shape'', JBool True),
                (js ''original_payload_sha256'', JStr (js (ledgerSha env bytes))),
                (js ''original_payload_bytes'', JInt (int (length bytes)))])), True)
         else (bytes, invalid))"

text \<open>The stored row, and whether the line is outside the persistence contract.\<close>

definition prepareRawEvent :: "ledger_env \<Rightarrow> string \<Rightarrow> string \<Rightarrow> string \<Rightarrow> nat \<Rightarrow> log_detail \<Rightarrow> int \<Rightarrow> raw_event \<times> bool" where
  "prepareRawEvent env eid key pageId ordinal detail now =
     (let (payload, payloadInvalid) = rawPayloadOf env detail
      in (\<lparr>rawEventId = eid, eventPageId = pageId, eventProviderKey = key, eventOrdinal = ordinal,
           eventTexts = boundedTexts (detailTexts detail), eventPayloadHash = ledgerSha env payload,
           eventPayload = payload, eventObservedAt = now\<rparr>,
          textsInvalid (detailTexts detail) \<or> payloadInvalid))"

definition insertRawEvent ::
    "ledger_env \<Rightarrow> string \<Rightarrow> string \<Rightarrow> nat \<Rightarrow> log_detail \<Rightarrow> int \<Rightarrow> ledger_db \<Rightarrow> ledger_error + (raw_event \<times> bool) \<times> ledger_db" where
  "insertRawEvent env key pageId ordinal detail now db =
     (let (row, invalid) = prepareRawEvent env (uuidFor env ForRawEvent (length (rawEvents db))) key pageId ordinal detail now
      in bindR (insertEventRow row db) (\<lambda>db. Inr ((row, invalid), db)))"

end
