(* ===== verification/LedgerConflicts.thy ===== *)
theory LedgerConflicts
  imports LedgerEvidence
begin

text \<open>
  The conflicts of the ledger and the normalisation that raises them (\<^verbatim>\<open>ledger/store.ts\<close>): a
  conflict is recorded once per fingerprint, a line becomes a new entry, a duplicate, a conflict with
  the entry of its external id, or an isolated conflict, and an administrator's decision or a
  confirmed page ends a conflict through one operation.
\<close>

subsection \<open>Recording a conflict\<close>

definition jsonText :: "jstr option \<Rightarrow> json" where
  "jsonText x = (case x of None \<Rightarrow> JNull | Some v \<Rightarrow> JStr v)"

definition conflictFingerprint :: "ledger_env \<Rightarrow> json list \<Rightarrow> string" where
  "conflictFingerprint env parts =
     sha256Json (ledgerSha env) (JArr (JStr (js ''perpay:ledger-conflict:v1'') # parts))"

definition mapConflict :: "ingest_conflict \<Rightarrow> ledger_error + ingest_conflict" where
  "mapConflict row =
     bindR (safeLedgerInteger (conflictCreatedAt row) ''ledger conflict created-at'') (\<lambda>_.
     bindR (safeLedgerOption (conflictResolvedAt row) ''ledger conflict resolved-at'') (\<lambda>_. Inr row))"

definition readConflict :: "ledger_db \<Rightarrow> string \<Rightarrow> ledger_error + ingest_conflict option" where
  "readConflict db cid =
     (case List.find (\<lambda>c. conflictId c = cid) (ingestConflicts db) of
        None \<Rightarrow> Inr None | Some row \<Rightarrow> bindR (mapConflict row) (\<lambda>c. Inr (Some c)))"

definition requireConflict :: "ledger_db \<Rightarrow> string \<Rightarrow> ledger_error + ingest_conflict" where
  "requireConflict db cid =
     bindR (readConflict db cid) (\<lambda>found.
     case found of None \<Rightarrow> Inl (ledgerThrow ''ledger conflict cannot be read'') | Some c \<Rightarrow> Inr c)"

record conflict_input =
  inConflictKey :: string
  inConflictType :: ledger_conflict_type
  inConflictPage :: "string option"
  inConflictEvent :: "string option"
  inConflictEntry :: "string option"
  inConflictExternal :: "jstr option"
  inConflictExisting :: "string option"
  inConflictIncoming :: "string option"
  inConflictDetails :: json
  inConflictParts :: "json list"
  inConflictNow :: int

definition insertConflict :: "ledger_env \<Rightarrow> conflict_input \<Rightarrow> ledger_db \<Rightarrow> ledger_error + ingest_conflict \<times> ledger_db" where
  "insertConflict env input db =
     (let fingerprint = conflictFingerprint env (inConflictParts input)
      in case List.find (\<lambda>c. conflictProviderKey c = inConflictKey input \<and> conflictFingerprintOf c = fingerprint) (ingestConflicts db) of
           Some existing \<Rightarrow> bindR (mapConflict existing) (\<lambda>c. Inr (c, db))
         | None \<Rightarrow>
             let cid = uuidFor env ForLedgerConflict (length (ingestConflicts db))
             in bindR (serializeDetails (inConflictDetails input)) (\<lambda>details.
                bindR (insertConflictRow
                  \<lparr>conflictId = cid, conflictProviderKey = inConflictKey input, conflictType = inConflictType input,
                   conflictPageId = inConflictPage input, conflictEventId = inConflictEvent input,
                   conflictLedgerEntryId = inConflictEntry input, conflictExternalId = inConflictExternal input,
                   conflictExistingFingerprint = inConflictExisting input, conflictIncomingFingerprint = inConflictIncoming input,
                   conflictDetails = details, conflictStatus = ConflictOpen, conflictResolution = None, conflictOperationOf = None,
                   conflictResolutionFingerprint = None, conflictCreatedAt = inConflictNow input, conflictResolvedAt = None,
                   conflictFingerprintOf = fingerprint\<rparr> db) (\<lambda>db.
                bindR (requireConflict db cid) (\<lambda>c. Inr (c, db)))))"

subsection \<open>Normalising a line\<close>

fun directionName :: "ledger_direction \<Rightarrow> string" where
  "directionName CREDIT = ''CREDIT''"
| "directionName DEBIT = ''DEBIT''"

record event_facts =
  factExternalId :: jstr
  factOccurredAt :: int
  factPrecision :: int
  factAmountCents :: int
  factDirection :: ledger_direction

definition semanticParts :: "event_facts \<Rightarrow> event_texts \<Rightarrow> json" where
  "semanticParts facts t =
     JArr [JStr (js ''perpay:ledger-semantic:v2''), JStr (factExternalId facts), JInt (factOccurredAt facts),
       JInt (factPrecision facts), JInt (factAmountCents facts), JStr (js (directionName (factDirection facts))), JStr (js ''CNY''),
       jsonText (alipayOrderNo t), jsonText (merchantOrderNo t), jsonText (transMemo t), jsonText (otherAccount t)]"

definition semanticFingerprintOf :: "ledger_env \<Rightarrow> event_facts \<Rightarrow> event_texts \<Rightarrow> string" where
  "semanticFingerprintOf env facts t = sha256Json (ledgerSha env) (semanticParts facts t)"

text \<open>The facts of a line's texts, or the error its parsing throws first.\<close>

definition parseEventFacts :: "jstr \<Rightarrow> event_texts \<Rightarrow> ledger_error + event_facts" where
  "parseEventFacts external t =
     bindR (parseOccurredAtWithPrecision (occurredAtText t)) (\<lambda>(occurredAt, precision).
     bindR (parseAmountCents (amountText t)) (\<lambda>cents.
     bindR (parseDirection (directionText t)) (\<lambda>direction.
     Inr \<lparr>factExternalId = external, factOccurredAt = occurredAt, factPrecision = precision, factAmountCents = cents,
          factDirection = direction\<rparr>)))"

datatype normalization =
    EntryCreated ingested_entry string
  | EntryDuplicate ingested_entry string
  | EntryConflict ingest_conflict string
  | EventIsolated ingest_conflict string

definition insertNormalizationConflict ::
    "ledger_env \<Rightarrow> raw_event \<Rightarrow> ledger_conflict_type \<Rightarrow> jstr option \<Rightarrow> string \<Rightarrow> int \<Rightarrow> ledger_db \<Rightarrow>
     ledger_error + ingest_conflict \<times> ledger_db" where
  "insertNormalizationConflict env ev type external reason now db =
     insertConflict env
       \<lparr>inConflictKey = eventProviderKey ev, inConflictType = type, inConflictPage = Some (eventPageId ev),
        inConflictEvent = Some (rawEventId ev), inConflictEntry = None, inConflictExternal = external,
        inConflictExisting = None, inConflictIncoming = None, inConflictDetails = jobject [(''reason'', JStr (js reason))],
        inConflictParts = [JStr (js (conflictTypeText type)), JStr (js (eventPayloadHash ev)), JStr (js (eventPageId ev)),
          JInt (int (eventOrdinal ev))],
        inConflictNow = now\<rparr> db"

definition isolateEvent ::
    "ledger_env \<Rightarrow> raw_event \<Rightarrow> ledger_conflict_type \<Rightarrow> jstr option \<Rightarrow> string \<Rightarrow> int \<Rightarrow> ledger_db \<Rightarrow>
     ledger_error + normalization \<times> ledger_db" where
  "isolateEvent env ev type external reason now db =
     bindR (insertNormalizationConflict env ev type external reason now db) (\<lambda>(c, db).
     Inr (EventIsolated c (rawEventId ev), db))"

fun normalizationProblem :: "ledger_error \<Rightarrow> ledger_conflict_type \<times> string" where
  "normalizationProblem (LedgerNormalizationError type message) = (type, message)"
| "normalizationProblem _ = (InvalidShape, ''provider event normalization failed'')"

definition readEntryByExternalId :: "ledger_db \<Rightarrow> string \<Rightarrow> jstr \<Rightarrow> ingested_entry option" where
  "readEntryByExternalId db key external =
     List.find (\<lambda>e. entryProviderKey e = key \<and> entryExternalId e = external) (ingestedEntries db)"

definition precisionOnlyDifference :: "ingested_entry \<Rightarrow> event_facts \<Rightarrow> event_texts \<Rightarrow> bool" where
  "precisionOnlyDifference e facts t \<longleftrightarrow>
     entryOccurredAt e = factOccurredAt facts \<and> occurredAtPrecision e \<noteq> factPrecision facts \<and>
     entryAmountCents e = factAmountCents facts \<and> entryDirection e = factDirection facts \<and>
     entryAlipayOrderNo e = alipayOrderNo t \<and> entryMerchantOrderNo e = merchantOrderNo t \<and>
     entryTransMemo e = transMemo t \<and> entryOtherAccount e = otherAccount t"

definition duplicateConflict :: "raw_event \<Rightarrow> ingested_entry \<Rightarrow> event_facts \<Rightarrow> string \<Rightarrow> int \<Rightarrow> conflict_input" where
  "duplicateConflict ev e facts semantics now =
     \<lparr>inConflictKey = eventProviderKey ev, inConflictType = DuplicateExternalId, inConflictPage = Some (eventPageId ev),
      inConflictEvent = Some (rawEventId ev), inConflictEntry = Some (ledgerEntryId e),
      inConflictExternal = externalEventId (eventTexts ev), inConflictExisting = Some (semanticFingerprint e),
      inConflictIncoming = Some semantics,
      inConflictDetails = jobject
        [(''reason'', JStr (js (if precisionOnlyDifference e facts (eventTexts ev)
            then ''same external ID has a different declared timestamp precision''
            else ''same external ID has a different normalized semantic fingerprint''))),
         (''existing_occurred_at_precision_milliseconds'', JInt (occurredAtPrecision e)),
         (''incoming_occurred_at_precision_milliseconds'', JInt (factPrecision facts))],
      inConflictParts = [JStr (js ''DUPLICATE_EXTERNAL_ID''), jsonText (externalEventId (eventTexts ev)),
        JStr (js (semanticFingerprint e)), JStr (js semantics), JInt (occurredAtPrecision e), JInt (factPrecision facts)],
      inConflictNow = now\<rparr>"

definition entryOfFacts :: "string \<Rightarrow> raw_event \<Rightarrow> event_facts \<Rightarrow> string \<Rightarrow> int \<Rightarrow> ingested_entry" where
  "entryOfFacts lid ev facts semantics now =
     \<lparr>ledgerEntryId = lid, entryProviderKey = eventProviderKey ev, semanticFingerprint = semantics,
      entryOccurredAt = factOccurredAt facts, occurredAtPrecision = factPrecision facts,
      entryAmountCents = factAmountCents facts, entryDirection = factDirection facts, entryState = UNALLOCATED,
      entryUpdatedAt = now, entryRawEventId = rawEventId ev, entryExternalId = factExternalId facts,
      entryAlipayOrderNo = alipayOrderNo (eventTexts ev), entryMerchantOrderNo = merchantOrderNo (eventTexts ev),
      entryTransMemo = transMemo (eventTexts ev), entryOtherAccount = otherAccount (eventTexts ev), entryCreatedAt = now\<rparr>"

definition normalizeAndInsert ::
    "ledger_env \<Rightarrow> raw_event \<Rightarrow> bool \<Rightarrow> int \<Rightarrow> ledger_db \<Rightarrow> ledger_error + normalization \<times> ledger_db" where
  "normalizeAndInsert env ev shapeInvalid now db =
     (if shapeInvalid
      then isolateEvent env ev InvalidShape None ''provider event fields are outside the persistence contract'' now db
      else case externalEventId (eventTexts ev) of
        None \<Rightarrow> isolateEvent env ev MissingExternalId None ''provider event has no account-scoped external ID'' now db
      | Some external \<Rightarrow>
          (case parseEventFacts external (eventTexts ev) of
             Inl e \<Rightarrow> (let (type, message) = normalizationProblem e in isolateEvent env ev type (Some external) message now db)
           | Inr facts \<Rightarrow>
               let semantics = semanticFingerprintOf env facts (eventTexts ev)
               in case readEntryByExternalId db (eventProviderKey ev) external of
                    Some existing \<Rightarrow>
                      if semanticFingerprint existing = semantics \<and> occurredAtPrecision existing = factPrecision facts
                      then Inr (EntryDuplicate existing (rawEventId ev), db)
                      else bindR (insertConflict env (duplicateConflict ev existing facts semantics now) db) (\<lambda>(c, db).
                        Inr (EntryConflict c (rawEventId ev), db))
                  | None \<Rightarrow>
                      let row = entryOfFacts (uuidFor env ForLedgerEntry (length (ingestedEntries db))) ev facts semantics now
                      in bindR (insertEntryRow row db) (\<lambda>db. Inr (EntryCreated row (rawEventId ev), db))))"

text \<open>The lines of an accepted page, in order.\<close>

fun normalizeDetails ::
    "ledger_env \<Rightarrow> string \<Rightarrow> string \<Rightarrow> int \<Rightarrow> nat \<Rightarrow> log_detail list \<Rightarrow> ledger_db \<Rightarrow> ledger_error + normalization list \<times> ledger_db" where
  "normalizeDetails env key pageId now ordinal [] db = Inr ([], db)"
| "normalizeDetails env key pageId now ordinal (d # ds) db =
     bindR (insertRawEvent env key pageId ordinal d now db) (\<lambda>((ev, invalid), db).
     bindR (normalizeAndInsert env ev invalid now db) (\<lambda>(r, db).
     bindR (normalizeDetails env key pageId now (Suc ordinal) ds db) (\<lambda>(rs, db).
     Inr (r # rs, db))))"

subsection \<open>Deciding a conflict\<close>

fun actionName :: "conflict_action \<Rightarrow> string" where
  "actionName ConfirmVariant = ''CONFIRM_VARIANT''"
| "actionName KeepExisting = ''KEEP_EXISTING''"
| "actionName AcknowledgeIsolated = ''ACKNOWLEDGE_ISOLATED''"

fun actorName :: "conflict_actor \<Rightarrow> string" where
  "actorName SystemActor = ''SYSTEM''"
| "actorName AdminActor = ''ADMIN''"

definition conflictOperationEvidence :: "conflict_request \<Rightarrow> json" where
  "conflictOperationEvidence r =
     jobject [(''schema'', JStr (js ''perpay:ledger-conflict-operation:v1'')), (''conflict_id'', JStr (js (requestConflictId r))),
       (''action'', JStr (js (actionName (requestAction r)))), (''actor_type'', JStr (js (actorName (requestActorType r)))),
       (''actor_id'', jsonText (requestActorId r)), (''reason'', JStr (requestReason r))]"

definition conflictRequestFingerprint :: "ledger_env \<Rightarrow> conflict_request \<Rightarrow> string" where
  "conflictRequestFingerprint env r = sha256Json (ledgerSha env) (conflictOperationEvidence r)"

text \<open>The trigger \<^verbatim>\<open>ledger_conflict_operations_valid_insert\<close> and the table's actor check.\<close>

definition actionAllowed :: "ledger_conflict_type \<Rightarrow> conflict_action \<Rightarrow> conflict_actor \<Rightarrow> bool" where
  "actionAllowed type action actor \<longleftrightarrow>
     (case type of
        RawPageVariant \<Rightarrow> action = ConfirmVariant \<and> actor = SystemActor
      | DuplicateExternalId \<Rightarrow> action = KeepExisting \<and> actor = AdminActor
      | _ \<Rightarrow> action = AcknowledgeIsolated \<and> actor = AdminActor)"

definition applyConflictOperation :: "conflict_operation \<Rightarrow> ingest_conflict \<Rightarrow> ingest_conflict" where
  "applyConflictOperation op c =
     c\<lparr>conflictStatus := (if requestAction (conflictOperationRequest op) = AcknowledgeIsolated then ConflictIgnored else ConflictResolved),
       conflictResolution := Some (conflictOperationEvidence (conflictOperationRequest op)),
       conflictOperationOf := Some (conflictOperationId op),
       conflictResolutionFingerprint := Some (conflictOperationFingerprint op),
       conflictResolvedAt := Some (conflictOperationAt op)\<rparr>"

definition insertOperationRow :: "conflict_operation \<Rightarrow> ledger_db \<Rightarrow> ledger_error + ledger_db" where
  "insertOperationRow op db =
     (let r = conflictOperationRequest op; target = (\<lambda>c. conflictId c = requestConflictId r \<and> conflictStatus c = ConflictOpen)
      in bindR (assertR (list_ex (\<lambda>c. target c \<and> actionAllowed (conflictType c) (requestAction r) (requestActorType r)) (ingestConflicts db))
           (ledgerAbort ''ledger conflict operation is invalid'')) (\<lambda>_.
         bindR (assertR (length (conflictOperationId op) = 36 \<and> isSha256Text (conflictOperationFingerprint op) \<and>
             jsonFits 8192 (conflictOperationEvidence r) \<and> sqlTextWithin 512 (requestReason r) \<and> byteLength (requestReason r) \<le> 2048 \<and>
             0 \<le> conflictOperationAt op \<and> (requestActorType r = SystemActor) = (requestActorId r = None))
           (ledgerAbort ''CHECK ledger_conflict_operations'')) (\<lambda>_.
         bindR (assertR (\<not> list_ex (\<lambda>o'. conflictOperationId o' = conflictOperationId op \<or>
             conflictOperationKey o' = conflictOperationKey op \<or>
             requestConflictId (conflictOperationRequest o') = requestConflictId r) (conflictOperations db))
           (ledgerAbort ''UNIQUE ledger_conflict_operations'')) (\<lambda>_.
         bindR (assertR (list_all (\<lambda>c. target c \<longrightarrow> conflictCreatedAt c \<le> conflictOperationAt op) (ingestConflicts db))
           (ledgerAbort ''ledger conflict resolution transition is invalid'')) (\<lambda>_.
         Inr (db\<lparr>conflictOperations := conflictOperations db @ [op],
                ingestConflicts := updateRows target (applyConflictOperation op) (ingestConflicts db)\<rparr>))))))"

definition readConflictOperation :: "ledger_db \<Rightarrow> string \<Rightarrow> ledger_error + conflict_operation option" where
  "readConflictOperation db oid =
     (case List.find (\<lambda>o'. conflictOperationId o' = oid) (conflictOperations db) of
        None \<Rightarrow> Inr None
      | Some op \<Rightarrow> bindR (safeLedgerInteger (conflictOperationAt op) ''ledger conflict operation creation time'') (\<lambda>_. Inr (Some op)))"

definition insertConflictOperation ::
    "ledger_env \<Rightarrow> string \<Rightarrow> string \<Rightarrow> conflict_request \<Rightarrow> int \<Rightarrow> ledger_db \<Rightarrow> ledger_error + conflict_operation \<times> ledger_db" where
  "insertConflictOperation env oid key r now db =
     bindR (assertR (\<not> byteLength (stringify (conflictOperationEvidence r)) > 8192)
       (ledgerRange ''ledger conflict operation request exceeds the persistence limit'')) (\<lambda>_.
     bindR (insertOperationRow \<lparr>conflictOperationId = oid, conflictOperationKey = key,
         conflictOperationFingerprint = conflictRequestFingerprint env r, conflictOperationRequest = r, conflictOperationAt = now\<rparr> db) (\<lambda>db.
     bindR (readConflictOperation db oid) (\<lambda>found.
     case found of None \<Rightarrow> Inl (ledgerThrow ''inserted ledger conflict operation cannot be read'') | Some op \<Rightarrow> Inr (op, db))))"

definition appendConflictAudit :: "conflict_operation \<Rightarrow> jstr option \<Rightarrow> string option \<Rightarrow> ledger_db \<Rightarrow> ledger_db" where
  "appendConflictAudit op requestId addressHash db =
     db\<lparr>conflictAudits := conflictAudits db @
         [\<lparr>auditOperationId = conflictOperationId op, auditConflictId = requestConflictId (conflictOperationRequest op),
           auditActionOf = requestAction (conflictOperationRequest op), auditAtTime = conflictOperationAt op,
           auditRequestId = requestId, auditAddressHash = addressHash\<rparr>]\<rparr>"

record resolve_conflict_input =
  resolveOperationId :: string
  resolveConflictId :: string
  resolveAction :: conflict_action
  resolveActorId :: jstr
  resolveReason :: jstr
  resolveRequestId :: "jstr option"
  resolveAddressHash :: "string option"

definition isUuidText :: "string \<Rightarrow> bool" where
  "isUuidText s \<longleftrightarrow>
     length s = 36 \<and>
     list_all (\<lambda>i. if i \<in> {8, 13, 18, 23} then s ! i = CHR ''-'' else isLowerHex (s ! i)) [0..<36] \<and>
     s ! 14 = CHR ''4'' \<and> s ! 19 \<in> set ''89ab''"

definition validateResolveConflictInput :: "resolve_conflict_input \<Rightarrow> ledger_error + unit" where
  "validateResolveConflictInput input =
     bindR (assertR (isUuidText (resolveOperationId input)) (ledgerRange ''ledger conflict operation ID is invalid'')) (\<lambda>_.
     bindR (assertR (isUuidText (resolveConflictId input)) (ledgerRange ''ledger conflict ID is invalid'')) (\<lambda>_.
     bindR (assertR (resolveAction input = KeepExisting \<or> resolveAction input = AcknowledgeIsolated)
       (ledgerRange ''ledger conflict action is invalid'')) (\<lambda>_.
     bindR (assertR (1 \<le> length (resolveActorId input) \<and> length (resolveActorId input) \<le> 128 \<and> 0 \<notin> set (resolveActorId input) \<and>
         1 \<le> length (resolveReason input) \<and> length (resolveReason input) \<le> 512 \<and> byteLength (resolveReason input) \<le> 2048 \<and>
         resolveReason input = trim (resolveReason input) \<and> \<not> hasControlCharacter (resolveReason input))
       (ledgerRange ''ledger conflict resolution input is invalid'')) (\<lambda>_.
     bindR (assertR (optionIn (resolveRequestId input) (\<lambda>r. 1 \<le> length r \<and> length r \<le> 128 \<and> \<not> hasAsciiControl r))
       (ledgerRange ''ledger conflict request ID is invalid'')) (\<lambda>_.
     assertR (optionIn (resolveAddressHash input) isSha256Text)
       (ledgerRange ''ledger conflict remote address hash is invalid''))))))"

definition administratorMay :: "ingest_conflict \<Rightarrow> conflict_action \<Rightarrow> bool" where
  "administratorMay c action \<longleftrightarrow>
     conflictType c = DuplicateExternalId \<and> action = KeepExisting \<or>
     conflictType c \<noteq> RawPageVariant \<and> conflictType c \<noteq> DuplicateExternalId \<and> action = AcknowledgeIsolated"

record resolve_conflict_result =
  resolvedOperation :: conflict_operation
  resolvedConflict :: ingest_conflict
  resolvedReplayed :: bool

definition resolveConflict ::
    "ledger_env \<Rightarrow> resolve_conflict_input \<Rightarrow> int option \<Rightarrow> ledger_db \<Rightarrow> ledger_error + resolve_conflict_result \<times> ledger_db" where
  "resolveConflict env input nowArg db =
     bindR (validateResolveConflictInput input) (\<lambda>_.
     bindR (safeLedgerNow env nowArg) (\<lambda>requestedNow.
     let r = \<lparr>requestConflictId = resolveConflictId input, requestAction = resolveAction input, requestActorType = AdminActor,
              requestActorId = Some (resolveActorId input), requestReason = resolveReason input\<rparr>;
         key = ''admin:'' @ resolveOperationId input
     in bindR (readConflictOperation db (resolveOperationId input)) (\<lambda>replay.
        case replay of
          Some op \<Rightarrow>
            bindR (assertR (conflictOperationKey op = key \<and> conflictOperationFingerprint op = conflictRequestFingerprint env r \<and>
                conflictOperationRequest op = r) (LedgerConflictError ''ledger_conflict_operation_conflict'')) (\<lambda>_.
            bindR (requireConflict db (requestConflictId (conflictOperationRequest op))) (\<lambda>c.
            Inr (\<lparr>resolvedOperation = op, resolvedConflict = c, resolvedReplayed = True\<rparr>, db)))
        | None \<Rightarrow>
            bindR (readConflict db (resolveConflictId input)) (\<lambda>found.
            case found of
              None \<Rightarrow> Inl (LedgerConflictError ''ledger_conflict_not_found'')
            | Some c \<Rightarrow>
                bindR (assertR (conflictStatus c = ConflictOpen) (LedgerConflictError ''ledger_conflict_state_conflict'')) (\<lambda>_.
                bindR (assertR (administratorMay c (resolveAction input)) (LedgerConflictError ''ledger_conflict_action_not_allowed'')) (\<lambda>_.
                bindR (insertConflictOperation env (resolveOperationId input) key r (max requestedNow (conflictCreatedAt c)) db) (\<lambda>(op, db).
                bindR (requireConflict db (conflictId c)) (\<lambda>resolved.
                bindR (assertR (conflictStatus resolved \<noteq> ConflictOpen \<and> conflictOperationOf resolved = Some (conflictOperationId op))
                  (ledgerThrow ''ledger conflict operation did not reach a terminal state'')) (\<lambda>_.
                Inr (\<lparr>resolvedOperation = op, resolvedConflict = resolved, resolvedReplayed = False\<rparr>,
                     appendConflictAudit op (resolveRequestId input) (resolveAddressHash input) db))))))))))"

end
