(* ===== verification/LedgerIngest.thy ===== *)
theory LedgerIngest
  imports LedgerConflicts
begin

text \<open>
  The ingestion of a window (\<^verbatim>\<open>LedgerStore\<close> of \<^verbatim>\<open>ledger/store.ts\<close>): a run scans its window as a
  tree of segments, one provider page for each; a page that is not complete splits its segment, a
  complete one is accepted and its lines are normalised, and when no segment is pending the cursor
  moves and the run is complete.
\<close>

subsection \<open>Reading rows\<close>

definition readRun :: "ledger_db \<Rightarrow> string \<Rightarrow> ledger_error + ingest_run option" where
  "readRun db rid =
     (case List.find (\<lambda>r. runId r = rid) (ingestRuns db) of
        None \<Rightarrow> Inr None | Some row \<Rightarrow> bindR (mapRun row) (\<lambda>r. Inr (Some r)))"

definition requireRun :: "ledger_db \<Rightarrow> string \<Rightarrow> ledger_error + ingest_run" where
  "requireRun db rid = bindR (readRun db rid) (\<lambda>found.
     case found of None \<Rightarrow> Inl (ledgerThrow ''ingest run does not exist'') | Some r \<Rightarrow> Inr r)"

definition mapSegment :: "ingest_segment \<Rightarrow> ledger_error + ingest_segment" where
  "mapSegment row =
     bindR (safeLedgerInteger (segmentDepth row) ''ingest segment depth'') (\<lambda>_.
     bindR (safeLedgerInteger (segmentCreatedAt row) ''ingest segment created-at'') (\<lambda>_.
     bindR (safeLedgerOption (segmentCompletedAt row) ''ingest segment completed-at'') (\<lambda>_. Inr row)))"

definition requireSegment :: "ledger_db \<Rightarrow> string \<Rightarrow> ledger_error + ingest_segment" where
  "requireSegment db sid =
     (case List.find (\<lambda>s. segmentId s = sid) (ingestSegments db) of
        None \<Rightarrow> Inl (ledgerThrow ''ingest segment does not exist'') | Some row \<Rightarrow> mapSegment row)"

definition requireRootSegment :: "ledger_db \<Rightarrow> string \<Rightarrow> ledger_error + ingest_segment" where
  "requireRootSegment db rid =
     (case List.find (\<lambda>s. segmentRunId s = rid \<and> segmentParent s = None) (ingestSegments db) of
        None \<Rightarrow> Inl (ledgerThrow ''ingest run has no root segment'') | Some row \<Rightarrow> mapSegment row)"

text \<open>
  The next pending segment: from the start of the window in a normal scan, from its end in a
  compensating one, then by window end, depth and id.
\<close>

definition readNextPendingSegment :: "ledger_db \<Rightarrow> string \<Rightarrow> ledger_error + ingest_segment option" where
  "readNextPendingSegment db rid =
     (let rows = filter (\<lambda>s. segmentRunId s = rid \<and> segmentState s = SegmentPending) (ingestSegments db);
          scan = map_option runScanKind (List.find (\<lambda>r. runId r = rid) (ingestRuns db));
          starts = map (windowFrom \<circ> segmentWindow) rows;
          first = (case scan of
              None \<Rightarrow> rows
            | Some NormalScan \<Rightarrow> filter (\<lambda>s. list_all (\<lambda>x. windowFrom (segmentWindow s) \<le> x) starts) rows
            | Some _ \<Rightarrow> filter (\<lambda>s. list_all (\<lambda>x. x \<le> windowFrom (segmentWindow s)) starts) rows)
      in case sort_key (\<lambda>s. (windowUntil (segmentWindow s), segmentDepth s, segmentId s)) first of
           [] \<Rightarrow> Inr None | row # _ \<Rightarrow> bindR (mapSegment row) (\<lambda>s. Inr (Some s)))"

definition mapCursor :: "ledger_cursor \<Rightarrow> ledger_error + ledger_cursor" where
  "mapCursor row =
     bindR (safeLedgerOption (cursorNextPage row) ''ledger next page'') (\<lambda>_.
     bindR (safeLedgerInteger (cursorPageSize row) ''ledger page size'') (\<lambda>_.
     bindR (safeLedgerInteger (cursorOverlap row) ''ledger overlap'') (\<lambda>_.
     bindR (safeLedgerOption (cursorLastEvent row) ''ledger last event'') (\<lambda>_.
     bindR (safeLedgerOption (cursorLastCompleted row) ''ledger completion'') (\<lambda>_.
     bindR (safeLedgerInteger (cursorUpdatedAt row) ''ledger cursor updated-at'') (\<lambda>_.
     bindR (safeLedgerInteger (cursorVersion row) ''ledger cursor version'') (\<lambda>_. Inr row)))))))"

definition readCursor :: "ledger_db \<Rightarrow> string \<Rightarrow> ingest_scan_lane \<Rightarrow> ledger_error + ledger_cursor option" where
  "readCursor db key lane =
     (case List.find (\<lambda>c. cursorKey c = key \<and> cursorLane c = lane) (ledgerCursors db) of
        None \<Rightarrow> Inr None | Some row \<Rightarrow> bindR (mapCursor row) (\<lambda>c. Inr (Some c)))"

definition requireCursor :: "ledger_db \<Rightarrow> string \<Rightarrow> ingest_scan_lane \<Rightarrow> ledger_error + ledger_cursor" where
  "requireCursor db key lane = bindR (readCursor db key lane) (\<lambda>found.
     case found of None \<Rightarrow> Inl (ledgerThrow ''ledger cursor does not exist'') | Some c \<Rightarrow> Inr c)"

definition mapRawPage :: "raw_page \<Rightarrow> ledger_error + raw_page" where
  "mapRawPage row =
     bindR (safeLedgerInteger (pageNumber row) ''raw page number'') (\<lambda>_.
     bindR (safeLedgerInteger (pageSizeOf row) ''raw page size'') (\<lambda>_.
     bindR (safeLedgerInteger (pageTotalSize row) ''raw page total size'') (\<lambda>_.
     bindR (safeLedgerInteger (pageHttpStatus row) ''raw page HTTP status'') (\<lambda>_.
     bindR (safeLedgerInteger (pageReceivedAt row) ''raw page received-at'') (\<lambda>_. Inr row)))))"

definition mapFoundPage :: "raw_page option \<Rightarrow> ledger_error + raw_page option" where
  "mapFoundPage found = (case found of None \<Rightarrow> Inr None | Some p \<Rightarrow> bindR (mapRawPage p) (\<lambda>p. Inr (Some p)))"

definition readRawPageByFingerprints :: "ledger_db \<Rightarrow> string \<Rightarrow> string \<Rightarrow> string \<Rightarrow> ledger_error + raw_page option" where
  "readRawPageByFingerprints db key requestHash responseHash =
     mapFoundPage (List.find (\<lambda>p. pageProviderKey p = key \<and> pageRequestHash p = requestHash \<and> pageResponseHash p = responseHash)
       (rawPages db))"

definition requireRawPage :: "ledger_db \<Rightarrow> string \<Rightarrow> ledger_error + raw_page" where
  "requireRawPage db pid =
     (case List.find (\<lambda>p. rawPageId p = pid) (rawPages db) of
        None \<Rightarrow> Inl (ledgerThrow ''provider raw page cannot be read'') | Some p \<Rightarrow> mapRawPage p)"

definition readLatestPageObservation ::
    "ledger_db \<Rightarrow> string \<Rightarrow> string \<Rightarrow> ledger_error + (page_observation \<times> raw_page) option" where
  "readLatestPageObservation db key requestHash =
     (case latestOf (observationsOfRequest db key requestHash) of
        None \<Rightarrow> Inr None
      | Some (o', p) \<Rightarrow>
          bindR (mapRawPage p) (\<lambda>p.
          bindR (safeLedgerInteger (observationSequence o') ''provider page observation sequence'') (\<lambda>_. Inr (Some (o', p)))))"

text \<open>\<open>MAX\<close> of a nullable column, \<open>None\<close> for no row.\<close>

definition maximumOf :: "int list \<Rightarrow> int option" where
  "maximumOf xs = (if xs = [] then None else Some (foldr max xs (hd xs)))"

definition clampIngestWriteTime :: "ledger_db \<Rightarrow> ingest_run \<Rightarrow> ledger_cursor \<Rightarrow> int \<Rightarrow> ledger_error + int" where
  "clampIngestWriteTime db run cursor requestedNow =
     (let rows = filter (\<lambda>s. segmentRunId s = runId run) (ingestSegments db)
      in bindR (safeLedgerOption (maximumOf (map segmentCreatedAt rows)) ''latest ingest segment creation'') (\<lambda>created.
         bindR (safeLedgerOption (maximumOf (concat (map (\<lambda>s. case segmentCompletedAt s of None \<Rightarrow> [] | Some t \<Rightarrow> [t]) rows)))
           ''latest ingest segment completion'') (\<lambda>completed.
         Inr (max (max (max requestedNow (runStartedAt run)) (cursorUpdatedAt cursor))
           (max (case created of None \<Rightarrow> 0 | Some t \<Rightarrow> t) (case completed of None \<Rightarrow> 0 | Some t \<Rightarrow> t))))))"

subsection \<open>Cursors\<close>

text \<open>
  An update of the cursor that read it with its version; the two triggers want the version to advance
  once and the time not to go back.
\<close>

definition updateCursor :: "(ledger_cursor \<Rightarrow> bool) \<Rightarrow> (ledger_cursor \<Rightarrow> ledger_cursor) \<Rightarrow> string \<Rightarrow> ledger_db \<Rightarrow> ledger_error + ledger_db" where
  "updateCursor p f label db =
     bindR (assertR (list_all (\<lambda>c. p c \<longrightarrow> cursorVersion (f c) = cursorVersion c + 1) (ledgerCursors db))
       (ledgerAbort ''ledger cursor version must advance exactly once'')) (\<lambda>_.
     bindR (assertR (list_all (\<lambda>c. p c \<longrightarrow> cursorUpdatedAt c \<le> cursorUpdatedAt (f c)) (ledgerCursors db))
       (ledgerAbort ''ledger cursor updated_at cannot move backwards'')) (\<lambda>_.
     bindR (assertR (changes p (ledgerCursors db) = 1) (ledgerThrow (label @ '' did not change exactly one row''))) (\<lambda>_.
     Inr (db\<lparr>ledgerCursors := updateRows p f (ledgerCursors db)\<rparr>))))"

definition ownCursor :: "ledger_cursor \<Rightarrow> ledger_cursor \<Rightarrow> bool" where
  "ownCursor cursor c \<longleftrightarrow> cursorKey c = cursorKey cursor \<and> cursorLane c = cursorLane cursor \<and> cursorVersion c = cursorVersion cursor"

definition updateRun :: "string \<Rightarrow> (ingest_run \<Rightarrow> ingest_run) \<Rightarrow> string \<Rightarrow> ledger_db \<Rightarrow> ledger_error + ledger_db" where
  "updateRun rid f label db =
     (let p = (\<lambda>r. runId r = rid \<and> runStatus r = RunRunning)
      in bindR (assertR (changes p (ingestRuns db) = 1) (ledgerThrow (label @ '' did not change exactly one row''))) (\<lambda>_.
         bindR (assertR (list_all (\<lambda>r. p r \<longrightarrow> (case runCompletedAt (f r) of None \<Rightarrow> True | Some t \<Rightarrow> runStartedAt r \<le> t)) (ingestRuns db))
           (ledgerAbort ''CHECK ingest_runs'')) (\<lambda>_.
         Inr (db\<lparr>ingestRuns := updateRows p f (ingestRuns db)\<rparr>))))"

definition updateSegment :: "string \<Rightarrow> (ingest_segment \<Rightarrow> ingest_segment) \<Rightarrow> string \<Rightarrow> ledger_db \<Rightarrow> ledger_error + ledger_db" where
  "updateSegment sid f label db =
     (let p = (\<lambda>s. segmentId s = sid \<and> segmentState s = SegmentPending)
      in bindR (assertR (changes p (ingestSegments db) = 1) (ledgerThrow (label @ '' did not change exactly one row''))) (\<lambda>_.
         bindR (assertR (list_all (\<lambda>s. p s \<longrightarrow> (case segmentCompletedAt (f s) of None \<Rightarrow> True | Some t \<Rightarrow> segmentCreatedAt s \<le> t)) (ingestSegments db))
           (ledgerAbort ''CHECK ingest_segments'')) (\<lambda>_.
         Inr (db\<lparr>ingestSegments := updateRows p f (ingestSegments db)\<rparr>))))"

subsection \<open>Starting a run\<close>

record start_run_input =
  startKey :: "string option"
  startWindow :: ledger_window
  startPageSize :: int
  startOverlap :: "int option"
  startScanKind :: "ingest_scan_kind option"

definition sourceActive :: "ledger_env \<Rightarrow> ledger_db \<Rightarrow> string \<Rightarrow> ledger_error + unit" where
  "sourceActive env db key =
     bindR (readProviderIdentityBinding db key) (\<lambda>found.
     case found of
       None \<Rightarrow> Inl (ledgerThrow ''provider account must be bound before ledger ingestion'')
     | Some binding \<Rightarrow>
         bindR (assertBindingIntegrity env binding) (\<lambda>_.
         bindR (readActiveProviderIdentity env db) (\<lambda>active.
         assertR (key \<in> set (accountKeys db) \<or> map_option (activationKey \<circ> fst) active = Some key)
           (ledgerThrow ''provider account must be active before ledger ingestion''))))"

definition runMatches :: "ingest_run \<Rightarrow> ledger_cursor option \<Rightarrow> ledger_window \<Rightarrow> int \<Rightarrow> ingest_scan_kind \<Rightarrow> int \<Rightarrow> bool" where
  "runMatches running cursor window pageSize scanKind overlap \<longleftrightarrow>
     runWindow running = window \<and> runPageSize running = pageSize \<and> runScanKind running = scanKind \<and>
     (case cursor of None \<Rightarrow> False | Some c \<Rightarrow>
        cursorWindow c = window \<and> cursorPageSize c = pageSize \<and> cursorScanKind c = runScanKind running \<and>
        cursorOverlap c = overlap \<and> \<not> cursorComplete c)"

definition openCursor ::
    "string \<Rightarrow> ingest_scan_lane \<Rightarrow> ledger_cursor option \<Rightarrow> ledger_window \<Rightarrow> int \<Rightarrow> ingest_scan_kind \<Rightarrow> int \<Rightarrow> int \<Rightarrow> ledger_db \<Rightarrow>
     ledger_error + ledger_db" where
  "openCursor key lane cursor window pageSize kind overlap now db =
     (case cursor of
        None \<Rightarrow>
          bindR (assertR (\<not> list_ex (\<lambda>c. cursorKey c = key \<and> cursorLane c = lane) (ledgerCursors db))
            (ledgerAbort ''UNIQUE ledger_cursors.provider_account_key, scan_lane'')) (\<lambda>_.
          Inr (db\<lparr>ledgerCursors := ledgerCursors db @
            [\<lparr>cursorKey = key, cursorLane = lane, cursorWindow = window, cursorNextPage = Some 1, cursorPageSize = pageSize,
              cursorScanKind = kind, cursorOverlap = overlap, cursorComplete = False, cursorLastEvent = None,
              cursorLastCompleted = None, cursorUpdatedAt = now, cursorVersion = 1\<rparr>]\<rparr>))
      | Some c \<Rightarrow>
          if \<not> cursorComplete c
          then bindR (assertR (cursorWindow c = window \<and> cursorPageSize c = pageSize \<and> cursorOverlap c = overlap)
              (ledgerThrow ''an incomplete ledger window must be resumed with the same parameters'')) (\<lambda>_. Inr db)
          else updateCursor (\<lambda>r. cursorKey r = key \<and> cursorLane r = lane)
              (\<lambda>r. r\<lparr>cursorWindow := window, cursorNextPage := Some 1, cursorPageSize := pageSize, cursorScanKind := kind,
                cursorOverlap := overlap, cursorComplete := False, cursorUpdatedAt := now, cursorVersion := cursorVersion r + 1\<rparr>)
              ''ledger cursor restart'' db)"

definition newRun :: "string \<Rightarrow> string \<Rightarrow> ledger_window \<Rightarrow> int \<Rightarrow> ingest_scan_kind \<Rightarrow> int \<Rightarrow> ingest_run" where
  "newRun rid key window pageSize kind now =
     \<lparr>runId = rid, runProviderKey = key, runWindow = window, runPageSize = pageSize, runScanKind = kind, runStatus = RunRunning,
      runStartedAt = now, runCompletedAt = None, runPagesReceived = 0, runDetailsReceived = 0, runFailureCode = None\<rparr>"

definition pendingSegment :: "string \<Rightarrow> string \<Rightarrow> string option \<Rightarrow> ledger_window \<Rightarrow> int \<Rightarrow> int \<Rightarrow> ingest_segment" where
  "pendingSegment sid rid parent window depth now =
     \<lparr>segmentId = sid, segmentRunId = rid, segmentParent = parent, segmentWindow = window, segmentDepth = depth,
      segmentState = SegmentPending, segmentSplitAt = None, segmentPage = None, segmentCreatedAt = now, segmentCompletedAt = None\<rparr>"

definition beginRun ::
    "ledger_env \<Rightarrow> string \<Rightarrow> ingest_scan_lane \<Rightarrow> ledger_cursor option \<Rightarrow> ledger_window \<Rightarrow> int \<Rightarrow> ingest_scan_kind \<Rightarrow> int \<Rightarrow> int \<Rightarrow>
     ledger_db \<Rightarrow> ledger_error + ingest_run \<times> ledger_db" where
  "beginRun env key lane cursor window pageSize scanKind overlap requestedNow db =
     (let now = max (max requestedNow (case cursor of None \<Rightarrow> 0 | Some c \<Rightarrow> cursorUpdatedAt c))
                  (case cursor of None \<Rightarrow> 0 | Some c \<Rightarrow> (case cursorLastCompleted c of None \<Rightarrow> 0 | Some t \<Rightarrow> t));
          kind = (case cursor of Some c \<Rightarrow> if \<not> cursorComplete c then cursorScanKind c else scanKind | None \<Rightarrow> scanKind);
          rid = uuidFor env ForRun (length (ingestRuns db))
      in bindR (openCursor key lane cursor window pageSize kind overlap now db) (\<lambda>db.
         bindR (insertRun (newRun rid key window pageSize kind now) db) (\<lambda>db.
         bindR (insertSegment (pendingSegment (uuidFor env ForSegment (length (ingestSegments db))) rid None window 0 now) db) (\<lambda>db.
         bindR (requireRun db rid) (\<lambda>run. Inr (run, db))))))"

definition startIngestRun :: "ledger_env \<Rightarrow> start_run_input \<Rightarrow> int option \<Rightarrow> ledger_db \<Rightarrow> ledger_error + ingest_run \<times> ledger_db" where
  "startIngestRun env input nowArg db =
     bindR (validateWindow (startWindow input)) (\<lambda>_.
     bindR (validatePageSize (startPageSize input)) (\<lambda>_.
     bindR (normalizeProviderAccountKey (startKey input)) (\<lambda>key.
     let overlap = (case startOverlap input of None \<Rightarrow> 5 * 60 * 1000 | Some n \<Rightarrow> n);
         scanKind = (case startScanKind input of None \<Rightarrow> NormalScan | Some k \<Rightarrow> k); lane = scanLaneForKind scanKind
     in bindR (validateOverlapMilliseconds overlap) (\<lambda>_.
        bindR (safeLedgerNow env nowArg) (\<lambda>requestedNow.
        bindR (sourceActive env db key) (\<lambda>_.
        bindR (readRunningRun db key (Some lane)) (\<lambda>running.
        bindR (readCursor db key lane) (\<lambda>cursor.
        case running of
          Some r \<Rightarrow>
            bindR (assertR (runMatches r cursor (startWindow input) (startPageSize input) scanKind overlap)
              (ledgerThrow ''provider account already has a different running ingest window'')) (\<lambda>_.
            bindR (requireRootSegment db (runId r)) (\<lambda>_. Inr (r, db)))
        | None \<Rightarrow> beginRun env key lane cursor (startWindow input) (startPageSize input) scanKind overlap requestedNow db))))))))"

subsection \<open>Compensation and schedule\<close>

definition nextCompensationDueAt :: "int \<Rightarrow> int \<Rightarrow> ledger_error + int" where
  "nextCompensationDueAt now interval =
     (if now > maxSafeInteger - interval then Inl (ledgerRange ''ledger compensation due time exceeds the safe integer range'')
      else Inr (now + interval))"

definition tenMinuteInterval :: int where "tenMinuteInterval = 60 * 1000"
definition hourInterval :: int where "hourInterval = 60 * 60 * 1000"
definition dayInterval :: int where "dayInterval = 24 * 60 * 60 * 1000"

definition mapCompensation :: "compensation_state \<Rightarrow> ledger_error + compensation_state" where
  "mapCompensation row =
     bindR (safeLedgerInteger (next10mAt row) ''ledger 10-minute compensation due time'') (\<lambda>_.
     bindR (safeLedgerInteger (next1hAt row) ''ledger hourly compensation due time'') (\<lambda>_.
     bindR (safeLedgerInteger (next1dAt row) ''ledger daily compensation due time'') (\<lambda>_.
     bindR (safeLedgerInteger (compensationUpdatedAt row) ''ledger compensation state updated-at'') (\<lambda>_. Inr row))))"

definition dueTimes :: "ingest_scan_kind \<Rightarrow> int \<Rightarrow> compensation_state \<Rightarrow> ledger_error + int \<times> int \<times> int" where
  "dueTimes kind now s =
     (case kind of
        NormalScan \<Rightarrow> Inr (next10mAt s, next1hAt s, next1dAt s)
      | Compensation10m \<Rightarrow> bindR (nextCompensationDueAt now tenMinuteInterval) (\<lambda>m. Inr (m, next1hAt s, next1dAt s))
      | Compensation1h \<Rightarrow>
          bindR (nextCompensationDueAt now hourInterval) (\<lambda>h.
          bindR (nextCompensationDueAt now tenMinuteInterval) (\<lambda>m. Inr (m, h, next1dAt s)))
      | Compensation1d \<Rightarrow>
          bindR (nextCompensationDueAt now dayInterval) (\<lambda>d.
          bindR (nextCompensationDueAt now hourInterval) (\<lambda>h.
          bindR (nextCompensationDueAt now tenMinuteInterval) (\<lambda>m. Inr (m, h, d)))))"

definition advanceCompensationState :: "string \<Rightarrow> ingest_scan_kind \<Rightarrow> int \<Rightarrow> ledger_db \<Rightarrow> ledger_error + ledger_db" where
  "advanceCompensationState key kind now db =
     (case List.find (\<lambda>s. compensationKey s = key) (compensationStates db) of
        None \<Rightarrow>
          bindR (nextCompensationDueAt now tenMinuteInterval) (\<lambda>m.
          bindR (nextCompensationDueAt now hourInterval) (\<lambda>h.
          bindR (nextCompensationDueAt now dayInterval) (\<lambda>d.
          Inr (db\<lparr>compensationStates := compensationStates db @
            [\<lparr>compensationKey = key, next10mAt = m, next1hAt = h, next1dAt = d, compensationUpdatedAt = now\<rparr>]\<rparr>))))
      | Some row \<Rightarrow>
          bindR (mapCompensation row) (\<lambda>existing.
          bindR (dueTimes kind now existing) (\<lambda>(m, h, d).
          Inr (db\<lparr>compensationStates := updateRows (\<lambda>s. compensationKey s = key)
            (\<lambda>s. s\<lparr>next10mAt := m, next1hAt := h, next1dAt := d,
               compensationUpdatedAt := max (compensationUpdatedAt existing) now\<rparr>) (compensationStates db)\<rparr>))))"

definition validateRetryInterval :: "int \<Rightarrow> ledger_error + int" where
  "validateRetryInterval n =
     (if \<not> isSafeInteger n \<or> n < 1000 \<or> n > 3600000 then Inl (ledgerRange ''ledger retry interval is invalid'') else Inr n)"

definition validateRetryAfter :: "int option \<Rightarrow> ledger_error + int option" where
  "validateRetryAfter value =
     (case value of None \<Rightarrow> Inr None
      | Some n \<Rightarrow> if \<not> isSafeInteger n \<or> n < 0 \<or> n > 86400 then Inl (ledgerRange ''ledger retry-after is invalid'') else Inr (Some n))"

definition maximumRetryDelay :: int where "maximumRetryDelay = 24 * 60 * 60 * 1000"
definition nonRetryableCooldown :: int where "nonRetryableCooldown = 15 * 60 * 1000"
definition variantRetryMaximum :: int where "variantRetryMaximum = 5 * 1000"

definition retryDelay :: "bool \<Rightarrow> int \<Rightarrow> int option \<Rightarrow> int \<Rightarrow> int" where
  "retryDelay retryable interval retryAfter failures =
     (let baseDelay = (if retryable then interval else nonRetryableCooldown);
          exponential = (if retryable then min maximumRetryDelay (baseDelay * 2 ^ nat (min 30 (failures - 1))) else baseDelay);
          after = (case retryAfter of None \<Rightarrow> 0 | Some n \<Rightarrow> n * 1000)
      in min maximumRetryDelay (max (max baseDelay exponential) after))"

definition mapSchedule :: "schedule_state \<Rightarrow> ledger_error + schedule_state" where
  "mapSchedule row =
     bindR (safeLedgerInteger (consecutiveFailures row) ''ledger ingest consecutive failures'') (\<lambda>_.
     bindR (safeLedgerInteger (cooldownUntil row) ''ledger ingest cooldown'') (\<lambda>_.
     bindR (safeLedgerInteger (scheduleUpdatedAt row) ''ledger ingest schedule updated-at'') (\<lambda>_. Inr row)))"

definition readSchedule :: "ledger_db \<Rightarrow> string \<Rightarrow> ledger_error + schedule_state option" where
  "readSchedule db key =
     (case List.find (\<lambda>s. scheduleKey s = key) (scheduleStates db) of
        None \<Rightarrow> Inr None | Some row \<Rightarrow> bindR (mapSchedule row) (\<lambda>s. Inr (Some s)))"

definition recordScheduleFailure ::
    "string \<Rightarrow> string \<Rightarrow> bool \<Rightarrow> int \<Rightarrow> int option \<Rightarrow> int \<Rightarrow> ledger_db \<Rightarrow> ledger_error + ledger_db" where
  "recordScheduleFailure key code retryable interval retryAfter requestedNow db =
     bindR (readSchedule db key) (\<lambda>existing.
     let now = max requestedNow (case existing of None \<Rightarrow> 0 | Some s \<Rightarrow> scheduleUpdatedAt s);
         failures = min maxSafeInteger ((case existing of None \<Rightarrow> 0 | Some s \<Rightarrow> consecutiveFailures s) + 1);
         row = \<lparr>scheduleKey = key, consecutiveFailures = failures,
           cooldownUntil = min maxSafeInteger (now + retryDelay retryable interval retryAfter failures), lastErrorCode = code,
           scheduleRetryable = retryable, scheduleUpdatedAt = now\<rparr>
     in bindR (assertR (1 \<le> failures \<and> 0 \<le> now \<and> now \<le> cooldownUntil row) (ledgerAbort ''CHECK ledger_ingest_schedule_state'')) (\<lambda>_.
        let db = db\<lparr>scheduleStates := filter (\<lambda>s. scheduleKey s \<noteq> key) (scheduleStates db) @ [row]\<rparr>
        in bindR (readSchedule db key) (\<lambda>_. Inr db)))"

definition clearSchedule :: "string \<Rightarrow> ledger_db \<Rightarrow> ledger_db" where
  "clearSchedule key db = db\<lparr>scheduleStates := filter (\<lambda>s. scheduleKey s \<noteq> key) (scheduleStates db)\<rparr>"

end
