(* ===== verification/LedgerPages.thy ===== *)
theory LedgerPages
  imports LedgerIngest
begin

text \<open>
  Recording a provider page for a segment (\<^verbatim>\<open>recordSegmentPage\<close> and the functions it calls): the
  page is kept as evidence, compared with the last page of the same request, and then splits or
  completes the segment; and the other operations on a run.
\<close>

subsection \<open>Keeping the page\<close>

definition requestFingerprint :: "ledger_env \<Rightarrow> string \<Rightarrow> ledger_window \<Rightarrow> int \<Rightarrow> int \<Rightarrow> string" where
  "requestFingerprint env key window pageNo pageSize =
     sha256Json (ledgerSha env) (JArr [JStr (js ''perpay:ledger-request:v1''), JStr (js key), JStr (windowFrom window),
       JStr (windowUntil window), JInt pageNo, JInt pageSize])"

definition nextAttempt :: "ledger_db \<Rightarrow> string \<Rightarrow> string \<Rightarrow> ledger_error + int" where
  "nextAttempt db sid pid =
     (let latest = (case maximumOf (map observationAttempt (filter (\<lambda>o'. observationSegmentId o' = sid \<and> observationPageId o' = pid)
            (pageObservations db))) of None \<Rightarrow> 0 | Some n \<Rightarrow> n)
      in bindR (safeLedgerInteger latest ''latest provider page observation attempt'') (\<lambda>_.
         if latest \<ge> maxSafeInteger then Inl (ledgerThrow ''provider page observation attempt is exhausted'') else Inr (latest + 1)))"

definition nextSequence :: "ledger_db \<Rightarrow> ledger_error + int" where
  "nextSequence db =
     (let latest = (case maximumOf (map observationSequence (pageObservations db)) of None \<Rightarrow> 0 | Some n \<Rightarrow> n)
      in bindR (safeLedgerInteger latest ''latest provider page observation sequence'') (\<lambda>_.
         if latest \<ge> maxSafeInteger then Inl (ledgerThrow ''provider page observation sequence is exhausted'') else Inr (latest + 1)))"

definition insertPageObservation ::
    "string \<Rightarrow> string \<Rightarrow> string \<Rightarrow> observation_kind \<Rightarrow> prepared_page \<Rightarrow> observation_disposition \<Rightarrow> ledger_db \<Rightarrow> ledger_error + ledger_db" where
  "insertPageObservation rid sid pid kind prepared disposition db =
     bindR (nextSequence db) (\<lambda>sequence.
     bindR (nextAttempt db sid pid) (\<lambda>attempt.
     insertObservation
       \<lparr>observationRunId = rid, observationSegmentId = sid, observationPageId = pid, observationAttempt = attempt,
        observationKind = kind, observationStatus = evidenceStatus (preparedEvidence prepared),
        observationHeadersJson = preparedHeaders prepared, observationTraceId = evidenceTraceId (preparedEvidence prepared),
        observationVerified = evidenceVerified (preparedEvidence prepared), observedAt = preparedNow prepared,
        observationDisposition = disposition, observationSequence = sequence\<rparr> db))"

definition rawEventCountForPage :: "ledger_db \<Rightarrow> string \<Rightarrow> nat" where
  "rawEventCountForPage db pid = length (filter (\<lambda>e. eventPageId e = pid) (rawEvents db))"

definition hasProcessedPageObservation :: "ledger_db \<Rightarrow> string \<Rightarrow> ledger_error + bool" where
  "hasProcessedPageObservation db pid =
     (let rows = filter (\<lambda>o'. observationPageId o' = pid) (pageObservations db)
      in bindR (assertR (rows \<noteq> []) (ledgerThrow ''stored provider page has no observation evidence'')) (\<lambda>_.
         Inr (list_ex (\<lambda>o'. observationDisposition o' = Processed) rows)))"

datatype page_observation_result = PageInserted | PageDuplicate | PageConfirmed | PageVariant

record retained_page =
  retainedObservation :: page_observation_result
  retainedPage :: raw_page
  shouldNormalize :: bool
  previousVariantPage :: "string option"

definition pageMatchesStored :: "raw_page \<Rightarrow> ingest_segment \<Rightarrow> page_input \<Rightarrow> prepared_page \<Rightarrow> bool" where
  "pageMatchesStored p segment page prepared \<longleftrightarrow>
     pageWindow p = segmentWindow segment \<and> pageNumber p = 1 \<and> pageSizeOf p = inputPageSize page \<and>
     pageTotalSize p = inputTotalSize page \<and> pageHasMore p = inputHasMore page \<and>
     pageHttpStatus p = evidenceStatus (preparedEvidence prepared) \<and> pageVerified p = evidenceVerified (preparedEvidence prepared)"

definition newRawPage :: "string \<Rightarrow> ingest_run \<Rightarrow> ingest_segment \<Rightarrow> page_input \<Rightarrow> prepared_page \<Rightarrow> string \<Rightarrow> raw_page" where
  "newRawPage pid run segment page prepared requestHash =
     \<lparr>rawPageId = pid, pageRunId = runId run, pageProviderKey = runProviderKey run, pageWindow = segmentWindow segment,
      pageNumber = 1, pageSizeOf = inputPageSize page, pageTotalSize = inputTotalSize page, pageHasMore = inputHasMore page,
      pageRequestHash = requestHash, pageResponseHash = preparedHash prepared,
      pageHttpStatus = evidenceStatus (preparedEvidence prepared), pageHeadersJson = preparedHeaders prepared,
      pageBody = preparedBody prepared, pageTraceId = evidenceTraceId (preparedEvidence prepared), pageVerified = True,
      pageReceivedAt = preparedNow prepared\<rparr>"

definition keepPage ::
    "ledger_env \<Rightarrow> ingest_run \<Rightarrow> ingest_segment \<Rightarrow> page_input \<Rightarrow> prepared_page \<Rightarrow> string \<Rightarrow> raw_page option \<Rightarrow> ledger_db \<Rightarrow>
     ledger_error + raw_page \<times> ledger_db" where
  "keepPage env run segment page prepared requestHash existing db =
     (case existing of
        Some p \<Rightarrow>
          bindR (assertR (pageMatchesStored p segment page prepared)
            (ledgerThrow ''duplicate provider segment metadata does not match stored evidence'')) (\<lambda>_. Inr (p, db))
      | None \<Rightarrow>
          let pid = uuidFor env ForRawPage (length (rawPages db))
          in bindR (insertRawPage (newRawPage pid run segment page prepared requestHash) db) (\<lambda>db.
             bindR (requireRawPage db pid) (\<lambda>p. Inr (p, db))))"

definition variantConflict ::
    "ingest_run \<Rightarrow> ingest_segment \<Rightarrow> string \<Rightarrow> page_observation \<Rightarrow> raw_page \<Rightarrow> raw_page \<Rightarrow> prepared_page \<Rightarrow> conflict_input" where
  "variantConflict run segment requestHash latest previous p prepared =
     \<lparr>inConflictKey = runProviderKey run, inConflictType = RawPageVariant, inConflictPage = Some (rawPageId p),
      inConflictEvent = None, inConflictEntry = None, inConflictExternal = None,
      inConflictExisting = Some (pageResponseHash previous), inConflictIncoming = Some (preparedHash prepared),
      inConflictDetails = jobject
        [(''request_fingerprint'', JStr (js requestHash)), (''ingest_segment_id'', JStr (js (segmentId segment))),
         (''previous_observation_sequence'', JInt (observationSequence latest)),
         (''existing_raw_page_id'', JStr (js (rawPageId previous))), (''incoming_raw_page_id'', JStr (js (rawPageId p)))],
      inConflictParts = [JStr (js ''RAW_PAGE_VARIANT''), JStr (js requestHash), JStr (js (segmentId segment)),
        JInt (observationSequence latest), JStr (js (rawPageId previous)), JStr (js (pageResponseHash previous)),
        JStr (js (rawPageId p)), JStr (js (preparedHash prepared))],
      inConflictNow = preparedNow prepared\<rparr>"

definition detailOf :: "string \<Rightarrow> json \<Rightarrow> json option" where
  "detailOf name details = (case details of JObj kvs \<Rightarrow> map_of kvs (js name) | _ \<Rightarrow> None)"

definition confirmableConflicts :: "ledger_db \<Rightarrow> page_observation \<Rightarrow> raw_page \<Rightarrow> ingest_conflict list" where
  "confirmableConflicts db latest p =
     (let earlier = maximumOf (map (observationSequence \<circ> fst)
            (filter (\<lambda>r. observationSequence (fst r) < observationSequence latest)
              (observationsOfRequest db (pageProviderKey p) (pageRequestHash p))))
      in filter (\<lambda>c. conflictProviderKey c = pageProviderKey p \<and> conflictStatus c = ConflictOpen \<and>
             conflictType c = RawPageVariant \<and> conflictPageId c = Some (rawPageId p) \<and>
             conflictIncomingFingerprint c = Some (pageResponseHash p) \<and>
             detailOf ''request_fingerprint'' (conflictDetails c) = Some (JStr (js (pageRequestHash p))) \<and>
             detailOf ''ingest_segment_id'' (conflictDetails c) = Some (JStr (js (observationSegmentId latest))) \<and>
             detailOf ''incoming_raw_page_id'' (conflictDetails c) = Some (JStr (js (rawPageId p))) \<and>
             (case earlier of None \<Rightarrow> False | Some n \<Rightarrow>
                detailOf ''previous_observation_sequence'' (conflictDetails c) = Some (JInt n))) (ingestConflicts db))"

definition confirmPageVariantConflict ::
    "ledger_env \<Rightarrow> page_observation \<Rightarrow> raw_page \<Rightarrow> raw_page \<Rightarrow> int \<Rightarrow> ledger_db \<Rightarrow> ledger_error + ledger_db" where
  "confirmPageVariantConflict env latest latestPage p now db =
     bindR (assertR (observationDisposition latest = RejectedVariant \<and> rawPageId latestPage = rawPageId p \<and>
         pageRequestHash latestPage = pageRequestHash p \<and> pageResponseHash latestPage = pageResponseHash p)
       (ledgerThrow ''confirmed page variant evidence is inconsistent'')) (\<lambda>_.
     case confirmableConflicts db latest p of
       [row] \<Rightarrow>
         bindR (mapConflict row) (\<lambda>c.
         bindR (insertConflictOperation env (uuidFor env ForConflictOperation (length (conflictOperations db)))
             (''system:confirm_variant:'' @ conflictId c)
             \<lparr>requestConflictId = conflictId c, requestAction = ConfirmVariant, requestActorType = SystemActor,
              requestActorId = None,
              requestReason = js ''consecutive signed response confirmed the retained page variant''\<rparr>
             (max now (conflictCreatedAt c)) db) (\<lambda>(op, db).
         bindR (requireConflict db (conflictId c)) (\<lambda>resolved.
         bindR (assertR (conflictStatus resolved = ConflictResolved \<and> conflictOperationOf resolved = Some (conflictOperationId op))
           (ledgerThrow ''confirmed page variant conflict was not resolved'')) (\<lambda>_.
         Inr (appendConflictAudit op None None db)))))
     | _ \<Rightarrow> Inl (ledgerThrow ''confirmed page variant does not identify exactly one open conflict''))"

definition retainSegmentPage ::
    "ledger_env \<Rightarrow> ingest_run \<Rightarrow> ingest_segment \<Rightarrow> page_input \<Rightarrow> prepared_page \<Rightarrow> observation_kind \<Rightarrow> ledger_db \<Rightarrow>
     ledger_error + retained_page \<times> ledger_db" where
  "retainSegmentPage env run segment page prepared kind db =
     (let requestHash = requestFingerprint env (runProviderKey run) (segmentWindow segment) 1 (inputPageSize page);
          observe = (\<lambda>pid. insertPageObservation (runId run) (segmentId segment) pid kind prepared)
      in bindR (readLatestPageObservation db (runProviderKey run) requestHash) (\<lambda>latest.
         bindR (readRawPageByFingerprints db (runProviderKey run) requestHash (preparedHash prepared)) (\<lambda>existing.
         bindR (keepPage env run segment page prepared requestHash existing db) (\<lambda>(p, db).
         case latest of
           None \<Rightarrow>
             bindR (assertR (existing = None) (ledgerThrow ''stored provider page has no ordered observation evidence'')) (\<lambda>_.
             bindR (observe (rawPageId p) Processed db) (\<lambda>db.
             Inr (\<lparr>retainedObservation = PageInserted, retainedPage = p, shouldNormalize = (kind = AcceptedLeaf),
                   previousVariantPage = None\<rparr>, db)))
         | Some (latestObservation, previous) \<Rightarrow>
             if pageResponseHash previous \<noteq> preparedHash prepared
             then
               bindR (insertConflict env (variantConflict run segment requestHash latestObservation previous p prepared) db) (\<lambda>(_, db).
               bindR (observe (rawPageId p) RejectedVariant db) (\<lambda>db.
               Inr (\<lparr>retainedObservation = PageVariant, retainedPage = p, shouldNormalize = False,
                     previousVariantPage = Some (rawPageId previous)\<rparr>, db)))
             else
               bindR (assertR (existing \<noteq> None) (ledgerThrow ''ordered provider observation references missing exact evidence'')) (\<lambda>_.
               bindR (hasProcessedPageObservation db (rawPageId p)) (\<lambda>processed.
               let stored = rawEventCountForPage db (rawPageId p);
                   confirmed = (observationDisposition latestObservation = RejectedVariant)
               in bindR (assertR (\<not> (kind = OversizedProbe \<and> stored \<noteq> 0) \<and>
                     \<not> (kind = AcceptedLeaf \<and> (processed \<and> stored \<noteq> length (inputDetails page) \<or> \<not> processed \<and> stored \<noteq> 0)))
                     (ledgerThrow ''duplicate provider segment raw event count is inconsistent'')) (\<lambda>_.
                  bindR (observe (rawPageId p) Processed db) (\<lambda>db.
                  bindR (if confirmed then confirmPageVariantConflict env latestObservation previous p (preparedNow prepared) db
                         else Inr db) (\<lambda>db.
                  Inr (\<lparr>retainedObservation = (if confirmed then PageConfirmed else PageDuplicate), retainedPage = p,
                        shouldNormalize = (confirmed \<and> \<not> processed \<and> kind = AcceptedLeaf), previousVariantPage = None\<rparr>, db))))))))))"

subsection \<open>Consequences of a page\<close>

definition updateRunProgress :: "string \<Rightarrow> int \<Rightarrow> ledger_db \<Rightarrow> ledger_error + ledger_db" where
  "updateRunProgress rid details db =
     updateRun rid (\<lambda>r. r\<lparr>runPagesReceived := runPagesReceived r + 1, runDetailsReceived := runDetailsReceived r + details\<rparr>)
       ''ingest run progress update'' db"

definition paginationError :: "ledger_env \<Rightarrow> ledger_db \<Rightarrow> ingest_run \<Rightarrow> string \<Rightarrow> bool \<Rightarrow> json \<Rightarrow> int \<Rightarrow> ingest_error" where
  "paginationError env db run code retryable details now =
     \<lparr>ingestErrorId = uuidFor env ForIngestError (length (ingestErrors db)), errorRunId = runId run,
      errorProviderKey = runProviderKey run, errorPageNo = Some 1, errorKind = ''pagination'', errorCode = code,
      errorRetryable = retryable, errorEvidence = None, errorDetails = details, errorOccurredAt = now\<rparr>"

definition yieldCursor :: "(ledger_cursor \<Rightarrow> bool) \<Rightarrow> int \<Rightarrow> string \<Rightarrow> ledger_db \<Rightarrow> ledger_error + ledger_db" where
  "yieldCursor p now label db =
     updateCursor p (\<lambda>c. c\<lparr>cursorUpdatedAt := now, cursorVersion := cursorVersion c + 1\<rparr>) label db"

definition failPaginationVariant ::
    "ledger_env \<Rightarrow> ingest_run \<Rightarrow> ingest_segment \<Rightarrow> retained_page \<Rightarrow> int \<Rightarrow> int \<Rightarrow> ledger_db \<Rightarrow> ledger_error + ledger_db" where
  "failPaginationVariant env run segment retained now retryInterval db =
     (case previousVariantPage retained of
        None \<Rightarrow> Inl (ledgerThrow ''pagination variant failure requires conflicting page evidence'')
      | Some previous \<Rightarrow>
          bindR (assertR (retainedObservation retained = PageVariant)
            (ledgerThrow ''pagination variant failure requires conflicting page evidence'')) (\<lambda>_.
          bindR (serializeDetails (jobject
              [(''ingest_segment_id'', JStr (js (segmentId segment))), (''window_start'', JStr (windowFrom (segmentWindow segment))),
               (''window_end'', JStr (windowUntil (segmentWindow segment))),
               (''request_fingerprint'', JStr (js (pageRequestHash (retainedPage retained)))),
               (''existing_raw_page_id'', JStr (js previous)), (''incoming_raw_page_id'', JStr (js (rawPageId (retainedPage retained)))),
               (''incoming_response_fingerprint'', JStr (js (pageResponseHash (retainedPage retained))))])) (\<lambda>details.
          bindR (insertErrorRow (paginationError env db run ''pagination_variant'' True details now) db) (\<lambda>db.
          bindR (recordScheduleFailure (runProviderKey run) ''pagination_variant'' True (min retryInterval variantRetryMaximum) None now db) (\<lambda>db.
          bindR (requireCursor db (runProviderKey run) (scanLaneForKind (runScanKind run))) (\<lambda>cursor.
          yieldCursor (\<lambda>c. ownCursor cursor c \<and> \<not> cursorComplete c) (max now (cursorUpdatedAt cursor))
            ''ledger cursor yield after pagination variant'' db))))))"

definition failDensityExceeded ::
    "ledger_env \<Rightarrow> ingest_run \<Rightarrow> ingest_segment \<Rightarrow> raw_page \<Rightarrow> int \<Rightarrow> int \<Rightarrow> ledger_db \<Rightarrow> ledger_error + ledger_db" where
  "failDensityExceeded env run segment p now retryInterval db =
     bindR (serializeDetails (jobject
         [(''ingest_segment_id'', JStr (js (segmentId segment))), (''raw_page_id'', JStr (js (rawPageId p))),
          (''window_start'', JStr (windowFrom (segmentWindow segment))), (''window_end'', JStr (windowUntil (segmentWindow segment))),
          (''total_size'', JInt (pageTotalSize p)), (''page_size'', JInt (pageSizeOf p))])) (\<lambda>details.
     bindR (insertErrorRow (paginationError env db run ''pagination_density_exceeded'' False details now) db) (\<lambda>db.
     bindR (recordScheduleFailure (runProviderKey run) ''pagination_density_exceeded'' False retryInterval None now db) (\<lambda>db.
     updateRun (runId run) (\<lambda>r. r\<lparr>runStatus := RunFailed, runCompletedAt := Some now,
       runFailureCode := Some ''pagination_density_exceeded''\<rparr>) ''pagination density run failure'' db)))"

definition insertChildSegment :: "ledger_env \<Rightarrow> ingest_segment \<Rightarrow> ledger_window \<Rightarrow> int \<Rightarrow> ledger_db \<Rightarrow> ledger_error + ingest_segment \<times> ledger_db" where
  "insertChildSegment env parent window now db =
     (let sid = uuidFor env ForSegment (length (ingestSegments db))
      in bindR (insertSegment (pendingSegment sid (segmentRunId parent) (Some (segmentId parent)) window (segmentDepth parent + 1) now) db) (\<lambda>db.
         bindR (requireSegment db sid) (\<lambda>s. Inr (s, db))))"

definition hasPendingSegments :: "ledger_db \<Rightarrow> string \<Rightarrow> bool" where
  "hasPendingSegments db rid \<longleftrightarrow> list_ex (\<lambda>s. segmentRunId s = rid \<and> segmentState s = SegmentPending) (ingestSegments db)"

definition latestOccurredAtForRun :: "ledger_db \<Rightarrow> string \<Rightarrow> int option" where
  "latestOccurredAtForRun db rid =
     maximumOf (map entryOccurredAt (filter (\<lambda>e.
       list_ex (\<lambda>ev. rawEventId ev = entryRawEventId e \<and>
         list_ex (\<lambda>o'. observationRunId o' = rid \<and> observationPageId o' = eventPageId ev \<and> observationKind o' = AcceptedLeaf \<and>
           observationDisposition o' = Processed) (pageObservations db)) (rawEvents db)) (ingestedEntries db)))"

definition completeSegmentRun :: "ingest_run \<Rightarrow> ledger_cursor \<Rightarrow> int \<Rightarrow> ledger_db \<Rightarrow> ledger_error + ledger_db" where
  "completeSegmentRun run cursor now db =
     bindR (assertR (\<not> cursorComplete cursor \<and> cursorNextPage cursor = Some 1)
       (ledgerThrow ''ledger cursor cannot complete this segment run'')) (\<lambda>_.
     bindR (safeLedgerOption (latestOccurredAtForRun db (runId run)) ''ledger run latest event'') (\<lambda>latest.
     let lastEvent = (case latest of None \<Rightarrow> cursorLastEvent cursor
           | Some t \<Rightarrow> Some (max (case cursorLastEvent cursor of None \<Rightarrow> 0 | Some l \<Rightarrow> l) t))
     in bindR (updateCursor (\<lambda>c. ownCursor cursor c \<and> \<not> cursorComplete c)
            (\<lambda>c. c\<lparr>cursorNextPage := None, cursorComplete := True, cursorLastEvent := lastEvent, cursorLastCompleted := Some now,
               cursorUpdatedAt := now, cursorVersion := cursorVersion c + 1\<rparr>) ''ledger cursor root completion'' db) (\<lambda>db.
        bindR (updateRun (runId run) (\<lambda>r. r\<lparr>runStatus := RunCompleted, runCompletedAt := Some now\<rparr>)
            ''ingest segment run completion'' db) (\<lambda>db.
        advanceCompensationState (runProviderKey run) (runScanKind run) now db))))"

end
