(* ===== verification/LedgerOperations.thy ===== *)
theory LedgerOperations
  imports LedgerPages
begin

text \<open>
  The operations of \<^verbatim>\<open>LedgerStore\<close> on a run, each one transaction: \<^verbatim>\<open>recordSegmentPage\<close>,
  \<^verbatim>\<open>recordPage\<close>, \<^verbatim>\<open>completeIngestRun\<close>, \<^verbatim>\<open>recordIngestError\<close> and \<^verbatim>\<open>markIngestBatchYield\<close>;
  the retry policy is a fixed argument of the service.
\<close>

subsection \<open>Recording a page\<close>

datatype page_outcome =
    OutcomeSplit ingest_segment ingest_segment
  | OutcomeDensityExceeded
  | OutcomeVariant
  | OutcomeAccepted "normalization list" bool

record page_result =
  resultOutcome :: page_outcome
  resultObservation :: page_observation_result
  resultPage :: raw_page
  resultSegment :: ingest_segment
  resultCursor :: ledger_cursor
  resultRun :: ingest_run

definition pageResult ::
    "page_outcome \<Rightarrow> retained_page \<Rightarrow> ingest_run \<Rightarrow> ingest_segment \<Rightarrow> ledger_db \<Rightarrow> ledger_error + page_result \<times> ledger_db" where
  "pageResult outcome retained run segment db =
     bindR (requireSegment db (segmentId segment)) (\<lambda>s.
     bindR (requireCursor db (runProviderKey run) (scanLaneForKind (runScanKind run))) (\<lambda>c.
     bindR (requireRun db (runId run)) (\<lambda>r.
     Inr (\<lparr>resultOutcome = outcome, resultObservation = retainedObservation retained, resultPage = retainedPage retained,
           resultSegment = s, resultCursor = c, resultRun = r\<rparr>, db))))"

definition splitSegment ::
    "ledger_env \<Rightarrow> ingest_run \<Rightarrow> ingest_segment \<Rightarrow> retained_page \<Rightarrow> int \<Rightarrow> int \<Rightarrow> ledger_db \<Rightarrow> ledger_error + page_result \<times> ledger_db" where
  "splitSegment env run segment retained now retryInterval db =
     bindR (updateRunProgress (runId run) 0 db) (\<lambda>db.
     bindR (splitLedgerWindow (segmentWindow segment)) (\<lambda>split.
     case split of
       None \<Rightarrow>
         bindR (failDensityExceeded env run segment (retainedPage retained) now retryInterval db) (\<lambda>db.
         pageResult OutcomeDensityExceeded retained run segment db)
     | Some sp \<Rightarrow>
         bindR (updateSegment (segmentId segment)
             (\<lambda>s. s\<lparr>segmentState := SegmentSplit, segmentSplitAt := Some (splitPoint sp), segmentCompletedAt := Some now\<rparr>)
             ''ingest segment split'' db) (\<lambda>db.
         let db = clearSchedule (runProviderKey run) db
         in bindR (insertChildSegment env segment (leftWindow sp) now db) (\<lambda>(left, db).
            bindR (insertChildSegment env segment (rightWindow sp) now db) (\<lambda>(right, db).
            pageResult (OutcomeSplit left right) retained run segment db)))))"

definition acceptSegment ::
    "ledger_env \<Rightarrow> ingest_run \<Rightarrow> ingest_segment \<Rightarrow> ledger_cursor \<Rightarrow> retained_page \<Rightarrow> page_input \<Rightarrow> int \<Rightarrow> ledger_db \<Rightarrow>
     ledger_error + page_result \<times> ledger_db" where
  "acceptSegment env run segment cursor retained page now db =
     (let db = clearSchedule (runProviderKey run) db; pid = rawPageId (retainedPage retained)
      in bindR (if \<not> shouldNormalize retained
              then bindR (assertR (rawEventCountForPage db pid = length (inputDetails page))
                (ledgerThrow ''duplicate accepted leaf does not contain its stored raw events'')) (\<lambda>_. Inr ([], db))
              else normalizeDetails env (runProviderKey run) pid now 0 (inputDetails page) db) (\<lambda>(normalized, db).
         bindR (updateRunProgress (runId run) (int (length (inputDetails page))) db) (\<lambda>db.
         bindR (updateSegment (segmentId segment)
             (\<lambda>s. s\<lparr>segmentState := SegmentComplete, segmentPage := Some pid, segmentCompletedAt := Some now\<rparr>)
             ''ingest segment completion'' db) (\<lambda>db.
         let rootCompleted = (\<not> hasPendingSegments db (runId run))
         in bindR (if rootCompleted then completeSegmentRun run cursor now db else Inr db) (\<lambda>db.
            pageResult (OutcomeAccepted normalized rootCompleted) retained run segment db)))))"

text \<open>The run that still owns the window, the segment that is still pending, and the write time.\<close>

definition openSegment ::
    "ledger_db \<Rightarrow> string \<Rightarrow> string \<Rightarrow> page_input \<Rightarrow> int \<Rightarrow> ledger_error + ingest_run \<times> ingest_segment \<times> ledger_cursor \<times> int" where
  "openSegment db rid sid page requestedNow =
     bindR (requireRun db rid) (\<lambda>run.
     bindR (assertR (runStatus run = RunRunning) (ledgerThrow ''ingest run is already terminal'')) (\<lambda>_.
     bindR (requireSegment db sid) (\<lambda>segment.
     bindR (assertR (segmentRunId segment = runId run \<and> segmentState segment = SegmentPending)
       (ledgerThrow ''ingest segment is not pending for this run'')) (\<lambda>_.
     bindR (assertR (runPageSize run = inputPageSize page) (ledgerThrow ''provider page size does not match the ingest run'')) (\<lambda>_.
     bindR (requireCursor db (runProviderKey run) (scanLaneForKind (runScanKind run))) (\<lambda>cursor.
     bindR (assertR (\<not> cursorComplete cursor \<and> cursorWindow cursor = runWindow run \<and> cursorPageSize cursor = runPageSize run)
       (ledgerThrow ''ingest run no longer owns the active ledger window'')) (\<lambda>_.
     bindR (validateDetailsWithinSegment (inputDetails page) segment) (\<lambda>_.
     bindR (clampIngestWriteTime db run cursor requestedNow) (\<lambda>now.
     Inr (run, segment, cursor, now))))))))))"

definition recordSegmentPage ::
    "ledger_env \<Rightarrow> string \<Rightarrow> string \<Rightarrow> page_input \<Rightarrow> page_evidence option \<Rightarrow> int option \<Rightarrow> int option \<Rightarrow> ledger_db \<Rightarrow>
     ledger_error + page_result \<times> ledger_db" where
  "recordSegmentPage env rid sid page evidence retryIntervalArg nowArg db =
     bindR (prepareSegmentPage env page evidence nowArg) (\<lambda>requested.
     bindR (validateRetryInterval (case retryIntervalArg of None \<Rightarrow> 10 * 1000 | Some n \<Rightarrow> n)) (\<lambda>retryInterval.
     bindR (openSegment db rid sid page (preparedNow requested)) (\<lambda>(run, segment, cursor, now).
     let prepared = requested\<lparr>preparedNow := now\<rparr>
     in bindR (retainSegmentPage env run segment page prepared (if inputHasMore page then OversizedProbe else AcceptedLeaf) db)
          (\<lambda>(retained, db).
        if retainedObservation retained = PageVariant
        then bindR (failPaginationVariant env run segment retained now retryInterval db) (\<lambda>db.
             pageResult OutcomeVariant retained run segment db)
        else if inputHasMore page then splitSegment env run segment retained now retryInterval db
        else acceptSegment env run segment cursor retained page now db))))"

definition recordPage ::
    "ledger_env \<Rightarrow> string \<Rightarrow> page_input \<Rightarrow> page_evidence option \<Rightarrow> int option \<Rightarrow> int option \<Rightarrow> ledger_db \<Rightarrow>
     ledger_error + page_result \<times> ledger_db" where
  "recordPage env rid page evidence retryIntervalArg nowArg db =
     (if inputHasMore page then Inl (ledgerThrow ''oversized provider pages require the segment-aware persistence API'')
      else bindR (readNextPendingSegment db rid) (\<lambda>found.
        case found of
          None \<Rightarrow> Inl (ledgerThrow ''ingest run has no pending segment'')
        | Some segment \<Rightarrow> recordSegmentPage env rid (segmentId segment) page evidence retryIntervalArg nowArg db))"

subsection \<open>Ending and yielding a run\<close>

datatype run_completion = CompletionCompleted | CompletionPartial

fun completionStatus :: "run_completion \<Rightarrow> ingest_run_status" where
  "completionStatus CompletionCompleted = RunCompleted"
| "completionStatus CompletionPartial = RunPartial"

definition completeIngestRun ::
    "ledger_env \<Rightarrow> string \<Rightarrow> run_completion option \<Rightarrow> int option \<Rightarrow> ledger_db \<Rightarrow> ledger_error + ingest_run \<times> ledger_db" where
  "completeIngestRun env rid requestedStatus nowArg db =
     bindR (safeLedgerNow env nowArg) (\<lambda>requestedNow.
     bindR (requireRun db rid) (\<lambda>run.
     if runStatus run \<noteq> RunRunning then Inr (run, db)
     else
       bindR (requireCursor db (runProviderKey run) (scanLaneForKind (runScanKind run))) (\<lambda>cursor.
       bindR (clampIngestWriteTime db run cursor requestedNow) (\<lambda>now.
       let status = (case requestedStatus of Some s \<Rightarrow> s
             | None \<Rightarrow> if cursorComplete cursor then CompletionCompleted else CompletionPartial)
       in if status = CompletionPartial \<and> \<not> cursorComplete cursor then Inr (run, db)
          else bindR (assertR (\<not> (status = CompletionCompleted \<and> \<not> cursorComplete cursor))
            (ledgerThrow ''an incomplete ledger cursor cannot complete its ingest run'')) (\<lambda>_.
          bindR (updateRun (runId run) (\<lambda>r. r\<lparr>runStatus := completionStatus status, runCompletedAt := Some now\<rparr>)
            ''ingest run completion'' db) (\<lambda>db.
          bindR (if status = CompletionCompleted then advanceCompensationState (runProviderKey run) (runScanKind run) now db
                 else Inr db) (\<lambda>db.
          bindR (requireRun db (runId run)) (\<lambda>r. Inr (r, db)))))))))"

record ingest_error_input =
  inErrorPageNo :: "int option"
  inErrorKind :: string
  inErrorCode :: string
  inErrorRetryable :: bool
  inErrorPreserveRun :: bool
  inErrorSchedule :: "(int \<times> int option) option"
  inErrorEvidence :: "(page_evidence \<times> bool option) option"
  inErrorDetails :: json

definition validateErrorLabel :: "string \<Rightarrow> string \<Rightarrow> nat \<Rightarrow> ledger_error + unit" where
  "validateErrorLabel value label maximum =
     assertR (1 \<le> length value \<and> length value \<le> maximum \<and> isKeyChar (hd value) \<and>
         list_all (\<lambda>c. isKeyChar c \<or> c \<in> set ''._:-'') (tl value)) (ledgerRange (label @ '' is invalid''))"

definition prepareErrorEvidence ::
    "ledger_env \<Rightarrow> (page_evidence \<times> bool option) option \<Rightarrow>
     ledger_error + (int \<times> jstr \<times> nat list \<times> string \<times> jstr option \<times> bool option) option" where
  "prepareErrorEvidence env evidence =
     (case evidence of
        None \<Rightarrow> Inr None
      | Some (e, verified) \<Rightarrow>
          bindR (assertR (isSafeInteger (evidenceStatus e) \<and> 100 \<le> evidenceStatus e \<and> evidenceStatus e \<le> 599)
            (ledgerRange ''provider error HTTP status is invalid'')) (\<lambda>_.
          let body = toBytes (evidenceBody e)
          in bindR (assertR (\<not> length body > 2097152) (ledgerRange ''provider error response exceeds the persistence limit'')) (\<lambda>_.
             bindR (assertR (traceIdValid (evidenceTraceId e)) (ledgerRange ''provider error trace ID is invalid'')) (\<lambda>_.
             bindR (serializeHeaders env (evidenceHeaders e)) (\<lambda>headers.
             Inr (Some (evidenceStatus e, headers, body, ledgerSha env body, evidenceTraceId e, verified)))))))"

definition errorRow ::
    "ledger_env \<Rightarrow> ledger_db \<Rightarrow> ingest_run \<Rightarrow> ingest_error_input \<Rightarrow> (int \<times> jstr \<times> nat list \<times> string \<times> jstr option \<times> bool option) option \<Rightarrow>
     json \<Rightarrow> int \<Rightarrow> ingest_error" where
  "errorRow env db run input evidence details now =
     \<lparr>ingestErrorId = uuidFor env ForIngestError (length (ingestErrors db)), errorRunId = runId run,
      errorProviderKey = runProviderKey run, errorPageNo = inErrorPageNo input, errorKind = inErrorKind input,
      errorCode = inErrorCode input, errorRetryable = inErrorRetryable input, errorEvidence = evidence, errorDetails = details,
      errorOccurredAt = now\<rparr>"

definition failRun :: "ingest_run \<Rightarrow> ledger_cursor \<Rightarrow> string \<Rightarrow> int \<Rightarrow> ledger_db \<Rightarrow> ledger_error + ledger_db" where
  "failRun run cursor code now db =
     bindR (updateRun (runId run) (\<lambda>r. r\<lparr>runStatus := RunFailed, runCompletedAt := Some now, runFailureCode := Some code\<rparr>)
       ''ingest run failure'' db) (\<lambda>db.
     if cursorComplete cursor then Inr db
     else updateCursor (ownCursor cursor)
       (\<lambda>c. c\<lparr>cursorNextPage := Some 1, cursorUpdatedAt := max now (cursorUpdatedAt cursor), cursorVersion := cursorVersion c + 1\<rparr>)
       ''ledger cursor rewind after ingest failure'' db)"

definition recordIngestError ::
    "ledger_env \<Rightarrow> string \<Rightarrow> ingest_error_input \<Rightarrow> int option \<Rightarrow> ledger_db \<Rightarrow> ledger_error + ingest_run \<times> ledger_db" where
  "recordIngestError env rid input nowArg db =
     bindR (safeLedgerNow env nowArg) (\<lambda>requestedNow.
     bindR (serializeDetails (inErrorDetails input)) (\<lambda>details.
     bindR (prepareErrorEvidence env (inErrorEvidence input)) (\<lambda>evidence.
     bindR (validateErrorLabel (inErrorKind input) ''ingest error kind'' 64) (\<lambda>_.
     bindR (validateErrorLabel (inErrorCode input) ''ingest error code'' 128) (\<lambda>_.
     bindR (case inErrorSchedule input of None \<Rightarrow> Inr 0 | Some (interval, _) \<Rightarrow> validateRetryInterval interval) (\<lambda>_.
     bindR (validateRetryAfter (case inErrorSchedule input of None \<Rightarrow> None | Some (_, after) \<Rightarrow> after)) (\<lambda>retryAfter.
     bindR (assertR (optionIn (inErrorPageNo input) (\<lambda>n. isSafeInteger n \<and> 1 \<le> n))
       (ledgerRange ''ingest error page number is invalid'')) (\<lambda>_.
     bindR (requireRun db rid) (\<lambda>run.
     bindR (assertR (runStatus run = RunRunning) (ledgerThrow ''ingest run is already terminal'')) (\<lambda>_.
     bindR (requireCursor db (runProviderKey run) (scanLaneForKind (runScanKind run))) (\<lambda>cursor.
     bindR (clampIngestWriteTime db run cursor requestedNow) (\<lambda>now.
     bindR (insertErrorRow (errorRow env db run input evidence details now) db) (\<lambda>db.
     bindR (case inErrorSchedule input of
         None \<Rightarrow> Inr db
       | Some (interval, _) \<Rightarrow>
           recordScheduleFailure (runProviderKey run) (inErrorCode input) (inErrorRetryable input) interval retryAfter now db) (\<lambda>db.
     bindR (if inErrorPreserveRun input
            then yieldCursor (ownCursor cursor) (max now (cursorUpdatedAt cursor))
              ''ledger cursor yield after retryable ingest error'' db
            else failRun run cursor (inErrorCode input) now db) (\<lambda>db.
     bindR (requireRun db (runId run)) (\<lambda>r. Inr (r, db)))))))))))))))))"

definition markIngestBatchYield :: "ledger_env \<Rightarrow> string \<Rightarrow> int option \<Rightarrow> ledger_db \<Rightarrow> ledger_error + ingest_run \<times> ledger_db" where
  "markIngestBatchYield env rid nowArg db =
     bindR (safeLedgerNow env nowArg) (\<lambda>requestedNow.
     bindR (requireRun db rid) (\<lambda>run.
     if runStatus run \<noteq> RunRunning then Inr (run, db)
     else
       bindR (requireCursor db (runProviderKey run) (scanLaneForKind (runScanKind run))) (\<lambda>cursor.
       bindR (clampIngestWriteTime db run cursor requestedNow) (\<lambda>now.
       bindR (yieldCursor (ownCursor cursor) now ''ledger cursor batch yield'' db) (\<lambda>db.
       bindR (requireRun db rid) (\<lambda>r. Inr (r, db)))))))"

subsection \<open>The ledger as a machine\<close>

text \<open>
  One committed operation of the store, with the hash function \<open>sha\<close>; an operation that throws leaves
  the rows as they were.  Two steps belong to other stores: the list of accounts, and the state and
  update time of the entries, which the reconciliation sets.
\<close>

inductive ledger_step :: "(nat list \<Rightarrow> string) \<Rightarrow> ledger_db \<Rightarrow> ledger_db \<Rightarrow> bool" for sha where
  step_bind: "ledgerSha env = sha \<Longrightarrow> bindProviderIdentity env key kind endpoint account nowArg db = Inr (b, db') \<Longrightarrow>
    ledger_step sha db db'"
| step_start: "ledgerSha env = sha \<Longrightarrow> startIngestRun env input nowArg db = Inr (r, db') \<Longrightarrow> ledger_step sha db db'"
| step_page: "ledgerSha env = sha \<Longrightarrow> recordSegmentPage env rid sid page evidence retry nowArg db = Inr (p, db') \<Longrightarrow>
    ledger_step sha db db'"
| step_complete: "ledgerSha env = sha \<Longrightarrow> completeIngestRun env rid status nowArg db = Inr (r, db') \<Longrightarrow> ledger_step sha db db'"
| step_error: "ledgerSha env = sha \<Longrightarrow> recordIngestError env rid einput nowArg db = Inr (r, db') \<Longrightarrow> ledger_step sha db db'"
| step_yield: "ledgerSha env = sha \<Longrightarrow> markIngestBatchYield env rid nowArg db = Inr (r, db') \<Longrightarrow> ledger_step sha db db'"
| step_resolve: "ledgerSha env = sha \<Longrightarrow> resolveConflict env cinput nowArg db = Inr (c, db') \<Longrightarrow> ledger_step sha db db'"
| step_accounts: "ledger_step sha db (db\<lparr>accountKeys := keys\<rparr>)"
| step_entries: "ledger_step sha db
    (db\<lparr>ingestedEntries := map (\<lambda>e. e\<lparr>entryState := state e, entryUpdatedAt := updated e\<rparr>) (ingestedEntries db)\<rparr>)"

definition emptyLedger :: ledger_db where
  "emptyLedger = \<lparr>providerBindings = [], providerActivations = [], accountKeys = [], ingestRuns = [], ingestSegments = [],
     rawPages = [], pageObservations = [], rawEvents = [], ingestedEntries = [], ingestConflicts = [], conflictOperations = [],
     ingestErrors = [], ledgerCursors = [], compensationStates = [], scheduleStates = [], conflictAudits = []\<rparr>"

inductive ledger_reach :: "(nat list \<Rightarrow> string) \<Rightarrow> ledger_db \<Rightarrow> bool" for sha where
  reach_empty: "ledger_reach sha emptyLedger"
| reach_step: "ledger_reach sha db \<Longrightarrow> ledger_step sha db db' \<Longrightarrow> ledger_reach sha db'"

end
