(* ===== verification/LedgerTime.thy ===== *)
theory LedgerTime
  imports LedgerModel EpayFacts
begin

text \<open>
  The provider's timestamps are faithful names of times: a time that is written is read back as
  itself, a text that is read is the text of its time, and texts are ordered as their times.  So the
  windows of the ledger, which are compared as texts, are intervals of time.
\<close>

subsection \<open>Digit texts of one length\<close>

lemma digitsValue_append: "digitsValue (ds @ es) = digitsValue ds * 10 ^ length es + digitsValue es"
proof (induction es rule: rev_induct)
  case (snoc e es)
  have "digitsValue (xs @ [e]) = digitsValue xs * 10 + (unat e - 48)" for xs by (simp add: digitsValue_def)
  from this [of "ds @ es"] this [of es] show ?case using snoc by (simp add: algebra_simps)
qed (simp add: digitsValue_def)

lemma digitsValue_Cons: "digitsValue (d # ds) = (unat d - 48) * 10 ^ length ds + digitsValue ds"
  using digitsValue_append [of "[d]" ds] by (simp add: digitsValue_def)

lemma digitsValue_less: "list_all isDigitUnit ds \<Longrightarrow> digitsValue ds < 10 ^ length ds"
proof (induction ds)
  case (Cons d ds)
  have "unat d - 48 \<le> 9" using Cons.prems by (auto simp: isDigitUnit_def le_diff_conv)
  then have "(unat d - 48) * 10 ^ length ds \<le> 9 * 10 ^ length ds" by (rule mult_right_mono) simp
  moreover have "digitsValue ds < 10 ^ length ds" using Cons by simp
  ultimately have "(unat d - 48) * 10 ^ length ds + digitsValue ds < 9 * 10 ^ length ds + 10 ^ length ds" by (rule add_le_less_mono)
  then show ?case by (simp add: digitsValue_Cons)
qed (simp add: digitsValue_def)

lemma digits_less_iff:
  "length ds = length es \<Longrightarrow> list_all isDigitUnit ds \<Longrightarrow> list_all isDigitUnit es \<Longrightarrow>
    ds < es \<longleftrightarrow> digitsValue ds < digitsValue es"
proof (induction ds es rule: list_induct2)
  case (Cons d ds e es)
  let ?p = "10 ^ length ds :: nat"
  have v: "digitsValue ds < ?p" "digitsValue es < ?p" using digitsValue_less [of ds] digitsValue_less [of es] Cons by auto
  have digit: "48 \<le> unat d" "48 \<le> unat e" using Cons.prems by (simp_all add: isDigitUnit_def)
  have big: "a * ?p + x < b * ?p + y" if "a < b" "x < ?p" for a b x y :: nat
  proof -
    have "a * ?p + x < (a + 1) * ?p" using that by simp
    also have "\<dots> \<le> b * ?p" using that(1) by (intro mult_right_mono) auto
    finally show ?thesis by simp
  qed
  consider "d < e" | "d = e" | "e < d" by (rule linorder_cases)
  then show ?case
  proof cases
    case 1
    then have "unat d - 48 < unat e - 48" using digit by (simp add: word_less_nat_alt)
    from big [OF this v(1), of "digitsValue es"] show ?thesis using 1 Cons by (simp add: digitsValue_Cons)
  next
    case 2
    then show ?thesis using Cons by (simp add: digitsValue_Cons)
  next
    case 3
    then have "unat e - 48 < unat d - 48" using digit by (simp add: word_less_nat_alt)
    from big [OF this v(2), of "digitsValue ds"] show ?thesis using 3 Cons by (auto simp: digitsValue_Cons)
  qed
qed simp

lemma digits_eq:
  assumes "length ds = length es" "list_all isDigitUnit ds" "list_all isDigitUnit es" "digitsValue ds = digitsValue es"
  shows "ds = es"
  using digits_less_iff [of ds es] digits_less_iff [of es ds] assms by (metis less_irrefl linorder_neqE)

lemma length_decimalNat4: "1000 \<le> n \<Longrightarrow> n \<le> 9999 \<Longrightarrow> length (decimalNat n) = 4"
  using decimalNat_single [of "n div 1000"] by (simp add: decimalNat_step div_mult2_eq [symmetric])

lemma append_less_iff:
  "length a = length b \<Longrightarrow> a @ r < b @ r' \<longleftrightarrow> a < b \<or> a = b \<and> r < (r' :: 'a :: linorder list)"
  by (induction a b rule: list_induct2) auto

lemma padStart2_less:
  assumes "m < 100" "n < 100"
  shows "padStart2 (decimalNat m) < padStart2 (decimalNat n) \<longleftrightarrow> m < n"
  using padStart2_cents [OF assms(1)] padStart2_cents [OF assms(2)] by (simp add: digits_less_iff)

lemma decimal4_less:
  assumes "1000 \<le> m" "m \<le> 9999" "1000 \<le> n" "n \<le> 9999"
  shows "decimalNat m < decimalNat n \<longleftrightarrow> m < n"
  using assms decimalNat_digits by (subst digits_less_iff) (auto simp: length_decimalNat4 list_all_iff digitsValue_decimalNat)

subsection \<open>The text of a clock\<close>

definition clockWritten :: "nat \<Rightarrow> nat \<Rightarrow> nat \<Rightarrow> nat \<Rightarrow> nat \<Rightarrow> nat \<Rightarrow> jstr" where
  "clockWritten year month day hour minute second =
     decimalNat year @ js ''-'' @ padStart2 (decimalNat month) @ js ''-'' @ padStart2 (decimalNat day) @ js '' '' @
     padStart2 (decimalNat hour) @ js '':'' @ padStart2 (decimalNat minute) @ js '':'' @ padStart2 (decimalNat second)"

lemma clockWritten_less:
  assumes "1000 \<le> y" "y \<le> 9999" "m < 100" "d < 100" "h < 100" "mi < 100" "s < 100"
    and "1000 \<le> y'" "y' \<le> 9999" "m' < 100" "d' < 100" "h' < 100" "mi' < 100" "s' < 100"
  shows "clockWritten y m d h mi s < clockWritten y' m' d' h' mi' s' \<longleftrightarrow>
    [y, m, d, h, mi, s] < [y', m', d', h', mi', s']"
proof -
  have eq: "padStart2 (decimalNat a) = padStart2 (decimalNat b) \<longleftrightarrow> a = b" if "a < 100" "b < 100" for a b
    using padStart2_cents(2) [OF that(1)] padStart2_cents(2) [OF that(2)] by metis
  have eqy: "decimalNat y = decimalNat y' \<longleftrightarrow> y = y'" by (metis digitsValue_decimalNat)
  show ?thesis
    using assms
    by (simp add: clockWritten_def append_less_iff padStart2_cents(1) padStart2_less eq eqy length_decimalNat4 decimal4_less)
qed

lemma digitsAt_append:
  "list_all isDigitUnit ds \<Longrightarrow> length ds = n \<Longrightarrow> digitsAt n (ds @ rest) = Some (digitsValue ds, rest)"
  by (simp add: digitsAt_def)

lemma digitsAt_whole:
  "list_all isDigitUnit ds \<Longrightarrow> length ds = n \<Longrightarrow> digitsAt n ds = Some (digitsValue ds, [])"
  using digitsAt_append [of ds n "[]"] by simp

lemma fractionAt_Nil [simp]: "fractionAt [] = (None, [])"
  by (simp add: fractionAt_def unitAt_def Let_def)

lemma unitAt_js [simp]: "unitAt [c] (js [c] @ r) = Some r" "unitAt '' T'' (js '' '' @ r) = Some r"
  by (simp_all add: unitAt_def js_def)

lemma clockAt_written:
  assumes "1000 \<le> y" "y \<le> 9999" "m < 100" "d < 100" "h < 100" "mi < 100" "s < 100"
    and "seps = '' T'' \<or> seps = '' ''"
  shows "clockAt seps (clockWritten y m d h mi s) =
    Some (\<lparr>clockYear = y, clockMonth = m, clockDay = d, clockHour = h, clockMinute = mi, clockSecond = s,
      clockFraction = None\<rparr>, [])"
proof -
  have y: "digitsAt 4 (decimalNat y @ r) = Some (y, r)" for r
    using assms(1,2) decimalNat_digits [of y]
    by (subst digitsAt_append) (auto simp: length_decimalNat4 digitsValue_decimalNat list_all_iff)
  have p: "digitsAt 2 (padStart2 (decimalNat n) @ r) = Some (n, r)" "digitsAt 2 (padStart2 (decimalNat n)) = Some (n, [])"
    if "n < 100" for n r
    using padStart2_cents [OF that] by (simp_all add: digitsAt_append digitsAt_whole)
  show ?thesis
    using assms by (auto simp: clockAt_def clockWritten_def y p)
qed

subsection \<open>A written time is read back\<close>

definition chinaOffset :: int where "chinaOffset = 28800000"

definition clockOfTime :: "int \<Rightarrow> clock_text" where
  "clockOfTime t = (let f = utcFields t in
     \<lparr>clockYear = nat (utcYear f), clockMonth = utcMonth f + 1, clockDay = nat (utcDate f), clockHour = nat (utcHours f),
      clockMinute = nat (utcMinutes f), clockSecond = nat (utcSeconds f), clockFraction = None\<rparr>)"

definition clockLine :: "clock_text \<Rightarrow> jstr" where
  "clockLine c = clockWritten (clockYear c) (clockMonth c) (clockDay c) (clockHour c) (clockMinute c) (clockSecond c)"

definition plainClock :: "clock_text \<Rightarrow> bool" where
  "plainClock c \<longleftrightarrow> 2000 \<le> clockYear c \<and> clockYear c \<le> 9999 \<and> clockMonth c < 100 \<and> clockDay c < 100 \<and>
     clockHour c < 100 \<and> clockMinute c < 100 \<and> clockSecond c < 100 \<and> clockFraction c = None"

text \<open>The local times a provider's timestamp can name: from the year 2000 to the year 9999.\<close>

definition providerTime :: "int \<Rightarrow> bool" where
  "providerTime t \<longleftrightarrow> 946684800000 \<le> t \<and> t < 253402300800000 \<and> t mod 1000 = 0"

lemma providerTime_year:
  assumes "providerTime t"
  shows "2000 \<le> utcYear (utcFields t)" "utcYear (utcFields t) \<le> 9999"
  using utcYear_range [of 2000 t 10000] assms by (simp_all add: providerTime_def dayFromYear_def msPerDay_def)

lemma plainClock_of:
  assumes "providerTime t"
  shows "plainClock (clockOfTime t)"
  using providerTime_year [OF assms] utcDate_bounds [of t] utcClock_bounds [of t] utcMonth_bound [of t]
  by (simp add: plainClock_def clockOfTime_def Let_def nat_le_iff le_nat_iff nat_less_iff)

lemma localTimeText_clock:
  assumes "providerTime t"
  shows "localTimeText t = clockLine (clockOfTime t)"
proof -
  have d: "decimal n = decimalNat (nat n)" if "0 \<le> n" for n using that by (simp add: decimal_def)
  have "\<not> \<bar>t\<bar> > 8640000000000000" using assms by (simp add: providerTime_def)
  moreover have "nat (int m + 1) = m + 1" for m by simp
  ultimately show ?thesis
    using providerTime_year [OF assms] utcDate_bounds [of t] utcClock_bounds [of t]
    by (simp add: localTimeText_def Let_def clockLine_def clockOfTime_def clockWritten_def d nat_add_distrib)
qed

lemma trim_id: "s \<noteq> [] \<Longrightarrow> \<not> isTrimmed (hd s) \<Longrightarrow> \<not> isTrimmed (last s) \<Longrightarrow> trim s = s"
  by (simp add: trim_def dropWhile_eq_self_iff [THEN iffD2] hd_rev)

lemma digit_kept: "isDigitUnit u \<Longrightarrow> \<not> isTrimmed u"
  by (auto simp: isDigitUnit_def isTrimmed_def Let_def)

lemma trim_clockLine:
  assumes "plainClock c"
  shows "trim (clockLine c) = clockLine c" "clockLine c \<noteq> []"
proof -
  note s = padStart2_cents [of "clockSecond c"]
  have "clockSecond c < 100" using assms by (simp add: plainClock_def)
  then have ne: "padStart2 (decimalNat (clockSecond c)) \<noteq> []" using s(1) by auto
  have "isDigitUnit (last (padStart2 (decimalNat (clockSecond c))))"
    using s(3) \<open>clockSecond c < 100\<close> last_in_set [OF ne] by (simp add: list_all_iff)
  then have l: "isDigitUnit (last (clockLine c))" using ne by (simp add: clockLine_def clockWritten_def)
  have "isDigitUnit (hd (decimalNat n))" for n using decimalNat_digits [of n] hd_in_set [OF decimalNat_ne] by blast
  then have h: "isDigitUnit (hd (clockLine c))" by (simp add: clockLine_def clockWritten_def)
  show "clockLine c \<noteq> []" by (simp add: clockLine_def clockWritten_def)
  then show "trim (clockLine c) = clockLine c" using digit_kept [OF l] digit_kept [OF h] by (intro trim_id)
qed

lemma read_clockLine:
  assumes "plainClock c"
  shows "localClock (clockLine c) = Some c" "providerClock (clockLine c) = Some c"
    "parseOccurredAtWithPrecision (Some (clockLine c)) = parseClock c None"
proof -
  have "clockAt seps (clockLine c) = Some (c, [])" if "seps = '' T'' \<or> seps = '' ''" for seps
    using assms that unfolding clockLine_def by (subst clockAt_written) (auto simp: plainClock_def)
  then show l: "localClock (clockLine c) = Some c" and "providerClock (clockLine c) = Some c"
    using assms by (simp_all add: localClock_def providerClock_def plainClock_def)
  show "parseOccurredAtWithPrecision (Some (clockLine c)) = parseClock c None"
    using trim_clockLine [OF assms] l by (simp add: parseOccurredAtWithPrecision_def)
qed

lemma clockTime_of:
  assumes "providerTime t"
  shows "clockTime (clockOfTime t) = t"
proof -
  have "digitsValue [0x30, 0x30, 0x30] = 0" by (simp add: digitsValue_def)
  then have f: "fractionMilliseconds None = 0" by (simp add: fractionMilliseconds_def numeral_3_eq_3)
  have "t mod 1000 = 0" using assms by (simp add: providerTime_def)
  then show ?thesis
    using dateUTC_utcFields [of t] providerTime_year [OF assms] utcDate_bounds [of t] utcClock_bounds [of t]
    by (simp add: clockTime_def clockOfTime_def Let_def f)
qed

lemma clockValid_of:
  assumes "providerTime t"
  shows "clockValid (clockOfTime t)"
  using providerTime_year [OF assms] utcDate_bounds [of t] utcClock_bounds [of t] utcMonth_bound [of t]
  by (simp add: clockValid_def clockTime_of [OF assms]) (simp add: clockOfTime_def Let_def nat_le_iff)

lemma parse_clockLine:
  assumes "providerTime t"
  shows "parseOccurredAtWithPrecision (Some (localTimeText t)) = Inr (t - chinaOffset, 1000)"
    "isProviderTimestamp (localTimeText t)"
proof -
  have p: "plainClock (clockOfTime t)" by (rule plainClock_of [OF assms])
  have y: "\<not> clockYear (clockOfTime t) < 2000" using p by (simp add: plainClock_def)
  have c: "clockFraction (clockOfTime t) = None" using p by (simp add: plainClock_def)
  have "parseClock (clockOfTime t) None = Inr (t - chinaOffset, 1000)"
    using assms y
    by (simp add: parseClock_def clockValid_of [OF assms] clockTime_of [OF assms] zoneMinutes_def c chinaOffset_def
      precisionFromFraction_def providerTime_def isSafeInteger_def maxSafeInteger_def)
  then show parsed: "parseOccurredAtWithPrecision (Some (localTimeText t)) = Inr (t - chinaOffset, 1000)"
    by (simp add: localTimeText_clock [OF assms] read_clockLine(3) [OF p])
  then show "isProviderTimestamp (localTimeText t)"
    by (simp add: isProviderTimestamp_def parseOccurredAt_def localTimeText_clock [OF assms] read_clockLine(2) [OF p])
qed

subsection \<open>A read timestamp is the text of its time\<close>

lemma digitsAt_SomeD:
  "digitsAt n s = Some (v, r) \<Longrightarrow> \<exists>ds. s = ds @ r \<and> length ds = n \<and> list_all isDigitUnit ds \<and> v = digitsValue ds"
  by (auto simp: digitsAt_def split: if_splits intro!: exI [where x = "take n s"])

lemma unitAt_SomeD: "unitAt [c] s = Some r \<Longrightarrow> s = js [c] @ r"
  by (auto simp: unitAt_def js_def split: list.splits if_splits)

lemma two_digits:
  assumes "length ds = 2" "list_all isDigitUnit ds"
  shows "ds = padStart2 (decimalNat (digitsValue ds))" "digitsValue ds < 100"
proof -
  show l: "digitsValue ds < 100" using digitsValue_less [OF assms(2)] assms(1) by simp
  show "ds = padStart2 (decimalNat (digitsValue ds))"
    using padStart2_cents [OF l] assms by (intro digits_eq) simp_all
qed

lemma four_digits:
  assumes "length ds = 4" "list_all isDigitUnit ds" "1000 \<le> digitsValue ds"
  shows "ds = decimalNat (digitsValue ds)" "digitsValue ds \<le> 9999"
proof -
  show l: "digitsValue ds \<le> 9999" using digitsValue_less [OF assms(2)] assms(1) by simp
  show "ds = decimalNat (digitsValue ds)"
    using length_decimalNat4 [OF assms(3) l] decimalNat_digits [of "digitsValue ds"] assms(1,2)
    by (intro digits_eq) (auto simp: digitsValue_decimalNat list_all_iff)
qed

lemma clock_pieces:
  assumes "clockAt '' '' s = Some (c, [])" "clockFraction c = None"
  obtains y mo d h mi se where "s = y @ js ''-'' @ mo @ js ''-'' @ d @ js '' '' @ h @ js '':'' @ mi @ js '':'' @ se"
    and "length y = 4" "list_all isDigitUnit y"
    and "\<forall>ds \<in> {mo, d, h, mi, se}. length ds = 2 \<and> list_all isDigitUnit ds"
    and "c = \<lparr>clockYear = digitsValue y, clockMonth = digitsValue mo, clockDay = digitsValue d, clockHour = digitsValue h,
      clockMinute = digitsValue mi, clockSecond = digitsValue se, clockFraction = None\<rparr>"
proof -
  obtain y s1 s2 mo s3 s4 d s5 s6 h s7 s8 mi s9 s10 se s11 where
      g: "digitsAt 4 s = Some (y, s1)" "unitAt ''-'' s1 = Some s2" "digitsAt 2 s2 = Some (mo, s3)" "unitAt ''-'' s3 = Some s4"
        "digitsAt 2 s4 = Some (d, s5)" "unitAt '' '' s5 = Some s6" "digitsAt 2 s6 = Some (h, s7)" "unitAt '':'' s7 = Some s8"
        "digitsAt 2 s8 = Some (mi, s9)" "unitAt '':'' s9 = Some s10" "digitsAt 2 s10 = Some (se, s11)"
      and f: "fractionAt s11 = (None, [])"
      and c: "c = \<lparr>clockYear = y, clockMonth = mo, clockDay = d, clockHour = h, clockMinute = mi, clockSecond = se, clockFraction = None\<rparr>"
    using assms by (auto simp: clockAt_def Let_def bind_eq_Some_conv case_prod_beta prod_eq_iff)
  have "s11 = []" using f by (auto simp: fractionAt_def Let_def split: if_splits)
  then show thesis
    using that digitsAt_SomeD [OF g(1)] unitAt_SomeD [OF g(2)] digitsAt_SomeD [OF g(3)] unitAt_SomeD [OF g(4)]
      digitsAt_SomeD [OF g(5)] unitAt_SomeD [OF g(6)] digitsAt_SomeD [OF g(7)] unitAt_SomeD [OF g(8)]
      digitsAt_SomeD [OF g(9)] unitAt_SomeD [OF g(10)] digitsAt_SomeD [OF g(11)] c
    by auto
qed

lemma clockAt_separators: "clockAt '' '' s = Some x \<Longrightarrow> clockAt '' T'' s = Some x"
proof -
  have u: "unitAt '' '' r = Some r' \<Longrightarrow> unitAt '' T'' r = Some r'" for r r'
    by (auto simp: unitAt_def js_def split: list.splits if_splits)
  assume "clockAt '' '' s = Some x"
  then show ?thesis by (auto simp: clockAt_def bind_eq_Some_conv u)
qed

lemma valid_clock_time:
  assumes p: "plainClock c" and v: "clockValid c"
  shows "providerTime (clockTime c)" "clockOfTime (clockTime c) = c"
proof -
  let ?t = "clockTime c"
  have "digitsValue [0x30, 0x30, 0x30] = 0" by (simp add: digitsValue_def)
  then have fr: "fractionMilliseconds None = 0" by (simp add: fractionMilliseconds_def numeral_3_eq_3)
  have y: "2000 \<le> utcYear (utcFields ?t)" "utcYear (utcFields ?t) \<le> 9999"
    and date: "utcYear (utcFields ?t) = int (clockYear c)" "int (utcMonth (utcFields ?t)) = int (clockMonth c) - 1"
      "utcDate (utcFields ?t) = int (clockDay c)"
    and b: "clockHour c \<le> 23" "clockMinute c \<le> 59" "clockSecond c \<le> 59" "1 \<le> clockMonth c"
    using p v by (simp_all add: clockValid_def Let_def plainClock_def)
  have t: "?t = makeDay (int (clockYear c)) (int (clockMonth c) - 1) (int (clockDay c)) * msPerDay + int (clockHour c) * 3600000 +
      int (clockMinute c) * 60000 + int (clockSecond c) * 1000"
    using p by (simp add: clockTime_def dateUTC_def Let_def plainClock_def fr)
  have clock: "utcHours (utcFields ?t) = int (clockHour c)" "utcMinutes (utcFields ?t) = int (clockMinute c)"
      "utcSeconds (utcFields ?t) = int (clockSecond c)"
    using utcClock_of [OF _ _ _ _ _ _ t] b by simp_all
  have "utcMonth (utcFields ?t) + 1 = clockMonth c" using date(2) b(4) by linarith
  then show "clockOfTime ?t = c" using date clock p by (simp add: clockOfTime_def Let_def plainClock_def)
  have r: "?t mod 1000 = 0" unfolding t msPerDay_def by (simp add: mod_eq_0_iff_dvd)
  have d: "dayFromYear (utcYear (utcFields ?t)) \<le> ?t div msPerDay" "?t div msPerDay < dayFromYear (utcYear (utcFields ?t) + 1)"
    using yearOfDay_bounds [of "?t div msPerDay"] by (simp_all add: utcFields_def Let_def)
  have "dayFromYear 2000 \<le> ?t div msPerDay" "?t div msPerDay < dayFromYear 10000"
    using d dayFromYear_mono [OF y(1)] dayFromYear_mono [of "utcYear (utcFields ?t) + 1" 10000] y(2) by linarith+
  then have "10957 \<le> ?t div msPerDay" "?t div msPerDay \<le> 2932896" by (simp_all add: dayFromYear_def)
  then show "providerTime ?t"
    using r div_mult_mod_eq [of ?t msPerDay] pos_mod_sign [OF msPerDay_pos, of ?t] pos_mod_bound [OF msPerDay_pos, of ?t]
    unfolding providerTime_def msPerDay_def by linarith
qed

lemma provider_text:
  assumes "isProviderTimestamp s"
  obtains t where "providerTime t" "s = localTimeText t"
proof -
  from assms obtain c where at: "clockAt '' '' s = Some (c, [])" and fr: "clockFraction c = None"
    by (auto simp: isProviderTimestamp_def providerClock_def bind_eq_Some_conv split: if_splits)
  obtain y mo d h mi se where s: "s = y @ js ''-'' @ mo @ js ''-'' @ d @ js '' '' @ h @ js '':'' @ mi @ js '':'' @ se"
    and y: "length y = 4" "list_all isDigitUnit y"
    and two: "\<forall>ds \<in> {mo, d, h, mi, se}. length ds = 2 \<and> list_all isDigitUnit ds"
    and c: "c = \<lparr>clockYear = digitsValue y, clockMonth = digitsValue mo, clockDay = digitsValue d, clockHour = digitsValue h,
      clockMinute = digitsValue mi, clockSecond = digitsValue se, clockFraction = None\<rparr>"
    by (rule clock_pieces [OF at fr])
  have ne: "y \<noteq> []" "se \<noteq> []" using y(1) two by auto
  have "isDigitUnit (hd y)" "isDigitUnit (last se)"
    using hd_in_set [OF ne(1)] last_in_set [OF ne(2)] y(2) two by (simp_all add: list_all_iff)
  then have "trim s = s" using ne by (intro trim_id) (auto simp: s dest: digit_kept)
  moreover have "s \<noteq> []" using ne by (simp add: s)
  moreover have "localClock s = Some c" using clockAt_separators [OF at] by (simp add: localClock_def)
  ultimately have "parseOccurredAtWithPrecision (Some s) = parseClock c None" by (simp add: parseOccurredAtWithPrecision_def)
  then have v: "2000 \<le> clockYear c" "clockValid c"
    using assms by (auto simp: isProviderTimestamp_def parseOccurredAt_def parseClock_def split: if_splits)
  have y': "y = decimalNat (digitsValue y)" "digitsValue y \<le> 9999"
    using four_digits [OF y] v(1) by (simp_all add: c)
  have two': "ds = padStart2 (decimalNat (digitsValue ds))" "digitsValue ds < 100" if "ds \<in> {mo, d, h, mi, se}" for ds
    using two_digits [of ds] two that by blast+
  have line: "s = clockLine c"
    unfolding s clockLine_def clockWritten_def c clock_text.simps
    using y'(1) two'(1) [of mo] two'(1) [of d] two'(1) [of h] two'(1) [of mi] two'(1) [of se] by simp
  have p: "plainClock c" using v(1) y'(2) two'(2) by (simp add: plainClock_def c)
  show thesis
    using valid_clock_time [OF p v(2)] localTimeText_clock [of "clockTime c"] line by (intro that [of "clockTime c"]) simp_all
qed

subsection \<open>Texts are ordered as their times\<close>

lemma lists_less:
  fixes a a' b b' c c' d d' e e' f f' :: nat
  assumes "a \<le> a'" and "a = a' \<Longrightarrow> b \<le> b'" and "a = a' \<Longrightarrow> b = b' \<Longrightarrow> c \<le> c'"
    and "a = a' \<Longrightarrow> b = b' \<Longrightarrow> c = c' \<Longrightarrow> d \<le> d'" and "a = a' \<Longrightarrow> b = b' \<Longrightarrow> c = c' \<Longrightarrow> d = d' \<Longrightarrow> e \<le> e'"
    and "a = a' \<Longrightarrow> b = b' \<Longrightarrow> c = c' \<Longrightarrow> d = d' \<Longrightarrow> e = e' \<Longrightarrow> f \<le> f'"
    and "[a, b, c, d, e, f] \<noteq> [a', b', c', d', e', f']"
  shows "[a, b, c, d, e, f] < [a', b', c', d', e', f']"
  using assms
  by (cases "a = a'"; cases "b = b'"; cases "c = c'"; cases "d = d'"; cases "e = e'"; simp add: order_le_less)

lemma clockOfTime_less:
  assumes t: "providerTime t" "providerTime t'" and l: "t < t'"
  shows "localTimeText t < localTimeText t'"
proof -
  let ?f = "utcFields t" and ?f' = "utcFields t'"
  note le = fields_le [of t t', OF less_imp_le [OF l]]
  have ne: "clockOfTime t \<noteq> clockOfTime t'" using clockTime_of [OF t(1)] clockTime_of [OF t(2)] l by auto
  have nat: "nat a = nat b \<longleftrightarrow> a = b" if "0 \<le> a" "0 \<le> b" for a b :: int using that by auto
  have pos: "0 \<le> utcYear (utcFields x)" "0 \<le> utcDate (utcFields x)" if "providerTime x" for x
    using utcDate_bounds [of x] providerTime_year [OF that] by simp_all
  note nats = nat [OF pos(1) [OF t(1)] pos(1) [OF t(2)]] nat [OF pos(2) [OF t(1)] pos(2) [OF t(2)]]
    nat [OF utcClock_bounds(1) [of t] utcClock_bounds(1) [of t']] nat [OF utcClock_bounds(3) [of t] utcClock_bounds(3) [of t']]
  have p: "plainClock (clockOfTime t)" "plainClock (clockOfTime t')" using plainClock_of t by blast+
  have "[clockYear (clockOfTime t), clockMonth (clockOfTime t), clockDay (clockOfTime t), clockHour (clockOfTime t),
      clockMinute (clockOfTime t), clockSecond (clockOfTime t)] <
    [clockYear (clockOfTime t'), clockMonth (clockOfTime t'), clockDay (clockOfTime t'), clockHour (clockOfTime t'),
      clockMinute (clockOfTime t'), clockSecond (clockOfTime t')]"
  proof (rule lists_less)
    show "[clockYear (clockOfTime t), clockMonth (clockOfTime t), clockDay (clockOfTime t), clockHour (clockOfTime t),
        clockMinute (clockOfTime t), clockSecond (clockOfTime t)] \<noteq>
      [clockYear (clockOfTime t'), clockMonth (clockOfTime t'), clockDay (clockOfTime t'), clockHour (clockOfTime t'),
        clockMinute (clockOfTime t'), clockSecond (clockOfTime t')]"
      using ne by (simp add: clockOfTime_def Let_def)
  qed (use le in \<open>simp_all add: clockOfTime_def Let_def nats nat_mono\<close>)
  then show ?thesis
    using p unfolding localTimeText_clock [OF t(1)] localTimeText_clock [OF t(2)] clockLine_def plainClock_def
    by (subst clockWritten_less) simp_all
qed

lemma localTimeText_less_iff:
  assumes "providerTime t" "providerTime t'"
  shows "localTimeText t < localTimeText t' \<longleftrightarrow> t < t'"
  using clockOfTime_less [OF assms] clockOfTime_less [OF assms(2,1)] by (metis less_asym linorder_neqE)

lemma parse_provider:
  assumes "providerTime t"
  shows "parseOccurredAt (Some (localTimeText t)) = Inr (t - chinaOffset)"
  by (simp add: parseOccurredAt_def parse_clockLine(1) [OF assms])

lemma provider_parsed:
  assumes "isProviderTimestamp s"
  obtains ms where "parseOccurredAt (Some s) = Inr ms" "providerTime (ms + chinaOffset)" "s = localTimeText (ms + chinaOffset)"
proof -
  obtain t where "providerTime t" "s = localTimeText t" by (rule provider_text [OF assms])
  then show thesis using parse_provider by (intro that [of "t - chinaOffset"]) simp_all
qed

lemma format_provider:
  assumes "providerTime (ms + chinaOffset)"
  shows "formatProviderTimestamp ms = Inr (localTimeText (ms + chinaOffset))"
proof -
  have "(ms + 28800000) mod 1000 = ms mod 1000" using mod_mult_self1 [of ms 28800 1000] by simp
  then show ?thesis
    using assms by (simp add: formatProviderTimestamp_def providerTime_def chinaOffset_def isSafeInteger_def maxSafeInteger_def)
qed

end
