(* ===== verification/LedgerFrames.thy ===== *)
theory LedgerFrames
  imports LedgerOperations LedgerTime
begin

text \<open>
  What an operation of the ledger leaves alone: the evidence (pages, observations, events, entries,
  conflicts) and the tree (runs, segments, cursors) change apart from each other, except that an
  accepted page completes its segment.
\<close>

definition sameTree :: "ledger_db \<Rightarrow> ledger_db \<Rightarrow> bool" where
  "sameTree db db' \<longleftrightarrow> ingestRuns db' = ingestRuns db \<and> ingestSegments db' = ingestSegments db \<and> ledgerCursors db' = ledgerCursors db"

definition sameEvidence :: "ledger_db \<Rightarrow> ledger_db \<Rightarrow> bool" where
  "sameEvidence db db' \<longleftrightarrow> rawPages db' = rawPages db \<and> pageObservations db' = pageObservations db \<and> rawEvents db' = rawEvents db \<and>
     ingestedEntries db' = ingestedEntries db \<and> ingestConflicts db' = ingestConflicts db"

lemma sameTree_refl [simp, intro]: "sameTree db db" by (simp add: sameTree_def)
lemma sameEvidence_refl [simp, intro]: "sameEvidence db db" by (simp add: sameEvidence_def)
lemma sameTree_trans [trans]: "sameTree a b \<Longrightarrow> sameTree b c \<Longrightarrow> sameTree a c" by (simp add: sameTree_def)
lemma sameEvidence_trans [trans]: "sameEvidence a b \<Longrightarrow> sameEvidence b c \<Longrightarrow> sameEvidence a c" by (simp add: sameEvidence_def)

lemmas inr_splits = option.splits prod.splits if_splits list.splits

subsection \<open>Reads return the row\<close>

lemma mapRun_Inr: "mapRun row = Inr r \<Longrightarrow> r = row" by (auto simp: mapRun_def result_simps)
lemma mapSegment_Inr: "mapSegment row = Inr r \<Longrightarrow> r = row" by (auto simp: mapSegment_def result_simps)
lemma mapCursor_Inr: "mapCursor row = Inr r \<Longrightarrow> r = row" by (auto simp: mapCursor_def result_simps)
lemma mapRawPage_Inr: "mapRawPage row = Inr r \<Longrightarrow> r = row" by (auto simp: mapRawPage_def result_simps)
lemma mapConflict_Inr: "mapConflict row = Inr r \<Longrightarrow> r = row" by (auto simp: mapConflict_def result_simps)

lemma requireRun_Inr: "requireRun db rid = Inr r \<Longrightarrow> r \<in> set (ingestRuns db) \<and> runId r = rid"
  by (auto simp: requireRun_def readRun_def result_simps split: inr_splits dest!: mapRun_Inr find_SomeD)

lemma requireSegment_Inr: "requireSegment db sid = Inr s \<Longrightarrow> s \<in> set (ingestSegments db) \<and> segmentId s = sid"
  by (auto simp: requireSegment_def split: inr_splits dest!: mapSegment_Inr find_SomeD)

lemma requireCursor_Inr:
  "requireCursor db key lane = Inr c \<Longrightarrow> c \<in> set (ledgerCursors db) \<and> cursorKey c = key \<and> cursorLane c = lane"
  by (auto simp: requireCursor_def readCursor_def result_simps split: inr_splits dest!: mapCursor_Inr find_SomeD)

lemma readCursor_Some:
  "readCursor db key lane = Inr (Some c) \<Longrightarrow> c \<in> set (ledgerCursors db) \<and> cursorKey c = key \<and> cursorLane c = lane"
  by (auto simp: readCursor_def result_simps split: inr_splits dest!: mapCursor_Inr find_SomeD)

lemma readCursor_None:
  "readCursor db key lane = Inr None \<Longrightarrow> c \<in> set (ledgerCursors db) \<Longrightarrow> \<not> (cursorKey c = key \<and> cursorLane c = lane)"
  by (auto simp: readCursor_def result_simps find_None_iff_all split: inr_splits)

lemma requireRawPage_Inr: "requireRawPage db pid = Inr p \<Longrightarrow> p \<in> set (rawPages db) \<and> rawPageId p = pid"
  by (auto simp: requireRawPage_def split: inr_splits dest!: mapRawPage_Inr find_SomeD)

lemma readRawPageByFingerprints_Some:
  "readRawPageByFingerprints db key rq rs = Inr (Some p) \<Longrightarrow>
    p \<in> set (rawPages db) \<and> pageProviderKey p = key \<and> pageRequestHash p = rq \<and> pageResponseHash p = rs"
  by (auto simp: readRawPageByFingerprints_def mapFoundPage_def result_simps split: inr_splits dest!: mapRawPage_Inr find_SomeD)

lemma requireConflict_Inr: "requireConflict db cid = Inr c \<Longrightarrow> c \<in> set (ingestConflicts db) \<and> conflictId c = cid"
  by (auto simp: requireConflict_def readConflict_def result_simps split: inr_splits dest!: mapConflict_Inr find_SomeD)

lemma sort_key_Nil: "sort_key f xs = [] \<longleftrightarrow> xs = []"
  using set_sort [of f xs] by (metis set_empty)

lemma readRunningRun_None:
  "readRunningRun db key (Some lane) = Inr None \<Longrightarrow> r \<in> set (ingestRuns db) \<Longrightarrow> runProviderKey r = key \<Longrightarrow>
    runStatus r = RunRunning \<Longrightarrow> scanLaneForKind (runScanKind r) \<noteq> lane"
proof -
  assume none: "readRunningRun db key (Some lane) = Inr None"
    and r: "r \<in> set (ingestRuns db)" "runProviderKey r = key" "runStatus r = RunRunning"
  let ?rows = "filter (\<lambda>r. runProviderKey r = key \<and> runStatus r = RunRunning \<and> scanLaneForKind (runScanKind r) = lane) (ingestRuns db)"
  have "?rows = []"
  proof (rule ccontr)
    assume "?rows \<noteq> []"
    then have "sort_key (\<lambda>r. (runStartedAt r, runId r)) ?rows \<noteq> []" by (simp only: sort_key_Nil not_False_eq_True)
    then obtain x xs where "sort_key (\<lambda>r. (runStartedAt r, runId r)) ?rows = x # xs"
      by (cases "sort_key (\<lambda>r. (runStartedAt r, runId r)) ?rows") blast+
    then show False using none unfolding readRunningRun_def option.case by (auto simp: bindR_Inr_iff)
  qed
  then show "scanLaneForKind (runScanKind r) \<noteq> lane" using r by (auto simp: filter_empty_conv)
qed

subsection \<open>Statements on the tree\<close>

lemma insertRun_Inr:
  "insertRun row db = Inr db' \<Longrightarrow>
     runId row \<notin> runId ` set (ingestRuns db) \<and>
     (runStatus row = RunRunning \<longrightarrow> (\<forall>r \<in> set (ingestRuns db). runStatus r = RunRunning \<longrightarrow> runProviderKey r = runProviderKey row \<longrightarrow>
           scanLaneForKind (runScanKind r) \<noteq> scanLaneForKind (runScanKind row))) \<and>
     db' = db\<lparr>ingestRuns := ingestRuns db @ [row]\<rparr>"
  by (auto simp: insertRun_def result_simps list_ex_iff)

lemma insertSegment_Inr:
  "insertSegment row db = Inr db' \<Longrightarrow>
     segmentId row \<notin> segmentId ` set (ingestSegments db) \<and> windowFrom (segmentWindow row) < windowUntil (segmentWindow row) \<and>
     db' = db\<lparr>ingestSegments := ingestSegments db @ [row]\<rparr>"
  by (auto simp: insertSegment_def result_simps list_ex_iff)

lemma updateRun_Inr:
  "updateRun rid f label db = Inr db' \<Longrightarrow>
     db' = db\<lparr>ingestRuns := updateRows (\<lambda>r. runId r = rid \<and> runStatus r = RunRunning) f (ingestRuns db)\<rparr>"
  by (auto simp: updateRun_def result_simps Let_def)

lemma updateSegment_Inr:
  "updateSegment sid f label db = Inr db' \<Longrightarrow>
     db' = db\<lparr>ingestSegments := updateRows (\<lambda>s. segmentId s = sid \<and> segmentState s = SegmentPending) f (ingestSegments db)\<rparr>"
  by (auto simp: updateSegment_def result_simps Let_def)

lemma updateCursor_Inr: "updateCursor p f label db = Inr db' \<Longrightarrow> db' = db\<lparr>ledgerCursors := updateRows p f (ledgerCursors db)\<rparr>"
  by (auto simp: updateCursor_def result_simps)

definition firstCursor :: "string \<Rightarrow> ingest_scan_lane \<Rightarrow> ledger_window \<Rightarrow> int \<Rightarrow> ingest_scan_kind \<Rightarrow> int \<Rightarrow> int \<Rightarrow> ledger_cursor" where
  "firstCursor key lane window pageSize kind overlap now =
     \<lparr>cursorKey = key, cursorLane = lane, cursorWindow = window, cursorNextPage = Some 1, cursorPageSize = pageSize,
      cursorScanKind = kind, cursorOverlap = overlap, cursorComplete = False, cursorLastEvent = None,
      cursorLastCompleted = None, cursorUpdatedAt = now, cursorVersion = 1\<rparr>"

definition reopened :: "ledger_window \<Rightarrow> int \<Rightarrow> ingest_scan_kind \<Rightarrow> int \<Rightarrow> int \<Rightarrow> ledger_cursor \<Rightarrow> ledger_cursor" where
  "reopened window pageSize kind overlap now r =
     r\<lparr>cursorWindow := window, cursorNextPage := Some 1, cursorPageSize := pageSize, cursorScanKind := kind,
       cursorOverlap := overlap, cursorComplete := False, cursorUpdatedAt := now, cursorVersion := cursorVersion r + 1\<rparr>"

lemma openCursor_cases:
  assumes "openCursor key lane cursor window pageSize kind overlap now db = Inr db'"
  obtains (opened) "cursor = None" "\<forall>c \<in> set (ledgerCursors db). \<not> (cursorKey c = key \<and> cursorLane c = lane)"
      "db' = db\<lparr>ledgerCursors := ledgerCursors db @ [firstCursor key lane window pageSize kind overlap now]\<rparr>"
  | (resumed) c where "cursor = Some c" "\<not> cursorComplete c" "cursorWindow c = window" "db' = db"
  | (restarted) c where "cursor = Some c" "cursorComplete c"
      "db' = db\<lparr>ledgerCursors := updateRows (\<lambda>r. cursorKey r = key \<and> cursorLane r = lane)
         (reopened window pageSize kind overlap now) (ledgerCursors db)\<rparr>"
proof (cases cursor)
  case None
  then show ?thesis using assms opened by (auto simp: openCursor_def result_simps list_ex_iff firstCursor_def)
next
  case (Some c)
  show ?thesis
  proof (cases "cursorComplete c")
    case True
    have eta: "(\<lambda>r. r\<lparr>cursorWindow := window, cursorNextPage := Some 1, cursorPageSize := pageSize, cursorScanKind := kind,
       cursorOverlap := overlap, cursorComplete := False, cursorUpdatedAt := now, cursorVersion := cursorVersion r + 1\<rparr>) =
       reopened window pageSize kind overlap now"
      by (rule ext) (simp add: reopened_def)
    have "updateCursor (\<lambda>r. cursorKey r = key \<and> cursorLane r = lane) (reopened window pageSize kind overlap now)
        ''ledger cursor restart'' db = Inr db'"
      using assms Some True by (simp add: openCursor_def eta)
    then have "db' = db\<lparr>ledgerCursors := updateRows (\<lambda>r. cursorKey r = key \<and> cursorLane r = lane)
         (reopened window pageSize kind overlap now) (ledgerCursors db)\<rparr>"
      by (rule updateCursor_Inr)
    then show ?thesis by (rule restarted [OF Some True])
  next
    case False
    then show ?thesis using assms Some resumed by (auto simp: openCursor_def result_simps)
  qed
qed

subsection \<open>What keeps the evidence\<close>

lemma keepsEvidence [simp]:
  "sameEvidence db (db\<lparr>ingestRuns := x\<rparr>)" "sameEvidence db (db\<lparr>ingestSegments := y\<rparr>)" "sameEvidence db (db\<lparr>ledgerCursors := z\<rparr>)"
  "sameEvidence db (db\<lparr>scheduleStates := u\<rparr>)" "sameEvidence db (db\<lparr>compensationStates := v\<rparr>)" "sameEvidence db (db\<lparr>ingestErrors := w\<rparr>)"
  by (simp_all add: sameEvidence_def)

lemma recordScheduleFailure_Inr:
  "recordScheduleFailure key code retryable interval after now db = Inr db' \<Longrightarrow> \<exists>ss. db' = db\<lparr>scheduleStates := ss\<rparr>"
  by (auto simp: recordScheduleFailure_def result_simps Let_def)

lemma advanceCompensation_Inr:
  "advanceCompensationState key kind now db = Inr db' \<Longrightarrow> \<exists>cs. db' = db\<lparr>compensationStates := cs\<rparr>"
  by (auto simp: advanceCompensationState_def result_simps split: inr_splits)

lemma insertErrorRow_Inr: "insertErrorRow row db = Inr db' \<Longrightarrow> db' = db\<lparr>ingestErrors := ingestErrors db @ [row]\<rparr>"
  by (auto simp: insertErrorRow_def result_simps)

subsection \<open>What keeps the tree\<close>

lemma keepsTree [simp]:
  "sameTree db (db\<lparr>rawPages := x\<rparr>)" "sameTree db (db\<lparr>pageObservations := y\<rparr>)" "sameTree db (db\<lparr>rawEvents := z\<rparr>)"
  "sameTree db (db\<lparr>ingestedEntries := u\<rparr>)" "sameTree db (db\<lparr>ingestConflicts := v\<rparr>)" "sameTree db (db\<lparr>conflictOperations := w\<rparr>)"
  "sameTree db (db\<lparr>conflictAudits := a\<rparr>)" "sameTree db (db\<lparr>scheduleStates := b\<rparr>)" "sameTree db (db\<lparr>compensationStates := c\<rparr>)"
  "sameTree db (db\<lparr>ingestErrors := d\<rparr>)" "sameTree db (db\<lparr>conflictOperations := w, ingestConflicts := v\<rparr>)"
  by (simp_all add: sameTree_def)

end
