(* ===== verification/LedgerWindows.thy ===== *)
theory LedgerWindows
  imports LedgerTime
begin

text \<open>
  A valid window is an interval of whole seconds, and splitting it gives two valid windows that meet:
  only a window of one second has no split.
\<close>

definition windowSpan :: "ledger_window \<Rightarrow> int \<Rightarrow> int \<Rightarrow> bool" where
  "windowSpan w a b \<longleftrightarrow> parseOccurredAt (Some (windowFrom w)) = Inr a \<and> parseOccurredAt (Some (windowUntil w)) = Inr b"

lemma windowSpan_unique: "windowSpan w a b \<Longrightarrow> windowSpan w a' b' \<Longrightarrow> a' = a \<and> b' = b"
  by (simp add: windowSpan_def)

lemma validWindow_iff:
  "validateWindow w = Inr () \<longleftrightarrow>
     isProviderTimestamp (windowFrom w) \<and> isProviderTimestamp (windowUntil w) \<and> windowFrom w < windowUntil w"
  by (simp add: validateWindow_def result_simps)

lemma valid_window_span:
  assumes "validateWindow w = Inr ()"
  obtains a b where "windowSpan w a b" "a < b" "providerTime (a + chinaOffset)" "providerTime (b + chinaOffset)"
    "windowFrom w = localTimeText (a + chinaOffset)" "windowUntil w = localTimeText (b + chinaOffset)"
proof -
  have v: "isProviderTimestamp (windowFrom w)" "isProviderTimestamp (windowUntil w)" "windowFrom w < windowUntil w"
    using assms by (simp_all add: validWindow_iff)
  obtain a where a: "parseOccurredAt (Some (windowFrom w)) = Inr a" "providerTime (a + chinaOffset)"
      "windowFrom w = localTimeText (a + chinaOffset)"
    by (rule provider_parsed [OF v(1)])
  obtain b where b: "parseOccurredAt (Some (windowUntil w)) = Inr b" "providerTime (b + chinaOffset)"
      "windowUntil w = localTimeText (b + chinaOffset)"
    by (rule provider_parsed [OF v(2)])
  have "a + chinaOffset < b + chinaOffset" using v(3) localTimeText_less_iff [OF a(2) b(2)] unfolding a(3) b(3) by simp
  then show thesis using that a b by (simp add: windowSpan_def)
qed

lemma window_of_times:
  assumes "providerTime (a + chinaOffset)" "providerTime (b + chinaOffset)" "a < b"
    and "w = \<lparr>windowFrom = localTimeText (a + chinaOffset), windowUntil = localTimeText (b + chinaOffset)\<rparr>"
  shows "validateWindow w = Inr ()" "windowSpan w a b"
  using parse_clockLine(2) [OF assms(1)] parse_clockLine(2) [OF assms(2)] parse_provider [OF assms(1)]
    parse_provider [OF assms(2)] assms(3,4)
  by (simp_all add: validWindow_iff windowSpan_def localTimeText_less_iff [OF assms(1,2)])

lemma midpoint:
  fixes a b :: int
  assumes "1000 dvd a" "1000 dvd b" "1000 < b - a"
  defines "m \<equiv> (a + b) div 2000 * 1000"
  shows "a < m" "m < b" "1000 dvd m"
proof -
  obtain x y where xy: "a = 1000 * x" "b = 1000 * y" using assms(1,2) by (auto elim!: dvdE)
  have "(a + b) div 2000 = (x + y) div 2"
    using div_mult_mult1 [of 1000 "x + y" 2] by (simp add: xy distrib_left)
  moreover have "x + 2 \<le> y" using assms(3) by (simp add: xy)
  then have "x < (x + y) div 2" "(x + y) div 2 < y" by linarith+
  ultimately show "a < m" "m < b" "1000 dvd m" by (simp_all add: m_def xy)
qed

lemma provider_between:
  assumes "providerTime (a + chinaOffset)" "providerTime (b + chinaOffset)" "a \<le> m" "m \<le> b" "1000 dvd m"
  shows "providerTime (m + chinaOffset)"
proof -
  have "1000 dvd m + chinaOffset" using assms(5) by (simp add: chinaOffset_def dvd_add)
  then show ?thesis using assms(1-4) by (auto simp: providerTime_def mod_eq_0_iff_dvd)
qed

lemma provider_second: "providerTime (a + chinaOffset) \<Longrightarrow> 1000 dvd a"
  by (auto simp: providerTime_def chinaOffset_def mod_eq_0_iff_dvd dvd_add_left_iff)

lemma splitLedgerWindow_result:
  assumes v: "validateWindow w = Inr ()" and span: "windowSpan w a b"
  shows "if b - a \<le> 1000 then splitLedgerWindow w = Inr None
    else let m = (a + b) div 2000 * 1000; t = localTimeText (m + chinaOffset)
      in splitLedgerWindow w = Inr (Some \<lparr>splitPoint = t,
           leftWindow = \<lparr>windowFrom = windowFrom w, windowUntil = t\<rparr>, rightWindow = \<lparr>windowFrom = t, windowUntil = windowUntil w\<rparr>\<rparr>) \<and>
         a < m \<and> m < b \<and> providerTime (m + chinaOffset)"
proof -
  obtain a' b' where r: "windowSpan w a' b'" "providerTime (a' + chinaOffset)" "providerTime (b' + chinaOffset)"
    by (rule valid_window_span [OF v])
  have p: "providerTime (a + chinaOffset)" "providerTime (b + chinaOffset)" using r windowSpan_unique [OF span r(1)] by simp_all
  show ?thesis
  proof (cases "b - a \<le> 1000")
    case True
    then show ?thesis using v span by (simp add: splitLedgerWindow_def windowSpan_def)
  next
    case False
    let ?m = "(a + b) div 2000 * 1000"
    have m: "a < ?m" "?m < b" "1000 dvd ?m"
      using midpoint [OF provider_second [OF p(1)] provider_second [OF p(2)]] False by simp_all
    have q: "providerTime (?m + chinaOffset)" using m by (intro provider_between [OF p]) simp_all
    then show ?thesis
      using False v span m format_provider [OF q] by (simp add: splitLedgerWindow_def windowSpan_def Let_def)
  qed
qed

lemma split_window:
  assumes v: "validateWindow w = Inr ()" and s: "splitLedgerWindow w = Inr (Some sp)"
  obtains a m b where "windowSpan w a b" "windowSpan (leftWindow sp) a m" "windowSpan (rightWindow sp) m b" "a < m" "m < b"
    "validateWindow (leftWindow sp) = Inr ()" "validateWindow (rightWindow sp) = Inr ()"
proof -
  obtain a b where w: "windowSpan w a b" "providerTime (a + chinaOffset)" "providerTime (b + chinaOffset)"
      "windowFrom w = localTimeText (a + chinaOffset)" "windowUntil w = localTimeText (b + chinaOffset)"
    by (rule valid_window_span [OF v])
  let ?m = "(a + b) div 2000 * 1000"
  have "\<not> b - a \<le> 1000" using splitLedgerWindow_result [OF v w(1)] s by (auto split: if_splits)
  then have r: "sp = \<lparr>splitPoint = localTimeText (?m + chinaOffset),
        leftWindow = \<lparr>windowFrom = windowFrom w, windowUntil = localTimeText (?m + chinaOffset)\<rparr>,
        rightWindow = \<lparr>windowFrom = localTimeText (?m + chinaOffset), windowUntil = windowUntil w\<rparr>\<rparr>"
      "a < ?m" "?m < b" "providerTime (?m + chinaOffset)"
    using splitLedgerWindow_result [OF v w(1)] s by (simp_all add: Let_def)
  have l: "leftWindow sp = \<lparr>windowFrom = localTimeText (a + chinaOffset), windowUntil = localTimeText (?m + chinaOffset)\<rparr>"
    "rightWindow sp = \<lparr>windowFrom = localTimeText (?m + chinaOffset), windowUntil = localTimeText (b + chinaOffset)\<rparr>"
    unfolding r(1) split_window.simps w(4,5) by simp_all
  show thesis
    using that [OF w(1)] window_of_times [OF w(2) r(4) r(2) l(1)] window_of_times [OF r(4) w(3) r(3) l(2)] r(2,3) by blast
qed

end
