(* ===== verification/LedgerTree.thy ===== *)
theory LedgerTree
  imports LedgerFrames LedgerWindows
begin

text \<open>
  The tree of segments: every run has a root with its window, a split segment has the two halves of
  its window below it, and a completed run has no pending segment; the cursor of a running run is not
  complete.  The windows of the completed segments of a completed run therefore cover its window.
\<close>

subsection \<open>The invariant\<close>

definition splitCovered :: "ingest_segment set \<Rightarrow> ingest_segment \<Rightarrow> bool" where
  "splitCovered S s \<longleftrightarrow>
     (\<exists>sp. splitLedgerWindow (segmentWindow s) = Inr (Some sp) \<and>
       (\<exists>l \<in> S. segmentRunId l = segmentRunId s \<and> segmentWindow l = leftWindow sp) \<and>
       (\<exists>r \<in> S. segmentRunId r = segmentRunId s \<and> segmentWindow r = rightWindow sp))"

definition segmentsOk :: "ingest_segment list \<Rightarrow> bool" where
  "segmentsOk segs \<longleftrightarrow> distinct (map segmentId segs) \<and>
     (\<forall>s \<in> set segs. validateWindow (segmentWindow s) = Inr ()) \<and>
     (\<forall>s \<in> set segs. segmentState s = SegmentSplit \<longrightarrow> splitCovered (set segs) s)"

definition runsOk :: "ingest_run list \<Rightarrow> ingest_segment list \<Rightarrow> bool" where
  "runsOk runs segs \<longleftrightarrow> distinct (map runId runs) \<and>
     (\<forall>r \<in> set runs. \<exists>s \<in> set segs. segmentRunId s = runId r \<and> segmentWindow s = runWindow r) \<and>
     (\<forall>r \<in> set runs. runStatus r = RunCompleted \<longrightarrow> (\<forall>s \<in> set segs. segmentRunId s = runId r \<longrightarrow> segmentState s \<noteq> SegmentPending))"

abbreviation runLane :: "ingest_run \<Rightarrow> ingest_scan_lane" where
  "runLane r \<equiv> scanLaneForKind (runScanKind r)"

definition oneRunning :: "ingest_run list \<Rightarrow> bool" where
  "oneRunning runs \<longleftrightarrow>
     (\<forall>r \<in> set runs. \<forall>r' \<in> set runs. runStatus r = RunRunning \<longrightarrow> runStatus r' = RunRunning \<longrightarrow>
        runProviderKey r = runProviderKey r' \<longrightarrow> runLane r = runLane r' \<longrightarrow> runId r = runId r')"

definition lanesOk :: "ingest_run list \<Rightarrow> ledger_cursor list \<Rightarrow> bool" where
  "lanesOk runs cs \<longleftrightarrow>
     (\<forall>r \<in> set runs. runStatus r = RunRunning \<longrightarrow>
        (\<forall>c \<in> set cs. cursorKey c = runProviderKey r \<longrightarrow> cursorLane c = runLane r \<longrightarrow> \<not> cursorComplete c))"

definition cursorsOk :: "ledger_cursor list \<Rightarrow> bool" where
  "cursorsOk cs \<longleftrightarrow> distinct (map (\<lambda>c. (cursorKey c, cursorLane c)) cs) \<and>
     (\<forall>c \<in> set cs. cursorLane c = scanLaneForKind (cursorScanKind c))"

definition treeInv :: "ledger_db \<Rightarrow> bool" where
  "treeInv db \<longleftrightarrow> segmentsOk (ingestSegments db) \<and> runsOk (ingestRuns db) (ingestSegments db) \<and> oneRunning (ingestRuns db) \<and>
     lanesOk (ingestRuns db) (ledgerCursors db) \<and> cursorsOk (ledgerCursors db)"

lemma treeInv_same: "sameTree db db' \<Longrightarrow> treeInv db \<Longrightarrow> treeInv db'"
  by (simp add: treeInv_def sameTree_def)

subsection \<open>Covering a window\<close>

lemma split_tree_covers:
  assumes ok: "segmentsOk segs" and done': "\<And>s. s \<in> set segs \<Longrightarrow> segmentRunId s = rid \<Longrightarrow> segmentState s \<noteq> SegmentPending"
  shows "s \<in> set segs \<Longrightarrow> segmentRunId s = rid \<Longrightarrow> windowSpan (segmentWindow s) a b \<Longrightarrow> a \<le> t \<Longrightarrow> t \<le> b \<Longrightarrow>
    \<exists>l \<in> set segs. segmentRunId l = rid \<and> segmentState l = SegmentComplete \<and>
      (\<exists>x y. windowSpan (segmentWindow l) x y \<and> x \<le> t \<and> t \<le> y)"
proof (induction "nat (b - a)" arbitrary: s a b rule: less_induct)
  case less
  show ?case
  proof (cases "segmentState s")
    case SegmentPending
    then show ?thesis using done' less.prems by blast
  next
    case SegmentComplete
    then show ?thesis using less.prems by blast
  next
    case SegmentSplit
    then have "splitCovered (set segs) s" and v: "validateWindow (segmentWindow s) = Inr ()"
      using ok less.prems(1) by (auto simp: segmentsOk_def)
    then obtain sp l r where sp: "splitLedgerWindow (segmentWindow s) = Inr (Some sp)"
      and l: "l \<in> set segs" "segmentRunId l = rid" "segmentWindow l = leftWindow sp"
      and r: "r \<in> set segs" "segmentRunId r = rid" "segmentWindow r = rightWindow sp"
      using less.prems(2) by (auto simp: splitCovered_def)
    obtain a' m b' where m: "windowSpan (segmentWindow s) a' b'" "windowSpan (leftWindow sp) a' m" "windowSpan (rightWindow sp) m b'"
        "a' < m" "m < b'"
      by (rule split_window [OF v sp])
    have ab: "a' = a" "b' = b" using windowSpan_unique [OF less.prems(3) m(1)] by simp_all
    show ?thesis
    proof (cases "t \<le> m")
      case True
      have "nat (m - a) < nat (b - a)" using m(4,5) ab by simp
      from less.hyps [OF this l(1,2)] show ?thesis using m(2) ab True less.prems(4) by (simp add: l(3))
    next
      case False
      have "nat (b - m) < nat (b - a)" using m(4,5) ab by simp
      from less.hyps [OF this r(1,2)] show ?thesis using m(3) ab False less.prems(5) by (simp add: r(3))
    qed
  qed
qed

subsection \<open>Updates of runs and cursors\<close>

lemma distinct_updateRows:
  "distinct (map k rows) \<Longrightarrow> (\<And>r. r \<in> set rows \<Longrightarrow> p r \<Longrightarrow> k (f r) = k r) \<Longrightarrow> distinct (map k (updateRows p f rows))"
  by (simp add: map_updateRows)

definition keepsRun :: "(ingest_run \<Rightarrow> ingest_run) \<Rightarrow> bool" where
  "keepsRun f \<longleftrightarrow> (\<forall>r. runId (f r) = runId r \<and> runWindow (f r) = runWindow r \<and> runProviderKey (f r) = runProviderKey r \<and>
     runScanKind (f r) = runScanKind r)"

lemma runs_updated:
  assumes "runsOk runs segs" "oneRunning runs" "lanesOk runs cs" "keepsRun f"
    and "\<And>r. r \<in> set runs \<Longrightarrow> p r \<Longrightarrow> runStatus (f r) = RunRunning \<Longrightarrow> runStatus r = RunRunning"
    and "\<And>r s. r \<in> set runs \<Longrightarrow> p r \<Longrightarrow> runStatus (f r) = RunCompleted \<Longrightarrow> s \<in> set segs \<Longrightarrow> segmentRunId s = runId r \<Longrightarrow>
      segmentState s \<noteq> SegmentPending"
  shows "runsOk (updateRows p f runs) segs" "oneRunning (updateRows p f runs)" "lanesOk (updateRows p f runs) cs"
proof -
  have k: "runId (f r) = runId r" "runWindow (f r) = runWindow r" "runProviderKey (f r) = runProviderKey r"
    "runScanKind (f r) = runScanKind r" for r
    using assms(4) by (simp_all add: keepsRun_def)
  have old: "\<exists>r \<in> set runs. r' = (if p r then f r else r)" if "r' \<in> set (updateRows p f runs)" for r'
    using that by (auto simp: updateRows_def)
  have d: "distinct (map runId (updateRows p f runs))"
    using assms(1) by (intro distinct_updateRows) (simp_all add: runsOk_def k)
  show "runsOk (updateRows p f runs) segs"
    unfolding runsOk_def
  proof (intro conjI ballI impI d)
    fix r' assume "r' \<in> set (updateRows p f runs)"
    then obtain r where r: "r \<in> set runs" "r' = (if p r then f r else r)" using old by blast
    then show "\<exists>s \<in> set segs. segmentRunId s = runId r' \<and> segmentWindow s = runWindow r'"
      using assms(1) by (auto simp: runsOk_def k)
    fix s assume "runStatus r' = RunCompleted" "s \<in> set segs" "segmentRunId s = runId r'"
    then show "segmentState s \<noteq> SegmentPending"
      using assms(1) assms(6) [OF r(1)] r by (auto simp: runsOk_def k split: if_splits)
  qed
  have was: "\<exists>r \<in> set runs. runId r = runId r' \<and> runProviderKey r = runProviderKey r' \<and> runScanKind r = runScanKind r' \<and>
      runStatus r = RunRunning" if r': "r' \<in> set (updateRows p f runs)" "runStatus r' = RunRunning" for r'
  proof -
    obtain r where "r \<in> set runs" "r' = (if p r then f r else r)" using old [OF r'(1)] by blast
    then show ?thesis using r'(2) assms(5) by (intro bexI [of _ r]) (auto simp: k split: if_splits)
  qed
  show "oneRunning (updateRows p f runs)"
    unfolding oneRunning_def
  proof (intro ballI impI)
    fix r r' assume r: "r \<in> set (updateRows p f runs)" "r' \<in> set (updateRows p f runs)" "runStatus r = RunRunning"
      "runStatus r' = RunRunning" "runProviderKey r = runProviderKey r'" "runLane r = runLane r'"
    obtain q where "q \<in> set runs" "runId q = runId r" "runProviderKey q = runProviderKey r" "runScanKind q = runScanKind r"
        "runStatus q = RunRunning"
      using was [OF r(1,3)] by blast
    moreover obtain q' where "q' \<in> set runs" "runId q' = runId r'" "runProviderKey q' = runProviderKey r'"
        "runScanKind q' = runScanKind r'" "runStatus q' = RunRunning"
      using was [OF r(2,4)] by blast
    ultimately show "runId r = runId r'" using assms(2) r(5,6) unfolding oneRunning_def by (metis (no_types, lifting))
  qed
  show "lanesOk (updateRows p f runs) cs"
    unfolding lanesOk_def
  proof (intro ballI impI)
    fix r' c assume r': "r' \<in> set (updateRows p f runs)" "runStatus r' = RunRunning"
      and c: "c \<in> set cs" "cursorKey c = runProviderKey r'" "cursorLane c = runLane r'"
    obtain r where "r \<in> set runs" "runProviderKey r = runProviderKey r'" "runScanKind r = runScanKind r'" "runStatus r = RunRunning"
      using was [OF r'] by blast
    then show "\<not> cursorComplete c" using assms(3) c unfolding lanesOk_def by metis
  qed
qed

definition keepsCursor :: "(ledger_cursor \<Rightarrow> ledger_cursor) \<Rightarrow> bool" where
  "keepsCursor f \<longleftrightarrow> (\<forall>c. cursorKey (f c) = cursorKey c \<and> cursorLane (f c) = cursorLane c \<and> cursorScanKind (f c) = cursorScanKind c)"

lemma cursors_updated:
  assumes "cursorsOk cs" "lanesOk runs cs" "keepsCursor f"
    and "\<And>c r. c \<in> set cs \<Longrightarrow> p c \<Longrightarrow> cursorComplete (f c) \<Longrightarrow> r \<in> set runs \<Longrightarrow> runStatus r = RunRunning \<Longrightarrow>
      cursorKey c = runProviderKey r \<Longrightarrow> cursorLane c = runLane r \<Longrightarrow> cursorComplete c"
  shows "cursorsOk (updateRows p f cs)" "lanesOk runs (updateRows p f cs)"
proof -
  have k: "cursorKey (f c) = cursorKey c" "cursorLane (f c) = cursorLane c" "cursorScanKind (f c) = cursorScanKind c" for c
    using assms(3) by (simp_all add: keepsCursor_def)
  have "distinct (map (\<lambda>c. (cursorKey c, cursorLane c)) (updateRows p f cs))"
    using assms(1) by (intro distinct_updateRows) (simp_all add: cursorsOk_def k)
  then show "cursorsOk (updateRows p f cs)"
    using assms(1) by (auto simp: cursorsOk_def set_updateRows k)
  show "lanesOk runs (updateRows p f cs)"
    using assms(2,4) by (auto simp: lanesOk_def set_updateRows k)
qed

lemma treeInvI:
  assumes "segmentsOk (ingestSegments db)" "runsOk (ingestRuns db) (ingestSegments db)" "oneRunning (ingestRuns db)"
    and "lanesOk (ingestRuns db) (ledgerCursors db)" "cursorsOk (ledgerCursors db)"
  shows "treeInv db"
  using assms by (simp add: treeInv_def)

lemma treeInvD:
  assumes "treeInv db"
  shows "segmentsOk (ingestSegments db)" "runsOk (ingestRuns db) (ingestSegments db)" "oneRunning (ingestRuns db)"
    "lanesOk (ingestRuns db) (ledgerCursors db)" "cursorsOk (ledgerCursors db)"
  using assms by (simp_all add: treeInv_def)

lemma treeInv_updateRun:
  assumes "treeInv db" "updateRun rid f label db = Inr db'" "keepsRun f"
    and "\<And>r s. r \<in> set (ingestRuns db) \<Longrightarrow> runId r = rid \<Longrightarrow> runStatus r = RunRunning \<Longrightarrow> runStatus (f r) = RunCompleted \<Longrightarrow>
      s \<in> set (ingestSegments db) \<Longrightarrow> segmentRunId s = runId r \<Longrightarrow> segmentState s \<noteq> SegmentPending"
  shows "treeInv db'"
proof -
  note i = treeInvD [OF assms(1)]
  have "runsOk (updateRows (\<lambda>r. runId r = rid \<and> runStatus r = RunRunning) f (ingestRuns db)) (ingestSegments db)"
    "oneRunning (updateRows (\<lambda>r. runId r = rid \<and> runStatus r = RunRunning) f (ingestRuns db))"
    "lanesOk (updateRows (\<lambda>r. runId r = rid \<and> runStatus r = RunRunning) f (ingestRuns db)) (ledgerCursors db)"
    using assms(4) by (auto intro!: runs_updated i assms(3))
  then show ?thesis using i by (intro treeInvI) (simp_all add: updateRun_Inr [OF assms(2)])
qed

lemma treeInv_updateCursor:
  assumes "treeInv db" "updateCursor p f label db = Inr db'" "keepsCursor f" "\<And>c. cursorComplete (f c) = cursorComplete c"
  shows "treeInv db'"
proof -
  note i = treeInvD [OF assms(1)]
  have "cursorsOk (updateRows p f (ledgerCursors db))" "lanesOk (ingestRuns db) (updateRows p f (ledgerCursors db))"
    using assms(4) by (auto intro!: cursors_updated i assms(3))
  then show ?thesis using i by (intro treeInvI) (simp_all add: updateCursor_Inr [OF assms(2)])
qed

end
