(* ===== verification/LedgerEffects.thy ===== *)
theory LedgerEffects
  imports LedgerTree
begin

text \<open>What the statements and operations on the evidence change, as equations on the rows.\<close>

subsection \<open>Identities\<close>

definition sameLedger :: "ledger_db \<Rightarrow> ledger_db \<Rightarrow> bool" where
  "sameLedger db db' \<longleftrightarrow> sameTree db db' \<and> sameEvidence db db'"

lemma sameLedger_refl [simp, intro]: "sameLedger db db" by (simp add: sameLedger_def)
lemma sameLedger_trans [trans]: "sameLedger a b \<Longrightarrow> sameLedger b c \<Longrightarrow> sameLedger a c"
  unfolding sameLedger_def by (blast intro: sameTree_trans sameEvidence_trans)

lemma insertActivation_same: "insertActivation row db = Inr db' \<Longrightarrow> sameLedger db db'"
  by (auto simp: insertActivation_def result_simps sameLedger_def sameTree_def sameEvidence_def)

lemma insertBinding_same: "insertBinding row db = Inr db' \<Longrightarrow> sameLedger db db'"
  by (auto simp: insertBinding_def result_simps sameLedger_def sameTree_def sameEvidence_def)

lemma activate_same: "activateProviderIdentity env b at' db = Inr db' \<Longrightarrow> sameLedger db db'"
  by (auto simp: activateProviderIdentity_def result_simps Let_def split: if_splits dest: insertActivation_same)

lemma bind_same: "bindProviderIdentity env key kind endpoint account t db = Inr (b, db') \<Longrightarrow> sameLedger db db'"
  by (auto simp: bindProviderIdentity_def result_simps split: option.splits if_splits
    dest!: activate_same insertBinding_same intro: sameLedger_trans)

subsection \<open>Schedule, compensation and errors\<close>

lemma clearSchedule_same: "sameLedger db (clearSchedule key db)"
  by (simp add: clearSchedule_def sameLedger_def)

lemma recordScheduleFailure_same: "recordScheduleFailure key code retryable interval after now db = Inr db' \<Longrightarrow> sameLedger db db'"
  by (auto simp: sameLedger_def dest!: recordScheduleFailure_Inr)

lemma advanceCompensation_same: "advanceCompensationState key kind now db = Inr db' \<Longrightarrow> sameLedger db db'"
  by (auto simp: sameLedger_def dest!: advanceCompensation_Inr)

lemma insertErrorRow_same: "insertErrorRow row db = Inr db' \<Longrightarrow> sameLedger db db'"
  by (auto simp: sameLedger_def dest!: insertErrorRow_Inr)

subsection \<open>Pages, observations, events\<close>

lemma insertRawPage_Inr:
  "insertRawPage row db = Inr db' \<Longrightarrow> rawPageId row \<notin> rawPageId ` set (rawPages db) \<and> db' = db\<lparr>rawPages := rawPages db @ [row]\<rparr>"
  by (auto simp: insertRawPage_def result_simps list_ex_iff)

lemma insertObservation_Inr:
  "insertObservation row db = Inr db' \<Longrightarrow> observationMatches db row \<and> db' = db\<lparr>pageObservations := pageObservations db @ [row]\<rparr>"
  by (auto simp: insertObservation_def result_simps)

lemma insertPageObservation_Inr:
  assumes "insertPageObservation rid sid pid kind prepared disposition db = Inr db'"
  obtains row where "observationMatches db row" "db' = db\<lparr>pageObservations := pageObservations db @ [row]\<rparr>"
    "observationRunId row = rid" "observationSegmentId row = sid" "observationPageId row = pid" "observationKind row = kind"
    "observationDisposition row = disposition"
  using assms by (auto simp: insertPageObservation_def result_simps dest!: insertObservation_Inr)

lemma insertEventRow_Inr:
  "insertEventRow row db = Inr db' \<Longrightarrow>
     rawEventId row \<notin> rawEventId ` set (rawEvents db) \<and>
     (\<exists>p \<in> set (rawPages db). rawPageId p = eventPageId row \<and> pageProviderKey p = eventProviderKey row) \<and>
     (\<exists>o' \<in> set (pageObservations db). observationPageId o' = eventPageId row \<and> observationKind o' = AcceptedLeaf \<and>
        observationDisposition o' = Processed) \<and>
     db' = db\<lparr>rawEvents := rawEvents db @ [row]\<rparr>"
  by (auto simp: insertEventRow_def result_simps list_ex_iff)

lemma insertRawEvent_Inr:
  assumes "insertRawEvent env key pid n d now db = Inr ((ev, invalid), db')"
  shows "insertEventRow ev db = Inr db' \<and> eventPageId ev = pid \<and> eventProviderKey ev = key \<and> eventOrdinal ev = n"
  using assms by (auto simp: insertRawEvent_def prepareRawEvent_def result_simps Let_def split: prod.splits)

subsection \<open>Entries and conflicts\<close>

lemma insertEntryRow_Inr:
  "insertEntryRow row db = Inr db' \<Longrightarrow>
     \<not> (\<exists>e \<in> set (ingestedEntries db). entryProviderKey e = entryProviderKey row \<and> entryExternalId e = entryExternalId row) \<and>
     ledgerEntryId row \<notin> ledgerEntryId ` set (ingestedEntries db) \<and>
     entryAmountCents row \<in> {1..999999999999} \<and>
     db' = db\<lparr>ingestedEntries := ingestedEntries db @ [row]\<rparr>"
  by (auto simp: insertEntryRow_def result_simps list_ex_iff)

lemma insertConflictRow_Inr: "insertConflictRow row db = Inr db' \<Longrightarrow> db' = db\<lparr>ingestConflicts := ingestConflicts db @ [row]\<rparr>"
  by (auto simp: insertConflictRow_def result_simps)

lemma insertConflict_Inr:
  assumes "insertConflict env input db = Inr (c, db')"
  shows "(\<exists>rows. db' = db\<lparr>ingestConflicts := ingestConflicts db @ rows\<rparr>) \<and> c \<in> set (ingestConflicts db') \<and>
    (\<exists>c \<in> set (ingestConflicts db'). conflictProviderKey c = inConflictKey input \<and>
       conflictFingerprintOf c = conflictFingerprint env (inConflictParts input))"
proof (cases "List.find (\<lambda>c. conflictProviderKey c = inConflictKey input \<and>
    conflictFingerprintOf c = conflictFingerprint env (inConflictParts input)) (ingestConflicts db)")
  case (Some existing)
  then have "c = existing" "db' = db"
    using assms by (auto simp: insertConflict_def Let_def result_simps dest!: mapConflict_Inr)
  moreover have "db = db\<lparr>ingestConflicts := ingestConflicts db @ []\<rparr>" by simp
  ultimately show ?thesis using find_SomeD [OF Some] by blast
next
  case None
  then show ?thesis
    using assms by (auto simp: insertConflict_def Let_def result_simps dest!: insertConflictRow_Inr requireConflict_Inr)
qed

lemma insertOperationRow_Inr:
  "insertOperationRow op db = Inr db' \<Longrightarrow>
     db' = db\<lparr>conflictOperations := conflictOperations db @ [op],
       ingestConflicts := updateRows (\<lambda>c. conflictId c = requestConflictId (conflictOperationRequest op) \<and> conflictStatus c = ConflictOpen)
         (applyConflictOperation op) (ingestConflicts db)\<rparr>"
  by (auto simp: insertOperationRow_def result_simps Let_def)

lemma insertConflictOperation_Inr:
  assumes "insertConflictOperation env oid key r now db = Inr (op', db')"
  shows "\<exists>p op. db' = db\<lparr>conflictOperations := conflictOperations db @ [op],
       ingestConflicts := updateRows p (applyConflictOperation op) (ingestConflicts db)\<rparr>"
  using assms by (auto simp: insertConflictOperation_def result_simps split: option.splits dest!: insertOperationRow_Inr)

text \<open>The conflicts after a decision: the same fingerprints of the same accounts.\<close>

definition conflictsKept :: "ingest_conflict list \<Rightarrow> ingest_conflict list \<Rightarrow> bool" where
  "conflictsKept cs cs' \<longleftrightarrow>
     (\<forall>c \<in> set cs. \<exists>c' \<in> set cs'. conflictProviderKey c' = conflictProviderKey c \<and> conflictFingerprintOf c' = conflictFingerprintOf c)"

lemma conflictsKept_refl [simp, intro]: "conflictsKept cs cs" by (auto simp: conflictsKept_def)
lemma conflictsKept_trans [trans]: "conflictsKept a b \<Longrightarrow> conflictsKept b c \<Longrightarrow> conflictsKept a c"
  unfolding conflictsKept_def by metis
lemma conflictsKept_append [simp, intro]: "conflictsKept cs (cs @ rows)" by (auto simp: conflictsKept_def)
lemma conflictsKept_apply [simp, intro]: "conflictsKept cs (updateRows p (applyConflictOperation op) cs)"
proof -
  have "conflictProviderKey (applyConflictOperation op c) = conflictProviderKey c"
    "conflictFingerprintOf (applyConflictOperation op c) = conflictFingerprintOf c" for c
    by (simp_all add: applyConflictOperation_def)
  then show ?thesis unfolding conflictsKept_def
    by (intro ballI bexI [OF _ mem_updateRows_image [of _ cs p "applyConflictOperation op"]]) auto
qed

definition conflictsOnly :: "ledger_db \<Rightarrow> ledger_db \<Rightarrow> bool" where
  "conflictsOnly db db' \<longleftrightarrow> sameTree db db' \<and> rawPages db' = rawPages db \<and> pageObservations db' = pageObservations db \<and>
     rawEvents db' = rawEvents db \<and> ingestedEntries db' = ingestedEntries db \<and> conflictsKept (ingestConflicts db) (ingestConflicts db')"

lemma conflictsOnly_refl [simp, intro]: "conflictsOnly db db" by (simp add: conflictsOnly_def)
lemma conflictsOnly_trans [trans]: "conflictsOnly a b \<Longrightarrow> conflictsOnly b c \<Longrightarrow> conflictsOnly a c"
  unfolding conflictsOnly_def by (auto intro: sameTree_trans conflictsKept_trans)

lemma insertConflict_only: "insertConflict env input db = Inr (c, db') \<Longrightarrow> conflictsOnly db db'"
  by (auto simp: conflictsOnly_def dest!: insertConflict_Inr)

lemma operation_only: "insertConflictOperation env oid key r now db = Inr (op', db') \<Longrightarrow> conflictsOnly db db'"
  by (auto simp: conflictsOnly_def dest!: insertConflictOperation_Inr)

lemma audit_only: "conflictsOnly db b \<Longrightarrow> conflictsOnly db (appendConflictAudit op r h b)"
  by (simp add: conflictsOnly_def appendConflictAudit_def sameTree_def)

lemma resolve_only: "resolveConflict env input t db = Inr (r, db') \<Longrightarrow> conflictsOnly db db'"
  by (auto simp: resolveConflict_def Let_def result_simps split: option.splits
    dest!: operation_only intro: audit_only)

lemma confirm_only: "confirmPageVariantConflict env latest lp p now db = Inr db' \<Longrightarrow> conflictsOnly db db'"
  by (auto simp: confirmPageVariantConflict_def result_simps split: list.splits
    dest!: operation_only intro: audit_only)

end
