(* ===== verification/LedgerPreserves.thy ===== *)
theory LedgerPreserves
  imports LedgerEffects
begin

text \<open>Every operation of the ledger keeps the tree of segments.\<close>

lemma treeInv_ledger: "sameLedger db db' \<Longrightarrow> treeInv db \<Longrightarrow> treeInv db'"
  unfolding sameLedger_def by (blast intro: treeInv_same)

lemma treeInv_conflicts: "conflictsOnly db db' \<Longrightarrow> treeInv db \<Longrightarrow> treeInv db'"
  unfolding conflictsOnly_def by (blast intro: treeInv_same)

subsection \<open>Segments\<close>

lemma splitCovered_mono:
  assumes "splitCovered S s" "segmentWindow s' = segmentWindow s" "segmentRunId s' = segmentRunId s"
    and "\<And>x. x \<in> S \<Longrightarrow> \<exists>x' \<in> S'. segmentRunId x' = segmentRunId x \<and> segmentWindow x' = segmentWindow x"
  shows "splitCovered S' s'"
proof -
  obtain sp l r where "splitLedgerWindow (segmentWindow s) = Inr (Some sp)"
    and l: "l \<in> S" "segmentRunId l = segmentRunId s" "segmentWindow l = leftWindow sp"
    and r: "r \<in> S" "segmentRunId r = segmentRunId s" "segmentWindow r = rightWindow sp"
    using assms(1) by (auto simp: splitCovered_def)
  then show ?thesis
    using assms(2,3) assms(4) [OF l(1)] assms(4) [OF r(1)] unfolding splitCovered_def by (metis (no_types, lifting))
qed

definition keepsSegment :: "(ingest_segment \<Rightarrow> ingest_segment) \<Rightarrow> bool" where
  "keepsSegment f \<longleftrightarrow> (\<forall>s. segmentId (f s) = segmentId s \<and> segmentRunId (f s) = segmentRunId s \<and> segmentWindow (f s) = segmentWindow s)"

text \<open>Some segments move on from pending and new ones are added; the split ones are covered.\<close>

lemma segments_updated:
  assumes ok: "segmentsOk segs" and k: "keepsSegment f"
    and d: "distinct (map segmentId (segs @ rows))" and v: "\<And>s. s \<in> set rows \<Longrightarrow> validateWindow (segmentWindow s) = Inr ()"
    and n: "\<And>s. s \<in> set rows \<Longrightarrow> segmentState s \<noteq> SegmentSplit"
    and c: "\<And>s. s \<in> set segs \<Longrightarrow> p s \<Longrightarrow> segmentState (f s) = SegmentSplit \<Longrightarrow> splitCovered (set rows) s"
  shows "segmentsOk (updateRows p f segs @ rows)"
proof -
  have keep: "segmentId (f s) = segmentId s" "segmentRunId (f s) = segmentRunId s" "segmentWindow (f s) = segmentWindow s" for s
    using k by (simp_all add: keepsSegment_def)
  have ids: "map segmentId (updateRows p f segs) = map segmentId segs" by (rule map_updateRows) (simp add: keep)
  have grow: "\<exists>x' \<in> set (updateRows p f segs @ rows). segmentRunId x' = segmentRunId x \<and> segmentWindow x' = segmentWindow x"
    if "x \<in> set segs" for x
    using mem_updateRows_image [OF that, of p f] by (intro bexI [where x = "if p x then f x else x"]) (auto simp: keep)
  show ?thesis
    unfolding segmentsOk_def
  proof (intro conjI ballI impI)
    show "distinct (map segmentId (updateRows p f segs @ rows))" using d ids by simp
  next
    fix s assume "s \<in> set (updateRows p f segs @ rows)"
    then show "validateWindow (segmentWindow s) = Inr ()"
      using ok v by (auto simp: set_updateRows segmentsOk_def keep)
  next
    fix s assume s: "s \<in> set (updateRows p f segs @ rows)" "segmentState s = SegmentSplit"
    then have "s \<in> set (updateRows p f segs)" using n by auto
    then obtain x where x: "x \<in> set segs" "s = (if p x then f x else x)" by (auto simp: updateRows_def)
    show "splitCovered (set (updateRows p f segs @ rows)) s"
    proof (cases "p x")
      case True
      then have "splitCovered (set rows) x" using c x s(2) by simp
      then show ?thesis by (rule splitCovered_mono) (use x True in \<open>auto simp: keep\<close>)
    next
      case False
      then have "splitCovered (set segs) x" using ok x s(2) by (simp add: segmentsOk_def)
      then show ?thesis by (rule splitCovered_mono) (use x False grow in auto)
    qed
  qed
qed

lemma runs_segments:
  assumes "runsOk runs segs" "keepsSegment f"
    and "\<And>s. s \<in> set segs \<Longrightarrow> p s \<Longrightarrow> segmentState (f s) \<noteq> SegmentPending"
    and "\<And>r s. r \<in> set runs \<Longrightarrow> runStatus r = RunCompleted \<Longrightarrow> s \<in> set rows \<Longrightarrow> segmentRunId s \<noteq> runId r"
  shows "runsOk runs (updateRows p f segs @ rows)"
proof -
  have keep: "segmentRunId (f s) = segmentRunId s" "segmentWindow (f s) = segmentWindow s" for s
    using assms(2) by (simp_all add: keepsSegment_def)
  show ?thesis
    unfolding runsOk_def
  proof (intro conjI ballI impI)
    show "distinct (map runId runs)" using assms(1) by (simp add: runsOk_def)
  next
    fix r assume "r \<in> set runs"
    then obtain s where s: "s \<in> set segs" "segmentRunId s = runId r" "segmentWindow s = runWindow r"
      using assms(1) by (auto simp: runsOk_def)
    then show "\<exists>s \<in> set (updateRows p f segs @ rows). segmentRunId s = runId r \<and> segmentWindow s = runWindow r"
      using mem_updateRows_image [OF s(1), of p f] by (intro bexI [where x = "if p s then f s else s"]) (auto simp: keep)
  next
    fix r s assume r: "r \<in> set runs" "runStatus r = RunCompleted"
      and s: "s \<in> set (updateRows p f segs @ rows)" "segmentRunId s = runId r"
    then have "s \<in> set (updateRows p f segs)" using assms(4) by auto
    then obtain x where x: "x \<in> set segs" "s = (if p x then f x else x)" by (auto simp: updateRows_def)
    then have "segmentRunId x = runId r" using s(2) by (auto simp: keep split: if_splits)
    then show "segmentState s \<noteq> SegmentPending" using x assms(1,3) r by (auto simp: runsOk_def split: if_splits)
  qed
qed

subsection \<open>Starting a run\<close>

lemma runsOk_add:
  assumes ok: "runsOk runs segs" and fresh: "runId r \<notin> runId ` set runs" "runStatus r \<noteq> RunCompleted"
    and s: "s \<in> set segs" "segmentRunId s = runId r" "segmentWindow s = runWindow r"
  shows "runsOk (runs @ [r]) segs"
  unfolding runsOk_def
proof (intro conjI ballI impI)
  show "distinct (map runId (runs @ [r]))" using ok fresh by (simp add: runsOk_def)
next
  fix x assume "x \<in> set (runs @ [r])"
  then show "\<exists>s \<in> set segs. segmentRunId s = runId x \<and> segmentWindow s = runWindow x"
    using ok s unfolding runsOk_def by (cases "x = r") (blast, simp)
next
  fix x y assume "x \<in> set (runs @ [r])" "runStatus x = RunCompleted" "y \<in> set segs" "segmentRunId y = runId x"
  then show "segmentState y \<noteq> SegmentPending"
    using ok fresh(2) unfolding runsOk_def by (cases "x = r") simp_all
qed

lemma oneRunning_add:
  assumes one: "oneRunning runs"
    and free: "\<forall>x \<in> set runs. runStatus x = RunRunning \<longrightarrow> runProviderKey x = runProviderKey r \<longrightarrow> runLane x \<noteq> runLane r"
  shows "oneRunning (runs @ [r])"
  unfolding oneRunning_def
proof (intro ballI impI)
  fix x y assume m: "x \<in> set (runs @ [r])" "y \<in> set (runs @ [r])" "runStatus x = RunRunning" "runStatus y = RunRunning"
    and same: "runProviderKey x = runProviderKey y" "runLane x = runLane y"
  have f: "runLane z \<noteq> runLane r" if "z \<in> set runs" "runStatus z = RunRunning" "runProviderKey z = runProviderKey r" for z
    using free that by blast
  consider "x = r" "y = r" | "x = r" "y \<in> set runs" | "x \<in> set runs" "y = r" | "x \<in> set runs" "y \<in> set runs"
    using m(1,2) by auto
  then show "runId x = runId y"
  proof cases
    case 1
    then show ?thesis by simp
  next
    case 2
    then show ?thesis using f [OF 2(2) m(4)] same by simp
  next
    case 3
    then show ?thesis using f [OF 3(1) m(3)] same by simp
  next
    case 4
    show ?thesis by (rule one [unfolded oneRunning_def, rule_format, OF 4 m(3,4) same])
  qed
qed

lemma insertSegment_distinct:
  "insertSegment row db = Inr db' \<Longrightarrow> distinct (map segmentId (ingestSegments db)) \<Longrightarrow>
    distinct (map segmentId (ingestSegments db @ [row]))"
  by (auto dest!: insertSegment_Inr)

lemma firstCursor_simps [simp]:
  "cursorKey (firstCursor key lane window pageSize kind overlap now) = key"
  "cursorLane (firstCursor key lane window pageSize kind overlap now) = lane"
  "cursorScanKind (firstCursor key lane window pageSize kind overlap now) = kind"
  "cursorComplete (firstCursor key lane window pageSize kind overlap now) = False"
  by (simp_all add: firstCursor_def)

lemma openCursor_frame:
  assumes "openCursor key lane cursor window pageSize kind overlap now db = Inr db'"
  shows "\<exists>cs. db' = db\<lparr>ledgerCursors := cs\<rparr>"
  using assms
proof (cases rule: openCursor_cases)
  case (resumed c)
  then show ?thesis by (intro exI [of _ "ledgerCursors db"]) simp
qed blast+

lemma reopened_simps [simp]:
  "cursorKey (reopened window pageSize kind overlap now c) = cursorKey c"
  "cursorLane (reopened window pageSize kind overlap now c) = cursorLane c"
  "cursorScanKind (reopened window pageSize kind overlap now c) = kind"
  "cursorComplete (reopened window pageSize kind overlap now c) = False"
  by (simp_all add: reopened_def)

text \<open>The cursor of a lane is open after its run has begun, and the other cursors are as before.\<close>

definition laneOpen :: "string \<Rightarrow> ingest_scan_lane \<Rightarrow> ledger_cursor list \<Rightarrow> bool" where
  "laneOpen key lane cs \<longleftrightarrow> (\<forall>c \<in> set cs. cursorKey c = key \<longrightarrow> cursorLane c = lane \<longrightarrow> \<not> cursorComplete c)"

lemma restart_lanes:
  assumes cs: "cursorsOk cs" and l: "lanesOk runs cs" and kind: "scanLaneForKind kind = lane"
    and new: "cs' = updateRows (\<lambda>r. cursorKey r = key \<and> cursorLane r = lane) (reopened window pageSize kind overlap now) cs"
  shows "cursorsOk cs'" "lanesOk runs cs'" "laneOpen key lane cs'"
proof -
  have rows: "\<exists>c \<in> set cs. c' = (if cursorKey c = key \<and> cursorLane c = lane then reopened window pageSize kind overlap now c else c)"
    if "c' \<in> set cs'" for c'
    using that by (auto simp: new updateRows_def)
  have d: "distinct (map (\<lambda>c. (cursorKey c, cursorLane c)) cs')"
    unfolding new using cs by (intro distinct_updateRows) (simp_all add: cursorsOk_def)
  have "cursorLane c' = scanLaneForKind (cursorScanKind c')" if "c' \<in> set cs'" for c'
    using rows [OF that] cs kind by (auto simp: cursorsOk_def split: if_splits)
  then show "cursorsOk cs'" using d by (simp add: cursorsOk_def)
  show "lanesOk runs cs'"
    unfolding lanesOk_def
  proof (intro ballI impI)
    fix r c' assume r: "r \<in> set runs" "runStatus r = RunRunning"
      and c': "c' \<in> set cs'" "cursorKey c' = runProviderKey r" "cursorLane c' = runLane r"
    obtain c where c: "c \<in> set cs"
        "c' = (if cursorKey c = key \<and> cursorLane c = lane then reopened window pageSize kind overlap now c else c)"
      using rows [OF c'(1)] by blast
    then show "\<not> cursorComplete c'"
      using l r c'(2,3) by (cases "cursorKey c = key \<and> cursorLane c = lane") (simp_all add: lanesOk_def)
  qed
  show "laneOpen key lane cs'"
    unfolding laneOpen_def using rows by (metis reopened_simps(4))
qed

lemma openCursor_lanes:
  assumes o': "openCursor key lane cursor window pageSize kind overlap now db = Inr db'"
    and cs: "cursorsOk (ledgerCursors db)" and l: "lanesOk runs (ledgerCursors db)"
    and kind: "scanLaneForKind kind = lane" and found: "readCursor db key lane = Inr cursor"
  shows "cursorsOk (ledgerCursors db')" "lanesOk runs (ledgerCursors db')" "laneOpen key lane (ledgerCursors db')"
proof -
  have "cursorsOk (ledgerCursors db') \<and> lanesOk runs (ledgerCursors db') \<and> laneOpen key lane (ledgerCursors db')"
    using o'
  proof (cases rule: openCursor_cases)
    case opened
    then show ?thesis using cs l kind by (auto simp: cursorsOk_def lanesOk_def laneOpen_def)
  next
    case (resumed c)
    then have c: "c \<in> set (ledgerCursors db)" "cursorKey c = key" "cursorLane c = lane"
      using readCursor_Some found by auto
    have "c' = c" if "c' \<in> set (ledgerCursors db)" "cursorKey c' = key" "cursorLane c' = lane" for c'
      using cs c that by (auto simp: cursorsOk_def distinct_map dest: inj_onD)
    then show ?thesis using resumed cs l by (auto simp: laneOpen_def)
  next
    case (restarted c)
    have "ledgerCursors db' = updateRows (\<lambda>r. cursorKey r = key \<and> cursorLane r = lane)
        (reopened window pageSize kind overlap now) (ledgerCursors db)"
      by (simp add: restarted(3))
    from restart_lanes [OF cs l kind this] show ?thesis by (intro conjI)
  qed
  then show "cursorsOk (ledgerCursors db')" "lanesOk runs (ledgerCursors db')" "laneOpen key lane (ledgerCursors db')"
    by auto
qed

lemma beginRun_tree:
  assumes b: "beginRun env key lane cursor window pageSize scanKind overlap t db = Inr (r, db')"
    and inv: "treeInv db" and w: "validateWindow window = Inr ()" and lane: "lane = scanLaneForKind scanKind"
    and found: "readCursor db key lane = Inr cursor"
  shows "treeInv db' \<and> sameEvidence db db'"
proof -
  note i = treeInvD [OF inv]
  define kind where "kind = (case cursor of Some c \<Rightarrow> if \<not> cursorComplete c then cursorScanKind c else scanKind | None \<Rightarrow> scanKind)"
  have kind: "scanLaneForKind kind = lane"
    using i(5) found by (auto simp: kind_def lane cursorsOk_def dest: readCursor_Some split: option.split)
  obtain now db1 db2 db3 rid sid where
      o': "openCursor key lane cursor window pageSize kind overlap now db = Inr db1"
    and r': "insertRun (newRun rid key window pageSize kind now) db1 = Inr db2"
    and s': "insertSegment (pendingSegment sid rid None window 0 now) db2 = Inr db3"
    and out: "db' = db3"
    using b unfolding beginRun_def kind_def [symmetric] Let_def by (auto simp: result_simps)
  obtain cs1 where db1: "db1 = db\<lparr>ledgerCursors := cs1\<rparr>" using openCursor_frame [OF o'] by blast
  note l = openCursor_lanes [OF o' i(5) i(4) kind found]
  have run: "runId (newRun rid key window pageSize kind now) = rid" "runWindow (newRun rid key window pageSize kind now) = window"
    "runProviderKey (newRun rid key window pageSize kind now) = key" "runScanKind (newRun rid key window pageSize kind now) = kind"
    "runStatus (newRun rid key window pageSize kind now) = RunRunning"
    by (simp_all add: newRun_def)
  note r2 = insertRun_Inr [OF r', unfolded run]
  have db2: "db2 = db1\<lparr>ingestRuns := ingestRuns db1 @ [newRun rid key window pageSize kind now]\<rparr>" using r2 by blast
  have runs: "ingestRuns db2 = ingestRuns db @ [newRun rid key window pageSize kind now]" using db2 db1 by simp
  have segs: "ingestSegments db2 = ingestSegments db" using db2 db1 by simp
  have cs: "ledgerCursors db2 = ledgerCursors db1" using db2 by simp
  note s3 = insertSegment_Inr [OF s']
  let ?s = "pendingSegment sid rid None window 0 now"
  have seg: "segmentId ?s = sid" "segmentRunId ?s = rid" "segmentWindow ?s = window" "segmentState ?s = SegmentPending"
    by (simp_all add: pendingSegment_def)
  have noUpdate: "updateRows (\<lambda>s. False) id xs = xs" for xs :: "ingest_segment list" by (simp add: updateRows_def)
  have d: "distinct (map segmentId (ingestSegments db @ [?s]))"
    using s3 i(1) by (simp add: segs seg segmentsOk_def)
  have "segmentsOk (updateRows (\<lambda>s. False) id (ingestSegments db) @ [?s])"
    by (rule segments_updated [OF i(1) _ d]) (simp_all add: keepsSegment_def seg w)
  then have segOk: "segmentsOk (ingestSegments db @ [?s])" by (simp only: noUpdate)
  have fresh: "rid \<notin> runId ` set (ingestRuns db)" using r2 db1 by simp
  have runOk: "runsOk (ingestRuns db) (ingestSegments db @ [?s])"
    using runs_segments [OF i(2), where f = id and p = "\<lambda>s. False" and rows = "[?s]"] fresh
    by (simp add: keepsSegment_def noUpdate seg) (metis image_eqI)
  have "runsOk (ingestRuns db2) (ingestSegments db @ [?s])"
    using fresh unfolding runs by (intro runsOk_add [OF runOk, where s = ?s]) (simp_all add: run seg)
  moreover have "oneRunning (ingestRuns db2)"
    unfolding runs by (rule oneRunning_add [OF i(3)]) (use r2 db1 in \<open>simp add: run\<close>)
  moreover have "lanesOk (ingestRuns db2) (ledgerCursors db1)"
    using l(2,3) kind unfolding runs lanesOk_def laneOpen_def by (simp add: run ball_Un)
  ultimately have "treeInv db'"
    using s3 segOk l(1) unfolding out by (intro treeInvI) (simp_all add: segs cs)
  moreover have "sameEvidence db db'"
    using db1 db2 s3 unfolding out by (simp add: sameEvidence_def)
  ultimately show ?thesis ..
qed

lemma start_tree:
  assumes s: "startIngestRun env input t db = Inr (r, db')" and inv: "treeInv db"
  shows "treeInv db' \<and> sameEvidence db db'"
proof -
  define kind where "kind = (case startScanKind input of None \<Rightarrow> NormalScan | Some k \<Rightarrow> k)"
  have "db' = db \<or> (\<exists>key cursor overlap t'. validateWindow (startWindow input) = Inr () \<and>
      readCursor db key (scanLaneForKind kind) = Inr cursor \<and>
      beginRun env key (scanLaneForKind kind) cursor (startWindow input) (startPageSize input) kind overlap t' db = Inr (r, db'))"
    using s unfolding startIngestRun_def kind_def [symmetric] Let_def
    by (simp only: bindR_Inr_iff) (auto split: option.splits simp: bindR_Inr_iff)
  then show ?thesis using inv by (auto dest: beginRun_tree)
qed

end
