(* ===== verification/LedgerRetain.thy ===== *)
theory LedgerRetain
  imports LedgerPreserves
begin

text \<open>What keeping a page changes: the pages and observations grow, the tree and the events stay.\<close>

definition pageFits :: "raw_page \<Rightarrow> ingest_run \<Rightarrow> ingest_segment \<Rightarrow> page_input \<Rightarrow> bool" where
  "pageFits p run segment page \<longleftrightarrow>
     pageProviderKey p = runProviderKey run \<and> pageWindow p = segmentWindow segment \<and>
     pageTotalSize p = inputTotalSize page \<and> pageHasMore p = inputHasMore page \<and> pageVerified p"

definition processedPage :: "ledger_db \<Rightarrow> string \<Rightarrow> bool" where
  "processedPage db pid \<longleftrightarrow>
     (\<exists>ob \<in> set (pageObservations db). observationPageId ob = pid \<and> observationDisposition ob = Processed)"

definition pagesKept :: "ledger_db \<Rightarrow> ledger_db \<Rightarrow> raw_page \<Rightarrow> bool" where
  "pagesKept db db' p \<longleftrightarrow>
     p \<in> set (rawPages db') \<and>
     (rawPages db' = rawPages db \<or> rawPageId p \<notin> rawPageId ` set (rawPages db) \<and> rawPages db' = rawPages db @ [p])"

lemma keepPage_cases:
  assumes "keepPage env run segment page prepared requestHash existing db = Inr (p, db')"
    and "existing = None \<or> (\<exists>x \<in> set (rawPages db). existing = Some x \<and> pageProviderKey x = runProviderKey run)"
    and "evidenceVerified (preparedEvidence prepared)"
  obtains (stored) "existing = Some p" "db' = db" "pageFits p run segment page" "p \<in> set (rawPages db)"
  | (inserted) "existing = None" "rawPageId p \<notin> rawPageId ` set (rawPages db)" "db' = db\<lparr>rawPages := rawPages db @ [p]\<rparr>"
      "pageFits p run segment page"
proof (cases existing)
  case (Some x)
  then show ?thesis using assms stored
    by (auto simp: keepPage_def result_simps pageMatchesStored_def pageFits_def)
next
  case None
  define pid where "pid = uuidFor env ForRawPage (length (rawPages db))"
  obtain db1 where db1: "insertRawPage (newRawPage pid run segment page prepared requestHash) db = Inr db1"
      "requireRawPage db1 pid = Inr p" "db' = db1"
    using assms(1) None by (auto simp: keepPage_def Let_def result_simps pid_def)
  have new: "rawPageId (newRawPage pid run segment page prepared requestHash) = pid"
    "pageFits (newRawPage pid run segment page prepared requestHash) run segment page"
    by (simp_all add: newRawPage_def pageFits_def)
  note i = insertRawPage_Inr [OF db1(1), unfolded new(1)]
  have p: "p \<in> set (rawPages db1)" "rawPageId p = pid" using requireRawPage_Inr [OF db1(2)] by blast+
  then have "p = newRawPage pid run segment page prepared requestHash" using i by (auto simp: image_iff)
  then show ?thesis using inserted None i new p(2) db1(3) by simp
qed

lemma hasProcessed_Inr: "hasProcessedPageObservation db pid = Inr b \<Longrightarrow> b = processedPage db pid"
  by (auto simp: hasProcessedPageObservation_def Let_def result_simps processedPage_def list_ex_iff)

lemma observe_effect:
  assumes "insertPageObservation rid sid pid kind prepared disposition db = Inr db'"
  shows "\<exists>ob. db' = db\<lparr>pageObservations := pageObservations db @ [ob]\<rparr> \<and> observationPageId ob = pid \<and>
    observationDisposition ob = disposition"
  using insertPageObservation_Inr [OF assms] by metis

text \<open>The page that a call retains, and what the caller may do with it.\<close>

definition retains :: "ledger_db \<Rightarrow> ledger_db \<Rightarrow> ingest_run \<Rightarrow> ingest_segment \<Rightarrow> page_input \<Rightarrow> observation_kind \<Rightarrow> retained_page \<Rightarrow> bool" where
  "retains db db' run segment page kind ret \<longleftrightarrow>
     sameTree db db' \<and> rawEvents db' = rawEvents db \<and> ingestedEntries db' = ingestedEntries db \<and>
     conflictsKept (ingestConflicts db) (ingestConflicts db') \<and>
     (\<exists>obs. pageObservations db' = pageObservations db @ obs) \<and>
     pagesKept db db' (retainedPage ret) \<and> pageFits (retainedPage ret) run segment page \<and>
     (retainedObservation ret \<noteq> PageVariant \<longrightarrow>
        processedPage db' (rawPageId (retainedPage ret)) \<and>
        (shouldNormalize ret \<longrightarrow>
           rawPageId (retainedPage ret) \<notin> rawPageId ` set (rawPages db) \<or>
           \<not> processedPage db (rawPageId (retainedPage ret)) \<and> rawEventCountForPage db (rawPageId (retainedPage ret)) = 0))"

lemma retain_effect:
  assumes r: "retainSegmentPage env run segment page prepared kind db = Inr (ret, db')"
    and v: "evidenceVerified (preparedEvidence prepared)"
  shows "retains db db' run segment page kind ret"
proof -
  define rq where "rq = requestFingerprint env (runProviderKey run) (segmentWindow segment) 1 (inputPageSize page)"
  obtain latest existing p db1 where l: "readLatestPageObservation db (runProviderKey run) rq = Inr latest"
    and e: "readRawPageByFingerprints db (runProviderKey run) rq (preparedHash prepared) = Inr existing"
    and k: "keepPage env run segment page prepared rq existing db = Inr (p, db1)"
    and rest: "(case latest of
           None \<Rightarrow>
             bindR (assertR (existing = None) (ledgerThrow ''stored provider page has no ordered observation evidence'')) (\<lambda>_.
             bindR (insertPageObservation (runId run) (segmentId segment) (rawPageId p) kind prepared Processed db1) (\<lambda>db.
             Inr (\<lparr>retainedObservation = PageInserted, retainedPage = p, shouldNormalize = (kind = AcceptedLeaf),
                   previousVariantPage = None\<rparr>, db)))
         | Some (latestObservation, previous) \<Rightarrow>
             if pageResponseHash previous \<noteq> preparedHash prepared
             then
               bindR (insertConflict env (variantConflict run segment rq latestObservation previous p prepared) db1) (\<lambda>(_, db).
               bindR (insertPageObservation (runId run) (segmentId segment) (rawPageId p) kind prepared RejectedVariant db) (\<lambda>db.
               Inr (\<lparr>retainedObservation = PageVariant, retainedPage = p, shouldNormalize = False,
                     previousVariantPage = Some (rawPageId previous)\<rparr>, db)))
             else
               bindR (assertR (existing \<noteq> None) (ledgerThrow ''ordered provider observation references missing exact evidence'')) (\<lambda>_.
               bindR (hasProcessedPageObservation db1 (rawPageId p)) (\<lambda>processed.
               let stored = rawEventCountForPage db1 (rawPageId p);
                   confirmed = (observationDisposition latestObservation = RejectedVariant)
               in bindR (assertR (\<not> (kind = OversizedProbe \<and> stored \<noteq> 0) \<and>
                     \<not> (kind = AcceptedLeaf \<and> (processed \<and> stored \<noteq> length (inputDetails page) \<or> \<not> processed \<and> stored \<noteq> 0)))
                     (ledgerThrow ''duplicate provider segment raw event count is inconsistent'')) (\<lambda>_.
                  bindR (insertPageObservation (runId run) (segmentId segment) (rawPageId p) kind prepared Processed db1) (\<lambda>db.
                  bindR (if confirmed then confirmPageVariantConflict env latestObservation previous p (preparedNow prepared) db
                         else Inr db) (\<lambda>db.
                  Inr (\<lparr>retainedObservation = (if confirmed then PageConfirmed else PageDuplicate), retainedPage = p,
                        shouldNormalize = (confirmed \<and> \<not> processed \<and> kind = AcceptedLeaf), previousVariantPage = None\<rparr>, db))))))) = Inr (ret, db')"
    using r unfolding retainSegmentPage_def Let_def rq_def [symmetric] by (simp only: bindR_Inr_iff split_conv) (elim exE conjE, rename_tac x y z, case_tac z, simp)
  have ex: "existing = None \<or> (\<exists>x \<in> set (rawPages db). existing = Some x \<and> pageProviderKey x = runProviderKey run)"
    using e readRawPageByFingerprints_Some by (cases existing) auto
  have base: "pageFits p run segment page" "pagesKept db db1 p" "sameTree db db1" "rawEvents db1 = rawEvents db"
      "ingestedEntries db1 = ingestedEntries db" "ingestConflicts db1 = ingestConflicts db" "pageObservations db1 = pageObservations db"
      "existing \<noteq> None \<Longrightarrow> db1 = db" "existing = None \<Longrightarrow> rawPageId p \<notin> rawPageId ` set (rawPages db)"
    using k ex v by (auto elim!: keepPage_cases simp: pagesKept_def)
  show ?thesis
  proof (cases latest)
    case None
    then obtain db2 where o2: "existing = None"
        "insertPageObservation (runId run) (segmentId segment) (rawPageId p) kind prepared Processed db1 = Inr db2"
        "ret = \<lparr>retainedObservation = PageInserted, retainedPage = p, shouldNormalize = (kind = AcceptedLeaf),
                   previousVariantPage = None\<rparr>" "db' = db2"
      using rest by (auto simp: result_simps)
    from observe_effect [OF o2(2)] obtain ob where ob: "db2 = db1\<lparr>pageObservations := pageObservations db1 @ [ob]\<rparr>"
        "observationPageId ob = rawPageId p" "observationDisposition ob = Processed" by blast
    have "sameTree db db2" using base(3) by (simp add: ob(1) sameTree_def)
    then show ?thesis
      using base ob o2 by (simp add: retains_def pagesKept_def processedPage_def)
  next
    case (Some lp)
    obtain lo previous where lp: "lp = (lo, previous)" by (cases lp)
    show ?thesis
    proof (cases "pageResponseHash previous \<noteq> preparedHash prepared")
      case True
      then obtain c db2 db3 where o2: "insertConflict env (variantConflict run segment rq lo previous p prepared) db1 = Inr (c, db2)"
          "insertPageObservation (runId run) (segmentId segment) (rawPageId p) kind prepared RejectedVariant db2 = Inr db3"
          "ret = \<lparr>retainedObservation = PageVariant, retainedPage = p, shouldNormalize = False,
                     previousVariantPage = Some (rawPageId previous)\<rparr>" "db' = db3"
        using rest Some lp by (auto simp: result_simps)
      have "conflictsOnly db1 db2" using insertConflict_only o2(1) by blast
      moreover from observe_effect [OF o2(2)] obtain ob where "db3 = db2\<lparr>pageObservations := pageObservations db2 @ [ob]\<rparr>" by blast
      ultimately show ?thesis
        using base o2(3,4) by (simp add: retains_def pagesKept_def conflictsOnly_def sameTree_def)
    next
      case False
      define stored where "stored = rawEventCountForPage db1 (rawPageId p)"
      define confirmed where "confirmed = (observationDisposition lo = RejectedVariant)"
      obtain processed db2 db3 where q: "existing \<noteq> None" "hasProcessedPageObservation db1 (rawPageId p) = Inr processed"
          "\<not> (kind = OversizedProbe \<and> stored \<noteq> 0) \<and>
             \<not> (kind = AcceptedLeaf \<and> (processed \<and> stored \<noteq> length (inputDetails page) \<or> \<not> processed \<and> stored \<noteq> 0))"
          "insertPageObservation (runId run) (segmentId segment) (rawPageId p) kind prepared Processed db1 = Inr db2"
          "(if confirmed then confirmPageVariantConflict env lo previous p (preparedNow prepared) db2 else Inr db2) = Inr db3"
          "\<lparr>retainedObservation = (if confirmed then PageConfirmed else PageDuplicate), retainedPage = p,
             shouldNormalize = (confirmed \<and> \<not> processed \<and> kind = AcceptedLeaf), previousVariantPage = None\<rparr> = ret" "db3 = db'"
        using rest False unfolding Some lp option.case prod.case Let_def stored_def [symmetric] confirmed_def [symmetric]
          bindR_Inr_iff assertR_Inr_iff if_False
        by (simp only: simp_thms if_False Inr_inject prod.inject bindR_Inr_iff assertR_Inr_iff) (elim exE conjE, blast)
      have same: "db1 = db" using base(8) q(1) .
      obtain ob where ob: "db2 = db1\<lparr>pageObservations := pageObservations db1 @ [ob]\<rparr>" "observationPageId ob = rawPageId p"
          "observationDisposition ob = Processed"
        using observe_effect [OF q(4)] by blast
      have "conflictsOnly db2 db3" using q(5) confirm_only by (cases confirmed) auto
      moreover have "retainedPage ret = p" "shouldNormalize ret \<Longrightarrow> \<not> processedPage db (rawPageId p) \<and> rawEventCountForPage db (rawPageId p) = 0"
        using q(3) hasProcessed_Inr [OF q(2)] by (auto simp: q(6) [symmetric] stored_def same)
      ultimately show ?thesis
        using base(1-6) ob q(7) unfolding same
        by (auto simp: retains_def pagesKept_def conflictsOnly_def sameTree_def processedPage_def)
    qed
  qed
qed

end
