(* ===== verification/Spec2Isabelle.thy ===== *)
theory Spec2Isabelle
  imports OrderReplay ReconLifecycle NotificationTheorems EpayTheorems ReconTheorems ReconForeign LedgerRetain
begin

text \<open>
  PerPay is a self-hosted payment gateway.  A customer pays a static Alipay collection code, so the
  only thing that ties a payment to an order is its amount and its time.  The program gives every
  open order an amount of its own, watches the account's ledger, matches its entries to orders, and
  notifies the merchant.  This development models the parts of \<^verbatim>\<open>src/src/\<close> that decide who is
  paid and who is told, as functions on the rows of the SQLite tables, and proves what they promise.

  \<^bold>\<open>How the model corresponds to the code.\<close>  A table is the list of its rows (a record per table, one
  field per column).  Each method of a store is the callback of one transaction: a function from the
  rows to \<open>store_error + result \<times> rows\<close>, \<open>Inl\<close> for a throw, with the guards, reads and writes in the
  order of the code; \<^theory_text>\<open>dbWrite\<close> turns it into a step that rolls back on a throw.  A constraint or
  trigger of \<^verbatim>\<open>src/src/database/migrations.ts\<close> that a write can meet is a predicate of the statement,
  and its violation is the throw \<open>SqlAbort\<close>.  Integers are \<open>int\<close> with JavaScript's safe-integer tests
  where the code has them, strings are lists of 16-bit code units.  What is not under \<^verbatim>\<open>src/\<close> is a
  parameter of the definitions that use it: SHA-256, HMAC, MD5, RSA, the URL parser, \<^verbatim>\<open>randomUUID\<close>
  and \<^verbatim>\<open>randomBytes\<close>, and the clocks, all fields of an environment record, one per transaction.

  \<^bold>\<open>Shared theories.\<close>  \<^theory_text>\<open>PerPay_Prelude\<close>: errors as values, transactions, safe integers, row lists, the
  locales of a store with an invariant.  \<^theory_text>\<open>JsText\<close>, \<^theory_text>\<open>JsonText\<close>, \<^theory_text>\<open>JsDecode\<close>, \<^theory_text>\<open>JsNumber\<close>: the text,
  JSON, decoding and number semantics of JavaScript the program uses.

  \<^bold>\<open>Orders\<close> (\<^verbatim>\<open>orders/model.ts\<close>, \<^verbatim>\<open>orders/return-url.ts\<close>, \<^verbatim>\<open>orders/checkout-token.ts\<close>,
  \<^verbatim>\<open>database/order-store.ts\<close>).  \<^theory_text>\<open>OrderModel\<close>, \<^theory_text>\<open>UrlTargets\<close>, \<^theory_text>\<open>CheckoutToken\<close> hold the pure
  parts; \<^theory_text>\<open>OrderRows\<close> the tables and their constraints; \<^theory_text>\<open>OrderSlots\<close>, \<^theory_text>\<open>OrderAggregates\<close>,
  \<^theory_text>\<open>OrderStore\<close>, \<^theory_text>\<open>OrderOperations\<close> the store.  \<^theory_text>\<open>OrderInvariant\<close>, \<^theory_text>\<open>OrderLifecycle\<close>,
  \<^theory_text>\<open>OrderCreation\<close> and \<^theory_text>\<open>OrderSafety\<close> prove the row invariant and that it holds over every sequence of
  operations: two orders of one account and amount are never open at the same time, an ended order
  never changes, the history of an order is complete.  \<^theory_text>\<open>OrderAllocation\<close> states the allocation of an
  amount abstractly, as the least free offset, and refines the code to it.  \<^theory_text>\<open>OrderOutcomes\<close>,
  \<^theory_text>\<open>OrderResults\<close> say what each result of a call means, \<^theory_text>\<open>OrderSamples\<close> and \<^theory_text>\<open>OrderTheorems\<close> hold
  instances and properties.  The retry loop of a creation has the code's own bound of attempts, so it
  needs no fuel.

  \<^bold>\<open>EasyPay\<close> (\<^verbatim>\<open>epay/protocol.ts\<close>, \<^verbatim>\<open>epay/model.ts\<close>): \<^theory_text>\<open>EpayProtocol\<close>, with \<^theory_text>\<open>EpayFacts\<close> and
  \<^theory_text>\<open>EpayTheorems\<close> on the amount texts, the signed text and the parameters.

  \<^bold>\<open>Notifications\<close> (\<^verbatim>\<open>notifications/model.ts\<close>, \<^verbatim>\<open>notifications/epay.ts\<close>,
  \<^verbatim>\<open>notifications/store.ts\<close>).  \<^theory_text>\<open>NotificationModel\<close>, \<^theory_text>\<open>NotificationRows\<close>, \<^theory_text>\<open>NotificationStore\<close> are the
  model.  \<^theory_text>\<open>NotificationMachine\<close> is the state machine of deliveries and attempts as an inductive step
  relation, \<^theory_text>\<open>NotificationSafety\<close> shows that every operation is a sequence of its moves;
  \<^theory_text>\<open>NotificationClaims\<close>, \<^theory_text>\<open>NotificationProgress\<close>, \<^theory_text>\<open>NotificationTotality\<close> and
  \<^theory_text>\<open>NotificationLiveness\<close> show what the operations do and that they are not stopped;
  \<^theory_text>\<open>NotificationSchedule\<close> bounds the binary64 retry delay; \<^theory_text>\<open>NotificationRequests\<close> is on signed text,
  replays and completeness; \<^theory_text>\<open>NotificationSamples\<close> and \<^theory_text>\<open>NotificationTheorems\<close> as above.

  \<^bold>\<open>Not modelled.\<close>  The HTTP routes and pages, timers, child processes, file locks, backups, the
  network clients, the migrations of older database files, and the cryptographic libraries: they are
  effects around the stores above, or not part of this repository.  \<^verbatim>\<open>adminOrderPage\<close> and the list
  reads of the notification store (pagination) are not modelled.
\<close>

end
